(* ===== verification/Prelude.thy ===== *)
theory Prelude
  imports Main "HOL-Library.Char_ord" "HOL-Library.List_Lexorder" "HOL-Library.AList"
    "HOL-Library.Sublist"
begin

text \<open>
  The vocabulary every component theory shares.

  A Python \<^verbatim>\<open>str\<close> is a sequence of code points: \<open>ustr\<close>, a list of natural numbers. Literals the
  program itself spells (dictionary keys, error codes, status names) are HOL strings, all of them
  ASCII; \<open>u ''abc''\<close> is such a literal as a Python string. A Python \<^verbatim>\<open>bytes\<close> is \<open>bytes\<close>, a
  list of natural numbers below 256. A Python \<^verbatim>\<open>dict\<close> is an association list in insertion order:
  \<open>map_of\<close> looks up, \<open>AList.update\<close> keeps the position of a key that is there and appends one
  that is not, \<open>AList.delete\<close> is \<^verbatim>\<open>pop\<close>. Integers are unbounded: \<open>int\<close>.

  After the string functions of the standard library come two loops that several components
  run: the greedy page (take items while the candidate fits) and the binary search for the
  longest prefix that fits; each has a locale that states what a caller may rely on.
\<close>

type_synonym ustr = "nat list"
type_synonym bytes = "nat list"

abbreviation u :: "string \<Rightarrow> ustr" where
  "u s \<equiv> map of_char s"

named_theorems dict_simps \<open>lookups in dictionaries after updates\<close>

lemma map_sum_id_Inr [simp]: "map_sum id f x = Inr y \<longleftrightarrow> (\<exists>z. x = Inr z \<and> y = f z)"
  by (cases x) auto

lemma map_sum_id_Inl [simp]: "map_sum id f x = Inl e \<longleftrightarrow> x = Inl e"
  by (cases x) auto

section \<open>Strings\<close>

text \<open>\<^verbatim>\<open>s.startswith(p)\<close> and \<^verbatim>\<open>s.endswith(p)\<close>.\<close>

definition startswith :: "'a list \<Rightarrow> 'a list \<Rightarrow> bool" where
  "startswith s p \<longleftrightarrow> take (length p) s = p"

definition endswith :: "'a list \<Rightarrow> 'a list \<Rightarrow> bool" where
  "endswith s p \<longleftrightarrow> startswith (rev s) (rev p)"

lemma startswith_append [simp]: "startswith (p @ s) p"
  by (simp add: startswith_def)

lemma startswith_iff: "startswith s p \<longleftrightarrow> (\<exists>r. s = p @ r)"
  by (metis append_eq_conv_conj append_take_drop_id startswith_def)

lemma endswith_append [simp]: "endswith (s @ p) p"
  by (simp add: endswith_def)

text \<open>\<^verbatim>\<open>sep.join(parts)\<close>.\<close>

fun join :: "'a list \<Rightarrow> 'a list list \<Rightarrow> 'a list" where
  "join sep [] = []"
| "join sep [x] = x"
| "join sep (x # xs) = x @ sep @ join sep xs"

lemma join_Cons: "xs \<noteq> [] \<Longrightarrow> join sep (x # xs) = x @ sep @ join sep xs"
  by (cases xs) simp_all

text \<open>The characters \<^verbatim>\<open>str.isspace\<close> accepts, which \<^verbatim>\<open>strip\<close> and \<^verbatim>\<open>split\<close> use.\<close>

definition is_space :: "nat \<Rightarrow> bool" where
  "is_space c \<longleftrightarrow> 9 \<le> c \<and> c \<le> 13 \<or> 28 \<le> c \<and> c \<le> 32 \<or> c = 0x85 \<or> c = 0xA0 \<or> c = 0x1680 \<or>
     0x2000 \<le> c \<and> c \<le> 0x200A \<or> c = 0x2028 \<or> c = 0x2029 \<or> c = 0x202F \<or> c = 0x205F \<or> c = 0x3000"

definition rstrip_by :: "('a \<Rightarrow> bool) \<Rightarrow> 'a list \<Rightarrow> 'a list" where
  "rstrip_by p s = rev (dropWhile p (rev s))"

definition strip :: "ustr \<Rightarrow> ustr" where
  "strip s = rstrip_by is_space (dropWhile is_space s)"

text \<open>\<^verbatim>\<open>s.split()\<close>: the maximal runs of characters that are not white space.\<close>

fun split_ws_from :: "ustr \<Rightarrow> ustr \<Rightarrow> ustr list" where
  "split_ws_from cur [] = (if cur = [] then [] else [rev cur])"
| "split_ws_from cur (c # cs) =
     (if is_space c then (if cur = [] then split_ws_from [] cs else rev cur # split_ws_from [] cs)
      else split_ws_from (c # cur) cs)"

definition split_ws :: "ustr \<Rightarrow> ustr list" where
  "split_ws s = split_ws_from [] s"

text \<open>Words: what \<^verbatim>\<open>split\<close> returns. Joined with blanks, words split into themselves.\<close>

definition word :: "ustr \<Rightarrow> bool" where
  "word w \<longleftrightarrow> w \<noteq> [] \<and> list_all (\<lambda>c. \<not> is_space c) w"

lemma split_ws_from_words:
  "list_all (\<lambda>c. \<not> is_space c) cur \<Longrightarrow> list_all word (split_ws_from cur s)"
proof (induction cur s rule: split_ws_from.induct)
  case (1 cur)
  then show ?case by (simp add: word_def)
next
  case (2 cur c cs)
  then show ?case by (cases "is_space c"; cases "cur = []") (simp_all add: word_def)
qed

lemma split_ws_words: "list_all word (split_ws s)"
  by (simp add: split_ws_def split_ws_from_words)

lemma split_ws_from_word:
  "list_all (\<lambda>c. \<not> is_space c) w \<Longrightarrow>
   split_ws_from cur (w @ t) = split_ws_from (rev w @ cur) t"
  by (induction w arbitrary: cur) auto

lemma split_ws_join: "list_all word ws \<Longrightarrow> split_ws (join [32] ws) = ws"
proof (induction "[32::nat]" ws rule: join.induct)
  case (2 x)
  then show ?case using split_ws_from_word [of x "[]" "[]"] by (simp add: split_ws_def word_def)
next
  case (3 x y ys)
  then have w: "list_all (\<lambda>c. \<not> is_space c) x" "x \<noteq> []" by (auto simp: word_def)
  have "is_space 32" by (simp add: is_space_def)
  then show ?case using 3 split_ws_from_word [OF w(1), of "[]"] w(2) by (simp add: split_ws_def)
qed (simp add: split_ws_def)

text \<open>
  \<^verbatim>\<open>s.splitlines()\<close>: a line ends at one of Python's line boundaries, CR LF counts as one, and a
  final boundary does not start another line.
\<close>

definition is_line_break :: "nat \<Rightarrow> bool" where
  "is_line_break c \<longleftrightarrow> 10 \<le> c \<and> c \<le> 13 \<or> 28 \<le> c \<and> c \<le> 30 \<or> c = 0x85 \<or> c = 0x2028 \<or> c = 0x2029"

fun splitlines_from :: "ustr \<Rightarrow> ustr \<Rightarrow> ustr list" where
  "splitlines_from cur [] = (if cur = [] then [] else [rev cur])"
| "splitlines_from cur [c] = (if is_line_break c then [rev cur] else [rev (c # cur)])"
| "splitlines_from cur (c # d # cs) =
     (if c = 13 \<and> d = 10 then rev cur # splitlines_from [] cs
      else if is_line_break c then rev cur # splitlines_from [] (d # cs)
      else splitlines_from (c # cur) (d # cs))"

definition splitlines :: "ustr \<Rightarrow> ustr list" where
  "splitlines s = splitlines_from [] s"

definition no_breaks :: "ustr \<Rightarrow> bool" where
  "no_breaks s \<longleftrightarrow> list_all (\<lambda>c. \<not> is_line_break c) s"

lemma is_line_break_nl [simp]: "is_line_break 10" "is_line_break 13"
  by (simp_all add: is_line_break_def)

lemma no_breaks_simps [simp]:
  "no_breaks []"
  "no_breaks (c # s) \<longleftrightarrow> \<not> is_line_break c \<and> no_breaks s"
  "no_breaks (s @ t) \<longleftrightarrow> no_breaks s \<and> no_breaks t"
  by (simp_all add: no_breaks_def)

lemma splitlines_from_end:
  "no_breaks s \<Longrightarrow> splitlines_from cur s = (if rev cur @ s = [] then [] else [rev cur @ s])"
proof (induction cur s rule: splitlines_from.induct)
  case (3 cur c d cs)
  then show ?case by (auto simp: is_line_break_def)
qed auto

lemma splitlines_from_line:
  "no_breaks s \<Longrightarrow> splitlines_from cur (s @ 10 # t) = (rev cur @ s) # splitlines_from [] t"
proof (induction s arbitrary: cur)
  case Nil
  then show ?case by (cases t) simp_all
next
  case (Cons c s)
  then have c: "\<not> is_line_break c" "c \<noteq> 13" and s: "no_breaks s" by auto
  obtain d ds where ds: "s @ 10 # t = d # ds" by (cases s) auto
  with c have "splitlines_from cur ((c # s) @ 10 # t) = splitlines_from (c # cur) (s @ 10 # t)"
    by simp
  with Cons.IH [OF s, of "c # cur"] show ?case by simp
qed

text \<open>Lines without boundaries, joined with a line feed, split into themselves.\<close>

lemma splitlines_from_join:
  "list_all no_breaks xs \<Longrightarrow> splitlines_from [] (join [10] xs @ [10]) = (if xs = [] then [[]] else xs)"
proof (induction "[10::nat]" xs rule: join.induct)
  case (2 x)
  then show ?case using splitlines_from_line [of x "[]" "[]"] by simp
next
  case (3 x y ys)
  then show ?case using splitlines_from_line [of x "[]" "join [10] (y # ys) @ [10]"] by simp
qed simp

lemma splitlines_join_nl:
  "list_all no_breaks xs \<Longrightarrow> xs \<noteq> [] \<Longrightarrow> splitlines (join [10] xs @ [10]) = xs"
  by (simp add: splitlines_def splitlines_from_join)

lemma splitlines_from_join_open:
  "list_all no_breaks xs \<Longrightarrow> xs \<noteq> [] \<Longrightarrow> last xs \<noteq> [] \<Longrightarrow> splitlines_from [] (join [10] xs) = xs"
proof (induction "[10::nat]" xs rule: join.induct)
  case (2 x)
  then show ?case using splitlines_from_end [of x "[]"] by simp
next
  case (3 x y ys)
  then show ?case using splitlines_from_line [of x "[]" "join [10] (y # ys)"] by simp
qed simp

lemma splitlines_join:
  "list_all no_breaks xs \<Longrightarrow> xs \<noteq> [] \<Longrightarrow> last xs \<noteq> [] \<Longrightarrow> splitlines (join [10] xs) = xs"
  by (simp add: splitlines_def splitlines_from_join_open)

lemma splitlines_from_no_breaks:
  "no_breaks (rev cur) \<Longrightarrow> list_all no_breaks (splitlines_from cur s)"
proof (induction cur s rule: splitlines_from.induct)
  case (3 cur c d cs)
  then show ?case by (auto simp: no_breaks_def)
qed (auto simp: no_breaks_def)

lemma splitlines_no_breaks: "list_all no_breaks (splitlines s)"
  by (simp add: splitlines_def splitlines_from_no_breaks)

text \<open>\<^verbatim>\<open>s.count(p)\<close> and \<^verbatim>\<open>s.replace(p, r, n)\<close>: the occurrences of a non-empty \<open>p\<close> from the left
  that do not overlap, and the first \<open>n\<close> of them replaced.\<close>

fun count_sub_fuel :: "nat \<Rightarrow> ustr \<Rightarrow> ustr \<Rightarrow> nat" where
  "count_sub_fuel 0 p s = 0"
| "count_sub_fuel (Suc n) p [] = 0"
| "count_sub_fuel (Suc n) p (c # cs) =
     (if startswith (c # cs) p then Suc (count_sub_fuel n p (drop (length p) (c # cs)))
      else count_sub_fuel n p cs)"

definition count_sub :: "ustr \<Rightarrow> ustr \<Rightarrow> nat" where
  "count_sub p s = count_sub_fuel (length s) p s"

fun replace_sub_fuel :: "nat \<Rightarrow> ustr \<Rightarrow> ustr \<Rightarrow> nat \<Rightarrow> ustr \<Rightarrow> ustr" where
  "replace_sub_fuel 0 p r n s = s"
| "replace_sub_fuel (Suc k) p r n [] = []"
| "replace_sub_fuel (Suc k) p r n (c # cs) =
     (if n = 0 then c # cs
      else if startswith (c # cs) p
      then r @ replace_sub_fuel k p r (n - 1) (drop (length p) (c # cs))
      else c # replace_sub_fuel k p r n cs)"

definition replace_sub :: "ustr \<Rightarrow> ustr \<Rightarrow> nat \<Rightarrow> ustr \<Rightarrow> ustr" where
  "replace_sub p r n s = replace_sub_fuel (length s) p r n s"

text \<open>The decimal digits \<^verbatim>\<open>str(n)\<close> prints.\<close>

fun nat_repr :: "nat \<Rightarrow> ustr" where
  "nat_repr n = (if n < 10 then [48 + n] else nat_repr (n div 10) @ [48 + n mod 10])"

declare nat_repr.simps [simp del]

definition int_repr :: "int \<Rightarrow> ustr" where
  "int_repr i = (if i < 0 then 45 # nat_repr (nat (- i)) else nat_repr (nat i))"

text \<open>\<^verbatim>\<open>len(s.encode("utf-8"))\<close>.\<close>

definition utf8_width :: "nat \<Rightarrow> nat" where
  "utf8_width c = (if c < 0x80 then 1 else if c < 0x800 then 2 else if c < 0x10000 then 3 else 4)"

definition utf8_len :: "ustr \<Rightarrow> nat" where
  "utf8_len s = sum_list (map utf8_width s)"

lemma utf8_len_simps [simp]:
  "utf8_len [] = 0"
  "utf8_len (c # s) = utf8_width c + utf8_len s"
  "utf8_len (s @ t) = utf8_len s + utf8_len t"
  by (simp_all add: utf8_len_def)

text \<open>The components of a path as \<^verbatim>\<open>pathlib\<close> keeps them: without empty and dot components.\<close>

fun path_parts_from :: "ustr \<Rightarrow> ustr \<Rightarrow> ustr list" where
  "path_parts_from cur [] = [rev cur]"
| "path_parts_from cur (c # cs) = (if c = 47 then rev cur # path_parts_from [] cs else path_parts_from (c # cur) cs)"

definition path_parts :: "ustr \<Rightarrow> ustr list" where
  "path_parts s = filter (\<lambda>p. p \<noteq> [] \<and> p \<noteq> [46]) (path_parts_from [] s)"

text \<open>\<^verbatim>\<open>s.split(sep)\<close> with a separator of one character.\<close>

fun split_char :: "nat \<Rightarrow> ustr \<Rightarrow> ustr \<Rightarrow> ustr list" where
  "split_char sep cur [] = [rev cur]"
| "split_char sep cur (c # cs) =
     (if c = sep then rev cur # split_char sep [] cs else split_char sep (c # cur) cs)"

text \<open>Reading in text mode: carriage returns become line feeds.\<close>

fun universal_newlines :: "ustr \<Rightarrow> ustr" where
  "universal_newlines [] = []"
| "universal_newlines [c] = [if c = 13 then 10 else c]"
| "universal_newlines (c # d # cs) =
     (if c = 13 then (if d = 10 then 10 # universal_newlines cs else 10 # universal_newlines (d # cs))
      else c # universal_newlines (d # cs))"

section \<open>Dictionaries\<close>

lemma map_of_update [dict_simps]: "map_of (AList.update k v al) = (map_of al)(k \<mapsto> v)"
  by (rule ext) (simp add: update_conv)

lemma map_of_delete [dict_simps]: "map_of (AList.delete k al) = (map_of al)(k := None)"
  by (rule ext) (simp add: delete_conv)

lemma map_of_filter_key [dict_simps]:
  "map_of (filter (\<lambda>(k, v). P k) al) k = (if P k then map_of al k else None)"
  by (induction al) auto

lemma map_of_filter_Some:
  "distinct (map fst al) \<Longrightarrow>
   map_of (filter (\<lambda>(k, v). P k v) al) k =
     (case map_of al k of None \<Rightarrow> None | Some v \<Rightarrow> if P k v then Some v else None)"
proof (induction al)
  case (Cons a al)
  obtain k' v' where a: "a = (k', v')" by (cases a)
  show ?case
  proof (cases "k = k'")
    case True
    with Cons.prems a have "map_of al k = None" by (simp add: map_of_eq_None_iff)
    moreover have "map_of (filter (\<lambda>(k, v). P k v) al) k = None"
      using Cons.prems a True by (auto simp: map_of_eq_None_iff)
    ultimately show ?thesis using a True by simp
  next
    case False
    with Cons a show ?thesis by simp
  qed
qed simp

lemma has_key: "k \<in> set (map fst al) \<Longrightarrow> \<exists>v. map_of al k = Some v"
  by (induction al) auto

lemma no_key: "k \<notin> set (map fst al) \<Longrightarrow> map_of al k = None"
  by (simp add: map_of_eq_None_iff)

lemma deleted_keys: "map_of (fold AList.delete ks env) k = (if k \<in> set ks then None else map_of env k)"
  by (induction ks arbitrary: env) (auto simp: delete_conv)

lemma length_update_le: "length (AList.update k v al) \<le> Suc (length al)"
  by (induction al) auto

lemma length_delete_le: "length (AList.delete k al) \<le> length al"
  by (simp add: AList.delete_eq)

section \<open>The greedy page\<close>

text \<open>
  The paging loops append items one by one and stop at the first that does not fit:
  \<open>greedy fits done items\<close> are the items returned when \<open>done\<close> are already in the page.
\<close>

fun greedy :: "('a list \<Rightarrow> bool) \<Rightarrow> 'a list \<Rightarrow> 'a list \<Rightarrow> 'a list" where
  "greedy fits acc [] = acc"
| "greedy fits acc (x # xs) = (if fits (acc @ [x]) then greedy fits (acc @ [x]) xs else acc)"


lemma greedy_split: "\<exists>ys zs. xs = ys @ zs \<and> greedy fits acc xs = acc @ ys"
proof (induction xs arbitrary: acc)
  case (Cons x xs)
  show ?case
  proof (cases "fits (acc @ [x])")
    case True
    obtain ys zs where "xs = ys @ zs" "greedy fits (acc @ [x]) xs = (acc @ [x]) @ ys"
      using Cons.IH [of "acc @ [x]"] by blast
    then have "x # xs = (x # ys) @ zs" "greedy fits acc (x # xs) = acc @ x # ys"
      using True by simp_all
    then show ?thesis by blast
  next
    case False
    then have "x # xs = [] @ x # xs" "greedy fits acc (x # xs) = acc @ []" by simp_all
    then show ?thesis by blast
  qed
qed simp

lemma greedy_prefix: "greedy fits [] xs = take (length (greedy fits [] xs)) xs"
proof -
  obtain ys zs where "xs = ys @ zs" "greedy fits [] xs = [] @ ys"
    using greedy_split [of xs fits "[]"] by blast
  then show ?thesis by simp
qed

lemma greedy_all_fit:
  "greedy fits acc xs = acc @ ys \<Longrightarrow> 0 < n \<Longrightarrow> n \<le> length ys \<Longrightarrow> fits (acc @ take n ys)"
proof (induction xs arbitrary: acc ys n)
  case (Cons x xs)
  then have fx: "fits (acc @ [x])" by (auto split: if_splits)
  with Cons.prems have g: "greedy fits (acc @ [x]) xs = acc @ ys" by simp
  obtain vs where ys: "ys = x # vs"
    using greedy_split [of xs fits "acc @ [x]"] g by auto
  with g have g': "greedy fits (acc @ [x]) xs = (acc @ [x]) @ vs" by simp
  show ?case
  proof (cases "n = 1")
    case True
    with fx ys show ?thesis by simp
  next
    case False
    with Cons.prems(2) obtain m where n: "n = Suc m" "0 < m" by (cases n) auto
    with Cons.prems(3) ys have "fits ((acc @ [x]) @ take m vs)"
      by (intro Cons.IH [OF g']) auto
    with n ys show ?thesis by simp
  qed
qed simp

lemma greedy_fits:
  "0 < n \<Longrightarrow> n \<le> length (greedy fits [] xs) \<Longrightarrow> fits (take n xs)"
  using greedy_all_fit [of fits "[]" xs "greedy fits [] xs" n] greedy_prefix [of fits xs]
  by (metis append_Nil min.absorb1 take_take)

lemma greedy_maximal_from:
  "greedy fits acc xs = acc @ ys \<Longrightarrow> length ys < length xs \<Longrightarrow> \<not> fits (acc @ take (Suc (length ys)) xs)"
proof (induction xs arbitrary: acc ys)
  case (Cons x xs)
  show ?case
  proof (cases "fits (acc @ [x])")
    case True
    with Cons.prems have g: "greedy fits (acc @ [x]) xs = acc @ ys" by simp
    obtain vs where ys: "ys = x # vs"
      using greedy_split [of xs fits "acc @ [x]"] g by auto
    with g have g': "greedy fits (acc @ [x]) xs = (acc @ [x]) @ vs" by simp
    have "\<not> fits ((acc @ [x]) @ take (Suc (length vs)) xs)"
      using Cons.IH [OF g'] Cons.prems(2) ys by simp
    with ys show ?thesis by simp
  next
    case False
    with Cons.prems have "ys = []" by simp
    with False show ?thesis by simp
  qed
qed simp

lemma greedy_maximal:
  "length (greedy fits [] xs) < length xs \<Longrightarrow> \<not> fits (take (Suc (length (greedy fits [] xs))) xs)"
  using greedy_maximal_from [of fits "[]" xs "greedy fits [] xs"] by simp

text \<open>
  What a paging tool promises about the items it returns, whatever loop it runs: they are a
  prefix, every non-empty prefix of the page fits, and the page stops early only before an item
  that does not fit.
\<close>

locale pager =
  fixes fits :: "'a list \<Rightarrow> bool" and page :: "'a list \<Rightarrow> 'a list"
  assumes page_prefix: "page xs = take (length (page xs)) xs"
    and page_fits: "0 < n \<Longrightarrow> n \<le> length (page xs) \<Longrightarrow> fits (take n xs)"
    and page_maximal: "length (page xs) < length xs \<Longrightarrow> \<not> fits (take (Suc (length (page xs))) xs)"
begin

lemma page_length: "length (page xs) \<le> length xs"
  by (metis page_prefix length_take min.cobounded1)

lemma page_empty_or_fits: "page xs = [] \<or> fits (page xs)"
  using page_fits [of "length (page xs)" xs] page_prefix [of xs] by (cases "page xs") auto

lemma page_everything:
  assumes "\<And>n. 0 < n \<Longrightarrow> n \<le> length xs \<Longrightarrow> fits (take n xs)"
  shows "page xs = xs"
proof -
  have "\<not> length (page xs) < length xs"
    using page_maximal [of xs] assms [of "Suc (length (page xs))"] by auto
  then show ?thesis using page_prefix [of xs] by simp
qed

lemma page_progress: "xs \<noteq> [] \<Longrightarrow> fits [hd xs] \<Longrightarrow> page xs \<noteq> []"
  using page_maximal [of xs] by (cases xs) auto

lemma page_continue: "page xs @ drop (length (page xs)) xs = xs"
  by (metis append_take_drop_id page_prefix)

end

interpretation greedy_pager: pager fits "greedy fits []" for fits :: "'a list \<Rightarrow> bool"
  by unfold_locales (auto intro: greedy_prefix greedy_fits dest: greedy_maximal)

section \<open>The binary search for the longest prefix that fits\<close>

text \<open>\<^verbatim>\<open>while low < high: midpoint = (low + high + 1) // 2; ...\<close>\<close>

function bisect_up :: "(nat \<Rightarrow> bool) \<Rightarrow> nat \<Rightarrow> nat \<Rightarrow> nat" where
  "bisect_up fits low high =
     (if low < high then
        (if fits ((low + high + 1) div 2) then bisect_up fits ((low + high + 1) div 2) high
         else bisect_up fits low ((low + high + 1) div 2 - 1))
      else low)"
  by pat_completeness auto
termination
  by (relation "measure (\<lambda>(fits, low, high). high - low)") auto

declare bisect_up.simps [simp del]

lemma bisect_stop: "\<not> low < high \<Longrightarrow> bisect_up fits low high = low"
  by (simp add: bisect_up.simps [of fits low high])

text \<open>One step, with the midpoint named.\<close>

lemma bisect_step:
  assumes "low < high"
  obtains mid where "low < mid" "mid \<le> high"
    "bisect_up fits low high = (if fits mid then bisect_up fits mid high else bisect_up fits low (mid - 1))"
proof
  show "low < (low + high + 1) div 2" "(low + high + 1) div 2 \<le> high" using assms by auto
  show "bisect_up fits low high =
    (if fits ((low + high + 1) div 2) then bisect_up fits ((low + high + 1) div 2) high
     else bisect_up fits low ((low + high + 1) div 2 - 1))"
    using assms by (subst bisect_up.simps) simp
qed

lemma bisect_range: "low \<le> high \<Longrightarrow> low \<le> bisect_up fits low high \<and> bisect_up fits low high \<le> high"
proof (induction "high - low" arbitrary: low high rule: less_induct)
  case less
  show ?case
  proof (cases "low < high")
    case True
    then obtain mid where m: "low < mid" "mid \<le> high" and eq: "bisect_up fits low high =
        (if fits mid then bisect_up fits mid high else bisect_up fits low (mid - 1))"
      by (rule bisect_step)
    have "low \<le> bisect_up fits low (mid - 1) \<and> bisect_up fits low (mid - 1) \<le> mid - 1"
      using less.hyps [of "mid - 1" low] m by auto
    moreover have "mid \<le> bisect_up fits mid high \<and> bisect_up fits mid high \<le> high"
      using less.hyps [of high mid] m by auto
    ultimately show ?thesis using m unfolding eq by auto
  qed (use less.prems in \<open>simp add: bisect_stop\<close>)
qed

lemma bisect_fits: "bisect_up fits low high = low \<or> fits (bisect_up fits low high)"
proof (induction "high - low" arbitrary: low high rule: less_induct)
  case less
  show ?case
  proof (cases "low < high")
    case True
    then obtain mid where m: "low < mid" "mid \<le> high" and eq: "bisect_up fits low high =
        (if fits mid then bisect_up fits mid high else bisect_up fits low (mid - 1))"
      by (rule bisect_step)
    have "bisect_up fits low (mid - 1) = low \<or> fits (bisect_up fits low (mid - 1))"
      using less.hyps [of "mid - 1" low] m by auto
    moreover have "bisect_up fits mid high = mid \<or> fits (bisect_up fits mid high)"
      using less.hyps [of high mid] m by auto
    ultimately show ?thesis unfolding eq by auto
  qed (simp add: bisect_stop)
qed

lemma bisect_greatest:
  assumes anti: "\<And>i j. i \<le> j \<Longrightarrow> fits j \<Longrightarrow> fits i"
  shows "low \<le> n \<Longrightarrow> n \<le> high \<Longrightarrow> fits n \<Longrightarrow> n \<le> bisect_up fits low high"
proof (induction "high - low" arbitrary: low high rule: less_induct)
  case less
  show ?case
  proof (cases "low < high")
    case True
    then obtain mid where m: "low < mid" "mid \<le> high" and eq: "bisect_up fits low high =
        (if fits mid then bisect_up fits mid high else bisect_up fits low (mid - 1))"
      by (rule bisect_step)
    show ?thesis
    proof (cases "fits mid")
      case ft: True
      have "n \<le> bisect_up fits mid high"
        using less.hyps [of high mid] less.prems m bisect_range [of mid high fits]
        by (cases "mid \<le> n") auto
      with ft show ?thesis by (simp add: eq)
    next
      case ff: False
      with less.prems anti [of mid n] have "n \<le> mid - 1" by (cases "mid \<le> n") auto
      with less.hyps [of "mid - 1" low] less.prems m have "n \<le> bisect_up fits low (mid - 1)" by auto
      with ff show ?thesis by (simp add: eq)
    qed
  qed (use less.prems in \<open>simp add: bisect_stop\<close>)
qed

text \<open>
  What the code relies on when it searches for the longest prefix of at most \<open>n\<close> units: the
  answer is in range and fits unless it is 0, and it is the greatest that fits when shorter
  prefixes of a prefix that fits do.
\<close>

locale prefix_search =
  fixes search :: "(nat \<Rightarrow> bool) \<Rightarrow> nat \<Rightarrow> nat"
  assumes search_le: "search fits n \<le> n"
    and search_fits: "search fits n = 0 \<or> fits (search fits n)"
    and search_greatest:
      "(\<And>i j. i \<le> j \<Longrightarrow> fits j \<Longrightarrow> fits i) \<Longrightarrow> k \<le> n \<Longrightarrow> fits k \<Longrightarrow> k \<le> search fits n"
begin

lemma search_nothing: "(\<And>k. 0 < k \<Longrightarrow> \<not> fits k) \<Longrightarrow> search fits n = 0"
  using search_fits by (metis neq0_conv)

lemma search_everything:
  assumes anti: "\<And>i j. i \<le> j \<Longrightarrow> fits j \<Longrightarrow> fits i" and "fits n"
  shows "search fits n = n"
proof -
  have "n \<le> search fits n" by (rule search_greatest) (auto intro: assms)
  then show ?thesis using search_le [of fits n] by simp
qed

end

interpretation bisection: prefix_search "\<lambda>fits. bisect_up fits 0"
proof unfold_locales
  fix fits :: "nat \<Rightarrow> bool" and n
  show "bisect_up fits 0 n \<le> n" using bisect_range [of 0 n fits] by simp
  show "bisect_up fits 0 n = 0 \<or> fits (bisect_up fits 0 n)" by (rule bisect_fits)
next
  fix fits :: "nat \<Rightarrow> bool" and k n
  assume "\<And>i j. i \<le> j \<Longrightarrow> fits j \<Longrightarrow> fits i" "k \<le> n" "fits k"
  then show "k \<le> bisect_up fits 0 n" using bisect_greatest [of fits 0 k n] by blast
qed

section \<open>Invariants of machines\<close>

text \<open>
  What one step keeps, every run keeps: the contract between a component's operations and the
  theorems about sequences of calls.
\<close>

locale invariant_machine =
  fixes step :: "'s \<Rightarrow> 'e \<Rightarrow> 's" and inv :: "'s \<Rightarrow> bool"
  assumes step_keeps: "inv s \<Longrightarrow> inv (step s e)"
begin

lemma run_keeps: "inv s \<Longrightarrow> inv (foldl step s es)"
  by (induction es arbitrary: s) (auto intro: step_keeps)

lemma run_prefix_keeps: "inv s \<Longrightarrow> inv (foldl step s (take n es))"
  by (rule run_keeps)

end

end
