(* ===== verification/Json.thy ===== *)
theory Json
  imports Prelude
begin

text \<open>
  The JSON values the tools return and the text \<^verbatim>\<open>json.dumps\<close> renders for them with the options
  the budget uses: \<^verbatim>\<open>ensure_ascii=False, separators=(",", ":"), sort_keys=True\<close>. A float is kept
  as the text \<^verbatim>\<open>repr\<close> prints for it, which no code of the model computes with. Dictionary keys
  are HOL strings: every key the tools write is an ASCII literal of the program.
\<close>

datatype json =
    JNull
  | JBool bool
  | JInt int
  | JFloat ustr
  | JStr ustr
  | JList "json list"
  | JObj "(string \<times> json) list"

type_synonym dict = "(string \<times> json) list"

abbreviation jlit :: "string \<Rightarrow> json" where
  "jlit s \<equiv> JStr (u s)"

definition jopt :: "('a \<Rightarrow> json) \<Rightarrow> 'a option \<Rightarrow> json" where
  "jopt f x = (case x of None \<Rightarrow> JNull | Some y \<Rightarrow> f y)"

lemma jopt_simps [simp]: "jopt f None = JNull" "jopt f (Some y) = f y"
  by (simp_all add: jopt_def)

abbreviation jnat :: "nat \<Rightarrow> json" where
  "jnat n \<equiv> JInt (int n)"

text \<open>\<^verbatim>\<open>d.get(k)\<close>.\<close>

definition get_or_null :: "dict \<Rightarrow> string \<Rightarrow> json" where
  "get_or_null d k = (case map_of d k of None \<Rightarrow> JNull | Some v \<Rightarrow> v)"

text \<open>A list whose items are all texts.\<close>

fun json_texts :: "json list \<Rightarrow> ustr list option" where
  "json_texts [] = Some []"
| "json_texts (JStr t # js) = map_option (Cons t) (json_texts js)"
| "json_texts (_ # js) = None"

section \<open>json.dumps\<close>

definition hex_digit :: "nat \<Rightarrow> nat" where
  "hex_digit n = (if n < 10 then 48 + n else 87 + n)"

definition json_escape :: "nat \<Rightarrow> ustr" where
  "json_escape c =
     (if c = 34 then [92, 34]
      else if c = 92 then [92, 92]
      else if c = 10 then [92, 110]
      else if c = 13 then [92, 114]
      else if c = 9 then [92, 116]
      else if c = 8 then [92, 98]
      else if c = 12 then [92, 102]
      else if c < 32 then [92, 117, 48, 48] @ [hex_digit (c div 16), hex_digit (c mod 16)]
      else [c])"

definition json_string :: "ustr \<Rightarrow> ustr" where
  "json_string s = [34] @ concat (map json_escape s) @ [34]"

fun json_render :: "json \<Rightarrow> ustr" where
  "json_render JNull = u ''null''"
| "json_render (JBool b) = (if b then u ''true'' else u ''false'')"
| "json_render (JInt i) = int_repr i"
| "json_render (JFloat r) = r"
| "json_render (JStr s) = json_string s"
| "json_render (JList xs) = u ''['' @ join (u '','') (map json_render xs) @ u '']''"
| "json_render (JObj kvs) =
     u ''{'' @
     join (u '','') (map (\<lambda>(k, v). json_string (u k) @ u '':'' @ v)
       (sort_key fst (map (\<lambda>(k, v). (k, json_render v)) kvs)))
     @ u ''}''"

text \<open>\<^verbatim>\<open>bool(value)\<close>, negated.\<close>

definition json_falsy :: "json \<Rightarrow> bool" where
  "json_falsy j =
     (case j of JNull \<Rightarrow> True | JBool b \<Rightarrow> \<not> b | JInt i \<Rightarrow> i = 0
      | JFloat r \<Rightarrow> r = u ''0.0'' \<or> r = u ''-0.0'' | JStr s \<Rightarrow> s = [] | JList xs \<Rightarrow> xs = []
      | JObj kvs \<Rightarrow> kvs = [])"

section \<open>Error payloads\<close>

text \<open>
  Every module has the same helper: \<^verbatim>\<open>{"success": False, "error": {"code": ..., "message": ...}}\<close>
  and then the extra fields, which \<^verbatim>\<open>payload.update(extra)\<close> writes over the two.
\<close>

definition dict_update :: "dict \<Rightarrow> dict \<Rightarrow> dict" where
  "dict_update d kvs = fold (\<lambda>(k, v). AList.update k v) kvs d"

definition tool_error :: "string \<Rightarrow> ustr \<Rightarrow> dict \<Rightarrow> dict" where
  "tool_error code message extra =
     dict_update
       [(''success'', JBool False),
        (''error'', JObj [(''code'', jlit code), (''message'', JStr message)])]
       extra"

lemma dict_update_simps [simp]:
  "dict_update d [] = d"
  "dict_update d ((k, v) # kvs) = dict_update (AList.update k v d) kvs"
  by (simp_all add: dict_update_def)

lemma map_of_dict_update:
  "map_of (dict_update d kvs) k = (case map_of (rev kvs) k of Some v \<Rightarrow> Some v | None \<Rightarrow> map_of d k)"
proof (induction kvs arbitrary: d)
  case (Cons a kvs)
  then show ?case
    by (cases a) (auto simp: dict_simps map_add_def split: option.splits)
qed simp

lemma distinct_dict_update:
  "distinct (map fst d) \<Longrightarrow> distinct (map fst (dict_update d kvs))"
proof (induction kvs arbitrary: d)
  case (Cons a kvs)
  then show ?case by (cases a) (simp add: distinct_update)
qed simp

lemma tool_error_success:
  "''success'' \<notin> fst ` set extra \<Longrightarrow> map_of (tool_error c m extra) ''success'' = Some (JBool False)"
proof -
  assume "''success'' \<notin> fst ` set extra"
  then have "map_of (rev extra) ''success'' = None" by (simp add: map_of_eq_None_iff)
  then show ?thesis by (simp add: tool_error_def map_of_dict_update)
qed

end
