(* ===== verification/Utf8.thy ===== *)
theory Utf8
  imports Prelude
begin

text \<open>
  UTF-8 as \<^verbatim>\<open>str.encode\<close> and \<^verbatim>\<open>bytes.decode\<close> define it, and the two byte-to-text codecs the
  OAuth code applies to digests: hexadecimal and URL-safe base64.
\<close>

section \<open>Encoding one code point\<close>

text \<open>A scalar value: a code point that is not a surrogate. \<^verbatim>\<open>encode\<close> raises on any other.\<close>

definition scalar_value :: "nat \<Rightarrow> bool" where
  "scalar_value c \<longleftrightarrow> c < 0xD800 \<or> 0xE000 \<le> c \<and> c < 0x110000"

definition utf8_char :: "nat \<Rightarrow> bytes" where
  "utf8_char c =
     (if c < 0x80 then [c]
      else if c < 0x800 then [0xC0 + c div 64, 0x80 + c mod 64]
      else if c < 0x10000 then [0xE0 + c div 4096, 0x80 + c div 64 mod 64, 0x80 + c mod 64]
      else [0xF0 + c div 262144, 0x80 + c div 4096 mod 64, 0x80 + c div 64 mod 64, 0x80 + c mod 64])"

definition utf8_encode :: "ustr \<Rightarrow> bytes" where
  "utf8_encode s = concat (map utf8_char s)"

lemma length_utf8_char: "length (utf8_char c) = utf8_width c"
  by (simp add: utf8_char_def utf8_width_def)

lemma length_utf8_encode: "length (utf8_encode s) = utf8_len s"
  by (induction s) (simp_all add: utf8_encode_def length_utf8_char)

lemma utf8_encode_simps [simp]:
  "utf8_encode [] = []"
  "utf8_encode (c # s) = utf8_char c @ utf8_encode s"
  "utf8_encode (s @ t) = utf8_encode s @ utf8_encode t"
  by (simp_all add: utf8_encode_def)

lemma utf8_char_bytes: "scalar_value c \<Longrightarrow> list_all (\<lambda>b. b < 256) (utf8_char c)"
  by (auto simp: utf8_char_def scalar_value_def)

lemma utf8_char_nonempty [simp]: "utf8_char c \<noteq> []"
  by (simp add: utf8_char_def)

section \<open>Decoding one well-formed unit\<close>

text \<open>The code point of the bytes of one complete, well-formed unit.\<close>

fun utf8_unit_value :: "bytes \<Rightarrow> nat" where
  "utf8_unit_value [b] = b"
| "utf8_unit_value [b0, b1] = (b0 - 0xC0) * 64 + (b1 - 0x80)"
| "utf8_unit_value [b0, b1, b2] = (b0 - 0xE0) * 4096 + (b1 - 0x80) * 64 + (b2 - 0x80)"
| "utf8_unit_value [b0, b1, b2, b3] =
     (b0 - 0xF0) * 262144 + (b1 - 0x80) * 4096 + (b2 - 0x80) * 64 + (b3 - 0x80)"
| "utf8_unit_value _ = 0"

lemma base64_digits3: "(c::nat) div 4096 * 4096 + c div 64 mod 64 * 64 + c mod 64 = c"
proof -
  have "c div 64 div 64 = c div 4096" by (simp flip: div_mult2_eq)
  then show ?thesis using div_mult_mod_eq [of c 64] div_mult_mod_eq [of "c div 64" 64] by linarith
qed

lemma base64_digits4:
  "(c::nat) div 262144 * 262144 + c div 4096 mod 64 * 4096 + c div 64 mod 64 * 64 + c mod 64 = c"
proof -
  have "c div 4096 div 64 = c div 262144" by (simp flip: div_mult2_eq)
  then show ?thesis using base64_digits3 [of c] div_mult_mod_eq [of "c div 4096" 64] by linarith
qed

lemma utf8_unit_value_char [simp]: "utf8_unit_value (utf8_char c) = c"
  using base64_digits3 [of c] base64_digits4 [of c] div_mult_mod_eq [of c 64]
  by (simp add: utf8_char_def)

section \<open>Decoding\<close>

text \<open>
  \<^verbatim>\<open>bytes.decode("utf-8", ...)\<close> cuts its input into units: a well-formed sequence of one character,
  or the longest start of one, or one byte that starts none. \<open>utf8_take\<close> cuts the first unit and says
  whether it is a character.
\<close>

definition is_cont :: "nat \<Rightarrow> bool" where
  "is_cont b \<longleftrightarrow> 0x80 \<le> b \<and> b < 0xC0"

definition second_ok :: "nat \<Rightarrow> nat \<Rightarrow> bool" where
  "second_ok b0 b1 \<longleftrightarrow>
     (if b0 = 0xE0 then 0xA0 \<le> b1 \<and> b1 < 0xC0
      else if b0 = 0xED then 0x80 \<le> b1 \<and> b1 < 0xA0
      else if b0 = 0xF0 then 0x90 \<le> b1 \<and> b1 < 0xC0
      else if b0 = 0xF4 then 0x80 \<le> b1 \<and> b1 < 0x90
      else is_cont b1)"

definition lead_width :: "nat \<Rightarrow> nat" where
  "lead_width b =
     (if b < 0x80 then 1 else if b < 0xC2 then 0 else if b < 0xE0 then 2
      else if b < 0xF0 then 3 else if b < 0xF5 then 4 else 0)"

fun utf8_take :: "bytes \<Rightarrow> bytes \<times> bool" where
  "utf8_take [] = ([], False)"
| "utf8_take (a # r) =
     (if lead_width a \<le> 1 then ([a], lead_width a = 1)
      else case r of
          [] \<Rightarrow> ([a], False)
        | b # r2 \<Rightarrow>
            if \<not> second_ok a b then ([a], False)
            else if lead_width a = 2 then ([a, b], True)
            else case r2 of
                [] \<Rightarrow> ([a, b], False)
              | c # r3 \<Rightarrow>
                  if \<not> is_cont c then ([a, b], False)
                  else if lead_width a = 3 then ([a, b, c], True)
                  else case r3 of
                      [] \<Rightarrow> ([a, b, c], False)
                    | d # r4 \<Rightarrow> if is_cont d then ([a, b, c, d], True) else ([a, b, c], False))"

lemma utf8_take_prefix: "\<exists>r. bs = fst (utf8_take bs) @ r"
  by (cases bs rule: utf8_take.cases) (auto split: list.splits)

lemma utf8_take_nonempty: "bs \<noteq> [] \<Longrightarrow> fst (utf8_take bs) \<noteq> []"
  by (cases bs rule: utf8_take.cases) (auto split: list.splits)

function utf8_units :: "bytes \<Rightarrow> (bytes \<times> bool) list" where
  "utf8_units bs =
     (if bs = [] then []
      else utf8_take bs # utf8_units (drop (length (fst (utf8_take bs))) bs))"
  by auto

termination
proof (relation "measure length", simp)
  fix bs :: bytes assume "bs \<noteq> []"
  then show "(drop (length (fst (utf8_take bs))) bs, bs) \<in> measure length"
    using utf8_take_nonempty [of bs] by (cases bs) (simp_all del: utf8_take.simps)
qed

declare utf8_units.simps [simp del]

text \<open>Cutting loses nothing.\<close>

lemma utf8_units_concat: "concat (map fst (utf8_units bs)) = bs"
proof (induction bs rule: utf8_units.induct)
  case (1 bs)
  obtain r where "bs = fst (utf8_take bs) @ r" using utf8_take_prefix by blast
  with 1 show ?case
    by (subst utf8_units.simps) (cases "bs = []"; simp; metis append_eq_conv_conj append_take_drop_id)
qed

text \<open>\<^verbatim>\<open>decode("utf-8", errors="replace")\<close> and \<^verbatim>\<open>decode("utf-8")\<close>, \<open>None\<close> for \<^verbatim>\<open>UnicodeDecodeError\<close>.\<close>

definition utf8_decode_replace :: "bytes \<Rightarrow> ustr" where
  "utf8_decode_replace bs = map (\<lambda>(w, ok). if ok then utf8_unit_value w else 0xFFFD) (utf8_units bs)"

definition utf8_decode :: "bytes \<Rightarrow> ustr option" where
  "utf8_decode bs =
     (if list_all snd (utf8_units bs) then Some (map (\<lambda>(w, ok). utf8_unit_value w) (utf8_units bs)) else None)"

text \<open>\<^verbatim>\<open>decode("utf-8", errors="ignore")\<close>.\<close>

definition utf8_decode_ignore :: "bytes \<Rightarrow> ustr" where
  "utf8_decode_ignore bs = map (\<lambda>(w, ok). utf8_unit_value w) (filter snd (utf8_units bs))"

lemma utf8_take_char:
  assumes "scalar_value c"
  shows "utf8_take (utf8_char c @ r) = (utf8_char c, True)"
proof -
  have lt: "c < 0x110000" and ns: "\<not> (0xD800 \<le> c \<and> c < 0xE000)"
    using assms by (auto simp: scalar_value_def)
  consider "c < 0x80" | "0x80 \<le> c" "c < 0x800" | "0x800 \<le> c" "c < 0x10000" | "0x10000 \<le> c" by linarith
  then show ?thesis
  proof cases
    case 2
    then have "2 \<le> c div 64" "c div 64 < 32" by (simp_all add: div_le_mono [of 128 c 64, simplified] less_mult_imp_div_less)
    then show ?thesis using 2 by (simp add: utf8_char_def lead_width_def second_ok_def is_cont_def)
  next
    case 3
    then have d: "c div 4096 < 16" "c div 64 mod 64 < 64" by (simp_all add: less_mult_imp_div_less)
    have e: "c div 64 div 64 = c div 4096" by (simp flip: div_mult2_eq)
    have q: "32 \<le> c div 64" using 3 div_le_mono [of 2048 c 64] by simp
    have s: "c div 4096 = 13 \<Longrightarrow> c div 64 mod 64 < 32"
      using ns div_mult_mod_eq [of "c div 64" 64] div_mult_mod_eq [of c 64] e 3 by linarith
    have z: "c div 4096 = 0 \<Longrightarrow> 32 \<le> c div 64 mod 64"
      using q div_mult_mod_eq [of "c div 64" 64] e by linarith
    have y: "c div 4096 = 0 \<Longrightarrow> c div 64 < 64"
      using d(2) div_mult_mod_eq [of "c div 64" 64] e by linarith
    from 3 d s z y show ?thesis
      by (simp add: utf8_char_def lead_width_def second_ok_def is_cont_def)
  next
    case 4
    have d: "c div 262144 < 5" "c div 4096 mod 64 < 64"
      using lt by (simp_all add: less_mult_imp_div_less)
    have e: "c div 4096 div 64 = c div 262144" by (simp flip: div_mult2_eq)
    have q: "16 \<le> c div 4096" using 4 div_le_mono [of 65536 c 4096] by simp
    have lt': "c div 4096 < 272" using lt by (simp add: less_mult_imp_div_less)
    have z: "c div 262144 = 0 \<Longrightarrow> 16 \<le> c div 4096 mod 64"
      using q div_mult_mod_eq [of "c div 4096" 64] e by linarith
    have t: "c div 262144 = 4 \<Longrightarrow> c div 4096 mod 64 < 16"
      using lt' div_mult_mod_eq [of "c div 4096" 64] e by linarith
    have y: "c div 262144 = 0 \<Longrightarrow> c div 4096 < 64"
      using d(2) div_mult_mod_eq [of "c div 4096" 64] e by linarith
    from 4 d z t y show ?thesis
      by (simp add: utf8_char_def lead_width_def second_ok_def is_cont_def)
  qed (simp add: utf8_char_def lead_width_def)
qed

lemma utf8_units_encode:
  "list_all scalar_value s \<Longrightarrow> utf8_units (utf8_encode s) = map (\<lambda>c. (utf8_char c, True)) s"
proof (induction s)
  case Nil
  then show ?case by (simp add: utf8_units.simps utf8_encode_def)
next
  case (Cons c s)
  have "utf8_char c \<noteq> []" by (simp add: utf8_char_def)
  with Cons show ?case
    by (subst utf8_units.simps) (simp add: utf8_encode_def utf8_take_char)
qed

lemma utf8_decode_encode [simp]:
  "list_all scalar_value s \<Longrightarrow> utf8_decode (utf8_encode s) = Some s"
  by (simp add: utf8_decode_def utf8_units_encode list_all_iff comp_def)

lemma utf8_decode_replace_encode [simp]:
  "list_all scalar_value s \<Longrightarrow> utf8_decode_replace (utf8_encode s) = s"
  by (simp add: utf8_decode_replace_def utf8_units_encode comp_def)

section \<open>Text made of bytes\<close>

definition is_ascii :: "ustr \<Rightarrow> bool" where
  "is_ascii s \<longleftrightarrow> list_all (\<lambda>c. c < 128) s"

text \<open>\<^verbatim>\<open>digest.hexdigest()\<close>.\<close>

definition hex_of_nibble :: "nat \<Rightarrow> nat" where
  "hex_of_nibble n = (if n < 10 then 48 + n else 87 + n)"

definition hexdigest :: "bytes \<Rightarrow> ustr" where
  "hexdigest bs = concat (map (\<lambda>b. [hex_of_nibble (b div 16), hex_of_nibble (b mod 16)]) bs)"

text \<open>\<^verbatim>\<open>base64.urlsafe_b64encode(digest).rstrip(b"=")\<close>: the padding is never written.\<close>

definition b64_char :: "nat \<Rightarrow> nat" where
  "b64_char n =
     (if n < 26 then 65 + n else if n < 52 then 71 + n else if n < 62 then n - 4
      else if n = 62 then 45 else 95)"

fun b64_unpadded :: "bytes \<Rightarrow> ustr" where
  "b64_unpadded [] = []"
| "b64_unpadded [a] = [b64_char (a div 4), b64_char (a mod 4 * 16)]"
| "b64_unpadded [a, b] =
     [b64_char (a div 4), b64_char (a mod 4 * 16 + b div 16), b64_char (b mod 16 * 4)]"
| "b64_unpadded (a # b # c # bs) =
     b64_char (a div 4) # b64_char (a mod 4 * 16 + b div 16)
     # b64_char (b mod 16 * 4 + c div 64) # b64_char (c mod 64) # b64_unpadded bs"

text \<open>
  \<^verbatim>\<open>hmac.compare_digest\<close> on two \<^verbatim>\<open>str\<close>: equality, but a \<^verbatim>\<open>TypeError\<close> (\<open>None\<close>) when one of them holds
  a character that is not ASCII.
\<close>

definition compare_digest :: "ustr \<Rightarrow> ustr \<Rightarrow> bool option" where
  "compare_digest a b = (if is_ascii a \<and> is_ascii b then Some (a = b) else None)"

lemma compare_digest_True [simp]:
  "compare_digest a b = Some True \<longleftrightarrow> a = b \<and> is_ascii a"
  by (auto simp: compare_digest_def)

lemma is_ascii_simps [simp]:
  "is_ascii []"
  "is_ascii (c # s) \<longleftrightarrow> c < 128 \<and> is_ascii s"
  "is_ascii (s @ t) \<longleftrightarrow> is_ascii s \<and> is_ascii t"
  by (simp_all add: is_ascii_def)

lemma hexdigest_ascii: "list_all (\<lambda>b. b < 256) bs \<Longrightarrow> is_ascii (hexdigest bs)"
  by (induction bs) (auto simp: hexdigest_def hex_of_nibble_def)

lemma b64_char_ascii: "n < 64 \<Longrightarrow> b64_char n < 128"
  by (auto simp: b64_char_def)

lemma b64_digit3: "b < 256 \<Longrightarrow> (a::nat) mod 4 * 16 + b div 16 < 64"
proof -
  assume "b < 256"
  then have "b div 16 < 16" "a mod 4 < 4" by (simp_all add: less_mult_imp_div_less)
  then show ?thesis by linarith
qed

lemma b64_digit4: "c < 256 \<Longrightarrow> (b::nat) mod 16 * 4 + c div 64 < 64"
proof -
  assume "c < 256"
  then have "c div 64 < 4" "b mod 16 < 16" by (simp_all add: less_mult_imp_div_less)
  then show ?thesis by linarith
qed

lemma b64_ascii: "list_all (\<lambda>b. b < 256) bs \<Longrightarrow> is_ascii (b64_unpadded bs)"
proof (induction bs rule: b64_unpadded.induct)
  case (2 a)
  then have "a div 4 < 64" by (simp add: less_mult_imp_div_less)
  then show ?case using b64_digit3 [of 0 a] by (simp add: b64_char_ascii)
next
  case (3 a b)
  then have "a div 4 < 64" by (simp add: less_mult_imp_div_less)
  then show ?case using 3 b64_digit3 [of b a] b64_digit4 [of 0 b] by (simp add: b64_char_ascii)
next
  case (4 a b c bs)
  then have "a div 4 < 64" by (simp add: less_mult_imp_div_less)
  then show ?case using 4 b64_digit3 [of b a] b64_digit4 [of c b] by (simp add: b64_char_ascii)
qed simp

end
