(* ===== verification/Url.thy ===== *)
theory Url
  imports Utf8
begin

text \<open>
  \<^verbatim>\<open>urllib.parse\<close> as \<^verbatim>\<open>oauth.py\<close> uses it: \<^verbatim>\<open>urlparse\<close> with the \<^verbatim>\<open>hostname\<close>, \<^verbatim>\<open>port\<close> and user
  information of its result, and \<^verbatim>\<open>urlencode\<close>; then the two validators of
  \<^verbatim>\<open>src/chatgpt_web_oauth_mcp/oauth.py\<close> that decide which URLs the server accepts.

  \<^verbatim>\<open>urlsplit\<close> hands a host in brackets to \<^verbatim>\<open>ipaddress\<close> and a network location that is not ASCII to
  \<^verbatim>\<open>unicodedata\<close>; their verdict is the argument \<open>netloc_ok\<close>.
\<close>

section \<open>Partitioning\<close>

definition before_char :: "nat \<Rightarrow> ustr \<Rightarrow> ustr" where
  "before_char c s = takeWhile (\<lambda>x. x \<noteq> c) s"

definition after_char :: "nat \<Rightarrow> ustr \<Rightarrow> ustr" where
  "after_char c s = drop 1 (dropWhile (\<lambda>x. x \<noteq> c) s)"

text \<open>The parts of \<^verbatim>\<open>rpartition\<close>: after the last separator, and before it.\<close>

definition after_last :: "nat \<Rightarrow> ustr \<Rightarrow> ustr" where
  "after_last c s = rev (takeWhile (\<lambda>x. x \<noteq> c) (rev s))"

definition before_last :: "nat \<Rightarrow> ustr \<Rightarrow> ustr" where
  "before_last c s = rev (drop 1 (dropWhile (\<lambda>x. x \<noteq> c) (rev s)))"

definition ascii_lower_char :: "nat \<Rightarrow> nat" where
  "ascii_lower_char c = (if 65 \<le> c \<and> c \<le> 90 then c + 32 else if c = 0x212A then 107 else c)"

text \<open>
  \<^verbatim>\<open>s.lower()\<close> as far as a comparison with an ASCII literal can see it: the Kelvin sign is the
  only other character whose lower case is one ASCII letter.
\<close>

definition lower :: "ustr \<Rightarrow> ustr" where
  "lower s = map ascii_lower_char s"

definition is_alpha :: "nat \<Rightarrow> bool" where
  "is_alpha c \<longleftrightarrow> 65 \<le> c \<and> c \<le> 90 \<or> 97 \<le> c \<and> c \<le> 122"

definition is_decimal :: "nat \<Rightarrow> bool" where
  "is_decimal c \<longleftrightarrow> 48 \<le> c \<and> c \<le> 57"

definition scheme_char :: "nat \<Rightarrow> bool" where
  "scheme_char c \<longleftrightarrow> is_alpha c \<or> is_decimal c \<or> c = 43 \<or> c = 45 \<or> c = 46"

section \<open>urlparse\<close>

record url =
  url_scheme :: ustr
  url_netloc :: ustr
  url_path :: ustr
  url_query :: ustr
  url_fragment :: ustr

definition uses_params :: "ustr list" where
  "uses_params = map u ['''', ''ftp'', ''hdl'', ''prospero'', ''http'', ''imap'', ''https'', ''shttp'', ''rtsp'',
     ''rtsps'', ''rtspu'', ''sip'', ''sips'', ''mms'', ''sftp'', ''tel'']"

text \<open>The path without the parameters of its last segment.\<close>

definition split_params :: "ustr \<Rightarrow> ustr" where
  "split_params p =
     (if 47 \<in> set p then before_last 47 p @ [47] @ before_char 59 (after_last 47 p)
      else before_char 59 p)"

definition netloc_valid :: "(ustr \<Rightarrow> bool) \<Rightarrow> ustr \<Rightarrow> bool" where
  "netloc_valid netloc_ok n \<longleftrightarrow>
     (91 \<in> set n \<longleftrightarrow> 93 \<in> set n) \<and> ((91 \<in> set n \<or> \<not> is_ascii n) \<longrightarrow> netloc_ok n)"

text \<open>What \<^verbatim>\<open>urlsplit\<close> removes first: leading controls and spaces, then tabs and line ends.\<close>

definition url_clean :: "ustr \<Rightarrow> ustr" where
  "url_clean raw = filter (\<lambda>c. c \<noteq> 9 \<and> c \<noteq> 10 \<and> c \<noteq> 13) (dropWhile (\<lambda>c. c \<le> 32) raw)"

definition has_scheme :: "ustr \<Rightarrow> bool" where
  "has_scheme s \<longleftrightarrow>
     58 \<in> set s \<and> before_char 58 s \<noteq> [] \<and> is_alpha (hd (before_char 58 s)) \<and>
     list_all scheme_char (before_char 58 s)"

definition not_delim :: "nat \<Rightarrow> bool" where
  "not_delim c \<longleftrightarrow> c \<noteq> 47 \<and> c \<noteq> 63 \<and> c \<noteq> 35"

text \<open>The network location and what follows it, after the scheme.\<close>

definition split_netloc :: "ustr \<Rightarrow> ustr \<times> ustr" where
  "split_netloc s =
     (if startswith s (u ''//'')
      then (takeWhile not_delim (drop 2 s), dropWhile not_delim (drop 2 s))
      else ([], s))"

definition urlparse :: "(ustr \<Rightarrow> bool) \<Rightarrow> ustr \<Rightarrow> url option" where
  "urlparse netloc_ok raw =
     (let s = url_clean raw;
          scheme = (if has_scheme s then lower (before_char 58 s) else []);
          (netloc, rest) = split_netloc (if has_scheme s then after_char 58 s else s);
          before = before_char 35 rest;
          path = before_char 63 before
      in if \<not> netloc_valid netloc_ok netloc then None
         else Some \<lparr>url_scheme = scheme, url_netloc = netloc,
                url_path = (if scheme \<in> set uses_params then split_params path else path),
                url_query = after_char 63 before, url_fragment = after_char 35 rest\<rparr>)"

definition host_info :: "url \<Rightarrow> ustr" where
  "host_info r = after_last 64 (url_netloc r)"

definition url_host_text :: "url \<Rightarrow> ustr" where
  "url_host_text r =
     (if 91 \<in> set (host_info r) then before_char 93 (after_char 91 (host_info r))
      else before_char 58 (host_info r))"

definition url_port_text :: "url \<Rightarrow> ustr" where
  "url_port_text r =
     (if 91 \<in> set (host_info r) then after_char 58 (after_char 93 (after_char 91 (host_info r)))
      else after_char 58 (host_info r))"

text \<open>\<^verbatim>\<open>hostname\<close>: \<open>None\<close> when empty; the zone of a scoped address keeps its case.\<close>

definition url_hostname :: "url \<Rightarrow> ustr option" where
  "url_hostname r =
     (if url_host_text r = [] then None
      else Some (lower (before_char 37 (url_host_text r)) @ dropWhile (\<lambda>c. c \<noteq> 37) (url_host_text r)))"

text \<open>\<^verbatim>\<open>port\<close> raises unless the text after the host is empty or a number below 65536.\<close>

definition url_port_ok :: "url \<Rightarrow> bool" where
  "url_port_ok r \<longleftrightarrow>
     url_port_text r = [] \<or>
     list_all is_decimal (url_port_text r) \<and> foldl (\<lambda>n c. 10 * n + (c - 48)) 0 (url_port_text r) \<le> 65535"

text \<open>\<^verbatim>\<open>username\<close> and \<^verbatim>\<open>password\<close> are both \<^verbatim>\<open>None\<close> exactly when there is no at sign.\<close>

definition url_has_userinfo :: "url \<Rightarrow> bool" where
  "url_has_userinfo r \<longleftrightarrow> 64 \<in> set (url_netloc r)"

section \<open>urlencode\<close>

definition quote_safe :: "nat \<Rightarrow> bool" where
  "quote_safe c \<longleftrightarrow> is_alpha c \<or> is_decimal c \<or> c \<in> {95, 46, 45, 126}"

definition hex_upper :: "nat \<Rightarrow> nat" where
  "hex_upper n = (if n < 10 then 48 + n else 55 + n)"

definition quote_plus :: "ustr \<Rightarrow> ustr" where
  "quote_plus s =
     concat (map (\<lambda>b. if quote_safe b then [b] else if b = 32 then [43]
                       else [37, hex_upper (b div 16), hex_upper (b mod 16)]) (utf8_encode s))"

definition urlencode :: "(string \<times> ustr) list \<Rightarrow> ustr" where
  "urlencode q = join [38] (map (\<lambda>(k, v). quote_plus (u k) @ [61] @ quote_plus v) q)"

section \<open>The validators of oauth.py\<close>

definition loopback_hosts :: "ustr list" where
  "loopback_hosts = map u [''127.0.0.1'', ''::1'', ''localhost'']"

definition has_control :: "ustr \<Rightarrow> bool" where
  "has_control s \<longleftrightarrow> list_ex (\<lambda>c. c < 0x20 \<or> c = 0x7F) s"

definition is_allowed_redirect_uri :: "(ustr \<Rightarrow> bool) \<Rightarrow> ustr \<Rightarrow> bool" where
  "is_allowed_redirect_uri netloc_ok uri =
     (if uri = [] \<or> uri \<noteq> strip uri then False
      else if 92 \<in> set uri \<or> 35 \<in> set uri then False
      else if has_control uri then False
      else case urlparse netloc_ok uri of
          None \<Rightarrow> False
        | Some parsed \<Rightarrow>
            if url_fragment parsed \<noteq> [] \<or> url_has_userinfo parsed then False
            else case url_hostname parsed of
                None \<Rightarrow> False
              | Some h \<Rightarrow>
                  if \<not> url_port_ok parsed then False
                  else if url_scheme parsed = u ''https'' then True
                  else url_scheme parsed = u ''http'' \<and> lower h \<in> set loopback_hosts)"

datatype url_error = UrlRequired | NotCanonicalOrigin | NotAUrl | NotHttps

definition rstrip_slash :: "ustr \<Rightarrow> ustr" where
  "rstrip_slash s = rstrip_by (\<lambda>c. c = 47) s"

definition validated_public_base_url :: "(ustr \<Rightarrow> bool) \<Rightarrow> ustr \<Rightarrow> url_error + ustr" where
  "validated_public_base_url netloc_ok raw =
     (let normalized = strip raw in
      if normalized = [] then Inl UrlRequired
      else if normalized \<noteq> raw \<or> 92 \<in> set normalized \<or> 35 \<in> set normalized \<or> 63 \<in> set normalized
        then Inl NotCanonicalOrigin
      else if has_control normalized then Inl NotCanonicalOrigin
      else case urlparse netloc_ok normalized of
          None \<Rightarrow> Inl NotAUrl
        | Some parsed \<Rightarrow>
            if \<not> url_port_ok parsed then Inl NotAUrl
            else case url_hostname parsed of
                None \<Rightarrow> Inl NotCanonicalOrigin
              | Some h \<Rightarrow>
                  if url_has_userinfo parsed \<or> url_query parsed \<noteq> [] \<or> url_fragment parsed \<noteq> [] \<or>
                     url_path parsed \<notin> {[], u ''/''} then Inl NotCanonicalOrigin
                  else if url_scheme parsed = u ''https'' then Inr (rstrip_slash normalized)
                  else if url_scheme parsed = u ''http'' \<and> lower h \<in> set loopback_hosts
                    then Inr (rstrip_slash normalized)
                  else Inl NotHttps)"

lemmas url_eval =
  is_allowed_redirect_uri_def urlparse_def url_clean_def has_scheme_def not_delim_def
  split_netloc_def strip_def rstrip_by_def is_space_def has_control_def
  before_char_def after_char_def before_last_def after_last_def lower_def ascii_lower_char_def
  is_alpha_def is_decimal_def scheme_char_def uses_params_def split_params_def netloc_valid_def
  host_info_def url_host_text_def url_port_text_def url_hostname_def url_port_ok_def
  url_has_userinfo_def startswith_def loopback_hosts_def Let_def is_ascii_def

section \<open>The shape of an accepted redirect URI\<close>

lemma before_after_char: "c \<in> set s \<Longrightarrow> s = before_char c s @ c # after_char c s"
proof -
  assume "c \<in> set s"
  then have "dropWhile (\<lambda>x. x \<noteq> c) s \<noteq> []" by (auto simp: dropWhile_eq_Nil_conv)
  then have "dropWhile (\<lambda>x. x \<noteq> c) s = c # after_char c s"
    using hd_dropWhile [of "\<lambda>x. x \<noteq> c" s] unfolding after_char_def
    by (metis (full_types) drop0 drop_Suc_Cons list.exhaust_sel One_nat_def)
  then show ?thesis by (metis before_char_def takeWhile_dropWhile_id)
qed

lemma before_char_notin: "c \<notin> set s \<Longrightarrow> before_char c s = s"
  by (auto simp: before_char_def takeWhile_eq_all_conv)

lemma after_last_notin: "c \<notin> set s \<Longrightarrow> after_last c s = s"
proof -
  assume "c \<notin> set s"
  then have "takeWhile (\<lambda>x. x \<noteq> c) (rev s) = rev s" by (auto simp: takeWhile_eq_all_conv)
  then show ?thesis by (simp only: after_last_def rev_rev_ident)
qed

lemma takeWhile_tail_hd: "dropWhile P s = [] \<or> \<not> P (hd (dropWhile P s))"
  using hd_dropWhile by blast

text \<open>A URL without control characters keeps all its characters: what is parsed is the text itself.\<close>

lemma strip_hd: "strip s = s \<Longrightarrow> s \<noteq> [] \<Longrightarrow> \<not> is_space (hd s)"
proof
  assume "strip s = s" "s \<noteq> []" "is_space (hd s)"
  then obtain c t where c: "s = c # t" "is_space c" by (cases s) auto
  have "length (strip s) \<le> length (dropWhile is_space s)"
    using length_dropWhile_le [of is_space "rev (dropWhile is_space s)"]
    by (simp add: strip_def rstrip_by_def)
  also have "\<dots> < length s" using c length_dropWhile_le [of is_space t] by simp
  finally show False using \<open>strip s = s\<close> by simp
qed

lemma url_clean_id:
  assumes "strip s = s" and "\<not> has_control s" shows "url_clean s = s"
proof (cases s)
  case (Cons c t)
  with strip_hd [OF assms(1)] have "c \<noteq> 32" by (auto simp: is_space_def)
  moreover from assms(2) have ge: "\<forall>x \<in> set s. 32 \<le> x" by (force simp: has_control_def list_ex_iff not_less)
  ultimately have "\<not> c \<le> 32" using Cons by force
  moreover from ge have "filter (\<lambda>c. c \<noteq> 9 \<and> c \<noteq> 10 \<and> c \<noteq> 13) s = s" by (force simp: filter_id_conv)
  ultimately show ?thesis using Cons by (simp add: url_clean_def)
qed (simp add: url_clean_def)

lemma split_netloc_shape:
  assumes "split_netloc s = (n, rest)" and "n \<noteq> []"
  shows "s = u ''//'' @ n @ rest" and "rest = [] \<or> \<not> not_delim (hd rest)" and "list_all not_delim n"
proof -
  from assms obtain t where t: "s = u ''//'' @ t"
    by (auto simp: split_netloc_def startswith_iff split: if_splits)
  with assms have n: "n = takeWhile not_delim t" "rest = dropWhile not_delim t"
    by (auto simp: split_netloc_def split: if_splits)
  then show "s = u ''//'' @ n @ rest" using t by simp
  show "rest = [] \<or> \<not> not_delim (hd rest)" using n hd_dropWhile by metis
  show "list_all not_delim n" using n set_takeWhileD by (fastforce simp: list_all_iff)
qed

lemma urlparse_shape:
  assumes p: "urlparse netloc_ok uri = Some r" and nl: "url_netloc r \<noteq> []"
    and s: "url_clean uri = uri" and sch: "url_scheme r \<noteq> []"
  obtains pre tail where "uri = pre @ u ''://'' @ url_netloc r @ tail" "lower pre = url_scheme r"
    "tail = [] \<or> \<not> not_delim (hd tail)" "list_all not_delim (url_netloc r)"
proof -
  from p sch have hs: "has_scheme uri" and scheme: "lower (before_char 58 uri) = url_scheme r"
    by (auto simp: urlparse_def s Let_def split: if_splits prod.splits)
  from p hs obtain rest where rest: "split_netloc (after_char 58 uri) = (url_netloc r, rest)"
    by (auto simp: urlparse_def s Let_def split: if_splits prod.splits)
  have "uri = before_char 58 uri @ 58 # after_char 58 uri"
    using hs by (intro before_after_char) (simp add: has_scheme_def)
  also have "after_char 58 uri = u ''//'' @ url_netloc r @ rest"
    by (rule split_netloc_shape(1) [OF rest nl])
  finally have "uri = before_char 58 uri @ u ''://'' @ url_netloc r @ rest" by simp
  with scheme split_netloc_shape(2,3) [OF rest nl] show thesis by (intro that)
qed

text \<open>The host of a network location without user information.\<close>

lemma host_shape:
  assumes "64 \<notin> set (url_netloc r)"
  shows "(91 \<notin> set (url_netloc r) \<and>
      (url_netloc r = url_host_text r \<or> (\<exists>port. url_netloc r = url_host_text r @ 58 # port))) \<or>
    (\<exists>before after. url_netloc r = before @ 91 # after \<and> url_host_text r = before_char 93 after)"
proof -
  have hi: "host_info r = url_netloc r" using assms by (simp add: host_info_def after_last_notin)
  show ?thesis
  proof (cases "91 \<in> set (url_netloc r)")
    case True
    then show ?thesis using before_after_char [of 91 "url_netloc r"] by (auto simp: url_host_text_def hi)
  next
    case False
    then have ht: "url_host_text r = before_char 58 (url_netloc r)" by (simp add: url_host_text_def hi)
    show ?thesis
    proof (cases "58 \<in> set (url_netloc r)")
      case True
      then show ?thesis using before_after_char [of 58 "url_netloc r"] False by (metis ht)
    next
      case no: False
      then show ?thesis using False by (simp add: ht before_char_notin)
    qed
  qed
qed

end
