(* ===== verification/Oauth.thy ===== *)
theory Oauth
  imports Json Url
begin

text \<open>
  The OAuth authorization server: \<^verbatim>\<open>src/chatgpt_web_oauth_mcp/oauth.py\<close>.

  The state is the store kept in \<^verbatim>\<open>oauth.json\<close>: clients, authorization codes, access tokens and
  refresh tokens, each a dictionary. Every operation reads the store, and returns the state of the
  file afterwards with its result, an error or a value; an operation that raises before it writes
  leaves the file as it was. Clock readings and random texts are arguments, in the order the code
  draws them. SHA-256 is an argument \<open>sha\<close> on bytes: \<^verbatim>\<open>hashlib\<close> hands it to OpenSSL. Records are
  those the program itself writes; a refresh-token entry that is no such record is \<open>Malformed\<close>.
\<close>

section \<open>Configuration\<close>

record oauth_config =
  auth_mode :: ustr
  auth_token :: ustr
  public_base_url :: ustr
  oauth_login_token :: ustr
  oauth_scopes :: "ustr list"
  oauth_token_ttl :: int
  oauth_refresh_ttl :: int

definition normalized_auth_mode :: "oauth_config \<Rightarrow> ustr" where
  "normalized_auth_mode cfg =
     (let mode = lower (strip (auth_mode cfg)) in
      if mode \<noteq> [] then mode
      else if auth_token cfg \<noteq> [] then u ''shared_token'' else u ''none'')"

definition login_token :: "oauth_config \<Rightarrow> ustr" where
  "login_token cfg = (if oauth_login_token cfg \<noteq> [] then oauth_login_token cfg else auth_token cfg)"

definition scopes :: "oauth_config \<Rightarrow> ustr list" where
  "scopes cfg = (if oauth_scopes cfg \<noteq> [] then oauth_scopes cfg else [u ''local-ops''])"

record oauth_manager =
  config :: oauth_config
  mcp_path :: ustr
  manager_base_url :: ustr

definition make_manager :: "(ustr \<Rightarrow> bool) \<Rightarrow> oauth_config \<Rightarrow> ustr \<Rightarrow> url_error + oauth_manager" where
  "make_manager netloc_ok cfg path =
     (if normalized_auth_mode cfg = u ''oauth'' then
        (case validated_public_base_url netloc_ok (public_base_url cfg) of
           Inl e \<Rightarrow> Inl e
         | Inr base \<Rightarrow> Inr \<lparr>config = cfg, mcp_path = path, manager_base_url = base\<rparr>)
      else Inr \<lparr>config = cfg, mcp_path = path,
             manager_base_url = rstrip_slash (strip (public_base_url cfg))\<rparr>)"

definition metadata_base_url :: "oauth_manager \<Rightarrow> ustr \<Rightarrow> ustr" where
  "metadata_base_url mgr fallback =
     (if manager_base_url mgr \<noteq> [] then manager_base_url mgr else rstrip_slash fallback)"

definition resource_url :: "oauth_manager \<Rightarrow> ustr \<Rightarrow> ustr" where
  "resource_url mgr base = rstrip_slash base @ mcp_path mgr"

definition resource_metadata_url :: "oauth_manager \<Rightarrow> ustr \<Rightarrow> ustr" where
  "resource_metadata_url mgr base =
     rstrip_slash base @ u ''/.well-known/oauth-protected-resource'' @ mcp_path mgr"

definition scope_string :: "oauth_manager \<Rightarrow> ustr" where
  "scope_string mgr = join [32] (scopes (config mgr))"

definition authorization_server_metadata :: "oauth_manager \<Rightarrow> ustr \<Rightarrow> dict" where
  "authorization_server_metadata mgr base =
     [(''issuer'', JStr base),
      (''authorization_endpoint'', JStr (base @ u ''/oauth/authorize'')),
      (''token_endpoint'', JStr (base @ u ''/oauth/token'')),
      (''registration_endpoint'', JStr (base @ u ''/oauth/register'')),
      (''response_types_supported'', JList [jlit ''code'']),
      (''grant_types_supported'', JList [jlit ''authorization_code'', jlit ''refresh_token'']),
      (''token_endpoint_auth_methods_supported'', JList [jlit ''none'']),
      (''code_challenge_methods_supported'', JList [jlit ''S256'']),
      (''scopes_supported'', JList (map JStr (scopes (config mgr))))]"

definition protected_resource_metadata :: "oauth_manager \<Rightarrow> ustr \<Rightarrow> dict" where
  "protected_resource_metadata mgr base =
     [(''resource'', JStr (resource_url mgr base)),
      (''authorization_servers'', JList [JStr base]),
      (''scopes_supported'', JList (map JStr (scopes (config mgr)))),
      (''bearer_methods_supported'', JList [jlit ''header'']),
      (''resource_name'', jlit ''chatgpt-web-oauth-mcp'')]"

section \<open>The store\<close>

record oauth_client =
  cl_client_id :: ustr
  cl_client_name :: ustr
  cl_redirect_uris :: "ustr list"
  cl_created_at :: int

record code_record =
  cd_client_id :: ustr
  cd_redirect_uri :: ustr
  cd_code_challenge :: ustr
  cd_scope :: ustr
  cd_resource :: ustr
  cd_expires_at :: int

record token_record =
  tk_client_id :: ustr
  tk_scope :: ustr
  tk_resource :: ustr
  tk_expires_at :: int

record refresh_record =
  rf_client_id :: ustr
  rf_scope :: ustr
  rf_resource :: ustr
  rf_family_id :: ustr
  rf_created_at :: int
  rf_expires_at :: int
  rf_rotated_at :: "int option"

datatype refresh_entry = Malformed | Refresh refresh_record

record oauth_store =
  clients :: "(ustr \<times> oauth_client) list"
  codes :: "(ustr \<times> code_record) list"
  tokens :: "(ustr \<times> token_record) list"
  refresh_tokens :: "(ustr \<times> refresh_entry) list"

datatype oauth_disk = NoFile | Unreadable | StoreFile oauth_store

definition empty_store :: oauth_store where
  "empty_store = \<lparr>clients = [], codes = [], tokens = [], refresh_tokens = []\<rparr>"

fun read_store :: "oauth_disk \<Rightarrow> oauth_store" where
  "read_store NoFile = empty_store"
| "read_store Unreadable = empty_store"
| "read_store (StoreFile s) = s"

text \<open>The file is replaced as a whole by \<^verbatim>\<open>tmp_path.replace\<close>.\<close>

definition write_store :: "oauth_store \<Rightarrow> oauth_disk" where
  "write_store s = StoreFile s"

lemma read_write_store [simp]: "read_store (write_store s) = s"
  by (simp add: write_store_def)

datatype oauth_error =
    PermissionDenied string
  | Invalid string
  | TypeFailure

section \<open>Scopes, hashes, pruning\<close>

definition scope_words :: "ustr \<Rightarrow> ustr list" where
  "scope_words s = split_ws s"

definition without_offline_access :: "ustr \<Rightarrow> ustr" where
  "without_offline_access s = join [32] (filter (\<lambda>w. w \<noteq> u ''offline_access'') (split_ws s))"

text \<open>\<^verbatim>\<open>_scope_set(...) - {OFFLINE_ACCESS_SCOPE}\<close>, as a list.\<close>

definition requested_scopes :: "ustr \<Rightarrow> ustr list" where
  "requested_scopes s = filter (\<lambda>w. w \<noteq> u ''offline_access'') (scope_words s)"

definition pkce_s256 :: "(bytes \<Rightarrow> bytes) \<Rightarrow> ustr \<Rightarrow> ustr option" where
  "pkce_s256 sha verifier = (if is_ascii verifier then Some (b64_unpadded (sha verifier)) else None)"

definition token_hash :: "(bytes \<Rightarrow> bytes) \<Rightarrow> ustr \<Rightarrow> ustr" where
  "token_hash sha tk = hexdigest (sha (utf8_encode tk))"

fun entry_expired :: "int \<Rightarrow> refresh_entry \<Rightarrow> bool" where
  "entry_expired now Malformed = True"
| "entry_expired now (Refresh r) = (rf_expires_at r < now)"

definition prune_refresh_tokens :: "oauth_store \<Rightarrow> int \<Rightarrow> oauth_store \<times> bool" where
  "prune_refresh_tokens store now =
     (store\<lparr>refresh_tokens := filter (\<lambda>(k, e). \<not> entry_expired now e) (refresh_tokens store)\<rparr>,
      list_ex (\<lambda>(k, e). entry_expired now e) (refresh_tokens store))"

section \<open>Dynamic client registration\<close>

definition json_strings :: "json \<Rightarrow> ustr list option" where
  "json_strings j =
     (case j of
        JList xs \<Rightarrow>
          if list_all (\<lambda>x. case x of JStr s \<Rightarrow> True | _ \<Rightarrow> False) xs
          then Some (map (\<lambda>x. case x of JStr s \<Rightarrow> s | _ \<Rightarrow> []) xs) else None
      | _ \<Rightarrow> None)"

text \<open>
  \<^verbatim>\<open>str(payload.get("client_name") or "ChatGPT")\<close>; what \<^verbatim>\<open>str\<close> prints for a value that is not a
  string is the argument \<open>py_str\<close>.
\<close>

definition client_name_of :: "(json \<Rightarrow> ustr) \<Rightarrow> dict \<Rightarrow> ustr" where
  "client_name_of py_str payload =
     (case map_of payload ''client_name'' of
        None \<Rightarrow> u ''ChatGPT''
      | Some (JStr s) \<Rightarrow> if s = [] then u ''ChatGPT'' else s
      | Some j \<Rightarrow> if json_falsy j then u ''ChatGPT'' else py_str j)"

definition max_registered_clients :: nat where
  "max_registered_clients = 50"

definition register_client ::
  "(ustr \<Rightarrow> bool) \<Rightarrow> (json \<Rightarrow> ustr) \<Rightarrow> dict \<Rightarrow> int \<Rightarrow> ustr \<Rightarrow> oauth_disk
   \<Rightarrow> oauth_disk \<times> (oauth_error + dict)" where
  "register_client netloc_ok py_str payload now rnd disk =
     (case map_of payload ''redirect_uris'' of
        Some (JList (x # xs)) \<Rightarrow>
          (case json_strings (JList (x # xs)) of
             None \<Rightarrow> (disk, Inl (Invalid ''redirect_uris must use https or localhost''))
           | Some uris \<Rightarrow>
               if \<not> list_all (is_allowed_redirect_uri netloc_ok) uris
               then (disk, Inl (Invalid ''redirect_uris must use https or localhost''))
               else
                 let store = read_store disk in
                 if max_registered_clients \<le> length (clients store)
                 then (disk, Inl (Invalid ''too many registered OAuth clients''))
                 else
                   let client_id = u ''mcp_client_'' @ rnd;
                       client = \<lparr>cl_client_id = client_id, cl_client_name = client_name_of py_str payload,
                                 cl_redirect_uris = uris, cl_created_at = now\<rparr>;
                       store' = store\<lparr>clients := AList.update client_id client (clients store)\<rparr>
                   in (write_store store',
                       Inr [(''client_id'', JStr client_id),
                            (''client_name'', JStr (cl_client_name client)),
                            (''redirect_uris'', JList (map JStr uris)),
                            (''grant_types'', JList [jlit ''authorization_code'', jlit ''refresh_token'']),
                            (''response_types'', JList [jlit ''code'']),
                            (''token_endpoint_auth_method'', jlit ''none''),
                            (''client_id_issued_at'', JInt now)]))
      | _ \<Rightarrow> (disk, Inl (Invalid ''redirect_uris must be a non-empty list'')))"

section \<open>The authorization endpoint\<close>

type_synonym form = "(string \<times> ustr) list"

definition field :: "form \<Rightarrow> string \<Rightarrow> ustr" where
  "field p k = (case map_of p k of None \<Rightarrow> [] | Some v \<Rightarrow> v)"

text \<open>The end of \<^verbatim>\<open>authorize\<close>: draw the code, store its record, build the redirect.\<close>

definition issue_code ::
  "oauth_manager \<Rightarrow> form \<Rightarrow> int \<Rightarrow> ustr \<Rightarrow> oauth_store \<Rightarrow> oauth_disk \<times> (oauth_error + ustr)" where
  "issue_code mgr p now rnd store =
     (let code = u ''mcp_code_'' @ rnd;
          stripped = without_offline_access (field p ''scope'');
          record =
            \<lparr>cd_client_id = field p ''client_id'',
             cd_redirect_uri = field p ''redirect_uri'',
             cd_code_challenge = field p ''code_challenge'',
             cd_scope = (if stripped \<noteq> [] then stripped else scope_string mgr),
             cd_resource = field p ''resource'',
             cd_expires_at = now + 300\<rparr>;
          query = (''code'', code) #
            (if field p ''state'' \<noteq> [] then [(''state'', field p ''state'')] else []);
          separator = (if 63 \<in> set (field p ''redirect_uri'') then [38] else [63])
      in (write_store (store\<lparr>codes := AList.update code record (codes store)\<rparr>),
          Inr (field p ''redirect_uri'' @ separator @ urlencode query)))"

definition authorize ::
  "oauth_manager \<Rightarrow> form \<Rightarrow> ustr \<Rightarrow> int \<Rightarrow> ustr \<Rightarrow> oauth_disk \<Rightarrow> oauth_disk \<times> (oauth_error + ustr)" where
  "authorize mgr p base now rnd disk =
     (if login_token (config mgr) = []
        then (disk, Inl (PermissionDenied ''oauth login token is not configured''))
      else case compare_digest (field p ''login_token'') (login_token (config mgr)) of
          None \<Rightarrow> (disk, Inl TypeFailure)
        | Some False \<Rightarrow> (disk, Inl (PermissionDenied ''invalid login token''))
        | Some True \<Rightarrow>
            if map_of p ''response_type'' \<noteq> Some (u ''code'')
              then (disk, Inl (Invalid ''response_type must be code''))
            else if map_of p ''code_challenge_method'' \<noteq> Some (u ''S256'') \<or> field p ''code_challenge'' = []
              then (disk, Inl (Invalid ''PKCE S256 is required''))
            else if map_of p ''resource'' \<noteq> Some (resource_url mgr base)
              then (disk, Inl (Invalid ''resource does not match this MCP server''))
            else
              let store = read_store disk in
              case map_of (clients store) (field p ''client_id'') of
                None \<Rightarrow> (disk, Inl (Invalid ''unknown client_id''))
              | Some client \<Rightarrow>
                  if field p ''redirect_uri'' \<notin> set (cl_redirect_uris client)
                    then (disk, Inl (Invalid ''redirect_uri is not registered''))
                  else if \<not> set (requested_scopes (field p ''scope'')) \<subseteq> set (scopes (config mgr))
                    then (disk, Inl (Invalid ''requested scope is not supported''))
                  else issue_code mgr p now rnd store)"

section \<open>The token endpoint\<close>

text \<open>What one call draws: its clock readings and its random texts.\<close>

record draws =
  at_check :: int
  at_access :: int
  at_refresh :: int
  rnd_access :: ustr
  rnd_refresh :: ustr
  rnd_family :: ustr

definition refresh_token_reuse_grace :: int where
  "refresh_token_reuse_grace = 60"

definition rotated_retention :: int where
  "rotated_retention = 7 * 24 * 60 * 60"

definition issue_refresh_token ::
  "(bytes \<Rightarrow> bytes) \<Rightarrow> oauth_manager \<Rightarrow> oauth_store \<Rightarrow> ustr \<Rightarrow> ustr \<Rightarrow> ustr \<Rightarrow> int \<Rightarrow> ustr \<Rightarrow> draws
   \<Rightarrow> oauth_store \<times> ustr" where
  "issue_refresh_token sha mgr store client_id scope resource now family_id d =
     (let store = fst (prune_refresh_tokens store now);
          tk = u ''mcp_rt_'' @ rnd_refresh d;
          record =
            \<lparr>rf_client_id = client_id, rf_scope = scope, rf_resource = resource,
             rf_family_id = (if family_id \<noteq> [] then family_id else u ''rtf_'' @ rnd_family d),
             rf_created_at = now,
             rf_expires_at = now + max (oauth_refresh_ttl (config mgr)) 60,
             rf_rotated_at = None\<rparr>
      in (store\<lparr>refresh_tokens :=
            AList.update (token_hash sha tk) (Refresh record) (refresh_tokens store)\<rparr>, tk))"

record token_response =
  rs_access_token :: ustr
  rs_expires_in :: int
  rs_scope :: ustr
  rs_refresh_token :: ustr

text \<open>A rotated token presented again after the grace period.\<close>

definition reuse_detected :: "int \<Rightarrow> refresh_record \<Rightarrow> bool" where
  "reuse_detected now r =
     (case rf_rotated_at r of None \<Rightarrow> False | Some t \<Rightarrow> now - t > refresh_token_reuse_grace)"

definition in_family :: "ustr \<Rightarrow> refresh_entry \<Rightarrow> bool" where
  "in_family fam e = (case e of Malformed \<Rightarrow> False | Refresh v \<Rightarrow> rf_family_id v = fam)"

definition revoke_family :: "ustr \<Rightarrow> oauth_store \<Rightarrow> oauth_store" where
  "revoke_family fam store =
     store\<lparr>refresh_tokens := filter (\<lambda>(k, e). \<not> in_family fam e) (refresh_tokens store)\<rparr>"

definition granted_scope :: "oauth_manager \<Rightarrow> refresh_record \<Rightarrow> ustr" where
  "granted_scope mgr r = (if rf_scope r \<noteq> [] then rf_scope r else scope_string mgr)"

definition rotate_record :: "int \<Rightarrow> refresh_record \<Rightarrow> refresh_record" where
  "rotate_record now r =
     (if rf_rotated_at r = None
      then r\<lparr>rf_rotated_at := Some now,
             rf_expires_at :=
               min (if rf_expires_at r = 0 then now else rf_expires_at r) (now + rotated_retention)\<rparr>
      else r)"

definition access_ttl :: "oauth_manager \<Rightarrow> int" where
  "access_ttl mgr = max (oauth_token_ttl (config mgr)) 60"

text \<open>The new access token, stored and returned.\<close>

definition store_access_token :: "ustr \<Rightarrow> token_record \<Rightarrow> oauth_store \<Rightarrow> oauth_store" where
  "store_access_token tk r store = store\<lparr>tokens := AList.update tk r (tokens store)\<rparr>"

definition store_refresh_entry :: "ustr \<Rightarrow> refresh_record \<Rightarrow> oauth_store \<Rightarrow> oauth_store" where
  "store_refresh_entry h r store = store\<lparr>refresh_tokens := AList.update h (Refresh r) (refresh_tokens store)\<rparr>"

text \<open>The end of \<^verbatim>\<open>refresh_access_token\<close>: rotate the record, store both tokens, write.\<close>

definition grant_refresh ::
  "(bytes \<Rightarrow> bytes) \<Rightarrow> oauth_manager \<Rightarrow> ustr \<Rightarrow> refresh_record \<Rightarrow> ustr \<Rightarrow> ustr \<Rightarrow> draws \<Rightarrow> oauth_store
   \<Rightarrow> oauth_store \<times> token_response" where
  "grant_refresh sha mgr h record scope resource d store =
     (let now = at_check d;
          access_token = u ''mcp_at_'' @ rnd_access d;
          store1 = store_access_token access_token
            \<lparr>tk_client_id = rf_client_id record, tk_scope = scope, tk_resource = resource,
             tk_expires_at = now + access_ttl mgr\<rparr>
            (store_refresh_entry h (rotate_record now record) store);
          (store2, refresh_token) =
            issue_refresh_token sha mgr store1 (rf_client_id record) (granted_scope mgr record)
              resource now (rf_family_id record) d
      in (store2, \<lparr>rs_access_token = access_token, rs_expires_in = access_ttl mgr,
                   rs_scope = scope, rs_refresh_token = refresh_token\<rparr>))"

definition refresh_access_token ::
  "(bytes \<Rightarrow> bytes) \<Rightarrow> oauth_manager \<Rightarrow> form \<Rightarrow> ustr \<Rightarrow> draws \<Rightarrow> oauth_disk
   \<Rightarrow> oauth_disk \<times> (oauth_error + token_response)" where
  "refresh_access_token sha mgr p base d disk =
     (let raw_token = field p ''refresh_token'';
          resource = resource_url mgr base;
          now = at_check d in
      if raw_token = [] then (disk, Inl (Invalid ''refresh_token is required''))
      else if field p ''resource'' \<noteq> [] \<and> field p ''resource'' \<noteq> resource
        then (disk, Inl (Invalid ''resource does not match this MCP server''))
      else
        let (store, pruned) = prune_refresh_tokens (read_store disk) now;
            h = token_hash sha raw_token in
        case map_of (refresh_tokens store) h of
          Some (Refresh record) \<Rightarrow>
            if map_of p ''client_id'' \<noteq> Some (rf_client_id record)
              then (disk, Inl (Invalid ''client_id mismatch''))
            else if rf_resource record \<noteq> resource
              then (disk, Inl (Invalid ''refresh token was issued for another resource''))
            else if map_of (clients store) (rf_client_id record) = None
              then (disk, Inl (Invalid ''unknown client_id''))
            else if reuse_detected now record
              then (write_store (revoke_family (rf_family_id record) store),
                    Inl (Invalid ''refresh token reuse detected; the grant was revoked''))
            else
              let requested = requested_scopes (field p ''scope'') in
              if \<not> set requested \<subseteq> set (scope_words (granted_scope mgr record))
                then (disk, Inl (Invalid ''requested scope exceeds the original grant''))
              else
                let scope = (if requested \<noteq> [] then join [32] (sort (remdups requested))
                             else granted_scope mgr record);
                    (store', response) = grant_refresh sha mgr h record scope resource d store
                in (write_store store', Inr response)
        | _ \<Rightarrow> (if pruned then write_store store else disk,
               Inl (Invalid ''invalid or expired refresh token'')))"

text \<open>The end of \<^verbatim>\<open>exchange_code\<close>: store both tokens, write.\<close>

definition grant_code ::
  "(bytes \<Rightarrow> bytes) \<Rightarrow> oauth_manager \<Rightarrow> code_record \<Rightarrow> draws \<Rightarrow> oauth_store
   \<Rightarrow> oauth_store \<times> token_response" where
  "grant_code sha mgr record d store =
     (let access_token = u ''mcp_at_'' @ rnd_access d;
          scope = (if cd_scope record \<noteq> [] then cd_scope record else scope_string mgr);
          store1 = store_access_token access_token
            \<lparr>tk_client_id = cd_client_id record, tk_scope = scope, tk_resource = cd_resource record,
             tk_expires_at = at_access d + access_ttl mgr\<rparr> store;
          (store2, refresh_token) =
            issue_refresh_token sha mgr store1 (cd_client_id record) scope
              (cd_resource record) (at_refresh d) [] d
      in (store2, \<lparr>rs_access_token = access_token, rs_expires_in = access_ttl mgr,
                   rs_scope = scope, rs_refresh_token = refresh_token\<rparr>))"

definition exchange_code ::
  "(bytes \<Rightarrow> bytes) \<Rightarrow> oauth_manager \<Rightarrow> form \<Rightarrow> ustr \<Rightarrow> draws \<Rightarrow> oauth_disk
   \<Rightarrow> oauth_disk \<times> (oauth_error + token_response)" where
  "exchange_code sha mgr p base d disk =
     (if map_of p ''grant_type'' = Some (u ''refresh_token'')
        then refresh_access_token sha mgr p base d disk
      else if map_of p ''grant_type'' \<noteq> Some (u ''authorization_code'')
        then (disk, Inl (Invalid ''grant_type must be authorization_code or refresh_token''))
      else if map_of p ''resource'' \<noteq> Some (resource_url mgr base)
        then (disk, Inl (Invalid ''resource does not match this MCP server''))
      else
        let store0 = read_store disk;
            store = store0\<lparr>codes := AList.delete (field p ''code'') (codes store0)\<rparr> in
        case map_of (codes store0) (field p ''code'') of
          None \<Rightarrow> (write_store store, Inl (Invalid ''invalid authorization code''))
        | Some record \<Rightarrow>
            if cd_expires_at record < at_check d
              then (write_store store, Inl (Invalid ''authorization code expired''))
            else if map_of p ''client_id'' \<noteq> Some (cd_client_id record)
              then (write_store store, Inl (Invalid ''client_id mismatch''))
            else if map_of p ''redirect_uri'' \<noteq> Some (cd_redirect_uri record)
              then (write_store store, Inl (Invalid ''redirect_uri mismatch''))
            else
              case pkce_s256 sha (field p ''code_verifier'') of
                None \<Rightarrow> (disk, Inl (Invalid ''ascii codec can't encode the verifier''))
              | Some expected \<Rightarrow>
                  (case compare_digest expected (cd_code_challenge record) of
                     None \<Rightarrow> (disk, Inl TypeFailure)
                   | Some False \<Rightarrow> (write_store store, Inl (Invalid ''invalid code_verifier''))
                   | Some True \<Rightarrow>
                       let (store', response) = grant_code sha mgr record d store
                       in (write_store store', Inr response)))"

section \<open>Verifying an access token\<close>

definition verify_access_token ::
  "oauth_manager \<Rightarrow> ustr \<Rightarrow> ustr \<Rightarrow> int \<Rightarrow> oauth_disk \<Rightarrow> oauth_disk \<times> bool" where
  "verify_access_token mgr tk base now disk =
     (if tk = [] then (disk, False)
      else
        let store = read_store disk in
        case map_of (tokens store) tk of
          None \<Rightarrow> (disk, False)
        | Some record \<Rightarrow>
            if tk_expires_at record < now
              then (write_store (store\<lparr>tokens := AList.delete tk (tokens store)\<rparr>), False)
            else if tk_resource record \<noteq> resource_url mgr base then (disk, False)
            else (disk, set (scopes (config mgr)) \<subseteq> set (scope_words (tk_scope record))))"

section \<open>The hidden fields of the authorization page\<close>

definition html_escape_char :: "nat \<Rightarrow> ustr" where
  "html_escape_char c =
     (if c = 38 then u ''&amp;'' else if c = 60 then u ''&lt;'' else if c = 62 then u ''&gt;''
      else if c = 34 then u ''&quot;'' else if c = 39 then u ''&#x27;'' else [c])"

definition html_escape :: "ustr \<Rightarrow> ustr" where
  "html_escape s = concat (map html_escape_char s)"

definition hidden_inputs :: "(ustr \<times> ustr) list \<Rightarrow> ustr" where
  "hidden_inputs payload =
     join [10] (map (\<lambda>(k, v). u ''<input type=\"hidden\" name=\"'' @ html_escape k @ u ''\" value=\"''
        @ html_escape v @ u ''\">'') payload)"

end
