(* ===== verification/OauthProps.thy ===== *)
theory OauthProps
  imports Oauth
begin

text \<open>
  What the authorization server guarantees over every sequence of calls: the invariant of the
  store, one-time codes, rotation and reuse detection of refresh tokens, and who can pass
  \<^verbatim>\<open>verify_access_token\<close>. The calls of \<^verbatim>\<open>oauth.py\<close> are the steps of a machine on the state of the file.
\<close>

section \<open>The machine\<close>

datatype oauth_call =
    Register dict int ustr
  | Authorize form ustr int ustr
  | Exchange form ustr draws
  | Verify ustr ustr int

fun oauth_step ::
  "(ustr \<Rightarrow> bool) \<Rightarrow> (json \<Rightarrow> ustr) \<Rightarrow> (bytes \<Rightarrow> bytes) \<Rightarrow> oauth_manager \<Rightarrow> oauth_disk \<Rightarrow> oauth_call \<Rightarrow> oauth_disk" where
  "oauth_step nok pys sha mgr disk (Register payload now rnd) = fst (register_client nok pys payload now rnd disk)"
| "oauth_step nok pys sha mgr disk (Authorize p base now rnd) = fst (authorize mgr p base now rnd disk)"
| "oauth_step nok pys sha mgr disk (Exchange p base d) = fst (exchange_code sha mgr p base d disk)"
| "oauth_step nok pys sha mgr disk (Verify tk base now) = fst (verify_access_token mgr tk base now disk)"

abbreviation oauth_run where
  "oauth_run nok pys sha mgr \<equiv> foldl (oauth_step nok pys sha mgr)"

section \<open>The invariant of the store\<close>

definition scope_ok :: "oauth_manager \<Rightarrow> ustr \<Rightarrow> bool" where
  "scope_ok mgr s \<longleftrightarrow> set (scope_words s) \<subseteq> set (scopes (config mgr))"

definition store_inv :: "(ustr \<Rightarrow> bool) \<Rightarrow> oauth_manager \<Rightarrow> oauth_store \<Rightarrow> bool" where
  "store_inv nok mgr s \<longleftrightarrow>
     distinct (map fst (clients s)) \<and> distinct (map fst (codes s)) \<and>
     distinct (map fst (tokens s)) \<and> distinct (map fst (refresh_tokens s)) \<and>
     length (clients s) \<le> max_registered_clients \<and>
     (\<forall>k c. map_of (clients s) k = Some c \<longrightarrow> list_all (is_allowed_redirect_uri nok) (cl_redirect_uris c)) \<and>
     (\<forall>k c. map_of (codes s) k = Some c \<longrightarrow>
        scope_ok mgr (cd_scope c) \<and> is_allowed_redirect_uri nok (cd_redirect_uri c)) \<and>
     (\<forall>k t. map_of (tokens s) k = Some t \<longrightarrow> scope_ok mgr (tk_scope t)) \<and>
     (\<forall>k r. map_of (refresh_tokens s) k = Some (Refresh r) \<longrightarrow> scope_ok mgr (rf_scope r))"

definition good_config :: "oauth_manager \<Rightarrow> bool" where
  "good_config mgr \<longleftrightarrow> list_all word (scopes (config mgr))"

lemma empty_store_inv: "store_inv nok mgr empty_store"
  by (simp add: store_inv_def empty_store_def)

lemma scope_words_scope_string: "good_config mgr \<Longrightarrow> scope_words (scope_string mgr) = scopes (config mgr)"
  by (simp add: good_config_def scope_words_def scope_string_def split_ws_join)

lemma scope_ok_scope_string: "good_config mgr \<Longrightarrow> scope_ok mgr (scope_string mgr)"
  by (simp add: scope_ok_def scope_words_scope_string)

lemma requested_words: "list_all word (requested_scopes s)"
  using split_ws_words [of s] by (auto simp: requested_scopes_def scope_words_def list_all_iff)

lemma scope_words_without_offline: "scope_words (without_offline_access s) = requested_scopes s"
  using requested_words [of s]
  by (simp add: scope_words_def without_offline_access_def requested_scopes_def split_ws_join)

lemma scope_words_sorted:
  "set (scope_words (join [32] (sort (remdups (requested_scopes s))))) = set (requested_scopes s)"
proof -
  have "list_all word (sort (remdups (requested_scopes s)))"
    using requested_words [of s] by (auto simp: list_all_iff)
  then show ?thesis by (simp add: scope_words_def split_ws_join)
qed

lemma prune_lookup:
  assumes "distinct (map fst (refresh_tokens s))"
  shows "map_of (refresh_tokens (fst (prune_refresh_tokens s now))) k =
    (case map_of (refresh_tokens s) k of None \<Rightarrow> None
     | Some e \<Rightarrow> if entry_expired now e then None else Some e)"
  using map_of_filter_Some [OF assms, of "\<lambda>k e. \<not> entry_expired now e" k]
  by (simp add: prune_refresh_tokens_def split: option.splits)

lemma prune_frame [simp]:
  "clients (fst (prune_refresh_tokens s now)) = clients s"
  "codes (fst (prune_refresh_tokens s now)) = codes s"
  "tokens (fst (prune_refresh_tokens s now)) = tokens s"
  by (simp_all add: prune_refresh_tokens_def)

lemma distinct_filter_keys: "distinct (map fst al) \<Longrightarrow> distinct (map fst (filter P al))"
  by (induction al) auto

lemma store_inv_filter_refresh:
  "store_inv nok mgr s \<Longrightarrow> store_inv nok mgr (s\<lparr>refresh_tokens := filter (\<lambda>(k, e). P k e) (refresh_tokens s)\<rparr>)"
  by (auto simp: store_inv_def distinct_filter_keys map_of_filter_Some split: option.splits if_splits)

lemma prune_inv: "store_inv nok mgr s \<Longrightarrow> store_inv nok mgr (fst (prune_refresh_tokens s now))"
  by (simp add: prune_refresh_tokens_def store_inv_filter_refresh)

lemma store_inv_add_token:
  "store_inv nok mgr s \<Longrightarrow> scope_ok mgr (tk_scope t) \<Longrightarrow> store_inv nok mgr (store_access_token k t s)"
  by (auto simp: store_inv_def store_access_token_def distinct_update dict_simps)

lemma store_inv_add_refresh:
  "store_inv nok mgr s \<Longrightarrow> scope_ok mgr (rf_scope r) \<Longrightarrow> store_inv nok mgr (store_refresh_entry k r s)"
  by (auto simp: store_inv_def store_refresh_entry_def distinct_update dict_simps)

lemma rotate_record_frame [simp]:
  "rf_client_id (rotate_record now r) = rf_client_id r"
  "rf_scope (rotate_record now r) = rf_scope r"
  "rf_resource (rotate_record now r) = rf_resource r"
  "rf_family_id (rotate_record now r) = rf_family_id r"
  by (simp_all add: rotate_record_def)

lemma store_inv_delete_token:
  "store_inv nok mgr s \<Longrightarrow> store_inv nok mgr (s\<lparr>tokens := AList.delete k (tokens s)\<rparr>)"
  by (auto simp: store_inv_def distinct_delete dict_simps split: if_splits)

lemma store_inv_delete_code:
  "store_inv nok mgr s \<Longrightarrow> store_inv nok mgr (s\<lparr>codes := AList.delete k (codes s)\<rparr>)"
  by (auto simp: store_inv_def distinct_delete dict_simps split: if_splits)

lemma issue_refresh_inv:
  "store_inv nok mgr s \<Longrightarrow> scope_ok mgr scope \<Longrightarrow>
   store_inv nok mgr (fst (issue_refresh_token sha mgr s cid scope res now fam d))"
  by (simp add: issue_refresh_token_def Let_def store_inv_add_refresh prune_inv
      flip: store_refresh_entry_def)

text \<open>Registration.\<close>

lemma register_inv:
  assumes inv: "store_inv nok mgr (read_store disk)"
  shows "store_inv nok mgr (read_store (fst (register_client nok pys payload now rnd disk)))"
proof -
  have "store_inv nok mgr (s\<lparr>clients := AList.update k c (clients s)\<rparr>)"
    if "store_inv nok mgr s" "length (clients s) < max_registered_clients"
      "list_all (is_allowed_redirect_uri nok) (cl_redirect_uris c)" for s k c
    using that length_update_le [of k c "clients s"]
    by (auto simp: store_inv_def distinct_update dict_simps)
  with inv show ?thesis
    by (auto simp: register_client_def Let_def not_le split: option.splits json.splits list.splits)
qed

lemma authorize_cases:
  obtains (error) e where "authorize mgr p base now rnd disk = (disk, Inl e)"
  | (issued) c where "authorize mgr p base now rnd disk = issue_code mgr p now rnd (read_store disk)"
      "login_token (config mgr) \<noteq> []" "field p ''login_token'' = login_token (config mgr)"
      "map_of p ''response_type'' = Some (u ''code'')" "map_of p ''resource'' = Some (resource_url mgr base)"
      "map_of (clients (read_store disk)) (field p ''client_id'') = Some c"
      "field p ''redirect_uri'' \<in> set (cl_redirect_uris c)"
      "set (requested_scopes (field p ''scope'')) \<subseteq> set (scopes (config mgr))"
proof (cases "\<exists>e. authorize mgr p base now rnd disk = (disk, Inl e)")
  case False
  then have F: "authorize mgr p base now rnd disk \<noteq> (disk, Inl e)" for e by blast
  have lt: "login_token (config mgr) \<noteq> []"
    using F [of "PermissionDenied ''oauth login token is not configured''"] by (auto simp: authorize_def)
  have "compare_digest (field p ''login_token'') (login_token (config mgr)) = Some True"
    using F [of TypeFailure] F [of "PermissionDenied ''invalid login token''"] lt
    by (auto simp: authorize_def split: option.splits bool.splits)
  then have eq: "field p ''login_token'' = login_token (config mgr)"
    and cd: "compare_digest (login_token (config mgr)) (login_token (config mgr)) = Some True"
    by (auto simp: compare_digest_def split: if_splits)
  have rt: "map_of p ''response_type'' = Some (u ''code'')"
    using F [of "Invalid ''response_type must be code''"] lt
    by (cases "map_of p ''response_type'' = Some (u ''code'')") (simp_all add: authorize_def eq cd)
  from lt rt obtain c where "map_of p ''resource'' = Some (resource_url mgr base)"
    and "map_of (clients (read_store disk)) (field p ''client_id'') = Some c"
    and "field p ''redirect_uri'' \<in> set (cl_redirect_uris c)"
    and "set (requested_scopes (field p ''scope'')) \<subseteq> set (scopes (config mgr))"
    and "authorize mgr p base now rnd disk = issue_code mgr p now rnd (read_store disk)"
    using F [of "Invalid ''PKCE S256 is required''"] F [of "Invalid ''resource does not match this MCP server''"]
      F [of "Invalid ''unknown client_id''"] F [of "Invalid ''redirect_uri is not registered''"]
      F [of "Invalid ''requested scope is not supported''"]
    by (simp add: authorize_def eq cd Let_def split: if_splits option.splits)
  then show thesis using lt eq rt by (intro issued)
qed (auto intro: error)

lemma issue_code_store:
  "fst (issue_code mgr p now rnd store) = write_store (store\<lparr>codes := AList.update (u ''mcp_code_'' @ rnd)
     \<lparr>cd_client_id = field p ''client_id'', cd_redirect_uri = field p ''redirect_uri'',
      cd_code_challenge = field p ''code_challenge'',
      cd_scope = (if without_offline_access (field p ''scope'') \<noteq> []
                  then without_offline_access (field p ''scope'') else scope_string mgr),
      cd_resource = field p ''resource'', cd_expires_at = now + 300\<rparr> (codes store)\<rparr>)"
  by (simp add: issue_code_def Let_def)

lemma authorize_inv:
  assumes inv: "store_inv nok mgr (read_store disk)" and cfg: "good_config mgr"
  shows "store_inv nok mgr (read_store (fst (authorize mgr p base now rnd disk)))"
proof -
  have add: "store_inv nok mgr (s\<lparr>codes := AList.update k c (codes s)\<rparr>)"
    if "store_inv nok mgr s" "scope_ok mgr (cd_scope c)" "is_allowed_redirect_uri nok (cd_redirect_uri c)" for s k c
    using that by (auto simp: store_inv_def distinct_update dict_simps)
  have scope: "scope_ok mgr (without_offline_access s)" "scope_ok mgr (scope_string mgr)"
    if "set (requested_scopes s) \<subseteq> set (scopes (config mgr))" for s
    using that cfg by (simp_all add: scope_ok_def scope_words_without_offline scope_words_scope_string)
  have uri: "is_allowed_redirect_uri nok x"
    if "map_of (clients (read_store disk)) k = Some c" "x \<in> set (cl_redirect_uris c)" for k c x
    using inv that by (auto simp: store_inv_def list_all_iff)
  show ?thesis
  proof (cases rule: authorize_cases [of mgr p base now rnd disk])
    case (issued c)
    then show ?thesis
      using scope uri
      by (cases "without_offline_access (field p ''scope'') = []") (simp_all add: issue_code_store add inv)
  qed (simp add: inv)
qed

lemma grant_refresh_inv:
  "store_inv nok mgr s \<Longrightarrow> scope_ok mgr (rf_scope r) \<Longrightarrow> scope_ok mgr (granted_scope mgr r) \<Longrightarrow>
   scope_ok mgr scope \<Longrightarrow> store_inv nok mgr (fst (grant_refresh sha mgr h r scope res d s))"
  by (simp add: grant_refresh_def Let_def case_prod_unfold issue_refresh_inv
      store_inv_add_token store_inv_add_refresh)

lemma grant_code_inv:
  "store_inv nok mgr s \<Longrightarrow> scope_ok mgr (if cd_scope r \<noteq> [] then cd_scope r else scope_string mgr) \<Longrightarrow>
   store_inv nok mgr (fst (grant_code sha mgr r d s))"
  by (auto simp: grant_code_def Let_def case_prod_unfold intro!: issue_refresh_inv store_inv_add_token)

lemma revoke_inv: "store_inv nok mgr s \<Longrightarrow> store_inv nok mgr (revoke_family fam s)"
  by (simp add: revoke_family_def store_inv_filter_refresh)

text \<open>What \<^verbatim>\<open>refresh_access_token\<close> can do to the file: nothing, prune, revoke, or grant.\<close>

lemma refresh_cases:
  assumes "refresh_access_token sha mgr p base d disk = (disk', res)"
  obtains (error) e where "res = Inl e" "disk' = disk"
  | (pruned) e where "res = Inl e" "disk' = write_store (fst (prune_refresh_tokens (read_store disk) (at_check d)))"
  | (reuse) e r where "res = Inl e" "reuse_detected (at_check d) r"
      "map_of (refresh_tokens (fst (prune_refresh_tokens (read_store disk) (at_check d))))
         (token_hash sha (field p ''refresh_token'')) = Some (Refresh r)"
      "disk' = write_store (revoke_family (rf_family_id r)
         (fst (prune_refresh_tokens (read_store disk) (at_check d))))"
  | (granted) r scope resp where "res = Inr resp" "\<not> reuse_detected (at_check d) r"
      "map_of (refresh_tokens (fst (prune_refresh_tokens (read_store disk) (at_check d))))
         (token_hash sha (field p ''refresh_token'')) = Some (Refresh r)"
      "map_of p ''client_id'' = Some (rf_client_id r)" "rf_resource r = resource_url mgr base"
      "map_of (clients (read_store disk)) (rf_client_id r) \<noteq> None"
      "set (scope_words scope) \<subseteq> set (scope_words (granted_scope mgr r))"
      "(write_store (fst (grant_refresh sha mgr (token_hash sha (field p ''refresh_token'')) r scope
          (resource_url mgr base) d (fst (prune_refresh_tokens (read_store disk) (at_check d))))),
        snd (grant_refresh sha mgr (token_hash sha (field p ''refresh_token'')) r scope
          (resource_url mgr base) d (fst (prune_refresh_tokens (read_store disk) (at_check d))))) = (disk', resp)"
proof -
  let ?st = "fst (prune_refresh_tokens (read_store disk) (at_check d))"
  let ?h = "token_hash sha (field p ''refresh_token'')"
  let ?req = "requested_scopes (field p ''scope'')"
  show thesis
  proof (cases "map_of (refresh_tokens ?st) ?h")
    case None
    with assms show thesis
      by (auto simp: refresh_access_token_def Let_def case_prod_unfold split: if_splits
          intro: error pruned)
  next
    case (Some e)
    show thesis
    proof (cases e)
      case Malformed
      with Some assms show thesis
        by (auto simp: refresh_access_token_def Let_def case_prod_unfold split: if_splits
            intro: error pruned)
    next
      case (Refresh r)
      have sub: "set (scope_words (if ?req \<noteq> [] then join [32] (sort (remdups ?req)) else granted_scope mgr r))
          \<subseteq> set (scope_words (granted_scope mgr r))"
        if "set ?req \<subseteq> set (scope_words (granted_scope mgr r))"
        using that scope_words_sorted [of "field p ''scope''"] by simp
      show thesis
      proof (cases "\<exists>err. res = Inl err \<and> (disk' = disk)")
        case True
        then show thesis by (auto intro: error)
      next
        case False
        show thesis
        proof (cases "reuse_detected (at_check d) r")
          case reused: True
          with assms Some Refresh False show thesis
            by (auto simp: refresh_access_token_def Let_def case_prod_unfold split: if_splits intro: reuse)
        next
          case fresh: False
          from assms Some Refresh False fresh
          have "map_of p ''client_id'' = Some (rf_client_id r)" "rf_resource r = resource_url mgr base"
            "map_of (clients (read_store disk)) (rf_client_id r) \<noteq> None"
            "set ?req \<subseteq> set (scope_words (granted_scope mgr r))"
            by (auto simp: refresh_access_token_def Let_def case_prod_unfold split: if_splits)
          note facts = this
          let ?scope = "if ?req \<noteq> [] then join [32] (sort (remdups ?req)) else granted_scope mgr r"
          let ?g = "grant_refresh sha mgr ?h r ?scope (resource_url mgr base) d ?st"
          from assms Some Refresh False fresh facts
          have "disk' = write_store (fst ?g)" "res = Inr (snd ?g)"
            by (auto simp: refresh_access_token_def Let_def case_prod_unfold split: if_splits)
          with Some Refresh fresh facts sub show thesis
            by (intro granted [where r = r and scope = ?scope]) simp_all
        qed
      qed
    qed
  qed
qed

lemma refresh_inv:
  assumes inv: "store_inv nok mgr (read_store disk)" and cfg: "good_config mgr"
    and run: "refresh_access_token sha mgr p base d disk = (disk', res)"
  shows "store_inv nok mgr (read_store disk')"
  using run
proof (cases rule: refresh_cases)
  case (granted r scope resp)
  let ?st = "fst (prune_refresh_tokens (read_store disk) (at_check d))"
  have ist: "store_inv nok mgr ?st" by (rule prune_inv [OF inv])
  with granted(3) have rs: "scope_ok mgr (rf_scope r)" by (auto simp: store_inv_def)
  with cfg have gs: "scope_ok mgr (granted_scope mgr r)"
    by (simp add: granted_scope_def scope_ok_scope_string)
  with granted(7) have "scope_ok mgr scope" by (auto simp: scope_ok_def)
  from grant_refresh_inv [OF ist rs gs this] granted(8) show ?thesis by auto
qed (auto simp: inv prune_inv revoke_inv)

text \<open>What \<^verbatim>\<open>exchange_code\<close> can do with an authorization code.\<close>

lemma exchange_cases:
  assumes run: "exchange_code sha mgr p base d disk = (disk', res)"
    and grant: "map_of p ''grant_type'' \<noteq> Some (u ''refresh_token'')"
  obtains (error) e where "res = Inl e" "disk' = disk"
  | (burned) e where "res = Inl e"
      "disk' = write_store ((read_store disk)\<lparr>codes := AList.delete (field p ''code'') (codes (read_store disk))\<rparr>)"
  | (granted) r resp where "res = Inr resp" "map_of (codes (read_store disk)) (field p ''code'') = Some r"
      "at_check d \<le> cd_expires_at r" "map_of p ''client_id'' = Some (cd_client_id r)"
      "map_of p ''redirect_uri'' = Some (cd_redirect_uri r)"
      "pkce_s256 sha (field p ''code_verifier'') = Some (cd_code_challenge r)"
      "map_of p ''resource'' = Some (resource_url mgr base)"
      "(write_store (fst (grant_code sha mgr r d
          ((read_store disk)\<lparr>codes := AList.delete (field p ''code'') (codes (read_store disk))\<rparr>))),
        snd (grant_code sha mgr r d
          ((read_store disk)\<lparr>codes := AList.delete (field p ''code'') (codes (read_store disk))\<rparr>))) = (disk', resp)"
proof (cases "\<exists>e. res = Inl e \<and> disk' = disk")
  case True
  then show thesis by (auto intro: error)
next
  case False
  let ?c = "field p ''code''"
  let ?st = "(read_store disk)\<lparr>codes := AList.delete ?c (codes (read_store disk))\<rparr>"
  show thesis
  proof (cases "\<exists>e. res = Inl e \<and> disk' = write_store ?st")
    case True
    then show thesis by (auto intro: burned)
  next
    case nb: False
    from run grant False nb obtain r where r: "map_of (codes (read_store disk)) ?c = Some r"
      by (auto simp: exchange_code_def Let_def split: if_splits option.splits)
    from run grant False nb r have facts: "at_check d \<le> cd_expires_at r"
      "map_of p ''client_id'' = Some (cd_client_id r)" "map_of p ''redirect_uri'' = Some (cd_redirect_uri r)"
      "map_of p ''resource'' = Some (resource_url mgr base)"
      by (auto simp: exchange_code_def Let_def split: if_splits)
    from run grant False nb r facts
    have pk: "pkce_s256 sha (field p ''code_verifier'') = Some (cd_code_challenge r)"
      by (auto simp: exchange_code_def Let_def compare_digest_def split: if_splits option.splits bool.splits)
    from run grant False nb r facts pk
    have "disk' = write_store (fst (grant_code sha mgr r d ?st))" "res = Inr (snd (grant_code sha mgr r d ?st))"
      by (auto simp: exchange_code_def Let_def case_prod_unfold compare_digest_def
          split: if_splits option.splits bool.splits)
    with r facts pk show thesis by (intro granted) simp_all
  qed
qed

lemma exchange_inv:
  assumes inv: "store_inv nok mgr (read_store disk)" and cfg: "good_config mgr"
    and run: "exchange_code sha mgr p base d disk = (disk', res)"
  shows "store_inv nok mgr (read_store disk')"
proof (cases "map_of p ''grant_type'' = Some (u ''refresh_token'')")
  case True
  with run have "refresh_access_token sha mgr p base d disk = (disk', res)"
    by (simp add: exchange_code_def)
  then show ?thesis by (rule refresh_inv [OF inv cfg])
next
  case False
  from run False show ?thesis
  proof (cases rule: exchange_cases)
    case (granted r resp)
    from granted(2) inv have "scope_ok mgr (cd_scope r)" by (auto simp: store_inv_def)
    with cfg have "scope_ok mgr (if cd_scope r \<noteq> [] then cd_scope r else scope_string mgr)"
      by (simp add: scope_ok_scope_string)
    from grant_code_inv [OF store_inv_delete_code [OF inv] this] granted(8) show ?thesis by auto
  qed (auto simp: inv store_inv_delete_code)
qed

lemma verify_inv:
  "store_inv nok mgr (read_store disk) \<Longrightarrow>
   store_inv nok mgr (read_store (fst (verify_access_token mgr tk base now disk)))"
  by (auto simp: verify_access_token_def Let_def store_inv_delete_token split: option.splits)

lemma oauth_step_inv:
  "good_config mgr \<Longrightarrow> store_inv nok mgr (read_store disk) \<Longrightarrow>
   store_inv nok mgr (read_store (oauth_step nok pys sha mgr disk c))"
proof (cases c)
  case (Exchange p base d)
  assume "good_config mgr" "store_inv nok mgr (read_store disk)"
  then show ?thesis using Exchange by (auto intro: exchange_inv simp: prod_eq_iff)
qed (auto simp: register_inv authorize_inv verify_inv)

interpretation oauth_machine: invariant_machine
  "oauth_step nok pys sha mgr" "\<lambda>disk. good_config mgr \<and> store_inv nok mgr (read_store disk)"
  for nok :: "ustr \<Rightarrow> bool" and pys :: "json \<Rightarrow> ustr" and sha :: "bytes \<Rightarrow> bytes" and mgr :: oauth_manager
  by unfold_locales (simp add: oauth_step_inv)

section \<open>What the grants store\<close>

lemma store_access_token_frame [simp]:
  "clients (store_access_token k r s) = clients s" "codes (store_access_token k r s) = codes s"
  "refresh_tokens (store_access_token k r s) = refresh_tokens s"
  "map_of (tokens (store_access_token k r s)) = (map_of (tokens s))(k \<mapsto> r)"
  by (simp_all add: store_access_token_def dict_simps)

lemma store_refresh_entry_frame [simp]:
  "clients (store_refresh_entry k r s) = clients s" "codes (store_refresh_entry k r s) = codes s"
  "tokens (store_refresh_entry k r s) = tokens s"
  "map_of (refresh_tokens (store_refresh_entry k r s)) = (map_of (refresh_tokens s))(k \<mapsto> Refresh r)"
  by (simp_all add: store_refresh_entry_def dict_simps)

lemma issue_refresh_frame [simp]:
  "clients (fst (issue_refresh_token sha mgr s cid scope res now fam d)) = clients s"
  "codes (fst (issue_refresh_token sha mgr s cid scope res now fam d)) = codes s"
  "tokens (fst (issue_refresh_token sha mgr s cid scope res now fam d)) = tokens s"
  by (simp_all add: issue_refresh_token_def Let_def)

lemma issue_refresh_entry:
  "map_of (refresh_tokens (fst (issue_refresh_token sha mgr s cid scope res now fam d)))
     (token_hash sha (snd (issue_refresh_token sha mgr s cid scope res now fam d))) =
   Some (Refresh \<lparr>rf_client_id = cid, rf_scope = scope, rf_resource = res,
     rf_family_id = (if fam \<noteq> [] then fam else u ''rtf_'' @ rnd_family d),
     rf_created_at = now, rf_expires_at = now + max (oauth_refresh_ttl (config mgr)) 60,
     rf_rotated_at = None\<rparr>)"
  by (simp add: issue_refresh_token_def Let_def dict_simps)

lemma grant_code_store:
  "clients (fst (grant_code sha mgr r d s)) = clients s"
  "codes (fst (grant_code sha mgr r d s)) = codes s"
  "map_of (tokens (fst (grant_code sha mgr r d s))) = (map_of (tokens s))
     (rs_access_token (snd (grant_code sha mgr r d s)) \<mapsto>
        \<lparr>tk_client_id = cd_client_id r, tk_scope = rs_scope (snd (grant_code sha mgr r d s)),
         tk_resource = cd_resource r, tk_expires_at = at_access d + access_ttl mgr\<rparr>)"
  "rs_access_token (snd (grant_code sha mgr r d s)) = u ''mcp_at_'' @ rnd_access d"
  by (simp_all add: grant_code_def Let_def case_prod_unfold)

lemma grant_refresh_store:
  "clients (fst (grant_refresh sha mgr h r scope res d s)) = clients s"
  "codes (fst (grant_refresh sha mgr h r scope res d s)) = codes s"
  "map_of (tokens (fst (grant_refresh sha mgr h r scope res d s))) = (map_of (tokens s))
     (u ''mcp_at_'' @ rnd_access d \<mapsto>
        \<lparr>tk_client_id = rf_client_id r, tk_scope = scope,
         tk_resource = res, tk_expires_at = at_check d + access_ttl mgr\<rparr>)"
  "rs_access_token (snd (grant_refresh sha mgr h r scope res d s)) = u ''mcp_at_'' @ rnd_access d"
  "rs_scope (snd (grant_refresh sha mgr h r scope res d s)) = scope"
  by (simp_all add: grant_refresh_def Let_def case_prod_unfold)

lemma grant_refresh_new_entry:
  "map_of (refresh_tokens (fst (grant_refresh sha mgr h r scope res d s)))
     (token_hash sha (rs_refresh_token (snd (grant_refresh sha mgr h r scope res d s)))) =
   Some (Refresh \<lparr>rf_client_id = rf_client_id r, rf_scope = granted_scope mgr r, rf_resource = res,
     rf_family_id = (if rf_family_id r \<noteq> [] then rf_family_id r else u ''rtf_'' @ rnd_family d),
     rf_created_at = at_check d,
     rf_expires_at = at_check d + max (oauth_refresh_ttl (config mgr)) 60, rf_rotated_at = None\<rparr>)"
  by (simp add: grant_refresh_def Let_def case_prod_unfold issue_refresh_entry)

text \<open>Which codes a call can add.\<close>

lemma exchange_codes:
  assumes "exchange_code sha mgr p base d disk = (disk', res)"
  shows "map_of (codes (read_store disk')) c = map_of (codes (read_store disk)) c \<or>
    map_of (codes (read_store disk')) c = None"
proof (cases "map_of p ''grant_type'' = Some (u ''refresh_token'')")
  case True
  with assms have "refresh_access_token sha mgr p base d disk = (disk', res)"
    by (simp add: exchange_code_def)
  then show ?thesis
    by (cases rule: refresh_cases) (auto simp: grant_refresh_store revoke_family_def)
next
  case False
  from assms False show ?thesis
  proof (cases rule: exchange_cases)
    case (granted r resp)
    then have "codes (read_store disk') = AList.delete (field p ''code'') (codes (read_store disk))"
      by (auto simp: grant_code_store)
    then show ?thesis by (simp add: dict_simps)
  qed (simp_all add: dict_simps)
qed

lemma register_disk:
  "fst (register_client nok pys p now rnd disk) = disk \<or>
   (\<exists>al. fst (register_client nok pys p now rnd disk) = write_store ((read_store disk)\<lparr>clients := al\<rparr>))"
proof (cases "map_of p ''redirect_uris''")
  case (Some j)
  show ?thesis
  proof (cases j)
    case (JList xs)
    with Some show ?thesis
      by (cases xs) (simp_all add: register_client_def Let_def split: option.splits if_splits, blast)
  qed (simp_all add: register_client_def Some)
qed (simp add: register_client_def)

lemma register_grants:
  "codes (read_store (fst (register_client nok pys p now rnd disk))) = codes (read_store disk)"
  "tokens (read_store (fst (register_client nok pys p now rnd disk))) = tokens (read_store disk)"
  "refresh_tokens (read_store (fst (register_client nok pys p now rnd disk))) = refresh_tokens (read_store disk)"
  using register_disk [of nok pys p now rnd disk] by auto

lemma step_codes:
  assumes "\<And>p base now rnd. call = Authorize p base now rnd \<Longrightarrow> c \<noteq> u ''mcp_code_'' @ rnd"
    and "map_of (codes (read_store disk)) c = None"
  shows "map_of (codes (read_store (oauth_step nok pys sha mgr disk call))) c = None"
proof (cases call)
  case (Register payload now rnd)
  with assms(2) show ?thesis by (simp add: register_grants)
next
  case (Authorize p base now rnd)
  have "c \<noteq> u ''mcp_code_'' @ rnd" by (rule assms(1) [OF Authorize])
  then show ?thesis
    by (cases rule: authorize_cases [of mgr p base now rnd disk])
       (simp_all add: Authorize assms(2) issue_code_store dict_simps del: map_append)
next
  case (Exchange p base d)
  with assms(2) exchange_codes [of sha mgr p base d disk "fst (exchange_code sha mgr p base d disk)"
      "snd (exchange_code sha mgr p base d disk)" c]
  show ?thesis by auto
next
  case (Verify tk base now)
  with assms(2) show ?thesis by (simp add: verify_access_token_def Let_def split: option.split)
qed

lemma run_codes:
  assumes "\<And>p base now rnd. Authorize p base now rnd \<in> set calls \<Longrightarrow> c \<noteq> u ''mcp_code_'' @ rnd"
    and "map_of (codes (read_store disk)) c = None"
  shows "map_of (codes (read_store (oauth_run nok pys sha mgr disk calls))) c = None"
  using assms
proof (induction calls arbitrary: disk)
  case (Cons call calls)
  have "map_of (codes (read_store (oauth_step nok pys sha mgr disk call))) c = None"
    using Cons.prems by (intro step_codes) auto
  moreover have "c \<noteq> u ''mcp_code_'' @ rnd" if "Authorize p base now rnd \<in> set calls" for p base now rnd
    using Cons.prems(1) [of p base now rnd] that by simp
  ultimately have "map_of (codes (read_store (oauth_run nok pys sha mgr
      (oauth_step nok pys sha mgr disk call) calls))) c = None"
    by (intro Cons.IH)
  then show ?case by simp
qed simp

text \<open>Without the login token nothing is ever stored but clients.\<close>

definition no_grants :: "oauth_store \<Rightarrow> bool" where
  "no_grants s \<longleftrightarrow> codes s = [] \<and> tokens s = [] \<and> refresh_tokens s = []"

definition unauthorized_call :: "oauth_manager \<Rightarrow> oauth_call \<Rightarrow> bool" where
  "unauthorized_call mgr c =
     (case c of Authorize p base now rnd \<Rightarrow> field p ''login_token'' \<noteq> login_token (config mgr) | _ \<Rightarrow> True)"

lemma unauthorized_authorize:
  "field p ''login_token'' \<noteq> login_token (config mgr) \<Longrightarrow> fst (authorize mgr p base now rnd disk) = disk"
  by (simp add: authorize_def compare_digest_def)

lemma refresh_no_grants:
  assumes ng: "no_grants (read_store disk)"
    and run: "refresh_access_token sha mgr p base d disk = (disk', res)"
  shows "no_grants (read_store disk') \<and> (\<forall>resp. res \<noteq> Inr resp)"
  using run
proof (cases rule: refresh_cases)
  case (granted r scope resp)
  with ng show ?thesis by (simp add: no_grants_def prune_refresh_tokens_def)
qed (use ng in \<open>auto simp: no_grants_def prune_refresh_tokens_def revoke_family_def\<close>)

lemma exchange_no_grants:
  assumes ng: "no_grants (read_store disk)"
    and run: "exchange_code sha mgr p base d disk = (disk', res)"
  shows "no_grants (read_store disk')"
proof (cases "map_of p ''grant_type'' = Some (u ''refresh_token'')")
  case True
  with run have "refresh_access_token sha mgr p base d disk = (disk', res)"
    by (simp add: exchange_code_def)
  then show ?thesis using refresh_no_grants [OF ng] by blast
next
  case False
  from run False show ?thesis
  proof (cases rule: exchange_cases)
    case (granted r resp)
    with ng show ?thesis by (simp add: no_grants_def)
  qed (use ng in \<open>auto simp: no_grants_def\<close>)
qed

lemma step_no_grants:
  assumes ng: "no_grants (read_store disk)" and un: "unauthorized_call mgr call"
  shows "no_grants (read_store (oauth_step nok pys sha mgr disk call))"
proof (cases call)
  case (Register payload now rnd)
  with ng show ?thesis by (simp add: no_grants_def register_grants)
next
  case (Authorize p base now rnd)
  with ng un show ?thesis by (simp add: unauthorized_call_def unauthorized_authorize)
next
  case (Exchange p base d)
  with exchange_no_grants [OF ng, of sha mgr p base d] show ?thesis by (simp add: prod_eq_iff)
next
  case (Verify tk base now)
  with ng show ?thesis by (simp add: no_grants_def verify_access_token_def Let_def)
qed

lemma run_no_grants:
  "no_grants (read_store disk) \<Longrightarrow> list_all (unauthorized_call mgr) calls \<Longrightarrow>
   no_grants (read_store (oauth_run nok pys sha mgr disk calls))"
  by (induction calls arbitrary: disk) (auto intro: step_no_grants)

end
