(* ===== verification/OauthClaims.thy ===== *)
theory OauthClaims
  imports OauthProps
begin

text \<open>
  The properties of the authorization server, each over the definitions of \<open>Oauth\<close> or over runs of
  the machine of \<open>OauthProps\<close>, with a concrete run as witness.
\<close>

section \<open>Helper lemmas\<close>

lemma exchange_granted_disk:
  assumes run: "exchange_code sha mgr p base d disk = (disk', Inr resp)"
    and grant: "map_of p ''grant_type'' \<noteq> Some (u ''refresh_token'')"
  obtains r where "map_of (codes (read_store disk)) (field p ''code'') = Some r"
    "at_check d \<le> cd_expires_at r" "map_of p ''client_id'' = Some (cd_client_id r)"
    "map_of p ''redirect_uri'' = Some (cd_redirect_uri r)"
    "pkce_s256 sha (field p ''code_verifier'') = Some (cd_code_challenge r)"
    "map_of p ''resource'' = Some (resource_url mgr base)"
    "map_of (codes (read_store disk')) (field p ''code'') = None"
    "map_of (tokens (read_store disk')) (rs_access_token resp) =
       Some \<lparr>tk_client_id = cd_client_id r, tk_scope = rs_scope resp, tk_resource = cd_resource r,
             tk_expires_at = at_access d + access_ttl mgr\<rparr>"
  using run grant
proof (cases rule: exchange_cases)
  case (granted r resp')
  let ?s = "(read_store disk)\<lparr>codes := AList.delete (field p ''code'') (codes (read_store disk))\<rparr>"
  from granted have d: "disk' = write_store (fst (grant_code sha mgr r d ?s))"
    and e: "resp = snd (grant_code sha mgr r d ?s)" by auto
  have "map_of (codes (read_store disk')) (field p ''code'') = None"
    using grant_code_store(2) [of sha mgr r d ?s] by (simp add: d dict_simps)
  moreover have "map_of (tokens (read_store disk')) (rs_access_token resp) =
       Some \<lparr>tk_client_id = cd_client_id r, tk_scope = rs_scope resp, tk_resource = cd_resource r,
             tk_expires_at = at_access d + access_ttl mgr\<rparr>"
    using grant_code_store(3) [of sha mgr r d ?s] by (simp add: d e)
  ultimately show thesis using granted that by blast
qed auto

lemma refresh_granted_disk:
  assumes run: "refresh_access_token sha mgr p base d disk = (disk', Inr resp)"
  obtains r where "map_of (refresh_tokens (fst (prune_refresh_tokens (read_store disk) (at_check d))))
        (token_hash sha (field p ''refresh_token'')) = Some (Refresh r)"
    "map_of p ''client_id'' = Some (rf_client_id r)" "rf_resource r = resource_url mgr base"
    "\<not> reuse_detected (at_check d) r"
    "set (scope_words (rs_scope resp)) \<subseteq> set (scope_words (granted_scope mgr r))"
    "map_of (refresh_tokens (read_store disk')) (token_hash sha (rs_refresh_token resp)) =
       Some (Refresh \<lparr>rf_client_id = rf_client_id r, rf_scope = granted_scope mgr r,
         rf_resource = resource_url mgr base,
         rf_family_id = (if rf_family_id r \<noteq> [] then rf_family_id r else u ''rtf_'' @ rnd_family d),
         rf_created_at = at_check d,
         rf_expires_at = at_check d + max (oauth_refresh_ttl (config mgr)) 60, rf_rotated_at = None\<rparr>)"
    "map_of (tokens (read_store disk')) (rs_access_token resp) =
       Some \<lparr>tk_client_id = rf_client_id r, tk_scope = rs_scope resp, tk_resource = resource_url mgr base,
             tk_expires_at = at_check d + access_ttl mgr\<rparr>"
  using run
proof (cases rule: refresh_cases)
  case (granted r scope resp')
  let ?h = "token_hash sha (field p ''refresh_token'')"
  let ?s = "fst (prune_refresh_tokens (read_store disk) (at_check d))"
  let ?g = "grant_refresh sha mgr ?h r scope (resource_url mgr base) d ?s"
  from granted have d: "disk' = write_store (fst ?g)" and e: "resp = snd ?g" by auto
  have "map_of (tokens (read_store disk')) (rs_access_token resp) =
       Some \<lparr>tk_client_id = rf_client_id r, tk_scope = rs_scope resp, tk_resource = resource_url mgr base,
             tk_expires_at = at_check d + access_ttl mgr\<rparr>"
    using grant_refresh_store(3-5) [of sha mgr ?h r scope "resource_url mgr base" d ?s] by (simp add: d e)
  moreover note grant_refresh_new_entry [of sha mgr ?h r scope "resource_url mgr base" d ?s]
  moreover have "rs_scope resp = scope" by (simp add: e grant_refresh_store)
  ultimately show thesis using granted that d e by simp
qed auto

lemma verify_stored_token:
  assumes "tk \<noteq> []" and "map_of (tokens (read_store disk)) tk = Some r" and "tk_resource r = resource_url mgr base"
  shows "snd (verify_access_token mgr tk base now disk) =
    (now \<le> tk_expires_at r \<and> set (scopes (config mgr)) \<subseteq> set (scope_words (tk_scope r)))"
  using assms by (auto simp: verify_access_token_def Let_def)

text \<open>Escaped characters are a prefix code without the characters of markup.\<close>

lemma html_escape_char_prefix:
  "html_escape_char c @ x = html_escape_char d @ y \<Longrightarrow> c = d \<and> x = y"
  by (auto simp: html_escape_char_def split: if_splits)

lemma html_escape_char_neq [simp]: "html_escape_char c \<noteq> []"
  by (simp add: html_escape_char_def)

lemma html_escape_Cons: "html_escape (c # s) = html_escape_char c @ html_escape s"
  by (simp add: html_escape_def)

lemma html_escape_inj: "html_escape s = html_escape t \<Longrightarrow> s = t"
proof (induction s arbitrary: t)
  case Nil
  then show ?case by (cases t) (auto simp: html_escape_Cons html_escape_def)
next
  case (Cons c s)
  then show ?case
    by (cases t) (auto simp: html_escape_Cons dest: html_escape_char_prefix, auto simp: html_escape_def)
qed

lemma html_escape_safe: "set (html_escape s) \<inter> {60, 62, 34, 39} = {}"
  by (induction s) (auto simp: html_escape_Cons html_escape_char_def html_escape_def)

section \<open>A run to witness the properties\<close>

text \<open>The server's test configuration, a client, one authorization and its code.\<close>

definition toy_sha :: "bytes \<Rightarrow> bytes" where
  "toy_sha b = take 32 (b @ replicate 32 0)"

definition sample_mgr :: oauth_manager where
  "sample_mgr = \<lparr>config = \<lparr>auth_mode = u ''oauth'', auth_token = u ''pw'', public_base_url = u ''https://h'',
      oauth_login_token = [], oauth_scopes = [], oauth_token_ttl = 3600, oauth_refresh_ttl = 86400\<rparr>,
    mcp_path = u ''/mcp'', manager_base_url = u ''https://h''\<rparr>"

definition sample_code :: code_record where
  "sample_code = \<lparr>cd_client_id = u ''c1'', cd_redirect_uri = u ''https://a/cb'',
     cd_code_challenge = b64_unpadded (toy_sha (u ''v'')), cd_scope = u ''local-ops'',
     cd_resource = u ''https://h/mcp'', cd_expires_at = 400\<rparr>"

definition sample_refresh :: refresh_record where
  "sample_refresh = \<lparr>rf_client_id = u ''c1'', rf_scope = u ''local-ops'', rf_resource = u ''https://h/mcp'',
     rf_family_id = u ''f1'', rf_created_at = 0, rf_expires_at = 9000, rf_rotated_at = None\<rparr>"

definition sample_disk :: oauth_disk where
  "sample_disk = StoreFile
     \<lparr>clients = [(u ''c1'', \<lparr>cl_client_id = u ''c1'', cl_client_name = u ''x'',
                    cl_redirect_uris = [u ''https://a/cb''], cl_created_at = 0\<rparr>)],
      codes = [(u ''mcp_code_k'', sample_code)], tokens = [],
      refresh_tokens = [(token_hash toy_sha (u ''r1''), Refresh sample_refresh)]\<rparr>"

definition sample_form :: form where
  "sample_form = [(''grant_type'', u ''authorization_code''), (''resource'', u ''https://h/mcp''),
     (''code'', u ''mcp_code_k''), (''client_id'', u ''c1''), (''redirect_uri'', u ''https://a/cb''),
     (''code_verifier'', u ''v'')]"

definition sample_refresh_form :: form where
  "sample_refresh_form = [(''grant_type'', u ''refresh_token''), (''refresh_token'', u ''r1''), (''client_id'', u ''c1'')]"

definition sample_draws :: draws where
  "sample_draws = \<lparr>at_check = 100, at_access = 100, at_refresh = 100, rnd_access = u ''a'',
     rnd_refresh = u ''b'', rnd_family = u ''f''\<rparr>"

lemmas sample_defs = toy_sha_def sample_mgr_def sample_code_def sample_refresh_def sample_disk_def
  sample_form_def sample_refresh_form_def sample_draws_def

lemma sample_exchange:
  "exchange_code toy_sha sample_mgr sample_form (u ''https://h'') sample_draws sample_disk =
     (fst (exchange_code toy_sha sample_mgr sample_form (u ''https://h'') sample_draws sample_disk),
      Inr \<lparr>rs_access_token = u ''mcp_at_a'', rs_expires_in = 3600, rs_scope = u ''local-ops'',
           rs_refresh_token = u ''mcp_rt_b''\<rparr>)"
  by code_simp

section \<open>Properties\<close>

text \<open>C1: Over every sequence of calls from a server with no store file, the store stays well formed:
  dictionaries have distinct keys, at most 50 clients are registered, every stored redirect URI has
  passed the redirect check, and every scope in an authorization code, an access token or a refresh
  token is one of the configured scopes.\<close>
theorem oauth_store_invariant:
  assumes "good_config mgr"
  shows "store_inv nok mgr (read_store (oauth_run nok pys sha mgr NoFile calls))"
  using oauth_machine.run_keeps [of mgr nok NoFile pys sha calls] assms empty_store_inv by simp

theorem oauth_store_invariant_witness:
  "store_inv (\<lambda>_. True) sample_mgr (read_store (oauth_run (\<lambda>_. True) (\<lambda>_. []) toy_sha sample_mgr NoFile
     [Register [(''redirect_uris'', JList [jlit ''https://a/cb''])] 5 (u ''k'')]))"
  by (rule oauth_store_invariant)
     (simp add: good_config_def scopes_def sample_mgr_def word_def is_space_def)

text \<open>C2: An authorization code is only exchanged when it is known, has not expired, and was issued to
  the presented client, redirect URI and resource, and the PKCE verifier hashes to its challenge.
  The exchange removes the code and stores the access token it returns, with the scope it returns,
  the client and the resource of the code, and the configured lifetime.\<close>
theorem code_exchange_sound:
  assumes "exchange_code sha mgr p base d disk = (disk', Inr resp)"
    and "map_of p ''grant_type'' = Some (u ''authorization_code'')"
  shows "\<exists>r. map_of (codes (read_store disk)) (field p ''code'') = Some r \<and>
    at_check d \<le> cd_expires_at r \<and> map_of p ''client_id'' = Some (cd_client_id r) \<and>
    map_of p ''redirect_uri'' = Some (cd_redirect_uri r) \<and>
    map_of p ''resource'' = Some (resource_url mgr base) \<and>
    pkce_s256 sha (field p ''code_verifier'') = Some (cd_code_challenge r) \<and>
    map_of (codes (read_store disk')) (field p ''code'') = None \<and>
    map_of (tokens (read_store disk')) (rs_access_token resp) =
      Some \<lparr>tk_client_id = cd_client_id r, tk_scope = rs_scope resp, tk_resource = cd_resource r,
            tk_expires_at = at_access d + access_ttl mgr\<rparr>"
proof -
  from assms(2) have "map_of p ''grant_type'' \<noteq> Some (u ''refresh_token'')" by simp
  from exchange_granted_disk [OF assms(1) this] show ?thesis by metis
qed

theorem code_exchange_sound_witness:
  "\<exists>r. map_of (codes (read_store sample_disk)) (field sample_form ''code'') = Some r \<and>
     pkce_s256 toy_sha (field sample_form ''code_verifier'') = Some (cd_code_challenge r)"
  using code_exchange_sound [OF sample_exchange] by (force simp: sample_form_def)

text \<open>C3: An authorization code is redeemed at most once: after a successful exchange, and whatever
  calls follow, no later exchange of the same code succeeds, as long as no later authorization draws
  the same random code again.\<close>
theorem code_redeemed_once:
  assumes "exchange_code sha mgr p base d disk = (disk', Inr resp)"
    and "map_of p ''grant_type'' = Some (u ''authorization_code'')"
    and "\<And>p' base' now rnd. Authorize p' base' now rnd \<in> set calls \<Longrightarrow> field p ''code'' \<noteq> u ''mcp_code_'' @ rnd"
    and "map_of p2 ''grant_type'' = Some (u ''authorization_code'')" and "field p2 ''code'' = field p ''code''"
  shows "\<nexists>resp2. snd (exchange_code sha mgr p2 base2 d2 (oauth_run nok pys sha mgr disk' calls)) = Inr resp2"
proof
  from assms(2,4) have g: "map_of p ''grant_type'' \<noteq> Some (u ''refresh_token'')"
    "map_of p2 ''grant_type'' \<noteq> Some (u ''refresh_token'')" by simp_all
  let ?disk = "oauth_run nok pys sha mgr disk' calls"
  from exchange_granted_disk [OF assms(1) g(1)]
  have "map_of (codes (read_store disk')) (field p ''code'') = None" by metis
  with assms(3) have gone: "map_of (codes (read_store ?disk)) (field p ''code'') = None"
    by (intro run_codes)
  assume "\<exists>resp2. snd (exchange_code sha mgr p2 base2 d2 ?disk) = Inr resp2"
  then obtain resp2 where "exchange_code sha mgr p2 base2 d2 ?disk
      = (fst (exchange_code sha mgr p2 base2 d2 ?disk), Inr resp2)" by (auto simp: prod_eq_iff)
  from exchange_granted_disk [OF this g(2)] gone assms(5) show False by (metis option.distinct(1))
qed

theorem code_redeemed_once_witness:
  "\<nexists>resp2. snd (exchange_code toy_sha sample_mgr sample_form (u ''https://h'') sample_draws
     (oauth_run (\<lambda>_. True) (\<lambda>_. []) toy_sha sample_mgr
       (fst (exchange_code toy_sha sample_mgr sample_form (u ''https://h'') sample_draws sample_disk))
       [Verify (u ''mcp_at_a'') (u ''https://h'') 120])) = Inr resp2"
  by (rule code_redeemed_once [OF sample_exchange]) (simp_all add: sample_form_def)

text \<open>C4: Nobody gets in without the login token: whatever clients register, exchange, refresh and
  verify, starting from a server with no store file, no access token is ever accepted as long as no
  call of the authorization endpoint presents the configured login token.\<close>
theorem no_access_without_login:
  assumes "\<forall>c \<in> set calls. unauthorized_call mgr c"
  shows "\<not> snd (verify_access_token mgr tk base now (oauth_run nok pys sha mgr NoFile calls))"
proof -
  have "no_grants (read_store (oauth_run nok pys sha mgr NoFile calls))"
    using assms by (intro run_no_grants) (auto simp: no_grants_def empty_store_def list_all_iff)
  then show ?thesis by (simp add: no_grants_def verify_access_token_def Let_def)
qed

theorem no_access_without_login_witness:
  "\<not> snd (verify_access_token sample_mgr (u ''mcp_at_a'') (u ''https://h'') 120
     (oauth_run (\<lambda>_. True) (\<lambda>_. []) toy_sha sample_mgr NoFile
       [Register [(''redirect_uris'', JList [jlit ''https://a/cb''])] 5 (u ''k''),
        Authorize [(''login_token'', u ''guess'')] (u ''https://h'') 6 (u ''k''),
        Exchange sample_form (u ''https://h'') sample_draws]))"
  by (rule no_access_without_login)
     (simp add: unauthorized_call_def field_def login_token_def sample_mgr_def)

text \<open>C6: Refresh rotation is sound: a refresh succeeds only with an unexpired, stored refresh token
  that was issued to the presented client for this server's resource and that has not been reused
  after the grace period. The returned scope is within the original grant; the successor token is
  stored with the same client, the full granted scope and the family of its predecessor, and the
  returned access token is stored for the returned scope.\<close>
theorem refresh_rotation_sound:
  assumes "refresh_access_token sha mgr p base d disk = (disk', Inr resp)"
  shows "\<exists>r. map_of (refresh_tokens (fst (prune_refresh_tokens (read_store disk) (at_check d))))
        (token_hash sha (field p ''refresh_token'')) = Some (Refresh r) \<and>
    map_of p ''client_id'' = Some (rf_client_id r) \<and> rf_resource r = resource_url mgr base \<and>
    \<not> reuse_detected (at_check d) r \<and>
    set (scope_words (rs_scope resp)) \<subseteq> set (scope_words (granted_scope mgr r)) \<and>
    map_of (tokens (read_store disk')) (rs_access_token resp) =
      Some \<lparr>tk_client_id = rf_client_id r, tk_scope = rs_scope resp, tk_resource = resource_url mgr base,
            tk_expires_at = at_check d + access_ttl mgr\<rparr> \<and>
    (\<exists>r'. map_of (refresh_tokens (read_store disk')) (token_hash sha (rs_refresh_token resp)) = Some (Refresh r') \<and>
      rf_client_id r' = rf_client_id r \<and> rf_scope r' = granted_scope mgr r \<and>
      (rf_family_id r \<noteq> [] \<longrightarrow> rf_family_id r' = rf_family_id r) \<and> rf_rotated_at r' = None)"
  using assms
proof (cases rule: refresh_granted_disk)
  case (1 r)
  show ?thesis
    by (rule exI [of _ r], intro conjI 1(1-5) 1(7), rule exI, intro conjI, rule 1(6)) simp_all
qed

lemma sample_refresh_run:
  "refresh_access_token toy_sha sample_mgr sample_refresh_form (u ''https://h'') sample_draws sample_disk =
     (fst (refresh_access_token toy_sha sample_mgr sample_refresh_form (u ''https://h'') sample_draws sample_disk),
      Inr \<lparr>rs_access_token = u ''mcp_at_a'', rs_expires_in = 3600, rs_scope = u ''local-ops'',
           rs_refresh_token = u ''mcp_rt_b''\<rparr>)"
  unfolding prod_eq_iff
  by (simp add: refresh_access_token_def sample_defs field_def resource_url_def rstrip_slash_def rstrip_by_def
      prune_refresh_tokens_def token_hash_def hexdigest_def utf8_encode_def reuse_detected_def requested_scopes_def
      scope_words_def split_ws_def granted_scope_def grant_refresh_def issue_refresh_token_def access_ttl_def Let_def
      case_prod_unfold)

theorem refresh_rotation_sound_witness:
  "\<exists>r. map_of (refresh_tokens (fst (prune_refresh_tokens (read_store sample_disk) 100)))
        (token_hash toy_sha (u ''r1'')) = Some (Refresh r) \<and> \<not> reuse_detected 100 r"
  using refresh_rotation_sound [OF sample_refresh_run]
  by (force simp: sample_refresh_form_def sample_draws_def field_def)




text \<open>The access token returned for an authorization code of this server is accepted by
  \<^verbatim>\<open>verify_access_token\<close> until its lifetime ends and not after, provided the granted scope covers the
  configured scopes.\<close>
theorem issued_token_verifies:
  assumes "exchange_code sha mgr p base d disk = (disk', Inr resp)"
    and "map_of p ''grant_type'' = Some (u ''authorization_code'')"
    and "map_of (codes (read_store disk)) (field p ''code'') = Some r" and "cd_resource r = resource_url mgr base"
  shows "snd (verify_access_token mgr (rs_access_token resp) base now disk') =
    (now \<le> at_access d + access_ttl mgr \<and> set (scopes (config mgr)) \<subseteq> set (scope_words (rs_scope resp)))"
proof -
  from assms(2) have g: "map_of p ''grant_type'' \<noteq> Some (u ''refresh_token'')" by simp
  have ne: "rs_access_token resp \<noteq> []"
    using assms(1) g by (cases rule: exchange_cases) (auto simp: grant_code_store(4))
  from assms(1) g show ?thesis
  proof (cases rule: exchange_granted_disk)
    case (1 r')
    with assms(3,4) have "cd_resource r' = resource_url mgr base" by simp
    then show ?thesis using verify_stored_token [OF ne 1(8)] by simp
  qed
qed

theorem issued_token_verifies_witness:
  "snd (verify_access_token sample_mgr (u ''mcp_at_a'') (u ''https://h'') 3700
     (fst (exchange_code toy_sha sample_mgr sample_form (u ''https://h'') sample_draws sample_disk)))"
  using issued_token_verifies [OF sample_exchange, of sample_code 3700]
  by (simp add: sample_defs field_def resource_url_def rstrip_slash_def rstrip_by_def access_ttl_def scopes_def
      scope_words_def split_ws_def is_space_def)

text \<open>A code verifier that is not ASCII is rejected without consuming the code: unlike every other
  mismatch, the store file is left as it was and the same code can be presented again.\<close>
theorem non_ascii_verifier_keeps_code:
  assumes "map_of (codes (read_store disk)) (field p ''code'') = Some r" and "at_check d \<le> cd_expires_at r"
    and "map_of p ''grant_type'' = Some (u ''authorization_code'')"
    and "map_of p ''resource'' = Some (resource_url mgr base)"
    and "map_of p ''client_id'' = Some (cd_client_id r)" and "map_of p ''redirect_uri'' = Some (cd_redirect_uri r)"
    and "\<not> is_ascii (field p ''code_verifier'')"
  shows "fst (exchange_code sha mgr p base d disk) = disk \<and>
    (\<exists>e. snd (exchange_code sha mgr p base d disk) = Inl e) \<and>
    (\<forall>p'. p' = (''code_verifier'', u ''x'') # p \<and> cd_code_challenge r \<noteq> b64_unpadded (sha (u ''x'')) \<and>
        is_ascii (b64_unpadded (sha (u ''x''))) \<and> is_ascii (cd_code_challenge r) \<longrightarrow>
      map_of (codes (read_store (fst (exchange_code sha mgr p' base d disk)))) (field p ''code'') = None)"
  using assms by (auto simp: exchange_code_def Let_def pkce_s256_def compare_digest_def field_def dict_simps)

theorem non_ascii_verifier_keeps_code_witness:
  "fst (exchange_code toy_sha sample_mgr ((''code_verifier'', [233]) # sample_form) (u ''https://h'')
     sample_draws sample_disk) = sample_disk"
  using non_ascii_verifier_keeps_code [of sample_disk "(''code_verifier'', [233]) # sample_form" sample_code
      sample_draws sample_mgr "u ''https://h''" toy_sha]
  by (simp add: sample_defs field_def resource_url_def rstrip_slash_def rstrip_by_def is_ascii_def)

text \<open>The hidden fields of the authorization page cannot break out of their attributes: an escaped
  name or value holds no angle bracket and no quote, and the escaping loses nothing, so two values
  that are written alike are the same value.\<close>
theorem hidden_inputs_escaped:
  "hidden_inputs [(k, v)] = u ''<input type=\"hidden\" name=\"'' @ html_escape k @ u ''\" value=\"''
      @ html_escape v @ u ''\">'' \<and>
   set (html_escape k) \<inter> {60, 62, 34, 39} = {} \<and> set (html_escape v) \<inter> {60, 62, 34, 39} = {} \<and>
   (html_escape v = html_escape w) = (v = w)"
  using html_escape_safe [of k] html_escape_safe [of v] html_escape_inj [of v w]
  by (auto simp: hidden_inputs_def)

text \<open>An accepted redirect URI is an absolute URL without user information, backslash or fragment,
  whose scheme is https, or http to one of the loopback hosts: its text is scheme, "://", network
  location and a tail that starts with a slash or a question mark.\<close>
theorem allowed_redirect_shape:
  assumes "is_allowed_redirect_uri nok uri"
  shows "92 \<notin> set uri \<and> 35 \<notin> set uri \<and>
    (\<exists>scheme loc tail. uri = scheme @ u ''://'' @ loc @ tail \<and> (tail = [] \<or> hd tail \<in> {47, 63}) \<and>
      set loc \<inter> {47, 63, 35, 64} = {} \<and>
      (lower scheme = u ''https'' \<or>
       lower scheme = u ''http'' \<and>
       (\<exists>host. (loc = host \<or> (\<exists>port. loc = host @ 58 # port) \<or> (\<exists>before after. loc = before @ 91 # after \<and> host = before_char 93 after)) \<and>
          lower (lower (before_char 37 host) @ dropWhile (\<lambda>c. c \<noteq> 37) host) \<in> set loopback_hosts)))"
proof -
  from assms obtain r h where parsed: "urlparse nok uri = Some r" and nu: "\<not> url_has_userinfo r"
    and host: "url_hostname r = Some h" and plain: "92 \<notin> set uri" "35 \<notin> set uri" "\<not> has_control uri" "strip uri = uri"
    and scheme: "url_scheme r = u ''https'' \<or> url_scheme r = u ''http'' \<and> lower h \<in> set loopback_hosts"
    by (auto simp: is_allowed_redirect_uri_def split: if_splits option.splits)
  have nl: "url_netloc r \<noteq> []"
    using host by (auto simp: url_hostname_def url_host_text_def host_info_def after_last_def before_char_def)
  have sch: "url_scheme r \<noteq> []" using scheme by auto
  from urlparse_shape [OF parsed nl url_clean_id [OF plain(4,3)] sch]
  obtain pre tail where uri: "uri = pre @ u ''://'' @ url_netloc r @ tail" and pre: "lower pre = url_scheme r"
    and tail: "tail = [] \<or> \<not> not_delim (hd tail)" and loc: "list_all not_delim (url_netloc r)" .
  have T: "tail = [] \<or> hd tail \<in> {47, 63}"
    using tail plain(2) uri by (cases tail) (auto simp: not_delim_def)
  have L: "set (url_netloc r) \<inter> {47, 63, 35, 64} = {}"
    using loc nu by (auto simp: list_all_iff not_delim_def url_has_userinfo_def)
  have H: "url_netloc r = url_host_text r \<or> (\<exists>port. url_netloc r = url_host_text r @ 58 # port) \<or>
      (\<exists>before after. url_netloc r = before @ 91 # after \<and> url_host_text r = before_char 93 after)"
    using host_shape [of r] nu by (simp add: url_has_userinfo_def) blast
  have h: "h = lower (before_char 37 (url_host_text r)) @ dropWhile (\<lambda>c. c \<noteq> 37) (url_host_text r)"
    using host by (simp add: url_hostname_def split: if_splits)
  from scheme have S: "lower pre = u ''https'' \<or> lower pre = u ''http'' \<and>
      (\<exists>host. (url_netloc r = host \<or> (\<exists>port. url_netloc r = host @ 58 # port) \<or>
          (\<exists>before after. url_netloc r = before @ 91 # after \<and> host = before_char 93 after)) \<and>
        lower (lower (before_char 37 host) @ dropWhile (\<lambda>c. c \<noteq> 37) host) \<in> set loopback_hosts)"
  proof (elim disjE conjE)
    assume "url_scheme r = u ''https''"
    then show ?thesis unfolding pre by (rule disjI1)
  next
    assume "url_scheme r = u ''http''" "lower h \<in> set loopback_hosts"
    then show ?thesis
      unfolding pre by - (rule disjI2, rule conjI, assumption, rule exI [of _ "url_host_text r"], rule conjI, rule H, simp only: h)
  qed
  show ?thesis
    by (intro conjI plain(1,2), rule exI [of _ pre], rule exI [of _ "url_netloc r"], rule exI [of _ tail])
       (intro conjI uri T L S)
qed

theorem allowed_redirect_shape_witness:
  "\<exists>scheme loc tail. u ''http://localhost:80/cb'' = scheme @ u ''://'' @ loc @ tail \<and>
     set loc \<inter> {47, 63, 35, 64} = {}"
proof -
  have "is_allowed_redirect_uri (\<lambda>_. True) (u ''http://localhost:80/cb'')"
    by (simp add: url_eval)
  from allowed_redirect_shape [OF this] show ?thesis
    by (elim conjE exE) (rule exI, rule exI, rule exI, rule conjI, assumption, assumption)
qed

end
