(* ===== verification/HttpAuth.thy ===== *)
theory HttpAuth
  imports OauthProps
begin

text \<open>
  The HTTP layer: \<^verbatim>\<open>src/chatgpt_web_oauth_mcp/http_compat.py\<close>.

  \<open>bearer_auth\<close> is \<^verbatim>\<open>HTTPBearerAuthMiddleware.__call__\<close>: it lets a request through, answers 401 with
  a challenge, or raises. \<open>dispatch_mcp\<close> is \<^verbatim>\<open>MCPCompatibilityDispatcher.__call__\<close>: which of the two
  mounted applications gets the request, or what is answered directly. The endpoint functions map a
  parsed body to a status and a body. Starlette's routing and its parsing of bodies are not modelled.
  Header names are lower case, as ASGI gives them, and \<^verbatim>\<open>Headers.get\<close> takes the first match.
\<close>

record http_request =
  rq_type :: ustr
  rq_method :: ustr
  rq_path :: ustr
  rq_scheme :: ustr
  rq_headers :: "(ustr \<times> ustr) list"

definition upper :: "ustr \<Rightarrow> ustr" where
  "upper s = map (\<lambda>c. if 97 \<le> c \<and> c \<le> 122 then c - 32 else c) s"

definition header :: "string \<Rightarrow> http_request \<Rightarrow> ustr" where
  "header k rq = (case map_of (rq_headers rq) (u k) of None \<Rightarrow> [] | Some v \<Rightarrow> v)"

section \<open>Bearer authentication\<close>

definition extract_bearer_token :: "ustr \<Rightarrow> ustr" where
  "extract_bearer_token authorization =
     (let value = strip authorization in
      if startswith (lower value) (u ''bearer '') then strip (drop 7 value) else [])"

definition base_url_from_headers :: "http_request \<Rightarrow> ustr \<Rightarrow> ustr" where
  "base_url_from_headers rq scheme =
     (let forwarded_proto = strip (before_char 44 (header ''x-forwarded-proto'' rq));
          proto = (if forwarded_proto \<noteq> [] then forwarded_proto else scheme);
          host = strip (header ''host'' rq)
      in rstrip_slash (proto @ u ''://'' @ host))"

definition discovery_paths :: "ustr list" where
  "discovery_paths = map u [''/.well-known/mcp.json'', ''/.well-known/mcp/server-card.json'']"

definition oauth_discovery_paths :: "ustr list" where
  "oauth_discovery_paths = map u
     [''/.well-known/oauth-authorization-server'', ''/.well-known/openid-configuration'',
      ''/.well-known/oauth-protected-resource'', ''/.well-known/oauth-protected-resource/mcp'']"

definition legacy_sse_message_paths :: "ustr list" where
  "legacy_sse_message_paths = map u [''/messages'', ''/messages/'']"

text \<open>The requests the middleware never checks.\<close>

definition exempt_method :: "ustr \<Rightarrow> bool" where
  "exempt_method m \<longleftrightarrow> upper m \<in> {u ''OPTIONS'', u ''HEAD''}"

definition exempt_path :: "ustr \<Rightarrow> bool" where
  "exempt_path p \<longleftrightarrow>
     p \<in> set discovery_paths \<or> p \<in> set oauth_discovery_paths \<or> startswith p (u ''/oauth/'')"

datatype auth_outcome = Forward | Unauthorized ustr | AuthRaises

definition challenge :: "oauth_manager \<Rightarrow> ustr option \<Rightarrow> ustr" where
  "challenge mgr base =
     (case base of
        Some b \<Rightarrow>
          if b \<noteq> [] then
            u ''Bearer realm=\"mcp\", resource_metadata=\"'' @ resource_metadata_url mgr b
              @ u ''\", scope=\"'' @ scope_string mgr @ u ''\"''
          else u ''Bearer realm=\"mcp\"''
      | None \<Rightarrow> u ''Bearer realm=\"mcp\"'')"

text \<open>\<^verbatim>\<open>provided and expected and hmac.compare_digest(provided, expected)\<close>.\<close>

definition token_matches :: "ustr \<Rightarrow> ustr \<Rightarrow> bool option" where
  "token_matches provided expected =
     (if provided = [] \<or> expected = [] then Some False else compare_digest provided expected)"

text \<open>
  \<open>cfg\<close> is what \<^verbatim>\<open>get_oauth_config\<close> returns now, \<open>shared\<close> what \<^verbatim>\<open>get_auth_token\<close> returns; the manager
  keeps the configuration it was built with.
\<close>

definition bearer_auth ::
  "oauth_manager \<Rightarrow> oauth_config \<Rightarrow> ustr \<Rightarrow> http_request \<Rightarrow> int \<Rightarrow> oauth_disk
   \<Rightarrow> oauth_disk \<times> auth_outcome" where
  "bearer_auth mgr cfg shared rq now disk =
     (if rq_type rq \<noteq> u ''http'' then (disk, Forward)
      else if exempt_method (rq_method rq) \<or> exempt_path (rq_path rq) then (disk, Forward)
      else
        let mode = normalized_auth_mode cfg in
        if mode = u ''none'' then (disk, Forward)
        else
          let provided = extract_bearer_token (header ''authorization'' rq) in
          if mode = u ''shared_token'' then
            (case token_matches provided (strip shared) of
               None \<Rightarrow> (disk, AuthRaises)
             | Some ok \<Rightarrow> (disk, if ok then Forward else Unauthorized (challenge mgr None)))
          else if mode = u ''oauth'' then
            let base = metadata_base_url mgr (base_url_from_headers rq (rq_scheme rq)) in
            (case token_matches provided (auth_token cfg) of
               None \<Rightarrow> (disk, AuthRaises)
             | Some static_ok \<Rightarrow>
                 let (disk', oauth_ok) = verify_access_token mgr provided base now disk in
                 (disk', if static_ok \<or> oauth_ok then Forward
                         else Unauthorized (challenge mgr (Some base))))
          else (disk, Unauthorized (challenge mgr None)))"

section \<open>The dispatcher\<close>

datatype dispatch_outcome =
    ToStreamable ustr
  | ToLegacySse ustr
  | Status nat
  | ServerCard

definition dispatch_mcp :: "ustr \<Rightarrow> http_request \<Rightarrow> dispatch_outcome" where
  "dispatch_mcp mcp rq =
     (if rq_type rq \<noteq> u ''http'' then ToStreamable (rq_path rq)
      else
        let method = upper (rq_method rq);
            path = (if rq_path rq = u ''/'' then mcp else rq_path rq) in
        if path \<in> set legacy_sse_message_paths then ToLegacySse path
        else if path \<noteq> mcp then ToStreamable path
        else if method = u ''HEAD'' then Status 204
        else if method = u ''OPTIONS'' then Status 204
        else if method \<in> {u ''POST'', u ''DELETE''} then ToStreamable path
        else if method \<noteq> u ''GET'' then Status 405
        else if count_sub (u ''text/event-stream'') (lower (header ''accept'' rq)) = 0 then ServerCard
        else if strip (header ''mcp-session-id'' rq) \<noteq> [] then ToStreamable path
        else ToLegacySse path)"

datatype app_outcome = Denied ustr | AppRaises | Dispatched dispatch_outcome

text \<open>The middleware before the dispatcher.\<close>

definition serve_mcp ::
  "oauth_manager \<Rightarrow> oauth_config \<Rightarrow> ustr \<Rightarrow> http_request \<Rightarrow> int \<Rightarrow> oauth_disk
   \<Rightarrow> oauth_disk \<times> app_outcome" where
  "serve_mcp mgr cfg shared rq now disk =
     (case bearer_auth mgr cfg shared rq now disk of
        (disk', Forward) \<Rightarrow> (disk', Dispatched (dispatch_mcp (mcp_path mgr) rq))
      | (disk', Unauthorized c) \<Rightarrow> (disk', Denied c)
      | (disk', AuthRaises) \<Rightarrow> (disk', AppRaises))"

definition auth_schemes :: "oauth_config \<Rightarrow> ustr \<Rightarrow> ustr list" where
  "auth_schemes cfg shared =
     (let mode = normalized_auth_mode cfg in
      if mode = u ''none'' then []
      else if mode = u ''oauth'' then [u ''oauth2'', u ''bearer'']
      else if strip shared \<noteq> [] then [u ''bearer''] else [])"

definition build_server_card :: "ustr \<Rightarrow> ustr \<Rightarrow> ustr \<Rightarrow> ustr list \<Rightarrow> ustr \<Rightarrow> dict" where
  "build_server_card app_name app_version mcp schemes instructions =
     [(''$schema'', jlit ''https://static.modelcontextprotocol.io/schemas/mcp-server-card/v1.json''),
      (''protocolVersion'', jlit ''2025-06-18''),
      (''serverInfo'', JObj [(''name'', JStr app_name), (''title'', JStr app_name), (''version'', JStr app_version)]),
      (''description'', jlit ''Local MCP server for filesystem, shell, git, and delegated coding tasks.''),
      (''transport'', JObj [(''type'', jlit ''streamable-http''), (''endpoint'', JStr mcp)]),
      (''capabilities'', JObj [(''tools'', JObj [(''listChanged'', JBool True)])]),
      (''authentication'', JObj [(''required'', JBool (schemes \<noteq> [])), (''schemes'', JList (map JStr schemes))]),
      (''instructions'', JStr instructions)]"

section \<open>The OAuth endpoints\<close>

datatype http_response =
    JsonReply nat dict
  | Redirect ustr
  | NotFound
  | Page form
  | ServerError

definition oauth_enabled :: "oauth_config \<Rightarrow> bool" where
  "oauth_enabled cfg \<longleftrightarrow> normalized_auth_mode cfg = u ''oauth''"

definition oauth_base_url :: "oauth_manager \<Rightarrow> http_request \<Rightarrow> ustr" where
  "oauth_base_url mgr rq = metadata_base_url mgr (base_url_from_headers rq (rq_scheme rq))"

text \<open>\<^verbatim>\<open>_string_values\<close>: \<open>py_str\<close> prints a value that is no string.\<close>

definition string_values :: "(json \<Rightarrow> ustr) \<Rightarrow> dict \<Rightarrow> form" where
  "string_values py_str data =
     map (\<lambda>(k, j). (k, case j of JStr s \<Rightarrow> s | _ \<Rightarrow> py_str j)) (filter (\<lambda>(k, j). j \<noteq> JNull) data)"

definition error_reply :: "nat \<Rightarrow> string \<Rightarrow> string \<Rightarrow> http_response" where
  "error_reply status e description =
     JsonReply status [(''error'', jlit e), (''error_description'', jlit description)]"

definition oauth_authorization_server_endpoint :: "oauth_manager \<Rightarrow> oauth_config \<Rightarrow> http_request \<Rightarrow> http_response" where
  "oauth_authorization_server_endpoint mgr cfg rq =
     (if \<not> oauth_enabled cfg then NotFound
      else JsonReply 200 (authorization_server_metadata mgr (oauth_base_url mgr rq)))"

definition oauth_protected_resource_endpoint :: "oauth_manager \<Rightarrow> oauth_config \<Rightarrow> http_request \<Rightarrow> http_response" where
  "oauth_protected_resource_endpoint mgr cfg rq =
     (if \<not> oauth_enabled cfg then NotFound
      else JsonReply 200 (protected_resource_metadata mgr (oauth_base_url mgr rq)))"

definition oauth_register_endpoint ::
  "(ustr \<Rightarrow> bool) \<Rightarrow> (json \<Rightarrow> ustr) \<Rightarrow> oauth_config \<Rightarrow> dict \<Rightarrow> int \<Rightarrow> ustr \<Rightarrow> oauth_disk
   \<Rightarrow> oauth_disk \<times> http_response" where
  "oauth_register_endpoint nok py_str cfg payload now rnd disk =
     (if \<not> oauth_enabled cfg then (disk, NotFound)
      else case register_client nok py_str payload now rnd disk of
          (disk', Inr registration) \<Rightarrow> (disk', JsonReply 201 registration)
        | (disk', Inl (Invalid msg)) \<Rightarrow> (disk', error_reply 400 ''invalid_client_metadata'' msg)
        | (disk', Inl (PermissionDenied msg)) \<Rightarrow> (disk', ServerError)
        | (disk', Inl TypeFailure) \<Rightarrow> (disk', ServerError))"

definition oauth_authorize_endpoint ::
  "(json \<Rightarrow> ustr) \<Rightarrow> oauth_manager \<Rightarrow> oauth_config \<Rightarrow> http_request \<Rightarrow> form \<Rightarrow> dict \<Rightarrow> int \<Rightarrow> ustr \<Rightarrow> oauth_disk
   \<Rightarrow> oauth_disk \<times> http_response" where
  "oauth_authorize_endpoint py_str mgr cfg rq query payload now rnd disk =
     (if \<not> oauth_enabled cfg then (disk, NotFound)
      else if rq_method rq = u ''GET'' then (disk, Page query)
      else case authorize mgr (string_values py_str payload) (oauth_base_url mgr rq) now rnd disk of
          (disk', Inr url) \<Rightarrow> (disk', Redirect url)
        | (disk', Inl (PermissionDenied msg)) \<Rightarrow> (disk', error_reply 401 ''access_denied'' msg)
        | (disk', Inl (Invalid msg)) \<Rightarrow> (disk', error_reply 400 ''invalid_request'' msg)
        | (disk', Inl TypeFailure) \<Rightarrow> (disk', ServerError))"

definition token_payload :: "token_response \<Rightarrow> dict" where
  "token_payload r =
     [(''access_token'', JStr (rs_access_token r)), (''token_type'', jlit ''Bearer''),
      (''expires_in'', JInt (rs_expires_in r)), (''scope'', JStr (rs_scope r)),
      (''refresh_token'', JStr (rs_refresh_token r))]"

definition oauth_token_endpoint ::
  "(json \<Rightarrow> ustr) \<Rightarrow> (bytes \<Rightarrow> bytes) \<Rightarrow> oauth_manager \<Rightarrow> oauth_config \<Rightarrow> http_request \<Rightarrow> dict \<Rightarrow> draws \<Rightarrow> oauth_disk
   \<Rightarrow> oauth_disk \<times> http_response" where
  "oauth_token_endpoint py_str sha mgr cfg rq payload d disk =
     (if \<not> oauth_enabled cfg then (disk, NotFound)
      else case exchange_code sha mgr (string_values py_str payload) (oauth_base_url mgr rq) d disk of
          (disk', Inr tk) \<Rightarrow> (disk', JsonReply 200 (token_payload tk))
        | (disk', Inl (Invalid msg)) \<Rightarrow> (disk', error_reply 400 ''invalid_grant'' msg)
        | (disk', Inl (PermissionDenied msg)) \<Rightarrow> (disk', ServerError)
        | (disk', Inl TypeFailure) \<Rightarrow> (disk', ServerError))"

section \<open>Who gets through\<close>

definition authenticated :: "oauth_manager \<Rightarrow> oauth_config \<Rightarrow> ustr \<Rightarrow> http_request \<Rightarrow> int \<Rightarrow> oauth_disk \<Rightarrow> bool" where
  "authenticated mgr cfg shared rq now disk =
     (let provided = extract_bearer_token (header ''authorization'' rq) in
      normalized_auth_mode cfg = u ''shared_token'' \<and> provided \<noteq> [] \<and> provided = strip shared \<or>
      normalized_auth_mode cfg = u ''oauth'' \<and>
        (provided \<noteq> [] \<and> provided = auth_token cfg \<or>
         snd (verify_access_token mgr provided (oauth_base_url mgr rq) now disk)))"

lemma token_matches_True: "token_matches p e = Some True \<longleftrightarrow> p \<noteq> [] \<and> p = e \<and> is_ascii p"
  by (auto simp: token_matches_def compare_digest_def)

lemma bearer_auth_forward:
  assumes "bearer_auth mgr cfg shared rq now disk = (disk', Forward)"
    and "rq_type rq = u ''http''" and "\<not> exempt_method (rq_method rq)" and "\<not> exempt_path (rq_path rq)"
    and "normalized_auth_mode cfg \<noteq> u ''none''"
  shows "authenticated mgr cfg shared rq now disk"
  using assms
  by (auto simp: bearer_auth_def authenticated_def oauth_base_url_def Let_def case_prod_unfold
      split: if_splits option.splits bool.splits simp: token_matches_True dest!: sym [of "Some True"])

lemma dispatch_exempt_method:
  assumes "exempt_method (rq_method rq)" and "rq_type rq = u ''http''" and "rq_path rq \<in> {u ''/'', mcp}"
    and "mcp \<notin> set legacy_sse_message_paths"
  shows "dispatch_mcp mcp rq = Status 204"
proof -
  have "(if rq_path rq = u ''/'' then mcp else rq_path rq) = mcp" using assms(3) by auto
  then show ?thesis using assms(1,2,4) unfolding dispatch_mcp_def Let_def exempt_method_def by auto
qed

text \<open>C5: The MCP endpoint is protected: when authentication is on, a request to the MCP path, or to its
  alias at the root, is forwarded to an MCP application only with the configured token, or in OAuth mode
  with an access token that \<^verbatim>\<open>verify_access_token\<close> accepts now. Everything else is denied, or is an
  OPTIONS or HEAD request, which is answered with an empty 204 and never forwarded.\<close>
theorem mcp_endpoint_protected:
  assumes "serve_mcp mgr cfg shared rq now disk = (disk', Dispatched out)"
    and "rq_type rq = u ''http''" and "rq_path rq \<in> {u ''/'', mcp_path mgr}"
    and "\<not> exempt_path (mcp_path mgr)" and "mcp_path mgr \<notin> set legacy_sse_message_paths"
    and "normalized_auth_mode cfg \<noteq> u ''none''"
  shows "authenticated mgr cfg shared rq now disk \<or> exempt_method (rq_method rq) \<and> out = Status 204"
proof (cases "exempt_method (rq_method rq)")
  case True
  with assms(1) have "out = dispatch_mcp (mcp_path mgr) rq"
    by (auto simp: serve_mcp_def split: prod.splits auth_outcome.splits)
  with dispatch_exempt_method [OF True assms(2,3,5)] True show ?thesis by simp
next
  case False
  have "\<not> exempt_path (u ''/'')" by code_simp
  with assms(3,4) have "\<not> exempt_path (rq_path rq)" by auto
  moreover from assms(1) have "bearer_auth mgr cfg shared rq now disk = (disk', Forward)"
    by (auto simp: serve_mcp_def split: prod.splits auth_outcome.splits)
  ultimately show ?thesis using bearer_auth_forward assms(2,6) False by blast
qed

definition sample_request :: http_request where
  "sample_request = \<lparr>rq_type = u ''http'', rq_method = u ''POST'', rq_path = u ''/'', rq_scheme = u ''https'',
     rq_headers = [(u ''authorization'', u ''Bearer pw''), (u ''host'', u ''h'')]\<rparr>"

definition shared_cfg :: oauth_config where
  "shared_cfg = \<lparr>auth_mode = [], auth_token = u ''pw'', public_base_url = [], oauth_login_token = [],
     oauth_scopes = [], oauth_token_ttl = 3600, oauth_refresh_ttl = 86400\<rparr>"

definition shared_mgr :: oauth_manager where
  "shared_mgr = \<lparr>config = shared_cfg, mcp_path = u ''/mcp'', manager_base_url = []\<rparr>"

lemmas http_eval = exempt_path_def exempt_method_def discovery_paths_def oauth_discovery_paths_def
  startswith_def legacy_sse_message_paths_def upper_def normalized_auth_mode_def strip_def rstrip_by_def
  lower_def ascii_lower_char_def is_space_def header_def extract_bearer_token_def

lemmas http_samples = sample_request_def shared_mgr_def shared_cfg_def

theorem mcp_endpoint_protected_witness:
  "authenticated shared_mgr shared_cfg (u ''pw'') sample_request 0 NoFile"
proof -
  have "serve_mcp shared_mgr shared_cfg (u ''pw'') sample_request 0 NoFile =
      (NoFile, Dispatched (ToStreamable (u ''/mcp'')))"
    by (simp add: serve_mcp_def bearer_auth_def http_eval http_samples token_matches_def compare_digest_def
        dispatch_mcp_def)
  from mcp_endpoint_protected [OF this] show ?thesis
    by (simp add: http_eval http_samples)
qed

text \<open>End to end, in OAuth mode the MCP endpoint stays closed to whoever lacks both tokens: after any
  calls of the OAuth endpoints in which the login token is never presented, a request to the MCP path
  whose bearer token is not the configured static token is never forwarded to an MCP application.\<close>
theorem mcp_closed_without_login:
  assumes "\<forall>c \<in> set calls. unauthorized_call mgr c"
    and "rq_type rq = u ''http''" and "rq_path rq \<in> {u ''/'', mcp_path mgr}"
    and "\<not> exempt_path (mcp_path mgr)" and "mcp_path mgr \<notin> set legacy_sse_message_paths"
    and "normalized_auth_mode cfg = u ''oauth''"
    and "extract_bearer_token (header ''authorization'' rq) \<noteq> auth_token cfg"
  shows "snd (serve_mcp mgr cfg shared rq now (oauth_run nok pys sha mgr NoFile calls)) \<notin>
    {Dispatched (ToStreamable p), Dispatched (ToLegacySse p), Dispatched ServerCard}"
proof -
  let ?disk = "oauth_run nok pys sha mgr NoFile calls"
  have "no_grants (read_store ?disk)"
    using assms(1) by (intro run_no_grants) (auto simp: no_grants_def empty_store_def list_all_iff)
  then have "\<not> authenticated mgr cfg shared rq now ?disk"
    using assms(6,7) by (auto simp: authenticated_def Let_def no_grants_def verify_access_token_def)
  moreover have "normalized_auth_mode cfg \<noteq> u ''none''" using assms(6) by simp
  ultimately have "out = Status 204" if "snd (serve_mcp mgr cfg shared rq now ?disk) = Dispatched out" for out
    using mcp_endpoint_protected [OF _ assms(2-5), of cfg shared now ?disk _ out] that
    by (cases "serve_mcp mgr cfg shared rq now ?disk") auto
  then show ?thesis by fastforce
qed

definition oauth_cfg :: oauth_config where
  "oauth_cfg = shared_cfg\<lparr>auth_mode := u ''oauth''\<rparr>"

theorem mcp_closed_without_login_witness:
  "snd (serve_mcp (shared_mgr\<lparr>config := oauth_cfg\<rparr>) oauth_cfg []
      (sample_request\<lparr>rq_headers := [(u ''authorization'', u ''Bearer mcp_at_x'')]\<rparr>) 7
      (oauth_run (\<lambda>_. True) (\<lambda>_. []) (\<lambda>b. b) (shared_mgr\<lparr>config := oauth_cfg\<rparr>) NoFile
        [Authorize [(''login_token'', u ''guess'')] (u ''https://h'') 6 (u ''k'')])) \<notin>
    {Dispatched (ToStreamable (u ''/mcp'')), Dispatched (ToLegacySse (u ''/mcp'')), Dispatched ServerCard}"
  by (rule mcp_closed_without_login)
     (simp_all add: unauthorized_call_def field_def login_token_def oauth_cfg_def http_eval http_samples)

end
