(* ===== verification/PatchParse.thy ===== *)
theory PatchParse
  imports Json
begin

text \<open>
  The patch language: \<^verbatim>\<open>parse_patch\<close> and its helpers in \<^verbatim>\<open>src/chatgpt_web_oauth_mcp/patching.py\<close>.

  The source walks an index over the lines; the model walks the list of the lines that are left, and
  the index is \<open>nlines\<close>, the number of lines of the patch, minus their number. A \<^verbatim>\<open>PatchError\<close> is its
  code, its message and its extra fields.
\<close>

section \<open>Syntax\<close>

datatype line_kind = Context | Added | Removed

datatype diff_line = DiffLine (dl_kind: line_kind) (dl_text: ustr)

record update_hunk =
  hk_lines :: "diff_line list"
  hk_patch_line :: nat

datatype patch_op =
    AddFilePatch ustr "ustr list"
  | DeleteFilePatch ustr
  | UpdateFilePatch ustr "ustr option" "update_hunk list"

datatype patch_error = PatchError string ustr dict

definition invalid_patch :: "ustr \<Rightarrow> patch_error" where
  "invalid_patch message = PatchError ''invalid_patch'' message []"

definition add_header :: ustr where "add_header = u ''*** Add File: ''"
definition delete_header :: ustr where "delete_header = u ''*** Delete File: ''"
definition update_header :: ustr where "update_header = u ''*** Update File: ''"
definition move_header :: ustr where "move_header = u ''*** Move to: ''"
definition begin_patch :: ustr where "begin_patch = u ''*** Begin Patch''"
definition end_patch :: ustr where "end_patch = u ''*** End Patch''"
definition end_of_file :: ustr where "end_of_file = u ''*** End of File''"
definition hunk_mark :: ustr where "hunk_mark = u ''@@''"

lemmas patch_markers = add_header_def delete_header_def update_header_def move_header_def
  begin_patch_def end_patch_def end_of_file_def hunk_mark_def

definition next_is_operation_header :: "ustr \<Rightarrow> bool" where
  "next_is_operation_header line \<longleftrightarrow>
     startswith line add_header \<or> startswith line delete_header \<or>
     startswith line update_header \<or> line = end_patch"

section \<open>Add file\<close>

fun add_file_lines :: "ustr list \<Rightarrow> patch_error + (ustr list \<times> ustr list)" where
  "add_file_lines [] = Inr ([], [])"
| "add_file_lines (line # rest) =
     (if next_is_operation_header line then Inr ([], line # rest)
      else if \<not> startswith line [43]
        then Inl (invalid_patch (u ''Add file lines must start with '' @ [39, 43, 39, 58, 32] @ line))
      else case add_file_lines rest of
          Inl e \<Rightarrow> Inl e
        | Inr (content, left) \<Rightarrow> Inr (drop 1 line # content, left))"

section \<open>Hunks\<close>

definition diff_kind :: "nat \<Rightarrow> line_kind option" where
  "diff_kind c = (if c = 32 then Some Context else if c = 43 then Some Added
                  else if c = 45 then Some Removed else None)"

fun hunk_lines :: "ustr list \<Rightarrow> patch_error + (diff_line list \<times> ustr list)" where
  "hunk_lines [] = Inr ([], [])"
| "hunk_lines (line # rest) =
     (if next_is_operation_header line \<or> startswith line hunk_mark then Inr ([], line # rest)
      else if line = end_of_file then hunk_lines rest
      else case line of
          [] \<Rightarrow> Inl (invalid_patch (u ''Unexpected patch line: '' @ line))
        | c # content \<Rightarrow>
            (case diff_kind c of
               None \<Rightarrow> Inl (invalid_patch (u ''Unexpected patch line: '' @ line))
             | Some k \<Rightarrow>
                 (case hunk_lines rest of
                    Inl e \<Rightarrow> Inl e
                  | Inr (ls, left) \<Rightarrow> Inr (DiffLine k content # ls, left))))"

definition has_kind :: "line_kind \<Rightarrow> diff_line list \<Rightarrow> bool" where
  "has_kind k ls \<longleftrightarrow> list_ex (\<lambda>l. dl_kind l = k) ls"

definition parse_hunk :: "nat \<Rightarrow> ustr list \<Rightarrow> patch_error + (update_hunk \<times> ustr list)" where
  "parse_hunk nlines ls =
     (let patch_line = nlines - length ls + 1;
          body = (case ls of [] \<Rightarrow> [] | line # rest \<Rightarrow> if startswith line hunk_mark then rest else ls);
          hunk_at = u ''Hunk at patch line '' @ nat_repr patch_line in
      case hunk_lines body of
        Inl e \<Rightarrow> Inl e
      | Inr (dls, left) \<Rightarrow>
          if dls = [] then Inl (invalid_patch (u ''Update hunks must contain at least one diff line.''))
          else if \<not> has_kind Added dls \<and> \<not> has_kind Removed dls
            then Inl (PatchError ''empty_hunk''
                   (hunk_at @ u '' contains only context lines; did you mean to add '' @ [39, 45, 39] @ u '' or ''
                     @ [39, 43, 39] @ u '' markers?'')
                   [(''patch_line'', jnat patch_line)])
          else if has_kind Added dls \<and> \<not> has_kind Removed dls \<and> \<not> has_kind Context dls
            then Inl (PatchError ''unanchored_hunk''
                   (hunk_at @ u '' contains only '' @ [39, 43, 39] @ u '' lines and cannot be anchored uniquely; add surrounding context or ''
                     @ [39, 45, 39] @ u '' lines.'')
                   [(''patch_line'', jnat patch_line)])
          else Inr (\<lparr>hk_lines = dls, hk_patch_line = patch_line\<rparr>, left))"

text \<open>A parsed hunk has used up at least one line.\<close>

lemma hunk_lines_length:
  "hunk_lines ls = Inr (dls, left) \<Longrightarrow> length left + length dls \<le> length ls"
proof (induction ls arbitrary: dls left rule: hunk_lines.induct)
  case (2 line rest)
  show ?case
  proof (cases "next_is_operation_header line \<or> startswith line hunk_mark \<or> line = end_of_file")
    case True
    with 2 show ?thesis by (auto simp del: list.map split: if_splits)
  next
    case False
    with 2(3) obtain c content k dls' where l: "line = c # content" "diff_kind c = Some k"
      and r: "hunk_lines rest = Inr (dls', left)" and d: "dls = DiffLine k content # dls'"
      by (auto simp del: list.map split: list.splits option.splits sum.splits)
    from False have "\<not> (next_is_operation_header line \<or> startswith line hunk_mark)" "line \<noteq> end_of_file" by auto
    from 2(2) [OF this l r] show ?thesis by (simp add: d)
  qed
qed simp

lemma parse_hunk_length: "parse_hunk nlines ls = Inr (h, left) \<Longrightarrow> length left < length ls"
proof -
  assume p: "parse_hunk nlines ls = Inr (h, left)"
  let ?body = "case ls of [] \<Rightarrow> [] | line # rest \<Rightarrow> if startswith line hunk_mark then rest else ls"
  from p obtain dls where d: "hunk_lines ?body = Inr (dls, left)" "dls \<noteq> []"
    by (auto simp: parse_hunk_def Let_def split: sum.splits prod.splits if_splits)
  have "length ?body \<le> length ls" by (simp split: list.split)
  moreover have "0 < length dls" using d(2) by simp
  ultimately show ?thesis using hunk_lines_length [OF d(1)] by linarith
qed

function (sequential) parse_hunks :: "nat \<Rightarrow> ustr list \<Rightarrow> patch_error + (update_hunk list \<times> ustr list)" where
  "parse_hunks nlines [] = Inr ([], [])"
| "parse_hunks nlines (line # rest) =
     (if next_is_operation_header line then Inr ([], line # rest)
      else case parse_hunk nlines (line # rest) of
          Inl e \<Rightarrow> Inl e
        | Inr (h, left) \<Rightarrow>
            (case parse_hunks nlines left of
               Inl e \<Rightarrow> Inl e
             | Inr (hs, left') \<Rightarrow> Inr (h # hs, left')))"
  by pat_completeness auto

termination
  by (relation "measure (\<lambda>(nlines, ls). length ls)") (auto dest: parse_hunk_length [OF sym] parse_hunk_length)

definition parse_update_file :: "nat \<Rightarrow> ustr list \<Rightarrow> patch_error + (patch_op \<times> ustr list)" where
  "parse_update_file nlines ls =
     (case ls of
        [] \<Rightarrow> Inl (invalid_patch [])
      | line # rest \<Rightarrow>
          let path = drop (length update_header) line;
              move_to = (case rest of [] \<Rightarrow> None
                         | m # _ \<Rightarrow> if startswith m move_header then Some (drop (length move_header) m) else None);
              body = (if move_to = None then rest else drop 1 rest) in
          case parse_hunks nlines body of
            Inl e \<Rightarrow> Inl e
          | Inr (hunks, left) \<Rightarrow>
              if hunks = [] \<and> move_to = None
              then Inl (invalid_patch (u ''Update file patch has no changes: '' @ path))
              else Inr (UpdateFilePatch path move_to hunks, left))"

section \<open>The whole patch\<close>

lemma add_file_lines_length: "add_file_lines ls = Inr (content, left) \<Longrightarrow> length left \<le> length ls"
proof (induction ls arbitrary: content left rule: add_file_lines.induct)
  case (2 line rest)
  show ?case
  proof (cases "next_is_operation_header line \<or> \<not> startswith line [43]")
    case True
    with 2(2) show ?thesis by (auto split: if_splits)
  next
    case False
    with 2(2) obtain c where "add_file_lines rest = Inr (c, left)"
      by (auto split: sum.splits)
    with 2(1) False show ?thesis by fastforce
  qed
qed simp

lemma parse_hunks_length: "parse_hunks nlines ls = Inr (hs, left) \<Longrightarrow> length left \<le> length ls"
proof (induction nlines ls arbitrary: hs left rule: parse_hunks.induct)
  case (2 nlines line rest)
  then show ?case
    by (auto split: if_splits sum.splits dest!: parse_hunk_length) fastforce
qed simp

lemma parse_update_file_length:
  "parse_update_file nlines ls = Inr (op, left) \<Longrightarrow> length left < length ls"
proof -
  assume p: "parse_update_file nlines ls = Inr (op, left)"
  then obtain line rest where ls: "ls = line # rest" by (cases ls) (simp_all add: parse_update_file_def)
  from p obtain body hunks where b: "body = rest \<or> body = drop 1 rest"
    and h: "parse_hunks nlines body = Inr (hunks, left)"
    unfolding parse_update_file_def ls Let_def list.case
    by (auto simp del: parse_hunks.simps split: sum.splits if_splits intro: that)
  from b have "length body \<le> length rest" by auto
  with parse_hunks_length [OF h] show ?thesis by (simp add: ls)
qed

function (sequential) parse_operations :: "nat \<Rightarrow> ustr list \<Rightarrow> patch_error + patch_op list" where
  "parse_operations nlines [] = Inl (invalid_patch (u ''Patch must end with '' @ [39] @ end_patch @ [39, 46]))"
| "parse_operations nlines (line # rest) =
     (if line = end_patch then Inr []
      else if startswith line add_header then
        (case add_file_lines rest of
           Inl e \<Rightarrow> Inl e
         | Inr (content, left) \<Rightarrow>
             map_sum id (\<lambda>ops. AddFilePatch (drop (length add_header) line) content # ops)
               (parse_operations nlines left))
      else if startswith line delete_header then
        map_sum id (\<lambda>ops. DeleteFilePatch (drop (length delete_header) line) # ops)
          (parse_operations nlines rest)
      else if startswith line update_header then
        (case parse_update_file nlines (line # rest) of
           Inl e \<Rightarrow> Inl e
         | Inr (op, left) \<Rightarrow> map_sum id (\<lambda>ops. op # ops) (parse_operations nlines left))
      else Inl (invalid_patch (u ''Unexpected patch header: '' @ line)))"
  by pat_completeness auto

termination
  by (relation "measure (\<lambda>(nlines, ls). length ls)")
     (auto simp: less_Suc_eq_le dest: add_file_lines_length parse_update_file_length)

definition parse_patch :: "ustr \<Rightarrow> patch_error + patch_op list" where
  "parse_patch patch =
     (case splitlines patch of
        [] \<Rightarrow> Inl (invalid_patch (u ''Patch must start with '' @ [39] @ begin_patch @ [39, 46]))
      | line # rest \<Rightarrow>
          if line \<noteq> begin_patch
          then Inl (invalid_patch (u ''Patch must start with '' @ [39] @ begin_patch @ [39, 46]))
          else parse_operations (length (line # rest)) rest)"

end
