(* ===== verification/Fs.thy ===== *)
theory Fs
  imports Utf8 Json
begin

text \<open>
  The part of the operating system the tools write to: a tree of directories and files, as a map from
  resolved absolute paths to nodes. A path is the list of its components; resolving a path
  (\<^verbatim>\<open>pathing.resolve_path\<close>: user directory, relative parts, symbolic links) is a parameter of the
  components that do it. Operations fail with the \<^verbatim>\<open>OSError\<close> that the shape of the tree implies; what a
  full disk or permissions add is a parameter where the code reacts to it.
\<close>

type_synonym path = "ustr list"

datatype node = FileNode bytes | DirNode

type_synonym fs = "path \<Rightarrow> node option"

definition path_text :: "path \<Rightarrow> ustr" where
  "path_text p = (if p = [] then [47] else concat (map (\<lambda>c. 47 # c) p))"

section \<open>Queries\<close>

definition path_exists :: "fs \<Rightarrow> path \<Rightarrow> bool" where
  "path_exists m p \<longleftrightarrow> p = [] \<or> m p \<noteq> None"

definition is_file :: "fs \<Rightarrow> path \<Rightarrow> bool" where
  "is_file m p \<longleftrightarrow> (case m p of Some (FileNode b) \<Rightarrow> True | _ \<Rightarrow> False)"

definition is_dir :: "fs \<Rightarrow> path \<Rightarrow> bool" where
  "is_dir m p \<longleftrightarrow> p = [] \<or> m p = Some DirNode"

definition file_bytes :: "fs \<Rightarrow> path \<Rightarrow> bytes option" where
  "file_bytes m p = (case m p of Some (FileNode b) \<Rightarrow> Some b | _ \<Rightarrow> None)"

section \<open>Updates\<close>

datatype py_error = InvalidValue | NotADirectory | IsADirectory | FileNotFound | EncodeError | RegexError | IoFailure |
  DecodeError | IndexOutOfRange

text \<open>What a tool function does: return a payload, or raise an exception none of its handlers catches.\<close>

datatype tool_result = Reply dict | Raises py_error

text \<open>\<^verbatim>\<open>path.mkdir(parents=True, exist_ok=True)\<close>: fails before it creates anything when a component is a file.\<close>

definition mkdir_parents :: "fs \<Rightarrow> path \<Rightarrow> py_error + fs" where
  "mkdir_parents m p =
     (if list_ex (is_file m) (prefixes p) then Inl NotADirectory
      else Inr (\<lambda>q. if prefix q p \<and> q \<noteq> [] then Some DirNode else m q))"

definition write_file :: "fs \<Rightarrow> path \<Rightarrow> bytes \<Rightarrow> py_error + fs" where
  "write_file m p b =
     (if is_dir m p then Inl IsADirectory
      else if is_file m (butlast p) then Inl NotADirectory
      else if \<not> is_dir m (butlast p) then Inl FileNotFound
      else Inr (m(p \<mapsto> FileNode b)))"

definition unlink_file :: "fs \<Rightarrow> path \<Rightarrow> py_error + fs" where
  "unlink_file m p =
     (if is_dir m p then Inl IsADirectory
      else if is_file m p then Inr (m(p := None)) else Inl FileNotFound)"

section \<open>Laws\<close>

text \<open>
  What the clients use: after an operation that succeeds, the file it names has the bytes it was given
  (or is gone), and every other file is as it was.
\<close>

locale file_store =
  fixes get :: "'m \<Rightarrow> 'p \<Rightarrow> bytes option"
    and put :: "'m \<Rightarrow> 'p \<Rightarrow> bytes \<Rightarrow> py_error + 'm"
    and remove :: "'m \<Rightarrow> 'p \<Rightarrow> py_error + 'm"
  assumes get_put: "put m p b = Inr m' \<Longrightarrow> get m' q = (if q = p then Some b else get m q)"
    and get_remove: "remove m p = Inr m' \<Longrightarrow> get m' q = (if q = p then None else get m q)"
begin

lemma put_put:
  "put m p b = Inr m1 \<Longrightarrow> put m1 p c = Inr m2 \<Longrightarrow> get m2 q = (if q = p then Some c else get m q)"
  by (simp add: get_put)

lemma put_undo:
  "get m p = Some b \<Longrightarrow> put m p c = Inr m1 \<Longrightarrow> put m1 p b = Inr m2 \<Longrightarrow> get m2 q = get m q"
  by (simp add: get_put)

lemma put_remove:
  "get m p = None \<Longrightarrow> put m p b = Inr m1 \<Longrightarrow> remove m1 p = Inr m2 \<Longrightarrow> get m2 q = get m q"
  by (simp add: get_put get_remove)

text \<open>A sequence of writes to distinct files, stopping at the first failure.\<close>

fun put_all :: "'m \<Rightarrow> ('p \<times> bytes) list \<Rightarrow> 'm \<times> py_error option" where
  "put_all m [] = (m, None)"
| "put_all m ((p, b) # ws) = (case put m p b of Inl e \<Rightarrow> (m, Some e) | Inr m' \<Rightarrow> put_all m' ws)"

lemma put_all_other: "q \<notin> fst ` set ws \<Longrightarrow> get (fst (put_all m ws)) q = get m q"
  by (induction m ws rule: put_all.induct) (auto simp: get_put split: sum.splits)

lemma put_all_done:
  "snd (put_all m ws) = None \<Longrightarrow> distinct (map fst ws) \<Longrightarrow> (p, b) \<in> set ws \<Longrightarrow>
   get (fst (put_all m ws)) p = Some b"
proof (induction m ws rule: put_all.induct)
  case (2 m q c ws)
  then show ?case
    by (auto simp: get_put put_all_other rev_image_eqI split: sum.splits)
qed simp

end

lemma file_bytes_put: "write_file m p b = Inr m' \<Longrightarrow> file_bytes m' q = (if q = p then Some b else file_bytes m q)"
  by (auto simp: write_file_def file_bytes_def split: if_splits)

lemma file_bytes_remove: "unlink_file m p = Inr m' \<Longrightarrow> file_bytes m' q = (if q = p then None else file_bytes m q)"
  by (auto simp: unlink_file_def file_bytes_def split: if_splits)

interpretation files: file_store file_bytes write_file unlink_file
  by unfold_locales (fact file_bytes_put, fact file_bytes_remove)

text \<open>Creating directories leaves every file as it was.\<close>

lemma is_file_iff: "is_file m p \<longleftrightarrow> file_bytes m p \<noteq> None"
  by (auto simp: is_file_def file_bytes_def split: option.splits node.splits)

lemma file_bytes_mkdir:
  assumes "mkdir_parents m p = Inr m'" shows "file_bytes m' q = file_bytes m q"
proof -
  from assms have nf: "\<And>q. prefix q p \<Longrightarrow> \<not> is_file m q"
    and m': "m' = (\<lambda>q. if prefix q p \<and> q \<noteq> [] then Some DirNode else m q)"
    by (auto simp: mkdir_parents_def list_ex_iff split: if_splits)
  show ?thesis
    using nf [of q] by (auto simp: m' file_bytes_def is_file_def split: option.splits node.splits)
qed

lemma mkdir_write:
  assumes "mkdir_parents m (butlast p) = Inr m'" and "m p \<noteq> Some DirNode" and "p \<noteq> []"
  shows "write_file m' p b = Inr (m'(p \<mapsto> FileNode b))"
proof -
  from assms(1) have m': "m' = (\<lambda>q. if prefix q (butlast p) \<and> q \<noteq> [] then Some DirNode else m q)"
    by (auto simp: mkdir_parents_def split: if_splits)
  have "\<not> prefix p (butlast p)"
    using assms(3) prefix_length_le [of p "butlast p"] by (cases p) auto
  then have "\<not> is_dir m' p" using assms(2,3) by (simp add: m' is_dir_def)
  moreover have "is_dir m' (butlast p)" by (simp add: m' is_dir_def)
  moreover from this have "\<not> is_file m' (butlast p) \<or> butlast p = []"
    by (auto simp: is_dir_def is_file_def)
  moreover have "\<not> is_file m' []"
    using assms(1) by (auto simp: mkdir_parents_def m' is_file_def list_ex_iff split: if_splits)
  ultimately show ?thesis by (auto simp: write_file_def)
qed

end
