(* ===== verification/PatchApply.thy ===== *)
theory PatchApply
  imports PatchParse Fs
begin

text \<open>
  Planning and applying a parsed patch: the rest of \<^verbatim>\<open>src/chatgpt_web_oauth_mcp/patching.py\<close>.

  Every operation is planned against the file system as it is before the patch; then the planned
  changes are written in order. Parameters: \<^verbatim>\<open>pathing.resolve_path\<close>, SHA-256, and the two heuristics of
  \<^verbatim>\<open>difflib\<close> that only feed messages (the similarity ratio and the unified diff).
\<close>

record difflib =
  df_ratio :: "ustr \<Rightarrow> ustr \<Rightarrow> nat"
  df_show_ratio :: "nat \<Rightarrow> ustr"
  df_unified :: "ustr list \<Rightarrow> ustr list \<Rightarrow> ustr \<Rightarrow> ustr \<Rightarrow> ustr list"

record planned_change =
  ch_kind :: string
  ch_path :: path
  ch_previous :: "path option"
  ch_old_text :: ustr
  ch_new_text :: ustr
  ch_hunks :: nat

definition join_lines :: "ustr list \<Rightarrow> bool \<Rightarrow> ustr" where
  "join_lines lines trailing_newline =
     (if lines = [] then [] else join [10] lines @ (if trailing_newline then [10] else []))"

text \<open>\<^verbatim>\<open>_read_text\<close> of a file's bytes.\<close>

definition patch_read_text :: "path \<Rightarrow> bytes \<Rightarrow> patch_error + ustr" where
  "patch_read_text p raw =
     (if 0 \<in> set (take 1024 raw)
      then Inl (PatchError ''not_text_file'' (u ''Binary files are not supported: '' @ path_text p)
             [(''path'', JStr (path_text p))])
      else Inr (utf8_decode_replace raw))"

section \<open>Matching a hunk\<close>

definition find_sequence_matches :: "ustr list \<Rightarrow> ustr list \<Rightarrow> nat list" where
  "find_sequence_matches lines needle =
     (if needle = [] then []
      else if length lines + 1 < length needle then []
      else filter (\<lambda>i. take (length needle) (drop i lines) = needle)
             [0..<length lines + 2 - length needle])"

definition clip_snippet :: "ustr \<Rightarrow> ustr" where
  "clip_snippet s = (if length s \<le> 400 then s else take 400 s @ [0x2026])"

text \<open>\<^verbatim>\<open>sort(key=..., reverse=True)\<close> keeps the order of equal keys.\<close>

definition sort_reverse :: "('a \<Rightarrow> nat) \<Rightarrow> 'a list \<Rightarrow> 'a list" where
  "sort_reverse key xs = rev (sort_key key (rev xs))"

definition fuzzy_hunk_candidates :: "difflib \<Rightarrow> ustr list \<Rightarrow> ustr list \<Rightarrow> nat \<Rightarrow> json list" where
  "fuzzy_hunk_candidates df lines needle k =
     (let window_size = max (length needle) 1;
          needle_blob = join [10] needle in
      if lines = [] \<or> needle_blob = [] then []
      else
        let window = (\<lambda>i. join [10] (take window_size (drop i lines)));
            scored = filter (\<lambda>(ratio, n, w). 0 < ratio)
              (map (\<lambda>i. (df_ratio df (window i) needle_blob, i + 1, window i))
                 [0..<max (length lines + 1 - window_size) 1])
        in map (\<lambda>(ratio, n, w).
               JObj [(''line'', jnat n), (''similarity'', JFloat (df_show_ratio df ratio)),
                     (''snippet'', JStr (clip_snippet w))])
             (take k (sort_reverse fst scored)))"

definition exact_hunk_candidates :: "ustr list \<Rightarrow> ustr list \<Rightarrow> nat list \<Rightarrow> nat \<Rightarrow> json list" where
  "exact_hunk_candidates lines needle matches k =
     (let window_size = max (length needle) 1 in
      map (\<lambda>i. JObj [(''line'', jnat (i + 1)),
                      (''snippet'', JStr (clip_snippet (join [10] (take window_size (drop i lines)))))])
        (take k matches))"

definition old_lines :: "update_hunk \<Rightarrow> ustr list" where
  "old_lines h = map dl_text (filter (\<lambda>l. dl_kind l \<noteq> Added) (hk_lines h))"

definition new_lines :: "update_hunk \<Rightarrow> ustr list" where
  "new_lines h = map dl_text (filter (\<lambda>l. dl_kind l \<noteq> Removed) (hk_lines h))"

definition apply_hunk ::
  "difflib \<Rightarrow> path \<Rightarrow> nat \<Rightarrow> update_hunk \<Rightarrow> ustr list \<times> nat \<Rightarrow> patch_error + (ustr list \<times> nat)" where
  "apply_hunk df p hunk_index h = (\<lambda>(lines, cursor).
     let old = old_lines h; new = new_lines h;
         search_start = cursor - length old;
         matches = find_sequence_matches lines old;
         common = [(''path'', JStr (path_text p)), (''hunk_index'', jnat hunk_index),
                   (''patch_line'', jnat (hk_patch_line h)), (''expected'', JList (map JStr old))] in
     case matches of
       [] \<Rightarrow> Inl (PatchError ''patch_context_not_found''
              (u ''Could not match update hunk #'' @ nat_repr (hunk_index + 1) @ u '' in '' @ path_text p
                @ u ''. See `candidates` for the closest line windows; the hunk'' @ [39]
                @ u ''s expected context is in `expected`.'')
              (common @ [(''search_started_at_line'', jnat (search_start + 1)),
                         (''candidates'', JList (fuzzy_hunk_candidates df lines old 3))]))
     | [i] \<Rightarrow> Inr (take i lines @ new @ drop (i + length old) lines, i + length new)
     | _ \<Rightarrow> Inl (PatchError ''ambiguous_context_match''
              (u ''Update hunk #'' @ nat_repr (hunk_index + 1) @ u '' in '' @ path_text p @ u '' matched ''
                @ nat_repr (length matches) @ u '' locations. Patch context must match exactly one location; add more surrounding context.'')
              (common @ [(''match_count'', jnat (length matches)), (''expected_match_count'', JInt 1),
                         (''matching_lines'', JList (map (\<lambda>i. jnat (i + 1)) matches)),
                         (''candidates'', JList (exact_hunk_candidates lines old matches 3))])))"

fun apply_hunks ::
  "difflib \<Rightarrow> path \<Rightarrow> nat \<Rightarrow> update_hunk list \<Rightarrow> ustr list \<times> nat \<Rightarrow> patch_error + (ustr list \<times> nat)" where
  "apply_hunks df p i [] st = Inr st"
| "apply_hunks df p i (h # hs) st =
     (case apply_hunk df p i h st of Inl e \<Rightarrow> Inl e | Inr st' \<Rightarrow> apply_hunks df p (Suc i) hs st')"

section \<open>Planning\<close>

definition path_error :: "string \<Rightarrow> string \<Rightarrow> path \<Rightarrow> patch_error" where
  "path_error code message p =
     PatchError code (u message @ u '': '' @ path_text p) [(''path'', JStr (path_text p))]"

definition plan_update ::
  "difflib \<Rightarrow> fs \<Rightarrow> path \<Rightarrow> path option \<Rightarrow> update_hunk list \<Rightarrow> patch_error + planned_change" where
  "plan_update df m p move_to hunks =
     (if \<not> path_exists m p then Inl (path_error ''file_not_found'' ''File not found'' p)
      else case file_bytes m p of
        None \<Rightarrow> Inl (path_error ''not_a_file'' ''Path is not a file'' p)
      | Some raw \<Rightarrow>
          case patch_read_text p raw of
            Inl e \<Rightarrow> Inl e
          | Inr original \<Rightarrow>
              case apply_hunks df p 0 hunks (splitlines original, 0) of
                Inl e \<Rightarrow> Inl e
              | Inr (lines, cursor) \<Rightarrow>
                  let target = (case move_to of None \<Rightarrow> p | Some t \<Rightarrow> t) in
                  if target \<noteq> p \<and> path_exists m target
                  then Inl (path_error ''target_exists'' ''Move target already exists'' target)
                  else Inr \<lparr>ch_kind = (if target \<noteq> p then ''move'' else ''update''),
                            ch_path = target,
                            ch_previous = (if target \<noteq> p then Some p else None),
                            ch_old_text = original,
                            ch_new_text = join_lines lines (endswith original [10]),
                            ch_hunks = length hunks\<rparr>)"

definition plan_add :: "fs \<Rightarrow> path \<Rightarrow> ustr list \<Rightarrow> patch_error + planned_change" where
  "plan_add m p lines =
     (if path_exists m p then Inl (path_error ''path_exists'' ''Path already exists'' p)
      else Inr \<lparr>ch_kind = ''add'', ch_path = p, ch_previous = None, ch_old_text = [],
                ch_new_text = join_lines lines (lines \<noteq> []), ch_hunks = 1\<rparr>)"

definition plan_delete :: "fs \<Rightarrow> path \<Rightarrow> patch_error + planned_change" where
  "plan_delete m p =
     (if \<not> path_exists m p then Inl (path_error ''path_not_found'' ''Path not found'' p)
      else case file_bytes m p of
        None \<Rightarrow> Inl (path_error ''not_a_file'' ''Delete file patch only supports files'' p)
      | Some raw \<Rightarrow>
          map_sum id (\<lambda>text. \<lparr>ch_kind = ''delete'', ch_path = p, ch_previous = None,
                ch_old_text = text, ch_new_text = [], ch_hunks = 1\<rparr>) (patch_read_text p raw))"

fun plan_operation ::
  "difflib \<Rightarrow> (ustr \<Rightarrow> path) \<Rightarrow> fs \<Rightarrow> patch_op \<Rightarrow> patch_error + planned_change" where
  "plan_operation df resolve m (AddFilePatch p lines) = plan_add m (resolve p) lines"
| "plan_operation df resolve m (DeleteFilePatch p) = plan_delete m (resolve p)"
| "plan_operation df resolve m (UpdateFilePatch p move_to hunks) =
     plan_update df m (resolve p)
       (case move_to of None \<Rightarrow> None | Some t \<Rightarrow> if t = [] then None else Some (resolve t)) hunks"

fun plan_all ::
  "difflib \<Rightarrow> (ustr \<Rightarrow> path) \<Rightarrow> fs \<Rightarrow> patch_op list \<Rightarrow> patch_error + planned_change list" where
  "plan_all df resolve m [] = Inr []"
| "plan_all df resolve m (op # ops) =
     (case plan_operation df resolve m op of
        Inl e \<Rightarrow> Inl e
      | Inr ch \<Rightarrow> map_sum id (\<lambda>chs. ch # chs) (plan_all df resolve m ops))"

section \<open>Summaries\<close>

fun splitlines_keep_from :: "ustr \<Rightarrow> ustr \<Rightarrow> ustr list" where
  "splitlines_keep_from cur [] = (if cur = [] then [] else [rev cur])"
| "splitlines_keep_from cur [c] = [rev (c # cur)]"
| "splitlines_keep_from cur (c # d # cs) =
     (if c = 13 \<and> d = 10 then rev (d # c # cur) # splitlines_keep_from [] cs
      else if is_line_break c then rev (c # cur) # splitlines_keep_from [] (d # cs)
      else splitlines_keep_from (c # cur) (d # cs))"

definition splitlines_keep :: "ustr \<Rightarrow> ustr list" where
  "splitlines_keep s = splitlines_keep_from [] s"

definition render_diff :: "difflib \<Rightarrow> planned_change \<Rightarrow> ustr" where
  "render_diff df ch =
     concat (df_unified df (splitlines_keep (ch_old_text ch)) (splitlines_keep (ch_new_text ch))
       (path_text (case ch_previous ch of None \<Rightarrow> ch_path ch | Some p \<Rightarrow> p)) (path_text (ch_path ch)))"

definition diff_line_counts :: "ustr \<Rightarrow> nat \<times> nat" where
  "diff_line_counts diff =
     (let body = filter (\<lambda>l. \<not> (startswith l (u ''+++'') \<or> startswith l (u ''---'') \<or> startswith l (u ''@@'')))
                   (splitlines diff)
      in (length (filter (\<lambda>l. startswith l [43]) body), length (filter (\<lambda>l. startswith l [45]) body)))"

definition change_warnings :: "planned_change \<Rightarrow> nat \<Rightarrow> nat \<Rightarrow> json list" where
  "change_warnings ch added removed =
     (if (ch_kind ch = ''update'' \<or> ch_kind ch = ''move'') \<and> 0 < added \<and> removed = 0
      then [jlit ''update inserted lines without removing any existing lines; verify this was intended'']
      else [])"

definition summarize_change :: "difflib \<Rightarrow> (bytes \<Rightarrow> bytes) \<Rightarrow> planned_change \<Rightarrow> dict" where
  "summarize_change df sha ch =
     (let (added, removed) = diff_line_counts (render_diff df ch) in
      [(''kind'', jlit (ch_kind ch)), (''path'', JStr (path_text (ch_path ch))),
       (''lines_added'', jnat added), (''lines_removed'', jnat removed),
       (''bytes_before'', jnat (utf8_len (ch_old_text ch))),
       (''bytes_after'', jnat (utf8_len (ch_new_text ch))),
       (''hunks_applied'', jnat (ch_hunks ch)),
       (''sha256_after'', JStr (hexdigest (sha (utf8_encode (ch_new_text ch))))),
       (''warnings'', JList (change_warnings ch added removed))]
      @ (case ch_previous ch of None \<Rightarrow> [] | Some p \<Rightarrow> [(''previous_path'', JStr (path_text p))]))"

definition serialize_change :: "planned_change \<Rightarrow> dict" where
  "serialize_change ch =
     [(''kind'', jlit (ch_kind ch)), (''path'', JStr (path_text (ch_path ch)))]
     @ (case ch_previous ch of None \<Rightarrow> [] | Some p \<Rightarrow> [(''previous_path'', JStr (path_text p))])"

section \<open>Applying\<close>

text \<open>The file system afterwards, and the \<^verbatim>\<open>OSError\<close> that stopped the writing.\<close>

definition apply_change :: "fs \<Rightarrow> planned_change \<Rightarrow> fs \<times> py_error option" where
  "apply_change m ch =
     (if ch_kind ch = ''delete'' then
        (case unlink_file m (ch_path ch) of Inl e \<Rightarrow> (m, Some e) | Inr m' \<Rightarrow> (m', None))
      else case mkdir_parents m (butlast (ch_path ch)) of
          Inl e \<Rightarrow> (m, Some e)
        | Inr m1 \<Rightarrow>
            (case write_file m1 (ch_path ch) (utf8_encode (ch_new_text ch)) of
               Inl e \<Rightarrow> (m1, Some e)
             | Inr m2 \<Rightarrow>
                 (case ch_previous ch of
                    Some q \<Rightarrow>
                      if ch_kind ch = ''move'' \<and> q \<noteq> ch_path ch
                      then (case unlink_file m2 q of Inl e \<Rightarrow> (m2, Some e) | Inr m3 \<Rightarrow> (m3, None))
                      else (m2, None)
                  | None \<Rightarrow> (m2, None))))"

fun apply_changes :: "fs \<Rightarrow> planned_change list \<Rightarrow> fs \<times> py_error option" where
  "apply_changes m [] = (m, None)"
| "apply_changes m (ch # chs) =
     (case apply_change m ch of
        (m', Some e) \<Rightarrow> (m', Some e)
      | (m', None) \<Rightarrow> apply_changes m' chs)"

definition patch_error_reply :: "patch_error \<Rightarrow> dict" where
  "patch_error_reply e = (case e of PatchError code message extra \<Rightarrow> tool_error code message extra)"

definition apply_patch ::
  "difflib \<Rightarrow> (bytes \<Rightarrow> bytes) \<Rightarrow> (ustr \<Rightarrow> path) \<Rightarrow> ustr \<Rightarrow> bool \<Rightarrow> bool \<Rightarrow> bool \<Rightarrow> fs \<Rightarrow> fs \<times> tool_result" where
  "apply_patch df sha resolve patch dry_run validate_only return_diff m =
     (case parse_patch patch of
        Inl e \<Rightarrow> (m, Reply (patch_error_reply e))
      | Inr ops \<Rightarrow>
          (case plan_all df resolve m ops of
             Inl e \<Rightarrow> (m, Reply (patch_error_reply e))
           | Inr chs \<Rightarrow>
               if \<not> list_all (\<lambda>ch. list_all scalar_value (ch_new_text ch)) chs then (m, Raises EncodeError)
               else
                 let summaries = map (summarize_change df sha) chs;
                     warnings = remdups (concat (map (\<lambda>ch.
                       (case diff_line_counts (render_diff df ch) of (a, r) \<Rightarrow> change_warnings ch a r)) chs));
                     should_apply = (\<not> dry_run \<and> \<not> validate_only);
                     (m', failure) = (if should_apply then apply_changes m chs else (m, None)) in
                 (case failure of
                    Some e \<Rightarrow> (m', Raises e)
                  | None \<Rightarrow>
                      (m', Reply
                        ([(''success'', JBool True),
                          (''changes'', JList (map (\<lambda>ch. JObj (serialize_change ch)) chs)),
                          (''files'', JList (map JObj summaries)),
                          (''warnings'', JList warnings),
                          (''applied'', JBool should_apply),
                          (''validated'', JBool (dry_run \<or> validate_only))]
                         @ (if return_diff then [(''diff'', JStr (concat (map (render_diff df) chs)))] else []))))))"

end
