(* ===== verification/PatchProps.thy ===== *)
theory PatchProps
  imports PatchApply
begin

text \<open>
  The properties of \<open>PatchParse\<close> and \<open>PatchApply\<close>: parsing inverts printing, a hunk is applied at its
  only match, and what a patch does to the file system.
\<close>

section \<open>Printing patches\<close>

fun kind_char :: "line_kind \<Rightarrow> nat" where
  "kind_char Context = 32"
| "kind_char Added = 43"
| "kind_char Removed = 45"

fun print_line :: "diff_line \<Rightarrow> ustr" where
  "print_line (DiffLine k t) = kind_char k # t"

definition print_hunk :: "update_hunk \<Rightarrow> ustr list" where
  "print_hunk h = hunk_mark # map print_line (hk_lines h)"

fun print_op :: "patch_op \<Rightarrow> ustr list" where
  "print_op (AddFilePatch p ls) = (add_header @ p) # map (\<lambda>l. 43 # l) ls"
| "print_op (DeleteFilePatch p) = [delete_header @ p]"
| "print_op (UpdateFilePatch p move hs) =
     (update_header @ p) # (case move of None \<Rightarrow> [] | Some t \<Rightarrow> [move_header @ t]) @ concat (map print_hunk hs)"

definition print_patch :: "patch_op list \<Rightarrow> ustr" where
  "print_patch ops = join [10] (begin_patch # concat (map print_op ops) @ [end_patch])"

text \<open>What the parser accepts: the conditions of \<^verbatim>\<open>_parse_hunk\<close> and \<^verbatim>\<open>_parse_update_file\<close>.\<close>

definition good_hunk :: "update_hunk \<Rightarrow> bool" where
  "good_hunk h \<longleftrightarrow> (has_kind Added (hk_lines h) \<or> has_kind Removed (hk_lines h)) \<and>
     (has_kind Removed (hk_lines h) \<or> has_kind Context (hk_lines h)) \<and>
     list_all (\<lambda>l. no_breaks (dl_text l)) (hk_lines h)"

fun good_op :: "patch_op \<Rightarrow> bool" where
  "good_op (AddFilePatch p ls) = (no_breaks p \<and> list_all no_breaks ls)"
| "good_op (DeleteFilePatch p) = no_breaks p"
| "good_op (UpdateFilePatch p move hs) =
     (no_breaks p \<and> (case move of None \<Rightarrow> hs \<noteq> [] | Some t \<Rightarrow> no_breaks t) \<and> list_all good_hunk hs)"

text \<open>Operations without the line numbers the parser records for messages.\<close>

fun without_lines :: "patch_op \<Rightarrow> patch_op" where
  "without_lines (UpdateFilePatch p move hs) = UpdateFilePatch p move (map (hk_patch_line_update (\<lambda>_. 0)) hs)"
| "without_lines op = op"

section \<open>Parsing what was printed\<close>

definition at_stop :: "ustr list \<Rightarrow> bool" where
  "at_stop ls = (case ls of [] \<Rightarrow> True | l # _ \<Rightarrow> next_is_operation_header l \<or> startswith l hunk_mark)"

definition at_header :: "ustr list \<Rightarrow> bool" where
  "at_header ls = (case ls of [] \<Rightarrow> True | l # _ \<Rightarrow> next_is_operation_header l)"

lemma at_header_stop: "at_header ls \<Longrightarrow> at_stop ls"
  by (auto simp: at_header_def at_stop_def split: list.splits)

lemma marked_line_plain:
  "c \<noteq> 42 \<Longrightarrow> c \<noteq> 64 \<Longrightarrow> \<not> next_is_operation_header (c # t) \<and> \<not> startswith (c # t) hunk_mark \<and> c # t \<noteq> end_of_file"
  by (simp add: next_is_operation_header_def startswith_def patch_markers)

lemma kind_char_simps [simp]:
  "kind_char k \<noteq> 42" "kind_char k \<noteq> 64" "diff_kind (kind_char k) = Some k" "\<not> is_line_break (kind_char k)"
  by (cases k; simp add: diff_kind_def is_line_break_def)+

lemma hunk_lines_print: "at_stop rest \<Longrightarrow> hunk_lines (map print_line ls @ rest) = Inr (ls, rest)"
proof (induction ls)
  case Nil
  then show ?case by (cases rest) (simp_all add: at_stop_def)
next
  case (Cons l ls)
  obtain k t where l: "l = DiffLine k t" by (cases l)
  show ?case using Cons marked_line_plain [of "kind_char k" t] by (simp add: l)
qed

lemma parse_hunk_print:
  assumes "good_hunk h" and "at_stop rest"
  shows "\<exists>n. parse_hunk nlines (print_hunk h @ rest) = Inr (h\<lparr>hk_patch_line := n\<rparr>, rest)"
proof -
  have "startswith hunk_mark hunk_mark" by (simp add: startswith_def)
  moreover have "hk_lines h \<noteq> []" using assms(1) by (auto simp: good_hunk_def has_kind_def)
  ultimately have "parse_hunk nlines (print_hunk h @ rest) =
      Inr (\<lparr>hk_lines = hk_lines h, hk_patch_line = nlines - length (print_hunk h @ rest) + 1\<rparr>, rest)"
    using assms by (auto simp: parse_hunk_def print_hunk_def hunk_lines_print good_hunk_def Let_def)
  moreover have "\<lparr>hk_lines = hk_lines h, hk_patch_line = n\<rparr> = h\<lparr>hk_patch_line := n\<rparr>" for n by simp
  ultimately show ?thesis by metis
qed

lemma hunk_mark_no_header: "\<not> next_is_operation_header hunk_mark" "startswith hunk_mark hunk_mark"
  by (simp_all add: next_is_operation_header_def startswith_def patch_markers)

lemma at_stop_hunks: "at_header rest \<Longrightarrow> at_stop (concat (map print_hunk hs) @ rest)"
proof (cases hs)
  case Nil
  assume "at_header rest"
  with Nil show ?thesis by (simp add: at_header_stop)
qed (simp add: at_stop_def print_hunk_def hunk_mark_no_header)

lemma parse_hunks_print:
  assumes "list_all good_hunk hs" and "at_header rest"
  shows "\<exists>hs'. parse_hunks nlines (concat (map print_hunk hs) @ rest) = Inr (hs', rest) \<and>
    map (hk_patch_line_update (\<lambda>_. 0)) hs' = map (hk_patch_line_update (\<lambda>_. 0)) hs"
  using assms(1)
proof (induction hs)
  case Nil
  then show ?case using assms(2) by (cases rest) (simp_all add: at_header_def)
next
  case (Cons h hs)
  let ?more = "concat (map print_hunk hs) @ rest"
  from Cons.prems obtain n where h: "parse_hunk nlines (print_hunk h @ ?more) = Inr (h\<lparr>hk_patch_line := n\<rparr>, ?more)"
    using parse_hunk_print [of h ?more] at_stop_hunks [OF assms(2)] by auto
  from Cons obtain hs' where hs: "parse_hunks nlines ?more = Inr (hs', rest)"
    and e: "map (hk_patch_line_update (\<lambda>_. 0)) hs' = map (hk_patch_line_update (\<lambda>_. 0)) hs" by auto
  have "print_hunk h @ ?more = hunk_mark # (map print_line (hk_lines h) @ ?more)" by (simp add: print_hunk_def)
  with h hs have "parse_hunks nlines (print_hunk h @ ?more) = Inr (h\<lparr>hk_patch_line := n\<rparr> # hs', rest)"
    by (simp add: hunk_mark_no_header)
  with e show ?case by auto
qed

lemma add_file_lines_print:
  "at_header rest \<Longrightarrow> add_file_lines (map (\<lambda>l. 43 # l) ls @ rest) = Inr (ls, rest)"
proof (induction ls)
  case Nil
  then show ?case by (cases rest) (simp_all add: at_header_def)
next
  case (Cons l ls)
  then show ?case using marked_line_plain [of 43 l] by (simp add: startswith_def)
qed

lemma header_lines:
  "next_is_operation_header (add_header @ p)" "next_is_operation_header (delete_header @ p)"
  "next_is_operation_header (update_header @ p)" "next_is_operation_header end_patch"
  by (simp_all add: next_is_operation_header_def)

lemma header_tests:
  "add_header @ p \<noteq> end_patch" "delete_header @ p \<noteq> end_patch" "update_header @ p \<noteq> end_patch"
  "\<not> startswith (delete_header @ p) add_header" "\<not> startswith (update_header @ p) add_header"
  "\<not> startswith (update_header @ p) delete_header" "\<not> startswith hunk_mark move_header"
  by (simp_all add: startswith_def patch_markers)

lemma at_header_ops: "at_header (concat (map print_op ops) @ [end_patch])"
proof (cases ops)
  case (Cons op ops')
  then show ?thesis by (cases op) (simp_all add: at_header_def header_lines)
qed (simp add: at_header_def header_lines)

lemma parse_operations_print:
  "list_all good_op ops \<Longrightarrow>
   \<exists>ops'. parse_operations nlines (concat (map print_op ops) @ [end_patch]) = Inr ops' \<and>
     map without_lines ops' = map without_lines ops"
proof (induction ops)
  case Nil
  then show ?case by simp
next
  case (Cons op ops)
  let ?rest = "concat (map print_op ops) @ [end_patch]"
  note hd = at_header_ops [of ops]
  from Cons obtain ops' where ih: "parse_operations nlines ?rest = Inr ops'"
    "map without_lines ops' = map without_lines ops" by auto
  show ?case
  proof (cases op)
    case (AddFilePatch p ls)
    with ih show ?thesis by (simp add: header_tests add_file_lines_print [OF hd])
  next
    case (DeleteFilePatch p)
    with ih show ?thesis by (simp add: header_tests)
  next
    case (UpdateFilePatch p move hs)
    with Cons.prems have hs: "list_all good_hunk hs" and mv: "move = None \<Longrightarrow> hs \<noteq> []"
      by (auto split: option.splits)
    from parse_hunks_print [OF hs hd] obtain hs' where p: "parse_hunks nlines (concat (map print_hunk hs) @ ?rest)
        = Inr (hs', ?rest)" "map (hk_patch_line_update (\<lambda>_. 0)) hs' = map (hk_patch_line_update (\<lambda>_. 0)) hs" by blast
    from p(2) have ne: "hs' = [] \<longleftrightarrow> hs = []" by (metis map_is_Nil_conv)
    have "parse_update_file nlines (print_op op @ ?rest) = Inr (UpdateFilePatch p move hs', ?rest)"
    proof (cases move)
      case None
      with mv obtain h hs2 where "hs = h # hs2" by (cases hs) auto
      with p(1) ne None show ?thesis
        by (simp add: UpdateFilePatch parse_update_file_def print_hunk_def header_tests Let_def)
    next
      case (Some t)
      with p(1) show ?thesis by (simp add: UpdateFilePatch parse_update_file_def Let_def)
    qed
    with ih p(2) show ?thesis by (simp add: UpdateFilePatch header_tests)
  qed
qed

lemma print_patch_lines:
  assumes "list_all good_op ops"
  shows "splitlines (print_patch ops) = begin_patch # concat (map print_op ops) @ [end_patch]"
proof -
  have m: "no_breaks add_header" "no_breaks delete_header" "no_breaks update_header" "no_breaks move_header"
    "no_breaks begin_patch" "no_breaks end_patch" "no_breaks hunk_mark"
    by (simp_all add: patch_markers is_line_break_def)
  have dl: "no_breaks (print_line l) = no_breaks (dl_text l)" for l by (cases l) simp
  have op: "list_all no_breaks (print_op op)" if "good_op op" for op
    using that by (cases op) (auto simp: m dl list_all_iff print_hunk_def good_hunk_def is_line_break_def split: option.splits)
  have "list_all no_breaks (concat (map print_op ops))"
    using assms op by (auto simp: list_all_iff)
  moreover have "end_patch \<noteq> []" by (simp add: end_patch_def)
  ultimately show ?thesis unfolding print_patch_def by (intro splitlines_join) (simp_all add: m)
qed

text \<open>C18: Parsing inverts printing: the operations of a well-formed patch, printed in the patch language,
  parse back to themselves, up to the line numbers that hunks keep for error messages.\<close>
theorem parse_print_patch:
  assumes "list_all good_op ops"
  shows "\<exists>ops'. parse_patch (print_patch ops) = Inr ops' \<and> map without_lines ops' = map without_lines ops"
  using parse_operations_print [OF assms] by (simp add: parse_patch_def print_patch_lines [OF assms])

definition sample_ops :: "patch_op list" where
  "sample_ops =
     [AddFilePatch (u ''a.txt'') [u ''x'', u ''*** End Patch''],
      UpdateFilePatch (u ''b.txt'') (Some (u ''c.txt''))
        [\<lparr>hk_lines = [DiffLine Context (u ''k''), DiffLine Removed (u ''o''), DiffLine Added (u ''n'')], hk_patch_line = 7\<rparr>],
      DeleteFilePatch (u ''d.txt'')]"

theorem parse_print_patch_witness:
  "\<exists>ops'. parse_patch (print_patch sample_ops) = Inr ops' \<and> map without_lines ops' = map without_lines sample_ops"
  by (rule parse_print_patch) (simp add: sample_ops_def good_hunk_def has_kind_def is_line_break_def)

section \<open>Matching\<close>

lemma find_sequence_matches_iff:
  assumes "needle \<noteq> []"
  shows "i \<in> set (find_sequence_matches lines needle) \<longleftrightarrow>
    (\<exists>post. lines = take i lines @ needle @ post \<and> length (take i lines) = i)"
proof
  assume "i \<in> set (find_sequence_matches lines needle)"
  then have t: "take (length needle) (drop i lines) = needle"
    by (auto simp: find_sequence_matches_def split: if_splits)
  then have "drop i lines \<noteq> []" using assms by auto
  then have "i < length lines" by simp
  moreover have "drop i lines = needle @ drop (length needle) (drop i lines)"
    using t append_take_drop_id [of "length needle" "drop i lines"] by metis
  then have "lines = take i lines @ needle @ drop (length needle) (drop i lines)"
    by (metis append_take_drop_id)
  ultimately show "\<exists>post. lines = take i lines @ needle @ post \<and> length (take i lines) = i"
    by (metis length_take min.absorb4)
next
  assume "\<exists>post. lines = take i lines @ needle @ post \<and> length (take i lines) = i"
  then obtain post where l: "lines = take i lines @ needle @ post" and i: "length (take i lines) = i" by blast
  from l have d: "drop i lines = needle @ post" using i by (metis append_eq_conv_conj)
  then have "length lines - i = length needle + length post" by (metis length_append length_drop)
  moreover have "0 < length needle" using assms by simp
  ultimately have "i + length needle \<le> length lines" by linarith
  then show "i \<in> set (find_sequence_matches lines needle)"
    using assms d by (simp add: find_sequence_matches_def)
qed

lemma distinct_singleton_list: "distinct xs \<Longrightarrow> set xs = {a} \<Longrightarrow> xs = [a]"
  by (cases xs; cases "tl xs") auto

lemma distinct_matches: "distinct (find_sequence_matches lines needle)"
  by (simp add: find_sequence_matches_def)

lemma apply_hunk_Inr:
  "apply_hunk df p i h (lines, cursor) = Inr (lines', cursor') \<longleftrightarrow>
   (\<exists>k. find_sequence_matches lines (old_lines h) = [k] \<and>
      lines' = take k lines @ new_lines h @ drop (k + length (old_lines h)) lines \<and>
      cursor' = k + length (new_lines h))"
  by (auto simp: apply_hunk_def Let_def split: list.split)

text \<open>A hunk is applied exactly when its old lines occur at one place of the file and nowhere else:
  then that occurrence is replaced by its new lines, everything before and after is kept, and the
  cursor is left behind the new lines. In every other case applying it is an error.\<close>
theorem hunk_applied_at_unique_place:
  assumes "old_lines h \<noteq> []"
  shows "apply_hunk df p i h (lines, cursor) = Inr (lines', cursor') \<longleftrightarrow>
    (\<exists>pre post. lines = pre @ old_lines h @ post \<and> lines' = pre @ new_lines h @ post \<and>
       cursor' = length pre + length (new_lines h) \<and>
       (\<forall>pre2 post2. lines = pre2 @ old_lines h @ post2 \<longrightarrow> pre2 = pre))"
    (is "?L \<longleftrightarrow> ?R")
proof
  assume ?L
  then obtain k where m: "find_sequence_matches lines (old_lines h) = [k]"
    and l': "lines' = take k lines @ new_lines h @ drop (k + length (old_lines h)) lines"
    and c': "cursor' = k + length (new_lines h)" by (auto simp: apply_hunk_Inr)
  have iff: "i = k \<longleftrightarrow> (\<exists>post. lines = take i lines @ old_lines h @ post \<and> length (take i lines) = i)" for i
    using find_sequence_matches_iff [OF assms, of i lines]
    by (simp only: m list.set insert_iff empty_iff simp_thms)
  then obtain post where post: "lines = take k lines @ old_lines h @ post" "length (take k lines) = k" by blast
  from post have "drop (k + length (old_lines h)) lines = post"
    by (metis append_eq_conv_conj drop_drop add.commute)
  moreover have "pre2 = take k lines" if "lines = pre2 @ old_lines h @ post2" for pre2 post2
  proof -
    from that have "take (length pre2) lines = pre2" by simp
    with that have "length pre2 = k" by (subst iff) auto
    then show ?thesis using \<open>take (length pre2) lines = pre2\<close> by simp
  qed
  ultimately show ?R
    using post l' c' by (intro exI [of _ "take k lines"] exI [of _ post]) (simp only: simp_thms, metis)
next
  assume ?R
  then obtain pre post where e: "lines = pre @ old_lines h @ post" "lines' = pre @ new_lines h @ post"
      "cursor' = length pre + length (new_lines h)"
    and uniq: "\<And>pre2 post2. lines = pre2 @ old_lines h @ post2 \<Longrightarrow> pre2 = pre" by blast
  have "set (find_sequence_matches lines (old_lines h)) = {length pre}"
  proof (intro set_eqI)
    fix j
    show "j \<in> set (find_sequence_matches lines (old_lines h)) \<longleftrightarrow> j \<in> {length pre}"
      unfolding find_sequence_matches_iff [OF assms]
    proof
      assume "\<exists>post. lines = take j lines @ old_lines h @ post \<and> length (take j lines) = j"
      then have "take j lines = pre" "length (take j lines) = j" using uniq by blast+
      then show "j \<in> {length pre}" by simp
    qed (use e(1) in auto)
  qed
  from distinct_matches this
  have "find_sequence_matches lines (old_lines h) = [length pre]"
    by (rule distinct_singleton_list)
  then show ?L using e by (simp add: apply_hunk_Inr)
qed

definition sample_hunk :: update_hunk where
  "sample_hunk = \<lparr>hk_lines = [DiffLine Context (u ''k''), DiffLine Removed (u ''o''), DiffLine Added (u ''n'')],
     hk_patch_line = 3\<rparr>"

definition no_difflib :: difflib where
  "no_difflib = \<lparr>df_ratio = (\<lambda>_ _. 0), df_show_ratio = (\<lambda>_. []), df_unified = (\<lambda>_ _ _ _. [])\<rparr>"

theorem hunk_applied_at_unique_place_witness:
  "\<exists>pre post. [u ''a'', u ''k'', u ''o'', u ''z''] = pre @ old_lines sample_hunk @ post \<and>
     [u ''a'', u ''k'', u ''n'', u ''z''] = pre @ new_lines sample_hunk @ post"
proof -
  have "old_lines sample_hunk \<noteq> []" by code_simp
  moreover have "apply_hunk no_difflib [] 0 sample_hunk ([u ''a'', u ''k'', u ''o'', u ''z''], 0)
      = Inr ([u ''a'', u ''k'', u ''n'', u ''z''], 3)" by code_simp
  ultimately show ?thesis using hunk_applied_at_unique_place by blast
qed

section \<open>What a patch does to the file system\<close>

lemma apply_change_errors: "snd (apply_change m ch) \<noteq> Some EncodeError"
  by (auto simp: apply_change_def unlink_file_def mkdir_parents_def write_file_def
      split: if_splits sum.splits option.splits)

lemma apply_changes_errors: "snd (apply_changes m chs) \<noteq> Some EncodeError"
  using apply_change_errors
  by (induction m chs rule: apply_changes.induct) (auto split: prod.splits option.splits, metis snd_conv)

text \<open>C16: A patch that is only checked, or that is refused for any reason (syntax, a missing file, a hunk
  without a unique match, a text that cannot be encoded), changes nothing on disk.\<close>
theorem refused_patch_changes_nothing:
  assumes "apply_patch df sha resolve patch dry_run validate_only return_diff m = (m', res)"
    and "dry_run \<or> validate_only \<or> res = Raises EncodeError \<or>
         (\<exists>d. res = Reply d \<and> map_of d ''success'' \<noteq> Some (JBool True))"
  shows "m' = m"
proof (cases "parse_patch patch")
  case (Inr ops)
  show ?thesis
  proof (cases "plan_all df resolve m ops")
    case plan: (Inr chs)
    show ?thesis
    proof (cases "dry_run \<or> validate_only \<or> \<not> list_all (\<lambda>ch. list_all scalar_value (ch_new_text ch)) chs")
      case True
      with assms(1) show ?thesis by (auto simp: apply_patch_def Inr plan Let_def split: if_splits)
    next
      case False
      with assms apply_changes_errors [of m chs] show ?thesis
        by (cases "snd (apply_changes m chs)") (auto simp: apply_patch_def Inr plan Let_def case_prod_unfold)
    qed
  qed (use assms(1) in \<open>simp add: apply_patch_def Inr\<close>)
qed (use assms(1) in \<open>simp add: apply_patch_def\<close>)

theorem refused_patch_changes_nothing_witness:
  "fst (apply_patch no_difflib (\<lambda>b. b) (\<lambda>s. [s]) (print_patch [DeleteFilePatch (u ''x'')]) False False False Map.empty)
     = Map.empty"
proof -
  have "snd (apply_patch no_difflib (\<lambda>b. b) (\<lambda>s. [s]) (print_patch [DeleteFilePatch (u ''x'')]) False False False Map.empty)
      = Reply (patch_error_reply (path_error ''path_not_found'' ''Path not found'' [u ''x'']))"
    by (simp add: apply_patch_def print_patch_def parse_patch_def splitlines_def patch_markers is_line_break_def
        startswith_def plan_delete_def path_exists_def)
  then show ?thesis
    by (intro refused_patch_changes_nothing [OF surjective_pairing])
       (simp add: patch_error_reply_def path_error_def tool_error_def)
qed

text \<open>The effect of one planned change on the file at \<open>q\<close>: none, or its new content.\<close>

definition change_effect :: "planned_change \<Rightarrow> path \<Rightarrow> bytes option \<Rightarrow> bytes option" where
  "change_effect ch q old =
     (if ch_kind ch = ''move'' \<and> ch_previous ch = Some q \<and> q \<noteq> ch_path ch then None
      else if q = ch_path ch then (if ch_kind ch = ''delete'' then None else Some (utf8_encode (ch_new_text ch)))
      else old)"

lemma apply_change_effect:
  assumes "apply_change m ch = (m', None)"
  shows "file_bytes m' q = change_effect ch q (file_bytes m q)"
proof (cases "ch_kind ch = ''delete''")
  case True
  with assms have "unlink_file m (ch_path ch) = Inr m'"
    by (auto simp: apply_change_def split: sum.splits)
  with True show ?thesis by (simp add: files.get_remove change_effect_def)
next
  case False
  with assms obtain m1 m2 where m: "mkdir_parents m (butlast (ch_path ch)) = Inr m1"
      "write_file m1 (ch_path ch) (utf8_encode (ch_new_text ch)) = Inr m2"
    by (auto simp: apply_change_def split: sum.splits)
  note w = files.get_put [OF m(2)] file_bytes_mkdir [OF m(1)]
  show ?thesis
  proof (cases "ch_kind ch = ''move'' \<and> ch_previous ch \<noteq> None \<and> ch_previous ch \<noteq> Some (ch_path ch)")
    case True
    then obtain q0 where q0: "ch_previous ch = Some q0" "q0 \<noteq> ch_path ch" "ch_kind ch = ''move''" by auto
    with False assms m have "unlink_file m2 q0 = Inr m'"
      by (auto simp: apply_change_def split: sum.splits)
    with False q0 show ?thesis by (simp add: files.get_remove w change_effect_def)
  next
    case no: False
    with False assms m have "m' = m2"
      by (auto simp: apply_change_def split: sum.splits option.splits if_splits)
    with False no show ?thesis by (auto simp: w change_effect_def)
  qed
qed

lemma apply_changes_effect:
  "apply_changes m chs = (m', None) \<Longrightarrow>
   file_bytes m' q = fold (\<lambda>ch. change_effect ch q) chs (file_bytes m q)"
proof (induction m chs rule: apply_changes.induct)
  case (2 m ch chs)
  then obtain m1 where m1: "apply_change m ch = (m1, None)" and r: "apply_changes m1 chs = (m', None)"
    by (auto split: prod.splits option.splits)
  show ?case using 2(1) [OF m1 [symmetric] refl r] by (simp add: apply_change_effect [OF m1])
qed simp

text \<open>C17: A patch that is applied does exactly what was planned from the files as they were before it:
  every file ends up with the text of the last change planned for it (or is gone, when that change
  deletes it or moves it away), and every file the patch does not name keeps its bytes.\<close>
theorem applied_patch_effect:
  assumes "apply_patch df sha resolve patch False False return_diff m = (m', Reply d)"
    and "parse_patch patch = Inr ops" and "plan_all df resolve m ops = Inr chs"
  shows "file_bytes m' q = fold (\<lambda>ch. change_effect ch q) chs (file_bytes m q)"
proof -
  have "apply_changes m chs = (m', None)"
    using assms by (auto simp: apply_patch_def Let_def case_prod_unfold split: if_splits option.splits intro: prod_eqI)
  then show ?thesis by (rule apply_changes_effect)
qed

definition sample_tree :: fs where
  "sample_tree = [[u ''f''] \<mapsto> FileNode [107, 13, 10, 111, 13, 10]]"

text \<open>A patch that adds a file, and one with two updates of the same file, on two lines with CR LF.\<close>

definition sample_add :: ustr where
  "sample_add = print_patch [AddFilePatch (u ''a'') [u ''x'']]"

definition first_hunk :: update_hunk where
  "first_hunk = \<lparr>hk_lines = [DiffLine Removed (u ''k''), DiffLine Added (u ''K'')], hk_patch_line = 3\<rparr>"

definition second_hunk :: update_hunk where
  "second_hunk = \<lparr>hk_lines = [DiffLine Removed (u ''o''), DiffLine Added (u ''O'')], hk_patch_line = 7\<rparr>"

definition sample_double :: ustr where
  "sample_double = print_patch [UpdateFilePatch (u ''f'') None [first_hunk], UpdateFilePatch (u ''f'') None [second_hunk]]"

lemmas patch_eval = print_patch_def parse_patch_def splitlines_def patch_markers is_line_break_def startswith_def
  next_is_operation_header_def print_hunk_def parse_update_file_def parse_hunk_def diff_kind_def has_kind_def

lemma sample_add_parse: "parse_patch sample_add = Inr [AddFilePatch (u ''a'') [u ''x'']]"
  by (simp add: sample_add_def patch_eval)

lemma sample_double_parse:
  "parse_patch sample_double = Inr [UpdateFilePatch (u ''f'') None [first_hunk], UpdateFilePatch (u ''f'') None [second_hunk]]"
  by (simp add: sample_double_def first_hunk_def second_hunk_def patch_eval)

lemma sample_plans:
  "plan_update no_difflib sample_tree [u ''f''] None [first_hunk] =
   Inr \<lparr>ch_kind = ''update'', ch_path = [u ''f''], ch_previous = None, ch_old_text = [107, 13, 10, 111, 13, 10],
        ch_new_text = [75, 10, 111, 10], ch_hunks = 1\<rparr>"
  "plan_update no_difflib sample_tree [u ''f''] None [second_hunk] =
   Inr \<lparr>ch_kind = ''update'', ch_path = [u ''f''], ch_previous = None, ch_old_text = [107, 13, 10, 111, 13, 10],
        ch_new_text = [107, 10, 79, 10], ch_hunks = 1\<rparr>"
  by (simp_all add: plan_update_def path_exists_def sample_tree_def file_bytes_def patch_read_text_def
      utf8_decode_replace_def utf8_units.simps lead_width_def splitlines_def is_line_break_def
      apply_hunk_def old_lines_def new_lines_def first_hunk_def second_hunk_def find_sequence_matches_def Let_def
      join_lines_def endswith_def startswith_def upt_rec)

lemma sample_runs:
  "\<exists>m' d. apply_patch no_difflib (\<lambda>b. b) (\<lambda>s. [s]) sample_add False False False Map.empty = (m', Reply d)"
  "\<exists>m' d. apply_patch no_difflib (\<lambda>b. b) (\<lambda>s. [s]) sample_double False False False sample_tree = (m', Reply d)"
proof -
  show "\<exists>m' d. apply_patch no_difflib (\<lambda>b. b) (\<lambda>s. [s]) sample_add False False False Map.empty = (m', Reply d)"
    by (simp add: apply_patch_def sample_add_parse plan_add_def path_exists_def join_lines_def scalar_value_def
        apply_change_def mkdir_parents_def is_file_def write_file_def is_dir_def)
  show "\<exists>m' d. apply_patch no_difflib (\<lambda>b. b) (\<lambda>s. [s]) sample_double False False False sample_tree = (m', Reply d)"
    by (simp add: apply_patch_def sample_double_parse sample_plans [simplified] scalar_value_def
        apply_change_def mkdir_parents_def is_file_def write_file_def is_dir_def) (simp add: sample_tree_def)
qed

theorem applied_patch_effect_witness:
  "\<exists>m'. fst (apply_patch no_difflib (\<lambda>b. b) (\<lambda>s. [s]) sample_add False False False Map.empty) = m' \<and>
     file_bytes m' [u ''a''] = Some [120, 10] \<and> file_bytes m' [u ''b''] = None"
proof -
  from sample_runs(1) obtain m' d where run:
    "apply_patch no_difflib (\<lambda>b. b) (\<lambda>s. [s]) sample_add False False False Map.empty = (m', Reply d)" by blast
  have plan: "plan_all no_difflib (\<lambda>s. [s]) Map.empty [AddFilePatch (u ''a'') [u ''x'']] =
      Inr [\<lparr>ch_kind = ''add'', ch_path = [u ''a''], ch_previous = None, ch_old_text = [],
            ch_new_text = [120, 10], ch_hunks = 1\<rparr>]"
    by (simp add: plan_add_def path_exists_def join_lines_def)
  show ?thesis
    using applied_patch_effect [OF run sample_add_parse plan, of "[u ''a'']"]
      applied_patch_effect [OF run sample_add_parse plan, of "[u ''b'']"]
    by (simp add: run change_effect_def utf8_char_def file_bytes_def)
qed

text \<open>Two updates of one file in one patch do not add up: both are planned from the file as it was
  before the patch, so when the patch is applied the file ends with the second update alone, and the
  first one, reported as applied, is lost.\<close>
theorem second_update_overwrites_first:
  assumes "apply_patch df sha resolve patch False False return_diff m = (m', Reply d)"
    and "parse_patch patch = Inr [UpdateFilePatch p None hunks1, UpdateFilePatch p None hunks2]"
    and "plan_update df m (resolve p) None hunks1 = Inr ch1"
    and "plan_update df m (resolve p) None hunks2 = Inr ch2"
  shows "file_bytes m' (resolve p) = Some (utf8_encode (ch_new_text ch2))"
proof -
  have shape: "ch_path ch = resolve p \<and> ch_kind ch = ''update''"
    if "plan_update df m (resolve p) None hs = Inr ch" for hs ch
    using that by (auto simp: plan_update_def Let_def split: if_splits option.splits sum.splits prod.splits)
  have "plan_all df resolve m [UpdateFilePatch p None hunks1, UpdateFilePatch p None hunks2] = Inr [ch1, ch2]"
    using assms(3,4) by simp
  from applied_patch_effect [OF assms(1,2) this, of "resolve p"] shape [OF assms(3)] shape [OF assms(4)]
  show ?thesis by (simp add: change_effect_def)
qed

theorem second_update_overwrites_first_witness:
  "file_bytes (fst (apply_patch no_difflib (\<lambda>b. b) (\<lambda>s. [s]) sample_double False False False sample_tree)) [u ''f'']
     = Some [107, 10, 79, 10]"
proof -
  from sample_runs(2) obtain m' d where run:
    "apply_patch no_difflib (\<lambda>b. b) (\<lambda>s. [s]) sample_double False False False sample_tree = (m', Reply d)" by blast
  from second_update_overwrites_first [OF run sample_double_parse sample_plans] show ?thesis
    by (simp add: run utf8_char_def)
qed

text \<open>Line boundaries in a joined text.\<close>

lemma join_lines_breaks:
  "list_all no_breaks ls \<Longrightarrow> c \<in> set (join_lines ls nl) \<Longrightarrow> is_line_break c \<Longrightarrow> c = 10"
proof -
  have "c \<in> set (join [10] ls) \<Longrightarrow> list_all no_breaks ls \<Longrightarrow> is_line_break c \<Longrightarrow> c = 10"
    by (induction "[10::nat]" ls rule: join.induct) (auto simp: no_breaks_def list_all_iff)
  then show "list_all no_breaks ls \<Longrightarrow> c \<in> set (join_lines ls nl) \<Longrightarrow> is_line_break c \<Longrightarrow> c = 10"
    by (auto simp: join_lines_def split: if_splits)
qed

lemma apply_hunks_no_breaks:
  "apply_hunks df p i hs (lines, cur) = Inr (lines', cur') \<Longrightarrow> list_all no_breaks lines \<Longrightarrow>
   list_all (\<lambda>h. list_all no_breaks (new_lines h)) hs \<Longrightarrow> list_all no_breaks lines'"
proof (induction df p i hs "(lines, cur)" arbitrary: lines cur rule: apply_hunks.induct)
  case (2 df p i h hs)
  then obtain lines1 cur1 where h: "apply_hunk df p i h (lines, cur) = Inr (lines1, cur1)"
    and r: "apply_hunks df p (Suc i) hs (lines1, cur1) = Inr (lines', cur')"
    by (auto split: sum.splits)
  from h obtain k where "lines1 = take k lines @ new_lines h @ drop (k + length (old_lines h)) lines"
    by (auto simp: apply_hunk_Inr)
  with 2(3,4) have "list_all no_breaks lines1"
    by (auto simp: list_all_iff dest: in_set_takeD in_set_dropD)
  with 2(1) [OF h r] 2(4) show ?case by simp
qed simp

text \<open>An update rewrites every line end of the file: the text it writes has no line boundary other
  than LF, so the CR of every CR LF of the file is lost, also on the lines no hunk touches.\<close>
theorem update_rewrites_line_ends:
  assumes "plan_update df m p move_to hunks = Inr ch"
    and "list_all (\<lambda>h. list_all no_breaks (new_lines h)) hunks"
  shows "\<forall>c \<in> set (ch_new_text ch). is_line_break c \<longrightarrow> c = 10"
proof -
  from assms(1) obtain lines cur where h: "apply_hunks df p 0 hunks (splitlines (ch_old_text ch), 0) = Inr (lines, cur)"
    and t: "ch_new_text ch = join_lines lines (endswith (ch_old_text ch) [10])"
    by (auto simp: plan_update_def Let_def split: if_splits option.splits sum.splits prod.splits)
  from apply_hunks_no_breaks [OF h splitlines_no_breaks assms(2)] join_lines_breaks show ?thesis
    by (simp only: t) blast
qed

theorem update_rewrites_line_ends_witness:
  "\<exists>ch. plan_update no_difflib sample_tree [u ''f''] None [first_hunk] = Inr ch \<and> 13 \<in> set (ch_old_text ch) \<and>
     (\<forall>c \<in> set (ch_new_text ch). is_line_break c \<longrightarrow> c = 10)"
  using update_rewrites_line_ends [OF sample_plans(1)] sample_plans(1)
  by (simp add: first_hunk_def new_lines_def is_line_break_def)

end
