(* ===== verification/ContentIo.thy ===== *)
theory ContentIo
  imports Fs
begin

text \<open>
  Lossless text decoding: \<^verbatim>\<open>src/chatgpt_web_oauth_mcp/content_io.py\<close>.

  The codec registry (\<^verbatim>\<open>codecs.lookup\<close>) is a parameter: it maps a name to the canonical name and the
  two functions of a codec. UTF-8 itself is modelled in \<open>Utf8\<close>; \<open>utf8_codec\<close> is its entry.
\<close>

record codec =
  cd_name :: ustr
  cd_decode :: "bytes \<Rightarrow> ustr option"
  cd_encode :: "ustr \<Rightarrow> bytes option"

type_synonym codec_registry = "ustr \<Rightarrow> codec option"

definition utf8_encode_strict :: "ustr \<Rightarrow> bytes option" where
  "utf8_encode_strict s = (if list_all scalar_value s then Some (utf8_encode s) else None)"

definition utf8_codec :: codec where
  "utf8_codec = \<lparr>cd_name = u ''utf-8'', cd_decode = utf8_decode, cd_encode = utf8_encode_strict\<rparr>"

text \<open>A \<^verbatim>\<open>TextDecodingError\<close>: what went wrong, and the encodings it suggests.\<close>

datatype decoding_problem = UnknownEncoding ustr | BomConflict ustr ustr | NotDetected | NotValid ustr | BinaryNul

datatype decoding_error = TextDecodingError decoding_problem "ustr list"

record decoded_text =
  dt_text :: ustr
  dt_encoding :: ustr
  dt_bom :: "ustr option"
  dt_bom_bytes :: bytes
  dt_newline :: string

definition boms :: "(bytes \<times> ustr \<times> ustr) list" where
  "boms =
     [([0xFF, 0xFE, 0, 0], u ''utf-32le'', u ''utf-32le''),
      ([0, 0, 0xFE, 0xFF], u ''utf-32be'', u ''utf-32be''),
      ([0xEF, 0xBB, 0xBF], u ''utf-8'', u ''utf-8''),
      ([0xFF, 0xFE], u ''utf-16le'', u ''utf-16le''),
      ([0xFE, 0xFF], u ''utf-16be'', u ''utf-16be'')]"

definition newline_style :: "ustr \<Rightarrow> string" where
  "newline_style text =
     (let crlf = count_sub [13, 10] text;
          without_crlf = replace_sub [13, 10] [] (length text) text;
          lf = length (filter (\<lambda>c. c = 10) without_crlf);
          cr = length (filter (\<lambda>c. c = 13) without_crlf);
          kinds = length (filter (\<lambda>n. n \<noteq> 0) [crlf, lf, cr]) in
      if 1 < kinds then ''mixed''
      else if crlf \<noteq> 0 then ''crlf''
      else if lf \<noteq> 0 then ''lf''
      else if cr \<noteq> 0 then ''cr''
      else ''none'')"

text \<open>The first marker the bytes start with: its bytes, encoding and name.\<close>

definition find_bom :: "bytes \<Rightarrow> (bytes \<times> ustr \<times> ustr) option" where
  "find_bom raw = find (\<lambda>(marker, enc, name). startswith raw marker) boms"

definition canonical_encoding :: "codec_registry \<Rightarrow> ustr \<Rightarrow> decoding_error + ustr" where
  "canonical_encoding lk value =
     (case lk value of
        None \<Rightarrow> Inl (TextDecodingError (UnknownEncoding value) [])
      | Some c \<Rightarrow> Inr (cd_name c))"

text \<open>The names an explicit encoding may have when the file has a BOM of the encoding \<open>be\<close>.\<close>

definition compatible_encodings :: "ustr \<Rightarrow> ustr list" where
  "compatible_encodings be =
     [be,
      if be = u ''utf-8'' then u ''utf-8-sig'' else [],
      if startswith be (u ''utf-16'') then u ''utf-16'' else [],
      if startswith be (u ''utf-32'') then u ''utf-32'' else []]"

definition effective_encoding ::
  "codec_registry \<Rightarrow> ustr option \<Rightarrow> (bytes \<times> ustr \<times> ustr) option \<Rightarrow> decoding_error + ustr" where
  "effective_encoding lk encoding bom =
     (case encoding of
        None \<Rightarrow> Inr (case bom of None \<Rightarrow> u ''utf-8'' | Some (marker, be, name) \<Rightarrow> be)
      | Some e \<Rightarrow>
          (case canonical_encoding lk e of
             Inl err \<Rightarrow> Inl err
           | Inr effective \<Rightarrow>
               (case bom of
                  None \<Rightarrow> Inr effective
                | Some (marker, be, name) \<Rightarrow>
                    if effective \<notin> set (compatible_encodings be)
                    then Inl (TextDecodingError (BomConflict e name) [])
                    else Inr be)))"

definition decode_text_bytes ::
  "codec_registry \<Rightarrow> bytes \<Rightarrow> ustr option \<Rightarrow> decoding_error + decoded_text" where
  "decode_text_bytes lk raw encoding =
     (let bom = find_bom raw;
          bom_bytes = (case bom of None \<Rightarrow> [] | Some (marker, be, name) \<Rightarrow> marker);
          bom_name = (case bom of None \<Rightarrow> None | Some (marker, be, name) \<Rightarrow> Some name) in
      case effective_encoding lk encoding bom of
        Inl err \<Rightarrow> Inl err
      | Inr effective \<Rightarrow>
          (case lk effective of
             None \<Rightarrow> Inl (TextDecodingError (UnknownEncoding effective) [])
           | Some c \<Rightarrow>
               (case cd_decode c (drop (length bom_bytes) raw) of
                  None \<Rightarrow>
                    (case encoding of
                       None \<Rightarrow> Inl (TextDecodingError NotDetected
                                [u ''windows-1252'', u ''latin-1'', u ''shift_jis'', u ''gbk''])
                     | Some e \<Rightarrow> Inl (TextDecodingError (NotValid e) []))
                | Some text \<Rightarrow>
                    if 0 \<in> set (take 1024 text) \<and> bom = None \<and> encoding = None
                    then Inl (TextDecodingError BinaryNul [])
                    else Inr \<lparr>dt_text = text, dt_encoding = effective, dt_bom = bom_name,
                              dt_bom_bytes = bom_bytes, dt_newline = newline_style text\<rparr>)))"

text \<open>\<open>None\<close>: \<^verbatim>\<open>UnicodeEncodeError\<close>.\<close>

definition encode_text_bytes :: "codec_registry \<Rightarrow> decoded_text \<Rightarrow> ustr \<Rightarrow> bytes option" where
  "encode_text_bytes lk decoded text =
     (case lk (dt_encoding decoded) of
        None \<Rightarrow> None
      | Some c \<Rightarrow> map_option (\<lambda>b. dt_bom_bytes decoded @ b) (cd_encode c text))"

definition normalize_newlines :: "ustr \<Rightarrow> string \<Rightarrow> ustr" where
  "normalize_newlines text style =
     (if style \<noteq> ''crlf'' \<and> style \<noteq> ''cr'' then text
      else
        let normalized = map (\<lambda>c. if c = 13 then 10 else c) (replace_sub [13, 10] [10] (length text) text) in
        concat (map (\<lambda>c. if c = 10 then (if style = ''crlf'' then [13, 10] else [13]) else [c]) normalized))"

section \<open>Decoding loses nothing\<close>

text \<open>The interface of a codec the round trip relies on: what it decodes it encodes back.\<close>

locale lossless_codec =
  fixes dec :: "bytes \<Rightarrow> ustr option" and enc :: "ustr \<Rightarrow> bytes option"
  assumes enc_dec: "dec b = Some s \<Longrightarrow> enc s = Some b"
begin

lemma dec_inj: "dec a = Some s \<Longrightarrow> dec b = Some s \<Longrightarrow> a = b"
  by (metis enc_dec option.inject)

lemma enc_defined: "dec b = Some s \<Longrightarrow> enc s \<noteq> None"
  by (simp add: enc_dec)

end

text \<open>UTF-8 is lossless: a unit that decodes is the encoding of its value.\<close>

lemma is_cont_iff: "is_cont b \<longleftrightarrow> (\<exists>y. b = 0x80 + y \<and> y < 64)"
  unfolding is_cont_def by presburger

lemma second_ok_cont: "second_ok a b \<Longrightarrow> \<exists>y. b = 0x80 + y \<and> y < 64"
proof -
  assume "second_ok a b"
  then have "is_cont b" by (auto simp: second_ok_def is_cont_def split: if_splits)
  then show ?thesis by (simp add: is_cont_iff)
qed

lemma unit2: "2 \<le> x \<Longrightarrow> x < 32 \<Longrightarrow> y < 64 \<Longrightarrow>
  utf8_char (x * 64 + y) = [0xC0 + x, 0x80 + y] \<and> scalar_value (x * 64 + y)"
  by (auto simp: utf8_char_def scalar_value_def)

lemma digit64: "z < 64 \<Longrightarrow> (q * 64 + z) div 64 = q \<and> (q * 64 + z) mod 64 = (z::nat)"
  by simp

lemma unit3:
  assumes "x < 16" "y < 64" "z < 64" "x = 0 \<Longrightarrow> 32 \<le> y" "x = 13 \<Longrightarrow> y < 32"
  shows "utf8_char (x * 4096 + y * 64 + z) = [0xE0 + x, 0x80 + y, 0x80 + z] \<and> scalar_value (x * 4096 + y * 64 + z)"
proof -
  let ?v = "x * 4096 + y * 64 + z"
  have "?v = (x * 64 + y) * 64 + z" by simp
  then have d: "?v div 64 = x * 64 + y" "?v mod 64 = z" using digit64 [OF assms(3)] by metis+
  then have "?v div 64 div 64 = x" "?v div 64 mod 64 = y" using digit64 [OF assms(2)] by metis+
  then have d2: "?v div 4096 = x" by (simp flip: div_mult2_eq)
  have "2048 \<le> ?v" using assms(4) by (cases "x = 0") auto
  moreover have "?v < 65536" using assms(1-3) by linarith
  moreover have "scalar_value ?v"
  proof (cases "x \<le> 12 \<or> x = 13")
    case True
    then show ?thesis using assms(2,3,5) by (auto simp: scalar_value_def)
  next
    case False
    then show ?thesis using assms(1-3) by (auto simp: scalar_value_def)
  qed
  ultimately show ?thesis
    using d d2 \<open>?v div 64 mod 64 = y\<close> by (simp only: utf8_char_def) simp
qed

lemma unit4:
  assumes "x < 5" "y < 64" "z < 64" "w < 64" "x = 0 \<Longrightarrow> 16 \<le> y" "x = 4 \<Longrightarrow> y < 16"
  shows "utf8_char (x * 262144 + y * 4096 + z * 64 + w) = [0xF0 + x, 0x80 + y, 0x80 + z, 0x80 + w] \<and>
    scalar_value (x * 262144 + y * 4096 + z * 64 + w)"
proof -
  let ?v = "x * 262144 + y * 4096 + z * 64 + w"
  have "?v = ((x * 64 + y) * 64 + z) * 64 + w" by simp
  then have a: "?v div 64 = (x * 64 + y) * 64 + z" "?v mod 64 = w" using digit64 [OF assms(4)] by metis+
  then have b: "?v div 64 div 64 = x * 64 + y" "?v div 64 mod 64 = z" using digit64 [OF assms(3)] by metis+
  then have c: "?v div 64 div 64 div 64 = x" "?v div 64 div 64 mod 64 = y" using digit64 [OF assms(2)] by metis+
  have d: "?v div 4096 mod 64 = y" "?v div 262144 = x" using c by (simp_all flip: div_mult2_eq)
  have "65536 \<le> ?v" using assms(5) by (cases "x = 0") auto
  moreover have "?v < 0x110000"
  proof (cases "x = 4")
    case True
    then show ?thesis using assms(2-4,6) by linarith
  next
    case False
    then show ?thesis using assms(1-4) by linarith
  qed
  ultimately show ?thesis
    using a b d by (simp only: utf8_char_def scalar_value_def) simp
qed

lemma utf8_take_value:
  assumes "utf8_take bs = (w, True)"
  shows "utf8_char (utf8_unit_value w) = w \<and> scalar_value (utf8_unit_value w)"
proof (cases bs)
  case Nil
  with assms show ?thesis by simp
next
  case (Cons a r)
  consider "lead_width a = 1" | "lead_width a = 2" | "lead_width a = 3" | "lead_width a = 4" | "lead_width a = 0"
    unfolding lead_width_def by presburger
  then show ?thesis
  proof cases
    case 1
    then have "a < 0x80" by (auto simp: lead_width_def split: if_splits)
    with 1 assms Cons show ?thesis by (auto simp: utf8_char_def scalar_value_def)
  next
    case 2
    with assms Cons obtain b r2 where w: "w = [a, b]" "second_ok a b" by (auto split: list.splits if_splits)
    from second_ok_cont [OF w(2)] obtain y where y: "b = 0x80 + y" "y < 64" by blast
    from 2 have "0xC2 \<le> a" "a < 0xE0" by (auto simp: lead_width_def split: if_splits)
    moreover from this(1) have "0xC0 \<le> a" by simp
    then obtain x where "a = 0xC0 + x" using le_Suc_ex by blast
    ultimately have "a = 0xC0 + x" "2 \<le> x" "x < 32" by simp_all
    with w y unit2 [of x y] show ?thesis by simp
  next
    case 3
    with assms Cons obtain b c where w: "w = [a, b, c]" "second_ok a b" "is_cont c"
      by (auto split: list.splits if_splits)
    from second_ok_cont [OF w(2)] obtain y where y: "b = 0x80 + y" "y < 64" by blast
    from w(3) obtain z where z: "c = 0x80 + z" "z < 64" by (auto simp: is_cont_iff)
    from 3 have "0xE0 \<le> a" "a < 0xF0" by (auto simp: lead_width_def split: if_splits)
    then obtain x where x: "a = 0xE0 + x" "x < 16" using le_Suc_ex by fastforce
    have "x = 0 \<Longrightarrow> 32 \<le> y" "x = 13 \<Longrightarrow> y < 32" using w(2) x y by (auto simp: second_ok_def)
    with w x y z unit3 [of x y z] show ?thesis by simp
  next
    case 4
    with assms Cons obtain b c d where w: "w = [a, b, c, d]" "second_ok a b" "is_cont c" "is_cont d"
      by (auto split: list.splits if_splits)
    from second_ok_cont [OF w(2)] obtain y where y: "b = 0x80 + y" "y < 64" by blast
    from w(3) obtain z where z: "c = 0x80 + z" "z < 64" by (auto simp: is_cont_iff)
    from w(4) obtain v where v: "d = 0x80 + v" "v < 64" by (auto simp: is_cont_iff)
    from 4 have "0xF0 \<le> a" "a < 0xF5" by (auto simp: lead_width_def split: if_splits)
    then obtain x where x: "a = 0xF0 + x" "x < 5" using le_Suc_ex by fastforce
    have "x = 0 \<Longrightarrow> 16 \<le> y" "x = 4 \<Longrightarrow> y < 16" using w(2) x y by (auto simp: second_ok_def)
    with w x y z v unit4 [of x y z v] show ?thesis by simp
  next
    case 5
    with assms Cons show ?thesis by simp
  qed
qed

lemma utf8_units_values:
  "list_all snd (utf8_units bs) \<Longrightarrow>
   \<forall>(w, ok) \<in> set (utf8_units bs). utf8_char (utf8_unit_value w) = w \<and> scalar_value (utf8_unit_value w)"
proof (induction bs rule: utf8_units.induct)
  case (1 bs)
  show ?case
  proof (cases "bs = []")
    case True
    then show ?thesis by (simp add: utf8_units.simps)
  next
    case False
    obtain w ok where t: "utf8_take bs = (w, ok)" by (cases "utf8_take bs")
    have u: "utf8_units bs = (w, ok) # utf8_units (drop (length w) bs)"
      using False by (subst utf8_units.simps) (simp add: t)
    with 1(2) have "ok" "list_all snd (utf8_units (drop (length w) bs))" by simp_all
    with 1(1) [OF False] t utf8_take_value [of bs w] show ?thesis by (simp add: u)
  qed
qed

lemma utf8_enc_dec: "utf8_decode b = Some s \<Longrightarrow> utf8_encode_strict s = Some b"
proof -
  assume "utf8_decode b = Some s"
  then have ok: "list_all snd (utf8_units b)" and s: "s = map (\<lambda>(w, ok). utf8_unit_value w) (utf8_units b)"
    by (auto simp: utf8_decode_def split: if_splits)
  note v = utf8_units_values [OF ok]
  have "utf8_encode s = concat (map fst (utf8_units b))"
    unfolding s utf8_encode_def map_map
    by (rule arg_cong [of _ _ concat], rule map_cong) (use v in auto)
  moreover have "list_all scalar_value s" using v by (auto simp: s list_all_iff)
  ultimately show ?thesis by (simp add: utf8_encode_strict_def utf8_units_concat)
qed

interpretation utf8: lossless_codec utf8_decode utf8_encode_strict
  by unfold_locales (rule utf8_enc_dec)

lemma find_bom_prefix: "find_bom raw = Some (marker, be, name) \<Longrightarrow> raw = marker @ drop (length marker) raw"
  by (auto simp: find_bom_def find_Some_iff startswith_iff)

end
