(* ===== verification/Replacing.thy ===== *)
theory Replacing
  imports ContentIo
begin

text \<open>
  CAS-protected batch replacement: \<^verbatim>\<open>src/chatgpt_web_oauth_mcp/replacing.py\<close>.

  Parameters: SHA-256, the codec registry, the regular-expression engine (compile, number of matches,
  \<^verbatim>\<open>subn\<close>), what another process does to the tree between planning and the re-check, and how each
  atomic write turns out. Locks and permission bits are not modelled.
\<close>

section \<open>One rule\<close>

text \<open>A compiled pattern is an escaped literal or a regular expression, with its flags.\<close>

datatype rx_source = Escaped ustr | Pattern ustr

record rx_flags =
  rx_ignore_case :: bool
  rx_multiline :: bool
  rx_dot_all :: bool

datatype rx_replacement = Constant ustr | Template ustr

record regex_engine =
  rx_compiles :: "rx_source \<Rightarrow> rx_flags \<Rightarrow> bool"
  rx_matches :: "rx_source \<Rightarrow> rx_flags \<Rightarrow> ustr \<Rightarrow> nat"
  rx_subn :: "rx_source \<Rightarrow> rx_flags \<Rightarrow> rx_replacement \<Rightarrow> ustr \<Rightarrow> nat \<Rightarrow> (ustr \<times> nat) option"

definition truthy :: "string \<Rightarrow> bool \<Rightarrow> dict \<Rightarrow> bool" where
  "truthy k dflt d = (case map_of d k of None \<Rightarrow> dflt | Some j \<Rightarrow> \<not> json_falsy j)"

definition regex_flags :: "dict \<Rightarrow> rx_flags" where
  "regex_flags rule = \<lparr>rx_ignore_case = truthy ''ignore_case'' False rule,
     rx_multiline = truthy ''multiline'' False rule, rx_dot_all = truthy ''dot_all'' False rule\<rparr>"

definition no_flags :: "rx_flags \<Rightarrow> bool" where
  "no_flags f \<longleftrightarrow> \<not> rx_ignore_case f \<and> \<not> rx_multiline f \<and> \<not> rx_dot_all f"

datatype rule_outcome = Replaced ustr nat | RuleError dict | RuleRaises

definition rule_error :: "string \<Rightarrow> string \<Rightarrow> dict \<Rightarrow> rule_outcome" where
  "rule_error code message extra = RuleError (tool_error code (u message) extra)"

text \<open>The count a rule asks for: \<^verbatim>\<open>0\<close> is no limit.\<close>

definition rule_count :: "dict \<Rightarrow> nat option" where
  "rule_count rule =
     (case map_of rule ''count'' of
        None \<Rightarrow> Some 0
      | Some (JInt i) \<Rightarrow> if i < 0 then None else Some (nat i)
      | Some j \<Rightarrow> None)"

definition too_many :: "nat \<Rightarrow> rule_outcome" where
  "too_many attempted =
     rule_error ''max_replacements_exceeded'' ''Replacement count exceeds max_replacements; no files were changed.''
       [(''attempted'', jnat attempted)]"

text \<open>The literal branch: \<^verbatim>\<open>count\<close> and \<^verbatim>\<open>replace\<close> of \<^verbatim>\<open>str\<close>.\<close>

definition apply_literal :: "ustr \<Rightarrow> ustr \<Rightarrow> nat \<Rightarrow> nat \<Rightarrow> ustr \<Rightarrow> rule_outcome" where
  "apply_literal pattern replacement count budget text =
     (let available = count_sub pattern text;
          replacements = (if count \<noteq> 0 then min available count else available) in
      if budget < replacements then too_many replacements
      else Replaced (replace_sub pattern replacement replacements text) replacements)"

text \<open>The regular-expression branch. \<^verbatim>\<open>subn\<close> raises \<^verbatim>\<open>re.error\<close> on a bad template.\<close>

definition apply_regex ::
  "regex_engine \<Rightarrow> rx_source \<Rightarrow> rx_flags \<Rightarrow> rx_replacement \<Rightarrow> nat \<Rightarrow> nat \<Rightarrow> ustr \<Rightarrow> rule_outcome" where
  "apply_regex rx source flags replacement count budget text =
     (if \<not> rx_compiles rx source flags
        then rule_error ''invalid_pattern'' ''Invalid replacement regular expression'' []
      else
        let maximum = (if count \<noteq> 0 then count else budget + 1);
            matches = min (rx_matches rx source flags text) maximum;
            replacements = (if count \<noteq> 0 then min matches count else matches) in
        if budget < replacements \<or> count = 0 \<and> budget < matches then too_many matches
        else case rx_subn rx source flags replacement text count of
            None \<Rightarrow> RuleRaises
          | Some (replaced, actual) \<Rightarrow> Replaced replaced actual)"

definition apply_rule :: "regex_engine \<Rightarrow> dict \<Rightarrow> string \<Rightarrow> nat \<Rightarrow> ustr \<Rightarrow> rule_outcome" where
  "apply_rule rx rule newline budget text =
     (case map_of rule ''pattern'' of
        Some (JStr (c # cs)) \<Rightarrow>
          (case map_of rule ''replacement'' of
             Some (JStr raw) \<Rightarrow>
               (case rule_count rule of
                  None \<Rightarrow> rule_error ''invalid_rule'' ''rule.count must be a non-negative integer.'' []
                | Some count \<Rightarrow>
                    let pattern = c # cs;
                        replacement = normalize_newlines raw newline;
                        literal = truthy ''literal'' True rule;
                        flags = regex_flags rule in
                    if literal \<and> no_flags flags
                    then apply_literal pattern replacement count budget text
                    else apply_regex rx (if literal then Escaped pattern else Pattern pattern) flags
                           (if literal then Constant replacement else Template replacement) count budget text)
           | _ \<Rightarrow> rule_error ''invalid_rule'' ''Each rule requires a string replacement.'' [])
      | _ \<Rightarrow> rule_error ''invalid_rule'' ''Each rule requires a non-empty string pattern.'' [])"

section \<open>Planning the batch\<close>

record replace_operation =
  ro_path :: path
  ro_rules :: "dict list"
  ro_revision :: "ustr option"
  ro_encoding :: "ustr option"

record replace_plan =
  pl_path :: path
  pl_before :: bytes
  pl_after :: bytes
  pl_before_revision :: ustr
  pl_after_revision :: ustr
  pl_encoding :: ustr
  pl_bom :: "ustr option"
  pl_newline :: string
  pl_replacements :: nat
  pl_rules :: "nat list"

datatype plan_failure = PlanError dict | PlanRaises py_error

definition revision :: "(bytes \<Rightarrow> bytes) \<Rightarrow> bytes \<Rightarrow> ustr" where
  "revision sha raw = hexdigest (sha raw)"

text \<open>Operations grouped by path, in the order of first mention.\<close>

fun group_operations ::
  "replace_operation list \<Rightarrow> (path \<times> replace_operation) list \<Rightarrow> plan_failure + (path \<times> replace_operation) list" where
  "group_operations [] acc = Inr acc"
| "group_operations (op # ops) acc =
     (if ro_rules op = []
        then Inl (PlanError (tool_error ''invalid_arguments'' (u ''Each operation requires a non-empty rules list.'') []))
      else case map_of acc (ro_path op) of
          None \<Rightarrow> group_operations ops (acc @ [(ro_path op, op)])
        | Some entry \<Rightarrow>
            if ro_encoding entry \<noteq> ro_encoding op
            then Inl (PlanError (tool_error ''invalid_arguments''
                   (u ''Conflicting encodings for '' @ path_text (ro_path op) @ [46]) []))
            else if ro_revision entry \<noteq> ro_revision op
            then Inl (PlanError (tool_error ''invalid_arguments''
                   (u ''Conflicting expected revisions for '' @ path_text (ro_path op) @ [46]) []))
            else group_operations ops
                   (AList.update (ro_path op) (entry\<lparr>ro_rules := ro_rules entry @ ro_rules op\<rparr>) acc))"

text \<open>The rules of one file, in order, each within what is left of the budget.\<close>

fun apply_rules ::
  "regex_engine \<Rightarrow> string \<Rightarrow> path \<Rightarrow> nat \<Rightarrow> dict list \<Rightarrow> nat \<Rightarrow> ustr \<Rightarrow> plan_failure + (ustr \<times> nat list)" where
  "apply_rules rx newline p i [] budget text = Inr (text, [])"
| "apply_rules rx newline p i (rule # rules) budget text =
     (case apply_rule rx rule newline budget text of
        RuleError d \<Rightarrow> Inl (PlanError (dict_update d [(''path'', JStr (path_text p)), (''rule_index'', jnat i)]))
      | RuleRaises \<Rightarrow> Inl (PlanRaises RegexError)
      | Replaced text' n \<Rightarrow>
          map_sum id (\<lambda>(t, ns). (t, n # ns)) (apply_rules rx newline p (Suc i) rules (budget - n) text'))"

definition decoding_message :: "decoding_error \<Rightarrow> ustr" where
  "decoding_message e =
     (case e of
        TextDecodingError (UnknownEncoding v) cs \<Rightarrow> u ''Unknown text encoding: '' @ v
      | TextDecodingError (BomConflict v n) cs \<Rightarrow> u ''Explicit encoding '' @ v @ u '' conflicts with the '' @ n @ u '' BOM.''
      | TextDecodingError NotDetected cs \<Rightarrow>
          u ''Text encoding could not be detected conservatively. Provide an explicit encoding.''
      | TextDecodingError (NotValid v) cs \<Rightarrow> u ''File is not valid '' @ v
      | TextDecodingError BinaryNul cs \<Rightarrow> u ''NUL bytes indicate binary data; use another mode or provide an explicit encoding.'')"

definition decoding_candidates :: "decoding_error \<Rightarrow> ustr list" where
  "decoding_candidates e = (case e of TextDecodingError p cs \<Rightarrow> cs)"

definition plan_file ::
  "(bytes \<Rightarrow> bytes) \<Rightarrow> codec_registry \<Rightarrow> regex_engine \<Rightarrow> nat \<Rightarrow> fs \<Rightarrow> path \<times> replace_operation \<Rightarrow> plan_failure + replace_plan" where
  "plan_file sha lk rx budget m = (\<lambda>(p, op).
     if \<not> path_exists m p
       then Inl (PlanError (tool_error ''file_not_found'' (u ''File not found: '' @ path_text p)
              [(''resolved_path'', JStr (path_text p))]))
     else case file_bytes m p of
         None \<Rightarrow> Inl (PlanError (tool_error ''not_a_file'' (u ''Path is not a file: '' @ path_text p)
                  [(''resolved_path'', JStr (path_text p))]))
       | Some raw \<Rightarrow>
           (if ro_revision op \<noteq> None \<and> ro_revision op \<noteq> Some (revision sha raw)
            then Inl (PlanError (tool_error ''revision_conflict''
                   (u ''Revision conflict for '' @ path_text p @ u ''; no files were changed.'')
                   [(''resolved_path'', JStr (path_text p)),
                    (''expected_revision'', jopt JStr (ro_revision op)),
                    (''actual_revision'', JStr (revision sha raw))]))
            else case decode_text_bytes lk raw (ro_encoding op) of
                Inl e \<Rightarrow> Inl (PlanError (tool_error ''encoding_error'' (decoding_message e)
                       [(''resolved_path'', JStr (path_text p)),
                        (''encoding_candidates'', JList (map JStr (decoding_candidates e)))]))
              | Inr decoded \<Rightarrow>
                  (case apply_rules rx (dt_newline decoded) p 0 (ro_rules op) budget (dt_text decoded) of
                     Inl e \<Rightarrow> Inl e
                   | Inr (replaced, ns) \<Rightarrow>
                       (case encode_text_bytes lk decoded replaced of
                          None \<Rightarrow> Inl (PlanRaises EncodeError)
                        | Some after_raw \<Rightarrow>
                            Inr \<lparr>pl_path = p, pl_before = raw, pl_after = after_raw,
                                 pl_before_revision = revision sha raw,
                                 pl_after_revision = revision sha after_raw,
                                 pl_encoding = dt_encoding decoded, pl_bom = dt_bom decoded,
                                 pl_newline = dt_newline decoded,
                                 pl_replacements = sum_list ns, pl_rules = ns\<rparr>))))"

fun plan_files ::
  "(bytes \<Rightarrow> bytes) \<Rightarrow> codec_registry \<Rightarrow> regex_engine \<Rightarrow> nat \<Rightarrow> fs \<Rightarrow> (path \<times> replace_operation) list
   \<Rightarrow> plan_failure + replace_plan list" where
  "plan_files sha lk rx budget m [] = Inr []"
| "plan_files sha lk rx budget m (g # gs) =
     (case plan_file sha lk rx budget m g of
        Inl e \<Rightarrow> Inl e
      | Inr pl \<Rightarrow> map_sum id (\<lambda>pls. pl # pls) (plan_files sha lk rx (budget - pl_replacements pl) m gs))"

section \<open>Committing and rolling back\<close>

text \<open>
  How one \<^verbatim>\<open>_atomic_write\<close> turns out: it works; it fails before or after \<^verbatim>\<open>os.replace\<close>; or it works and
  another process changes or removes the file before the verification reads it.
\<close>

datatype write_fate = Works | FailsBefore | FailsAfter | Tampered "bytes option"

definition atomic_write :: "fs \<Rightarrow> path \<Rightarrow> bytes \<Rightarrow> write_fate \<Rightarrow> fs \<times> bool" where
  "atomic_write m p b fate =
     (case fate of
        Works \<Rightarrow> (m(p \<mapsto> FileNode b), True)
      | FailsBefore \<Rightarrow> (m, False)
      | FailsAfter \<Rightarrow> (m(p \<mapsto> FileNode b), False)
      | Tampered c \<Rightarrow> (m(p := map_option FileNode c), True))"

definition has_revision :: "(bytes \<Rightarrow> bytes) \<Rightarrow> fs \<Rightarrow> path \<Rightarrow> ustr \<Rightarrow> bool" where
  "has_revision sha m p r \<longleftrightarrow> map_option (revision sha) (file_bytes m p) = Some r"

text \<open>Returns the tree, the plans attempted with the latest first, the writes done so far, and success.\<close>

fun commit_plans ::
  "(bytes \<Rightarrow> bytes) \<Rightarrow> (nat \<Rightarrow> write_fate) \<Rightarrow> replace_plan list \<Rightarrow> nat \<Rightarrow> replace_plan list \<Rightarrow> fs
   \<Rightarrow> fs \<times> replace_plan list \<times> nat \<times> bool" where
  "commit_plans sha fate [] n attempted m = (m, attempted, n, True)"
| "commit_plans sha fate (pl # pls) n attempted m =
     (if pl_before pl = pl_after pl then commit_plans sha fate pls n attempted m
      else
        let (m', ok) = atomic_write m (pl_path pl) (pl_after pl) (fate n) in
        if ok \<and> has_revision sha m' (pl_path pl) (pl_after_revision pl)
        then commit_plans sha fate pls (Suc n) (pl # attempted) m'
        else (m', pl # attempted, Suc n, False))"

fun roll_back ::
  "(bytes \<Rightarrow> bytes) \<Rightarrow> (nat \<Rightarrow> write_fate) \<Rightarrow> replace_plan list \<Rightarrow> nat \<Rightarrow> fs \<Rightarrow> fs \<times> path list" where
  "roll_back sha fate [] n m = (m, [])"
| "roll_back sha fate (pl # pls) n m =
     (let (m', ok) = atomic_write m (pl_path pl) (pl_before pl) (fate n);
          good = (ok \<and> has_revision sha m' (pl_path pl) (pl_before_revision pl));
          (m'', errors) = roll_back sha fate pls (Suc n) m'
      in (m'', if good then errors else pl_path pl # errors))"

definition plan_entry :: "replace_plan \<Rightarrow> json" where
  "plan_entry pl = JObj
     [(''path'', JStr (path_text (pl_path pl))), (''changed'', JBool (pl_before pl \<noteq> pl_after pl)),
      (''replacements'', jnat (pl_replacements pl)),
      (''rules'', JList (map (\<lambda>(i, n). JObj [(''rule_index'', jnat i), (''replacements'', jnat n)])
         (enumerate 0 (pl_rules pl)))),
      (''before_revision'', JStr (pl_before_revision pl)), (''after_revision'', JStr (pl_after_revision pl)),
      (''encoding'', JStr (pl_encoding pl)), (''bom'', jopt JStr (pl_bom pl)),
      (''newline'', jlit (pl_newline pl))]"

definition write_failed_reply :: "path list \<Rightarrow> dict" where
  "write_failed_reply errors =
     tool_error ''write_failed'' (u ''Atomic replacement failed: '')
       [(''rolled_back'', JBool (errors = [])), (''rollback_errors'', JList (map (\<lambda>p. JStr (path_text p)) errors))]"

definition replace_files ::
  "(bytes \<Rightarrow> bytes) \<Rightarrow> codec_registry \<Rightarrow> regex_engine \<Rightarrow> (fs \<Rightarrow> fs) \<Rightarrow> (nat \<Rightarrow> write_fate)
   \<Rightarrow> replace_operation list \<Rightarrow> bool \<Rightarrow> int \<Rightarrow> fs \<Rightarrow> fs \<times> tool_result" where
  "replace_files sha lk rx others fate operations dry_run max_replacements m =
     (if operations = []
        then (m, Reply (tool_error ''invalid_arguments'' (u ''Provide at least one replacement operation.'') []))
      else if max_replacements \<le> 0
        then (m, Reply (tool_error ''invalid_arguments'' (u ''max_replacements must be a positive integer.'') []))
      else case group_operations operations [] of
          Inl (PlanError d) \<Rightarrow> (m, Reply d)
        | Inl (PlanRaises e) \<Rightarrow> (m, Raises e)
        | Inr grouped \<Rightarrow>
            (case plan_files sha lk rx (nat max_replacements) m (sort_key (\<lambda>(p, op). path_text p) grouped) of
               Inl (PlanError d) \<Rightarrow> (m, Reply d)
             | Inl (PlanRaises e) \<Rightarrow> (m, Raises e)
             | Inr plans \<Rightarrow>
                 let m1 = others m in
                 (case find (\<lambda>pl. \<not> has_revision sha m1 (pl_path pl) (pl_before_revision pl)) plans of
                    Some pl \<Rightarrow>
                      (case file_bytes m1 (pl_path pl) of
                         None \<Rightarrow> (m1, Raises (if path_exists m1 (pl_path pl) then IsADirectory else FileNotFound))
                       | Some raw \<Rightarrow>
                           (m1, Reply (tool_error ''revision_conflict''
                              (u ''File changed while replacements were planned: '' @ path_text (pl_path pl) @ [46])
                              [(''resolved_path'', JStr (path_text (pl_path pl))),
                               (''expected_revision'', JStr (pl_before_revision pl)),
                               (''actual_revision'', JStr (revision sha raw))])))
                  | None \<Rightarrow>
                      let (m2, attempted, n, ok) =
                            (if dry_run then (m1, [], 0, True) else commit_plans sha fate plans 0 [] m1) in
                      if \<not> ok
                      then (let (m3, errors) = roll_back sha fate attempted n m2
                            in (m3, Reply (write_failed_reply errors)))
                      else
                        (m2, Reply
                          [(''success'', JBool True), (''dry_run'', JBool dry_run), (''written'', JBool (\<not> dry_run)),
                           (''changed_files'', jnat (length (filter (\<lambda>pl. pl_before pl \<noteq> pl_after pl) plans))),
                           (''total_replacements'', jnat (sum_list (map pl_replacements plans))),
                           (''max_replacements'', JInt max_replacements),
                           (''files'', JList (map plan_entry plans))]))))"

end
