(* ===== verification/ReplaceProps.thy ===== *)
theory ReplaceProps
  imports Replacing
begin

text \<open>
  What a batch replacement guarantees: it is all or nothing at the level of revisions, it stays within
  its budget, and decoding a file and encoding its text back gives its bytes.
\<close>

section \<open>Plans\<close>

lemma group_operations_distinct:
  "group_operations ops acc = Inr g \<Longrightarrow> distinct (map fst acc) \<Longrightarrow> distinct (map fst g)"
proof (induction ops acc rule: group_operations.induct)
  case (2 op ops acc)
  show ?case
  proof (cases "map_of acc (ro_path op)")
    case None
    then have "ro_path op \<notin> fst ` set acc" by (simp add: map_of_eq_None_iff)
    with 2 None show ?thesis by (auto split: if_splits)
  next
    case (Some entry)
    with 2 show ?thesis by (auto simp: distinct_update split: if_splits)
  qed
qed simp

lemma plan_file_facts:
  assumes "plan_file sha lk rx budget m (p, op) = Inr pl"
  shows "pl_path pl = p" "file_bytes m p = Some (pl_before pl)"
    "pl_before_revision pl = revision sha (pl_before pl)" "pl_after_revision pl = revision sha (pl_after pl)"
    "ro_revision op = None \<or> ro_revision op = Some (pl_before_revision pl)"
    "pl_replacements pl = sum_list (pl_rules pl)"
  using assms by (auto simp: plan_file_def split: if_splits option.splits sum.splits)

lemma plan_file_rules:
  assumes "plan_file sha lk rx budget m (p, op) = Inr pl"
  obtains nl t t' where "apply_rules rx nl p 0 (ro_rules op) budget t = Inr (t', pl_rules pl)"
  using assms by (auto simp: plan_file_def split: if_splits option.splits sum.splits)

lemma plan_files_facts:
  assumes "plan_files sha lk rx budget m gs = Inr pls"
  shows "map pl_path pls = map fst gs"
    and "pl \<in> set pls \<Longrightarrow> has_revision sha m (pl_path pl) (pl_before_revision pl) \<and>
      pl_after_revision pl = revision sha (pl_after pl) \<and> pl_before_revision pl = revision sha (pl_before pl)"
    and "(p, op) \<in> set gs \<Longrightarrow> ro_revision op = Some r \<Longrightarrow> has_revision sha m p r"
proof -
  have "map pl_path pls = map fst gs \<and>
    (\<forall>pl \<in> set pls. has_revision sha m (pl_path pl) (pl_before_revision pl) \<and>
      pl_after_revision pl = revision sha (pl_after pl) \<and> pl_before_revision pl = revision sha (pl_before pl)) \<and>
    (\<forall>(p, op) \<in> set gs. \<forall>r. ro_revision op = Some r \<longrightarrow> has_revision sha m p r)"
    using assms
  proof (induction sha lk rx budget m gs arbitrary: pls rule: plan_files.induct)
    case (2 sha lk rx budget m g gs)
    obtain p op where g: "g = (p, op)" by (cases g)
    from 2(2) obtain pl pls' where f: "plan_file sha lk rx budget m (p, op) = Inr pl"
      and r: "plan_files sha lk rx (budget - pl_replacements pl) m gs = Inr pls'" and l: "pls = pl # pls'"
      by (auto simp: g split: sum.splits)
    from 2(1) [OF f [folded g] r] plan_file_facts [OF f] show ?case
      by (auto simp: l g has_revision_def)
  qed simp
  then show "map pl_path pls = map fst gs"
    "pl \<in> set pls \<Longrightarrow> has_revision sha m (pl_path pl) (pl_before_revision pl) \<and>
      pl_after_revision pl = revision sha (pl_after pl) \<and> pl_before_revision pl = revision sha (pl_before pl)"
    "(p, op) \<in> set gs \<Longrightarrow> ro_revision op = Some r \<Longrightarrow> has_revision sha m p r"
    by auto
qed

lemma distinct_keys_sort: "distinct (map fst xs) \<Longrightarrow> distinct (map fst (sort_key k xs))"
  by (simp add: distinct_map)

section \<open>Commit and rollback\<close>

lemma atomic_write_other: "q \<noteq> p \<Longrightarrow> file_bytes (fst (atomic_write m p b f)) q = file_bytes m q"
  by (cases f) (simp_all add: atomic_write_def file_bytes_def)

lemma commit_plans_frame:
  "commit_plans sha fate pls n att m = (m', att', n', ok) \<Longrightarrow>
   \<exists>new. att' = new @ att \<and> set new \<subseteq> {pl \<in> set pls. pl_before pl \<noteq> pl_after pl} \<and>
      (\<forall>q. q \<notin> pl_path ` set new \<longrightarrow> file_bytes m' q = file_bytes m q)"
proof (induction sha fate pls n att m rule: commit_plans.induct)
  case (2 sha fate pl pls n att m)
  show ?case
  proof (cases "pl_before pl = pl_after pl")
    case True
    with 2 show ?thesis by fastforce
  next
    case False
    obtain m1 b where w: "atomic_write m (pl_path pl) (pl_after pl) (fate n) = (m1, b)" by (cases "atomic_write m (pl_path pl) (pl_after pl) (fate n)")
    have other: "q \<noteq> pl_path pl \<Longrightarrow> file_bytes m1 q = file_bytes m q" for q
      using atomic_write_other [of q "pl_path pl" m "pl_after pl" "fate n"] by (simp add: w)
    show ?thesis
    proof (cases "b \<and> has_revision sha m1 (pl_path pl) (pl_after_revision pl)")
      case True
      with False w 2(3) have "commit_plans sha fate pls (Suc n) (pl # att) m1 = (m', att', n', ok)" by simp
      from 2(2) [OF False w [symmetric] refl True this] obtain new where
        "att' = new @ pl # att" "set new \<subseteq> {pl \<in> set pls. pl_before pl \<noteq> pl_after pl}" "\<forall>q. q \<notin> pl_path ` set new \<longrightarrow> file_bytes m' q = file_bytes m1 q"
        by blast
      then show ?thesis using other False by (intro exI [of _ "new @ [pl]"]) auto
    next
      case no: False
      with False w 2(3) show ?thesis using other by (intro exI [of _ "[pl]"]) auto
    qed
  qed
qed simp

lemma commit_plans_done:
  "commit_plans sha fate pls n att m = (m', att', n', True) \<Longrightarrow> distinct (map pl_path pls) \<Longrightarrow>
   pl \<in> set pls \<Longrightarrow> pl_before pl \<noteq> pl_after pl \<Longrightarrow> has_revision sha m' (pl_path pl) (pl_after_revision pl)"
proof (induction sha fate pls n att m rule: commit_plans.induct)
  case (2 sha fate pl0 pls n att m)
  show ?case
  proof (cases "pl_before pl0 = pl_after pl0")
    case True
    with 2 show ?thesis by auto
  next
    case False
    obtain m1 b where w: "atomic_write m (pl_path pl0) (pl_after pl0) (fate n) = (m1, b)" by (cases "atomic_write m (pl_path pl0) (pl_after pl0) (fate n)")
    with False 2(3) have ok: "b \<and> has_revision sha m1 (pl_path pl0) (pl_after_revision pl0)"
      and run: "commit_plans sha fate pls (Suc n) (pl0 # att) m1 = (m', att', n', True)"
      by (auto split: if_splits)
    show ?thesis
    proof (cases "pl = pl0")
      case True
      from commit_plans_frame [OF run] obtain new where "set new \<subseteq> {pl \<in> set pls. pl_before pl \<noteq> pl_after pl}"
        and "\<forall>q. q \<notin> pl_path ` set new \<longrightarrow> file_bytes m' q = file_bytes m1 q" by blast
      moreover have "pl_path pl0 \<notin> pl_path ` set pls" using 2(4) by simp
      ultimately have "file_bytes m' (pl_path pl0) = file_bytes m1 (pl_path pl0)" by blast
      with ok True show ?thesis by (simp add: has_revision_def)
    next
      case no: False
      from 2(2) [OF False w [symmetric] refl ok run] 2(4-6) no show ?thesis by simp
    qed
  qed
qed simp

lemma commit_plans_attempted_distinct:
  "commit_plans sha fate pls n att m = (m', att', n', ok) \<Longrightarrow> distinct (map pl_path (rev att @ pls)) \<Longrightarrow>
   distinct (map pl_path att')"
proof (induction sha fate pls n att m rule: commit_plans.induct)
  case (1 sha fate n att m)
  then show ?case by (simp flip: rev_map)
next
  case (2 sha fate pl pls n att m)
  show ?case
  proof (cases "pl_before pl = pl_after pl")
    case True
    with 2 show ?thesis by auto
  next
    case False
    obtain m1 b where w: "atomic_write m (pl_path pl) (pl_after pl) (fate n) = (m1, b)" by (cases "atomic_write m (pl_path pl) (pl_after pl) (fate n)")
    have d: "distinct (map pl_path (rev (pl # att) @ pls))" using 2(4) by simp
    show ?thesis
    proof (cases "b \<and> has_revision sha m1 (pl_path pl) (pl_after_revision pl)")
      case True
      with False w 2(3) have "commit_plans sha fate pls (Suc n) (pl # att) m1 = (m', att', n', ok)" by simp
      from 2(2) [OF False w [symmetric] refl True this d] show ?thesis .
    next
      case no: False
      with False w 2(3) have "att' = pl # att" by auto
      moreover have "distinct (map pl_path (pl # att))" using d by (auto simp flip: rev_map)
      ultimately show ?thesis by simp
    qed
  qed
qed

lemma roll_back_frame:
  "roll_back sha fate pls n m = (m', errors) \<Longrightarrow> q \<notin> pl_path ` set pls \<Longrightarrow> file_bytes m' q = file_bytes m q"
proof (induction sha fate pls n m arbitrary: m' errors rule: roll_back.induct)
  case (2 sha fate pl pls n m)
  obtain m1 b where w: "atomic_write m (pl_path pl) (pl_before pl) (fate n) = (m1, b)" by (cases "atomic_write m (pl_path pl) (pl_before pl) (fate n)")
  obtain m2 es where r: "roll_back sha fate pls (Suc n) m1 = (m2, es)" by (cases "roll_back sha fate pls (Suc n) m1")
  have "m' = m2" using 2(2) by (simp add: w r Let_def)
  with 2(1) [OF w [symmetric] refl refl r] 2(3) atomic_write_other [of q "pl_path pl" m "pl_before pl" "fate n"] w
  show ?case by simp
qed simp

lemma roll_back_restores:
  "roll_back sha fate pls n m = (m', []) \<Longrightarrow> distinct (map pl_path pls) \<Longrightarrow> pl \<in> set pls \<Longrightarrow>
   has_revision sha m' (pl_path pl) (pl_before_revision pl)"
proof (induction sha fate pls n m arbitrary: m' rule: roll_back.induct)
  case (2 sha fate pl0 pls n m)
  obtain m1 b where w: "atomic_write m (pl_path pl0) (pl_before pl0) (fate n) = (m1, b)" by (cases "atomic_write m (pl_path pl0) (pl_before pl0) (fate n)")
  obtain m2 es where r: "roll_back sha fate pls (Suc n) m1 = (m2, es)" by (cases "roll_back sha fate pls (Suc n) m1")
  have facts: "m' = m2" "es = []" "has_revision sha m1 (pl_path pl0) (pl_before_revision pl0)"
    using 2(2) by (auto simp: w r Let_def split: if_splits)
  show ?case
  proof (cases "pl = pl0")
    case True
    have "pl_path pl0 \<notin> pl_path ` set pls" using 2(3) by simp
    from roll_back_frame [OF r this] facts True show ?thesis by (simp add: has_revision_def)
  next
    case False
    with 2(1) [OF w [symmetric] refl refl r [unfolded facts(2)]] 2(3,4) facts(1) show ?thesis by simp
  qed
qed simp

section \<open>Budget\<close>

text \<open>What \<^verbatim>\<open>re.Pattern.subn\<close> documents: it replaces at most \<open>count\<close> matches, all of them when \<open>count\<close> is 0.\<close>

definition subn_counts :: "regex_engine \<Rightarrow> bool" where
  "subn_counts rx \<longleftrightarrow> (\<forall>src flags repl text count t k. rx_subn rx src flags repl text count = Some (t, k) \<longrightarrow>
     k = (if count = 0 then rx_matches rx src flags text else min count (rx_matches rx src flags text)))"

lemma apply_rule_budget:
  assumes "subn_counts rx" and "apply_rule rx rule newline budget text = Replaced text' n"
  shows "n \<le> budget"
proof -
  have lit: "k \<le> budget" if "apply_literal p r c budget text = Replaced t k" for p r c t k
    using that by (auto simp: apply_literal_def too_many_def rule_error_def Let_def split: if_splits)
  have rx: "k \<le> budget" if "apply_regex rx src flags r c budget text = Replaced t k" for src flags r c t k
  proof -
    let ?max = "if c \<noteq> 0 then c else budget + 1"
    from that have ok: "min (rx_matches rx src flags text) ?max \<le> budget"
      and s: "rx_subn rx src flags r text c = Some (t, k)"
      by (auto simp: apply_regex_def too_many_def rule_error_def Let_def split: if_splits option.splits)
    from s assms(1) have "k = (if c = 0 then rx_matches rx src flags text else min c (rx_matches rx src flags text))"
      unfolding subn_counts_def by blast
    with ok show ?thesis by (auto split: if_splits)
  qed
  from assms(2) show ?thesis
    by (auto simp: apply_rule_def rule_error_def Let_def split: option.splits json.splits list.splits if_splits
        dest: lit rx)
qed

lemma apply_rules_budget:
  "subn_counts rx \<Longrightarrow> apply_rules rx newline p i rules budget s = Inr (s', ns) \<Longrightarrow> sum_list ns \<le> budget"
proof (induction rx newline p i rules budget s arbitrary: s' ns rule: apply_rules.induct)
  case (2 rx newline p i rule rules budget s)
  from 2(3) obtain t1 n where r: "apply_rule rx rule newline budget s = Replaced t1 n"
    by (auto split: rule_outcome.splits)
  with 2(3) obtain t2 ns' where "apply_rules rx newline p (Suc i) rules (budget - n) t1 = Inr (t2, ns')" "ns = n # ns'"
    by (cases "apply_rules rx newline p (Suc i) rules (budget - n) t1") auto
  with 2(1) [OF r 2(2)] apply_rule_budget [OF 2(2) r] show ?case by fastforce
qed simp

lemma plan_files_budget:
  "subn_counts rx \<Longrightarrow> plan_files sha lk rx budget m gs = Inr pls \<Longrightarrow>
   sum_list (map pl_replacements pls) \<le> budget"
proof (induction sha lk rx budget m gs arbitrary: pls rule: plan_files.induct)
  case (2 sha lk rx budget m g gs)
  obtain p op where g: "g = (p, op)" by (cases g)
  from 2(3) obtain pl pls' where f: "plan_file sha lk rx budget m (p, op) = Inr pl"
    and r: "plan_files sha lk rx (budget - pl_replacements pl) m gs = Inr pls'" and l: "pls = pl # pls'"
    by (auto simp: g split: sum.splits)
  have "pl_replacements pl \<le> budget"
    using plan_file_facts(6) [OF f] apply_rules_budget [OF 2(2)] plan_file_rules [OF f] by metis
  with 2(1) [OF f [folded g] 2(2) r] l show ?case by simp
qed simp

section \<open>The run of a batch\<close>

text \<open>The outcomes of \<^verbatim>\<open>replace_files\<close>: before the writes, a finished commit, a rolled back commit.\<close>

lemma replace_files_cases:
  assumes "replace_files sha lk rx others fate ops dry maxr m = (m', Reply d)"
  obtains (early) "m' = m \<or> m' = others m"
  | (checked) grouped plans where "dry" "m' = others m" "map_of d ''success'' = Some (JBool True)"
  | (committed) grouped plans att n where "\<not> dry" "group_operations ops [] = Inr grouped"
      "plan_files sha lk rx (nat maxr) m (sort_key (\<lambda>(p, op). path_text p) grouped) = Inr plans"
      "\<forall>pl \<in> set plans. has_revision sha (others m) (pl_path pl) (pl_before_revision pl)"
      "commit_plans sha fate plans 0 [] (others m) = (m', att, n, True)"
      "map_of d ''total_replacements'' = Some (jnat (sum_list (map pl_replacements plans)))"
      "map_of d ''success'' = Some (JBool True)"
  | (failed) grouped plans att n m2 errors where "\<not> dry" "group_operations ops [] = Inr grouped"
      "plan_files sha lk rx (nat maxr) m (sort_key (\<lambda>(p, op). path_text p) grouped) = Inr plans"
      "\<forall>pl \<in> set plans. has_revision sha (others m) (pl_path pl) (pl_before_revision pl)"
      "commit_plans sha fate plans 0 [] (others m) = (m2, att, n, False)"
      "roll_back sha fate att n m2 = (m', errors)" "d = write_failed_reply errors"
proof (cases "m' = m \<or> m' = others m")
  case True
  then show thesis by (rule early)
next
  case False
  with assms obtain grouped where g: "group_operations ops [] = Inr grouped"
    by (auto simp: replace_files_def split: if_splits sum.splits plan_failure.splits)
  let ?gs = "sort_key (\<lambda>(p, op). path_text p) grouped"
  from False assms g obtain plans where p: "plan_files sha lk rx (nat maxr) m ?gs = Inr plans"
    by (auto simp: replace_files_def split: if_splits sum.splits plan_failure.splits)
  let ?bad = "\<lambda>pl. \<not> has_revision sha (others m) (pl_path pl) (pl_before_revision pl)"
  from False assms g p have ok: "find ?bad plans = None"
    by (auto simp: replace_files_def Let_def split: if_splits option.splits)
  then have all: "\<forall>pl \<in> set plans. has_revision sha (others m) (pl_path pl) (pl_before_revision pl)"
    by (simp add: find_None_iff)
  have nd: "\<not> dry" using False assms g p ok by (auto simp: replace_files_def Let_def split: if_splits)
  obtain m2 att n fin where c: "commit_plans sha fate plans 0 [] (others m) = (m2, att, n, fin)"
    by (metis prod_cases4)
  show thesis
  proof (cases fin)
    case True
    with False assms g p ok nd c show thesis
      by (intro committed [OF nd g p all, of att n]) (auto simp: replace_files_def Let_def split: if_splits)
  next
    case no: False
    obtain m3 es where r: "roll_back sha fate att n m2 = (m3, es)" by (cases "roll_back sha fate att n m2")
    with False assms g p ok nd c no show thesis
      by (intro failed [OF nd g p all, of m2 att n es]) (auto simp: replace_files_def Let_def split: if_splits)
  qed
qed

section \<open>A batch to witness the properties\<close>

definition plain_registry :: codec_registry where
  "plain_registry name = (if name = u ''utf-8'' then Some utf8_codec else None)"

definition no_regex :: regex_engine where
  "no_regex = \<lparr>rx_compiles = (\<lambda>_ _. False), rx_matches = (\<lambda>_ _ _. 0), rx_subn = (\<lambda>_ _ _ _ _. None)\<rparr>"

definition sample_rule :: dict where
  "sample_rule = [(''pattern'', jlit ''a''), (''replacement'', jlit ''bb'')]"

definition sample_batch :: "replace_operation list" where
  "sample_batch =
     [\<lparr>ro_path = [u ''f''], ro_rules = [sample_rule], ro_revision = None, ro_encoding = None\<rparr>,
      \<lparr>ro_path = [u ''g''], ro_rules = [sample_rule], ro_revision = Some (hexdigest [97]), ro_encoding = None\<rparr>]"

definition sample_files :: fs where
  "sample_files = [[u ''f''] \<mapsto> FileNode [97, 98], [u ''g''] \<mapsto> FileNode [97]]"

definition plan_f :: replace_plan where
  "plan_f = \<lparr>pl_path = [u ''f''], pl_before = [97, 98], pl_after = [98, 98, 98],
     pl_before_revision = hexdigest [97, 98], pl_after_revision = hexdigest [98, 98, 98],
     pl_encoding = u ''utf-8'', pl_bom = None, pl_newline = ''none'', pl_replacements = 1, pl_rules = [1]\<rparr>"

definition plan_g :: replace_plan where
  "plan_g = \<lparr>pl_path = [u ''g''], pl_before = [97], pl_after = [98, 98],
     pl_before_revision = hexdigest [97], pl_after_revision = hexdigest [98, 98],
     pl_encoding = u ''utf-8'', pl_bom = None, pl_newline = ''none'', pl_replacements = 1, pl_rules = [1]\<rparr>"

lemmas replace_eval = sample_rule_def plan_file_def path_exists_def file_bytes_def revision_def decode_text_bytes_def
  find_bom_def boms_def startswith_def effective_encoding_def plain_registry_def utf8_codec_def
  utf8_decode_def utf8_units.simps lead_width_def newline_style_def count_sub_def replace_sub_def apply_rule_def
  rule_count_def normalize_newlines_def truthy_def regex_flags_def no_flags_def json_falsy_def
  apply_literal_def encode_text_bytes_def utf8_encode_strict_def scalar_value_def utf8_char_def

definition sample_groups :: "(path \<times> replace_operation) list" where
  "sample_groups = [([u ''f''], sample_batch ! 0), ([u ''g''], sample_batch ! 1)]"

lemma sample_group: "group_operations sample_batch [] = Inr sample_groups"
  by (simp add: sample_batch_def sample_groups_def sample_rule_def)

lemma sample_sorted: "sort_key (\<lambda>(p, op). path_text p) sample_groups = sample_groups"
  by (simp add: sample_groups_def path_text_def)

lemma sample_replace_plans:
  "plan_files (\<lambda>b. b) plain_registry no_regex 9 sample_files sample_groups = Inr [plan_f, plan_g]"
  by (simp add: sample_groups_def sample_batch_def plan_f_def plan_g_def sample_files_def replace_eval)

lemma sample_revisions:
  "has_revision (\<lambda>b. b) sample_files (pl_path plan_f) (pl_before_revision plan_f)"
  "has_revision (\<lambda>b. b) sample_files (pl_path plan_g) (pl_before_revision plan_g)"
  by (simp_all add: has_revision_def sample_files_def plan_f_def plan_g_def file_bytes_def revision_def)

text \<open>The second write fails, and both files are written back.\<close>

definition second_fails :: "nat \<Rightarrow> write_fate" where
  "second_fails n = (if n = 1 then FailsAfter else Works)"

lemma sample_rollback_run:
  "\<exists>m'. replace_files (\<lambda>b. b) plain_registry no_regex id second_fails sample_batch False 9 sample_files =
     (m', Reply (write_failed_reply []))"
proof -
  have ne: "sample_batch \<noteq> []" by (simp add: sample_batch_def)
  show ?thesis
    using sample_revisions
    by (simp add: replace_files_def ne sample_group sample_sorted sample_replace_plans)
       (simp add: plan_f_def plan_g_def sample_files_def second_fails_def atomic_write_def has_revision_def
         file_bytes_def revision_def hexdigest_def hex_of_nibble_def)
qed

lemma sample_commit_run:
  "\<exists>m' d. replace_files (\<lambda>b. b) plain_registry no_regex id (\<lambda>_. Works) sample_batch False 9 sample_files =
     (m', Reply d) \<and> map_of d ''success'' = Some (JBool True)"
proof -
  have ne: "sample_batch \<noteq> []" by (simp add: sample_batch_def)
  show ?thesis
    using sample_revisions
    by (simp add: replace_files_def ne sample_group sample_sorted sample_replace_plans)
       (simp add: plan_f_def plan_g_def sample_files_def atomic_write_def has_revision_def
         file_bytes_def revision_def hexdigest_def hex_of_nibble_def)
qed

section \<open>Properties\<close>

text \<open>C8: A batch that fails leaves no trace: when \<^verbatim>\<open>replace_files\<close> reports an error and does not admit a
  failed rollback, every file has the revision it had before the batch, either when it was called or when the
  planned files were checked again; also when a write failed half way, before or after its rename, or
  another process tampered with a file just written.\<close>
theorem failed_batch_restores:
  assumes "replace_files sha lk rx others fate ops dry_run max_replacements m = (m', Reply d)"
    and "map_of d ''success'' = Some (JBool False)" and "map_of d ''rolled_back'' \<noteq> Some (JBool False)"
  shows "\<exists>m0 \<in> {m, others m}. \<forall>p. map_option (revision sha) (file_bytes m' p) = map_option (revision sha) (file_bytes m0 p)"
  using assms(1)
proof (cases rule: replace_files_cases)
  case early
  then show ?thesis by auto
next
  case (failed grouped plans att n m2 errors)
  let ?m1 = "others m" and ?gs = "sort_key (\<lambda>(p, op). path_text p) grouped"
  have "map_of d ''rolled_back'' = Some (JBool (errors = []))"
    by (simp add: failed(7) write_failed_reply_def tool_error_def)
  with assms(3) have e: "errors = []" by simp
  have "distinct (map fst ?gs)"
    using group_operations_distinct [OF failed(2)] by (simp add: distinct_keys_sort)
  then have dp: "distinct (map pl_path plans)" by (simp only: plan_files_facts(1) [OF failed(3)])
  have da: "distinct (map pl_path att)"
    using commit_plans_attempted_distinct [OF failed(5)] dp by simp
  from commit_plans_frame [OF failed(5)] have sub: "set att \<subseteq> set plans"
    and frame: "\<And>q. q \<notin> pl_path ` set att \<Longrightarrow> file_bytes m2 q = file_bytes ?m1 q" by auto
  have "map_option (revision sha) (file_bytes m' p) = map_option (revision sha) (file_bytes ?m1 p)" for p
  proof (cases "p \<in> pl_path ` set att")
    case True
    then obtain pl where pl: "pl \<in> set att" "p = pl_path pl" by blast
    from sub pl(1) failed(4) have "has_revision sha ?m1 (pl_path pl) (pl_before_revision pl)" by blast
    with roll_back_restores [OF failed(6) [unfolded e] da pl(1)] pl(2)
    show ?thesis by (simp only: has_revision_def)
  next
    case False
    with roll_back_frame [OF failed(6)] frame show ?thesis by simp
  qed
  then show ?thesis by auto
qed (use assms(2) in auto)

theorem failed_batch_restores_witness:
  "\<exists>m'. fst (replace_files (\<lambda>b. b) plain_registry no_regex id second_fails sample_batch False 9 sample_files) = m' \<and>
     map_option (revision (\<lambda>b. b)) (file_bytes m' [u ''f'']) = Some (hexdigest [97, 98])"
proof -
  from sample_rollback_run obtain m' where run: "replace_files (\<lambda>b. b) plain_registry no_regex id second_fails
      sample_batch False 9 sample_files = (m', Reply (write_failed_reply []))" by blast
  have "\<exists>m0 \<in> {sample_files, id sample_files}. \<forall>p. map_option (revision (\<lambda>b. b)) (file_bytes m' p)
      = map_option (revision (\<lambda>b. b)) (file_bytes m0 p)"
    by (rule failed_batch_restores [OF run]) (simp_all add: write_failed_reply_def tool_error_def)
  then have "map_option (revision (\<lambda>b. b)) (file_bytes m' [u ''f''])
      = map_option (revision (\<lambda>b. b)) (file_bytes sample_files [u ''f''])" by auto
  then show ?thesis by (simp add: run) (simp add: sample_files_def file_bytes_def revision_def)
qed

text \<open>A batch that is written takes every file from the revision it was planned for to the planned one:
  each planned file had its recorded revision at the re-check, which is the one the caller expected where
  the caller named one, and has its planned revision afterwards; all other files keep their bytes.\<close>
theorem written_batch_effect:
  assumes "replace_files sha lk rx others fate ops False max_replacements m = (m', Reply d)"
    and "map_of d ''success'' = Some (JBool True)" and "group_operations ops [] = Inr grouped"
    and "plan_files sha lk rx (nat max_replacements) m (sort_key (\<lambda>(p, op). path_text p) grouped) = Inr plans"
  shows "(\<forall>pl \<in> set plans. has_revision sha (others m) (pl_path pl) (pl_before_revision pl) \<and>
       has_revision sha m' (pl_path pl) (pl_after_revision pl)) \<and>
    (\<forall>(p, op) \<in> set grouped. \<forall>r. ro_revision op = Some r \<longrightarrow> has_revision sha m p r) \<and>
    (\<forall>q. q \<notin> pl_path ` set plans \<longrightarrow> file_bytes m' q = file_bytes (others m) q)"
proof -
  let ?m1 = "others m" and ?gs = "sort_key (\<lambda>(p, op). path_text p) grouped"
  let ?bad = "\<lambda>pl. \<not> has_revision sha ?m1 (pl_path pl) (pl_before_revision pl)"
  have pre: "ops \<noteq> []" "\<not> max_replacements \<le> 0"
    using assms(1,2) by (auto simp: replace_files_def tool_error_def split: if_splits)
  have ok: "find ?bad plans = None"
    using assms pre by (auto simp: replace_files_def Let_def tool_error_def split: if_splits option.splits)
  then have all: "\<forall>pl \<in> set plans. has_revision sha ?m1 (pl_path pl) (pl_before_revision pl)"
    by (simp add: find_None_iff)
  obtain m2 att n fin where c: "commit_plans sha fate plans 0 [] ?m1 = (m2, att, n, fin)"
    by (metis prod_cases4)
  have "fin"
  proof (rule ccontr)
    assume "\<not> fin"
    with assms pre ok c obtain errors where "d = write_failed_reply errors"
      by (auto simp: replace_files_def Let_def case_prod_unfold split: if_splits)
    with assms(2) show False by (simp add: write_failed_reply_def tool_error_def)
  qed
  with c have c: "commit_plans sha fate plans 0 [] ?m1 = (m2, att, n, True)" by simp
  with assms pre ok have m': "m2 = m'" by (auto simp: replace_files_def Let_def split: if_splits)
  note c = c [unfolded m']
  have "distinct (map fst ?gs)"
    using group_operations_distinct [OF assms(3)] by (simp add: distinct_keys_sort)
  then have dp: "distinct (map pl_path plans)" by (simp only: plan_files_facts(1) [OF assms(4)])
  from commit_plans_frame [OF c] have sub: "set att \<subseteq> {pl \<in> set plans. pl_before pl \<noteq> pl_after pl}"
    and frame: "\<And>q. q \<notin> pl_path ` set att \<Longrightarrow> file_bytes m' q = file_bytes ?m1 q" by auto
  have "has_revision sha m' (pl_path pl) (pl_after_revision pl)" if pl: "pl \<in> set plans" for pl
  proof (cases "pl_before pl = pl_after pl")
    case True
    have "pl_path pl \<notin> pl_path ` set att"
      using sub pl True dp by (auto simp: distinct_map inj_on_def)
    with frame have "file_bytes m' (pl_path pl) = file_bytes ?m1 (pl_path pl)" by blast
    moreover have "pl_after_revision pl = pl_before_revision pl"
      using plan_files_facts(2) [OF assms(4) pl] True by simp
    ultimately show ?thesis using all pl by (simp add: has_revision_def)
  next
    case False
    from commit_plans_done [OF c dp pl False] show ?thesis .
  qed
  moreover have "has_revision sha m p r" if "(p, op) \<in> set grouped" "ro_revision op = Some r" for p op r
    using plan_files_facts(3) [OF assms(4), of p op r] that by simp
  ultimately show ?thesis using all frame sub by blast
qed

theorem written_batch_effect_witness:
  "\<exists>m'. fst (replace_files (\<lambda>b. b) plain_registry no_regex id (\<lambda>_. Works) sample_batch False 9 sample_files) = m' \<and>
     has_revision (\<lambda>b. b) m' [u ''f''] (hexdigest [98, 98, 98])"
proof -
  from sample_commit_run obtain m' d where run: "replace_files (\<lambda>b. b) plain_registry no_regex id (\<lambda>_. Works)
      sample_batch False 9 sample_files = (m', Reply d)" "map_of d ''success'' = Some (JBool True)" by blast
  have "plan_files (\<lambda>b. b) plain_registry no_regex (nat 9) sample_files
      (sort_key (\<lambda>(p, op). path_text p) sample_groups) = Inr [plan_f, plan_g]"
    using sample_sorted sample_replace_plans by simp
  from written_batch_effect [OF run sample_group this] show ?thesis by (simp add: run plan_f_def)
qed

text \<open>A batch never makes more replacements than \<^verbatim>\<open>max_replacements\<close>, summed over all its files, given
  that the regular-expression engine reports its substitutions as \<^verbatim>\<open>re\<close> documents.\<close>
theorem replacements_within_budget:
  assumes "subn_counts rx"
    and "plan_files sha lk rx budget m gs = Inr plans"
  shows "sum_list (map pl_replacements plans) \<le> budget"
  by (rule plan_files_budget [OF assms])

theorem replacements_within_budget_witness:
  "sum_list (map pl_replacements [plan_f, plan_g]) \<le> 9"
proof (rule replacements_within_budget [OF _ sample_replace_plans])
  show "subn_counts no_regex" by (simp add: subn_counts_def no_regex_def)
qed

text \<open>Decoding is lossless: for a codec that encodes back what it decodes, the text of a decoded file,
  encoded again with its BOM, gives exactly the bytes of the file.\<close>
theorem decode_encode_lossless:
  assumes "decode_text_bytes lk raw encoding = Inr d" and "lk (dt_encoding d) = Some c"
    and "\<And>b s. cd_decode c b = Some s \<Longrightarrow> cd_encode c s = Some b"
  shows "encode_text_bytes lk d (dt_text d) = Some raw"
proof (cases "find_bom raw")
  case None
  with assms show ?thesis
    by (auto simp: decode_text_bytes_def encode_text_bytes_def Let_def split: sum.splits option.splits if_splits)
next
  case (Some b)
  obtain marker be name where b: "b = (marker, be, name)" by (metis prod_cases3)
  from find_bom_prefix [OF Some [unfolded b]] have r: "marker @ drop (length marker) raw = raw" by simp
  from assms(1) Some b obtain c' t where c': "lk (dt_encoding d) = Some c'"
    "cd_decode c' (drop (length marker) raw) = Some t" "dt_text d = t" "dt_bom_bytes d = marker"
    by (auto simp: decode_text_bytes_def Let_def split: sum.splits option.splits if_splits)
  with assms(2,3) r show ?thesis by (simp add: encode_text_bytes_def)
qed

theorem decode_encode_lossless_witness:
  "\<exists>d. decode_text_bytes plain_registry [0xEF, 0xBB, 0xBF, 97] None = Inr d \<and>
     encode_text_bytes plain_registry d (dt_text d) = Some [0xEF, 0xBB, 0xBF, 97]"
proof -
  have "\<exists>d. decode_text_bytes plain_registry [0xEF, 0xBB, 0xBF, 97] None = Inr d \<and> dt_encoding d = u ''utf-8''"
    by (simp add: replace_eval)
  then obtain d where d: "decode_text_bytes plain_registry [0xEF, 0xBB, 0xBF, 97] None = Inr d"
    "dt_encoding d = u ''utf-8''" by blast
  have "plain_registry (dt_encoding d) = Some utf8_codec" by (simp add: d plain_registry_def)
  from decode_encode_lossless [OF d(1) this] d(1) show ?thesis by (auto simp: utf8_codec_def utf8.enc_dec)
qed

text \<open>An explicit encoding named by the canonical name that Python's registry gives it, "utf-16-le", is
  rejected for a file with the BOM of that very encoding, because the table of BOMs spells it "utf-16le".\<close>
theorem explicit_utf16_rejected:
  assumes "lk name = Some c" and "cd_name c = u ''utf-16-le''"
    and "startswith raw [0xFF, 0xFE]" and "\<not> startswith raw [0xFF, 0xFE, 0, 0]"
  shows "decode_text_bytes lk raw (Some name) = Inl (TextDecodingError (BomConflict name (u ''utf-16le'')) [])"
proof -
  have b: "find_bom raw = Some ([0xFF, 0xFE], u ''utf-16le'', u ''utf-16le'')"
    using assms(3,4) by (auto simp: find_bom_def boms_def startswith_iff)
  show ?thesis
    by (simp add: decode_text_bytes_def b effective_encoding_def canonical_encoding_def assms(1,2)
        compatible_encodings_def startswith_def)
qed

theorem explicit_utf16_rejected_witness:
  "decode_text_bytes (\<lambda>_. Some \<lparr>cd_name = u ''utf-16-le'', cd_decode = (\<lambda>_. Some []), cd_encode = (\<lambda>_. Some [])\<rparr>)
     [0xFF, 0xFE, 97, 0] (Some (u ''utf-16le'')) = Inl (TextDecodingError (BomConflict (u ''utf-16le'') (u ''utf-16le'')) [])"
  by (rule explicit_utf16_rejected [OF refl]) (simp_all add: startswith_def)

end
