(* ===== verification/Budget.thy ===== *)
theory Budget
  imports Json
begin

text \<open>
  Token-aware response budgets: \<^verbatim>\<open>src/chatgpt_web_oauth_mcp/response_budget.py\<close>.

  The tokenizer is the third-party library \<^verbatim>\<open>tiktoken\<close>; the model takes \<open>tok :: ustr \<Rightarrow> nat\<close>, the
  number of tokens of a text, as an argument of every definition that measures. Nothing is
  assumed of it. A budget value that a caller or an environment variable supplies is a \<open>pyval\<close>.
\<close>

section \<open>Parsing and validating budget values\<close>

datatype pyval = PyInt int | PyBool bool | PyStr ustr | PyOther

datatype budget_error = NotPositiveInteger string

definition is_digit :: "nat \<Rightarrow> bool" where
  "is_digit c \<longleftrightarrow> 48 \<le> c \<and> c \<le> 57"

text \<open>The digits of an integer literal: single underscores may separate digits.\<close>

fun digits_value :: "nat \<Rightarrow> bool \<Rightarrow> ustr \<Rightarrow> nat option" where
  "digits_value acc seen [] = (if seen then Some acc else None)"
| "digits_value acc seen (c # cs) =
     (if is_digit c then digits_value (10 * acc + (c - 48)) True cs
      else if c = 95 \<and> seen \<and> cs \<noteq> [] then digits_value acc False cs
      else None)"

text \<open>\<^verbatim>\<open>int(text)\<close> for a decimal literal in ASCII digits.\<close>

definition int_of_text :: "ustr \<Rightarrow> int option" where
  "int_of_text s =
     (case strip s of
        [] \<Rightarrow> None
      | c # cs \<Rightarrow>
          if c = 45 then map_option (\<lambda>n. - int n) (digits_value 0 False cs)
          else if c = 43 then map_option int (digits_value 0 False cs)
          else map_option int (digits_value 0 False (c # cs)))"

fun int_of_pyval :: "pyval \<Rightarrow> int option" where
  "int_of_pyval (PyInt i) = Some i"
| "int_of_pyval (PyBool b) = Some (if b then 1 else 0)"
| "int_of_pyval (PyStr s) = int_of_text s"
| "int_of_pyval PyOther = None"

definition validate_token_budget :: "pyval \<Rightarrow> string \<Rightarrow> budget_error + int" where
  "validate_token_budget value name =
     (case int_of_pyval value of
        None \<Rightarrow> Inl (NotPositiveInteger name)
      | Some parsed \<Rightarrow> if parsed \<le> 0 then Inl (NotPositiveInteger name) else Inr parsed)"

definition resolve_token_budget ::
  "pyval \<Rightarrow> pyval option \<Rightarrow> string \<Rightarrow> string \<Rightarrow> budget_error + int" where
  "resolve_token_budget global_budget tool_budget global_name tool_name =
     (case validate_token_budget global_budget global_name of
        Inl e \<Rightarrow> Inl e
      | Inr validated_global \<Rightarrow>
          (case tool_budget of
             None \<Rightarrow> Inr validated_global
           | Some t \<Rightarrow> validate_token_budget t tool_name))"

section \<open>Measuring\<close>

record budget_measurement =
  rendered_bytes :: nat
  estimated_tokens :: nat
  exceeds_byte_budget :: bool
  exceeds_token_budget :: bool

definition fits :: "budget_measurement \<Rightarrow> bool" where
  "fits m \<longleftrightarrow> \<not> exceeds_byte_budget m \<and> \<not> exceeds_token_budget m"

definition measurement_stop_reason :: "budget_measurement \<Rightarrow> string option" where
  "measurement_stop_reason m =
     (if exceeds_byte_budget m \<and> exceeds_token_budget m then Some ''byte_and_token_budget''
      else if exceeds_byte_budget m then Some ''byte_budget''
      else if exceeds_token_budget m then Some ''token_budget''
      else None)"

record response_budget =
  max_tokens :: int
  max_bytes :: "int option"

definition make_budget :: "pyval \<Rightarrow> pyval option \<Rightarrow> budget_error + response_budget" where
  "make_budget tokens bytes =
     (case validate_token_budget tokens ''max_tokens'' of
        Inl e \<Rightarrow> Inl e
      | Inr t \<Rightarrow>
          (case bytes of
             None \<Rightarrow> Inr \<lparr>max_tokens = t, max_bytes = None\<rparr>
           | Some b \<Rightarrow>
               (case int_of_pyval b of
                  None \<Rightarrow> Inl (NotPositiveInteger ''max_bytes'')
                | Some n \<Rightarrow>
                    if n \<le> 0 then Inl (NotPositiveInteger ''max_bytes'')
                    else Inr \<lparr>max_tokens = t, max_bytes = Some n\<rparr>)))"

definition measure_text :: "(ustr \<Rightarrow> nat) \<Rightarrow> response_budget \<Rightarrow> ustr \<Rightarrow> budget_measurement" where
  "measure_text tok b s =
     \<lparr>rendered_bytes = utf8_len s,
      estimated_tokens = tok s,
      exceeds_byte_budget =
        (case max_bytes b of None \<Rightarrow> False | Some n \<Rightarrow> int (utf8_len s) > n),
      exceeds_token_budget = int (tok s) > max_tokens b\<rparr>"

definition measure_json_payload :: "(ustr \<Rightarrow> nat) \<Rightarrow> dict \<Rightarrow> response_budget \<Rightarrow> budget_measurement" where
  "measure_json_payload tok payload b = measure_text tok b (json_render (JObj payload))"

lemma fits_measure_text:
  "fits (measure_text tok b s) \<longleftrightarrow>
     int (tok s) \<le> max_tokens b \<and> (\<forall>n. max_bytes b = Some n \<longrightarrow> int (utf8_len s) \<le> n)"
  by (auto simp: fits_def measure_text_def split: option.splits)

lemma measurement_stop_reason_None: "measurement_stop_reason m = None \<longleftrightarrow> fits m"
  by (simp add: measurement_stop_reason_def fits_def)

section \<open>The response contract\<close>

definition budget_fields :: "dict \<Rightarrow> response_budget \<Rightarrow> bool \<Rightarrow> string \<Rightarrow> dict" where
  "budget_fields payload b truncated stop_reason =
     dict_update (AList.delete ''budget_exceeded'' payload)
       [(''complete'', JBool (\<not> truncated)),
        (''partial'', JBool truncated),
        (''truncated'', JBool truncated),
        (''stop_reason'', jlit stop_reason),
        (''estimated_tokens'', JInt 0),
        (''effective_budget'',
           JObj [(''tokens'', JInt (max_tokens b)),
                 (''bytes'', jopt JInt (max_bytes b)),
                 (''token_encoding'', jlit ''o200k_base'')])]"

text \<open>
  The two loops of five rounds. The first measures after each update of \<^verbatim>\<open>estimated_tokens\<close>, the
  second before it.
\<close>

fun settle :: "(ustr \<Rightarrow> nat) \<Rightarrow> response_budget \<Rightarrow> nat \<Rightarrow> dict \<Rightarrow> budget_measurement
    \<Rightarrow> dict \<times> budget_measurement" where
  "settle tok b 0 result m = (result, m)"
| "settle tok b (Suc n) result m =
     (if map_of result ''estimated_tokens'' = Some (jnat (estimated_tokens m)) then (result, m)
      else
        let result' = AList.update ''estimated_tokens'' (jnat (estimated_tokens m)) result
        in settle tok b n result' (measure_json_payload tok result' b))"

fun resettle :: "(ustr \<Rightarrow> nat) \<Rightarrow> response_budget \<Rightarrow> nat \<Rightarrow> dict \<Rightarrow> budget_measurement
    \<Rightarrow> dict \<times> budget_measurement" where
  "resettle tok b 0 result m = (result, m)"
| "resettle tok b (Suc n) result m =
     (let m' = measure_json_payload tok result b
      in if map_of result ''estimated_tokens'' = Some (jnat (estimated_tokens m')) then (result, m')
         else resettle tok b n
                (AList.update ''estimated_tokens'' (jnat (estimated_tokens m')) result) m')"

definition exceeded_fields :: "bool \<Rightarrow> budget_measurement \<Rightarrow> dict \<Rightarrow> dict" where
  "exceeded_fields truncated m result =
     dict_update result
       ([(''complete'', JBool False), (''partial'', JBool True), (''truncated'', JBool True)]
        @ (if truncated then [] else [(''stop_reason'', jlit ''response_metadata_exceeds_budget'')])
        @ [(''budget_exceeded'',
             JObj [(''tokens'', JBool (exceeds_token_budget m)),
                   (''bytes'', JBool (exceeds_byte_budget m))])])"

definition with_budget_metadata ::
  "(ustr \<Rightarrow> nat) \<Rightarrow> dict \<Rightarrow> response_budget \<Rightarrow> bool \<Rightarrow> string \<Rightarrow> dict \<times> budget_measurement" where
  "with_budget_metadata tok payload b truncated stop_reason =
     (let result = budget_fields payload b truncated stop_reason;
          (result, m) = settle tok b 5 result (measure_json_payload tok result b)
      in if fits m then (result, m) else resettle tok b 5 (exceeded_fields truncated m result) m)"

section \<open>What the loops keep\<close>

text \<open>Only \<^verbatim>\<open>estimated_tokens\<close> changes, and the first loop's measurement is that of its result.\<close>

lemma settle_other:
  "settle tok b n r m = (r', m') \<Longrightarrow> k \<noteq> ''estimated_tokens'' \<Longrightarrow> map_of r' k = map_of r k"
  by (induction tok b n r m rule: settle.induct)
    (auto simp: Let_def dict_simps split: if_splits)

lemma resettle_other:
  "resettle tok b n r m = (r', m') \<Longrightarrow> k \<noteq> ''estimated_tokens'' \<Longrightarrow> map_of r' k = map_of r k"
  by (induction tok b n r m rule: resettle.induct)
    (auto simp: Let_def dict_simps split: if_splits)

lemma settle_measures:
  "settle tok b n r m = (r', m') \<Longrightarrow> m = measure_json_payload tok r b
   \<Longrightarrow> m' = measure_json_payload tok r' b"
  by (induction tok b n r m rule: settle.induct) (auto simp: Let_def split: if_splits)

lemma budget_fields_lookup [dict_simps]:
  "map_of (budget_fields p b t s) k =
     (if k = ''complete'' then Some (JBool (\<not> t))
      else if k = ''partial'' \<or> k = ''truncated'' then Some (JBool t)
      else if k = ''stop_reason'' then Some (jlit s)
      else if k = ''estimated_tokens'' then Some (JInt 0)
      else if k = ''effective_budget'' then
        Some (JObj [(''tokens'', JInt (max_tokens b)), (''bytes'', jopt JInt (max_bytes b)),
                    (''token_encoding'', jlit ''o200k_base'')])
      else if k = ''budget_exceeded'' then None
      else map_of p k)"
  by (auto simp: budget_fields_def dict_simps)

lemma exceeded_fields_lookup [dict_simps]:
  "map_of (exceeded_fields t m r) k =
     (if k = ''complete'' then Some (JBool False)
      else if k = ''partial'' \<or> k = ''truncated'' then Some (JBool True)
      else if k = ''stop_reason'' \<and> \<not> t then Some (jlit ''response_metadata_exceeds_budget'')
      else if k = ''budget_exceeded'' then
        Some (JObj [(''tokens'', JBool (exceeds_token_budget m)), (''bytes'', JBool (exceeds_byte_budget m))])
      else map_of r k)"
  by (auto simp: exceeded_fields_def dict_simps)

text \<open>The two outcomes of \<^verbatim>\<open>with_budget_metadata\<close>.\<close>

lemma with_budget_metadata_cases:
  assumes "with_budget_metadata tok p b t s = (r, m)"
  obtains (fitting) "m = measure_json_payload tok r b" "fits m"
      "\<And>k. k \<noteq> ''estimated_tokens'' \<Longrightarrow> map_of r k = map_of (budget_fields p b t s) k"
  | (exceeded) m1 r1 where "\<not> fits m1" "m1 = measure_json_payload tok r1 b"
      "\<And>k. k \<noteq> ''estimated_tokens'' \<Longrightarrow> map_of r1 k = map_of (budget_fields p b t s) k"
      "\<And>k. k \<noteq> ''estimated_tokens'' \<Longrightarrow> map_of r k = map_of (exceeded_fields t m1 r1) k"
proof -
  obtain r1 m1 where s1: "settle tok b 5 (budget_fields p b t s)
      (measure_json_payload tok (budget_fields p b t s) b) = (r1, m1)" by fastforce
  have m1: "m1 = measure_json_payload tok r1 b" by (rule settle_measures [OF s1 refl])
  note other = settle_other [OF s1]
  show thesis
  proof (cases "fits m1")
    case True
    with assms s1 have "r = r1" "m = m1" by (simp_all add: with_budget_metadata_def)
    with True m1 other show thesis by (auto intro: fitting)
  next
    case False
    with assms s1 have "resettle tok b 5 (exceeded_fields t m1 r1) m1 = (r, m)"
      by (simp add: with_budget_metadata_def)
    from resettle_other [OF this] False m1 other show thesis by (auto intro: exceeded)
  qed
qed

text \<open>The payload's own fields survive.\<close>

lemma with_budget_metadata_other:
  assumes "with_budget_metadata tok p b t s = (r, m)"
    and "k \<notin> {''complete'', ''partial'', ''truncated'', ''stop_reason'', ''estimated_tokens'', ''effective_budget'', ''budget_exceeded''}"
  shows "map_of r k = map_of p k"
  using assms(1)
proof (cases rule: with_budget_metadata_cases)
  case fitting
  with assms(2) show ?thesis by (simp add: budget_fields_lookup)
next
  case (exceeded m1 r1)
  with assms(2) show ?thesis by (simp add: budget_fields_lookup exceeded_fields_lookup)
qed

lemma with_budget_metadata_fits:
  assumes "\<And>d. fits (measure_json_payload tok d b)"
  shows "fits (snd (with_budget_metadata tok p b t s))"
proof -
  obtain r m where w: "with_budget_metadata tok p b t s = (r, m)" by fastforce
  then have "fits m" by (cases rule: with_budget_metadata_cases) (use assms in auto)
  with w show ?thesis by simp
qed

text \<open>What every caller uses: a measurement that fits after truncated content was attached.\<close>

definition attached_fits :: "(ustr \<Rightarrow> nat) \<Rightarrow> response_budget \<Rightarrow> dict \<Rightarrow> string \<Rightarrow> bool" where
  "attached_fits tok b candidate reason \<longleftrightarrow> fits (snd (with_budget_metadata tok candidate b True reason))"

end
