(* ===== verification/JobOutput.thy ===== *)
theory JobOutput
  imports Budget Utf8
begin

text \<open>
  Reading a job's log in pages: \<^verbatim>\<open>_decode_utf8_units\<close>, \<^verbatim>\<open>_render_job_output\<close>,
  \<^verbatim>\<open>_job_output_stop_reason\<close> and \<^verbatim>\<open>JobRegistry.output_job\<close> in \<^verbatim>\<open>src/chatgpt_web_oauth_mcp/shell.py\<close>.
  What the job registry and the log file give the call (the loaded record, the size and bytes of the
  log at the points where the code looks) are arguments.
\<close>

section \<open>Units\<close>

definition utf8_expected_length :: "nat \<Rightarrow> nat option" where
  "utf8_expected_length first =
     (if first \<le> 0x7F then Some 1
      else if 0xC2 \<le> first \<and> first \<le> 0xDF then Some 2
      else if 0xE0 \<le> first \<and> first \<le> 0xEF then Some 3
      else if 0xF0 \<le> first \<and> first \<le> 0xF4 then Some 4
      else None)"

text \<open>\<^verbatim>\<open>_utf8_prefix_is_valid(data, start, expected)\<close> on \<^verbatim>\<open>data[start:]\<close>.\<close>

definition utf8_prefix_is_valid :: "bytes \<Rightarrow> nat \<Rightarrow> bool" where
  "utf8_prefix_is_valid data expected =
     (let available = min expected (length data) in
      if available \<le> 1 then True
      else second_ok (data ! 0) (data ! 1) \<and> list_all is_cont (drop 2 (take available data)))"

text \<open>The unit at the start of the data: its length, text and whether it is a replacement; \<open>None\<close> stops.\<close>

definition next_unit :: "bool \<Rightarrow> bytes \<Rightarrow> (nat \<times> ustr \<times> bool) option" where
  "next_unit final data =
     (case utf8_expected_length (hd data) of
        None \<Rightarrow> Some (1, [0xFFFD], True)
      | Some e \<Rightarrow>
          if length data < e then
            (if utf8_prefix_is_valid data e \<and> \<not> final then None else Some (1, [0xFFFD], True))
          else if \<not> utf8_prefix_is_valid data e then Some (1, [0xFFFD], True)
          else Some (e, [utf8_unit_value (take e data)], False))"

lemma expected_pos: "utf8_expected_length b = Some e \<Longrightarrow> 1 \<le> e \<and> e \<le> 4"
  by (auto simp: utf8_expected_length_def split: if_splits)

lemma next_unit_length: "next_unit final data = Some (n, t, r) \<Longrightarrow> data \<noteq> [] \<Longrightarrow> 1 \<le> n \<and> n \<le> length data"
  by (cases data) (auto simp: next_unit_def split: option.splits if_splits dest: expected_pos)

function decode_utf8_units :: "bool \<Rightarrow> bytes \<Rightarrow> (bytes \<times> ustr \<times> bool) list \<times> nat" where
  "decode_utf8_units final data =
     (if data = [] then ([], 0)
      else case next_unit final data of
          None \<Rightarrow> ([], length data)
        | Some (n, t, r) \<Rightarrow>
            (let (units, left) = decode_utf8_units final (drop n data) in ((take n data, t, r) # units, left)))"
  by auto

termination
  by (relation "measure (\<lambda>(final, data). length data)")
     (auto dest!: sym [of "Some _"] next_unit_length)

declare decode_utf8_units.simps [simp del]

lemma decode_Nil [simp]: "decode_utf8_units final [] = ([], 0)"
  by (simp add: decode_utf8_units.simps)

section \<open>One page\<close>

record job_rendering =
  jr_content :: ustr
  jr_bytes_returned :: nat
  jr_estimated_tokens :: nat
  jr_replacement_count :: nat
  jr_incomplete_trailing_bytes :: nat
  jr_next_unit_bytes_required :: "nat option"
  jr_oversized_unit :: bool
  jr_token_truncated :: bool

definition unit_text :: "(bytes \<times> ustr \<times> bool) list \<Rightarrow> ustr" where
  "unit_text us = concat (map (\<lambda>(w, t, r). t) us)"

definition unit_bytes :: "(bytes \<times> ustr \<times> bool) list \<Rightarrow> nat" where
  "unit_bytes us = sum_list (map (\<lambda>(w, t, r). length w) us)"

definition render_job_output ::
  "(ustr \<Rightarrow> nat) \<Rightarrow> response_budget \<Rightarrow> bool \<Rightarrow> bytes \<Rightarrow> job_rendering" where
  "render_job_output tok b final raw =
     (let (units, left) = decode_utf8_units final raw;
          page = greedy (\<lambda>us. fits (measure_text tok b (unit_text us))) [] units;
          oversized = (page = [] \<and> units \<noteq> []);
          shown = (if oversized then take 1 units else page) in
      \<lparr>jr_content = unit_text shown,
       jr_bytes_returned = unit_bytes shown,
       jr_estimated_tokens = tok (unit_text shown),
       jr_replacement_count = length (filter (\<lambda>(w, t, r). r) shown),
       jr_incomplete_trailing_bytes = (if unit_bytes shown = unit_bytes units then left else 0),
       jr_next_unit_bytes_required =
         (if left = 0 then None else utf8_expected_length (raw ! (length raw - left))),
       jr_oversized_unit = oversized,
       jr_token_truncated = (length page < length units)\<rparr>)"

definition job_output_stop_reason ::
  "job_rendering \<Rightarrow> nat \<Rightarrow> nat \<Rightarrow> bool \<Rightarrow> bool \<Rightarrow> bool \<Rightarrow> nat \<Rightarrow> nat \<Rightarrow> string" where
  "job_output_stop_reason r raw_bytes requested_max_bytes has_more caught_up terminal wait_ms waited_ms =
     (if jr_oversized_unit r then ''oversized_unit''
      else if jr_token_truncated r then ''token_budget''
      else if jr_incomplete_trailing_bytes r \<noteq> 0 then
        (if requested_max_bytes \<le> raw_bytes then ''byte_budget_before_utf8_unit'' else ''incomplete_utf8'')
      else if has_more \<and> requested_max_bytes \<le> raw_bytes then ''byte_budget''
      else if has_more then ''byte_budget''
      else if terminal \<and> caught_up then ''end_of_stream''
      else if 0 < wait_ms \<and> wait_ms \<le> waited_ms then ''wait_timeout''
      else ''caught_up_nonterminal'')"

section \<open>output_job\<close>

text \<open>What is read at a cursor: the bytes, and the rendering of the page.\<close>

definition job_raw :: "bytes \<Rightarrow> nat \<Rightarrow> nat \<Rightarrow> bytes" where
  "job_raw log cursor maxb = take (min maxb (length log - cursor)) (drop cursor log)"

definition job_page ::
  "(ustr \<Rightarrow> nat) \<Rightarrow> response_budget \<Rightarrow> bool \<Rightarrow> bytes \<Rightarrow> nat \<Rightarrow> nat \<Rightarrow> job_rendering" where
  "job_page tok b terminal log cursor maxb =
     (let raw = job_raw log cursor maxb in
      render_job_output tok b (terminal \<and> length log \<le> cursor + length raw) raw)"

definition max_job_output_bytes :: int where
  "max_job_output_bytes = 262144"

definition job_error :: "string \<Rightarrow> ustr \<Rightarrow> dict \<Rightarrow> dict" where
  "job_error code message extra = tool_error code message extra"

definition invalid_cursor_error :: "ustr \<Rightarrow> string \<Rightarrow> nat \<Rightarrow> nat \<Rightarrow> dict" where
  "invalid_cursor_error job_id stream cursor file_size =
     job_error ''invalid_cursor'' (u ''cursor is beyond the current selected log size.'')
       [(''job_id'', JStr job_id), (''stream'', jlit stream), (''cursor'', jnat cursor),
        (''file_size'', jnat file_size)]"

definition int_arg :: "json \<Rightarrow> int \<Rightarrow> int option \<Rightarrow> int option" where
  "int_arg j lo hi =
     (case j of
        JInt i \<Rightarrow> if lo \<le> i \<and> (case hi of None \<Rightarrow> True | Some h \<Rightarrow> i \<le> h) then Some i else None
      | _ \<Rightarrow> None)"

text \<open>
  \<open>loaded\<close> is the error of loading the record or opening the log, or what the call saw: the size of
  the log when it was opened and when it was read, its bytes at the end of the call, the status
  payload of the last refresh and whether its status is terminal, and the time waited (the loop that
  polls while the log is exhausted only chooses when the last two are taken).
\<close>

record job_observation =
  ob_status :: dict
  ob_first_size :: nat
  ob_read_size :: nat
  ob_log :: bytes
  ob_terminal :: bool
  ob_waited_ms :: nat
  ob_log_path :: ustr

definition job_output_payload ::
  "(ustr \<Rightarrow> nat) \<Rightarrow> response_budget \<Rightarrow> string \<Rightarrow> nat \<Rightarrow> nat \<Rightarrow> nat \<Rightarrow> job_observation \<Rightarrow> dict" where
  "job_output_payload tok b stream cursor maxb wait_ms ob =
     (let log = ob_log ob;
          raw = job_raw (take (ob_read_size ob) log) cursor maxb;
          r = render_job_output tok b (ob_terminal ob \<and> length log \<le> cursor + length raw) raw;
          next_cursor = cursor + jr_bytes_returned r;
          has_more = next_cursor < length log;
          caught_up = (next_cursor = length log)
      in dict_update (ob_status ob)
                 [(''success'', JBool True), (''stream'', jlit stream), (''log_path'', JStr (ob_log_path ob)),
                  (''content'', JStr (jr_content r)), (''cursor'', jnat cursor), (''next_cursor'', jnat next_cursor),
                  (''bytes_returned'', jnat (jr_bytes_returned r)), (''file_size'', jnat (length log)),
                  (''has_more'', JBool has_more), (''caught_up'', JBool caught_up),
                  (''eof'', JBool (caught_up \<and> ob_terminal ob)), (''waited_ms'', jnat (ob_waited_ms ob)),
                  (''truncated'', JBool has_more),
                  (''stop_reason'', jlit (job_output_stop_reason r (length raw) maxb has_more caught_up
                     (ob_terminal ob) wait_ms (ob_waited_ms ob))),
                  (''estimated_tokens'', jnat (jr_estimated_tokens r)),
                  (''effective_budgets'', JObj [(''bytes'', jnat maxb), (''tokens'', JInt (max_tokens b))]),
                  (''encoding'', jlit ''utf-8''), (''token_encoding'', jlit ''o200k_base''),
                  (''decoding'', JObj
                     [(''valid_utf8'', JBool (jr_replacement_count r = 0)),
                      (''errors'', jlit (if jr_replacement_count r \<noteq> 0 then ''replace'' else ''strict'')),
                      (''replacement_count'', jnat (jr_replacement_count r)),
                      (''replacement_used'', JBool (0 < jr_replacement_count r)),
                      (''incomplete_trailing_bytes'', jnat (jr_incomplete_trailing_bytes r)),
                      (''next_unit_bytes_required'', jopt jnat (jr_next_unit_bytes_required r))]),
                  (''minimum_max_bytes_for_progress'',
                     if jr_bytes_returned r = 0 \<and> jr_incomplete_trailing_bytes r \<noteq> 0
                     then jopt jnat (jr_next_unit_bytes_required r) else JNull),
                  (''oversized_unit'', JBool (jr_oversized_unit r)),
                  (''oversized_unit_marker'',
                     if jr_oversized_unit r then jlit ''first_complete_unit_exceeds_token_budget'' else JNull)])"

definition output_job ::
  "(ustr \<Rightarrow> nat) \<Rightarrow> response_budget \<Rightarrow> ustr \<Rightarrow> string \<Rightarrow> json \<Rightarrow> json \<Rightarrow> json \<Rightarrow> dict + job_observation \<Rightarrow> dict" where
  "output_job tok b job_id stream cursor_arg max_bytes_arg wait_arg loaded =
     (if stream \<noteq> ''stdout'' \<and> stream \<noteq> ''stderr''
        then job_error ''invalid_arguments'' (u ''stream must be one of: stdout, stderr.'') []
      else case int_arg cursor_arg 0 None of
        None \<Rightarrow> job_error ''invalid_arguments'' (u ''cursor must be an integer greater than or equal to 0.'') []
      | Some cur \<Rightarrow>
      case int_arg max_bytes_arg 1 (Some max_job_output_bytes) of
        None \<Rightarrow> job_error ''invalid_arguments'' (u ''max_bytes must be an integer between 1 and 262144.'') []
      | Some mb \<Rightarrow>
      case int_arg wait_arg 0 (Some 30000) of
        None \<Rightarrow> job_error ''invalid_arguments'' (u ''wait_ms must be an integer between 0 and 30000.'') []
      | Some wait \<Rightarrow>
      case loaded of
        Inl e \<Rightarrow> e
      | Inr ob \<Rightarrow>
          let cursor = nat cur; maxb = nat mb; log = ob_log ob in
          if ob_first_size ob < cursor then invalid_cursor_error job_id stream cursor (ob_first_size ob)
          else if ob_read_size ob < cursor then invalid_cursor_error job_id stream cursor (ob_read_size ob)
          else
            job_output_payload tok b stream cursor maxb (nat wait) ob)"

section \<open>Decoding in pieces\<close>

lemma prefix_valid_append:
  assumes "utf8_prefix_is_valid (p @ q) e"
  shows "utf8_prefix_is_valid p e"
proof (cases "min e (length p) \<le> 1")
  case False
  then have l: "2 \<le> length p" by simp
  define a a' where "a = min e (length p)" and "a' = min e (length (p @ q))"
  have a: "2 \<le> a" "a \<le> a'" "a \<le> length p" using False by (auto simp: a_def a'_def)
  have ta: "take a (take a' (p @ q)) = take a p" using a by (simp add: min_def)
  have "drop 2 (take a' (p @ q)) = drop 2 (take a p @ drop a (take a' (p @ q)))"
    using ta by (metis append_take_drop_id)
  then have sub: "drop 2 (take a' (p @ q)) = drop 2 (take a p) @ drop a (take a' (p @ q))"
    using a by simp
  have "list_all is_cont (drop 2 (take a' (p @ q)))" and "second_ok (p ! 0) (p ! 1)"
    using assms False l a by (auto simp: utf8_prefix_is_valid_def Let_def nth_append a'_def split: if_splits)
  then show ?thesis
    using sub by (simp only: utf8_prefix_is_valid_def Let_def a_def [symmetric] list_all_append) simp
qed (simp add: utf8_prefix_is_valid_def)

lemma prefix_valid_take:
  "e \<le> length p \<Longrightarrow> utf8_prefix_is_valid (p @ q) e = utf8_prefix_is_valid p e"
  by (cases "e \<le> 1") (auto simp: utf8_prefix_is_valid_def Let_def nth_append min_def)

lemma next_unit_extend:
  assumes "next_unit False p = Some v" "p \<noteq> []"
  shows "next_unit final (p @ q) = Some v"
proof (cases "utf8_expected_length (hd p)")
  case None
  with assms show ?thesis by (simp add: next_unit_def)
next
  case (Some e)
  show ?thesis
  proof (cases "length p < e")
    case True
    with assms Some have "\<not> utf8_prefix_is_valid p e" "v = (1, [0xFFFD], True)"
      by (simp_all add: next_unit_def split: if_splits)
    with Some assms(2) prefix_valid_append [of p q e] show ?thesis
      by (auto simp: next_unit_def)
  next
    case False
    with assms Some show ?thesis by (auto simp: next_unit_def prefix_valid_take split: if_splits)
  qed
qed

text \<open>The decoder, as two functions.\<close>

definition log_units :: "bool \<Rightarrow> bytes \<Rightarrow> (bytes \<times> ustr \<times> bool) list" where
  "log_units final data = fst (decode_utf8_units final data)"

definition log_left :: "bool \<Rightarrow> bytes \<Rightarrow> nat" where
  "log_left final data = snd (decode_utf8_units final data)"

lemma log_units_simps:
  "log_units final [] = []"
  "data \<noteq> [] \<Longrightarrow> next_unit final data = None \<Longrightarrow> log_units final data = []"
  "data \<noteq> [] \<Longrightarrow> next_unit final data = Some (n, t, r) \<Longrightarrow>
     log_units final data = (take n data, t, r) # log_units final (drop n data)"
  by (simp_all add: log_units_def decode_utf8_units.simps [of final data] case_prod_beta)

lemma log_left_simps:
  "log_left final [] = 0"
  "data \<noteq> [] \<Longrightarrow> next_unit final data = None \<Longrightarrow> log_left final data = length data"
  "data \<noteq> [] \<Longrightarrow> next_unit final data = Some (n, t, r) \<Longrightarrow> log_left final data = log_left final (drop n data)"
  by (simp_all add: log_left_def decode_utf8_units.simps [of final data] case_prod_beta)

text \<open>Cases of the loop: the end, an incomplete unit, a unit.\<close>

lemma log_induct [case_names Nil Stop Unit]:
  assumes "P []"
    and "\<And>data. data \<noteq> [] \<Longrightarrow> next_unit final data = None \<Longrightarrow> P data"
    and "\<And>data n t r. data \<noteq> [] \<Longrightarrow> next_unit final data = Some (n, t, r) \<Longrightarrow> 1 \<le> n \<Longrightarrow> n \<le> length data
      \<Longrightarrow> P (drop n data) \<Longrightarrow> P data"
  shows "P data"
proof (induction data rule: length_induct)
  case (1 data)
  show ?case
  proof (cases "data = []")
    case False
    show ?thesis
    proof (cases "next_unit final data")
      case (Some x)
      obtain n t r where x: "x = (n, t, r)" by (cases x)
      have "1 \<le> n" "n \<le> length data" using next_unit_length [of final data n t r] Some x False by auto
      moreover from this False have "P (drop n data)" using 1 by (auto simp: Suc_le_eq)
      ultimately show ?thesis using assms(3) Some x False by blast
    qed (use assms(2) False in blast)
  qed (use assms(1) in simp)
qed

lemma next_unit_final: "next_unit True data \<noteq> None"
  by (auto simp: next_unit_def split: option.splits)

lemma next_unit_stops:
  "next_unit final data = None \<Longrightarrow> \<not> final \<and> length data < 4"
  using expected_pos [of "hd data"] by (auto simp: next_unit_def split: option.splits if_splits)

lemma log_units_lossless:
  "concat (map fst (log_units final data)) @ drop (length data - log_left final data) data = data
   \<and> log_left final data \<le> length data \<and> log_left final data < 4 \<and> (final \<longrightarrow> log_left final data = 0)"
proof (induction data rule: log_induct [of _ final])
  case (Stop data)
  then show ?case using next_unit_stops [of final data] by (simp add: log_units_simps log_left_simps)
next
  case (Unit data n t r)
  let ?l = "log_left final data"
  have l: "?l = log_left final (drop n data)" using Unit by (simp add: log_left_simps)
  have "drop (length data - ?l) data = drop (length (drop n data) - ?l) (drop n data)"
  proof -
    have "length data - ?l = (length (drop n data) - ?l) + n" using Unit.IH Unit.hyps l by (simp only: length_drop) linarith
    then show ?thesis by (simp only: drop_drop)
  qed
  then have "concat (map fst (log_units final data)) @ drop (length data - ?l) data = take n data @ drop n data"
    using Unit l by (simp add: log_units_simps)
  moreover have "final \<longrightarrow> ?l = 0" "?l \<le> length (drop n data)" "?l < 4"
    using Unit.IH unfolding l by blast+
  moreover from this(2) have "?l \<le> length data" by simp
  ultimately show ?case by (simp only: append_take_drop_id)
qed (simp add: log_units_simps log_left_simps)


lemma unit_bytes_concat: "unit_bytes us = length (concat (map fst us))"
  by (induction us) (auto simp: unit_bytes_def)

lemma unit_simps [simp]:
  "unit_bytes [] = 0" "unit_bytes ((w, t, r) # us) = length w + unit_bytes us"
  "unit_text [] = []" "unit_text ((w, t, r) # us) = t @ unit_text us"
  "unit_text (us @ vs) = unit_text us @ unit_text vs"
  by (simp_all add: unit_bytes_def unit_text_def)

lemma unit_bytes_take: "unit_bytes (take j us) \<le> unit_bytes us"
  by (induction us arbitrary: j) (auto simp: take_Cons split: nat.splits)

lemma log_units_bytes: "unit_bytes (log_units final data) + log_left final data = length data"
proof -
  have "length (concat (map fst (log_units final data)) @ drop (length data - log_left final data) data) = length data"
    and "log_left final data \<le> length data"
    using log_units_lossless [of final data] by simp_all
  then show ?thesis by (simp add: unit_bytes_concat)
qed

text \<open>What is decoded of a part of the log is what the whole log decodes to there.\<close>

lemma log_units_part:
  "log_units final (p @ q) =
     log_units False p @ log_units final (drop (length p - log_left False p) p @ q)"
proof (induction p rule: log_induct [of _ False])
  case (Unit p n t r)
  have e: "next_unit final (p @ q) = Some (n, t, r)" by (rule next_unit_extend) (use Unit in auto)
  let ?l = "log_left False p"
  have l: "?l = log_left False (drop n p)" using Unit by (simp add: log_left_simps)
  have le: "?l \<le> length (drop n p)" using log_units_lossless [of False "drop n p"] l by simp
  have "length p - ?l = (length (drop n p) - ?l) + n" using Unit le by simp
  then have d: "drop (length p - ?l) p = drop (length (drop n p) - ?l) (drop n p)" by (simp only: drop_drop)
  have "log_units final (p @ q) = (take n p, t, r) # log_units final (drop n p @ q)"
    using log_units_simps(3) [OF _ e] Unit by simp
  also have "\<dots> = (take n p, t, r) # log_units False (drop n p)
      @ log_units final (drop (length (drop n p) - ?l) (drop n p) @ q)"
    using Unit.IH l by simp
  also have "\<dots> = log_units False p @ log_units final (drop (length p - ?l) p @ q)"
    using Unit d by (simp add: log_units_simps)
  finally show ?case .
qed (simp_all add: log_units_simps log_left_simps)

text \<open>Decoding from a cursor at the end of a unit goes on with the units that follow.\<close>

lemma log_units_drop:
  "log_units final (drop (unit_bytes (take j (log_units final data))) data) = drop j (log_units final data)"
proof (induction data arbitrary: j rule: log_induct [of _ final])
  case (Unit data n t r)
  show ?case
  proof (cases j)
    case (Suc i)
    have "drop (n + unit_bytes (take i (log_units final (drop n data)))) data =
        drop (unit_bytes (take i (log_units final (drop n data)))) (drop n data)"
      by (simp add: add.commute)
    with Suc Unit show ?thesis by (simp add: log_units_simps)
  qed simp
qed (simp_all add: log_units_simps)

section \<open>What a page is\<close>

definition page_shown :: "(ustr \<Rightarrow> nat) \<Rightarrow> response_budget \<Rightarrow> bool \<Rightarrow> bytes \<Rightarrow> nat" where
  "page_shown tok b final raw =
     (let units = log_units final raw;
          page = greedy (\<lambda>us. fits (measure_text tok b (unit_text us))) [] units
      in if page = [] \<and> units \<noteq> [] then 1 else length page)"

lemma page_shown_units:
  "jr_content (render_job_output tok b final raw) =
     unit_text (take (page_shown tok b final raw) (log_units final raw))"
  "jr_bytes_returned (render_job_output tok b final raw) =
     unit_bytes (take (page_shown tok b final raw) (log_units final raw))"
  using greedy_prefix [of "\<lambda>us. fits (measure_text tok b (unit_text us))" "log_units final raw"]
  by (simp_all add: render_job_output_def page_shown_def log_units_def case_prod_beta Let_def)

lemma page_shown_pos: "log_units final raw \<noteq> [] \<Longrightarrow> 0 < page_shown tok b final raw"
  by (simp add: page_shown_def Let_def)

lemma unit_bytes_zero: "unit_bytes (log_units final data) = 0 \<longleftrightarrow> log_units final data = []"
proof (induction data rule: log_induct [of _ final])
  case (Unit data n t r)
  then show ?case by (cases data) (auto simp: log_units_simps)
qed (simp_all add: log_units_simps)

text \<open>A page that returns no byte has read nothing but the beginning of one unit.\<close>

lemma job_page_progress:
  assumes "jr_bytes_returned (render_job_output tok b final raw) = 0" "raw \<noteq> []"
  shows "\<not> final \<and> length raw < 4 \<and> log_left final raw = length raw"
proof -
  have "log_units final raw = []"
  proof (rule ccontr)
    assume ne: "log_units final raw \<noteq> []"
    then obtain n t r where n: "next_unit final raw = Some (n, t, r)"
      using log_units_simps(2) [OF assms(2)] by (cases "next_unit final raw") auto
    have "1 \<le> n \<and> n \<le> length raw" using next_unit_length [OF n assms(2)] .
    moreover obtain k where "page_shown tok b final raw = Suc k"
      using page_shown_pos [OF ne] by (metis Suc_pred)
    ultimately show False using assms log_units_simps(3) [OF assms(2) n] by (auto simp: page_shown_units)
  qed
  moreover from this have "log_left final raw = length raw"
    using log_units_bytes [of final raw] by simp
  ultimately show ?thesis using log_units_lossless [of final raw] assms(2) by auto
qed

text \<open>
  The page read at a cursor of a log that may still grow to \<open>log\<close> shows the next units of the
  whole log, and the next cursor is at their end.
\<close>

lemma page_of_growing_log:
  assumes final: "final \<Longrightarrow> length log \<le> cursor + length raw"
    and raw: "drop cursor log = raw @ rest"
  obtains j where
    "jr_content (render_job_output tok b final raw) = unit_text (take j (log_units True (drop cursor log)))"
    "jr_bytes_returned (render_job_output tok b final raw) = unit_bytes (take j (log_units True (drop cursor log)))"
proof (cases final)
  case True
  have "length (drop cursor log) = length raw + length rest" by (simp add: raw)
  with final [OF True] have "rest = []" by (cases rest) auto
  with True raw that [of "page_shown tok b final raw"] show ?thesis by (simp add: page_shown_units)
next
  case False
  define us vs where "us = log_units False raw" and "vs = log_units True (drop (length raw - log_left False raw) raw @ rest)"
  have "log_units True (drop cursor log) = us @ vs"
    unfolding raw us_def vs_def by (rule log_units_part)
  then have "take (min (length us) (page_shown tok b final raw)) (log_units True (drop cursor log))
      = take (page_shown tok b final raw) us"
    by (simp add: min_def)
  with False that [of "min (length us) (page_shown tok b final raw)"] show ?thesis
    by (simp add: page_shown_units us_def)
qed


section \<open>Following a log\<close>

lemma job_output_payload_fields:
  assumes "r = render_job_output tok b (ob_terminal ob \<and> length (ob_log ob)
      \<le> cursor + length (job_raw (take (ob_read_size ob) (ob_log ob)) cursor mb))
      (job_raw (take (ob_read_size ob) (ob_log ob)) cursor mb)"
    and "d = job_output_payload tok b stream cursor mb wait ob"
  shows "map_of d ''content'' = Some (JStr (jr_content r))"
    and "map_of d ''next_cursor'' = Some (jnat (cursor + jr_bytes_returned r))"
    and "map_of d ''bytes_returned'' = Some (jnat (jr_bytes_returned r))"
    and "map_of d ''eof'' = Some (JBool (cursor + jr_bytes_returned r = length (ob_log ob) \<and> ob_terminal ob))"
  unfolding assms job_output_payload_def Let_def map_of_dict_update by simp_all

lemma int_arg_simps:
  "int_arg (JInt i) lo None = (if lo \<le> i then Some i else None)"
  "int_arg (JInt i) lo (Some hi) = (if lo \<le> i \<and> i \<le> hi then Some i else None)"
  by (simp_all add: int_arg_def)

lemma output_job_valid:
  assumes "stream = ''stdout'' \<or> stream = ''stderr''" "1 \<le> mb" "int mb \<le> max_job_output_bytes"
  shows "output_job tok b job_id stream (jnat cursor) (jnat mb) (JInt 0) (Inr ob) =
    (if ob_first_size ob < cursor then invalid_cursor_error job_id stream cursor (ob_first_size ob)
     else if ob_read_size ob < cursor then invalid_cursor_error job_id stream cursor (ob_read_size ob)
     else job_output_payload tok b stream cursor mb 0 ob)"
  using assms by (auto simp add: output_job_def int_arg_simps Let_def)

text \<open>A client that passes each \<^verbatim>\<open>next_cursor\<close> on: the text it has and the cursor it is at.\<close>

fun follow_log ::
  "(ustr \<Rightarrow> nat) \<Rightarrow> response_budget \<Rightarrow> ustr \<Rightarrow> string \<Rightarrow> nat \<Rightarrow> nat \<Rightarrow> job_observation list \<Rightarrow> ustr \<times> nat" where
  "follow_log tok b job_id stream mb cursor [] = ([], cursor)"
| "follow_log tok b job_id stream mb cursor (ob # obs) =
     (let d = output_job tok b job_id stream (jnat cursor) (jnat mb) (JInt 0) (Inr ob) in
      case (map_of d ''content'', map_of d ''next_cursor'') of
        (Some (JStr t), Some (JInt n)) \<Rightarrow>
          (case follow_log tok b job_id stream mb (nat n) obs of (t', c) \<Rightarrow> (t @ t', c))
      | _ \<Rightarrow> follow_log tok b job_id stream mb cursor obs)"

text \<open>What the calls may see of a log that ends as \<open>log\<close>: it grows, and is complete when the job has ended.\<close>

definition sees :: "bytes \<Rightarrow> job_observation \<Rightarrow> bool" where
  "sees log ob \<longleftrightarrow> ob_log ob = take (length (ob_log ob)) log \<and> ob_first_size ob \<le> ob_read_size ob \<and>
     ob_read_size ob \<le> length (ob_log ob) \<and> (ob_terminal ob \<longrightarrow> ob_read_size ob = length log)"

lemma job_raw_sees:
  assumes "sees log ob"
  shows "\<exists>rest. drop cursor log = job_raw (take (ob_read_size ob) (ob_log ob)) cursor mb @ rest"
proof -
  have "take (ob_read_size ob) (ob_log ob) = take (ob_read_size ob) log"
    using assms by (metis sees_def min.absorb1 take_take)
  then have "job_raw (take (ob_read_size ob) (ob_log ob)) cursor mb =
      take (min (min mb (length (take (ob_read_size ob) log) - cursor)) (ob_read_size ob - cursor)) (drop cursor log)"
    by (simp add: job_raw_def drop_take min.commute)
  then show ?thesis by (metis append_take_drop_id)
qed

lemma job_raw_terminal:
  assumes "sees log ob" "ob_terminal ob"
  shows "ob_log ob = log" "take (ob_read_size ob) (ob_log ob) = log"
proof -
  have n: "ob_read_size ob = length log" and t: "ob_log ob = take (length (ob_log ob)) log"
    and "ob_read_size ob \<le> length (ob_log ob)" using assms by (auto simp: sees_def)
  then have "length log \<le> length (ob_log ob)" by simp
  with t show "ob_log ob = log" by (metis take_all)
  then show "take (ob_read_size ob) (ob_log ob) = log" by (simp add: n)
qed

lemma sees_final:
  assumes "sees log ob" "ob_terminal ob \<and> length (ob_log ob) \<le> m"
  shows "length log \<le> m"
  using assms job_raw_terminal [of log ob] by simp

text \<open>One call: the units shown, and where the next call starts.\<close>

lemma follow_step:
  assumes "sees log ob" "stream = ''stdout'' \<or> stream = ''stderr''" "1 \<le> mb" "int mb \<le> max_job_output_bytes"
    and "follow_log tok b job_id stream mb cursor (ob # obs) = (text', c)"
    and "cursor \<le> ob_first_size ob"
  obtains j out where
    "text' = unit_text (take j (log_units True (drop cursor log))) @ out"
    "follow_log tok b job_id stream mb (cursor + unit_bytes (take j (log_units True (drop cursor log)))) obs = (out, c)"
    "ob_terminal ob \<Longrightarrow> 4 \<le> mb \<Longrightarrow> cursor < length log
      \<Longrightarrow> 0 < unit_bytes (take j (log_units True (drop cursor log)))"
    "cursor + unit_bytes (take j (log_units True (drop cursor log))) \<le> ob_read_size ob"
proof -
  from assms(1,6) have le: "cursor \<le> ob_first_size ob" "cursor \<le> ob_read_size ob" by (auto simp: sees_def)
  define raw where "raw = job_raw (take (ob_read_size ob) (ob_log ob)) cursor mb"
  define final where "final \<longleftrightarrow> ob_terminal ob \<and> length (ob_log ob) \<le> cursor + length raw"
  define r where "r = render_job_output tok b final raw"
  have d: "output_job tok b job_id stream (jnat cursor) (jnat mb) (JInt 0) (Inr ob) = job_output_payload tok b stream cursor mb 0 ob"
    using le by (simp add: output_job_valid [OF assms(2-4)])
  have f: "map_of (job_output_payload tok b stream cursor mb 0 ob) ''content'' = Some (JStr (jr_content r))"
    "map_of (job_output_payload tok b stream cursor mb 0 ob) ''next_cursor'' = Some (jnat (cursor + jr_bytes_returned r))"
    by (rule job_output_payload_fields [OF _ refl], simp add: r_def final_def raw_def)+
  obtain rest where rest: "drop cursor log = raw @ rest" using job_raw_sees [OF assms(1)] raw_def by blast
  have fl: "final \<Longrightarrow> length log \<le> cursor + length raw"
    using sees_final [OF assms(1)] final_def by blast
  obtain j where j: "jr_content r = unit_text (take j (log_units True (drop cursor log)))"
    "jr_bytes_returned r = unit_bytes (take j (log_units True (drop cursor log)))"
    using page_of_growing_log [OF fl rest] unfolding r_def by blast
  show ?thesis
  proof (rule that)
    show "text' = unit_text (take j (log_units True (drop cursor log))) @
       fst (follow_log tok b job_id stream mb (cursor + unit_bytes (take j (log_units True (drop cursor log)))) obs)"
      and "follow_log tok b job_id stream mb (cursor + unit_bytes (take j (log_units True (drop cursor log)))) obs =
       (fst (follow_log tok b job_id stream mb (cursor + unit_bytes (take j (log_units True (drop cursor log)))) obs), c)"
      using assms(5) by (auto simp: d f j Let_def case_prod_beta nat_add_distrib prod_eq_iff)
    have "jr_bytes_returned r \<le> length raw"
      unfolding r_def page_shown_units
      using log_units_bytes [of final raw] unit_bytes_take [of "page_shown tok b final raw" "log_units final raw"]
      by linarith
    moreover have "length raw \<le> ob_read_size ob - cursor"
      using assms(1) by (simp add: raw_def job_raw_def sees_def)
    ultimately show "cursor + unit_bytes (take j (log_units True (drop cursor log))) \<le> ob_read_size ob"
      using le j by simp
    assume t: "ob_terminal ob" and "4 \<le> mb" "cursor < length log"
    have log: "take (ob_read_size ob) (ob_log ob) = log" "ob_log ob = log" using job_raw_terminal [OF assms(1) t] by auto
    have raw: "raw = take mb (drop cursor log)"
      unfolding raw_def log(1) job_raw_def by (simp add: min_def)
    then have ne: "raw \<noteq> []" using \<open>4 \<le> mb\<close> \<open>cursor < length log\<close> by auto
    have "jr_bytes_returned r \<noteq> 0"
    proof
      assume "jr_bytes_returned r = 0"
      then have "\<not> final" "length raw < 4" using job_page_progress [OF _ ne] unfolding r_def by blast+
      with raw \<open>4 \<le> mb\<close> have "raw = drop cursor log" by (auto simp: min_def split: if_splits)
      with t log \<open>cursor < length log\<close> have final by (simp add: final_def)
      with \<open>\<not> final\<close> show False ..
    qed
    with j show "0 < unit_bytes (take j (log_units True (drop cursor log)))" by simp
  qed
qed


text \<open>A series of calls on a log that grows.\<close>

fun sees_growing :: "bytes \<Rightarrow> nat \<Rightarrow> job_observation list \<Rightarrow> bool" where
  "sees_growing log m [] \<longleftrightarrow> True"
| "sees_growing log m (ob # obs) \<longleftrightarrow> sees log ob \<and> m \<le> ob_first_size ob \<and> sees_growing log (ob_read_size ob) obs"

lemma follow_log_from:
  assumes "sees_growing log m obs" "cursor \<le> m"
    and "stream = ''stdout'' \<or> stream = ''stderr''" "1 \<le> mb" "int mb \<le> max_job_output_bytes"
    and "follow_log tok b job_id stream mb cursor obs = (out, c)"
  shows "out @ unit_text (log_units True (drop c log)) = unit_text (log_units True (drop cursor log))"
  using assms(1,2,6)
proof (induction obs arbitrary: m cursor out)
  case (Cons ob obs)
  then have sees: "sees log ob" "cursor \<le> ob_first_size ob" by auto
  obtain j out' where j: "out = unit_text (take j (log_units True (drop cursor log))) @ out'"
    "follow_log tok b job_id stream mb (cursor + unit_bytes (take j (log_units True (drop cursor log)))) obs = (out', c)"
    "cursor + unit_bytes (take j (log_units True (drop cursor log))) \<le> ob_read_size ob"
    using follow_step [OF sees(1) assms(3-5) Cons.prems(3) sees(2)] by metis
  define us where "us = log_units True (drop cursor log)"
  have "out' @ unit_text (log_units True (drop c log)) =
      unit_text (log_units True (drop (cursor + unit_bytes (take j us)) log))"
    using Cons.IH [OF _ _ j(2) , of "ob_read_size ob"] Cons.prems(1) j(3) by (simp add: us_def)
  moreover have "log_units True (drop (cursor + unit_bytes (take j us)) log) = drop j us"
    using log_units_drop [of True j "drop cursor log"] by (simp add: us_def add.commute)
  ultimately show ?case by (simp add: j(1) flip: us_def unit_simps(5))
qed simp


section \<open>Text that was written as UTF-8\<close>






section \<open>Properties\<close>

text \<open>A client that passes each next cursor to the next call of output_job on one stream of a job
  whose log only grows has, at any moment, exactly the text of the log up to its cursor: whatever page
  sizes and token budgets cut the pages, wherever they fall inside multi-byte characters or invalid
  bytes, the text it holds followed by the decoding of the rest of the log is the decoding of the
  whole log.\<close>

theorem following_loses_nothing:
  assumes "sees_growing log 0 obs" "stream = ''stdout'' \<or> stream = ''stderr''"
    and "1 \<le> mb" "int mb \<le> max_job_output_bytes"
    and "follow_log tok b job_id stream mb 0 obs = (out, c)"
  shows "out @ unit_text (log_units True (drop c log)) = unit_text (log_units True log)"
  using follow_log_from [OF assms(1) _ assms(2-5)] by simp

definition seen_log :: "bytes \<Rightarrow> nat \<Rightarrow> bool \<Rightarrow> job_observation" where
  "seen_log log n terminal =
     \<lparr>ob_status = [], ob_first_size = n, ob_read_size = n, ob_log = take n log, ob_terminal = terminal,
      ob_waited_ms = 0, ob_log_path = []\<rparr>"

theorem following_loses_nothing_witness:
  "case follow_log length \<lparr>max_tokens = 1, max_bytes = None\<rparr> [] ''stdout'' 2 0
      [seen_log [195, 169, 255] 1 False, seen_log [195, 169, 255] 3 True] of
    (out, c) \<Rightarrow> out @ unit_text (log_units True (drop c [195, 169, 255])) = unit_text (log_units True [195, 169, 255])"
  using following_loses_nothing [of "[195, 169, 255]" "[seen_log [195, 169, 255] 1 False, seen_log [195, 169, 255] 3 True]"
      "''stdout''" 2 length "\<lparr>max_tokens = 1, max_bytes = None\<rparr>" "[]"]
  by (auto simp: seen_log_def sees_def max_job_output_bytes_def simp del: follow_log.simps)




end
