(* ===== verification/StreamCapture.thy ===== *)
theory StreamCapture
  imports Utf8
begin

text \<open>
  The bounded capture of a process stream: \<^verbatim>\<open>_BoundedStreamCapture\<close> and \<^verbatim>\<open>_count_lines\<close> in
  \<^verbatim>\<open>src/chatgpt_web_oauth_mcp/shell.py\<close>. The reader thread adds chunks as they arrive; what is kept
  and counted must not depend on how the stream was cut into chunks.
\<close>

record capture =
  cp_max_bytes :: nat
  cp_head_limit :: nat
  cp_tail_limit :: nat
  cp_head :: bytes
  cp_tail :: bytes
  cp_total_bytes :: nat
  cp_line_breaks :: int
  cp_last_byte :: "nat option"

definition new_capture :: "int \<Rightarrow> capture" where
  "new_capture max_bytes =
     (let m = nat (max 0 max_bytes); h = (m + 1) div 2 in
      \<lparr>cp_max_bytes = m, cp_head_limit = h, cp_tail_limit = m - h, cp_head = [], cp_tail = [],
       cp_total_bytes = 0, cp_line_breaks = 0, cp_last_byte = None\<rparr>)"

definition count_byte :: "nat \<Rightarrow> bytes \<Rightarrow> int" where
  "count_byte c s = int (length (filter (\<lambda>x. x = c) s))"

definition chunk_breaks :: "bytes \<Rightarrow> int" where
  "chunk_breaks chunk = count_byte 10 chunk + count_byte 13 chunk - int (count_sub [13, 10] chunk)"

definition capture_add :: "capture \<Rightarrow> bytes \<Rightarrow> capture" where
  "capture_add c chunk =
     (if chunk = [] then c
      else
        let joined = (cp_last_byte c = Some 13 \<and> hd chunk = 10);
            c1 = c\<lparr>cp_total_bytes := cp_total_bytes c + length chunk,
                   cp_line_breaks := cp_line_breaks c + chunk_breaks chunk - (if joined then 1 else 0),
                   cp_last_byte := Some (last chunk)\<rparr>;
            head_remaining = cp_head_limit c - length (cp_head c);
            c2 = c1\<lparr>cp_head := cp_head c @ take head_remaining chunk\<rparr>;
            rest = drop head_remaining chunk in
        if rest = [] \<or> cp_tail_limit c = 0 then c2
        else
          let grown = cp_tail c @ rest in
          c2\<lparr>cp_tail := drop (length grown - cp_tail_limit c) grown\<rparr>)"

definition retained_bytes :: "capture \<Rightarrow> nat" where
  "retained_bytes c = length (cp_head c) + length (cp_tail c)"

definition dropped_bytes :: "capture \<Rightarrow> nat" where
  "dropped_bytes c = cp_total_bytes c - retained_bytes c"

definition capture_total_lines :: "capture \<Rightarrow> int" where
  "capture_total_lines c =
     (if cp_total_bytes c = 0 then 0
      else cp_line_breaks c + (if cp_last_byte c \<in> {Some 10, Some 13} then 0 else 1))"

text \<open>\<^verbatim>\<open>_count_lines\<close>, of bytes and of text alike.\<close>

definition count_lines :: "bytes \<Rightarrow> int" where
  "count_lines content =
     (if content = [] then 0 else chunk_breaks content + (if last content \<in> {10, 13} then 0 else 1))"

definition capture_retained_lines :: "capture \<Rightarrow> int" where
  "capture_retained_lines c =
     (if dropped_bytes c = 0 then capture_total_lines c
      else min (capture_total_lines c) (count_lines (cp_head c) + count_lines (cp_tail c)))"

section \<open>Counting line breaks in pieces\<close>

fun crlf_pairs :: "bytes \<Rightarrow> nat" where
  "crlf_pairs (a # b # s) = (if a = 13 \<and> b = 10 then 1 else 0) + crlf_pairs (b # s)"
| "crlf_pairs [a] = 0"
| "crlf_pairs [] = 0"

lemma crlf_pairs_skip: "a \<noteq> 13 \<Longrightarrow> crlf_pairs (a # s) = crlf_pairs s"
  by (cases s) simp_all

lemma count_sub_fuel_crlf: "length s \<le> n \<Longrightarrow> count_sub_fuel n [13, 10] s = crlf_pairs s"
proof (induction n arbitrary: s rule: less_induct)
  case (less n)
  show ?case
  proof (cases s)
    case (Cons a r)
    with less.prems obtain k where n: "n = Suc k" by (cases n) auto
    show ?thesis
    proof (cases r)
      case Nil
      with Cons n show ?thesis by (cases k) (simp_all add: startswith_def)
    next
      case (Cons b t)
      with \<open>s = a # r\<close> n less.prems less.IH [of k t] less.IH [of k "b # t"] show ?thesis
        by (auto simp: startswith_def crlf_pairs_skip)
    qed
  qed (cases n; simp)
qed

lemma count_sub_crlf: "count_sub [13, 10] s = crlf_pairs s"
  by (simp add: count_sub_def count_sub_fuel_crlf)

lemma crlf_pairs_append:
  "crlf_pairs (a @ b) = crlf_pairs a + crlf_pairs b +
     (if a \<noteq> [] \<and> b \<noteq> [] \<and> last a = 13 \<and> hd b = 10 then 1 else 0)"
proof (induction a rule: crlf_pairs.induct)
  case (2 v)
  then show ?case by (cases b) auto
qed auto

lemma chunk_breaks_append:
  "a \<noteq> [] \<Longrightarrow> b \<noteq> [] \<Longrightarrow>
   chunk_breaks (a @ b) = chunk_breaks a + chunk_breaks b - (if last a = 13 \<and> hd b = 10 then 1 else 0)"
  by (simp add: chunk_breaks_def count_byte_def count_sub_crlf crlf_pairs_append)

section \<open>Chunking does not matter\<close>

text \<open>
  The contract of a consumer fed in chunks: adding two chunks is adding their concatenation. Then only
  the concatenation of all chunks matters.
\<close>

locale chunked =
  fixes add :: "'s \<Rightarrow> 'b list \<Rightarrow> 's"
  assumes add_Nil: "add s [] = s"
    and add_append: "add (add s a) b = add s (a @ b)"
begin

lemma add_chunks: "foldl add s chunks = add s (concat chunks)"
  by (induction chunks arbitrary: s) (simp_all add: add_Nil add_append)

lemma rechunk: "concat xs = concat ys \<Longrightarrow> foldl add s xs = foldl add s ys"
  by (simp add: add_chunks)

end

lemma drop_last_append:
  "drop (length (drop (length xs - n) xs @ ys) - n) (drop (length xs - n) xs @ ys) =
   drop (length (xs @ ys) - n) (xs @ ys)"
  by (cases "n \<le> length xs") (auto simp: add.commute)

lemma capture_add_Nil [simp]: "capture_add c [] = c"
  by (simp add: capture_add_def)

lemma capture_add_fields:
  "cp_max_bytes (capture_add c s) = cp_max_bytes c"
  "cp_head_limit (capture_add c s) = cp_head_limit c"
  "cp_tail_limit (capture_add c s) = cp_tail_limit c"
  "cp_head (capture_add c s) = cp_head c @ take (cp_head_limit c - length (cp_head c)) s"
  "cp_total_bytes (capture_add c s) = cp_total_bytes c + length s"
  "cp_line_breaks (capture_add c s) = cp_line_breaks c + chunk_breaks s
     - (if s \<noteq> [] \<and> cp_last_byte c = Some 13 \<and> hd s = 10 then 1 else 0)"
  "cp_last_byte (capture_add c s) = (if s = [] then cp_last_byte c else Some (last s))"
  by (simp_all add: capture_add_def Let_def chunk_breaks_def count_byte_def count_sub_def)

lemma capture_add_tail:
  "cp_tail (capture_add c s) =
     (let rest = drop (cp_head_limit c - length (cp_head c)) s in
      if rest = [] \<or> cp_tail_limit c = 0 then cp_tail c
      else drop (length (cp_tail c @ rest) - cp_tail_limit c) (cp_tail c @ rest))"
  by (simp add: capture_add_def Let_def)

lemma capture_tail_append: "cp_tail (capture_add (capture_add c a) b) = cp_tail (capture_add c (a @ b))"
proof (cases "drop (cp_head_limit c - length (cp_head c)) a = [] \<or> cp_tail_limit c = 0")
  case True
  then show ?thesis
    by (auto simp: capture_add_tail capture_add_fields Let_def)
next
  case False
  let ?r = "cp_head_limit c - length (cp_head c)"
  from False have r: "?r < length a" by auto
  then have z: "cp_head_limit c - length (cp_head c @ take ?r a) = 0" "?r - length a = 0" by auto
  show ?thesis
  proof (cases "b = []")
    case no: False
    with False show ?thesis
      using drop_last_append [of "cp_tail c @ drop ?r a" "cp_tail_limit c" b]
      unfolding capture_add_tail capture_add_fields z Let_def drop_append drop0 by simp
  qed simp
qed

lemma capture_add_append: "capture_add (capture_add c a) b = capture_add c (a @ b)"
proof (cases "a = [] \<or> b = []")
  case True
  then show ?thesis by auto
next
  case False
  show ?thesis
  proof (rule capture.equality)
    show "cp_line_breaks (capture_add (capture_add c a) b) = cp_line_breaks (capture_add c (a @ b))"
      using False by (simp add: capture_add_fields chunk_breaks_append)
    show "cp_head (capture_add (capture_add c a) b) = cp_head (capture_add c (a @ b))"
      using False by (simp add: capture_add_fields min_def) 
  qed (use False in \<open>simp_all add: capture_add_fields capture_tail_append\<close>)
qed

interpretation capture: chunked capture_add
  by unfold_locales (simp, rule capture_add_append)

text \<open>What a capture holds of the bytes it was given.\<close>

lemma capture_of_bytes:
  "capture_add (new_capture m) s =
     (let k = nat (max 0 m); h = (k + 1) div 2 in
      \<lparr>cp_max_bytes = k, cp_head_limit = h, cp_tail_limit = k - h, cp_head = take h s,
       cp_tail = (let rest = drop h s in drop (length rest - (k - h)) rest),
       cp_total_bytes = length s, cp_line_breaks = chunk_breaks s,
       cp_last_byte = (if s = [] then None else Some (last s))\<rparr>)"
proof -
  obtain k where k: "nat (max 0 m) = k" by simp
  have "(k + 1) div 2 \<le> k" by simp
  then have h: "k - (k + 1) div 2 = 0 \<Longrightarrow> (k + 1) div 2 = k" by linarith
  show ?thesis
    using h by (auto simp: capture_add_def new_capture_def Let_def k chunk_breaks_def count_byte_def count_sub_def)
qed

lemma kept_bytes: "(h::nat) \<le> k \<Longrightarrow> min n h + (n - h - (n - h - (k - h))) = min k n"
  by (auto simp: min_def)

lemma capture_stream:
  fixes m :: int
  defines "k \<equiv> nat (max 0 m)"
  assumes c: "c = foldl capture_add (new_capture m) chunks"
  shows "cp_head c = take ((k + 1) div 2) (concat chunks)"
    "cp_tail c = drop (length (drop ((k + 1) div 2) (concat chunks)) - (k - (k + 1) div 2)) (drop ((k + 1) div 2) (concat chunks))"
    "cp_total_bytes c = length (concat chunks)" "capture_total_lines c = count_lines (concat chunks)"
    "retained_bytes c = min k (length (concat chunks))"
    "retained_bytes c + dropped_bytes c = length (concat chunks)"
    "length (concat chunks) \<le> k \<Longrightarrow> cp_head c @ cp_tail c = concat chunks"
proof -
  let ?h = "(k + 1) div 2" and ?s = "concat chunks"
  have c': "c = capture_add (new_capture m) ?s" unfolding c by (rule capture.add_chunks)
  have facts: "cp_head c = take ?h ?s" "cp_total_bytes c = length ?s" "cp_line_breaks c = chunk_breaks ?s"
    "cp_tail c = drop (length (drop ?h ?s) - (k - ?h)) (drop ?h ?s)"
    "cp_last_byte c = (if ?s = [] then None else Some (last ?s))"
    by (simp_all add: c' capture_of_bytes Let_def k_def)
  show "cp_head c = take ?h ?s" "cp_total_bytes c = length ?s"
    "cp_tail c = drop (length (drop ?h ?s) - (k - ?h)) (drop ?h ?s)" by (rule facts)+
  show "capture_total_lines c = count_lines ?s"
    by (auto simp: capture_total_lines_def facts(2,3,5) count_lines_def)
  have h: "?h \<le> k" by simp
  show ret: "retained_bytes c = min k (length ?s)"
    unfolding retained_bytes_def facts(1,4) length_take length_drop by (rule kept_bytes [OF h])
  then show "retained_bytes c + dropped_bytes c = length ?s"
    by (simp add: dropped_bytes_def facts(2))
  show "cp_head c @ cp_tail c = ?s" if "length ?s \<le> k"
  proof -
    have "length (drop ?h ?s) - (k - ?h) = 0" using that h by auto
    then show ?thesis unfolding facts(1,4) by (metis append_take_drop_id drop0)
  qed
qed

text \<open>What a bounded capture keeps does not depend on how the stream was cut into chunks. After any
  chunks, it holds the first half of its limit of the whole stream and the last bytes of the rest, its
  counters are those of the whole stream, its line count is that of \<^verbatim>\<open>_count_lines\<close> on the whole stream
  (also when a CR LF was cut in two), it never keeps more than its limit, and it counts every byte it
  does not keep as dropped.\<close>
theorem capture_of_stream:
  "let k = nat (max 0 m); s = concat chunks; c = foldl capture_add (new_capture m) chunks in
     cp_head c = take ((k + 1) div 2) s \<and>
     cp_tail c = drop (length (drop ((k + 1) div 2) s) - (k - (k + 1) div 2)) (drop ((k + 1) div 2) s) \<and>
     cp_total_bytes c = length s \<and> capture_total_lines c = count_lines s \<and>
     retained_bytes c = min k (length s) \<and> retained_bytes c + dropped_bytes c = length s \<and>
     (length s \<le> k \<longrightarrow> cp_head c @ cp_tail c = s)"
  unfolding Let_def using capture_stream [where m = m and chunks = chunks, OF refl] by blast

theorem capture_of_stream_witness:
  "cp_head (foldl capture_add (new_capture 4) [[97, 13], [10]]) @ cp_tail (foldl capture_add (new_capture 4) [[97, 13], [10]])
     = [97, 13, 10]"
  using capture_of_stream [of 4 "[[97, 13], [10]]"] by (simp add: Let_def)

end
