(* ===== verification/WaterFill.thy ===== *)
theory WaterFill
  imports Budget
begin

text \<open>
  Cutting a text to a number of tokens and sharing a number of tokens between streams:
  \<^verbatim>\<open>_token_omission_marker\<close>, \<^verbatim>\<open>_truncate_text_to_tokens\<close> and \<^verbatim>\<open>_allocate_stream_token_budgets\<close>
  in \<^verbatim>\<open>src/chatgpt_web_oauth_mcp/shell.py\<close>.
\<close>

section \<open>Cutting a text\<close>

definition run_marker_long :: ustr where
  "run_marker_long = [10] @ u ''... [output omitted to fit run token budget] ...'' @ [10]"

definition run_marker_short :: ustr where
  "run_marker_short = [10] @ u ''...'' @ [10]"

definition run_marker_ellipsis :: ustr where
  "run_marker_ellipsis = [0x2026]"

definition token_omission_marker :: "(ustr \<Rightarrow> nat) \<Rightarrow> int \<Rightarrow> ustr" where
  "token_omission_marker tok n =
     (case filter (\<lambda>m. int (tok m) \<le> n) [run_marker_long, run_marker_short, run_marker_ellipsis] of
        [] \<Rightarrow> []
      | m # _ \<Rightarrow> m)"

definition cut_candidate :: "ustr \<Rightarrow> ustr \<Rightarrow> nat \<Rightarrow> ustr" where
  "cut_candidate s marker kept =
     take ((kept + 1) div 2) s @ marker @ drop (length s - kept div 2) s"

definition text_fits :: "(ustr \<Rightarrow> nat) \<Rightarrow> int \<Rightarrow> ustr \<Rightarrow> bool" where
  "text_fits tok n s = fits (measure_text tok \<lparr>max_tokens = n, max_bytes = None\<rparr> s)"

definition truncate_text_to_tokens :: "(ustr \<Rightarrow> nat) \<Rightarrow> ustr \<Rightarrow> int \<Rightarrow> ustr \<times> bool" where
  "truncate_text_to_tokens tok s n =
     (if s = [] then ([], False)
      else if n \<le> 0 then ([], True)
      else if text_fits tok n s then (s, False)
      else
        let marker = token_omission_marker tok n;
            kept = bisect_up (\<lambda>k. text_fits tok n (cut_candidate s marker k)) 0 (length s - 1);
            rendered = cut_candidate s marker kept
        in if text_fits tok n rendered then (rendered, True)
           else if text_fits tok n marker then (marker, True)
           else ([], True))"

lemma text_fits_iff [simp]: "text_fits tok n s \<longleftrightarrow> int (tok s) \<le> n"
  by (simp add: text_fits_def fits_measure_text)

lemma truncate_cases:
  assumes "truncate_text_to_tokens tok s n = (r, t)"
  obtains (whole) "r = s" "\<not> t" "s = [] \<or> 0 < n \<and> int (tok s) \<le> n"
  | (cut) "t" "0 < n" "int (tok r) \<le> n" "s \<noteq> []" "n < int (tok s)"
  | (gone) "t" "r = []" "s \<noteq> []" "n \<le> 0 \<or> n < int (tok s)"
proof -
  consider "s = []" | "s \<noteq> []" "n \<le> 0" | "\<not> (s = [] \<or> n \<le> 0)" by blast
  then show thesis
  proof cases
    case 1
    show thesis by (rule whole) (use assms 1 in \<open>simp_all add: truncate_text_to_tokens_def\<close>)
  next
    case 2
    show thesis by (rule gone) (use assms 2 in \<open>simp_all add: truncate_text_to_tokens_def\<close>)
  next
    case False: 3
  define marker where "marker = token_omission_marker tok n"
  define c where "c = cut_candidate s marker
    (bisect_up (\<lambda>k. text_fits tok n (cut_candidate s marker k)) 0 (length s - 1))"
  have e: "truncate_text_to_tokens tok s n = (if int (tok s) \<le> n then (s, False)
      else if int (tok c) \<le> n then (c, True)
      else if int (tok marker) \<le> n then (marker, True) else ([], True))"
    unfolding truncate_text_to_tokens_def Let_def c_def marker_def text_fits_iff using False by simp
    show thesis
    proof (cases "int (tok s) \<le> n")
      case True
      with e assms False show thesis by (intro whole) simp_all
    next
      case more: False
      show thesis
      proof (cases "int (tok c) \<le> n")
        case True
        with e assms False more show thesis by (intro cut) simp_all
      next
        case nc: False
        show thesis
        proof (cases "int (tok marker) \<le> n")
          case True
          with e assms False more nc show thesis by (intro cut) simp_all
        next
          case False
          with e assms more nc have "t" "r = []" by simp_all
          with more \<open>\<not> (s = [] \<or> n \<le> 0)\<close> show thesis using gone by simp
        qed
      qed
    qed
  qed
qed

text \<open>The result fits, and the text is cut only when it does not fit.\<close>

lemma truncate_fits:
  "truncate_text_to_tokens tok s n = (r, t) \<Longrightarrow> int (tok []) \<le> n \<Longrightarrow> int (tok r) \<le> n"
  by (erule truncate_cases) auto

lemma truncate_flag:
  "truncate_text_to_tokens tok s n = (r, t) \<Longrightarrow> t = (s \<noteq> [] \<and> (n \<le> 0 \<or> n < int (tok s)))"
  by (erule truncate_cases) auto

lemma truncate_whole:
  "truncate_text_to_tokens tok s n = (r, False) \<Longrightarrow> r = s"
  by (erule truncate_cases) auto

text \<open>A cut text keeps the longest ends the search can find, when more text never has fewer tokens.\<close>

lemma truncate_longest:
  assumes "truncate_text_to_tokens tok s n = (r, True)" "0 < n"
    and mono: "\<And>i j. i \<le> j \<Longrightarrow> j \<le> length s \<Longrightarrow>
      tok (cut_candidate s (token_omission_marker tok n) i) \<le> tok (cut_candidate s (token_omission_marker tok n) j)"
    and "k < length s" "int (tok (cut_candidate s (token_omission_marker tok n) k)) \<le> n"
  shows "\<exists>kept. k \<le> kept \<and> r = cut_candidate s (token_omission_marker tok n) kept"
proof -
  define c where "c = cut_candidate s (token_omission_marker tok n)"
  define kept where "kept = bisect_up (\<lambda>k. k < length s \<and> int (tok (c k)) \<le> n) 0 (length s - 1)"
  have s: "s \<noteq> []" "\<not> int (tok s) \<le> n"
    using truncate_flag [OF assms(1)] assms(2) by auto
  have same: "bisect_up (\<lambda>k. int (tok (c k)) \<le> n) a e =
      bisect_up (\<lambda>k. k < length s \<and> int (tok (c k)) \<le> n) a e" if "e < length s" for a e
    using that
  proof (induction "\<lambda>k. int (tok (c k)) \<le> n" a e rule: bisect_up.induct)
    case (1 low high)
    have "(low + high + 1) div 2 < length s" if "low < high" using that 1(3) by linarith
    with 1 show ?case
      by (simp add: bisect_up.simps [of _ low high])
  qed
  have kept: "bisect_up (\<lambda>k. int (tok (c k)) \<le> n) 0 (length s - 1) = kept"
    unfolding kept_def by (rule same) (use s in \<open>cases s; simp\<close>)
  have ge: "k \<le> kept"
    unfolding kept_def
  proof (rule bisection.search_greatest)
    fix i j assume "i \<le> j" "j < length s \<and> int (tok (c j)) \<le> n"
    with mono [of i j] show "i < length s \<and> int (tok (c i)) \<le> n" unfolding c_def by auto
  qed (use assms(4,5) in \<open>auto simp: c_def\<close>)
  have "kept = 0 \<or> (kept < length s \<and> int (tok (c kept)) \<le> n)"
    unfolding kept_def by (rule bisection.search_fits)
  with ge assms(5) have "int (tok (c kept)) \<le> n" unfolding c_def by auto
  then have "r = c kept"
    using assms(1,2) s kept by (simp add: truncate_text_to_tokens_def Let_def flip: c_def)
  with ge show ?thesis unfolding c_def by blast
qed

section \<open>Sharing a budget\<close>

text \<open>
  The rounds of the loop: \<open>pending\<close> are the streams still waiting with what they need. The streams
  that need at most the equal share get it; when there is none, the rest is shared equally.
\<close>

type_synonym needs = "(ustr \<times> nat) list"

function water_fill :: "needs \<Rightarrow> nat \<Rightarrow> needs" where
  "water_fill pending remaining =
     (if pending = [] then []
      else
        let share = remaining div length pending;
            satisfied = filter (\<lambda>(k, n). n \<le> share) pending in
        if satisfied = [] then
          map (\<lambda>(i, (k, n)). (k, share + (if i < remaining mod length pending then 1 else 0)))
            (enumerate 0 (sort_key fst pending))
        else satisfied @
          water_fill (filter (\<lambda>(k, n). \<not> n \<le> share) pending) (remaining - sum_list (map snd satisfied)))"
  by auto
termination
  by (relation "measure (\<lambda>(p, r). length p)")
     (auto simp: filter_empty_conv intro!: length_filter_less)

declare water_fill.simps [simp del]

definition allocate_stream_token_budgets :: "needs \<Rightarrow> nat \<Rightarrow> needs" where
  "allocate_stream_token_budgets needs total_tokens =
     fold (\<lambda>(k, a). AList.update k a) (water_fill (filter (\<lambda>(k, n). 0 < n) needs) total_tokens)
       (map (\<lambda>(k, n). (k, 0)) needs)"


lemma sum_enumerate_first:
  "sum_list (map (\<lambda>(i, x). if i < k then 1 else 0) (enumerate m xs)) = min (k - m) (length xs)"
  by (induction xs arbitrary: m) auto

lemma share_remainder:
  assumes "ps \<noteq> []" and W: "W = map (\<lambda>(i, (k, n)). (k, r div length ps + (if i < r mod length ps then 1 else 0)))
    (enumerate 0 ps)"
  shows "map fst W = map fst ps" "sum_list (map snd W) = r"
    and "(k, a) \<in> set W \<Longrightarrow> r div length ps \<le> a \<and> a \<le> r div length ps + 1"
proof -
  have "map fst W = map (fst \<circ> snd) (enumerate 0 ps)" unfolding W by (simp add: case_prod_unfold comp_def)
  also have "\<dots> = map fst (map snd (enumerate 0 ps))" by (simp only: map_map)
  finally show "map fst W = map fst ps" by (simp only: map_snd_enumerate)
  have "sum_list (map snd W) = sum_list (map (\<lambda>(i, x). r div length ps + (if i < r mod length ps then 1 else 0)) (enumerate 0 ps))"
    unfolding W by (simp add: case_prod_unfold comp_def)
  also have "\<dots> = (r div length ps) * length ps
      + sum_list (map (\<lambda>(i, x). if i < r mod length ps then 1 else 0) (enumerate 0 ps))"
    by (simp add: case_prod_unfold sum_list_addf sum_list_triv)
  also have "\<dots> = r"
    using assms(1) by (simp add: sum_enumerate_first min.absorb1 order_less_imp_le)
  finally show "sum_list (map snd W) = r" .
  assume "(k, a) \<in> set W"
  then show "r div length ps \<le> a \<and> a \<le> r div length ps + 1" unfolding W by (auto split: if_splits)
qed

text \<open>
  What a division of \<open>total\<close> among needs promises: nobody gets more than it needs, not more than the
  total is given out, and if somebody gets less than it needs, everything is given out and nobody
  gets more than one token more.
\<close>

definition fair_division :: "needs \<Rightarrow> nat \<Rightarrow> needs \<Rightarrow> bool" where
  "fair_division needs total_tokens given \<longleftrightarrow>
     distinct (map fst given) \<and> set (map fst given) = set (map fst needs) \<and>
     sum_list (map snd given) \<le> total_tokens \<and>
     (\<forall>(k, a) \<in> set given. \<exists>n. (k, n) \<in> set needs \<and> a \<le> n \<and>
        (a < n \<longrightarrow> sum_list (map snd given) = total_tokens \<and> (\<forall>(j, b) \<in> set given. b \<le> a + 1)))"

lemma satisfied_within:
  "\<forall>(k, n) \<in> set ps. n \<le> share \<Longrightarrow> sum_list (map snd ps) \<le> share * length ps"
  by (induction ps) (auto simp: add_mono)

lemma remaining_share:
  assumes "sat = filter (\<lambda>(k, n). n \<le> r div length p) p" "rest = filter (\<lambda>(k, n). \<not> n \<le> r div length p) p"
  shows "sum_list (map snd sat) \<le> r" "rest \<noteq> [] \<Longrightarrow> r div length p \<le> (r - sum_list (map snd sat)) div length rest"
proof -
  let ?s = "r div length p"
  have l: "length sat + length rest = length p"
    using assms sum_length_filter_compl [of "\<lambda>(k, n). n \<le> ?s" p] by (simp add: case_prod_unfold)
  have sw: "sum_list (map snd sat) \<le> ?s * length sat" by (rule satisfied_within) (auto simp: assms(1))
  have tot: "?s * length sat + ?s * length rest \<le> r"
    using l by (metis add_mult_distrib2 div_times_less_eq_dividend mult.commute)
  show "sum_list (map snd sat) \<le> r" using sw tot by linarith
  show "?s \<le> (r - sum_list (map snd sat)) div length rest" if "rest \<noteq> []"
  proof -
    have "?s * length rest \<le> r - sum_list (map snd sat)" using sw tot by linarith
    then have "(?s * length rest) div length rest \<le> (r - sum_list (map snd sat)) div length rest" by (rule div_le_mono)
    with that show ?thesis by simp
  qed
qed

text \<open>The last round: everybody waiting needs more than the share.\<close>

lemma last_round:
  assumes d: "distinct (map fst p)" and p: "p \<noteq> []" and more: "\<forall>(k, n) \<in> set p. r div length p < n"
    and W: "W = map (\<lambda>(i, (k, n)). (k, r div length p + (if i < r mod length p then 1 else 0)))
      (enumerate 0 (sort_key fst p))"
  shows "fair_division p r W \<and> (\<forall>(k, a) \<in> set W. r div length p \<le> a)"
proof -
  have "sort_key fst p \<noteq> []" using p by (metis length_0_conv length_sort)
  note sr = share_remainder [OF this, of W r, unfolded length_sort, OF W]
  have keys: "distinct (map fst W) \<and> set (map fst W) = set (map fst p)"
    using d by (simp add: sr(1) distinct_map)
  have "\<exists>n. (k, n) \<in> set p \<and> a \<le> n \<and> (\<forall>(j, b) \<in> set W. b \<le> a + 1)" if ka: "(k, a) \<in> set W" for k a
  proof -
    have "k \<in> set (map fst p)" using keys ka by force
    then obtain n where n: "(k, n) \<in> set p" by auto
    with more have "r div length p < n" by auto
    with sr(3) [OF ka] have "a \<le> n" by linarith
    moreover have "b \<le> a + 1" if "(j, b) \<in> set W" for j b
      using sr(3) [OF ka] sr(3) [OF that] by linarith
    ultimately show ?thesis using n by blast
  qed
  with keys sr(2,3) show ?thesis unfolding fair_division_def by fast
qed

text \<open>A round that satisfies somebody.\<close>

lemma satisfied_round:
  assumes d: "distinct (map fst p)"
    and sat: "sat = filter (\<lambda>(k, n). n \<le> r div length p) p"
    and rest: "rest = filter (\<lambda>(k, n). \<not> n \<le> r div length p) p"
    and V: "fair_division rest (r - sum_list (map snd sat)) V"
    and low: "\<And>k a n. (k, a) \<in> set V \<Longrightarrow> (k, n) \<in> set rest \<Longrightarrow> a < n
      \<Longrightarrow> (r - sum_list (map snd sat)) div length rest \<le> a"
  shows "fair_division p r (sat @ V)"
    and "(k, a) \<in> set (sat @ V) \<Longrightarrow> (k, n) \<in> set p \<Longrightarrow> a < n \<Longrightarrow> r div length p \<le> a"
proof -
  let ?r = "r - sum_list (map snd sat)"
  have fn: "n = m" if "(k, n) \<in> set p" "(k, m) \<in> set p" for k n m
    using d that by (metis map_of_is_SomeI option.inject)
  have setp: "set p = set sat \<union> set rest" by (auto simp: sat rest)
  have Vk: "set (map fst V) = set (map fst rest)" "distinct (map fst V)" "sum_list (map snd V) \<le> ?r"
    using V by (simp_all add: fair_division_def)
  have disj: "set (map fst sat) \<inter> set (map fst rest) = {}"
  proof -
    have False if "(k, n) \<in> set sat" "(k, m) \<in> set rest" for k n m
      using that fn [of k n m] by (auto simp: sat rest)
    then show ?thesis by fastforce
  qed
  have low': "r div length p \<le> a" if "(k, a) \<in> set V" "(k, n) \<in> set rest" "a < n" for k a n
  proof -
    have "rest \<noteq> []" using that by auto
    then show ?thesis using remaining_share(2) [OF sat rest] low [OF that] by linarith
  qed
  have sum: "sum_list (map snd (sat @ V)) \<le> r"
    using remaining_share(1) [OF sat rest] Vk(3) by simp
  have keys: "distinct (map fst (sat @ V))" "set (map fst (sat @ V)) = set (map fst p)"
  proof -
    have "distinct (map fst sat)" using d by (simp add: sat distinct_map_filter)
    with disj Vk(1,2) show "distinct (map fst (sat @ V))" by simp
    show "set (map fst (sat @ V)) = set (map fst p)" using Vk(1) setp by (simp add: image_Un)
  qed
  have "\<exists>n. (k, n) \<in> set p \<and> a \<le> n \<and>
      (a < n \<longrightarrow> sum_list (map snd (sat @ V)) = r \<and> (\<forall>(j, b) \<in> set (sat @ V). b \<le> a + 1))"
    if "(k, a) \<in> set (sat @ V)" for k a
  proof (cases "(k, a) \<in> set sat")
    case True
    then show ?thesis using setp by blast
  next
    case False
    with that have ka: "(k, a) \<in> set V" by simp
    then obtain n where n: "(k, n) \<in> set rest" "a \<le> n"
      and cut: "a < n \<Longrightarrow> sum_list (map snd V) = ?r \<and> (\<forall>(j, b) \<in> set V. b \<le> a + 1)"
      using V unfolding fair_division_def by fast
    have "b \<le> a + 1" if "a < n" "(j, b) \<in> set sat" for j b
    proof -
      have "b \<le> r div length p" using that(2) by (auto simp: sat)
      then show ?thesis using low' [OF ka n(1) that(1)] by linarith
    qed
    moreover have "b \<le> a + 1" if "a < n" "(j, b) \<in> set V" for j b
      using cut [OF that(1)] that(2) by blast
    moreover have "a < n \<Longrightarrow> sum_list (map snd (sat @ V)) = r"
      using cut remaining_share(1) [OF sat rest] by simp
    ultimately have "a < n \<longrightarrow> sum_list (map snd (sat @ V)) = r \<and> (\<forall>(j, b) \<in> set (sat @ V). b \<le> a + 1)"
      by auto
    then show ?thesis using n setp by blast
  qed
  with keys sum show "fair_division p r (sat @ V)" unfolding fair_division_def by fast
  assume a: "(k, a) \<in> set (sat @ V)" "(k, n) \<in> set p" "a < n"
  show "r div length p \<le> a"
  proof (cases "(k, a) \<in> set sat")
    case True
    then have "(k, a) \<in> set p" using setp by blast
    with fn [of k a n] a show ?thesis by auto
  next
    case False
    with a have V': "(k, a) \<in> set V" by simp
    then have "k \<in> set (map fst rest)" using Vk(1) by force
    then obtain m where m: "(k, m) \<in> set rest" by auto
    with setp fn [of k m n] a(2) have "m = n" by auto
    with m a(3) show ?thesis using low' [OF V'] by blast
  qed
qed

text \<open>The rounds keep it, and the smallest that is cut has at least the equal share.\<close>

lemma water_fill_spec:
  "distinct (map fst p) \<Longrightarrow>
   fair_division p r (water_fill p r) \<and>
   (\<forall>k a n. (k, a) \<in> set (water_fill p r) \<longrightarrow> (k, n) \<in> set p \<longrightarrow> a < n \<longrightarrow> r div length p \<le> a)"
proof (induction p r rule: water_fill.induct)
  case (1 p r)
  define sat rest where "sat = filter (\<lambda>(k, n). n \<le> r div length p) p"
    and "rest = filter (\<lambda>(k, n). \<not> n \<le> r div length p) p"
  show ?case
  proof (cases "p = []")
    case True
    then show ?thesis by (simp add: water_fill.simps fair_division_def)
  next
    case p: False
    show ?thesis
    proof (cases "sat = []")
      case True
      then have W: "water_fill p r = map (\<lambda>(i, (k, n)). (k, r div length p + (if i < r mod length p then 1 else 0)))
          (enumerate 0 (sort_key fst p))"
        using p by (simp add: water_fill.simps [of p r] Let_def sat_def)
      have "\<forall>(k, n) \<in> set p. r div length p < n"
        using True by (auto simp: sat_def filter_empty_conv)
      from last_round [OF "1.prems" p this W] show ?thesis by fast
    next
      case False
      have W: "water_fill p r = sat @ water_fill rest (r - sum_list (map snd sat))"
        using p False by (simp add: water_fill.simps [of p r] Let_def sat_def rest_def)
      have "distinct (map fst rest)" using "1.prems" by (simp add: rest_def distinct_map_filter)
      with 1 p False have IH: "fair_division rest (r - sum_list (map snd sat)) (water_fill rest (r - sum_list (map snd sat)))"
        "\<And>k a n. (k, a) \<in> set (water_fill rest (r - sum_list (map snd sat))) \<Longrightarrow> (k, n) \<in> set rest \<Longrightarrow> a < n
          \<Longrightarrow> (r - sum_list (map snd sat)) div length rest \<le> a"
        unfolding sat_def rest_def by blast+
      have "fair_division p r (sat @ water_fill rest (r - sum_list (map snd sat)))"
        by (rule satisfied_round(1) [OF "1.prems" sat_def rest_def IH(1)]) (rule IH(2))
      moreover have "r div length p \<le> a"
        if "(k, a) \<in> set (sat @ water_fill rest (r - sum_list (map snd sat)))" "(k, n) \<in> set p" "a < n" for k a n
        by (rule satisfied_round(2) [OF "1.prems" sat_def rest_def IH(1) _ that]) (rule IH(2))
      ultimately show ?thesis unfolding W by blast
    qed
  qed
qed


section \<open>The dictionary of allocations\<close>

lemma fold_update_keys:
  "set (map fst W) \<subseteq> set (map fst al) \<Longrightarrow> map fst (fold (\<lambda>(k, a). AList.update k a) W al) = map fst al"
proof (induction W arbitrary: al)
  case (Cons x W)
  obtain k a where x: "x = (k, a)" by (cases x)
  have "map fst (AList.update k a al) = map fst al" using Cons.prems x by (simp add: update_keys)
  with Cons.IH [of "AList.update k a al"] Cons.prems x show ?case by simp
qed simp

lemma fold_update_lookup:
  "distinct (map fst W) \<Longrightarrow> map_of (fold (\<lambda>(k, a). AList.update k a) W al) k =
     (case map_of W k of Some a \<Rightarrow> Some a | None \<Rightarrow> map_of al k)"
proof (induction W arbitrary: al)
  case (Cons x W)
  obtain j a where x: "x = (j, a)" by (cases x)
  with Cons.prems have "map_of W j = None" by (simp add: map_of_eq_None_iff)
  with Cons.IH [of "AList.update j a al"] Cons.prems x show ?case
    by (auto simp: dict_simps split: option.splits)
qed simp

lemma alist_of_map:
  "distinct (map fst al) \<Longrightarrow> al = map (\<lambda>k. (k, the (map_of al k))) (map fst al)"
proof (induction al)
  case (Cons x al)
  obtain k v where x: "x = (k, v)" by (cases x)
  have "map (\<lambda>j. (j, the (map_of (x # al) j))) (map fst al) = map (\<lambda>j. (j, the (map_of al j))) (map fst al)"
    by (rule map_cong) (use Cons.prems x in auto)
  with Cons x show ?case by simp
qed simp

lemma alist_eqI:
  "map fst a = map fst b \<Longrightarrow> distinct (map fst b) \<Longrightarrow> (\<And>k. map_of a k = map_of b k) \<Longrightarrow> a = b"
  using alist_of_map [of a] alist_of_map [of b] by simp

lemma sum_by_key:
  "distinct (map fst al) \<Longrightarrow> sum_list (map snd al) = (\<Sum>k \<in> set (map fst al). (the (map_of al k) :: nat))"
proof (induction al)
  case (Cons x al)
  obtain k a where x: "x = (k, a)" by (cases x)
  have "(\<Sum>j \<in> set (map fst al). the (map_of (x # al) j)) = (\<Sum>j \<in> set (map fst al). the (map_of al j))"
    by (rule sum.cong) (use Cons.prems x in auto)
  with Cons x show ?case by simp
qed simp

lemma waiting_division:
  assumes d: "distinct (map fst needs)"
    and A: "A = allocate_stream_token_budgets needs total_tokens"
    and W: "W = water_fill (filter (\<lambda>(k, n). 0 < n) needs) total_tokens"
  shows "fair_division (filter (\<lambda>(k, n). 0 < n) needs) total_tokens W"
  using water_fill_spec [of "filter (\<lambda>(k, n). 0 < n) needs" total_tokens] d
  by (simp add: W distinct_map_filter)

lemma allocation_keys:
  assumes d: "distinct (map fst needs)"
    and A: "A = allocate_stream_token_budgets needs total_tokens"
    and W: "W = water_fill (filter (\<lambda>(k, n). 0 < n) needs) total_tokens"
  shows "map fst A = map fst needs"
proof -
  have "set (map fst W) = set (map fst (filter (\<lambda>(k, n). 0 < n) needs))"
    using waiting_division [OF d A W] by (simp add: fair_division_def)
  moreover have "map fst (map (\<lambda>(k, n). (k, 0 :: nat)) needs) = map fst needs"
    by (simp add: case_prod_unfold comp_def)
  ultimately have "set (map fst W) \<subseteq> set (map fst (map (\<lambda>(k, n). (k, 0 :: nat)) needs))"
    by auto
  then have "map fst A = map fst (map (\<lambda>(k, n). (k, 0 :: nat)) needs)"
    unfolding A allocate_stream_token_budgets_def W by (rule fold_update_keys)
  then show ?thesis by (simp add: case_prod_unfold comp_def)
qed

lemma allocation_lookup:
  assumes d: "distinct (map fst needs)"
    and A: "A = allocate_stream_token_budgets needs total_tokens"
    and W: "W = water_fill (filter (\<lambda>(k, n). 0 < n) needs) total_tokens"
  and k: "k \<in> set (map fst needs)"
  shows "map_of A k = Some (case map_of W k of Some a \<Rightarrow> a | None \<Rightarrow> 0)"
proof -
  have "map_of (map (\<lambda>(k, n). (k, 0 :: nat)) needs) k = Some 0"
    using k by (induction needs) auto
  moreover have "distinct (map fst W)" using waiting_division [OF d A W] by (simp add: fair_division_def)
  ultimately show ?thesis
    unfolding A allocate_stream_token_budgets_def W [symmetric] by (simp add: fold_update_lookup split: option.splits)
qed

lemma allocation_sum:
  assumes d: "distinct (map fst needs)"
    and A: "A = allocate_stream_token_budgets needs total_tokens"
    and W: "W = water_fill (filter (\<lambda>(k, n). 0 < n) needs) total_tokens"
  shows "sum_list (map snd A) = sum_list (map snd W)"
proof -
  have dW: "distinct (map fst W)" and sub: "set (map fst W) \<subseteq> set (map fst needs)"
    using waiting_division [OF d A W] by (auto simp: fair_division_def)
  have "sum_list (map snd A) = (\<Sum>k \<in> set (map fst needs). the (map_of A k))"
    using sum_by_key [of A] d by (simp add: allocation_keys [OF d A W])
  also have "\<dots> = (\<Sum>k \<in> set (map fst W). the (map_of W k))"
  proof (rule sum.mono_neutral_cong_right)
    show "\<forall>k \<in> set (map fst needs) - set (map fst W). the (map_of A k) = 0"
    proof
      fix k assume k: "k \<in> set (map fst needs) - set (map fst W)"
      then have "map_of W k = None" by (intro no_key) simp
      with allocation_lookup [OF d A W, of k] k show "the (map_of A k) = 0" by simp
    qed
    show "the (map_of A k) = the (map_of W k)" if k: "k \<in> set (map fst W)" for k
    proof -
      obtain a where "map_of W k = Some a" using has_key [OF k] by blast
      moreover have "k \<in> set (map fst needs)" using k sub by blast
      ultimately show ?thesis using allocation_lookup [OF d A W, of k] by simp
    qed
  qed (use sub in auto)
  also have "\<dots> = sum_list (map snd W)" using sum_by_key [OF dW] by simp
  finally show ?thesis .
qed

lemma allocation_bounds:
  assumes d: "distinct (map fst needs)"
    and A: "A = allocate_stream_token_budgets needs total_tokens"
    and W: "W = water_fill (filter (\<lambda>(k, n). 0 < n) needs) total_tokens"
    and lk: "map_of needs k = Some n" and la: "map_of A k = Some a"
  shows "a \<le> n \<and> (a < n \<longrightarrow> sum_list (map snd A) = total_tokens \<and> (\<forall>j b. map_of A j = Some b \<longrightarrow> b \<le> a + 1))"
proof -
  have k: "k \<in> set (map fst needs)" using lk by (force dest: map_of_SomeD)
  have dW: "distinct (map fst W)" and keys: "set (map fst W) = set (map fst (filter (\<lambda>(k, n). 0 < n) needs))"
    using waiting_division [OF d A W] by (auto simp: fair_division_def)
  show ?thesis
  proof (cases "map_of W k")
    case None
    then have "a = 0" using allocation_lookup [OF d A W k] la by simp
    moreover have "n = 0"
    proof (rule ccontr)
      assume "n \<noteq> 0"
      with lk have "k \<in> set (map fst (filter (\<lambda>(k, n). 0 < n) needs))" by (force dest: map_of_SomeD)
      with keys None show False by (metis map_of_eq_None_iff set_map)
    qed
    ultimately show ?thesis by simp
  next
    case (Some a')
    then have a: "(k, a) \<in> set W" using allocation_lookup [OF d A W k] la by (auto dest: map_of_SomeD)
    then obtain m where m: "(k, m) \<in> set needs" "a \<le> m" 
      and cut: "a < m \<Longrightarrow> sum_list (map snd W) = total_tokens \<and> (\<forall>(j, b) \<in> set W. b \<le> a + 1)"
      using waiting_division [OF d A W] unfolding fair_division_def by fastforce
    have "m = n" using m(1) lk d by (metis map_of_is_SomeI option.inject)
    moreover have "b \<le> a + 1" if "a < m" "map_of A j = Some b" for j b
    proof -
      have "j \<in> set (map fst needs)" using that(2) no_key [of j A] allocation_keys [OF d A W] by fastforce
      then have "b = 0 \<or> map_of W j = Some b" using that(2) allocation_lookup [OF d A W, of j] by (auto split: option.splits)
      then show ?thesis using cut [OF that(1)] by (auto dest: map_of_SomeD)
    qed
    ultimately show ?thesis using m(2) cut by (auto simp: allocation_sum [OF d A W])
  qed
qed

lemma allocation_enough:
  assumes d: "distinct (map fst needs)"
    and A: "A = allocate_stream_token_budgets needs total_tokens"
    and W: "W = water_fill (filter (\<lambda>(k, n). 0 < n) needs) total_tokens"
    and lk: "sum_list (map snd needs) \<le> total_tokens"
  shows "A = needs"
proof -
  have dA: "distinct (map fst A)" using d allocation_keys [OF d A W] by simp
  have le: "the (map_of A k) \<le> the (map_of needs k)" if k: "k \<in> set (map fst needs)" for k
  proof -
    obtain n where "map_of needs k = Some n" using has_key [OF k] by blast
    moreover obtain a where "map_of A k = Some a" using allocation_lookup [OF d A W k] by blast
    ultimately show ?thesis using allocation_bounds [OF d A W] by simp
  qed
  have eq: "map_of A k = map_of needs k" for k
  proof (cases "k \<in> set (map fst needs)")
    case True
    obtain n where n: "map_of needs k = Some n" using has_key [OF True] by blast
    obtain a where a: "map_of A k = Some a" using allocation_lookup [OF d A W True] by blast
    have "\<not> a < n"
    proof
      assume "a < n"
      then have "sum_list (map snd A) = total_tokens" using allocation_bounds [OF d A W n a] by simp
      moreover have "sum_list (map snd A) < sum_list (map snd needs)"
      proof -
        have "(\<Sum>k \<in> set (map fst needs). the (map_of A k)) < (\<Sum>k \<in> set (map fst needs). the (map_of needs k))"
        proof (rule sum_strict_mono_ex1)
          show "\<exists>k \<in> set (map fst needs). the (map_of A k) < the (map_of needs k)"
            using True n a \<open>a < n\<close> by (intro bexI [of _ k]) simp_all
        qed (use le in simp_all)
        then show ?thesis using sum_by_key [OF dA] sum_by_key [OF d] allocation_keys [OF d A W] by simp
      qed
      ultimately show False using lk by simp
    qed
    with allocation_bounds [OF d A W n a] n a show ?thesis by simp
  next
    case False
    then show ?thesis using allocation_keys [OF d A W] no_key [of k A] no_key [of k needs] by simp
  qed
  then show ?thesis by (intro alist_eqI allocation_keys [OF d A W] d)
qed


text \<open>The token budget of a run is shared fairly between its streams, by water filling: every stream
  of the request gets an entry, no stream gets more than it needs, not more than the budget is given
  out, every stream gets all it needs when the budget covers the sum of the needs, and when some
  stream is cut then the whole budget is given out and no stream gets more than one token more than
  that stream.\<close>

theorem token_budget_shared_fairly:
  assumes "distinct (map fst needs)" and "A = allocate_stream_token_budgets needs total_tokens"
  shows "map fst A = map fst needs \<and> sum_list (map snd A) \<le> total_tokens \<and>
    (sum_list (map snd needs) \<le> total_tokens \<longrightarrow> A = needs) \<and>
    (\<forall>k n a. map_of needs k = Some n \<longrightarrow> map_of A k = Some a \<longrightarrow>
       a \<le> n \<and> (a < n \<longrightarrow> sum_list (map snd A) = total_tokens \<and> (\<forall>j b. map_of A j = Some b \<longrightarrow> b \<le> a + 1)))"
proof (intro conjI allI impI)
  show "map fst A = map fst needs" by (rule allocation_keys [OF assms refl])
  show "sum_list (map snd A) \<le> total_tokens"
    using allocation_sum [OF assms refl] waiting_division [OF assms refl] by (simp add: fair_division_def)
  show "A = needs" if "sum_list (map snd needs) \<le> total_tokens" by (rule allocation_enough [OF assms refl that])
  fix k n a assume "map_of needs k = Some n" "map_of A k = Some a"
  note b = allocation_bounds [OF assms refl this]
  show "a \<le> n" using b by simp
  show "sum_list (map snd A) = total_tokens" if "a < n" using b that by simp
  show "b \<le> a + 1" if "a < n" "map_of A j = Some b" for j b using allocation_bounds [OF assms refl, of k n a] b that by blast
qed

theorem token_budget_shared_fairly_witness:
  "allocate_stream_token_budgets [([1], 2), ([2], 9)] 11 = [([1], 2), ([2], 9)] \<and>
   sum_list (map snd (allocate_stream_token_budgets [([1], 2), ([2], 9)] 7)) \<le> 7"
  using token_budget_shared_fairly [of "[([1], 2), ([2], 9)]" _ 11, OF _ refl]
    token_budget_shared_fairly [of "[([1], 2), ([2], 9)]" _ 7, OF _ refl]
  by simp

end
