(* ===== verification/RunOutput.thy ===== *)
theory RunOutput
  imports StreamCapture WaterFill Fs
begin

text \<open>
  Running a command and showing its output: \<^verbatim>\<open>_capture_text\<close>, \<^verbatim>\<open>_render_captured_output\<close> and
  \<^verbatim>\<open>run_command\<close> in \<^verbatim>\<open>src/chatgpt_web_oauth_mcp/shell.py\<close>. What the operating system answers (the
  working directory, whether the process started, the chunks its pipes delivered before the readers were
  joined, the time-out and the exit status) is the argument \<open>env\<close>; killing the process tree is not modelled.
\<close>

section \<open>Captured text\<close>

definition capture_text :: "capture \<Rightarrow> string \<Rightarrow> ustr" where
  "capture_text c stream =
     (if dropped_bytes c = 0 then utf8_decode_replace (cp_head c @ cp_tail c)
      else utf8_decode_replace (cp_head c)
        @ ([10] @ u ''... ['' @ u stream @ u '': '' @ nat_repr (dropped_bytes c)
           @ u '' bytes omitted by capture limit] ...'' @ [10])
        @ utf8_decode_replace (cp_tail c))"

section \<open>Fitting both streams\<close>

text \<open>The dictionaries keyed by the two streams, as pairs of fields; \<open>stdout\<close> is the first key.\<close>

record streams_view =
  sv_out :: ustr
  sv_err :: ustr
  sv_alloc_out :: int
  sv_alloc_err :: int
  sv_cut_out :: bool
  sv_cut_err :: bool

definition key_out :: ustr where
  "key_out = u ''stdout''"

definition key_err :: ustr where
  "key_err = u ''stderr''"

definition allocated :: "needs \<Rightarrow> ustr \<Rightarrow> int" where
  "allocated A k = (case map_of A k of None \<Rightarrow> 0 | Some a \<Rightarrow> int a)"

definition view_fits :: "(ustr \<Rightarrow> nat) \<Rightarrow> int \<Rightarrow> streams_view \<Rightarrow> bool" where
  "view_fits tok n v = text_fits tok n (sv_out v @ sv_err v)"

text \<open>\<^verbatim>\<open>max(captures, key=...)\<close>: the first stream with the most tokens.\<close>

definition out_is_larger :: "(ustr \<Rightarrow> nat) \<Rightarrow> streams_view \<Rightarrow> bool" where
  "out_is_larger tok v \<longleftrightarrow> tok (sv_err v) \<le> tok (sv_out v)"

definition set_out :: "(ustr \<Rightarrow> nat) \<Rightarrow> ustr \<Rightarrow> int \<Rightarrow> streams_view \<Rightarrow> streams_view" where
  "set_out tok initial n v =
     (case truncate_text_to_tokens tok initial n of (r, was_cut) \<Rightarrow> v\<lparr>sv_out := r, sv_alloc_out := n, sv_cut_out := was_cut\<rparr>)"

definition set_err :: "(ustr \<Rightarrow> nat) \<Rightarrow> ustr \<Rightarrow> int \<Rightarrow> streams_view \<Rightarrow> streams_view" where
  "set_err tok initial n v =
     (case truncate_text_to_tokens tok initial n of (r, was_cut) \<Rightarrow> v\<lparr>sv_err := r, sv_alloc_err := n, sv_cut_err := was_cut\<rparr>)"

text \<open>The loop of eight rounds; its \<^verbatim>\<open>else\<close> branch empties the larger stream.\<close>

fun tighten :: "(ustr \<Rightarrow> nat) \<Rightarrow> int \<Rightarrow> ustr \<Rightarrow> ustr \<Rightarrow> nat \<Rightarrow> streams_view \<Rightarrow> streams_view" where
  "tighten tok total_tokens out err 0 v =
     (if out_is_larger tok v then v\<lparr>sv_alloc_out := 0, sv_out := [], sv_cut_out := (out \<noteq> [])\<rparr>
      else v\<lparr>sv_alloc_err := 0, sv_err := [], sv_cut_err := (err \<noteq> [])\<rparr>)"
| "tighten tok total_tokens out err (Suc k) v =
     (if view_fits tok total_tokens v then v
      else
        let excess = int (tok (sv_out v @ sv_err v)) - total_tokens in
        tighten tok total_tokens out err k
          (if out_is_larger tok v then set_out tok out (max 0 (sv_alloc_out v - max 1 excess)) v
           else set_err tok err (max 0 (sv_alloc_err v - max 1 excess)) v))"

definition initial_view :: "int \<Rightarrow> ustr \<Rightarrow> ustr \<Rightarrow> streams_view" where
  "initial_view total_tokens out err =
     \<lparr>sv_out = out, sv_err = err, sv_alloc_out = total_tokens, sv_alloc_err = total_tokens,
      sv_cut_out = False, sv_cut_err = False\<rparr>"

lemma initial_view_sel [simp]:
  "sv_out (initial_view n out err) = out" "sv_err (initial_view n out err) = err"
  "sv_alloc_out (initial_view n out err) = n" "sv_alloc_err (initial_view n out err) = n"
  by (simp_all add: initial_view_def)

definition shared_view :: "(ustr \<Rightarrow> nat) \<Rightarrow> int \<Rightarrow> ustr \<Rightarrow> ustr \<Rightarrow> streams_view" where
  "shared_view tok total_tokens out err =
     (let A = allocate_stream_token_budgets [(key_out, tok out), (key_err, tok err)] (nat total_tokens) in
      tighten tok total_tokens out err 8
        (set_err tok err (allocated A key_err)
          (set_out tok out (allocated A key_out) (initial_view total_tokens out err))))"

text \<open>The one stream of a run whose whole output is a single line.\<close>

definition oversized_stream :: "capture \<Rightarrow> capture \<Rightarrow> string option" where
  "oversized_stream c_out c_err =
     (case filter (\<lambda>(s, c). 0 < cp_total_bytes c) [(''stdout'', c_out), (''stderr'', c_err)] of
        [(s, c)] \<Rightarrow> if dropped_bytes c = 0 \<and> capture_total_lines c = 1 then Some s else None
      | _ \<Rightarrow> None)"

definition rendered_view ::
  "(ustr \<Rightarrow> nat) \<Rightarrow> int \<Rightarrow> capture \<Rightarrow> capture \<Rightarrow> streams_view \<times> string option" where
  "rendered_view tok total_tokens c_out c_err =
     (let out = capture_text c_out ''stdout''; err = capture_text c_err ''stderr'';
          v = initial_view total_tokens out err in
      if view_fits tok total_tokens v then (v, None)
      else case oversized_stream c_out c_err of
          Some s \<Rightarrow> (v, Some s)
        | None \<Rightarrow> (shared_view tok total_tokens out err, None))"

definition stream_metadata ::
  "(ustr \<Rightarrow> nat) \<Rightarrow> capture \<Rightarrow> ustr \<Rightarrow> int \<Rightarrow> bool \<Rightarrow> bool \<Rightarrow> dict" where
  "stream_metadata tok c shown budget was_cut oversized =
     (let truncated = (0 < dropped_bytes c \<or> was_cut) in
      [(''total_bytes'', jnat (cp_total_bytes c)), (''total_lines'', JInt (capture_total_lines c)),
       (''retained_bytes'', jnat (retained_bytes c)), (''retained_lines'', JInt (capture_retained_lines c)),
       (''displayed_bytes'', jnat (utf8_len shown)), (''displayed_lines'', JInt (count_lines shown)),
       (''capture_dropped_bytes'', jnat (dropped_bytes c)), (''dropped'', JBool truncated),
       (''truncated'', JBool truncated), (''capture_truncated'', JBool (0 < dropped_bytes c)),
       (''token_truncated'', JBool was_cut), (''token_count'', jnat (tok shown)),
       (''effective_token_budget'', JInt budget), (''fits_token_budget'', JBool (int (tok shown) \<le> budget)),
       (''omission_marker'', JBool truncated), (''oversized_line'', JBool oversized),
       (''long_line_truncated'', JBool (capture_total_lines c = 1 \<and> truncated))])"

definition aggregate_metadata ::
  "(ustr \<Rightarrow> nat) \<Rightarrow> int \<Rightarrow> int \<Rightarrow> capture \<Rightarrow> capture \<Rightarrow> streams_view \<Rightarrow> string option \<Rightarrow> dict" where
  "aggregate_metadata tok total_tokens capture_max c_out c_err v oversized =
     (let shown = sv_out v @ sv_err v;
          truncated = (0 < dropped_bytes c_out \<or> sv_cut_out v \<or> 0 < dropped_bytes c_err \<or> sv_cut_err v) in
      [(''total_bytes'', jnat (cp_total_bytes c_out + cp_total_bytes c_err)),
       (''total_lines'', JInt (capture_total_lines c_out + capture_total_lines c_err)),
       (''retained_bytes'', jnat (retained_bytes c_out + retained_bytes c_err)),
       (''retained_lines'', JInt (capture_retained_lines c_out + capture_retained_lines c_err)),
       (''displayed_bytes'', jnat (utf8_len shown)),
       (''displayed_lines'', JInt (count_lines (sv_out v) + count_lines (sv_err v))),
       (''capture_dropped_bytes'', jnat (dropped_bytes c_out + dropped_bytes c_err)),
       (''dropped'', JBool truncated), (''truncated'', JBool truncated),
       (''capture_truncated'', JBool (0 < dropped_bytes c_out \<or> 0 < dropped_bytes c_err)),
       (''token_truncated'', JBool (sv_cut_out v \<or> sv_cut_err v)), (''token_count'', jnat (tok shown)),
       (''effective_token_budget'', JInt total_tokens), (''fits_token_budget'', JBool (text_fits tok total_tokens shown)),
       (''displayed_payload_fits'', JBool (text_fits tok total_tokens shown)),
       (''token_encoding'', jlit ''o200k_base''), (''capture_memory_limit_bytes'', JInt capture_max),
       (''oversized_line'', JBool (oversized \<noteq> None)), (''oversized_stream'', jopt (\<lambda>s. jlit s) oversized)])"

definition render_captured_output ::
  "(ustr \<Rightarrow> nat) \<Rightarrow> int \<Rightarrow> int \<Rightarrow> capture \<Rightarrow> capture \<Rightarrow> ustr \<times> ustr \<times> dict" where
  "render_captured_output tok total_tokens capture_max c_out c_err =
     (case rendered_view tok total_tokens c_out c_err of
        (v, oversized) \<Rightarrow>
          (sv_out v, sv_err v,
           [(''stdout'', JObj (stream_metadata tok c_out (sv_out v) (sv_alloc_out v) (sv_cut_out v) (oversized = Some ''stdout''))),
            (''stderr'', JObj (stream_metadata tok c_err (sv_err v) (sv_alloc_err v) (sv_cut_err v) (oversized = Some ''stderr''))),
            (''aggregate'', JObj (aggregate_metadata tok total_tokens capture_max c_out c_err v oversized))]))"

section \<open>run_command\<close>

definition max_command_timeout_seconds :: int where
  "max_command_timeout_seconds = 300"

definition timeout_message :: ustr where
  "timeout_message = u ''run_command timeout is limited to 300s. ''
     @ u ''Use job_start for durable non-interactive work or tmux_* for interactive work. ''
     @ u ''If run_command is still required, set force=true only after explicit user approval.''"

definition timeout_limit_error :: "int \<Rightarrow> dict" where
  "timeout_limit_error timeout =
     [(''success'', JBool False),
      (''error'', JObj
         [(''code'', jlit ''timeout_exceeds_limit''), (''message'', JStr timeout_message),
          (''requested_timeout_seconds'', JInt timeout),
          (''max_timeout_seconds'', JInt max_command_timeout_seconds),
          (''force_required'', JBool True), (''approval_required'', JBool True)]),
      (''exit_code'', JInt (-1)), (''stdout'', JStr []), (''stderr'', JStr []),
      (''timed_out'', JBool False), (''timeout'', JInt timeout),
      (''hint'', jlit ''job_or_tmux_or_force_after_user_approval'')]"

record run_outcome =
  ro_stdout :: "bytes list"
  ro_stderr :: "bytes list"
  ro_timed_out :: bool
  ro_returncode :: "int option"

record run_env =
  re_cwd_exists :: bool
  re_cwd_is_dir :: bool
  re_process :: "ustr + run_outcome"

definition cwd_error :: "string \<Rightarrow> ustr \<Rightarrow> ustr \<Rightarrow> ustr \<Rightarrow> int \<Rightarrow> dict" where
  "cwd_error code message cwd command timeout =
     [(''success'', JBool False),
      (''error'', JObj [(''code'', jlit code), (''message'', JStr message)]),
      (''cwd'', JStr cwd), (''command'', JStr command), (''exit_code'', JInt (-1)),
      (''stdout'', JStr []), (''stderr'', JStr []), (''timed_out'', JBool False), (''timeout'', JInt timeout)]"

definition start_failed :: "ustr \<Rightarrow> ustr \<Rightarrow> int \<Rightarrow> bool \<Rightarrow> ustr \<Rightarrow> dict" where
  "start_failed command cwd timeout force exc =
     [(''success'', JBool False), (''command'', JStr command), (''cwd'', JStr cwd), (''exit_code'', JInt (-1)),
      (''stdout'', JStr []), (''stderr'', JStr []), (''timed_out'', JBool False), (''timeout'', JInt timeout),
      (''force'', JBool force),
      (''error'', JObj [(''code'', jlit ''command_start_failed''),
         (''message'', JStr (u ''Failed to start command: '' @ exc))])]"

definition timed_out_message :: "int \<Rightarrow> ustr" where
  "timed_out_message timeout = u ''Command exceeded the '' @ int_repr timeout @ u ''s timeout. ''
     @ u ''Retry with a larger `timeout` argument, use `job_start` for durable ''
     @ u ''non-interactive work, or use `tmux_*` for interactive work.''"

definition finished_payload ::
  "(ustr \<Rightarrow> nat) \<Rightarrow> ustr \<Rightarrow> ustr \<Rightarrow> int \<Rightarrow> bool \<Rightarrow> int \<Rightarrow> int \<Rightarrow> run_outcome \<Rightarrow> dict" where
  "finished_payload tok command cwd timeout force total_tokens capture_max ro =
     (let c_out = foldl capture_add (new_capture ((capture_max + 1) div 2)) (ro_stdout ro);
          c_err = foldl capture_add (new_capture (capture_max div 2)) (ro_stderr ro) in
      case render_captured_output tok total_tokens capture_max c_out c_err of
        (out, err, metadata) \<Rightarrow>
          if ro_timed_out ro then
            [(''success'', JBool False), (''command'', JStr command), (''cwd'', JStr cwd),
             (''exit_code'', JInt (-1)), (''stdout'', JStr out), (''stderr'', JStr err),
             (''timed_out'', JBool True), (''timeout'', JInt timeout), (''output_metadata'', JObj metadata),
             (''error'', JObj [(''code'', jlit ''timed_out''), (''message'', JStr (timed_out_message timeout))]),
             (''hint'', jlit ''increase_timeout_or_use_job_or_tmux'')]
          else
            let exit_code = (case ro_returncode ro of None \<Rightarrow> -1 | Some c \<Rightarrow> c) in
            [(''success'', JBool (exit_code = 0)), (''command'', JStr command), (''cwd'', JStr cwd),
             (''exit_code'', JInt exit_code), (''stdout'', JStr out), (''stderr'', JStr err),
             (''timed_out'', JBool False), (''timeout'', JInt timeout), (''force'', JBool force),
             (''output_metadata'', JObj metadata)])"

definition run_command ::
  "(ustr \<Rightarrow> nat) \<Rightarrow> run_env \<Rightarrow> ustr \<Rightarrow> ustr \<Rightarrow> int \<Rightarrow> bool \<Rightarrow> int \<Rightarrow> int \<Rightarrow> tool_result" where
  "run_command tok env command cwd timeout force total_tokens capture_max =
     (if max_command_timeout_seconds < timeout \<and> \<not> force then
        Reply (dict_update (timeout_limit_error timeout) [(''command'', JStr command), (''cwd'', JStr cwd)])
      else if \<not> re_cwd_exists env then
        Reply (cwd_error ''cwd_not_found'' (u ''Working directory not found: '' @ cwd) cwd command timeout)
      else if \<not> re_cwd_is_dir env then
        Reply (cwd_error ''cwd_not_directory'' (u ''Working directory is not a directory: '' @ cwd) cwd command timeout)
      else if total_tokens \<le> 0 then Raises InvalidValue
      else if capture_max \<le> 0 then Raises InvalidValue
      else case re_process env of
          Inl exc \<Rightarrow> Reply (start_failed command cwd timeout force exc)
        | Inr ro \<Rightarrow> Reply (finished_payload tok command cwd timeout force total_tokens capture_max ro))"

section \<open>What is shown fits\<close>

definition view_bounded :: "(ustr \<Rightarrow> nat) \<Rightarrow> int \<Rightarrow> streams_view \<Rightarrow> bool" where
  "view_bounded tok n v \<longleftrightarrow>
     int (tok (sv_out v)) \<le> sv_alloc_out v \<and> sv_alloc_out v \<le> n \<and>
     int (tok (sv_err v)) \<le> sv_alloc_err v \<and> sv_alloc_err v \<le> n"

lemma set_out_view:
  assumes "tok [] = 0" "0 \<le> k" "k \<le> n" "int (tok (sv_err v)) \<le> sv_alloc_err v" "sv_alloc_err v \<le> n"
  shows "view_bounded tok n (set_out tok s k v)"
proof -
  obtain r t where t: "truncate_text_to_tokens tok s k = (r, t)" by fastforce
  then have "int (tok r) \<le> k" by (rule truncate_fits) (use assms in simp)
  with assms t show ?thesis by (simp add: set_out_def view_bounded_def)
qed

lemma set_err_view:
  assumes "tok [] = 0" "0 \<le> k" "k \<le> n" "int (tok (sv_out v)) \<le> sv_alloc_out v" "sv_alloc_out v \<le> n"
  shows "view_bounded tok n (set_err tok s k v)"
proof -
  obtain r t where t: "truncate_text_to_tokens tok s k = (r, t)" by fastforce
  then have "int (tok r) \<le> k" by (rule truncate_fits) (use assms in simp)
  with assms t show ?thesis by (simp add: set_err_def view_bounded_def)
qed

lemma tighten_fits:
  assumes "tok [] = 0" "0 < n"
  shows "view_bounded tok n v \<Longrightarrow> view_fits tok n (tighten tok n out err k v)"
proof (induction k arbitrary: v)
  case 0
  then show ?case by (auto simp: view_fits_def view_bounded_def)
next
  case (Suc k)
  have le: "max 0 (a - max 1 e) \<le> n" if "a \<le> n" for a e :: int using that assms(2) by auto
  show ?case
  proof (cases "view_fits tok n v")
    case False
    have "view_bounded tok n (set_out tok out (max 0 (sv_alloc_out v - max 1 e)) v)" for e
      by (rule set_out_view) (use assms Suc.prems le in \<open>auto simp: view_bounded_def\<close>)
    moreover have "view_bounded tok n (set_err tok err (max 0 (sv_alloc_err v - max 1 e)) v)" for e
      by (rule set_err_view) (use assms Suc.prems le in \<open>auto simp: view_bounded_def\<close>)
    ultimately show ?thesis using Suc.IH False by (simp add: Let_def)
  qed simp
qed

lemma allocated_bounds: "0 \<le> allocated A k \<and> allocated A k \<le> int (sum_list (map snd A))"
proof (cases "map_of A k")
  case (Some a)
  then have "a \<in> set (map snd A)" by (force dest: map_of_SomeD)
  then have "a \<le> sum_list (map snd A)" by (rule member_le_sum_list) simp
  with Some show ?thesis by (simp add: allocated_def)
qed (simp add: allocated_def)

lemma keys_distinct: "key_out \<noteq> key_err"
  by (simp add: key_out_def key_err_def)

lemma shared_view_fits:
  assumes "tok [] = 0" "0 < n"
  shows "view_fits tok n (shared_view tok n out err)"
proof -
  define A where "A = allocate_stream_token_budgets [(key_out, tok out), (key_err, tok err)] (nat n)"
  have "sum_list (map snd A) \<le> nat n"
    using allocation_sum [OF _ A_def refl] waiting_division [OF _ A_def refl] keys_distinct
    by (simp add: fair_division_def)
  then have a: "0 \<le> allocated A k" "allocated A k \<le> n" for k
    using allocated_bounds [of A k] assms(2) by linarith+
  define v where "v = set_out tok out (allocated A key_out) (initial_view n out err)"
  obtain r t where t: "truncate_text_to_tokens tok out (allocated A key_out) = (r, t)" by fastforce
  then have "int (tok r) \<le> allocated A key_out" by (rule truncate_fits) (use assms a in simp)
  then have "int (tok (sv_out v)) \<le> sv_alloc_out v" "sv_alloc_out v \<le> n"
    using t a by (simp_all add: v_def set_out_def)
  then have "view_bounded tok n (set_err tok err (allocated A key_err) v)"
    by (intro set_err_view assms a)
  from tighten_fits [OF assms this] show ?thesis
    unfolding shared_view_def Let_def A_def [symmetric] v_def [symmetric] by blast
qed

text \<open>The cases of the rendering.\<close>

lemma rendered_view_cases:
  assumes "rendered_view tok n c_out c_err = (v, oversized)"
    and "out = capture_text c_out ''stdout''" "err = capture_text c_err ''stderr''"
  obtains (whole) "v = initial_view n out err" "oversized = None" "int (tok (out @ err)) \<le> n"
  | (one_line) s where "v = initial_view n out err" "oversized = Some s" "oversized_stream c_out c_err = Some s"
      "n < int (tok (out @ err))"
  | (shared) "v = shared_view tok n out err" "oversized = None" "n < int (tok (out @ err))"
proof -
  have e: "(v, oversized) = (if int (tok (out @ err)) \<le> n then (initial_view n out err, None)
      else case oversized_stream c_out c_err of Some s \<Rightarrow> (initial_view n out err, Some s)
        | None \<Rightarrow> (shared_view tok n out err, None))"
    unfolding assms(1) [symmetric] rendered_view_def Let_def view_fits_def assms(2,3)
    by (simp add: initial_view_sel)
  show thesis
  proof (cases "int (tok (out @ err)) \<le> n")
    case True
    with e show thesis by (intro whole) simp_all
  next
    case False
    with e show thesis
      by (cases "oversized_stream c_out c_err") (auto intro: one_line shared)
  qed
qed

lemma oversized_stream_whole:
  assumes "oversized_stream c_out c_err = Some s"
  shows "s = ''stdout'' \<and> dropped_bytes c_out = 0 \<and> capture_total_lines c_out = 1 \<and> cp_total_bytes c_err = 0 \<or>
    s = ''stderr'' \<and> dropped_bytes c_err = 0 \<and> capture_total_lines c_err = 1 \<and> cp_total_bytes c_out = 0"
  using assms by (auto simp: oversized_stream_def split: if_splits list.splits)


section \<open>The reply of a run\<close>

definition whole_out :: "int \<Rightarrow> run_outcome \<Rightarrow> ustr" where
  "whole_out capture_max ro =
     capture_text (foldl capture_add (new_capture ((capture_max + 1) div 2)) (ro_stdout ro)) ''stdout''"

definition whole_err :: "int \<Rightarrow> run_outcome \<Rightarrow> ustr" where
  "whole_err capture_max ro =
     capture_text (foldl capture_add (new_capture (capture_max div 2)) (ro_stderr ro)) ''stderr''"

lemma finished_payload_fields:
  assumes "rendered_view tok n (foldl capture_add (new_capture ((cm + 1) div 2)) (ro_stdout ro))
      (foldl capture_add (new_capture (cm div 2)) (ro_stderr ro)) = (v, oversized)"
    and "d = finished_payload tok command cwd timeout force n cm ro"
  shows "map_of d ''stdout'' = Some (JStr (sv_out v))" "map_of d ''stderr'' = Some (JStr (sv_err v))"
    "map_of d ''success'' = Some (JBool (\<not> ro_timed_out ro \<and> ro_returncode ro = Some 0))"
    "map_of d ''timed_out'' = Some (JBool (ro_timed_out ro))"
    "map_of d ''exit_code'' = Some (JInt (if ro_timed_out ro then -1 else case ro_returncode ro of None \<Rightarrow> -1 | Some c \<Rightarrow> c))"
    "map_of d ''output_metadata'' \<noteq> None"
  unfolding assms(2) finished_payload_def Let_def render_captured_output_def assms(1)
  by (auto split: option.splits)

lemma run_command_finished:
  assumes "run_command tok env command cwd timeout force n cm = Reply d" "map_of d ''output_metadata'' \<noteq> None"
  obtains ro where "re_process env = Inr ro" "d = finished_payload tok command cwd timeout force n cm ro"
    "0 < n" "0 < cm" "re_cwd_exists env" "re_cwd_is_dir env" "timeout \<le> max_command_timeout_seconds \<or> force"
proof (cases "re_process env")
  case (Inl exc)
  with assms have False
    by (auto simp: run_command_def timeout_limit_error_def cwd_error_def start_failed_def map_of_dict_update split: if_splits)
  then show thesis ..
next
  case (Inr ro)
  with assms have "d = finished_payload tok command cwd timeout force n cm ro \<and> 0 < n \<and> 0 < cm \<and>
      re_cwd_exists env \<and> re_cwd_is_dir env \<and> (timeout \<le> max_command_timeout_seconds \<or> force)"
    by (auto simp: run_command_def timeout_limit_error_def cwd_error_def map_of_dict_update split: if_splits)
  with Inr that show thesis by blast
qed

text \<open>The output of a finished run fits its token budget. What run_command shows of stdout and stderr
  together measures at most the budget; the only exception is a run whose output is one single line of
  one stream, which is shown whole. When the captured text fits, it is shown unchanged, and the captured
  text of a stream that stayed within its capture limit is the decoding of every byte it wrote.\<close>

theorem run_output_within_budget:
  assumes "tok [] = 0"
    and "run_command tok env command cwd timeout force n cm = Reply d"
    and "map_of d ''output_metadata'' \<noteq> None"
  shows "\<exists>ro out err. re_process env = Inr ro \<and>
    map_of d ''stdout'' = Some (JStr out) \<and> map_of d ''stderr'' = Some (JStr err) \<and>
    (int (tok (out @ err)) \<le> n \<or>
       out = whole_out cm ro \<and> err = whole_err cm ro \<and>
       (concat (ro_stdout ro) = [] \<and> count_lines (concat (ro_stderr ro)) = 1 \<or>
        concat (ro_stderr ro) = [] \<and> count_lines (concat (ro_stdout ro)) = 1)) \<and>
    (int (tok (whole_out cm ro @ whole_err cm ro)) \<le> n \<longrightarrow> out = whole_out cm ro \<and> err = whole_err cm ro) \<and>
    (int (length (concat (ro_stdout ro))) \<le> (cm + 1) div 2
       \<longrightarrow> whole_out cm ro = utf8_decode_replace (concat (ro_stdout ro))) \<and>
    (int (length (concat (ro_stderr ro))) \<le> cm div 2
       \<longrightarrow> whole_err cm ro = utf8_decode_replace (concat (ro_stderr ro)))"
proof -
  obtain ro where ro: "re_process env = Inr ro" "d = finished_payload tok command cwd timeout force n cm ro"
    "0 < n" "0 < cm" using run_command_finished [OF assms(2,3)] by metis
  define c_out c_err where "c_out = foldl capture_add (new_capture ((cm + 1) div 2)) (ro_stdout ro)"
    and "c_err = foldl capture_add (new_capture (cm div 2)) (ro_stderr ro)"
  obtain v oversized where v: "rendered_view tok n c_out c_err = (v, oversized)" by fastforce
  note f = finished_payload_fields(1,2) [OF v [unfolded c_out_def c_err_def] ro(2)]
  have texts: "whole_out cm ro = capture_text c_out ''stdout''" "whole_err cm ro = capture_text c_err ''stderr''"
    by (simp_all add: whole_out_def whole_err_def c_out_def c_err_def)
  note co = capture_stream [OF c_out_def] and ce = capture_stream [OF c_err_def]
  have fit: "int (tok (sv_out v @ sv_err v)) \<le> n \<or>
      sv_out v = whole_out cm ro \<and> sv_err v = whole_err cm ro \<and>
      (concat (ro_stdout ro) = [] \<and> count_lines (concat (ro_stderr ro)) = 1 \<or>
       concat (ro_stderr ro) = [] \<and> count_lines (concat (ro_stdout ro)) = 1)"
    using v texts
  proof (cases rule: rendered_view_cases)
    case whole
    then show ?thesis by simp
  next
    case (one_line s)
    from oversized_stream_whole [OF this(3)] one_line(1) co(3,4) ce(3,4) show ?thesis by auto
  next
    case shared
    with shared_view_fits [of tok n, OF assms(1) ro(3)] show ?thesis by (simp add: view_fits_def)
  qed
  have same: "sv_out v = whole_out cm ro \<and> sv_err v = whole_err cm ro"
    if "int (tok (whole_out cm ro @ whole_err cm ro)) \<le> n"
    using v texts that by (cases rule: rendered_view_cases) simp_all
  have kept: "capture_text c s = utf8_decode_replace (concat chunks)"
    if "c = foldl capture_add (new_capture m) chunks" "int (length (concat chunks)) \<le> m" for c m chunks s
  proof -
    have "dropped_bytes c = 0" using capture_stream(5,6) [OF that(1)] that(2) by (auto simp: min_def split: if_splits)
    moreover have "cp_head c @ cp_tail c = concat chunks" using capture_stream(7) [OF that(1)] that(2) by simp
    ultimately show ?thesis by (simp only: capture_text_def if_True refl)
  qed
  have "int (length (concat (ro_stdout ro))) \<le> (cm + 1) div 2 \<longrightarrow> whole_out cm ro = utf8_decode_replace (concat (ro_stdout ro))"
    "int (length (concat (ro_stderr ro))) \<le> cm div 2 \<longrightarrow> whole_err cm ro = utf8_decode_replace (concat (ro_stderr ro))"
    using kept [OF c_out_def] kept [OF c_err_def] by (simp_all add: texts)
  with ro(1) f fit same show ?thesis by blast
qed


definition echo_env :: run_env where
  "echo_env = \<lparr>re_cwd_exists = True, re_cwd_is_dir = True,
     re_process = Inr \<lparr>ro_stdout = [[104, 105]], ro_stderr = [[10, 10]], ro_timed_out = False, ro_returncode = Some 0\<rparr>\<rparr>"

theorem run_output_within_budget_witness:
  "\<exists>d out err. run_command length echo_env (u ''x'') (u ''/w'') 5 False 3 100 = Reply d \<and>
     map_of d ''stdout'' = Some (JStr out) \<and> map_of d ''stderr'' = Some (JStr err) \<and> length (out @ err) \<le> 3"
proof -
  define d where "d = finished_payload length (u ''x'') (u ''/w'') 5 False 3 100
    \<lparr>ro_stdout = [[104, 105]], ro_stderr = [[10, 10]], ro_timed_out = False, ro_returncode = Some 0\<rparr>"
  have r: "run_command length echo_env (u ''x'') (u ''/w'') 5 False 3 100 = Reply d"
    by (simp add: run_command_def echo_env_def max_command_timeout_seconds_def d_def)
  have m: "map_of d ''output_metadata'' \<noteq> None"
    unfolding d_def by (rule finished_payload_fields(6) [OF prod.collapse [symmetric] refl])
  have two: "count_lines [10, 10] = 2" by code_simp
  show ?thesis
    using run_output_within_budget [OF _ r m] r two by (auto simp: echo_env_def)
qed

text \<open>The success flag of a run is the exit status. When run_command replies success, the command was
  started in an existing directory, finished before its time-out, and exited with status 0; a finished
  command with another status, a time-out, a missing directory, a failure to start and a refused time-out
  are all replies with success false and an exit code that is not 0.\<close>

theorem run_success_is_exit_zero:
  assumes "run_command tok env command cwd timeout force n cm = Reply d"
  shows "(map_of d ''success'' = Some (JBool True) \<longleftrightarrow>
      (\<exists>ro. re_process env = Inr ro \<and> \<not> ro_timed_out ro \<and> ro_returncode ro = Some 0 \<and>
        re_cwd_exists env \<and> re_cwd_is_dir env \<and> (timeout \<le> max_command_timeout_seconds \<or> force))) \<and>
    (map_of d ''success'' = Some (JBool True) \<longleftrightarrow> map_of d ''exit_code'' = Some (JInt 0))"
proof (cases "\<exists>ro. re_process env = Inr ro \<and> re_cwd_exists env \<and> re_cwd_is_dir env \<and>
    (timeout \<le> max_command_timeout_seconds \<or> force)")
  case False
  then have "map_of d ''success'' = Some (JBool False) \<and> map_of d ''exit_code'' = Some (JInt (-1))"
    using assms
    by (cases "re_process env")
       (auto simp: run_command_def timeout_limit_error_def cwd_error_def start_failed_def map_of_dict_update split: if_splits)
  with False show ?thesis by auto
next
  case True
  then obtain ro where ro: "re_process env = Inr ro" by blast
  with True assms have d: "d = finished_payload tok command cwd timeout force n cm ro"
    by (auto simp: run_command_def split: if_splits)
  note f = finished_payload_fields [OF prod.collapse [symmetric] d]
  show ?thesis unfolding f(3,5) using True ro by (auto split: option.splits)
qed

theorem run_success_is_exit_zero_witness:
  "\<exists>d. run_command length echo_env (u ''x'') (u ''/w'') 5 False 3 100 = Reply d \<and> map_of d ''exit_code'' = Some (JInt 0)"
proof -
  obtain d where r: "run_command length echo_env (u ''x'') (u ''/w'') 5 False 3 100 = Reply d"
    by (simp add: run_command_def echo_env_def max_command_timeout_seconds_def)
  show ?thesis
    using run_success_is_exit_zero [OF r] r
    by (auto simp: echo_env_def max_command_timeout_seconds_def)
qed

end
