(* ===== verification/RunBatch.thy ===== *)
theory RunBatch
  imports RunOutput
begin

text \<open>
  Batches of commands: \<^verbatim>\<open>_fit_command_batch_to_budget\<close> and \<^verbatim>\<open>run_commands\<close> in
  \<^verbatim>\<open>src/chatgpt_web_oauth_mcp/shell.py\<close>. \<open>envs i\<close> is what the operating system answers to the command
  with index \<open>i\<close>; in parallel mode \<open>order\<close> is the order in which the futures complete.
\<close>

section \<open>Fitting the batch\<close>

definition stream_of :: "dict \<Rightarrow> string \<Rightarrow> ustr" where
  "stream_of d s = (case map_of d s of Some (JStr t) \<Rightarrow> t | _ \<Rightarrow> [])"

definition index_of :: "dict \<Rightarrow> int" where
  "index_of d = (case map_of d ''index'' of Some (JInt i) \<Rightarrow> i | _ \<Rightarrow> 0)"

definition batch_key :: "dict \<Rightarrow> string \<Rightarrow> ustr" where
  "batch_key d s = int_repr (index_of d) @ u '':'' @ u s"

definition result_needs :: "(ustr \<Rightarrow> nat) \<Rightarrow> dict \<Rightarrow> needs" where
  "result_needs tok d =
     map (\<lambda>s. (batch_key d s, if stream_of d s = [] then 0 else tok (stream_of d s))) [''stdout'', ''stderr'']"

definition content_needs :: "(ustr \<Rightarrow> nat) \<Rightarrow> dict list \<Rightarrow> needs" where
  "content_needs tok results =
     fold (\<lambda>(k, n). AList.update k n) (concat (map (result_needs tok) results)) []"

text \<open>One result with its share: the result, and whether a stream was cut.\<close>

definition fit_result :: "(ustr \<Rightarrow> nat) \<Rightarrow> needs \<Rightarrow> needs \<Rightarrow> dict \<Rightarrow> dict \<times> bool" where
  "fit_result tok needs A d =
     (case truncate_text_to_tokens tok (stream_of d ''stdout'') (allocated A (batch_key d ''stdout'')) of
        (out, cut_out) \<Rightarrow>
      case truncate_text_to_tokens tok (stream_of d ''stderr'') (allocated A (batch_key d ''stderr'')) of
        (err, cut_err) \<Rightarrow>
          let shown = AList.update ''stderr'' (JStr err) (AList.update ''stdout'' (JStr out) d);
              short = list_ex (\<lambda>s. allocated A (batch_key d s) < allocated needs (batch_key d s)) [''stdout'', ''stderr'']
          in (if short then AList.update ''batch_budget_truncated'' (JBool True) shown else shown,
              cut_out \<or> cut_err))"

definition aggregate_token_count :: "dict \<Rightarrow> json" where
  "aggregate_token_count d =
     (case map_of d ''output_metadata'' of
        Some (JObj m) \<Rightarrow> (case map_of m ''aggregate'' of Some (JObj a) \<Rightarrow> get_or_null a ''token_count'' | _ \<Rightarrow> JNull)
      | _ \<Rightarrow> JNull)"

definition compact_result :: "dict \<Rightarrow> dict" where
  "compact_result d =
     (if map_of d ''output_metadata'' = None then d
      else AList.update ''output_metadata''
        (JObj [(''aggregate'', JObj [(''token_count'', aggregate_token_count d), (''batch_budget_truncated'', JBool True)])]) d)"

definition summary_result :: "dict \<Rightarrow> dict" where
  "summary_result d =
     [(''index'', get_or_null d ''index''), (''success'', get_or_null d ''success''),
      (''exit_code'', get_or_null d ''exit_code''), (''timed_out'', get_or_null d ''timed_out''),
      (''output_omitted_by_batch_budget'', JBool True)]"

definition with_results :: "dict list \<Rightarrow> dict \<Rightarrow> dict" where
  "with_results results payload = AList.update ''results'' (JList (map JObj results)) payload"

definition fit_command_batch_to_budget ::
  "(ustr \<Rightarrow> nat) \<Rightarrow> dict \<Rightarrow> dict list \<Rightarrow> int \<Rightarrow> dict" where
  "fit_command_batch_to_budget tok payload results total_tokens =
     (let b = \<lparr>max_tokens = total_tokens, max_bytes = None\<rparr>;
          needs = content_needs tok results;
          A = allocate_stream_token_budgets needs (nat (total_tokens div 2));
          fitted = map (fit_result tok needs A) results;
          any_truncated = list_ex snd fitted;
          working = AList.update ''next_offset'' JNull (with_results (map fst fitted) payload);
          (rendered, m) = with_budget_metadata tok working b any_truncated
            (if any_truncated then ''token_budget'' else ''end_of_results'') in
      if fits m then rendered
      else
        let compact = map (compact_result \<circ> fst) fitted;
            (rendered, m) = with_budget_metadata tok (with_results compact rendered) b True ''token_budget'' in
        if fits m then rendered
        else fst (with_budget_metadata tok (with_results (map summary_result compact) rendered) b True ''token_budget''))"

section \<open>run_commands\<close>

definition max_command_batch_concurrency :: int where
  "max_command_batch_concurrency = 3"

definition max_command_batch_size :: nat where
  "max_command_batch_size = 20"

definition invalid_batch_arguments :: "string \<Rightarrow> tool_result" where
  "invalid_batch_arguments message =
     Reply [(''success'', JBool False), (''mode'', jlit ''batch''),
       (''error'', JObj [(''code'', jlit ''invalid_arguments''), (''message'', jlit message)]),
       (''results'', JList [])]"

definition with_batch_index :: "nat \<Rightarrow> dict \<Rightarrow> dict" where
  "with_batch_index i d = AList.update ''index'' (jnat i) d"

text \<open>The replies of the commands in the order they ran, or the first exception.\<close>

fun replies :: "(nat \<Rightarrow> tool_result) \<Rightarrow> nat list \<Rightarrow> py_error + dict list" where
  "replies run [] = Inr []"
| "replies run (i # is) =
     (case run i of
        Raises e \<Rightarrow> Inl e
      | Reply d \<Rightarrow> (case replies run is of Inl e \<Rightarrow> Inl e | Inr ds \<Rightarrow> Inr (with_batch_index i d # ds)))"

text \<open>The parallel loop: each completed future fills its slot, and the filled slots are the results.\<close>

fun place_replies :: "(nat \<Rightarrow> tool_result) \<Rightarrow> nat list \<Rightarrow> dict option list \<Rightarrow> py_error + dict option list" where
  "place_replies run [] slots = Inr slots"
| "place_replies run (i # order) slots =
     (case run i of
        Raises e \<Rightarrow> Inl e
      | Reply d \<Rightarrow> place_replies run order (slots[i := Some (with_batch_index i d)]))"

definition parallel_replies :: "(nat \<Rightarrow> tool_result) \<Rightarrow> nat \<Rightarrow> nat list \<Rightarrow> py_error + dict list" where
  "parallel_replies run n order =
     (case place_replies run order (replicate n None) of
        Inl e \<Rightarrow> Inl e
      | Inr slots \<Rightarrow> Inr (concat (map (\<lambda>s. case s of None \<Rightarrow> [] | Some d \<Rightarrow> [d]) slots)))"

definition is_true :: "dict \<Rightarrow> string \<Rightarrow> bool" where
  "is_true d k = (case map_of d k of None \<Rightarrow> False | Some j \<Rightarrow> \<not> json_falsy j)"

definition batch_payload :: "string \<Rightarrow> nat \<Rightarrow> int \<Rightarrow> int \<Rightarrow> bool \<Rightarrow> dict list \<Rightarrow> dict" where
  "batch_payload mode count concurrency timeout force results =
     (let failed = length (filter (\<lambda>d. \<not> is_true d ''success'') results) in
      [(''success'', JBool (failed = 0)), (''mode'', jlit ''batch''), (''execution_mode'', jlit mode),
       (''command_count'', jnat count), (''completed_count'', jnat (length results)),
       (''failed_count'', jnat failed),
       (''timed_out_count'', jnat (length (filter (\<lambda>d. is_true d ''timed_out'') results))),
       (''max_concurrency'', JInt concurrency), (''timeout'', JInt timeout), (''force'', JBool force),
       (''results'', JList (map JObj results))])"

text \<open>The part of \<^verbatim>\<open>run_commands\<close> after the checks of its arguments.\<close>

definition run_batch ::
  "(ustr \<Rightarrow> nat) \<Rightarrow> (nat \<Rightarrow> run_env) \<Rightarrow> nat list \<Rightarrow> ustr list \<Rightarrow> ustr \<Rightarrow> int \<Rightarrow> bool \<Rightarrow> string \<Rightarrow> int \<Rightarrow> int \<Rightarrow> int
   \<Rightarrow> tool_result" where
  "run_batch tok envs order commands cwd timeout force mode concurrency total_tokens capture_max =
     (let n = length commands;
          run = (\<lambda>i. run_command tok (envs i) (commands ! i) cwd timeout force total_tokens capture_max) in
      case (if mode = ''sequential'' then replies run [0..<n] else parallel_replies run n order) of
        Inl e \<Rightarrow> Raises e
      | Inr results \<Rightarrow>
          if total_tokens \<le> 0 then Raises InvalidValue
          else Reply (fit_command_batch_to_budget tok
            (batch_payload mode n (if mode = ''sequential'' then 1 else min concurrency (int n)) timeout force results)
            results total_tokens))"

definition run_commands ::
  "(ustr \<Rightarrow> nat) \<Rightarrow> (nat \<Rightarrow> run_env) \<Rightarrow> nat list \<Rightarrow> ustr list \<Rightarrow> ustr \<Rightarrow> int \<Rightarrow> bool \<Rightarrow> string \<Rightarrow> int \<Rightarrow> int \<Rightarrow> int
   \<Rightarrow> tool_result" where
  "run_commands tok envs order commands cwd timeout force mode concurrency total_tokens capture_max =
     (if max_command_timeout_seconds < timeout \<and> \<not> force then
        Reply (dict_update (timeout_limit_error timeout)
          [(''mode'', jlit ''batch''), (''cwd'', JStr cwd), (''results'', JList []),
           (''command_count'', jnat (length commands))])
      else if commands = [] then invalid_batch_arguments ''Provide at least one command.''
      else if list_ex (\<lambda>c. strip c = []) commands then
        invalid_batch_arguments ''Batch commands must be non-empty strings.''
      else if max_command_batch_size < length commands then
        invalid_batch_arguments ''At most 20 commands may be executed in one batch.''
      else if mode \<noteq> ''sequential'' \<and> mode \<noteq> ''parallel'' then
        invalid_batch_arguments ''mode must be one of: sequential, parallel.''
      else if concurrency < 1 \<or> max_command_batch_concurrency < concurrency then
        invalid_batch_arguments ''max_concurrency must be between 1 and 3.''
      else
        run_batch tok envs order commands cwd timeout force mode concurrency total_tokens capture_max)"

section \<open>The order in which commands complete\<close>

lemma place_replies_slots:
  "place_replies run order slots = Inr slots' \<Longrightarrow>
   length slots' = length slots \<and>
   (\<forall>i < length slots. slots' ! i =
      (if i \<in> set order then (case run i of Reply d \<Rightarrow> Some (with_batch_index i d) | Raises e \<Rightarrow> None) else slots ! i))"
proof (induction run order slots rule: place_replies.induct)
  case (2 run i order slots)
  then obtain d where d: "run i = Reply d" by (auto split: tool_result.splits)
  with 2 show ?case by (auto simp: nth_list_update)
qed simp

lemma place_replies_ok:
  "(\<forall>i \<in> set order. \<exists>d. run i = Reply d) \<longleftrightarrow> (\<exists>slots'. place_replies run order slots = Inr slots')"
  by (induction run order slots rule: place_replies.induct) (auto split: tool_result.splits)

lemma replies_ok:
  "replies run is = Inr ds \<longleftrightarrow>
   (\<forall>i \<in> set is. \<exists>d. run i = Reply d) \<and>
   ds = map (\<lambda>i. case run i of Reply d \<Rightarrow> with_batch_index i d | Raises e \<Rightarrow> []) is"
proof (induction "is" arbitrary: ds)
  case (Cons i js)
  show ?case
  proof (cases "run i")
    case (Reply d)
    with Cons.IH show ?thesis by (cases "replies run js") auto
  qed simp
qed auto

lemma concat_singletons: "concat (map (\<lambda>i. [f i]) is) = map f is"
  by (induction "is") simp_all

text \<open>Whatever the order of completion, the parallel results are the sequential ones.\<close>

lemma parallel_is_sequential:
  assumes "set order = {0..<n}"
  shows "parallel_replies run n order = Inr ds \<longleftrightarrow> replies run [0..<n] = Inr ds"
proof (cases "\<forall>i \<in> set order. \<exists>d. run i = Reply d")
  case True
  then obtain slots where s: "place_replies run order (replicate n None) = Inr slots"
    using place_replies_ok by metis
  note p = place_replies_slots [OF s]
  have "slots = map (\<lambda>i. Some (case run i of Reply d \<Rightarrow> with_batch_index i d | Raises e \<Rightarrow> [])) [0..<n]"
  proof (rule nth_equalityI)
    fix i assume "i < length slots"
    then have i: "i < n" using p by simp
    then have "i \<in> set order" using assms by simp
    with True obtain d where "run i = Reply d" by blast
    with p i assms show "slots ! i =
        map (\<lambda>i. Some (case run i of Reply d \<Rightarrow> with_batch_index i d | Raises e \<Rightarrow> [])) [0..<n] ! i" by simp
  qed (use p in simp)
  then have "parallel_replies run n order =
      Inr (map (\<lambda>i. case run i of Reply d \<Rightarrow> with_batch_index i d | Raises e \<Rightarrow> []) [0..<n])"
    by (simp add: parallel_replies_def s comp_def concat_singletons)
  with True assms show ?thesis by (auto simp: replies_ok)
next
  case False
  then have "\<nexists>slots. place_replies run order (replicate n None) = Inr slots" using place_replies_ok by metis
  then obtain e where "place_replies run order (replicate n None) = Inl e" by (metis sumE)
  with False assms show ?thesis by (auto simp: parallel_replies_def replies_ok)
qed


section \<open>What every level of the reply keeps\<close>

text \<open>The outcome of a command: what the summary keeps.\<close>

definition outcome :: "dict \<Rightarrow> json option list" where
  "outcome d = map (map_of d) [''index'', ''success'', ''exit_code'', ''timed_out'']"

definition has_outcome :: "dict \<Rightarrow> bool" where
  "has_outcome d \<longleftrightarrow> None \<notin> set (outcome d)"

lemma outcome_fit: "outcome (fst (fit_result tok needs A d)) = outcome d"
  by (simp add: fit_result_def outcome_def Let_def case_prod_beta dict_simps)

lemma outcome_compact: "outcome (compact_result d) = outcome d"
  by (simp add: compact_result_def outcome_def dict_simps)

lemma outcome_summary: "has_outcome d \<Longrightarrow> outcome (summary_result d) = outcome d"
  by (auto simp: summary_result_def outcome_def has_outcome_def get_or_null_def eq_commute [of None] split: option.splits)

lemma with_results_lookup:
  "map_of (with_results rs p) k = (if k = ''results'' then Some (JList (map JObj rs)) else map_of p k)"
  by (simp add: with_results_def dict_simps)

lemma fit_batch_keeps:
  assumes "\<And>d. d \<in> set results \<Longrightarrow> has_outcome d"
    and "r = fit_command_batch_to_budget tok payload results n"
  shows "\<exists>rs. map_of r ''results'' = Some (JList (map JObj rs)) \<and> map outcome rs = map outcome results"
    and "k \<in> {''success'', ''failed_count'', ''command_count'', ''timed_out_count'', ''completed_count''} \<Longrightarrow> map_of r k = map_of payload k"
proof -
  define b where "b = \<lparr>max_tokens = n, max_bytes = None\<rparr>"
  define needs where "needs = content_needs tok results"
  define A where "A = allocate_stream_token_budgets needs (nat (n div 2))"
  define fitted where "fitted = map (fit_result tok needs A) results"
  define cut where "cut \<longleftrightarrow> list_ex snd fitted"
  define compact where "compact = map (compact_result \<circ> fst) fitted"
  define working where "working = AList.update ''next_offset'' JNull (with_results (map fst fitted) payload)"
  obtain r1 m1 where r1: "with_budget_metadata tok working b cut
      (if cut then ''token_budget'' else ''end_of_results'') = (r1, m1)" by fastforce
  obtain r2 m2 where r2: "with_budget_metadata tok (with_results compact r1) b True ''token_budget'' = (r2, m2)"
    by fastforce
  obtain r3 m3 where r3: "with_budget_metadata tok (with_results (map summary_result compact) r2) b True ''token_budget''
      = (r3, m3)" by fastforce
  have r: "r = (if fits m1 then r1 else if fits m2 then r2 else r3)"
    unfolding assms(2) fit_command_batch_to_budget_def Let_def
    unfolding b_def [symmetric] needs_def [symmetric]
    unfolding A_def [symmetric]
    unfolding fitted_def [symmetric]
    unfolding cut_def [symmetric] compact_def [symmetric] working_def [symmetric]
    unfolding r1 prod.case r2 r3 fst_conv ..
  have of: "map outcome (map fst fitted) = map outcome results" by (simp add: fitted_def comp_def outcome_fit)
  have oc: "map outcome compact = map outcome results"
    by (simp add: compact_def fitted_def comp_def outcome_fit outcome_compact)
  have "has_outcome d" if "d \<in> set compact" for d
  proof -
    have "outcome d \<in> outcome ` set results" using that oc by (metis image_eqI list.set_map)
    with assms(1) show ?thesis by (auto simp: has_outcome_def)
  qed
  then have os: "map outcome (map summary_result compact) = map outcome results"
    unfolding oc [symmetric] by (simp add: outcome_summary)
  note other = with_budget_metadata_other [OF r1] with_budget_metadata_other [OF r2] with_budget_metadata_other [OF r3]
  have res: "map_of r1 ''results'' = Some (JList (map JObj (map fst fitted)))"
    "map_of r2 ''results'' = Some (JList (map JObj compact))"
    "map_of r3 ''results'' = Some (JList (map JObj (map summary_result compact)))"
    by (simp_all add: other with_results_lookup working_def dict_simps)
  with r of oc os show "\<exists>rs. map_of r ''results'' = Some (JList (map JObj rs)) \<and> map outcome rs = map outcome results"
    by metis
  show "map_of r k = map_of payload k"
    if "k \<in> {''success'', ''failed_count'', ''command_count'', ''timed_out_count'', ''completed_count''}"
  proof -
    have "map_of r1 k = map_of payload k" using that by (auto simp: other with_results_lookup working_def dict_simps)
    moreover have "map_of r2 k = map_of r1 k" "map_of r3 k = map_of r2 k"
      using that by (auto simp: other with_results_lookup)
    ultimately show ?thesis using r by simp
  qed
qed

text \<open>Every reply of \<^verbatim>\<open>run_command\<close> has an outcome.\<close>

lemma run_command_outcome:
  assumes "run_command tok env command cwd timeout force n cm = Reply d"
  shows "\<exists>a. map_of d ''success'' = Some (JBool a)" "map_of d ''exit_code'' \<noteq> None" "map_of d ''timed_out'' \<noteq> None"
proof -
  have "(\<exists>a. map_of d ''success'' = Some (JBool a)) \<and> map_of d ''exit_code'' \<noteq> None \<and> map_of d ''timed_out'' \<noteq> None"
  proof (cases "map_of d ''output_metadata'' = None")
    case True
    have "d \<noteq> finished_payload tok command cwd timeout force n cm ro" for ro
      using finished_payload_fields(6) [OF prod.collapse [symmetric] refl] True by metis
    with assms show ?thesis
      by (auto simp: run_command_def timeout_limit_error_def cwd_error_def start_failed_def map_of_dict_update
          split: if_splits sum.splits)
  next
    case False
    then obtain ro where d: "d = finished_payload tok command cwd timeout force n cm ro"
      using run_command_finished [OF assms] by metis
    note f = finished_payload_fields [OF prod.collapse [symmetric] d]
    show ?thesis by (simp add: f)
  qed
  then show "\<exists>a. map_of d ''success'' = Some (JBool a)" "map_of d ''exit_code'' \<noteq> None" "map_of d ''timed_out'' \<noteq> None"
    by blast+
qed

lemma outcome_indexed:
  assumes "run_command tok env command cwd timeout force n cm = Reply d"
  shows "has_outcome (with_batch_index i d)"
    and "outcome (with_batch_index i d) =
      [Some (jnat i), map_of d ''success'', map_of d ''exit_code'', map_of d ''timed_out'']"
    and "is_true (with_batch_index i d) ''success'' \<longleftrightarrow> map_of d ''success'' = Some (JBool True)"
  using run_command_outcome [OF assms]
  by (auto simp: has_outcome_def outcome_def with_batch_index_def dict_simps is_true_def json_falsy_def)

lemma run_commands_accepted:
  assumes "run_commands tok envs order commands cwd timeout force mode concurrency n cm = Reply r"
    and "map_of r ''completed_count'' \<noteq> None"
  shows "run_batch tok envs order commands cwd timeout force mode concurrency n cm = Reply r"
proof -
  have e: "map_of (dict_update (timeout_limit_error timeout) [(''mode'', jlit ''batch''), (''cwd'', JStr cwd),
      (''results'', JList []), (''command_count'', jnat (length commands))]) ''completed_count'' = None"
    by (simp add: map_of_dict_update timeout_limit_error_def)
  show ?thesis
    using assms e by (auto simp: run_commands_def invalid_batch_arguments_def split: if_splits)
qed

lemma run_batch_results:
  assumes "run_batch tok envs order commands cwd timeout force mode concurrency n cm = Reply r"
    and "set order = {0..<length commands}"
  shows "\<exists>results conc.
    replies (\<lambda>i. run_command tok (envs i) (commands ! i) cwd timeout force n cm) [0..<length commands] = Inr results \<and>
    r = fit_command_batch_to_budget tok (batch_payload mode (length commands) conc timeout force results) results n"
  using assms(1) parallel_is_sequential [OF assms(2)]
  unfolding run_batch_def Let_def by (auto split: if_splits sum.splits)

section \<open>Property\<close>

text \<open>Every command of a batch has its outcome in the reply. For a batch whose arguments are accepted,
  sequential or parallel with the futures completing in any order, and however small the token budget,
  the reply lists one result per command, in the order of the commands, with its index and the success
  flag, exit code and time-out flag that running this command returned; the batch succeeds if and only if
  every command did.\<close>

theorem batch_keeps_every_outcome:
  assumes "run_commands tok envs order commands cwd timeout force mode concurrency n cm = Reply r"
    and "map_of r ''completed_count'' \<noteq> None" "set order = {0..<length commands}"
  shows "\<exists>ds rs. length ds = length commands \<and>
    (\<forall>i < length commands. run_command tok (envs i) (commands ! i) cwd timeout force n cm = Reply (ds ! i)) \<and>
    map_of r ''results'' = Some (JList (map JObj rs)) \<and> length rs = length commands \<and>
    (\<forall>i < length commands. map_of (rs ! i) ''index'' = Some (jnat i) \<and>
       (\<forall>k \<in> {''success'', ''exit_code'', ''timed_out''}. map_of (rs ! i) k = map_of (ds ! i) k)) \<and>
    (map_of r ''success'' = Some (JBool (\<forall>d \<in> set ds. map_of d ''success'' = Some (JBool True))))"
proof -
  define run where "run = (\<lambda>i. run_command tok (envs i) (commands ! i) cwd timeout force n cm)"
  have batch: "run_batch tok envs order commands cwd timeout force mode concurrency n cm = Reply r"
    by (rule run_commands_accepted [OF assms(1,2)])
  obtain results conc where res: "replies run [0..<length commands] = Inr results"
    and r: "r = fit_command_batch_to_budget tok (batch_payload mode (length commands) conc timeout force results) results n"
    using run_batch_results [OF batch assms(3)] unfolding run_def by blast
  define ds where "ds = map (\<lambda>i. case run i of Reply d \<Rightarrow> d | Raises e \<Rightarrow> []) [0..<length commands]"
  have run: "run i = Reply (ds ! i)" if "i < length commands" for i
  proof -
    have "\<exists>d. run i = Reply d" using res that by (simp add: replies_ok)
    with that show ?thesis by (auto simp: ds_def)
  qed
  have results: "results = map (\<lambda>i. with_batch_index i (ds ! i)) [0..<length commands]"
    using res run by (simp add: replies_ok)
  note ind = outcome_indexed [OF run [unfolded run_def]]
  have "has_outcome d" if "d \<in> set results" for d using that ind(1) by (auto simp: results)
  note keep = fit_batch_keeps [OF this r]
  obtain rs where rs: "map_of r ''results'' = Some (JList (map JObj rs))" "map outcome rs = map outcome results"
    using keep(1) by blast
  have len: "length rs = length commands" using arg_cong [OF rs(2), of length] by (simp add: results)
  have "outcome (rs ! i) = [Some (jnat i), map_of (ds ! i) ''success'', map_of (ds ! i) ''exit_code'', map_of (ds ! i) ''timed_out'']"
    if "i < length commands" for i
  proof -
    have "outcome (rs ! i) = outcome (results ! i)" using rs(2) len that by (metis length_map nth_map)
    with ind(2) [OF that] that show ?thesis by (simp add: results)
  qed
  then have fields: "\<forall>i < length commands. map_of (rs ! i) ''index'' = Some (jnat i) \<and>
       (\<forall>k \<in> {''success'', ''exit_code'', ''timed_out''}. map_of (rs ! i) k = map_of (ds ! i) k)"
    by (simp add: outcome_def)
  have lds: "length ds = length commands" by (simp add: ds_def)
  have "(length (filter (\<lambda>d. \<not> is_true d ''success'') results) = 0) \<longleftrightarrow>
      (\<forall>i < length commands. is_true (with_batch_index i (ds ! i)) ''success'')"
    by (simp add: results filter_empty_conv Ball_def)
  also have "\<dots> \<longleftrightarrow> (\<forall>i < length commands. map_of (ds ! i) ''success'' = Some (JBool True))"
    using ind(3) by blast
  also have "\<dots> \<longleftrightarrow> (\<forall>d \<in> set ds. map_of d ''success'' = Some (JBool True))"
    by (simp add: all_set_conv_all_nth lds)
  finally have "(length (filter (\<lambda>d. \<not> is_true d ''success'') results) = 0) \<longleftrightarrow>
      (\<forall>d \<in> set ds. map_of d ''success'' = Some (JBool True))" .
  with keep(2) [of "''success''"] have "map_of r ''success'' = Some (JBool (\<forall>d \<in> set ds. map_of d ''success'' = Some (JBool True)))"
    by (simp add: batch_payload_def Let_def)
  then show ?thesis using lds rs(1) len fields run unfolding run_def by blast
qed


lemma batch_reply_counted:
  assumes "replies (\<lambda>i. run_command tok (envs i) (commands ! i) cwd timeout force n cm) [0..<length commands] = Inr results"
    and "r = fit_command_batch_to_budget tok (batch_payload mode (length commands) conc timeout force results) results n"
  shows "map_of r ''completed_count'' = Some (jnat (length results))"
proof -
  define run where "run = (\<lambda>i. run_command tok (envs i) (commands ! i) cwd timeout force n cm)"
  have "has_outcome d" if d: "d \<in> set results" for d
  proof -
    from assms(1) d obtain i where i: "i < length commands"
      "d = (case run i of Reply d \<Rightarrow> with_batch_index i d | Raises e \<Rightarrow> [])" "\<exists>d. run i = Reply d"
      by (auto simp: replies_ok run_def)
    then obtain d' where "run i = Reply d'" "d = with_batch_index i d'" by auto
    then show ?thesis using outcome_indexed(1) [of tok "envs i" "commands ! i" cwd timeout force n cm d' i] by (simp add: run_def)
  qed
  from fit_batch_keeps(2) [OF this assms(2), of "''completed_count''"] show ?thesis
    by (simp add: batch_payload_def Let_def)
qed

theorem batch_keeps_every_outcome_witness:
  "\<exists>r rs. run_commands length (\<lambda>i. echo_env) [1, 0] [u ''x'', u ''y''] (u ''/w'') 5 False ''parallel'' 2 30 100 = Reply r \<and>
     map_of r ''results'' = Some (JList (map JObj rs)) \<and> length rs = 2 \<and> map_of (rs ! 1) ''index'' = Some (JInt 1)"
proof -
  let ?run = "\<lambda>i. run_command length echo_env ([u ''x'', u ''y''] ! i) (u ''/w'') 5 False 30 100"
  have ok: "\<exists>d. ?run i = Reply d" for i
    by (simp add: run_command_def echo_env_def max_command_timeout_seconds_def)
  define results where "results = map (\<lambda>i. case ?run i of Reply d \<Rightarrow> with_batch_index i d | Raises e \<Rightarrow> []) [0..<2]"
  define r where "r = fit_command_batch_to_budget length (batch_payload ''parallel'' 2 2 5 False results) results 30"
  have seq: "replies ?run [0..<2] = Inr results" unfolding replies_ok results_def using ok by blast
  have par: "parallel_replies ?run 2 [1, 0] = Inr results"
    by (rule parallel_is_sequential [THEN iffD2, OF _ seq]) auto
  have two: "length [u ''x'', u ''y''] = 2" by simp
  have "run_batch length (\<lambda>i. echo_env) [1, 0] [u ''x'', u ''y''] (u ''/w'') 5 False ''parallel'' 2 30 100 = Reply r"
    unfolding run_batch_def Let_def two using par by (simp add: r_def)
  then have reply: "run_commands length (\<lambda>i. echo_env) [1, 0] [u ''x'', u ''y''] (u ''/w'') 5 False ''parallel'' 2 30 100 = Reply r"
    by (simp add: run_commands_def max_command_timeout_seconds_def max_command_batch_size_def
        max_command_batch_concurrency_def strip_def rstrip_by_def is_space_def)
  have "map_of r ''completed_count'' = Some (jnat (length results))"
    by (rule batch_reply_counted [of _ "\<lambda>i. echo_env" "[u ''x'', u ''y'']", unfolded two, OF seq r_def])
  then have "map_of r ''completed_count'' \<noteq> None" by simp
  moreover have "set [1, 0] = {0..<length [u ''x'', u ''y'']}" by auto
  ultimately obtain rs where "map_of r ''results'' = Some (JList (map JObj rs))" "length rs = 2"
    "\<forall>i < 2. map_of (rs ! i) ''index'' = Some (jnat i)"
    using batch_keeps_every_outcome [OF reply] unfolding two by blast
  with reply show ?thesis by auto
qed

end
