(* ===== verification/RuntimeModels.thy ===== *)
theory RuntimeModels
  imports Json
begin

text \<open>
  The data of coding runtimes and their persistence: \<^verbatim>\<open>codex_runtime/models.py\<close>,
  \<^verbatim>\<open>codex_runtime/errors.py\<close> and \<^verbatim>\<open>codex_runtime/bindings.py\<close>.

  A time stamp is an integer (the unit does not matter to the code, which only compares and
  subtracts). Python's \<^verbatim>\<open>float\<close> applied to the text of a number is the parameter \<open>parse_float\<close>. An error
  keeps its code, whether it is retryable, its details and its side effects; its message is not modelled.
\<close>

section \<open>Errors\<close>

record runtime_error =
  re_code :: string
  re_retryable :: bool
  re_details :: dict
  re_side_effects :: dict

definition runtime_error :: "string \<Rightarrow> bool \<Rightarrow> dict \<Rightarrow> runtime_error" where
  "runtime_error code retryable details =
     \<lparr>re_code = code, re_retryable = retryable, re_details = details, re_side_effects = []\<rparr>"

definition binding_store_error :: runtime_error where
  "binding_store_error = runtime_error ''binding_store_unavailable'' True []"

definition side_effect :: "string \<Rightarrow> json \<Rightarrow> runtime_error \<Rightarrow> runtime_error" where
  "side_effect k v e = e\<lparr>re_side_effects := AList.update k v (re_side_effects e)\<rparr>"

lemma runtime_error_simps [simp]:
  "re_code (runtime_error c r d) = c" "re_retryable (runtime_error c r d) = r"
  "re_details (runtime_error c r d) = d" "re_side_effects (runtime_error c r d) = []"
  by (simp_all add: runtime_error_def)

section \<open>Sandboxes and statuses\<close>

datatype sandbox = ReadOnly | WorkspaceWrite | FullAccess

definition sandbox_name :: "sandbox \<Rightarrow> string" where
  "sandbox_name m = (case m of ReadOnly \<Rightarrow> ''read-only'' | WorkspaceWrite \<Rightarrow> ''workspace-write''
     | FullAccess \<Rightarrow> ''full-access'')"

text \<open>\<open>None\<close> is the \<^verbatim>\<open>ValueError\<close>.\<close>

definition validate_sandbox :: "json \<Rightarrow> sandbox option" where
  "validate_sandbox value =
     (if value = jlit ''read-only'' then Some ReadOnly
      else if value = jlit ''workspace-write'' then Some WorkspaceWrite
      else if value = jlit ''full-access'' then Some FullAccess
      else None)"

datatype cua_approval = CuaInteractive | CuaPrototype | CuaDeny

definition validate_cua_approval_mode :: "json \<Rightarrow> cua_approval option" where
  "validate_cua_approval_mode value =
     (if value = jlit ''interactive'' then Some CuaInteractive
      else if value = jlit ''prototype'' then Some CuaPrototype
      else if value = jlit ''deny'' then Some CuaDeny
      else None)"

definition sandbox_policy_type :: "sandbox \<Rightarrow> string" where
  "sandbox_policy_type m = (case m of ReadOnly \<Rightarrow> ''readOnly'' | WorkspaceWrite \<Rightarrow> ''workspaceWrite''
     | FullAccess \<Rightarrow> ''dangerFullAccess'')"

definition sandbox_policy :: "sandbox \<Rightarrow> dict" where
  "sandbox_policy m =
     (case m of
        FullAccess \<Rightarrow> [(''type'', jlit (sandbox_policy_type m))]
      | _ \<Rightarrow> [(''type'', jlit (sandbox_policy_type m)), (''networkAccess'', JBool False)])"

definition thread_sandbox :: "sandbox \<Rightarrow> string" where
  "thread_sandbox m = (case m of ReadOnly \<Rightarrow> ''read-only'' | WorkspaceWrite \<Rightarrow> ''workspace-write''
     | FullAccess \<Rightarrow> ''danger-full-access'')"

definition sandbox_matches :: "sandbox \<Rightarrow> json \<Rightarrow> bool" where
  "sandbox_matches m value =
     (case value of JObj kvs \<Rightarrow> map_of kvs ''type'' = Some (jlit (sandbox_policy_type m)) | _ \<Rightarrow> False)"

datatype runtime_status = Ready | Detached | Errored

definition status_name :: "runtime_status \<Rightarrow> string" where
  "status_name s = (case s of Ready \<Rightarrow> ''ready'' | Detached \<Rightarrow> ''detached'' | Errored \<Rightarrow> ''error'')"

text \<open>The policy a sandbox is sent with is one the reply is matched against.\<close>

lemma sandbox_matches_policy: "sandbox_matches m (JObj (sandbox_policy m'))  \<longleftrightarrow> m = m'"
  by (cases m; cases m') (simp_all add: sandbox_matches_def sandbox_policy_def sandbox_policy_type_def)

lemma validate_sandbox_name: "validate_sandbox (jlit (sandbox_name m)) = Some m"
  by (cases m) (simp_all add: validate_sandbox_def sandbox_name_def)

section \<open>Bindings\<close>

record binding =
  rb_runtime_id :: ustr
  rb_thread_id :: ustr
  rb_cwd :: ustr
  rb_sandbox :: sandbox
  rb_name :: "ustr option"
  rb_created_at :: int
  rb_last_used_at :: int
  rb_status :: runtime_status
  rb_mcp_server_count :: "nat option"

definition binding_to_dict :: "binding \<Rightarrow> dict" where
  "binding_to_dict b =
     [(''runtime_id'', JStr (rb_runtime_id b)), (''thread_id'', JStr (rb_thread_id b)), (''cwd'', JStr (rb_cwd b)),
      (''sandbox'', jlit (sandbox_name (rb_sandbox b))), (''name'', jopt JStr (rb_name b)),
      (''created_at'', JInt (rb_created_at b)), (''last_used_at'', JInt (rb_last_used_at b)),
      (''status'', jlit (status_name (rb_status b))), (''mcp_server_count'', jopt jnat (rb_mcp_server_count b))]"

definition runtime_public_dict :: "binding \<Rightarrow> dict" where
  "runtime_public_dict b = binding_to_dict b"

text \<open>\<^verbatim>\<open>float(value)\<close>; \<open>None\<close> is \<^verbatim>\<open>TypeError\<close> or \<^verbatim>\<open>ValueError\<close>.\<close>

definition to_float :: "(ustr \<Rightarrow> int option) \<Rightarrow> json \<Rightarrow> int option" where
  "to_float parse_float j =
     (case j of JInt i \<Rightarrow> Some i | JBool b \<Rightarrow> Some (if b then 1 else 0) | JFloat r \<Rightarrow> parse_float r
      | JStr s \<Rightarrow> parse_float s | _ \<Rightarrow> None)"

definition nonblank :: "json \<Rightarrow> ustr option" where
  "nonblank j = (case j of JStr s \<Rightarrow> if strip s \<noteq> [] then Some s else None | _ \<Rightarrow> None)"

text \<open>\<^verbatim>\<open>value.get("name")\<close>: outer \<open>None\<close> is the \<^verbatim>\<open>ValueError\<close>.\<close>

definition stored_name :: "json option \<Rightarrow> ustr option option" where
  "stored_name j =
     (case j of
        None \<Rightarrow> Some None
      | Some JNull \<Rightarrow> Some None
      | Some (JStr s) \<Rightarrow> Some (if strip s \<noteq> [] then Some (strip s) else None)
      | Some _ \<Rightarrow> None)"

definition stored_count :: "json option \<Rightarrow> nat option option" where
  "stored_count j =
     (case j of
        None \<Rightarrow> Some None
      | Some JNull \<Rightarrow> Some None
      | Some (JInt i) \<Rightarrow> if i < 0 then None else Some (Some (nat i))
      | Some (JBool b) \<Rightarrow> Some (Some (if b then 1 else 0))
      | Some _ \<Rightarrow> None)"

definition stored_status :: "json option \<Rightarrow> runtime_status option" where
  "stored_status j =
     (case j of
        None \<Rightarrow> Some Detached
      | Some v \<Rightarrow> if v = jlit ''ready'' \<or> v = jlit ''error'' \<or> v = jlit ''detached'' then Some Detached else None)"

text \<open>\<open>None\<close> is any \<^verbatim>\<open>ValueError\<close> or \<^verbatim>\<open>TypeError\<close>, all of which \<^verbatim>\<open>load\<close> turns into one error.\<close>

definition binding_from_dict :: "(ustr \<Rightarrow> int option) \<Rightarrow> json \<Rightarrow> binding option" where
  "binding_from_dict parse_float value =
     (case value of
        JObj d \<Rightarrow>
          (if \<not> list_all (\<lambda>k. k \<in> fst ` set d)
                [''runtime_id'', ''thread_id'', ''cwd'', ''sandbox'', ''created_at'', ''last_used_at''] then None
           else
             case (nonblank (the (map_of d ''runtime_id'')), nonblank (the (map_of d ''thread_id'')),
                   nonblank (the (map_of d ''cwd''))) of
               (Some rid, Some tid, Some cwd) \<Rightarrow>
                 (case stored_name (map_of d ''name'') of
                    None \<Rightarrow> None
                  | Some name \<Rightarrow>
                  case (to_float parse_float (the (map_of d ''created_at'')),
                        to_float parse_float (the (map_of d ''last_used_at''))) of
                    (Some created, Some used) \<Rightarrow>
                      (case (stored_count (map_of d ''mcp_server_count''), stored_status (map_of d ''status''),
                             validate_sandbox (the (map_of d ''sandbox''))) of
                         (Some count, Some status, Some mode) \<Rightarrow>
                           Some \<lparr>rb_runtime_id = rid, rb_thread_id = tid, rb_cwd = cwd, rb_sandbox = mode, rb_name = name,
                                 rb_created_at = created, rb_last_used_at = used, rb_status = status,
                                 rb_mcp_server_count = count\<rparr>
                       | _ \<Rightarrow> None)
                  | _ \<Rightarrow> None)
             | _ \<Rightarrow> None)
      | _ \<Rightarrow> None)"

section \<open>The binding store\<close>

text \<open>The bindings in memory: a dictionary by runtime id.\<close>

type_synonym bindings = "(ustr \<times> binding) list"

text \<open>
  What is in \<^verbatim>\<open>bindings.json\<close>: no file, a file that cannot be read, decoded or parsed, a JSON value that is
  not an object, or an object with its \<^verbatim>\<open>schema_version\<close> and \<^verbatim>\<open>runtimes\<close>.
\<close>

datatype runtimes_field = NoRuntimes | OtherRuntimes | Runtimes "(ustr \<times> json) list"

datatype store_file = NoStore | BadStore | NoObject | Document "json option" runtimes_field

text \<open>\<^verbatim>\<open>document.get("schema_version") == 1\<close>: also true for \<^verbatim>\<open>true\<close> and \<^verbatim>\<open>1.0\<close>.\<close>

definition is_schema_one :: "json option \<Rightarrow> bool" where
  "is_schema_one j = (j = Some (JInt 1) \<or> j = Some (JBool True) \<or> j = Some (JFloat (u ''1.0'')))"

fun load_records :: "(ustr \<Rightarrow> int option) \<Rightarrow> (ustr \<times> json) list \<Rightarrow> bindings option" where
  "load_records parse_float [] = Some []"
| "load_records parse_float ((rid, r) # rs) =
     (case binding_from_dict parse_float r of
        None \<Rightarrow> None
      | Some b \<Rightarrow>
          if rid \<noteq> rb_runtime_id b then None
          else map_option (\<lambda>bs. (rid, b) # bs) (load_records parse_float rs))"

definition load_bindings :: "(ustr \<Rightarrow> int option) \<Rightarrow> store_file \<Rightarrow> runtime_error + bindings" where
  "load_bindings parse_float f =
     (case f of
        NoStore \<Rightarrow> Inr []
      | BadStore \<Rightarrow> Inl binding_store_error
      | NoObject \<Rightarrow> Inl binding_store_error
      | Document schema records \<Rightarrow>
          if \<not> is_schema_one schema then Inl binding_store_error
          else
            (case records of
               NoRuntimes \<Rightarrow> Inr []
             | OtherRuntimes \<Rightarrow> Inl binding_store_error
             | Runtimes rs \<Rightarrow>
                 (case load_records parse_float rs of None \<Rightarrow> Inl binding_store_error | Some bs \<Rightarrow> Inr bs)))"

text \<open>\<^verbatim>\<open>save\<close>: the records are written in the order of their keys; the file is replaced atomically, or \<^verbatim>\<open>BindingStoreError\<close> and it is what it was.\<close>

definition bindings_document :: "bindings \<Rightarrow> store_file" where
  "bindings_document bs =
     Document (Some (JInt 1)) (Runtimes (map (\<lambda>(rid, b). (rid, JObj (binding_to_dict b))) (sort_key fst bs)))"

definition save_bindings_file :: "bool \<Rightarrow> bindings \<Rightarrow> store_file \<Rightarrow> (runtime_error + unit) \<times> store_file" where
  "save_bindings_file write_ok bs f =
     (if write_ok then (Inr (), bindings_document bs) else (Inl binding_store_error, f))"

section \<open>Round trip\<close>

definition storable :: "binding \<Rightarrow> bool" where
  "storable b \<longleftrightarrow> strip (rb_runtime_id b) \<noteq> [] \<and> strip (rb_thread_id b) \<noteq> [] \<and> strip (rb_cwd b) \<noteq> [] \<and>
     (\<forall>n. rb_name b = Some n \<longrightarrow> n \<noteq> [] \<and> strip n = n)"

lemma stored_name_jopt:
  "(\<forall>n. x = Some n \<longrightarrow> n \<noteq> [] \<and> strip n = n) \<Longrightarrow> stored_name (Some (jopt JStr x)) = Some x"
  by (cases x) (simp_all add: stored_name_def)

lemma stored_count_jopt: "stored_count (Some (jopt jnat x)) = Some x"
  by (cases x) (simp_all add: stored_count_def)

lemma stored_status_name: "stored_status (Some (jlit (status_name s))) = Some Detached"
  by (cases s) (simp_all add: stored_status_def status_name_def)

lemma binding_dict_lookup:
  "map_of (binding_to_dict b) ''runtime_id'' = Some (JStr (rb_runtime_id b))"
  "map_of (binding_to_dict b) ''thread_id'' = Some (JStr (rb_thread_id b))"
  "map_of (binding_to_dict b) ''cwd'' = Some (JStr (rb_cwd b))"
  "map_of (binding_to_dict b) ''sandbox'' = Some (jlit (sandbox_name (rb_sandbox b)))"
  "map_of (binding_to_dict b) ''name'' = Some (jopt JStr (rb_name b))"
  "map_of (binding_to_dict b) ''created_at'' = Some (JInt (rb_created_at b))"
  "map_of (binding_to_dict b) ''last_used_at'' = Some (JInt (rb_last_used_at b))"
  "map_of (binding_to_dict b) ''status'' = Some (jlit (status_name (rb_status b)))"
  "map_of (binding_to_dict b) ''mcp_server_count'' = Some (jopt jnat (rb_mcp_server_count b))"
  by (simp_all add: binding_to_dict_def)

lemma binding_dict_keys:
  "list_all (\<lambda>k. k \<in> fst ` set (binding_to_dict b))
     [''runtime_id'', ''thread_id'', ''cwd'', ''sandbox'', ''created_at'', ''last_used_at'']"
  by (simp add: binding_to_dict_def)

lemma binding_from_to_dict:
  assumes "storable b"
  shows "binding_from_dict parse_float (JObj (binding_to_dict b)) = Some (b\<lparr>rb_status := Detached\<rparr>)"
proof -
  have "nonblank (JStr (rb_runtime_id b)) = Some (rb_runtime_id b)" "nonblank (JStr (rb_thread_id b)) = Some (rb_thread_id b)"
    "nonblank (JStr (rb_cwd b)) = Some (rb_cwd b)"
    using assms by (simp_all add: nonblank_def storable_def)
  moreover have "stored_name (Some (jopt JStr (rb_name b))) = Some (rb_name b)"
    using assms by (intro stored_name_jopt) (simp add: storable_def)
  moreover have "to_float parse_float (JInt i) = Some i" for i by (simp add: to_float_def)
  ultimately show ?thesis
    using binding_dict_keys [of b]
    by (simp only: binding_from_dict_def json.case if_False not_True_eq_False binding_dict_lookup option.sel option.case
        prod.case stored_count_jopt stored_status_name validate_sandbox_name) simp
qed

lemma load_records_saved:
  "\<forall>(rid, b) \<in> set bs. storable b \<and> rb_runtime_id b = rid \<Longrightarrow>
   load_records parse_float (map (\<lambda>(rid, b). (rid, JObj (binding_to_dict b))) bs) =
     Some (map (\<lambda>(rid, b). (rid, b\<lparr>rb_status := Detached\<rparr>)) bs)"
  by (induction bs) (auto simp: binding_from_to_dict)

lemma load_saved:
  assumes "\<forall>(rid, b) \<in> set bs. storable b \<and> rb_runtime_id b = rid"
  shows "load_bindings parse_float (bindings_document bs) =
    Inr (map (\<lambda>(rid, b). (rid, b\<lparr>rb_status := Detached\<rparr>)) (sort_key fst bs))"
  using load_records_saved [of "sort_key fst bs" parse_float] assms
  by (simp add: load_bindings_def bindings_document_def is_schema_one_def)

end
