(* ===== verification/Runtime.thy ===== *)
theory Runtime
  imports RuntimeModels "HOL-Library.Product_Lexorder"
begin

text \<open>
  The runtime manager: \<^verbatim>\<open>codex_runtime/manager.py\<close>, its state and the sections that run under its lock.

  \<^verbatim>\<open>_lock\<close> makes every section atomic, and \<^verbatim>\<open>_allocation_lock\<close> lets one allocating call (open, acquire,
  resume, close, collection) run at a time; requests (begin, end, touch, status) may run between the
  sections of an allocating call, and the composed operations take those as arguments. What the App
  Server adapter, the clock and the disk answer during a section is an \<open>adapter\<close>. A section returns
  the state it leaves, also when it raises.
\<close>

section \<open>State\<close>

record runtime_config =
  rc_max_concurrency :: nat
  rc_max_runtimes :: nat
  rc_idle_ttl :: int
  rc_default_timeout :: int
  rc_max_timeout :: int
  rc_output_cap :: int

text \<open>The checks of \<^verbatim>\<open>__init__\<close>; \<open>None\<close> is the \<^verbatim>\<open>ValueError\<close>.\<close>

definition make_config :: "int \<Rightarrow> int \<Rightarrow> int \<Rightarrow> int \<Rightarrow> int \<Rightarrow> int \<Rightarrow> runtime_config option" where
  "make_config max_concurrency max_runtimes idle_ttl default_timeout max_timeout output_cap =
     (if max_concurrency \<le> 0 \<or> max_runtimes \<le> 0 \<or> idle_ttl \<le> 0 \<or> default_timeout \<le> 0 \<or> max_timeout \<le> 0
         \<or> max_timeout < default_timeout \<or> output_cap \<le> 0 then None
      else Some \<lparr>rc_max_concurrency = nat max_concurrency, rc_max_runtimes = nat max_runtimes, rc_idle_ttl = idle_ttl,
        rc_default_timeout = default_timeout, rc_max_timeout = max_timeout, rc_output_cap = output_cap\<rparr>)"

record manager =
  mg_bindings :: bindings
  mg_active :: "(ustr \<times> nat) list"
  mg_pending :: "ustr set"
  mg_cleanup_error :: "string option"
  mg_gc_stop :: bool
  mg_used_slots :: nat
  mg_load_error :: bool
  mg_persist_warning :: "string option"
  mg_live :: "ustr set"
  mg_last_gc :: "int option"
  mg_collected :: nat
  mg_evicted :: nat
  mg_generation :: "int option"
  mg_saved :: bindings

text \<open>\<open>mg_saved\<close> is what the store was last given: the file is \<open>bindings_document (mg_saved s)\<close>.\<close>

datatype release_answer = Released | Unconfirmed | ReleaseFails runtime_error

record adapter =
  ad_running :: bool
  ad_generation :: "int option"
  ad_in_use :: "ustr \<Rightarrow> bool"
  ad_owns :: "ustr \<Rightarrow> bool"
  ad_release :: "ustr \<Rightarrow> release_answer"
  ad_cleanup :: "runtime_error option"
  ad_save_ok :: bool
  ad_now :: int

type_synonym 'a section_result = "manager \<times> (runtime_error + 'a)"

definition and_then :: "'a section_result \<Rightarrow> (manager \<Rightarrow> 'a \<Rightarrow> 'b section_result) \<Rightarrow> 'b section_result" where
  "and_then r f = (case snd r of Inl e \<Rightarrow> (fst r, Inl e) | Inr x \<Rightarrow> f (fst r) x)"

lemma and_then_simps [simp]:
  "and_then (s, Inl e) f = (s, Inl e)" "and_then (s, Inr x) f = f s x"
  by (simp_all add: and_then_def)

definition initial_manager :: "int option \<Rightarrow> (runtime_error + bindings) \<Rightarrow> manager" where
  "initial_manager generation loaded =
     (let bs = (case loaded of Inl e \<Rightarrow> [] | Inr bs \<Rightarrow> bs) in
      \<lparr>mg_bindings = bs, mg_active = [], mg_pending = {}, mg_cleanup_error = None, mg_gc_stop = False,
       mg_used_slots = 0, mg_load_error = (case loaded of Inl e \<Rightarrow> True | Inr bs \<Rightarrow> False), mg_persist_warning = None, mg_live = {},
       mg_last_gc = None, mg_collected = 0, mg_evicted = 0, mg_generation = generation, mg_saved = bs\<rparr>)"

section \<open>Threads\<close>

definition active_count :: "manager \<Rightarrow> ustr \<Rightarrow> nat" where
  "active_count s rid = (case map_of (mg_active s) rid of None \<Rightarrow> 0 | Some n \<Rightarrow> n)"

definition bound_threads :: "bindings \<Rightarrow> ustr set" where
  "bound_threads bs = (rb_thread_id \<circ> snd) ` set bs"

definition thread_in_use :: "adapter \<Rightarrow> manager \<Rightarrow> ustr \<Rightarrow> bool" where
  "thread_in_use a s t \<longleftrightarrow>
     list_ex (\<lambda>(rid, b). rb_thread_id b = t \<and> 0 < active_count s (rb_runtime_id b)) (mg_bindings s) \<or> ad_in_use a t"

definition sync_generation :: "adapter \<Rightarrow> manager \<Rightarrow> manager" where
  "sync_generation a s =
     (case ad_generation a of
        None \<Rightarrow> s
      | Some g \<Rightarrow> if mg_generation s = Some g then s
                  else s\<lparr>mg_live := {}, mg_pending := {}, mg_generation := Some g\<rparr>)"

definition detach_binding :: "binding \<Rightarrow> binding" where
  "detach_binding b = b\<lparr>rb_status := Detached\<rparr>"

definition detach_thread :: "ustr \<Rightarrow> bindings \<Rightarrow> bindings" where
  "detach_thread t bs = map (\<lambda>(rid, b). (rid, if rb_thread_id b = t then detach_binding b else b)) bs"

definition runtime_busy :: runtime_error where
  "runtime_busy = runtime_error ''runtime_busy'' True []"

definition cleanup_incomplete :: runtime_error where
  "cleanup_incomplete = runtime_error ''runtime_cleanup_incomplete'' True []"

definition release_thread :: "adapter \<Rightarrow> ustr \<Rightarrow> manager \<Rightarrow> unit section_result" where
  "release_thread a t s0 =
     (let s = sync_generation a s0 in
      if t \<notin> mg_live s \<and> t \<notin> mg_pending s \<and> \<not> ad_owns a t then (s, Inr ())
      else if thread_in_use a s t then (s, Inl runtime_busy)
      else
        let s1 = s\<lparr>mg_pending := insert t (mg_pending s), mg_live := mg_live s - {t},
                   mg_bindings := detach_thread t (mg_bindings s)\<rparr> in
        case ad_release a t of
          Released \<Rightarrow>
            let left = mg_pending s1 - {t} in
            (s1\<lparr>mg_pending := left, mg_cleanup_error := (if left = {} then None else mg_cleanup_error s1)\<rparr>, Inr ())
        | Unconfirmed \<Rightarrow> (s1\<lparr>mg_cleanup_error := Some (re_code cleanup_incomplete)\<rparr>, Inl cleanup_incomplete)
        | ReleaseFails e \<Rightarrow> (s1\<lparr>mg_cleanup_error := Some (re_code e)\<rparr>, Inl e))"

section \<open>Persistence\<close>

definition save_bindings :: "adapter \<Rightarrow> bindings \<Rightarrow> manager \<Rightarrow> unit section_result" where
  "save_bindings a bs s =
     (if ad_save_ok a then (s\<lparr>mg_bindings := bs, mg_saved := bs, mg_persist_warning := None\<rparr>, Inr ())
      else (s, Inl binding_store_error))"

definition touch :: "adapter \<Rightarrow> ustr \<Rightarrow> nat option \<Rightarrow> manager \<Rightarrow> manager" where
  "touch a rid count s =
     (case map_of (mg_bindings s) rid of
        None \<Rightarrow> s
      | Some b \<Rightarrow>
          let b' = b\<lparr>rb_last_used_at := ad_now a, rb_status := Ready,
                     rb_mcp_server_count := (case count of None \<Rightarrow> rb_mcp_server_count b | Some n \<Rightarrow> Some n)\<rparr>;
              updated = AList.update rid b' (mg_bindings s)
          in if ad_save_ok a
             then s\<lparr>mg_bindings := updated, mg_saved := updated, mg_persist_warning := None\<rparr>
             else s\<lparr>mg_bindings := updated, mg_persist_warning := Some (re_code binding_store_error)\<rparr>)"

section \<open>Collection of idle runtimes\<close>

definition is_expired :: "runtime_config \<Rightarrow> adapter \<Rightarrow> manager \<Rightarrow> binding \<Rightarrow> bool" where
  "is_expired cfg a s b \<longleftrightarrow> rc_idle_ttl cfg \<le> ad_now a - rb_last_used_at b \<and> \<not> thread_in_use a s (rb_thread_id b)"

text \<open>The loop over the expired bindings: those released; one that fails is kept, a stop ends the loop.\<close>

fun release_expired :: "adapter \<Rightarrow> binding list \<Rightarrow> manager \<Rightarrow> manager \<times> binding list" where
  "release_expired a [] s = (s, [])"
| "release_expired a (b # bs) s =
     (if mg_gc_stop s then (s, [])
      else case release_thread a (rb_thread_id b) s of
          (s', Inl e) \<Rightarrow> release_expired a bs s'
        | (s', Inr ok) \<Rightarrow> (case release_expired a bs s' of (s'', released) \<Rightarrow> (s'', b # released)))"

definition without_ids :: "ustr set \<Rightarrow> bindings \<Rightarrow> bindings" where
  "without_ids ids bs = filter (\<lambda>(rid, b). rid \<notin> ids) bs"

definition collect_expired_locked ::
  "runtime_config \<Rightarrow> adapter \<Rightarrow> bool \<Rightarrow> manager \<Rightarrow> ustr list section_result" where
  "collect_expired_locked cfg a suppress s0 =
     (let s = s0\<lparr>mg_last_gc := Some (ad_now a)\<rparr>;
          expired = filter (is_expired cfg a s) (map snd (mg_bindings s)) in
      case release_expired a expired s of
        (s1, released) \<Rightarrow>
          if released = [] then (s1, Inr [])
          else
            let ids = rb_runtime_id ` set released; updated = without_ids ids (mg_bindings s1) in
            if \<not> ad_save_ok a then
              (s1\<lparr>mg_persist_warning := Some (re_code binding_store_error)\<rparr>,
               if suppress then Inr [] else Inl binding_store_error)
            else
              (s1\<lparr>mg_bindings := updated, mg_saved := updated, mg_persist_warning := None,
                  mg_collected := mg_collected s1 + length released,
                  mg_live := mg_live s1 - rb_thread_id ` set released\<rparr>,
               Inr (sort (remdups (map rb_runtime_id released)))))"

section \<open>Capacity\<close>

definition lru_key :: "binding \<Rightarrow> int \<times> int \<times> ustr" where
  "lru_key b = (rb_last_used_at b, rb_created_at b, rb_runtime_id b)"

definition unbound_resources :: "manager \<Rightarrow> nat" where
  "unbound_resources s = card ((mg_live s \<union> mg_pending s) - bound_threads (mg_bindings s))"

definition eviction_candidates :: "adapter \<Rightarrow> manager \<Rightarrow> binding list" where
  "eviction_candidates a s =
     sort_key lru_key
       (filter (\<lambda>b. rb_status b = Detached \<and> \<not> thread_in_use a s (rb_thread_id b)) (map snd (mg_bindings s)))"

fun release_all :: "adapter \<Rightarrow> binding list \<Rightarrow> manager \<Rightarrow> unit section_result" where
  "release_all a [] s = (s, Inr ())"
| "release_all a (b # bs) s = and_then (release_thread a (rb_thread_id b) s) (\<lambda>s' ok. release_all a bs s')"

definition runtime_limit_reached :: "runtime_config \<Rightarrow> nat \<Rightarrow> nat \<Rightarrow> runtime_error" where
  "runtime_limit_reached cfg required available =
     runtime_error ''runtime_limit_reached'' True
       [(''max_runtimes'', jnat (rc_max_runtimes cfg)), (''required'', jnat required),
        (''detached_available'', jnat available)]"

definition evict :: "adapter \<Rightarrow> binding list \<Rightarrow> manager \<Rightarrow> ustr list section_result" where
  "evict a evicted s =
     and_then (release_all a evicted s) (\<lambda>s1 ok.
     and_then (save_bindings a (without_ids (rb_runtime_id ` set evicted) (mg_bindings s1)) s1) (\<lambda>s2 ok.
       (s2\<lparr>mg_evicted := mg_evicted s2 + length evicted, mg_live := mg_live s2 - rb_thread_id ` set evicted\<rparr>,
        Inr (map rb_runtime_id evicted))))"

definition ensure_capacity_locked ::
  "runtime_config \<Rightarrow> adapter \<Rightarrow> nat \<Rightarrow> manager \<Rightarrow> ustr list section_result" where
  "ensure_capacity_locked cfg a required s0 =
     (if required = 0 then (s0, Inr [])
      else
        and_then (collect_expired_locked cfg a False s0) (\<lambda>s collected.
          let overflow = length (mg_bindings s) + unbound_resources s + required - rc_max_runtimes cfg;
              candidates = eviction_candidates a s in
          if overflow = 0 then (s, Inr [])
          else if length candidates < overflow
            then (s, Inl (runtime_limit_reached cfg required (length candidates)))
          else evict a (take overflow candidates) s))"

definition ensure_store :: "manager \<Rightarrow> unit section_result" where
  "ensure_store s = (s, if mg_load_error s then Inl binding_store_error else Inr ())"

definition ensure_capacity :: "runtime_config \<Rightarrow> adapter \<Rightarrow> nat \<Rightarrow> manager \<Rightarrow> ustr list section_result" where
  "ensure_capacity cfg a required s =
     and_then (ensure_store s) (\<lambda>s ok. ensure_capacity_locked cfg a required s)"

section \<open>The collector\<close>

text \<open>The threads that no binding refers to; Python iterates over the set in an order it does not specify.\<close>

fun release_threads :: "adapter \<Rightarrow> ustr list \<Rightarrow> manager \<Rightarrow> unit section_result" where
  "release_threads a [] s = (s, Inr ())"
| "release_threads a (t # ts) s = and_then (release_thread a t s) (\<lambda>s' ok. release_threads a ts s')"

definition orphan_threads :: "manager \<Rightarrow> ustr list" where
  "orphan_threads s = sorted_list_of_set ((mg_live s \<union> mg_pending s) - bound_threads (mg_bindings s))"

definition collect_expired_idle :: "runtime_config \<Rightarrow> adapter \<Rightarrow> bool \<Rightarrow> manager \<Rightarrow> ustr list section_result" where
  "collect_expired_idle cfg a suppress s0 =
     (if mg_load_error s0 then (s0, if suppress then Inr [] else Inl binding_store_error)
      else
        let s = sync_generation a s0;
            (s1, cleaned) = (case ad_cleanup a of
                Some e \<Rightarrow> (s, Inl e)
              | None \<Rightarrow> release_threads a (orphan_threads s) s) in
        case cleaned of
          Inr ok \<Rightarrow> collect_expired_locked cfg a suppress s1
        | Inl e \<Rightarrow>
            let s2 = s1\<lparr>mg_cleanup_error := Some (re_code e)\<rparr> in
            if suppress then collect_expired_locked cfg a suppress s2 else (s2, Inl e))"

section \<open>Requests\<close>

definition runtime_not_found :: "dict \<Rightarrow> runtime_error" where
  "runtime_not_found details = runtime_error ''runtime_not_found'' False details"

definition runtime_not_active :: "ustr \<Rightarrow> runtime_error" where
  "runtime_not_active rid = runtime_error ''runtime_not_active'' True
     [(''runtime_id'', JStr rid), (''recovery'', jlit ''Call codex_runtime_resume with runtime_id.'')]"

definition set_status :: "ustr \<Rightarrow> binding \<Rightarrow> runtime_status \<Rightarrow> manager \<Rightarrow> manager" where
  "set_status rid b status s = s\<lparr>mg_bindings := AList.update rid (b\<lparr>rb_status := status\<rparr>) (mg_bindings s)\<rparr>"

definition active_binding :: "adapter \<Rightarrow> ustr \<Rightarrow> manager \<Rightarrow> binding section_result" where
  "active_binding a rid s =
     and_then (ensure_store s) (\<lambda>s ok.
       case map_of (mg_bindings s) rid of
         None \<Rightarrow> (s, Inl (runtime_not_found []))
       | Some b \<Rightarrow>
           if \<not> ad_running a then (set_status rid b Detached s, Inl (runtime_not_active rid))
           else if rb_status b \<noteq> Ready then (s, Inl (runtime_not_active rid))
           else (s, Inr b))"

definition concurrency_limit :: "runtime_config \<Rightarrow> runtime_error" where
  "concurrency_limit cfg = runtime_error ''runtime_concurrency_limit'' True
     [(''max_concurrency'', jnat (rc_max_concurrency cfg))]"

definition runtime_changed :: runtime_error where
  "runtime_changed = runtime_error ''runtime_changed'' True []"

text \<open>\<^verbatim>\<open>_slots.acquire\<close> with its time-out: the semaphore as it is when the call gives up or goes on.\<close>

definition acquire_slot :: "runtime_config \<Rightarrow> manager \<Rightarrow> unit section_result" where
  "acquire_slot cfg s =
     (if mg_used_slots s < rc_max_concurrency cfg then (s\<lparr>mg_used_slots := Suc (mg_used_slots s)\<rparr>, Inr ())
      else (s, Inl (concurrency_limit cfg)))"

definition release_slot :: "manager \<Rightarrow> manager" where
  "release_slot s = s\<lparr>mg_used_slots := mg_used_slots s - 1\<rparr>"

text \<open>Entering \<^verbatim>\<open>_request_slot\<close> for a runtime; on an error its \<^verbatim>\<open>finally\<close> gives the slot back.\<close>

definition register_request :: "adapter \<Rightarrow> ustr \<Rightarrow> ustr \<Rightarrow> manager \<Rightarrow> unit section_result" where
  "register_request a rid tid s =
     and_then (active_binding a rid s) (\<lambda>s current.
       if rb_thread_id current \<noteq> tid then (s, Inl runtime_changed)
       else (s\<lparr>mg_active := AList.update rid (Suc (active_count s rid)) (mg_active s)\<rparr>, Inr ()))"

definition begin_request :: "runtime_config \<Rightarrow> adapter \<Rightarrow> ustr \<Rightarrow> ustr \<Rightarrow> manager \<Rightarrow> unit section_result" where
  "begin_request cfg a rid tid s =
     and_then (acquire_slot cfg s) (\<lambda>s ok.
       case register_request a rid tid s of
         (s', Inl e) \<Rightarrow> (release_slot s', Inl e)
       | (s', Inr ok) \<Rightarrow> (s', Inr ()))"

text \<open>Leaving it.\<close>

definition unregister :: "ustr \<Rightarrow> manager \<Rightarrow> manager" where
  "unregister rid s =
     (let remaining = active_count s rid - 1 in
      if remaining \<noteq> 0 then s\<lparr>mg_active := AList.update rid remaining (mg_active s)\<rparr>
      else s\<lparr>mg_active := AList.delete rid (mg_active s)\<rparr>)"

definition end_request :: "adapter \<Rightarrow> ustr \<Rightarrow> manager \<Rightarrow> manager" where
  "end_request a rid s = release_slot (unregister rid (touch a rid None s))"

text \<open>\<^verbatim>\<open>runtime_status\<close>.\<close>

definition runtime_status_call :: "adapter \<Rightarrow> ustr \<Rightarrow> manager \<Rightarrow> dict section_result" where
  "runtime_status_call a rid s =
     and_then (ensure_store s) (\<lambda>s ok.
       case map_of (mg_bindings s) rid of
         None \<Rightarrow> (s, Inl (runtime_not_found []))
       | Some b \<Rightarrow>
           let b' = (if rb_status b = Ready \<and> \<not> ad_running a then b\<lparr>rb_status := Detached\<rparr> else b);
               s' = (if rb_status b = Ready \<and> \<not> ad_running a then set_status rid b Detached s else s) in
           (s', Inr (dict_update [(''success'', JBool True)]
              (runtime_public_dict b' @
               [(''process_status'', jlit (if ad_running a then ''running'' else ''stopped'')),
                (''recoverable'', JBool True),
                (''recovery'', jlit ''Call codex_runtime_resume with this runtime_id.'')]))))"

text \<open>What the requests of other callers do between the sections of an allocating call.\<close>

datatype request_event =
    BeginRequest adapter ustr ustr
  | EndRequest adapter ustr
  | TouchRuntime adapter ustr "nat option"
  | ReadStatus adapter ustr

text \<open>A request can only end when it has begun.\<close>

definition request_step :: "runtime_config \<Rightarrow> manager \<Rightarrow> request_event \<Rightarrow> manager" where
  "request_step cfg s ev =
     (case ev of
        BeginRequest a rid tid \<Rightarrow> fst (begin_request cfg a rid tid s)
      | EndRequest a rid \<Rightarrow> if 0 < active_count s rid then end_request a rid s else s
      | TouchRuntime a rid count \<Rightarrow> touch a rid count s
      | ReadStatus a rid \<Rightarrow> fst (runtime_status_call a rid s))"

definition run_requests :: "runtime_config \<Rightarrow> request_event list \<Rightarrow> manager \<Rightarrow> manager" where
  "run_requests cfg evs s = foldl (request_step cfg) s evs"

end
