(* ===== verification/RuntimeOps.thy ===== *)
theory RuntimeOps
  imports Runtime Url
begin

text \<open>
  The allocating calls of the runtime manager: open, resume, acquire, close, list and shutdown of
  \<^verbatim>\<open>codex_runtime/manager.py\<close>. Each is composed of the sections of \<open>Runtime\<close>, with the requests that
  other callers run between two sections (\<open>gap\<close>) and the answers of the App Server as arguments.
  Working directories are texts; the file system resolves them.
\<close>

section \<open>Arguments\<close>

record path_env =
  pe_resolve :: "ustr \<Rightarrow> ustr"
  pe_resolvable :: "ustr \<Rightarrow> bool"
  pe_exists :: "ustr \<Rightarrow> bool"
  pe_is_dir :: "ustr \<Rightarrow> bool"

definition invalid_arguments :: runtime_error where
  "invalid_arguments = runtime_error ''invalid_arguments'' False []"

definition validate_cwd :: "path_env \<Rightarrow> ustr \<Rightarrow> runtime_error + ustr" where
  "validate_cwd pe cwd =
     (let target = pe_resolve pe cwd in
      if \<not> pe_exists pe target then Inl (runtime_error ''cwd_not_found'' False [])
      else if \<not> pe_is_dir pe target then Inl (runtime_error ''cwd_not_directory'' False [])
      else Inr target)"

definition normalize_limited :: "nat \<Rightarrow> ustr option \<Rightarrow> runtime_error + ustr option" where
  "normalize_limited limit value =
     (case value of
        None \<Rightarrow> Inr None
      | Some v \<Rightarrow>
          if strip v = [] then Inr None
          else if limit < length (strip v) then Inl invalid_arguments
          else Inr (Some (strip v)))"

definition normalize_name :: "ustr option \<Rightarrow> runtime_error + ustr option" where
  "normalize_name name = normalize_limited 128 name"

definition json_or :: "json option \<Rightarrow> json option \<Rightarrow> json option" where
  "json_or a b = (case a of Some v \<Rightarrow> if json_falsy v then b else Some v | None \<Rightarrow> b)"

definition nonblank_option :: "json option \<Rightarrow> ustr option" where
  "nonblank_option j = (case j of Some v \<Rightarrow> nonblank v | None \<Rightarrow> None)"

definition protocol_error :: runtime_error where
  "protocol_error = runtime_error ''codex_protocol_error'' False []"

definition metadata_mismatch :: "dict \<Rightarrow> runtime_error" where
  "metadata_mismatch details = runtime_error ''runtime_metadata_mismatch'' False details"

text \<open>The thread id and working directory of a reply to \<^verbatim>\<open>thread/start\<close> or \<^verbatim>\<open>thread/resume\<close>.\<close>

definition verify_thread_metadata ::
  "path_env \<Rightarrow> ustr \<Rightarrow> sandbox \<Rightarrow> dict \<Rightarrow> runtime_error + ustr \<times> ustr" where
  "verify_thread_metadata pe expected_cwd expected_sandbox reply =
     (case map_of reply ''thread'' of
        Some (JObj thread) \<Rightarrow>
          (case nonblank_option (json_or (map_of thread ''id'') (map_of reply ''threadId'')) of
             None \<Rightarrow> Inl protocol_error
           | Some tid \<Rightarrow>
           case nonblank_option (json_or (map_of reply ''cwd'') (map_of thread ''cwd'')) of
             None \<Rightarrow> Inl protocol_error
           | Some cwd \<Rightarrow>
               if \<not> pe_resolvable pe cwd then Inl protocol_error
               else if pe_resolve pe cwd \<noteq> pe_resolve pe expected_cwd then
                 Inl (metadata_mismatch [(''expected_cwd'', JStr expected_cwd), (''returned_cwd'', JStr (pe_resolve pe cwd))])
               else if \<not> sandbox_matches expected_sandbox
                   (case json_or (map_of reply ''sandbox'') (map_of thread ''sandbox'') of None \<Rightarrow> JNull | Some v \<Rightarrow> v) then
                 Inl (metadata_mismatch [(''expected_sandbox'', jlit (sandbox_name expected_sandbox))])
               else Inr (strip tid, pe_resolve pe cwd))
      | _ \<Rightarrow> Inl protocol_error)"

definition lift_sum :: "manager \<Rightarrow> runtime_error + 'a \<Rightarrow> 'a section_result" where
  "lift_sum s r = (s, r)"

section \<open>Compensation\<close>

definition compensate_allocation :: "adapter \<Rightarrow> ustr \<Rightarrow> runtime_error \<Rightarrow> manager \<Rightarrow> manager \<times> runtime_error" where
  "compensate_allocation a t e s =
     (case release_thread a t s of
        (s', Inl e') \<Rightarrow> (s', side_effect ''resource_cleanup_pending'' (JBool True) e)
      | (s', Inr ok) \<Rightarrow> (s', side_effect ''resources_released'' (JBool True) e))"

section \<open>open\<close>

definition store_binding :: "adapter \<Rightarrow> binding \<Rightarrow> manager \<Rightarrow> unit section_result" where
  "store_binding a b s =
     (let s' = s\<lparr>mg_live := insert (rb_thread_id b) (mg_live s)\<rparr> in
      save_bindings a (AList.update (rb_runtime_id b) b (mg_bindings s')) s')"

text \<open>The section after \<^verbatim>\<open>thread/start\<close>: capacity again, the thread, the binding; on an error the thread is released.\<close>

definition open_commit :: "runtime_config \<Rightarrow> adapter \<Rightarrow> binding \<Rightarrow> manager \<Rightarrow> dict section_result" where
  "open_commit cfg a b s0 =
     (let s = sync_generation a s0 in
      case and_then (ensure_capacity_locked cfg a 1 s) (\<lambda>s ids. store_binding a b s) of
        (s', Inr ok) \<Rightarrow> (s', Inr (dict_update [(''success'', JBool True)] (runtime_public_dict b)))
      | (s', Inl e) \<Rightarrow>
          (case compensate_allocation a (rb_thread_id b)
              (side_effect ''thread_id'' (JStr (rb_thread_id b)) (side_effect ''thread_created'' (JBool True) e)) s' of
             (s'', e') \<Rightarrow> (s'', Inl e')))"

text \<open>A call of the App Server under a slot: \<open>gap\<close> is what happens meanwhile.\<close>

definition with_slot ::
  "runtime_config \<Rightarrow> request_event list \<Rightarrow> runtime_error + 'a \<Rightarrow> manager \<Rightarrow> 'a section_result" where
  "with_slot cfg gap answer s =
     and_then (acquire_slot cfg s) (\<lambda>s ok. (release_slot (run_requests cfg gap s), answer))"

definition new_binding :: "ustr \<Rightarrow> ustr \<Rightarrow> ustr \<Rightarrow> sandbox \<Rightarrow> ustr option \<Rightarrow> int \<Rightarrow> binding" where
  "new_binding rid tid cwd mode name now =
     \<lparr>rb_runtime_id = rid, rb_thread_id = tid, rb_cwd = cwd, rb_sandbox = mode, rb_name = name,
      rb_created_at = now, rb_last_used_at = now, rb_status = Ready, rb_mcp_server_count = None\<rparr>"

record open_world =
  ow_before :: adapter
  ow_gap :: "request_event list"
  ow_answer :: "runtime_error + dict"
  ow_after :: adapter
  ow_fresh_id :: ustr

definition open_runtime ::
  "runtime_config \<Rightarrow> path_env \<Rightarrow> open_world \<Rightarrow> ustr \<Rightarrow> sandbox \<Rightarrow> ustr option \<Rightarrow> manager \<Rightarrow> dict section_result" where
  "open_runtime cfg pe w cwd mode name s =
     and_then (ensure_store s) (\<lambda>s ok.
     and_then (lift_sum s (validate_cwd pe cwd)) (\<lambda>s target.
     and_then (lift_sum s (normalize_name name)) (\<lambda>s nm.
     and_then (ensure_capacity cfg (ow_before w) 1 s) (\<lambda>s ids.
     and_then (with_slot cfg (ow_gap w) (ow_answer w) s) (\<lambda>s reply.
     and_then (lift_sum s (verify_thread_metadata pe target mode reply)) (\<lambda>s (tid, returned_cwd).
       open_commit cfg (ow_after w)
         (new_binding (ow_fresh_id w) tid returned_cwd mode nm (ad_now (ow_after w))) s))))))"

section \<open>resume\<close>

text \<open>What is resumed: the binding that exists, the thread, and the metadata it must have.\<close>

record resume_target =
  rt_existing :: "binding option"
  rt_thread :: ustr
  rt_cwd :: ustr
  rt_sandbox :: sandbox

definition match_existing ::
  "path_env \<Rightarrow> binding \<Rightarrow> ustr option \<Rightarrow> sandbox option \<Rightarrow> runtime_error + resume_target" where
  "match_existing pe b cwd mode =
     (case (case cwd of Some c \<Rightarrow> validate_cwd pe c | None \<Rightarrow> Inr (rb_cwd b)) of
        Inl e \<Rightarrow> Inl e
      | Inr expected_cwd \<Rightarrow>
          let expected_mode = (case mode of Some m \<Rightarrow> m | None \<Rightarrow> rb_sandbox b) in
          if expected_cwd \<noteq> pe_resolve pe (rb_cwd b) then
            Inl (metadata_mismatch [(''runtime_id'', JStr (rb_runtime_id b)), (''expected_cwd'', JStr (rb_cwd b))])
          else if expected_mode \<noteq> rb_sandbox b then
            Inl (metadata_mismatch [(''runtime_id'', JStr (rb_runtime_id b)),
                                    (''expected_sandbox'', jlit (sandbox_name (rb_sandbox b)))])
          else Inr \<lparr>rt_existing = Some b, rt_thread = rb_thread_id b, rt_cwd = expected_cwd, rt_sandbox = expected_mode\<rparr>)"

definition given :: "ustr option \<Rightarrow> bool" where
  "given x = (case x of None \<Rightarrow> False | Some v \<Rightarrow> strip v \<noteq> [])"

definition resume_lookup ::
  "path_env \<Rightarrow> manager \<Rightarrow> ustr option \<Rightarrow> ustr option \<Rightarrow> ustr option \<Rightarrow> sandbox option \<Rightarrow> runtime_error + resume_target" where
  "resume_lookup pe s runtime_id thread_id cwd mode =
     (if given runtime_id = given thread_id then Inl invalid_arguments
      else if given runtime_id then
        let rid = the runtime_id in
        (case map_of (mg_bindings s) rid of
           None \<Rightarrow> Inl (runtime_not_found [(''runtime_id'', JStr rid)])
         | Some b \<Rightarrow> match_existing pe b cwd mode)
      else
        let tid = strip (the thread_id) in
        (case find (\<lambda>b. rb_thread_id b = tid) (map snd (mg_bindings s)) of
           Some b \<Rightarrow> match_existing pe b cwd mode
         | None \<Rightarrow>
             (case (cwd, mode) of
                (Some c, Some m) \<Rightarrow>
                  (case validate_cwd pe c of
                     Inl e \<Rightarrow> Inl e
                   | Inr target \<Rightarrow> Inr \<lparr>rt_existing = None, rt_thread = tid, rt_cwd = target, rt_sandbox = m\<rparr>)
              | _ \<Rightarrow> Inl (runtime_error ''resume_metadata_required'' False []))))"

text \<open>The section before the call: a release that is still pending is finished first.\<close>

definition resume_prepare :: "adapter \<Rightarrow> resume_target \<Rightarrow> manager \<Rightarrow> bool section_result" where
  "resume_prepare a t s0 =
     (let s = sync_generation a s0 in
      and_then (if rt_thread t \<in> mg_pending s then release_thread a (rt_thread t) s else (s, Inr ()))
        (\<lambda>s ok. (s, Inr (rt_existing t \<noteq> None \<and> ad_running a \<and> rt_thread t \<in> mg_live s))))"

text \<open>The answer to \<^verbatim>\<open>thread/resume\<close>; when no rollout is found a new thread is started.\<close>

datatype resume_answer = ResumeOk dict | NoRollout "runtime_error + dict" | ResumeFails runtime_error

definition resumed_thread ::
  "path_env \<Rightarrow> resume_target \<Rightarrow> resume_answer \<Rightarrow> runtime_error + ustr \<times> ustr \<times> bool" where
  "resumed_thread pe t answer =
     (case answer of
        ResumeFails e \<Rightarrow> Inl e
      | ResumeOk reply \<Rightarrow>
          (case verify_thread_metadata pe (rt_cwd t) (rt_sandbox t) reply of
             Inl e \<Rightarrow> Inl e
           | Inr (tid, cwd) \<Rightarrow>
               if tid \<noteq> rt_thread t then
                 Inl (metadata_mismatch [(''requested_thread_id'', JStr (rt_thread t)), (''returned_thread_id'', JStr tid)])
               else Inr (tid, cwd, False))
      | NoRollout (Inl e) \<Rightarrow> Inl e
      | NoRollout (Inr reply) \<Rightarrow>
          (case verify_thread_metadata pe (rt_cwd t) (rt_sandbox t) reply of
             Inl e \<Rightarrow> Inl e
           | Inr (tid, cwd) \<Rightarrow> Inr (tid, cwd, True)))"

definition resume_binding :: "resume_target \<Rightarrow> ustr \<Rightarrow> ustr \<Rightarrow> ustr \<Rightarrow> int \<Rightarrow> binding" where
  "resume_binding t fresh_id tid cwd now =
     (case rt_existing t of
        None \<Rightarrow> new_binding fresh_id tid cwd (rt_sandbox t) None now
      | Some b \<Rightarrow> b\<lparr>rb_thread_id := tid, rb_cwd := cwd, rb_last_used_at := now, rb_status := Ready\<rparr>)"

definition resume_commit ::
  "runtime_config \<Rightarrow> adapter \<Rightarrow> resume_target \<Rightarrow> bool \<Rightarrow> binding \<Rightarrow> manager \<Rightarrow> unit section_result" where
  "resume_commit cfg a t reused b s0 =
     (let s = sync_generation a s0 in
      case and_then (if rt_existing t = None then ensure_capacity_locked cfg a 1 s else (s, Inr []))
          (\<lambda>s ids. store_binding a b s) of
        (s', Inr ok) \<Rightarrow> (s', Inr ())
      | (s', Inl e) \<Rightarrow>
          let e1 = side_effect ''thread_id'' (JStr (rb_thread_id b)) (side_effect ''thread_resumed'' (JBool True) e) in
          if reused then (s', Inl e1)
          else (case compensate_allocation a (rb_thread_id b) e1 s' of (s'', e') \<Rightarrow> (s'', Inl e')))"

definition resume_reply :: "resume_target \<Rightarrow> bool \<Rightarrow> bool \<Rightarrow> binding \<Rightarrow> dict" where
  "resume_reply t reused recreated b =
     dict_update (dict_update [(''success'', JBool True)] (runtime_public_dict b))
       ((''resume_mode'', jlit (if recreated then ''recreated'' else if reused then ''reattached'' else ''resumed''))
        # (if recreated then [(''thread_recreated'', JBool True), (''previous_thread_id'', JStr (rt_thread t))] else []))"

record resume_world =
  rw_before :: adapter
  rw_first_gap :: "request_event list"
  rw_gap :: "request_event list"
  rw_answer :: resume_answer
  rw_after :: adapter
  rw_fresh_id :: ustr
  rw_last_gap :: "request_event list"
  rw_end :: adapter

definition resume_runtime ::
  "runtime_config \<Rightarrow> path_env \<Rightarrow> resume_world \<Rightarrow> ustr option \<Rightarrow> ustr option \<Rightarrow> ustr option \<Rightarrow> sandbox option
   \<Rightarrow> manager \<Rightarrow> dict section_result" where
  "resume_runtime cfg pe w runtime_id thread_id cwd mode s =
     and_then (ensure_store s) (\<lambda>s ok.
     and_then (lift_sum s (resume_lookup pe s runtime_id thread_id cwd mode)) (\<lambda>s t.
     and_then (resume_prepare (rw_before w) t (run_requests cfg (rw_first_gap w) s)) (\<lambda>s reused.
     and_then
       (if reused then (s, Inr (rt_thread t, rt_cwd t, False))
        else and_then (with_slot cfg (rw_gap w) (Inr ()) s) (\<lambda>s ok. lift_sum s (resumed_thread pe t (rw_answer w))))
       (\<lambda>s (tid, returned_cwd, recreated).
          let b = resume_binding t (rw_fresh_id w) tid returned_cwd (ad_now (rw_after w)) in
          and_then (resume_commit cfg (rw_after w) t reused b s) (\<lambda>s ok.
          and_then
            (if recreated then release_thread (rw_end w) (rt_thread t) (run_requests cfg (rw_last_gap w) s)
             else (s, Inr ()))
            (\<lambda>s ok. (s, Inr (resume_reply t reused recreated b))))))))"

section \<open>acquire\<close>

definition sort_latest :: "binding list \<Rightarrow> binding list" where
  "sort_latest bs = rev (sort_key lru_key (rev bs))"

definition acquire_match :: "path_env \<Rightarrow> ustr \<Rightarrow> sandbox \<Rightarrow> ustr \<Rightarrow> manager \<Rightarrow> binding option" where
  "acquire_match pe target mode name s =
     (case sort_latest (filter (\<lambda>b. rb_name b = Some name \<and> pe_resolve pe (rb_cwd b) = target \<and> rb_sandbox b = mode)
        (map snd (mg_bindings s))) of
        [] \<Rightarrow> None
      | b # _ \<Rightarrow> Some b)"

definition mark_acquired :: "json \<Rightarrow> bool \<Rightarrow> dict \<Rightarrow> dict" where
  "mark_acquired acquire_mode reused d =
     dict_update d [(''acquire_mode'', acquire_mode), (''reused_existing'', JBool reused)]"

definition acquire_runtime ::
  "runtime_config \<Rightarrow> path_env \<Rightarrow> adapter \<Rightarrow> open_world \<Rightarrow> resume_world \<Rightarrow> ustr \<Rightarrow> sandbox \<Rightarrow> ustr
   \<Rightarrow> manager \<Rightarrow> dict section_result" where
  "acquire_runtime cfg pe a ow rw cwd mode name s =
     and_then (ensure_store s) (\<lambda>s ok.
     and_then (lift_sum s (validate_cwd pe cwd)) (\<lambda>s target.
     and_then (lift_sum s (normalize_name (Some name))) (\<lambda>s nm.
       case nm of
         None \<Rightarrow> (s, Inl invalid_arguments)
       | Some n \<Rightarrow>
           and_then (collect_expired_idle cfg a False s) (\<lambda>s ids.
             case acquire_match pe target mode n s of
               None \<Rightarrow>
                 and_then (open_runtime cfg pe ow target mode (Some n) s) (\<lambda>s d.
                   (s, Inr (mark_acquired (jlit ''opened'') False d)))
             | Some b \<Rightarrow>
                 and_then (resume_runtime cfg pe rw (Some (rb_runtime_id b)) None (Some target) (Some mode) s) (\<lambda>s d.
                   (s, Inr (mark_acquired (case map_of d ''resume_mode'' of Some m \<Rightarrow> m | None \<Rightarrow> jlit ''resumed'') True d)))))))"

section \<open>close\<close>

definition close_runtime :: "adapter \<Rightarrow> ustr \<Rightarrow> bool \<Rightarrow> manager \<Rightarrow> dict section_result" where
  "close_runtime a rid release_resources s =
     and_then (ensure_store s) (\<lambda>s ok.
       case map_of (mg_bindings s) rid of
         None \<Rightarrow> (s, Inl (runtime_not_found []))
       | Some b \<Rightarrow>
           if thread_in_use a s (rb_thread_id b) then (s, Inl runtime_busy)
           else
             and_then (if release_resources then release_thread a (rb_thread_id b) s else (s, Inr ())) (\<lambda>s ok.
               let b' = b\<lparr>rb_status := Detached, rb_last_used_at := ad_now a\<rparr> in
               and_then (save_bindings a (AList.update rid b' (mg_bindings s)) s) (\<lambda>s ok.
                 (s, Inr (dict_update [(''success'', JBool True)]
                    (runtime_public_dict b' @
                     [(''preserved_thread'', JBool True), (''binding_preserved'', JBool True),
                      (''destructive_action'', JBool False), (''resources_released'', JBool release_resources),
                      (''resume_may_recreate_thread'', JBool release_resources)]))))))"

section \<open>list and shutdown\<close>

definition normalize_runtime_status :: "ustr option \<Rightarrow> runtime_error + runtime_status option" where
  "normalize_runtime_status status =
     (case status of
        None \<Rightarrow> Inr None
      | Some v \<Rightarrow>
          let n = lower (strip v) in
          if n = [] then Inr None
          else if n = u ''ready'' then Inr (Some Ready)
          else if n = u ''detached'' then Inr (Some Detached)
          else if n = u ''error'' then Inr (Some Errored)
          else Inl invalid_arguments)"

definition list_matches ::
  "path_env \<Rightarrow> ustr option \<Rightarrow> ustr option \<Rightarrow> runtime_status option \<Rightarrow> manager \<Rightarrow> binding list" where
  "list_matches pe name cwd status s =
     sort_latest (filter (\<lambda>b. (name = None \<or> rb_name b = name)
         \<and> (case cwd of None \<Rightarrow> True | Some c \<Rightarrow> pe_resolve pe (rb_cwd b) = c)
         \<and> (case status of None \<Rightarrow> True | Some st \<Rightarrow> rb_status b = st)) (map snd (mg_bindings s)))"

definition list_page :: "binding list \<Rightarrow> nat \<Rightarrow> nat \<Rightarrow> dict" where
  "list_page matches offset limit =
     (let page = take limit (drop offset matches); next = offset + length page in
      [(''success'', JBool True), (''runtimes'', JList (map (\<lambda>b. JObj (runtime_public_dict b)) page)),
       (''count'', jnat (length page)), (''total'', jnat (length matches)), (''offset'', jnat offset),
       (''limit'', jnat limit), (''next_offset'', if next < length matches then jnat next else JNull)])"

definition list_runtimes ::
  "runtime_config \<Rightarrow> path_env \<Rightarrow> adapter \<Rightarrow> ustr option \<Rightarrow> ustr option \<Rightarrow> ustr option \<Rightarrow> int \<Rightarrow> int
   \<Rightarrow> manager \<Rightarrow> dict section_result" where
  "list_runtimes cfg pe a name cwd status offset limit s =
     and_then (ensure_store s) (\<lambda>s ok.
       if offset < 0 \<or> limit \<le> 0 \<or> 100 < limit then (s, Inl invalid_arguments)
       else
         and_then (lift_sum s (normalize_name name)) (\<lambda>s nm.
         and_then (lift_sum s (case cwd of None \<Rightarrow> Inr None | Some c \<Rightarrow> map_sum id Some (validate_cwd pe c))) (\<lambda>s target.
         and_then (lift_sum s (normalize_runtime_status status)) (\<lambda>s st.
         and_then (collect_expired_idle cfg a False s) (\<lambda>s ids.
           (s, Inr (list_page (list_matches pe nm target st s) (nat offset) (nat limit))))))))"

definition shutdown :: "manager \<Rightarrow> manager" where
  "shutdown s = s\<lparr>mg_gc_stop := True, mg_bindings := map (\<lambda>(rid, b). (rid, detach_binding b)) (mg_bindings s),
     mg_live := {}, mg_pending := {}\<rparr>"

end
