(* ===== verification/RuntimeInv.thy ===== *)
theory RuntimeInv
  imports RuntimeOps
begin

text \<open>
  The invariant of the runtime manager and that every section and every call keeps it: the dictionary is
  keyed by runtime id, the requests counted as active are those that hold a slot and belong to runtimes
  that are bound, there are never more slots or runtimes than configured, and the store holds the same
  runtimes as the memory.
\<close>

section \<open>What a binding is apart from its use\<close>

text \<open>The status, the time of the last use and the server count change without the store being written.\<close>

definition ident :: "ustr \<times> binding \<Rightarrow> ustr \<times> ustr \<times> ustr \<times> ustr \<times> sandbox \<times> ustr option \<times> int" where
  "ident e = (case e of (rid, b) \<Rightarrow>
     (rid, rb_runtime_id b, rb_thread_id b, rb_cwd b, rb_sandbox b, rb_name b, rb_created_at b))"

abbreviation idents :: "bindings \<Rightarrow> (ustr \<times> ustr \<times> ustr \<times> ustr \<times> sandbox \<times> ustr option \<times> int) list" where
  "idents bs \<equiv> map ident bs"

lemma idents_keys: "idents bs = idents cs \<Longrightarrow> map fst bs = map fst cs"
proof -
  assume "idents bs = idents cs"
  then have "map fst (idents bs) = map fst (idents cs)" by simp
  then show ?thesis by (simp add: ident_def comp_def case_prod_beta)
qed

lemma idents_length: "idents bs = idents cs \<Longrightarrow> length bs = length cs"
  by (metis length_map)

lemma idents_map:
  "(\<And>rid b. ident (rid, f b) = ident (rid, b)) \<Longrightarrow> idents (map (\<lambda>(rid, b). (rid, f b)) bs) = idents bs"
  by (induction bs) auto

lemma idents_update:
  "distinct (map fst bs) \<Longrightarrow> map_of bs rid = Some b \<Longrightarrow> ident (rid, b') = ident (rid, b) \<Longrightarrow>
   idents (AList.update rid b' bs) = idents bs"
proof (induction bs)
  case (Cons x bs)
  then show ?case by (cases x) (auto split: if_splits)
qed simp

definition keyed :: "bindings \<Rightarrow> bool" where
  "keyed bs \<longleftrightarrow> distinct (map fst bs) \<and> (\<forall>(rid, b) \<in> set bs. rb_runtime_id b = rid)"

lemma keyed_idents: "keyed bs \<Longrightarrow> idents cs = idents bs \<Longrightarrow> keyed cs"
proof -
  assume k: "keyed bs" and e: "idents cs = idents bs"
  have "rb_runtime_id b = rid" if "(rid, b) \<in> set cs" for rid b
  proof -
    have "ident (rid, b) \<in> set (idents bs)" using that e by (metis image_eqI list.set_map)
    then obtain rid' b' where "(rid', b') \<in> set bs" "ident (rid', b') = ident (rid, b)" by auto
    with k show ?thesis by (auto simp: keyed_def ident_def)
  qed
  with k idents_keys [OF e] show ?thesis by (auto simp: keyed_def)
qed

lemma set_update_subset: "set (AList.update k v al) \<subseteq> insert (k, v) (set al)"
  by (induction al) (auto split: if_splits)

lemma keyed_update: "keyed bs \<Longrightarrow> rb_runtime_id b = rid \<Longrightarrow> keyed (AList.update rid b bs)"
proof -
  assume k: "keyed bs" "rb_runtime_id b = rid"
  with set_update_subset [of rid b bs] show ?thesis by (auto simp: keyed_def distinct_update)
qed

lemma keyed_filter: "keyed bs \<Longrightarrow> keyed (filter P bs)"
  by (auto simp: keyed_def distinct_map_filter)

lemma keyed_lookup: "keyed bs \<Longrightarrow> map_of bs rid = Some b \<Longrightarrow> rb_runtime_id b = rid"
  by (auto simp: keyed_def dest: map_of_SomeD)

section \<open>The invariant\<close>

definition active_total :: "manager \<Rightarrow> nat" where
  "active_total s = sum_list (map snd (mg_active s))"

text \<open>\<open>k\<close> slots are held by an allocating call.\<close>

definition manager_inv :: "runtime_config \<Rightarrow> nat \<Rightarrow> manager \<Rightarrow> bool" where
  "manager_inv cfg k s \<longleftrightarrow>
     keyed (mg_bindings s) \<and> length (mg_bindings s) \<le> rc_max_runtimes cfg \<and>
     idents (mg_saved s) = idents (mg_bindings s) \<and>
     distinct (map fst (mg_active s)) \<and> (\<forall>(rid, n) \<in> set (mg_active s). 0 < n) \<and>
     fst ` set (mg_active s) \<subseteq> fst ` set (mg_bindings s) \<and>
     mg_used_slots s = active_total s + k \<and> mg_used_slots s \<le> rc_max_concurrency cfg \<and>
     finite (mg_live s) \<and> finite (mg_pending s)"

lemma inv_active_bound: "manager_inv cfg k s \<Longrightarrow> fst ` set (mg_active s) \<subseteq> fst ` set (mg_bindings s)"
  by (simp add: manager_inv_def)

text \<open>What the sections that release threads leave as it is.\<close>

definition similar :: "manager \<Rightarrow> manager \<Rightarrow> bool" where
  "similar s s' \<longleftrightarrow>
     idents (mg_bindings s') = idents (mg_bindings s) \<and> mg_active s' = mg_active s \<and>
     mg_used_slots s' = mg_used_slots s \<and> mg_saved s' = mg_saved s \<and> mg_load_error s' = mg_load_error s \<and>
     mg_gc_stop s' = mg_gc_stop s \<and>
     (finite (mg_live s) \<longrightarrow> finite (mg_live s')) \<and> (finite (mg_pending s) \<longrightarrow> finite (mg_pending s'))"

lemma similar_refl [simp, intro]: "similar s s"
  by (simp add: similar_def)

lemma similar_trans [trans]: "similar s s' \<Longrightarrow> similar s' s'' \<Longrightarrow> similar s s''"
  by (simp add: similar_def)

lemma similar_inv: "manager_inv cfg k s \<Longrightarrow> similar s s' \<Longrightarrow> manager_inv cfg k s'"
proof -
  assume i: "manager_inv cfg k s" and r: "similar s s'"
  then have e: "idents (mg_bindings s') = idents (mg_bindings s)" by (simp add: similar_def)
  have "fst ` set (mg_bindings s') = fst ` set (mg_bindings s)"
    using idents_keys [OF e] by (metis list.set_map)
  then show ?thesis
    using i r e keyed_idents [OF _ e] idents_length [OF e]
    by (simp add: manager_inv_def similar_def active_total_def)
qed

lemma similar_active_count: "similar s s' \<Longrightarrow> active_count s' rid = active_count s rid"
  by (simp add: similar_def active_count_def)

section \<open>Releasing\<close>

lemma sync_generation_similar: "similar s (sync_generation a s)"
  by (auto simp: sync_generation_def similar_def split: option.splits)

lemma detach_thread_idents: "idents (detach_thread t bs) = idents bs"
  unfolding detach_thread_def by (rule idents_map) (simp add: ident_def detach_binding_def)

lemma release_thread_similar: "similar s (fst (release_thread a t s))"
proof -
  define s1 where "s1 = sync_generation a s"
  have "similar s1 (fst (release_thread a t s))"
    by (auto simp: release_thread_def Let_def similar_def detach_thread_idents simp flip: s1_def
        split: release_answer.splits)
  with sync_generation_similar [of s a] show ?thesis unfolding s1_def by (rule similar_trans)
qed

lemma release_expired_Cons:
  assumes "\<not> mg_gc_stop s" "release_thread a (rb_thread_id b) s = (s', res)"
  shows "fst (release_expired a (b # bs) s) = fst (release_expired a bs s')"
    and "set (snd (release_expired a (b # bs) s)) \<subseteq> insert b (set (snd (release_expired a bs s')))"
  using assms by (cases res; auto simp: case_prod_beta)+

lemma release_expired_similar: "similar s (fst (release_expired a bs s))"
proof (induction bs arbitrary: s)
  case (Cons b bs)
  obtain s' res where s': "release_thread a (rb_thread_id b) s = (s', res)" by fastforce
  with release_thread_similar [of s a "rb_thread_id b"] have "similar s s'" by simp
  then have "similar s (fst (release_expired a bs s'))" using Cons.IH by (rule similar_trans)
  with release_expired_Cons(1) [OF _ s', of bs] show ?case by (cases "mg_gc_stop s") auto
qed simp

lemma release_expired_subset: "set (snd (release_expired a bs s)) \<subseteq> set bs"
proof (induction bs arbitrary: s)
  case (Cons b bs)
  obtain s' res where s': "release_thread a (rb_thread_id b) s = (s', res)" by fastforce
  show ?case
  proof (cases "mg_gc_stop s")
    case False
    with release_expired_Cons(2) [OF _ s', of bs] Cons.IH [of s'] show ?thesis by auto
  qed simp
qed simp

lemma release_all_similar: "similar s (fst (release_all a bs s))"
proof (induction a bs s rule: release_all.induct)
  case (2 a b bs s)
  obtain s' res where s': "release_thread a (rb_thread_id b) s = (s', res)" by fastforce
  with release_thread_similar [of s a "rb_thread_id b"] have "similar s s'" by simp
  with 2 s' show ?case by (cases res) (auto intro: similar_trans)
qed simp

lemma release_threads_similar: "similar s (fst (release_threads a ts s))"
proof (induction a ts s rule: release_threads.induct)
  case (2 a t ts s)
  obtain s' res where s': "release_thread a t s = (s', res)" by fastforce
  with release_thread_similar [of s a t] have "similar s s'" by simp
  with 2 s' show ?case by (cases res) (auto intro: similar_trans)
qed simp

section \<open>Removing runtimes that have no request\<close>

lemma not_in_use_idle:
  assumes "\<not> thread_in_use a s (rb_thread_id b)" "(rid, b) \<in> set (mg_bindings s)" "keyed (mg_bindings s)"
  shows "active_count s rid = 0"
  using assms by (auto simp: thread_in_use_def keyed_def list_ex_iff)

lemma active_count_zero:
  assumes "manager_inv cfg k s"
  shows "active_count s rid = 0 \<longleftrightarrow> rid \<notin> fst ` set (mg_active s)"
proof (cases "map_of (mg_active s) rid")
  case None
  then show ?thesis using has_key [of rid "mg_active s"] by (auto simp: active_count_def)
next
  case (Some n)
  then have "(rid, n) \<in> set (mg_active s)" by (rule map_of_SomeD)
  then have "rid \<in> fst ` set (mg_active s)" by force
  moreover have "0 < n" using assms \<open>(rid, n) \<in> set (mg_active s)\<close> by (auto simp: manager_inv_def)
  ultimately show ?thesis using Some by (simp add: active_count_def)
qed

lemma remove_idle_inv:
  assumes i: "manager_inv cfg k s" and idle: "\<forall>rid \<in> ids. active_count s rid = 0"
    and s': "mg_bindings s' = without_ids ids (mg_bindings s)" "mg_saved s' = without_ids ids (mg_bindings s)"
      "mg_active s' = mg_active s" "mg_used_slots s' = mg_used_slots s" "finite (mg_live s')" "finite (mg_pending s')"
  shows "manager_inv cfg k s'"
proof -
  have "fst ` set (mg_active s) \<subseteq> fst ` set (without_ids ids (mg_bindings s))"
  proof
    fix rid assume r: "rid \<in> fst ` set (mg_active s)"
    then have "rid \<notin> ids" using idle active_count_zero [OF i] by blast
    moreover have "rid \<in> fst ` set (mg_bindings s)" using r i by (auto simp: manager_inv_def)
    ultimately show "rid \<in> fst ` set (without_ids ids (mg_bindings s))" by (force simp: without_ids_def)
  qed
  moreover have "length (without_ids ids (mg_bindings s)) \<le> length (mg_bindings s)" by (simp add: without_ids_def)
  moreover have "keyed (without_ids ids (mg_bindings s))"
    using i unfolding without_ids_def by (intro keyed_filter) (simp add: manager_inv_def)
  ultimately show ?thesis using i s' by (simp add: manager_inv_def active_total_def)
qed

lemma collect_expired_locked_inv:
  assumes i: "manager_inv cfg k s0"
  shows "manager_inv cfg k (fst (collect_expired_locked cfg a suppress s0))"
proof -
  define s where "s = s0\<lparr>mg_last_gc := Some (ad_now a)\<rparr>"
  have s: "similar s0 s" by (simp add: s_def similar_def)
  define expired where "expired = filter (is_expired cfg a s) (map snd (mg_bindings s))"
  obtain s1 released where r: "release_expired a expired s = (s1, released)" by fastforce
  have s1: "similar s s1" using release_expired_similar [of s a expired] r by simp
  have i1: "manager_inv cfg k s1" by (rule similar_inv [OF i similar_trans [OF s s1]])
  have "active_count s1 rid = 0" if rid: "rid \<in> rb_runtime_id ` set released" for rid
  proof -
    obtain b where b: "rid = rb_runtime_id b" "b \<in> set expired"
      using rid release_expired_subset [of a expired s] r by auto
    then obtain key where key: "(key, b) \<in> set (mg_bindings s)" "\<not> thread_in_use a s (rb_thread_id b)"
      by (auto simp: expired_def is_expired_def)
    have kd: "keyed (mg_bindings s)" using similar_inv [OF i s] by (simp add: manager_inv_def)
    have "active_count s key = 0" by (rule not_in_use_idle [OF key(2,1) kd])
    moreover have "key = rid" using kd key(1) b(1) by (auto simp: keyed_def)
    ultimately show ?thesis by (simp add: similar_active_count [OF s1])
  qed
  then have idle: "\<forall>rid \<in> rb_runtime_id ` set released. active_count s1 rid = 0" by (intro ballI)
  have e: "collect_expired_locked cfg a suppress s0 =
    (if released = [] then (s1, Inr [])
     else if \<not> ad_save_ok a then (s1\<lparr>mg_persist_warning := Some (re_code binding_store_error)\<rparr>,
            if suppress then Inr [] else Inl binding_store_error)
     else (s1\<lparr>mg_bindings := without_ids (rb_runtime_id ` set released) (mg_bindings s1),
              mg_saved := without_ids (rb_runtime_id ` set released) (mg_bindings s1), mg_persist_warning := None,
              mg_collected := mg_collected s1 + length released,
              mg_live := mg_live s1 - rb_thread_id ` set released\<rparr>,
           Inr (sort (remdups (map rb_runtime_id released)))))"
    using r by (simp add: collect_expired_locked_def Let_def flip: s_def expired_def)
  have warned: "similar s1 (s1\<lparr>mg_persist_warning := w\<rparr>)" for w by (simp add: similar_def)
  show ?thesis
  proof (cases "released = []")
    case True
    with e i1 show ?thesis by simp
  next
    case False
    show ?thesis
    proof (cases "ad_save_ok a")
      case True
      with e False show ?thesis
        using i1 by (simp, intro remove_idle_inv [OF i1 idle]) (simp_all add: manager_inv_def)
    next
      case nosave: False
      with e False similar_inv [OF i1 warned] show ?thesis by simp
    qed
  qed
qed


section \<open>Making room\<close>

lemma save_bindings_cases:
  obtains (saved) "save_bindings a bs s = (s\<lparr>mg_bindings := bs, mg_saved := bs, mg_persist_warning := None\<rparr>, Inr ())"
      "ad_save_ok a"
  | (failed) "save_bindings a bs s = (s, Inl binding_store_error)" "\<not> ad_save_ok a"
  by (cases "ad_save_ok a") (auto simp: save_bindings_def)

lemma evict_inv:
  assumes i: "manager_inv cfg k s" and idle: "\<forall>b \<in> set evicted. active_count s (rb_runtime_id b) = 0"
  shows "manager_inv cfg k (fst (evict a evicted s))"
proof -
  obtain s1 res where r: "release_all a evicted s = (s1, res)" by fastforce
  have s1: "similar s s1" using release_all_similar [of s a evicted] r by simp
  have i1: "manager_inv cfg k s1" by (rule similar_inv [OF i s1])
  have idle1: "\<forall>rid \<in> rb_runtime_id ` set evicted. active_count s1 rid = 0"
    using idle by (simp add: similar_active_count [OF s1])
  show ?thesis
  proof (cases res)
    case (Inl e)
    with r i1 show ?thesis by (simp add: evict_def)
  next
    case (Inr ok)
    let ?bs = "without_ids (rb_runtime_id ` set evicted) (mg_bindings s1)"
    show ?thesis
    proof (rule save_bindings_cases [of a ?bs s1])
      assume "save_bindings a ?bs s1 = (s1\<lparr>mg_bindings := ?bs, mg_saved := ?bs, mg_persist_warning := None\<rparr>, Inr ())"
      with r Inr show ?thesis
        using i1 by (simp add: evict_def, intro remove_idle_inv [OF i1 idle1]) (simp_all add: manager_inv_def)
    qed (use r Inr i1 in \<open>simp add: evict_def\<close>)
  qed
qed

lemma evict_length:
  assumes "evict a evicted s = (s', Inr ids)" "keyed (mg_bindings s)"
    and "distinct (map rb_runtime_id evicted)" "rb_runtime_id ` set evicted \<subseteq> fst ` set (mg_bindings s)"
  shows "length (mg_bindings s') + length evicted = length (mg_bindings s)"
proof -
  obtain s1 res where r: "release_all a evicted s = (s1, res)" by fastforce
  have e: "idents (mg_bindings s1) = idents (mg_bindings s)"
    using release_all_similar [of s a evicted] r by (simp add: similar_def)
  let ?ids = "rb_runtime_id ` set evicted"
  have s': "mg_bindings s' = without_ids ?ids (mg_bindings s1)"
    using assms(1) r by (cases res; cases "ad_save_ok a") (auto simp: evict_def save_bindings_def)
  have d: "distinct (map fst (mg_bindings s1))" and keys: "?ids \<subseteq> set (map fst (mg_bindings s1))"
    using assms(2,4) idents_keys [OF e] by (simp_all add: keyed_def)
  have "length (filter (\<lambda>(rid, b). rid \<in> ?ids) (mg_bindings s1)) = card ?ids"
  proof -
    have "map fst (filter (\<lambda>(rid, b). rid \<in> ?ids) (mg_bindings s1)) = filter (\<lambda>rid. rid \<in> ?ids) (map fst (mg_bindings s1))"
      by (simp add: filter_map comp_def case_prod_unfold)
    moreover have "distinct (filter (\<lambda>rid. rid \<in> ?ids) (map fst (mg_bindings s1)))" using d by simp
    moreover have "set (filter (\<lambda>rid. rid \<in> ?ids) (map fst (mg_bindings s1))) = ?ids" using keys by auto
    ultimately show ?thesis by (metis distinct_card length_map)
  qed
  also have "card ?ids = length evicted" using assms(3) by (metis distinct_card length_map list.set_map)
  finally have "length (filter (\<lambda>x. \<not> (case x of (rid, b) \<Rightarrow> rid \<in> ?ids)) (mg_bindings s1)) + length evicted = length (mg_bindings s1)"
    using sum_length_filter_compl [of "\<lambda>(rid, b). rid \<in> ?ids" "mg_bindings s1"] by simp
  with s' idents_length [OF e] show ?thesis by (simp add: without_ids_def case_prod_unfold)
qed

lemma eviction_candidates_idle:
  assumes "keyed (mg_bindings s)" "b \<in> set (eviction_candidates a s)"
  shows "active_count s (rb_runtime_id b) = 0" "rb_runtime_id b \<in> fst ` set (mg_bindings s)"
proof -
  from assms(2) obtain key where key: "(key, b) \<in> set (mg_bindings s)" "\<not> thread_in_use a s (rb_thread_id b)"
    by (auto simp: eviction_candidates_def)
  moreover have "key = rb_runtime_id b" using assms(1) key(1) by (auto simp: keyed_def)
  ultimately show "active_count s (rb_runtime_id b) = 0" "rb_runtime_id b \<in> fst ` set (mg_bindings s)"
    using not_in_use_idle [OF key(2,1) assms(1)] by force+
qed

lemma keyed_ids: "keyed bs \<Longrightarrow> map rb_runtime_id (map snd bs) = map fst bs"
  by (auto simp: keyed_def case_prod_unfold)

lemma eviction_candidates_distinct:
  assumes "keyed (mg_bindings s)"
  shows "distinct (map rb_runtime_id (eviction_candidates a s))"
proof -
  have "distinct (map rb_runtime_id (map snd (mg_bindings s)))"
    by (simp only: keyed_ids [OF assms]) (use assms in \<open>simp add: keyed_def\<close>)
  then have "distinct (map rb_runtime_id (filter P (map snd (mg_bindings s))))" for P by (rule distinct_map_filter)
  then have "inj_on rb_runtime_id (set (filter P (map snd (mg_bindings s))))"
    "distinct (filter P (map snd (mg_bindings s)))" for P
    by (simp_all only: distinct_map)
  then show ?thesis unfolding eviction_candidates_def distinct_map set_sort distinct_sort by blast
qed

text \<open>After it, one more runtime has room.\<close>

lemma ensure_capacity_locked_inv:
  assumes i: "manager_inv cfg k s0"
  shows "manager_inv cfg k (fst (ensure_capacity_locked cfg a required s0))"
    and "ensure_capacity_locked cfg a required s0 = (s', Inr ids) \<Longrightarrow> 0 < required
      \<Longrightarrow> length (mg_bindings s') + required \<le> rc_max_runtimes cfg"
proof -
  obtain s res where r: "collect_expired_locked cfg a False s0 = (s, res)" by fastforce
  have i1: "manager_inv cfg k s" using collect_expired_locked_inv [OF i, of a False] r by simp
  then have kd: "keyed (mg_bindings s)" by (simp add: manager_inv_def)
  define over where "over = length (mg_bindings s) + unbound_resources s + required - rc_max_runtimes cfg"
  define cands where "cands = eviction_candidates a s"
  have e: "ensure_capacity_locked cfg a required s0 = (if required = 0 then (s0, Inr []) else
      case res of Inl e \<Rightarrow> (s, Inl e) | Inr ok \<Rightarrow>
        if over = 0 then (s, Inr []) else if length cands < over
        then (s, Inl (runtime_limit_reached cfg required (length cands))) else evict a (take over cands) s)"
    using r by (cases res) (simp_all add: ensure_capacity_locked_def Let_def over_def cands_def)
  have idle: "\<forall>b \<in> set (take over cands). active_count s (rb_runtime_id b) = 0"
    using eviction_candidates_idle(1) [OF kd] unfolding cands_def by (blast dest: in_set_takeD)
  show "manager_inv cfg k (fst (ensure_capacity_locked cfg a required s0))"
    using e i i1 evict_inv [OF i1 idle, of a] by (cases res) auto
  assume ok: "ensure_capacity_locked cfg a required s0 = (s', Inr ids)" "0 < required"
  show "length (mg_bindings s') + required \<le> rc_max_runtimes cfg"
  proof (cases "over = 0")
    case True
    with e ok have "s' = s" by (cases res) auto
    with True show ?thesis by (simp add: over_def)
  next
    case False
    with e ok have le: "over \<le> length cands" and ev: "evict a (take over cands) s = (s', Inr ids)"
      by (cases res; auto split: if_splits)+
    have "distinct (map rb_runtime_id (take over cands))"
      using eviction_candidates_distinct [OF kd, of a] by (simp add: cands_def flip: take_map)
    moreover have "rb_runtime_id ` set (take over cands) \<subseteq> fst ` set (mg_bindings s)"
      using eviction_candidates_idle(2) [OF kd] unfolding cands_def by (blast dest: in_set_takeD)
    ultimately have "length (mg_bindings s') + length (take over cands) = length (mg_bindings s)"
      by (rule evict_length [OF ev kd])
    moreover have "length (take over cands) = over" using le by simp
    ultimately show ?thesis using False unfolding over_def by linarith
  qed
qed

section \<open>Storing a binding\<close>

lemma length_update_key: "rid \<in> fst ` set bs \<Longrightarrow> length (AList.update rid b bs) = length bs"
  by (induction bs) auto

lemma update_keys_grow: "fst ` set bs \<subseteq> fst ` set (AList.update rid b bs)"
  by (induction bs) auto

lemma live_similar: "similar s (s\<lparr>mg_live := insert t (mg_live s)\<rparr>)"
  by (simp add: similar_def)

lemma save_update_inv:
  assumes i: "manager_inv cfg k s"
    and room: "rb_runtime_id b \<in> fst ` set (mg_bindings s) \<or> length (mg_bindings s) < rc_max_runtimes cfg"
  shows "manager_inv cfg k (fst (save_bindings a (AList.update (rb_runtime_id b) b (mg_bindings s)) s))"
proof -
  let ?bs = "AList.update (rb_runtime_id b) b (mg_bindings s)"
  have "length ?bs \<le> rc_max_runtimes cfg"
    using room
  proof
    assume "rb_runtime_id b \<in> fst ` set (mg_bindings s)"
    then show ?thesis using length_update_key [of "rb_runtime_id b" "mg_bindings s" b] i by (simp add: manager_inv_def)
  next
    assume "length (mg_bindings s) < rc_max_runtimes cfg"
    then show ?thesis using length_update_le [of "rb_runtime_id b" b "mg_bindings s"] by linarith
  qed
  moreover have "keyed ?bs" using i by (intro keyed_update) (auto simp: manager_inv_def)
  moreover have "fst ` set (mg_active s) \<subseteq> fst ` set ?bs"
    by (rule subset_trans [OF inv_active_bound [OF i] update_keys_grow])
  ultimately have "manager_inv cfg k (s\<lparr>mg_bindings := ?bs, mg_saved := ?bs, mg_persist_warning := None\<rparr>)"
    using i by (simp add: manager_inv_def active_total_def)
  then show ?thesis using i by (cases "ad_save_ok a") (simp_all add: save_bindings_def)
qed

lemma store_binding_inv:
  assumes i: "manager_inv cfg k s"
    and room: "rb_runtime_id b \<in> fst ` set (mg_bindings s) \<or> length (mg_bindings s) < rc_max_runtimes cfg"
  shows "manager_inv cfg k (fst (store_binding a b s))"
  using save_update_inv [OF similar_inv [OF i live_similar [of s "rb_thread_id b"]], of b a] room
  by (simp add: store_binding_def Let_def)

lemma compensate_allocation_similar: "similar s (fst (compensate_allocation a t e s))"
proof -
  obtain s' res where r: "release_thread a t s = (s', res)" by fastforce
  with release_thread_similar [of s a t] show ?thesis
    by (cases res) (simp_all add: compensate_allocation_def)
qed

lemma open_commit_inv:
  assumes i: "manager_inv cfg k s"
  shows "manager_inv cfg k (fst (open_commit cfg a b s))"
proof -
  define s0 where "s0 = sync_generation a s"
  have i0: "manager_inv cfg k s0" unfolding s0_def by (rule similar_inv [OF i sync_generation_similar])
  obtain s1 res where r: "ensure_capacity_locked cfg a 1 s0 = (s1, res)" by fastforce
  have i1: "manager_inv cfg k s1" using ensure_capacity_locked_inv(1) [OF i0, of a 1] r by simp
  obtain s2 res2 where r2: "and_then (s1, res) (\<lambda>s ids. store_binding a b s) = (s2, res2)" by fastforce
  have i2: "manager_inv cfg k s2"
  proof (cases res)
    case (Inl e)
    with r2 i1 show ?thesis by simp
  next
    case (Inr ids)
    have "length (mg_bindings s1) < rc_max_runtimes cfg"
      using ensure_capacity_locked_inv(2) [OF i0, of a 1 s1 ids] r Inr by simp
    with r2 Inr store_binding_inv [OF i1, of b a] show ?thesis by simp
  qed
  show ?thesis
    using r r2 i2 similar_inv [OF i2 compensate_allocation_similar]
    by (cases res2) (simp_all add: open_commit_def Let_def case_prod_beta flip: s0_def)
qed

section \<open>Requests\<close>

lemma sum_update:
  "distinct (map fst al) \<Longrightarrow>
   sum_list (map snd (AList.update k v al)) + (case map_of al k of None \<Rightarrow> 0 | Some w \<Rightarrow> w) = sum_list (map snd al) + (v :: nat)"
proof (induction al)
  case (Cons x al)
  then show ?case using no_key [of k al] by (cases x) auto
qed simp

lemma sum_delete:
  "distinct (map fst al) \<Longrightarrow>
   sum_list (map snd (AList.delete k al)) + (case map_of al k of None \<Rightarrow> 0 | Some w \<Rightarrow> w) = (sum_list (map snd al) :: nat)"
proof (induction al)
  case (Cons x al)
  then show ?case using no_key [of k al] delete_id [of k al] by (cases x) (auto simp: AList.delete_eq)
qed (simp add: AList.delete_eq)

lemma set_status_similar:
  assumes "distinct (map fst (mg_bindings s))" "map_of (mg_bindings s) rid = Some b"
  shows "similar s (set_status rid b st s)"
  using idents_update [OF assms, of "b\<lparr>rb_status := st\<rparr>"]
  by (simp add: similar_def set_status_def ident_def)

lemma inv_distinct: "manager_inv cfg k s \<Longrightarrow> distinct (map fst (mg_bindings s))"
  by (simp add: manager_inv_def keyed_def)

lemma touch_keeps:
  assumes "manager_inv cfg k s"
  shows "manager_inv cfg k (touch a rid count s)" "idents (mg_bindings (touch a rid count s)) = idents (mg_bindings s)"
    "mg_active (touch a rid count s) = mg_active s"
proof -
  note d = inv_distinct [OF assms]
  have "manager_inv cfg k (touch a rid count s) \<and> idents (mg_bindings (touch a rid count s)) = idents (mg_bindings s) \<and>
    mg_active (touch a rid count s) = mg_active s"
  proof (cases "map_of (mg_bindings s) rid")
    case (Some b)
    define b' where "b' = b\<lparr>rb_last_used_at := ad_now a, rb_status := Ready,
      rb_mcp_server_count := (case count of None \<Rightarrow> rb_mcp_server_count b | Some n \<Rightarrow> Some n)\<rparr>"
    define bs where "bs = AList.update rid b' (mg_bindings s)"
    have e: "idents bs = idents (mg_bindings s)"
      unfolding bs_def by (rule idents_update [OF d Some]) (simp add: ident_def b'_def)
    define s1 where "s1 = s\<lparr>mg_bindings := bs\<rparr>"
    have "similar s s1" using e by (simp add: s1_def similar_def)
    then have "manager_inv cfg k s1" by (rule similar_inv [OF assms])
    then have "manager_inv cfg k (s1\<lparr>mg_saved := bs, mg_persist_warning := None\<rparr>)"
      "manager_inv cfg k (s1\<lparr>mg_persist_warning := w\<rparr>)" for w
      by (simp_all add: manager_inv_def s1_def active_total_def)
    moreover have "touch a rid count s = (if ad_save_ok a then s1\<lparr>mg_saved := bs, mg_persist_warning := None\<rparr>
        else s1\<lparr>mg_persist_warning := Some (re_code binding_store_error)\<rparr>)"
      using Some by (simp add: touch_def Let_def s1_def bs_def b'_def)
    ultimately show ?thesis using e by (simp add: s1_def)
  qed (use assms in \<open>simp add: touch_def\<close>)
  then show "manager_inv cfg k (touch a rid count s)"
    "idents (mg_bindings (touch a rid count s)) = idents (mg_bindings s)"
    "mg_active (touch a rid count s) = mg_active s"
    by blast+
qed

lemma active_binding_similar:
  assumes "manager_inv cfg k s"
  shows "similar s (fst (active_binding a rid s))"
proof (cases "mg_load_error s")
  case False
  then show ?thesis
    using set_status_similar [OF inv_distinct [OF assms], of rid]
    by (cases "map_of (mg_bindings s) rid") (auto simp: active_binding_def ensure_store_def)
qed (simp add: active_binding_def ensure_store_def)

lemma active_binding_bound:
  "active_binding a rid s = (s', Inr b) \<Longrightarrow> s' = s \<and> map_of (mg_bindings s) rid = Some b \<and> rb_status b = Ready \<and> ad_running a"
  by (cases "mg_load_error s"; cases "map_of (mg_bindings s) rid")
     (auto simp: active_binding_def ensure_store_def split: if_splits)

lemma slot_inv:
  "manager_inv cfg (Suc k) s \<Longrightarrow> manager_inv cfg k (release_slot s)"
  by (simp add: manager_inv_def release_slot_def active_total_def)

lemma acquire_slot_cases:
  assumes "manager_inv cfg k s"
  obtains (taken) s1 where "acquire_slot cfg s = (s1, Inr ())" "manager_inv cfg (Suc k) s1"
      "s1 = s\<lparr>mg_used_slots := Suc (mg_used_slots s)\<rparr>"
  | (refused) "acquire_slot cfg s = (s, Inl (concurrency_limit cfg))"
proof (cases "mg_used_slots s < rc_max_concurrency cfg")
  case True
  let ?s1 = "s\<lparr>mg_used_slots := Suc (mg_used_slots s)\<rparr>"
  have "manager_inv cfg (Suc k) ?s1" using assms True by (simp add: manager_inv_def active_total_def)
  with True show ?thesis by (intro taken [of ?s1]) (simp_all add: acquire_slot_def)
qed (use refused in \<open>simp add: acquire_slot_def\<close>)

lemma register_request_keeps:
  assumes i: "manager_inv cfg (Suc k) s" and r: "register_request a rid tid s = (s', res)"
  shows "(\<exists>e. res = Inl e \<and> similar s s') \<or>
    (res = Inr () \<and> manager_inv cfg k s' \<and> mg_bindings s' = mg_bindings s \<and>
     mg_active s' = AList.update rid (Suc (active_count s rid)) (mg_active s))"
proof -
  obtain s1 res1 where b: "active_binding a rid s = (s1, res1)" by fastforce
  have sim: "similar s s1" using active_binding_similar [OF i, of a rid] b by simp
  show ?thesis
  proof (cases res1)
    case (Inl e)
    with r b have "res = Inl e" "s' = s1" by (auto simp: register_request_def)
    with sim show ?thesis by simp
  next
    case (Inr cur)
    with b have bound: "s1 = s" "map_of (mg_bindings s) rid = Some cur" using active_binding_bound by blast+
    show ?thesis
    proof (cases "rb_thread_id cur = tid")
      case True
      let ?al = "AList.update rid (Suc (active_count s rid)) (mg_active s)"
      have s': "s' = s\<lparr>mg_active := ?al\<rparr>" "res = Inr ()"
        using r b Inr True bound(1) by (auto simp: register_request_def)
      have d: "distinct (map fst (mg_active s))" using i by (simp add: manager_inv_def)
      have total: "active_total s' = Suc (active_total s)"
        using sum_update [OF d, of rid "Suc (active_count s rid)"]
        by (simp add: s' active_total_def active_count_def)
      have sub: "set ?al \<subseteq> insert (rid, Suc (active_count s rid)) (set (mg_active s))"
        by (rule set_update_subset)
      have "rid \<in> fst ` set (mg_bindings s)" using map_of_SomeD [OF bound(2)] by force
      then have "fst ` set ?al \<subseteq> fst ` set (mg_bindings s)"
        using inv_active_bound [OF i] unfolding dom_update by blast
      moreover have "\<forall>(rid, n) \<in> set ?al. 0 < n"
        using sub i by (auto simp: manager_inv_def)
      moreover have "distinct (map fst ?al)" using d by (rule distinct_update)
      ultimately have "manager_inv cfg k s'" using i total by (simp add: manager_inv_def s')
      with s' show ?thesis by simp
    next
      case False
      with r b Inr bound have "res = Inl runtime_changed" "s' = s" by (auto simp: register_request_def)
      then show ?thesis by simp
    qed
  qed
qed

end
