(* ===== verification/RuntimeCalls.thy ===== *)
theory RuntimeCalls
  imports RuntimeOps
begin

text \<open>
  The calls that use a runtime: exec, MCP inventory and MCP call of \<^verbatim>\<open>codex_runtime/manager.py\<close>, and
  \<^verbatim>\<open>info\<close>. A call registers a request, waits for the App Server and ends the request; meanwhile any other
  call may run (\<open>cw_meanwhile\<close>).
\<close>

section \<open>A call under a registered request\<close>

record call_world =
  cw_check :: adapter
  cw_waiting :: "manager \<Rightarrow> manager"
  cw_begin :: adapter
  cw_meanwhile :: "manager \<Rightarrow> manager"
  cw_answer :: "runtime_error + dict"
  cw_end :: adapter
  cw_touch :: adapter

definition with_request ::
  "runtime_config \<Rightarrow> call_world \<Rightarrow> ustr \<Rightarrow> ustr \<Rightarrow> manager \<Rightarrow> dict section_result" where
  "with_request cfg w rid tid s =
     and_then (begin_request cfg (cw_begin w) rid tid (cw_waiting w s)) (\<lambda>s ok.
       (end_request (cw_end w) rid (cw_meanwhile w s), cw_answer w))"

section \<open>exec\<close>

text \<open>Up to \<^verbatim>\<open>MAX_COMMAND_ARGUMENT_BYTES\<close> in all; \<open>None\<close> is \<^verbatim>\<open>invalid_arguments\<close>.\<close>

fun check_arguments :: "nat \<Rightarrow> ustr list \<Rightarrow> bool" where
  "check_arguments total_bytes [] \<longleftrightarrow> True"
| "check_arguments total_bytes (x # xs) \<longleftrightarrow>
     x \<noteq> [] \<and> total_bytes + utf8_len x \<le> 65536 \<and> check_arguments (total_bytes + utf8_len x) xs"

definition validate_command :: "ustr list \<Rightarrow> runtime_error + ustr list" where
  "validate_command command =
     (if command = [] \<or> 128 < length command \<or> \<not> check_arguments 0 command then Inl invalid_arguments
      else Inr command)"

definition validate_timeout :: "runtime_config \<Rightarrow> json \<Rightarrow> runtime_error + int" where
  "validate_timeout cfg t =
     (case t of
        JInt i \<Rightarrow> if i \<le> 0 \<or> rc_max_timeout cfg < i then Inl invalid_arguments else Inr i
      | _ \<Rightarrow> Inl invalid_arguments)"

text \<open>\<^verbatim>\<open>relative_to\<close>, on the components of absolute paths.\<close>

definition inside :: "ustr \<Rightarrow> ustr \<Rightarrow> bool" where
  "inside base p \<longleftrightarrow> startswith (path_parts p) (path_parts base)"

definition effective_cwd :: "path_env \<Rightarrow> binding \<Rightarrow> ustr option \<Rightarrow> runtime_error + ustr" where
  "effective_cwd pe b cwd =
     (let bound = pe_resolve pe (rb_cwd b) in
      case cwd of
        None \<Rightarrow> Inr bound
      | Some c \<Rightarrow>
          (case validate_cwd pe c of
             Inl e \<Rightarrow> Inl e
           | Inr requested \<Rightarrow>
               if inside bound requested then Inr requested
               else Inl (runtime_error ''runtime_cwd_outside_binding'' False
                 [(''runtime_id'', JStr (rb_runtime_id b)), (''bound_cwd'', JStr bound)])))"

definition is_int_value :: "json option \<Rightarrow> bool" where
  "is_int_value j = (case j of Some (JInt i) \<Rightarrow> True | Some (JBool b) \<Rightarrow> True | _ \<Rightarrow> False)"

definition is_str_value :: "json \<Rightarrow> bool" where
  "is_str_value j = (case j of JStr s \<Rightarrow> True | _ \<Rightarrow> False)"

definition get_default :: "dict \<Rightarrow> string \<Rightarrow> json \<Rightarrow> json" where
  "get_default d k v = (case map_of d k of None \<Rightarrow> v | Some j \<Rightarrow> j)"

definition exec_reply ::
  "runtime_config \<Rightarrow> ustr \<Rightarrow> binding \<Rightarrow> ustr \<Rightarrow> ustr list \<Rightarrow> int \<Rightarrow> dict \<Rightarrow> runtime_error + dict" where
  "exec_reply cfg rid b cwd command timeout reply =
     (let out = get_default reply ''stdout'' (JStr []); err = get_default reply ''stderr'' (JStr []) in
      if \<not> is_str_value out \<or> \<not> is_str_value err \<or> \<not> is_int_value (map_of reply ''exitCode'') then Inl protocol_error
      else Inr
        [(''success'', JBool True), (''runtime_id'', JStr rid), (''thread_id'', JStr (rb_thread_id b)),
         (''cwd'', JStr cwd), (''sandbox'', jlit (sandbox_name (rb_sandbox b))),
         (''command'', JList (map JStr command)), (''timeout_ms'', JInt timeout),
         (''output_bytes_cap'', JInt (rc_output_cap cfg)), (''exit_code'', the (map_of reply ''exitCode'')),
         (''stdout'', out), (''stderr'', err), (''timed_out'', JBool False)])"

definition exec_command ::
  "runtime_config \<Rightarrow> path_env \<Rightarrow> call_world \<Rightarrow> ustr \<Rightarrow> ustr list \<Rightarrow> json option \<Rightarrow> ustr option
   \<Rightarrow> manager \<Rightarrow> dict section_result" where
  "exec_command cfg pe w rid command timeout cwd s =
     and_then (active_binding (cw_check w) rid s) (\<lambda>s b.
     and_then (lift_sum s (validate_command command)) (\<lambda>s argv.
     and_then (lift_sum s (case timeout of None \<Rightarrow> Inr (rc_default_timeout cfg) | Some t \<Rightarrow> validate_timeout cfg t)) (\<lambda>s ms.
     and_then (lift_sum s (effective_cwd pe b cwd)) (\<lambda>s dir.
     and_then (with_request cfg w rid (rb_thread_id b) s) (\<lambda>s reply.
       lift_sum (touch (cw_touch w) rid None s) (exec_reply cfg rid b dir argv ms reply))))))"

section \<open>MCP inventory\<close>

definition normalize_filter :: "ustr option \<Rightarrow> runtime_error + ustr option" where
  "normalize_filter v = normalize_limited 256 v"

definition normalize_cursor :: "ustr option \<Rightarrow> runtime_error + ustr option" where
  "normalize_cursor v = normalize_limited 4096 v"

text \<open>\<open>casefold\<close> and \<open>py_str\<close> are \<^verbatim>\<open>str.casefold\<close> and \<^verbatim>\<open>str\<close> of a value that is not a text.\<close>

record text_env =
  te_casefold :: "ustr \<Rightarrow> ustr"
  te_str :: "json \<Rightarrow> ustr"

definition text_of :: "text_env \<Rightarrow> json \<Rightarrow> ustr" where
  "text_of te j = (case j of JStr s \<Rightarrow> s | _ \<Rightarrow> te_str te j)"

definition contains :: "ustr \<Rightarrow> ustr \<Rightarrow> bool" where
  "contains hay needle \<longleftrightarrow> needle = [] \<or> 0 < count_sub needle hay"

definition tool_matches :: "text_env \<Rightarrow> ustr option \<Rightarrow> string \<Rightarrow> json \<Rightarrow> bool" where
  "tool_matches te query name tool =
     (case query of
        None \<Rightarrow> True
      | Some q \<Rightarrow>
          let description = (case tool of JObj d \<Rightarrow> text_of te (get_default d ''description'' (JStr [])) | _ \<Rightarrow> []) in
          contains (te_casefold te (u name @ [32] @ description)) (te_casefold te q))"

definition inventory_server :: "text_env \<Rightarrow> ustr option \<Rightarrow> ustr option \<Rightarrow> json \<Rightarrow> dict list" where
  "inventory_server te server query item =
     (case item of
        JObj d \<Rightarrow>
          if server \<noteq> None \<and> map_of d ''name'' \<noteq> map_option JStr server then []
          else
            let tools = (case get_default d ''tools'' (JObj []) of
                JObj ts \<Rightarrow> filter (\<lambda>(k, v). tool_matches te query k v) ts | _ \<Rightarrow> []) in
            [dict_update d
              [(''server'', get_default d ''name'' JNull),
               (''runtimeStatus'', get_default d ''runtimeStatus'' (get_default d ''status'' JNull)),
               (''authStatus'', get_default d ''authStatus'' JNull),
               (''serverCapabilities'', get_default d ''serverCapabilities'' JNull),
               (''tools'', JObj tools)]]
      | _ \<Rightarrow> [])"

definition mcp_inventory ::
  "runtime_config \<Rightarrow> text_env \<Rightarrow> call_world \<Rightarrow> ustr \<Rightarrow> ustr option \<Rightarrow> ustr option \<Rightarrow> ustr option \<Rightarrow> int
   \<Rightarrow> manager \<Rightarrow> dict section_result" where
  "mcp_inventory cfg te w rid server query cursor limit s =
     and_then (active_binding (cw_check w) rid s) (\<lambda>s b.
     and_then (lift_sum s (normalize_filter server)) (\<lambda>s srv.
     and_then (lift_sum s (normalize_filter query)) (\<lambda>s q.
     and_then (lift_sum s (normalize_cursor cursor)) (\<lambda>s cur.
       if limit \<le> 0 \<or> 100 < limit then (s, Inl invalid_arguments)
       else
         and_then (with_request cfg w rid (rb_thread_id b) s) (\<lambda>s reply.
           case get_default reply ''data'' (JList []) of
             JList data \<Rightarrow>
               (touch (cw_touch w) rid (Some (length data)) s,
                Inr [(''success'', JBool True), (''runtime_id'', JStr rid), (''thread_id'', JStr (rb_thread_id b)),
                     (''servers'', JList (map JObj (concat (map (inventory_server te srv q) data)))),
                     (''next_cursor'', get_default reply ''nextCursor'' JNull), (''cursor'', jopt JStr cur),
                     (''limit'', JInt limit), (''server'', jopt JStr srv), (''tool_query'', jopt JStr q)])
           | _ \<Rightarrow> (s, Inl protocol_error))))))"

section \<open>MCP call\<close>

definition normalize_required_name :: "json \<Rightarrow> runtime_error + ustr" where
  "normalize_required_name v =
     (case v of
        JStr s \<Rightarrow> if strip s = [] \<or> 256 < length (strip s) then Inl invalid_arguments else Inr (strip s)
      | _ \<Rightarrow> Inl invalid_arguments)"

definition object_or_null :: "json \<Rightarrow> bool" where
  "object_or_null j = (case j of JNull \<Rightarrow> True | JObj d \<Rightarrow> True | _ \<Rightarrow> False)"

text \<open>
  \<^verbatim>\<open>is_error in {True, False, None}\<close>: numbers equal to a truth value are members; a list or an
  object cannot be looked up in a set, which raises \<^verbatim>\<open>TypeError\<close>.
\<close>

definition flag_value :: "json \<Rightarrow> runtime_error + bool" where
  "flag_value j =
     (case j of
        JNull \<Rightarrow> Inr False
      | JBool b \<Rightarrow> Inr b
      | JInt i \<Rightarrow> if i = 0 then Inr False else if i = 1 then Inr True else Inl protocol_error
      | JFloat r \<Rightarrow> if r = u ''1.0'' then Inr True else if r = u ''0.0'' \<or> r = u ''-0.0'' then Inr False
                    else Inl protocol_error
      | JStr s \<Rightarrow> Inl protocol_error
      | _ \<Rightarrow> Inl (runtime_error ''TypeError'' False []))"

definition mcp_call_reply :: "ustr \<Rightarrow> binding \<Rightarrow> ustr \<Rightarrow> ustr \<Rightarrow> dict \<Rightarrow> runtime_error + dict" where
  "mcp_call_reply rid b server tool reply =
     (let is_error = get_default reply ''isError'' JNull in
      case flag_value is_error of
        Inl e \<Rightarrow> Inl e
      | Inr failed \<Rightarrow>
          Inr ([(''success'', JBool (\<not> failed)), (''runtime_id'', JStr rid), (''thread_id'', JStr (rb_thread_id b)),
                (''server'', JStr server), (''tool'', JStr tool), (''content'', get_default reply ''content'' (JList [])),
                (''structuredContent'', get_default reply ''structuredContent'' JNull), (''isError'', is_error),
                (''_meta'', get_default reply ''_meta'' JNull)]
               @ (if failed
                  then [(''error'', JObj [(''code'', jlit ''mcp_tool_error''),
                          (''message'', jlit ''The downstream MCP tool reported an error.'')])]
                  else [])))"

definition mcp_call ::
  "runtime_config \<Rightarrow> call_world \<Rightarrow> ustr \<Rightarrow> json \<Rightarrow> json \<Rightarrow> json \<Rightarrow> json \<Rightarrow> manager \<Rightarrow> dict section_result" where
  "mcp_call cfg w rid server tool arguments meta s =
     and_then (active_binding (cw_check w) rid s) (\<lambda>s b.
     and_then (lift_sum s (normalize_required_name server)) (\<lambda>s srv.
     and_then (lift_sum s (normalize_required_name tool)) (\<lambda>s tl.
       if \<not> object_or_null arguments \<or> \<not> object_or_null meta then (s, Inl invalid_arguments)
       else
         and_then (with_request cfg w rid (rb_thread_id b) s) (\<lambda>s reply.
           lift_sum (touch (cw_touch w) rid None s) (mcp_call_reply rid b srv tl reply)))))"

section \<open>info\<close>

definition status_count :: "runtime_status \<Rightarrow> bindings \<Rightarrow> nat" where
  "status_count st bs = length (filter (\<lambda>(rid, b). rb_status b = st) bs)"

definition manager_info :: "runtime_config \<Rightarrow> adapter \<Rightarrow> dict \<Rightarrow> nat \<Rightarrow> ustr \<Rightarrow> manager \<Rightarrow> manager \<times> dict" where
  "manager_info cfg a adapter_info abandoned path s0 =
     (let s = fst (collect_expired_idle cfg a True s0);
          store = [(''available'', JBool (\<not> mg_load_error s)), (''path'', JStr path)]
            @ (if mg_load_error s then [(''error'', jlit ''binding_store_unavailable'')] else [])
            @ (case mg_persist_warning s of None \<Rightarrow> [] | Some w \<Rightarrow> [(''warning'', jlit w)]) in
      (s,
       [(''enabled'', JBool True),
        (''process_status'', get_default adapter_info ''process_status'' (jlit ''stopped'')),
        (''command'', get_default adapter_info ''command'' (jlit ''codex'')),
        (''capabilities'', get_default adapter_info ''capabilities'' (JList [])),
        (''runtime_count'', jnat (length (mg_bindings s))),
        (''ready_count'', jnat (status_count Ready (mg_bindings s))),
        (''detached_count'', jnat (status_count Detached (mg_bindings s))),
        (''max_runtimes'', jnat (rc_max_runtimes cfg)), (''max_concurrency'', jnat (rc_max_concurrency cfg)),
        (''idle_ttl_seconds'', JInt (rc_idle_ttl cfg)),
        (''gc'', JObj
           [(''policy'', jlit ''idle-ttl-plus-capacity-lru''), (''last_gc_at'', jopt JInt (mg_last_gc s)),
            (''expired_collected_total'', jnat (mg_collected s)), (''lru_evicted_total'', jnat (mg_evicted s)),
            (''lru_scope'', jlit ''detached-only''),
            (''cleanup_pending_count'', jnat (card (mg_pending s) + abandoned)),
            (''cleanup_error'', jopt (\<lambda>c. jlit c) (mg_cleanup_error s))]),
        (''live_thread_count'', jnat (card (mg_live s))),
        (''active_request_count'', jnat (sum_list (map snd (mg_active s)))),
        (''default_timeout_ms'', JInt (rc_default_timeout cfg)), (''max_timeout_ms'', JInt (rc_max_timeout cfg)),
        (''output_bytes_cap'', JInt (rc_output_cap cfg)), (''binding_store'', JObj store)]))"

end
