(* ===== verification/RuntimeMachine.thy ===== *)
theory RuntimeMachine
  imports RuntimeInv RuntimeCalls
begin

text \<open>
  The manager as a machine: every request event and every call keeps the invariant of \<open>RuntimeInv\<close>,
  and a runtime with a request in progress stays bound.
\<close>

section \<open>Request events\<close>

text \<open>What a request event leaves: the invariant, and the runtimes that are bound.\<close>

definition kept :: "runtime_config \<Rightarrow> nat \<Rightarrow> manager \<Rightarrow> manager \<Rightarrow> bool" where
  "kept cfg k s s' \<longleftrightarrow> manager_inv cfg k s' \<and> idents (mg_bindings s') = idents (mg_bindings s)"

lemma kept_refl: "manager_inv cfg k s \<Longrightarrow> kept cfg k s s"
  by (simp add: kept_def)

lemma kept_trans: "kept cfg k s s' \<Longrightarrow> kept cfg l s' s'' \<Longrightarrow> kept cfg l s s''"
  by (simp add: kept_def)

lemma similar_kept: "manager_inv cfg k s \<Longrightarrow> similar s s' \<Longrightarrow> kept cfg k s s'"
  using similar_inv [of cfg k s s'] by (simp add: kept_def similar_def)

lemma release_slot_kept: "kept cfg (Suc k) s s' \<Longrightarrow> kept cfg k s (release_slot s')"
  using slot_inv [of cfg k s'] by (simp add: kept_def) (simp add: release_slot_def)

lemma active_count_update:
  "mg_active s' = AList.update rid n (mg_active s) \<Longrightarrow> active_count s' r = (if r = rid then n else active_count s r)"
  by (simp add: active_count_def update_conv)

lemma release_slot_active [simp]: "active_count (release_slot s) r = active_count s r"
  by (simp add: active_count_def release_slot_def)

lemma begin_request_kept:
  assumes i: "manager_inv cfg k s"
  shows "kept cfg k s (fst (begin_request cfg a rid tid s))"
    and "active_count s r \<le> active_count (fst (begin_request cfg a rid tid s)) r"
proof -
  have "kept cfg k s (fst (begin_request cfg a rid tid s)) \<and>
    active_count s r \<le> active_count (fst (begin_request cfg a rid tid s)) r"
  proof (rule acquire_slot_cases [OF i])
    fix s1 assume t: "acquire_slot cfg s = (s1, Inr ())" and i1: "manager_inv cfg (Suc k) s1"
      and s1: "s1 = s\<lparr>mg_used_slots := Suc (mg_used_slots s)\<rparr>"
    obtain s2 res where r: "register_request a rid tid s1 = (s2, res)" by fastforce
    have a1: "active_count s1 r = active_count s r" for r by (simp add: s1 active_count_def)
    from register_request_keeps [OF i1 r] show ?thesis
    proof (elim disjE exE conjE)
      fix e assume "res = Inl e" and sim: "similar s1 s2"
      then have e: "fst (begin_request cfg a rid tid s) = release_slot s2" using t r by (simp add: begin_request_def)
      have "kept cfg (Suc k) s s2" using similar_kept [OF i1 sim] by (simp add: kept_def s1)
      then have "kept cfg k s (release_slot s2)" by (rule release_slot_kept)
      with e similar_active_count [OF sim, of r] a1 show ?thesis by simp
    next
      assume "res = Inr ()" and i2: "manager_inv cfg k s2" and b2: "mg_bindings s2 = mg_bindings s1"
        and al: "mg_active s2 = AList.update rid (Suc (active_count s1 rid)) (mg_active s1)"
      then have e: "fst (begin_request cfg a rid tid s) = s2" using t r by (simp add: begin_request_def)
      have "kept cfg k s s2" using i2 b2 by (simp add: kept_def s1)
      moreover have "active_count s r \<le> active_count s2 r" using active_count_update [OF al, of r] a1 by simp
      ultimately show ?thesis using e by simp
    qed
  next
    assume "acquire_slot cfg s = (s, Inl (concurrency_limit cfg))"
    then show ?thesis using i by (simp add: begin_request_def kept_refl)
  qed
  then show "kept cfg k s (fst (begin_request cfg a rid tid s))"
    and "active_count s r \<le> active_count (fst (begin_request cfg a rid tid s)) r" by blast+
qed

lemma unregister_inv:
  assumes i: "manager_inv cfg k s" and n: "0 < active_count s rid"
  shows "manager_inv cfg (Suc k) (unregister rid s)"
    and "active_count (unregister rid s) r = (if r = rid then active_count s r - 1 else active_count s r)"
proof -
  have d: "distinct (map fst (mg_active s))" using i by (simp add: manager_inv_def)
  let ?n = "active_count s rid - 1"
  define al where "al = (if ?n \<noteq> 0 then AList.update rid ?n (mg_active s) else AList.delete rid (mg_active s))"
  have u: "unregister rid s = s\<lparr>mg_active := al\<rparr>" by (simp add: unregister_def Let_def al_def)
  have m: "active_count s rid = (case map_of (mg_active s) rid of None \<Rightarrow> 0 | Some w \<Rightarrow> w)"
    by (simp add: active_count_def)
  have "sum_list (map snd al) + 1 = active_total s"
    using sum_update [OF d, of rid ?n] sum_delete [OF d, of rid] n
    unfolding al_def m [symmetric] active_total_def by (cases "?n = 0") (simp, linarith?)+
  moreover have "distinct (map fst al)"
    using d distinct_update [of "mg_active s" rid] distinct_delete [of "mg_active s" rid] by (simp add: al_def)
  moreover have "fst ` set al \<subseteq> fst ` set (mg_active s)"
    using n active_count_zero [OF i, of rid] dom_update [of rid ?n "mg_active s"] by (auto simp: al_def AList.delete_eq)
  moreover have "\<forall>(rid, n) \<in> set al. 0 < n"
    using i set_update_subset [of rid ?n "mg_active s"] by (auto simp: al_def manager_inv_def AList.delete_eq)
  ultimately show "manager_inv cfg (Suc k) (unregister rid s)"
    using i inv_active_bound [OF i] by (simp add: manager_inv_def u active_total_def)
  show "active_count (unregister rid s) r = (if r = rid then active_count s r - 1 else active_count s r)"
    using n by (simp add: u al_def active_count_def update_conv delete_conv)
qed

lemma end_request_kept:
  assumes i: "manager_inv cfg k s" and n: "0 < active_count s rid"
  shows "kept cfg k s (end_request a rid s)"
    and "active_count (end_request a rid s) r = (if r = rid then active_count s r - 1 else active_count s r)"
proof -
  let ?s = "touch a rid None s"
  note t = touch_keeps [OF i, of a rid None]
  have c: "active_count ?s r = active_count s r" for r using t(3) by (simp add: active_count_def)
  note u = unregister_inv [OF t(1), of rid]
  have "kept cfg (Suc k) s (unregister rid ?s)"
    using u(1) n t(2) by (simp add: kept_def c) (simp add: unregister_def Let_def)
  then show "kept cfg k s (end_request a rid s)" unfolding end_request_def by (rule release_slot_kept)
  show "active_count (end_request a rid s) r = (if r = rid then active_count s r - 1 else active_count s r)"
    using u(2) n by (simp add: end_request_def c)
qed

lemma runtime_status_similar:
  assumes "manager_inv cfg k s"
  shows "similar s (fst (runtime_status_call a rid s))"
proof (cases "mg_load_error s")
  case False
  then show ?thesis
    using set_status_similar [OF inv_distinct [OF assms], of rid]
    by (cases "map_of (mg_bindings s) rid") (auto simp: runtime_status_call_def ensure_store_def Let_def)
qed (simp add: runtime_status_call_def ensure_store_def)

definition ends :: "ustr \<Rightarrow> request_event \<Rightarrow> bool" where
  "ends rid ev = (case ev of EndRequest a r \<Rightarrow> r = rid | _ \<Rightarrow> False)"

lemma request_step_kept:
  assumes i: "manager_inv cfg k s"
  shows "kept cfg k s (request_step cfg s ev)"
    and "active_count s r \<le> active_count (request_step cfg s ev) r + (if ends r ev then 1 else 0)"
proof -
  have "kept cfg k s (request_step cfg s ev) \<and>
    active_count s r \<le> active_count (request_step cfg s ev) r + (if ends r ev then 1 else 0)"
  proof (cases ev)
    case (BeginRequest a rid tid)
    then show ?thesis using begin_request_kept [OF i] by (simp add: request_step_def ends_def)
  next
    case (EndRequest a rid)
    then show ?thesis
      using end_request_kept [OF i, of rid a] kept_refl [OF i] by (auto simp: request_step_def ends_def)
  next
    case (TouchRuntime a rid count)
    then show ?thesis
      using touch_keeps [OF i, of a rid count] by (simp add: request_step_def ends_def kept_def active_count_def)
  next
    case (ReadStatus a rid)
    have sim: "similar s (fst (runtime_status_call a rid s))" by (rule runtime_status_similar [OF i])
    show ?thesis
      using similar_kept [OF i sim] similar_active_count [OF sim, of r] ReadStatus by (simp add: request_step_def ends_def)
  qed
  then show "kept cfg k s (request_step cfg s ev)"
    and "active_count s r \<le> active_count (request_step cfg s ev) r + (if ends r ev then 1 else 0)" by blast+
qed

definition end_count :: "ustr \<Rightarrow> request_event list \<Rightarrow> nat" where
  "end_count rid evs = length (filter (ends rid) evs)"

lemma end_count_simps [simp]:
  "end_count r [] = 0" "end_count r (e # es) = (if ends r e then 1 else 0) + end_count r es"
  "end_count r (es @ fs) = end_count r es + end_count r fs"
  by (simp_all add: end_count_def)

lemma run_requests_simps [simp]:
  "run_requests cfg [] s = s" "run_requests cfg (e # es) s = run_requests cfg es (request_step cfg s e)"
  by (simp_all add: run_requests_def)

lemma run_requests_kept:
  "manager_inv cfg k s \<Longrightarrow> kept cfg k s (run_requests cfg evs s) \<and>
   active_count s r \<le> active_count (run_requests cfg evs s) r + end_count r evs"
proof (induction evs arbitrary: s)
  case (Cons ev evs)
  note e = request_step_kept [OF Cons.prems, where ev = ev]
  have "manager_inv cfg k (request_step cfg s ev)" using e(1) by (simp add: kept_def)
  note IH = Cons.IH [OF this]
  have "kept cfg k s (run_requests cfg (ev # evs) s)"
    using kept_trans [OF e(1)] IH by simp
  moreover have "active_count s r \<le> active_count (run_requests cfg (ev # evs) s) r + end_count r (ev # evs)"
    using IH e(2) [of r] by (auto split: if_splits)
  ultimately show ?case by blast
qed (simp add: kept_refl)

section \<open>Composed calls\<close>

lemma and_then_rule:
  assumes "P (fst r)" "\<And>s x. P s \<Longrightarrow> r = (s, Inr x) \<Longrightarrow> Q (fst (f s x))" "\<And>s. P s \<Longrightarrow> Q s"
  shows "Q (fst (and_then r f))"
proof -
  obtain s res where r: "r = (s, res)" by fastforce
  with assms show ?thesis by (cases res) auto
qed

lemma and_then_lift:
  "Q s \<Longrightarrow> (\<And>x. r = Inr x \<Longrightarrow> Q (fst (f s x))) \<Longrightarrow> Q (fst (and_then (lift_sum s r) f))"
  by (cases r) (simp_all add: lift_sum_def)

lemma and_then_store:
  "Q s \<Longrightarrow> (\<And>x. Q (fst (f s x))) \<Longrightarrow> Q (fst (and_then (ensure_store s) f))"
  by (cases "mg_load_error s") (simp_all add: ensure_store_def)

lemma fst_lift_sum [simp]: "fst (lift_sum s r) = s"
  by (simp add: lift_sum_def)

text \<open>The invariant, and at least \<open>c - m\<close> requests of \<open>r\<close> in progress.\<close>

definition fine :: "runtime_config \<Rightarrow> nat \<Rightarrow> ustr \<Rightarrow> nat \<Rightarrow> nat \<Rightarrow> manager \<Rightarrow> bool" where
  "fine cfg k r c m s \<longleftrightarrow> manager_inv cfg k s \<and> c \<le> active_count s r + m"

lemma fine_mono: "fine cfg k r c m s \<Longrightarrow> m \<le> n \<Longrightarrow> fine cfg k r c n s"
  by (simp add: fine_def)

lemma fine_active: "fine cfg k r c m s \<Longrightarrow> manager_inv cfg l s' \<Longrightarrow> mg_active s' = mg_active s \<Longrightarrow> fine cfg l r c m s'"
  by (simp add: fine_def active_count_def)

lemma fine_similar: "fine cfg k r c m s \<Longrightarrow> similar s s' \<Longrightarrow> fine cfg k r c m s'"
  by (rule fine_active [of cfg k r c m s]) (auto simp: fine_def intro: similar_inv, simp add: similar_def)

lemma fine_requests: "fine cfg k r c m s \<Longrightarrow> fine cfg k r c (m + end_count r evs) (run_requests cfg evs s)"
  using run_requests_kept [of cfg k s evs r] by (auto simp: fine_def kept_def)

lemma collect_expired_locked_active: "mg_active (fst (collect_expired_locked cfg a suppress s)) = mg_active s"
proof -
  let ?s = "s\<lparr>mg_last_gc := Some (ad_now a)\<rparr>"
  obtain s1 released where r:
    "release_expired a (filter (is_expired cfg a ?s) (map snd (mg_bindings ?s))) ?s = (s1, released)" by fastforce
  have "mg_active s1 = mg_active s"
    using release_expired_similar [of ?s a "filter (is_expired cfg a ?s) (map snd (mg_bindings ?s))"] r
    by (simp add: similar_def)
  with r show ?thesis by (simp add: collect_expired_locked_def Let_def)
qed

lemma evict_active: "mg_active (fst (evict a bs s)) = mg_active s"
proof -
  obtain s1 res where r: "release_all a bs s = (s1, res)" by fastforce
  then have "mg_active s1 = mg_active s" using release_all_similar [of s a bs] by (simp add: similar_def)
  with r show ?thesis by (cases res; cases "ad_save_ok a") (simp_all add: evict_def save_bindings_def)
qed

lemma ensure_capacity_locked_active: "mg_active (fst (ensure_capacity_locked cfg a required s)) = mg_active s"
proof -
  obtain s1 res where r: "collect_expired_locked cfg a False s = (s1, res)" by fastforce
  then have "mg_active s1 = mg_active s" using collect_expired_locked_active [of cfg a False s] by simp
  with r show ?thesis by (cases res) (simp_all add: ensure_capacity_locked_def Let_def evict_active)
qed

lemma store_binding_active: "mg_active (fst (store_binding a b s)) = mg_active s"
  by (simp add: store_binding_def Let_def save_bindings_def)

lemma collect_fine:
  assumes "fine cfg k r c m s"
  shows "fine cfg k r c m (fst (collect_expired_locked cfg a suppress s))"
proof (rule fine_active [OF assms])
  show "manager_inv cfg k (fst (collect_expired_locked cfg a suppress s))"
    using assms by (intro collect_expired_locked_inv) (simp add: fine_def)
qed (rule collect_expired_locked_active)

lemma collect_idle_fine:
  assumes f: "fine cfg k r c m s"
  shows "fine cfg k r c m (fst (collect_expired_idle cfg a suppress s))"
proof (cases "mg_load_error s")
  case False
  define s0 where "s0 = sync_generation a s"
  obtain s1 res where r:
    "(case ad_cleanup a of Some e \<Rightarrow> (s0, Inl e) | None \<Rightarrow> release_threads a (orphan_threads s0) s0) = (s1, res)"
    by fastforce
  have "similar s0 s1"
    using r release_threads_similar [of s0 a "orphan_threads s0"] by (auto split: option.splits)
  then have sim: "similar s s1" using sync_generation_similar [of s a] unfolding s0_def by (blast intro: similar_trans)
  have f1: "fine cfg k r c m s1" by (rule fine_similar [OF f sim])
  have f2: "fine cfg k r c m (s1\<lparr>mg_cleanup_error := x\<rparr>)" for x
    by (rule fine_similar [OF f1]) (simp add: similar_def)
  have "collect_expired_idle cfg a suppress s = (case res of
      Inr ok \<Rightarrow> collect_expired_locked cfg a suppress s1
    | Inl e \<Rightarrow> if suppress then collect_expired_locked cfg a suppress (s1\<lparr>mg_cleanup_error := Some (re_code e)\<rparr>)
        else (s1\<lparr>mg_cleanup_error := Some (re_code e)\<rparr>, Inl e))"
    using False r by (simp add: collect_expired_idle_def Let_def flip: s0_def)
  then show ?thesis using collect_fine [OF f1] collect_fine [OF f2] f2 by (cases res) simp_all
qed (use f in \<open>simp add: collect_expired_idle_def\<close>)

lemma capacity_fine:
  assumes "fine cfg k r c m s"
  shows "fine cfg k r c m (fst (ensure_capacity_locked cfg a required s))"
proof (rule fine_active [OF assms])
  show "manager_inv cfg k (fst (ensure_capacity_locked cfg a required s))"
    using assms by (intro ensure_capacity_locked_inv(1)) (simp add: fine_def)
qed (rule ensure_capacity_locked_active)

lemma ensure_capacity_fine:
  assumes "fine cfg k r c m s"
  shows "fine cfg k r c m (fst (ensure_capacity cfg a required s))"
  unfolding ensure_capacity_def
  by (rule and_then_store [where Q = "fine cfg k r c m"]) (rule assms, rule capacity_fine [OF assms])

lemma with_slot_kept:
  assumes i: "manager_inv cfg k s"
  shows "kept cfg k s (fst (with_slot cfg gap answer s))"
    and "active_count s r \<le> active_count (fst (with_slot cfg gap answer s)) r + end_count r gap"
proof -
  have "kept cfg k s (fst (with_slot cfg gap answer s)) \<and>
    active_count s r \<le> active_count (fst (with_slot cfg gap answer s)) r + end_count r gap"
  proof (rule acquire_slot_cases [OF i])
    fix s1 assume t: "acquire_slot cfg s = (s1, Inr ())" and i1: "manager_inv cfg (Suc k) s1"
      and s1: "s1 = s\<lparr>mg_used_slots := Suc (mg_used_slots s)\<rparr>"
    have e: "fst (with_slot cfg gap answer s) = release_slot (run_requests cfg gap s1)"
      using t by (simp add: with_slot_def)
    note g = run_requests_kept [OF i1, of gap r]
    have "kept cfg (Suc k) s (run_requests cfg gap s1)" using g by (simp add: kept_def s1)
    then have "kept cfg k s (release_slot (run_requests cfg gap s1))" by (rule release_slot_kept)
    moreover have "active_count s1 r = active_count s r" by (simp add: s1 active_count_def)
    ultimately show ?thesis using g e by simp
  next
    assume "acquire_slot cfg s = (s, Inl (concurrency_limit cfg))"
    then show ?thesis using i by (simp add: with_slot_def kept_refl)
  qed
  then show "kept cfg k s (fst (with_slot cfg gap answer s))"
    and "active_count s r \<le> active_count (fst (with_slot cfg gap answer s)) r + end_count r gap" by blast+
qed

lemma with_slot_fine:
  assumes "fine cfg k r c m s"
  shows "fine cfg k r c (m + end_count r gap) (fst (with_slot cfg gap answer s))"
  using assms with_slot_kept(1) [of cfg k s gap answer] with_slot_kept(2) [of cfg k s r gap answer]
  by (auto simp: fine_def kept_def)

lemma open_commit_fine:
  assumes "fine cfg k r c m s"
  shows "fine cfg k r c m (fst (open_commit cfg a b s))"
proof (rule fine_active [OF assms])
  show "manager_inv cfg k (fst (open_commit cfg a b s))" using assms by (intro open_commit_inv) (simp add: fine_def)
  define s0 where "s0 = sync_generation a s"
  have a0: "mg_active s0 = mg_active s" using sync_generation_similar [of s a] by (simp add: s0_def similar_def)
  obtain s1 res where r: "ensure_capacity_locked cfg a 1 s0 = (s1, res)" by fastforce
  have a1: "mg_active s1 = mg_active s" using ensure_capacity_locked_active [of cfg a 1 s0] r a0 by simp
  obtain s2 res2 where r2: "and_then (s1, res) (\<lambda>s ids. store_binding a b s) = (s2, res2)" by fastforce
  have a2: "mg_active s2 = mg_active s"
    using r2 a1 store_binding_active [of a b s1] by (cases res) auto
  show "mg_active (fst (open_commit cfg a b s)) = mg_active s"
    using r r2 a2 compensate_allocation_similar
    by (cases res2) (simp_all add: open_commit_def Let_def case_prod_beta similar_def flip: s0_def)
qed

lemma open_runtime_fine:
  assumes f: "fine cfg 0 r c m s"
  shows "fine cfg 0 r c (m + end_count r (ow_gap w)) (fst (open_runtime cfg pe w cwd mode name s))"
  unfolding open_runtime_def
proof (intro and_then_store [where Q = "fine cfg 0 r c (m + end_count r (ow_gap w))"]
    and_then_lift [where Q = "fine cfg 0 r c (m + end_count r (ow_gap w))"])
  show g: "fine cfg 0 r c (m + end_count r (ow_gap w)) s" using fine_mono [OF f] by simp
  then show "fine cfg 0 r c (m + end_count r (ow_gap w)) s" .
  then show "fine cfg 0 r c (m + end_count r (ow_gap w)) s" .
  fix target nm
  show "fine cfg 0 r c (m + end_count r (ow_gap w)) (fst (and_then (ensure_capacity cfg (ow_before w) 1 s) (\<lambda>s ids.
     and_then (with_slot cfg (ow_gap w) (ow_answer w) s) (\<lambda>s reply.
     and_then (lift_sum s (verify_thread_metadata pe target mode reply)) (\<lambda>s (tid, returned_cwd).
       open_commit cfg (ow_after w)
         (new_binding (ow_fresh_id w) tid returned_cwd mode nm (ad_now (ow_after w))) s)))))"
  proof (rule and_then_rule [where P = "fine cfg 0 r c m"], goal_cases)
    case 1
    show ?case by (rule ensure_capacity_fine [OF f])
  next
    case (2 s1 ids)
    show ?case
    proof (rule and_then_rule [where P = "fine cfg 0 r c (m + end_count r (ow_gap w))"], goal_cases)
      case 1
      show ?case by (rule with_slot_fine [OF 2(1)])
    next
      case (2 s2 reply)
      then show ?case
        by (intro and_then_lift [where Q = "fine cfg 0 r c (m + end_count r (ow_gap w))"])
           (auto intro: open_commit_fine)
    qed
  next
    case (3 s1)
    then show ?case by (rule fine_mono) simp
  qed
qed

section \<open>resume\<close>

text \<open>The runtime that is resumed is still bound when the call commits.\<close>

definition bound_keys :: "ustr set \<Rightarrow> manager \<Rightarrow> bool" where
  "bound_keys K s \<longleftrightarrow> K \<subseteq> fst ` set (mg_bindings s)"

lemma bound_keys_idents:
  assumes "bound_keys K s" "idents (mg_bindings s') = idents (mg_bindings s)"
  shows "bound_keys K s'"
proof -
  have "set (map fst (mg_bindings s')) = set (map fst (mg_bindings s))"
    by (rule arg_cong [OF idents_keys [OF assms(2)]])
  with assms(1) show ?thesis by (simp add: bound_keys_def)
qed

lemma bound_keys_similar: "bound_keys K s \<Longrightarrow> similar s s' \<Longrightarrow> bound_keys K s'"
  by (erule bound_keys_idents) (simp add: similar_def)

lemma bound_keys_kept: "bound_keys K s \<Longrightarrow> kept cfg k s s' \<Longrightarrow> bound_keys K s'"
  by (erule bound_keys_idents) (simp add: kept_def)

lemma bound_keys_requests: "manager_inv cfg k s \<Longrightarrow> bound_keys K s \<Longrightarrow> bound_keys K (run_requests cfg evs s)"
  by (erule bound_keys_kept) (rule conjunct1 [OF run_requests_kept])

lemma bound_keys_slot: "manager_inv cfg k s \<Longrightarrow> bound_keys K s \<Longrightarrow> bound_keys K (fst (with_slot cfg gap answer s))"
  by (erule bound_keys_kept) (rule with_slot_kept(1))

definition target_ids :: "resume_target \<Rightarrow> ustr set" where
  "target_ids t = (case rt_existing t of None \<Rightarrow> {} | Some b \<Rightarrow> {rb_runtime_id b})"

lemma match_existing_target: "match_existing pe b cwd mode = Inr t \<Longrightarrow> rt_existing t = Some b"
  by (auto simp: match_existing_def Let_def split: sum.splits if_splits)

lemma resume_lookup_bound:
  assumes "keyed (mg_bindings s)" "resume_lookup pe s runtime_id thread_id cwd mode = Inr t"
  shows "bound_keys (target_ids t) s"
proof (cases "rt_existing t")
  case (Some b)
  have "b \<in> snd ` set (mg_bindings s)"
  proof (cases "given runtime_id")
    case True
    with assms(2) Some show ?thesis
      by (auto simp: resume_lookup_def Let_def split: if_splits option.splits dest!: match_existing_target map_of_SomeD
          intro: rev_image_eqI)
  next
    case False
    with assms(2) Some show ?thesis
      by (auto simp: resume_lookup_def Let_def find_Some_iff split: if_splits option.splits sum.splits
          dest!: match_existing_target)
  qed
  then obtain key where "(key, b) \<in> set (mg_bindings s)" by auto
  moreover have "key = rb_runtime_id b" using assms(1) calculation by (auto simp: keyed_def)
  ultimately show ?thesis using Some by (force simp: bound_keys_def target_ids_def)
qed (simp add: target_ids_def bound_keys_def)

lemma resume_prepare_similar: "similar s (fst (resume_prepare a t s))"
proof -
  let ?s = "sync_generation a s"
  have "similar ?s (fst (and_then (if rt_thread t \<in> mg_pending ?s then release_thread a (rt_thread t) ?s else (?s, Inr ()))
        (\<lambda>s ok. (s, Inr (rt_existing t \<noteq> None \<and> ad_running a \<and> rt_thread t \<in> mg_live s)))))"
    using release_thread_similar [of ?s a "rt_thread t"]
    by - (rule and_then_rule [where P = "similar ?s" and Q = "similar ?s"], simp_all)
  then show ?thesis
    unfolding resume_prepare_def Let_def by (rule similar_trans [OF sync_generation_similar])
qed

lemma resume_commit_fine:
  assumes f: "fine cfg k r c m s" and b: "bound_keys (target_ids t) s"
    and id: "rt_existing t \<noteq> None \<Longrightarrow> rb_runtime_id b \<in> target_ids t"
  shows "fine cfg k r c m (fst (resume_commit cfg a t reused b s))"
proof -
  define s0 where "s0 = sync_generation a s"
  have f0: "fine cfg k r c m s0" and b0: "bound_keys (target_ids t) s0"
    using fine_similar [OF f sync_generation_similar] bound_keys_similar [OF b sync_generation_similar]
    by (simp_all add: s0_def)
  then have i0: "manager_inv cfg k s0" by (simp add: fine_def)
  define room where "room = (if rt_existing t = None then ensure_capacity_locked cfg a 1 s0 else (s0, Inr []))"
  have stored: "fine cfg k r c m (fst (and_then room (\<lambda>s ids. store_binding a b s)))"
  proof (rule and_then_rule [where P = "fine cfg k r c m"])
    show "fine cfg k r c m (fst room)" using capacity_fine [OF f0] f0 by (simp add: room_def)
    fix s1 ids assume f1: "fine cfg k r c m s1" and r: "room = (s1, Inr ids)"
    have "rb_runtime_id b \<in> fst ` set (mg_bindings s1) \<or> length (mg_bindings s1) < rc_max_runtimes cfg"
    proof (cases "rt_existing t = None")
      case True
      with r ensure_capacity_locked_inv(2) [OF i0, of a 1 s1 ids] show ?thesis by (simp add: room_def)
    next
      case False
      with r b0 id show ?thesis by (auto simp: room_def bound_keys_def)
    qed
    then have "manager_inv cfg k (fst (store_binding a b s1))"
      using f1 by (intro store_binding_inv) (simp_all add: fine_def)
    then show "fine cfg k r c m (fst (store_binding a b s1))"
      by (rule fine_active [OF f1]) (rule store_binding_active)
  qed
  obtain s2 res where r2: "and_then room (\<lambda>s ids. store_binding a b s) = (s2, res)" by fastforce
  with stored have f2: "fine cfg k r c m s2" by simp
  then show ?thesis
    using r2 fine_similar [OF f2 compensate_allocation_similar]
    by (cases res) (simp_all add: resume_commit_def Let_def case_prod_beta flip: s0_def room_def)
qed

lemma resume_binding_id:
  "rt_existing t \<noteq> None \<Longrightarrow> rb_runtime_id (resume_binding t fresh tid cwd now) \<in> target_ids t"
  by (cases "rt_existing t") (simp_all add: resume_binding_def target_ids_def)

abbreviation resume_ends :: "ustr \<Rightarrow> resume_world \<Rightarrow> nat" where
  "resume_ends r w \<equiv> end_count r (rw_first_gap w @ rw_gap w @ rw_last_gap w)"

lemma resume_tail_fine:
  assumes f: "fine cfg 0 r c (m + end_count r (rw_first_gap w @ rw_gap w)) s" and b: "bound_keys (target_ids t) s"
  shows "fine cfg 0 r c (m + resume_ends r w) (fst
    (let b = resume_binding t (rw_fresh_id w) tid returned_cwd (ad_now (rw_after w)) in
          and_then (resume_commit cfg (rw_after w) t reused b s) (\<lambda>s ok.
          and_then
            (if recreated then release_thread (rw_end w) (rt_thread t) (run_requests cfg (rw_last_gap w) s)
             else (s, Inr ()))
            (\<lambda>s ok. (s, Inr (resume_reply t reused recreated b))))))"
proof -
  let ?b = "resume_binding t (rw_fresh_id w) tid returned_cwd (ad_now (rw_after w))"
  have mono: "fine cfg 0 r c (m + resume_ends r w) s'" if "fine cfg 0 r c (m + end_count r (rw_first_gap w @ rw_gap w)) s'" for s'
    using that by (rule fine_mono) simp
  show ?thesis unfolding Let_def
  proof (rule and_then_rule [where P = "fine cfg 0 r c (m + end_count r (rw_first_gap w @ rw_gap w))"], goal_cases)
    case 1
    show ?case by (rule resume_commit_fine [OF f b resume_binding_id])
  next
    case (2 s1 ok)
    have "fine cfg 0 r c (m + resume_ends r w) (run_requests cfg (rw_last_gap w) s1)"
      using fine_requests [OF 2(1), of "rw_last_gap w"] by (simp add: add.assoc)
    then have "fine cfg 0 r c (m + resume_ends r w)
        (fst (release_thread (rw_end w) (rt_thread t) (run_requests cfg (rw_last_gap w) s1)))"
      by (rule fine_similar) (rule release_thread_similar)
    then show ?case
      using mono [OF 2(1)]
      by - (rule and_then_rule [where P = "fine cfg 0 r c (m + resume_ends r w)"], simp_all)
  next
    case (3 s1)
    then show ?case by (rule mono)
  qed
qed

lemma resume_runtime_fine:
  assumes f: "fine cfg 0 r c m s"
  shows "fine cfg 0 r c (m + resume_ends r w) (fst (resume_runtime cfg pe w runtime_id thread_id cwd mode s))"
  unfolding resume_runtime_def
proof (intro and_then_store [where Q = "fine cfg 0 r c (m + resume_ends r w)"]
    and_then_lift [where Q = "fine cfg 0 r c (m + resume_ends r w)"])
  show "fine cfg 0 r c (m + resume_ends r w) s" using fine_mono [OF f] by simp
  then show "fine cfg 0 r c (m + resume_ends r w) s" .
  fix t assume l: "resume_lookup pe s runtime_id thread_id cwd mode = Inr t"
  let ?K = "target_ids t" and ?r = "run_requests cfg (rw_first_gap w) s"
  have i: "manager_inv cfg 0 s" using f by (simp add: fine_def)
  have b: "bound_keys ?K s" using i by (intro resume_lookup_bound [OF _ l]) (simp add: manager_inv_def)
  define P where "P n s' \<longleftrightarrow> fine cfg 0 r c (m + n) s' \<and> bound_keys ?K s'" for n s'
  have P_mono: "P n s' \<Longrightarrow> n \<le> n' \<Longrightarrow> P n' s'" for n n' s' by (auto simp: P_def intro: fine_mono)
  have P_end: "fine cfg 0 r c (m + resume_ends r w) s'" if "P n s'" "n \<le> resume_ends r w" for n s'
    using that by (auto simp: P_def intro: fine_mono)
  let ?e1 = "end_count r (rw_first_gap w)" and ?e2 = "end_count r (rw_first_gap w @ rw_gap w)"
  have p0: "P ?e1 ?r"
    using fine_requests [OF f] bound_keys_requests [OF i b] by (simp add: P_def)
  have p1: "P ?e1 (fst (resume_prepare (rw_before w) t ?r))"
    using p0 fine_similar [OF _ resume_prepare_similar] bound_keys_similar [OF _ resume_prepare_similar] by (simp add: P_def)
  let ?call = "\<lambda>s reused. if reused then (s, Inr (rt_thread t, rt_cwd t, False))
        else and_then (with_slot cfg (rw_gap w) (Inr ()) s) (\<lambda>s ok. lift_sum s (resumed_thread pe t (rw_answer w)))"
  have p2: "P ?e2 (fst (?call s1 reused))" if "P ?e1 s1" for s1 reused
  proof (cases reused)
    case True
    with that show ?thesis by (auto intro: P_mono)
  next
    case False
    have "P ?e2 (fst (with_slot cfg (rw_gap w) (Inr () :: runtime_error + unit) s1))"
      using that with_slot_fine [of cfg 0 r c "m + ?e1" s1 "rw_gap w" "Inr ()"]
        bound_keys_slot [of cfg 0 s1 ?K "rw_gap w" "Inr ()"] by (simp add: P_def fine_def add.assoc)
    with False show ?thesis by (cases "with_slot cfg (rw_gap w) (Inr () :: runtime_error + unit) s1"; cases "snd (with_slot cfg (rw_gap w) (Inr () :: runtime_error + unit) s1)") auto
  qed
  show "fine cfg 0 r c (m + resume_ends r w) (fst (and_then (resume_prepare (rw_before w) t ?r) (\<lambda>s reused.
     and_then (?call s reused) (\<lambda>s (tid, returned_cwd, recreated).
          let b = resume_binding t (rw_fresh_id w) tid returned_cwd (ad_now (rw_after w)) in
          and_then (resume_commit cfg (rw_after w) t reused b s) (\<lambda>s ok.
          and_then
            (if recreated then release_thread (rw_end w) (rt_thread t) (run_requests cfg (rw_last_gap w) s)
             else (s, Inr ()))
            (\<lambda>s ok. (s, Inr (resume_reply t reused recreated b))))))))"
  proof (rule and_then_rule [where P = "P ?e1"], goal_cases)
    case 1
    show ?case by (rule p1)
  next
    case (2 s1 reused)
    show ?case
    proof (rule and_then_rule [where P = "P ?e2"], goal_cases)
      case 1
      show ?case by (rule p2 [OF 2(1)])
    next
      case (2 s2 x)
      obtain tid returned_cwd recreated where x: "x = (tid, returned_cwd, recreated)" by (cases x) auto
      show ?case unfolding x prod.case
        by (rule resume_tail_fine) (use 2(1) in \<open>simp_all add: P_def\<close>)
    next
      case (3 s2)
      then show ?case by (rule P_end) simp
    qed
  next
    case (3 s1)
    then show ?case by (rule P_end) simp
  qed
qed

section \<open>acquire, close, list, shutdown\<close>

lemma acquire_runtime_fine:
  assumes f: "fine cfg 0 r c m s"
  shows "fine cfg 0 r c (m + end_count r (ow_gap ow) + resume_ends r rw)
    (fst (acquire_runtime cfg pe a ow rw cwd mode name s))"
proof -
  let ?Q = "fine cfg 0 r c (m + end_count r (ow_gap ow) + resume_ends r rw)"
  have mono: "?Q s'" if "fine cfg 0 r c m s'" for s' using that by (rule fine_mono) simp
  have opened: "?Q (fst (and_then (open_runtime cfg pe ow target mode (Some n) s') g))"
    if "fine cfg 0 r c m s'" "\<And>s x. fst (g s x) = s" for s' target n g
    by (rule and_then_rule [where P = "fine cfg 0 r c (m + end_count r (ow_gap ow))"])
       (use that open_runtime_fine [OF that(1)] in \<open>auto elim: fine_mono\<close>)
  have resumed: "?Q (fst (and_then (resume_runtime cfg pe rw rid None tgt (Some mode) s') g))"
    if "fine cfg 0 r c m s'" "\<And>s x. fst (g s x) = s" for s' rid tgt g
    by (rule and_then_rule [where P = "fine cfg 0 r c (m + resume_ends r rw)"])
       (use that resume_runtime_fine [OF that(1)] in \<open>auto elim: fine_mono\<close>)
  show ?thesis
    unfolding acquire_runtime_def
  proof (intro and_then_store [where Q = ?Q] and_then_lift [where Q = ?Q])
    show "?Q s" by (rule mono [OF f])
    then show "?Q s" .
    then show "?Q s" .
    fix target nm
    show "?Q (fst (case nm of None \<Rightarrow> (s, Inl invalid_arguments)
       | Some n \<Rightarrow>
           and_then (collect_expired_idle cfg a False s) (\<lambda>s ids.
             case acquire_match pe target mode n s of
               None \<Rightarrow>
                 and_then (open_runtime cfg pe ow target mode (Some n) s) (\<lambda>s d.
                   (s, Inr (mark_acquired (jlit ''opened'') False d)))
             | Some b \<Rightarrow>
                 and_then (resume_runtime cfg pe rw (Some (rb_runtime_id b)) None (Some target) (Some mode) s) (\<lambda>s d.
                   (s, Inr (mark_acquired (case map_of d ''resume_mode'' of Some m \<Rightarrow> m | None \<Rightarrow> jlit ''resumed'') True d))))))"
    proof (cases nm)
      case None
      with mono [OF f] show ?thesis by simp
    next
      case (Some n)
      show ?thesis unfolding Some option.case
        by (rule and_then_rule [where P = "fine cfg 0 r c m", OF collect_idle_fine [OF f]])
           (simp_all only: opened resumed mono fst_conv simp_thms split: option.split)
    qed
  qed
qed

lemma close_runtime_fine:
  assumes f: "fine cfg k r c m s"
  shows "fine cfg k r c m (fst (close_runtime a rid release_resources s))"
  unfolding close_runtime_def
proof (rule and_then_store [where Q = "fine cfg k r c m"])
  show "fine cfg k r c m s" by (rule f)
  have i: "manager_inv cfg k s" using f by (simp add: fine_def)
  show "fine cfg k r c m (fst (case map_of (mg_bindings s) rid of
         None \<Rightarrow> (s, Inl (runtime_not_found []))
       | Some b \<Rightarrow>
           if thread_in_use a s (rb_thread_id b) then (s, Inl runtime_busy)
           else
             and_then (if release_resources then release_thread a (rb_thread_id b) s else (s, Inr ())) (\<lambda>s ok.
               let b' = b\<lparr>rb_status := Detached, rb_last_used_at := ad_now a\<rparr> in
               and_then (save_bindings a (AList.update rid b' (mg_bindings s)) s) (\<lambda>s ok.
                 (s, Inr (dict_update [(''success'', JBool True)]
                    (runtime_public_dict b' @
                     [(''preserved_thread'', JBool True), (''binding_preserved'', JBool True),
                      (''destructive_action'', JBool False), (''resources_released'', JBool release_resources),
                      (''resume_may_recreate_thread'', JBool release_resources)])))))))"
  proof (cases "map_of (mg_bindings s) rid")
    case (Some b)
    have id: "rb_runtime_id b = rid" using i Some by (intro keyed_lookup) (simp_all add: manager_inv_def)
    have b0: "bound_keys {rid} s" using map_of_SomeD [OF Some] by (force simp: bound_keys_def)
    define P where "P s' \<longleftrightarrow> fine cfg k r c m s' \<and> bound_keys {rid} s'" for s'
    have "P s" using f b0 by (simp add: P_def)
    moreover have "P (fst (release_thread a t s))" for t
      using fine_similar [OF f release_thread_similar] bound_keys_similar [OF b0 release_thread_similar] by (simp add: P_def)
    moreover have "fine cfg k r c m (fst (and_then (save_bindings a (AList.update rid
        (b\<lparr>rb_status := Detached, rb_last_used_at := ad_now a\<rparr>) (mg_bindings s')) s') (\<lambda>s ok. (s, Inr d))))"
      if p: "P s'" for s' and d :: dict
    proof (rule and_then_rule [where P = "fine cfg k r c m"])
      let ?b = "b\<lparr>rb_status := Detached, rb_last_used_at := ad_now a\<rparr>"
      show "fine cfg k r c m (fst (save_bindings a (AList.update rid ?b (mg_bindings s')) s'))"
      proof (rule fine_active)
        show "fine cfg k r c m s'" using p by (simp add: P_def)
        show "manager_inv cfg k (fst (save_bindings a (AList.update rid ?b (mg_bindings s')) s'))"
          using save_update_inv [of cfg k s' ?b a] p id by (simp add: P_def fine_def bound_keys_def)
      qed (simp add: save_bindings_def)
    qed simp_all
    ultimately have "fine cfg k r c m (fst
        (and_then (if release_resources then release_thread a (rb_thread_id b) s else (s, Inr ())) (\<lambda>s ok.
               let b' = b\<lparr>rb_status := Detached, rb_last_used_at := ad_now a\<rparr> in
               and_then (save_bindings a (AList.update rid b' (mg_bindings s)) s) (\<lambda>s ok. (s, Inr (d b'))))))" for d :: "binding \<Rightarrow> dict"
      unfolding Let_def by - (rule and_then_rule [where P = P], auto simp: P_def)
    with Some f show ?thesis by simp
  qed (use f in simp)
qed

lemma list_runtimes_fine:
  assumes f: "fine cfg k r c m s"
  shows "fine cfg k r c m (fst (list_runtimes cfg pe a name cwd status offset limit s))"
proof -
  let ?Q = "fine cfg k r c m"
  have "?Q (fst (and_then (collect_expired_idle cfg a False s) (\<lambda>s ids. (s, Inr (d s)))))" for d :: "manager \<Rightarrow> dict"
    by (rule and_then_rule [where P = ?Q, OF collect_idle_fine [OF f]]) simp_all
  then have "?Q (fst (and_then (lift_sum s x) (\<lambda>s nm. and_then (lift_sum s y) (\<lambda>s target.
      and_then (lift_sum s z) (\<lambda>s st. and_then (collect_expired_idle cfg a False s) (\<lambda>s ids.
           (s, Inr (list_page (list_matches pe nm target st s) (nat offset) (nat limit)))))))))" for x y z
    using f by (intro and_then_lift [where Q = ?Q])
  then show ?thesis
    unfolding list_runtimes_def using f by (intro and_then_store [where Q = ?Q]) simp_all
qed

lemma shutdown_similar: "similar s ((shutdown s)\<lparr>mg_gc_stop := mg_gc_stop s\<rparr>)"
  using idents_map [of detach_binding "mg_bindings s"]
  unfolding shutdown_def similar_def by (simp add: ident_def detach_binding_def case_prod_beta)

lemma shutdown_fine:
  assumes "fine cfg k r c m s"
  shows "fine cfg k r c m (shutdown s)"
  using fine_similar [OF assms shutdown_similar] by (simp add: fine_def manager_inv_def active_total_def active_count_def)

section \<open>The machine\<close>

datatype manager_op =
    RequestOp request_event
  | OpenOp path_env open_world ustr sandbox "ustr option"
  | ResumeOp path_env resume_world "ustr option" "ustr option" "ustr option" "sandbox option"
  | AcquireOp path_env adapter open_world resume_world ustr sandbox ustr
  | CloseOp adapter ustr bool
  | ListOp path_env adapter "ustr option" "ustr option" "ustr option" int int
  | CapacityOp adapter nat
  | CollectOp adapter bool
  | ShutdownOp

fun op_step :: "runtime_config \<Rightarrow> manager \<Rightarrow> manager_op \<Rightarrow> manager" where
  "op_step cfg s (RequestOp ev) = request_step cfg s ev"
| "op_step cfg s (OpenOp pe w cwd mode name) = fst (open_runtime cfg pe w cwd mode name s)"
| "op_step cfg s (ResumeOp pe w rid tid cwd mode) = fst (resume_runtime cfg pe w rid tid cwd mode s)"
| "op_step cfg s (AcquireOp pe a ow rw cwd mode name) = fst (acquire_runtime cfg pe a ow rw cwd mode name s)"
| "op_step cfg s (CloseOp a rid release_resources) = fst (close_runtime a rid release_resources s)"
| "op_step cfg s (ListOp pe a name cwd status offset limit) =
     fst (list_runtimes cfg pe a name cwd status offset limit s)"
| "op_step cfg s (CapacityOp a required) = fst (ensure_capacity cfg a required s)"
| "op_step cfg s (CollectOp a suppress) = fst (collect_expired_idle cfg a suppress s)"
| "op_step cfg s ShutdownOp = shutdown s"

text \<open>How many requests of a runtime may end during an operation.\<close>

fun op_ends :: "ustr \<Rightarrow> manager_op \<Rightarrow> nat" where
  "op_ends r (RequestOp ev) = (if ends r ev then 1 else 0)"
| "op_ends r (OpenOp pe w cwd mode name) = end_count r (ow_gap w)"
| "op_ends r (ResumeOp pe w rid tid cwd mode) = resume_ends r w"
| "op_ends r (AcquireOp pe a ow rw cwd mode name) = end_count r (ow_gap ow) + resume_ends r rw"
| "op_ends r (CloseOp a rid release_resources) = 0"
| "op_ends r (ListOp pe a name cwd status offset limit) = 0"
| "op_ends r (CapacityOp a required) = 0"
| "op_ends r (CollectOp a suppress) = 0"
| "op_ends r ShutdownOp = 0"

lemma op_step_fine:
  assumes "fine cfg 0 r c m s"
  shows "fine cfg 0 r c (m + op_ends r op) (op_step cfg s op)"
proof (cases op)
  case (RequestOp ev)
  then show ?thesis
    using fine_requests [OF assms, of "[ev]"] by (simp split: if_splits)
next
  case (ResumeOp pe w rid tid cwd mode)
  show ?thesis unfolding ResumeOp op_step.simps op_ends.simps by (rule resume_runtime_fine [OF assms])
next
  case (AcquireOp pe a ow rw cwd mode name)
  show ?thesis unfolding AcquireOp op_step.simps op_ends.simps add.assoc [symmetric]
    by (rule acquire_runtime_fine [OF assms, unfolded add.assoc [symmetric]])
qed (use assms in \<open>simp_all add: open_runtime_fine close_runtime_fine list_runtimes_fine
    ensure_capacity_fine collect_idle_fine shutdown_fine\<close>)

interpretation runtimes: invariant_machine "op_step cfg" "manager_inv cfg 0"
proof
  fix s op
  assume "manager_inv cfg 0 s"
  then have "fine cfg 0 [] 0 0 s" by (simp add: fine_def)
  from op_step_fine [OF this] show "manager_inv cfg 0 (op_step cfg s op)" by (simp add: fine_def)
qed

lemma run_fine: "fine cfg 0 r c m s \<Longrightarrow> fine cfg 0 r c (m + sum_list (map (op_ends r) ops)) (foldl (op_step cfg) s ops)"
proof (induction ops arbitrary: s m)
  case (Cons op ops)
  from Cons.IH [OF op_step_fine [OF Cons.prems, of op]] show ?case by (simp add: add.assoc)
qed simp

lemma initial_manager_inv:
  assumes "\<And>bs. loaded = Inr bs \<Longrightarrow> keyed bs \<and> length bs \<le> rc_max_runtimes cfg"
  shows "manager_inv cfg 0 (initial_manager g loaded)"
  using assms by (cases loaded) (simp_all add: initial_manager_def manager_inv_def active_total_def keyed_def)

end
