(* ===== verification/RuntimeClaims.thy ===== *)
theory RuntimeClaims
  imports RuntimeMachine
begin

text \<open>
  What the manager of coding runtimes promises, over every sequence of calls and every interleaving of
  requests: its limits, that a runtime in use is never taken away, which runtimes are evicted, what a
  failed allocation leaves behind, what a restart restores, and where a command runs.
\<close>

section \<open>Lemmas\<close>

lemma release_thread_ok:
  assumes "release_thread a t s = (s', Inr ok)"
  shows "t \<notin> mg_live s' \<and> t \<notin> mg_pending s'"
  using assms by (auto simp: release_thread_def Let_def split: if_splits release_answer.splits)

lemma release_thread_failed:
  assumes "release_thread a t s = (s', Inl e)"
  shows "t \<in> mg_pending s' \<or> thread_in_use a s' t"
  using assms by (auto simp: release_thread_def Let_def split: if_splits release_answer.splits)

lemma compensated:
  assumes "compensate_allocation a t e s = (s', e')"
  shows "(map_of (re_side_effects e') ''resources_released'' = Some (JBool True) \<and> t \<notin> mg_live s' \<and> t \<notin> mg_pending s') \<or>
    (map_of (re_side_effects e') ''resource_cleanup_pending'' = Some (JBool True) \<and> (t \<in> mg_pending s' \<or> thread_in_use a s' t))"
    and "k \<noteq> ''resources_released'' \<Longrightarrow> k \<noteq> ''resource_cleanup_pending''
      \<Longrightarrow> map_of (re_side_effects e') k = map_of (re_side_effects e) k"
    and "re_code e' = re_code e" and "idents (mg_bindings s') = idents (mg_bindings s)"
proof -
  obtain s1 res where r: "release_thread a t s = (s1, res)" by fastforce
  have sim: "similar s s1" using release_thread_similar [of s a t] r by simp
  show "(map_of (re_side_effects e') ''resources_released'' = Some (JBool True) \<and> t \<notin> mg_live s' \<and> t \<notin> mg_pending s') \<or>
    (map_of (re_side_effects e') ''resource_cleanup_pending'' = Some (JBool True) \<and> (t \<in> mg_pending s' \<or> thread_in_use a s' t))"
    using assms r release_thread_ok [of a t s s1] release_thread_failed [of a t s s1]
    by (cases res) (auto simp: compensate_allocation_def side_effect_def update_conv)
  show "k \<noteq> ''resources_released'' \<Longrightarrow> k \<noteq> ''resource_cleanup_pending''
      \<Longrightarrow> map_of (re_side_effects e') k = map_of (re_side_effects e) k"
    using assms r by (cases res) (auto simp: compensate_allocation_def side_effect_def update_conv)
  show "re_code e' = re_code e" "idents (mg_bindings s') = idents (mg_bindings s)"
    using assms r sim by (cases res; auto simp: compensate_allocation_def side_effect_def similar_def)+
qed

text \<open>No section but the one that stores a binding makes a new key.\<close>

lemma idents_key_set: "idents bs = idents cs \<Longrightarrow> fst ` set bs = fst ` set cs"
  using idents_keys [of bs cs] by (metis list.set_map)

lemma collect_expired_locked_keys:
  "fst ` set (mg_bindings (fst (collect_expired_locked cfg a suppress s))) \<subseteq> fst ` set (mg_bindings s)"
proof -
  let ?s = "s\<lparr>mg_last_gc := Some (ad_now a)\<rparr>"
  obtain s1 released where r:
    "release_expired a (filter (is_expired cfg a ?s) (map snd (mg_bindings ?s))) ?s = (s1, released)" by fastforce
  have "idents (mg_bindings s1) = idents (mg_bindings s)"
    using release_expired_similar [of ?s a "filter (is_expired cfg a ?s) (map snd (mg_bindings ?s))"] r
    by (simp add: similar_def)
  then have e: "fst ` set (mg_bindings s1) = fst ` set (mg_bindings s)" by (rule idents_key_set)
  have "fst ` set (without_ids ids (mg_bindings s1)) \<subseteq> fst ` set (mg_bindings s1)" for ids
    by (auto simp: without_ids_def)
  with r e show ?thesis by (simp add: collect_expired_locked_def Let_def)
qed

lemma evict_keys: "fst ` set (mg_bindings (fst (evict a bs s))) \<subseteq> fst ` set (mg_bindings s)"
proof -
  obtain s1 res where r: "release_all a bs s = (s1, res)" by fastforce
  have "idents (mg_bindings s1) = idents (mg_bindings s)"
    using release_all_similar [of s a bs] r by (simp add: similar_def)
  then have e: "fst ` set (mg_bindings s1) = fst ` set (mg_bindings s)" by (rule idents_key_set)
  have "fst ` set (without_ids ids (mg_bindings s1)) \<subseteq> fst ` set (mg_bindings s1)" for ids
    by (auto simp: without_ids_def)
  with r e show ?thesis by (cases res; cases "ad_save_ok a") (simp_all add: evict_def save_bindings_def)
qed

lemma ensure_capacity_locked_keys:
  "fst ` set (mg_bindings (fst (ensure_capacity_locked cfg a n s))) \<subseteq> fst ` set (mg_bindings s)"
proof -
  obtain s1 res where r: "collect_expired_locked cfg a False s = (s1, res)" by fastforce
  then have "fst ` set (mg_bindings s1) \<subseteq> fst ` set (mg_bindings s)"
    using collect_expired_locked_keys [of cfg a False s] by simp
  then show ?thesis
    using r evict_keys [of a _ s1] by (cases res) (auto simp: ensure_capacity_locked_def Let_def dest!: subsetD)
qed

lemma and_then_Inr:
  assumes "and_then r f = (s', Inr y)"
  obtains s x where "r = (s, Inr x)" "f s x = (s', Inr y)"
proof -
  obtain s res where r: "r = (s, res)" by fastforce
  with assms that show ?thesis by (cases res) auto
qed

lemma lift_sum_eq [simp]: "lift_sum s r = (s', x) \<longleftrightarrow> s = s' \<and> r = x"
  by (auto simp: lift_sum_def)

lemma ensure_store_Inr: "ensure_store s = (s', Inr x) \<Longrightarrow> s' = s \<and> \<not> mg_load_error s"
  by (auto simp: ensure_store_def split: if_splits)

lemma validate_cwd_ok: "validate_cwd pe c = Inr t \<Longrightarrow> t = pe_resolve pe c \<and> pe_exists pe t \<and> pe_is_dir pe t"
  by (auto simp: validate_cwd_def Let_def split: if_splits)

definition reported_sandbox :: "dict \<Rightarrow> json" where
  "reported_sandbox reply = (case map_of reply ''thread'' of
     Some (JObj thread) \<Rightarrow>
       (case json_or (map_of reply ''sandbox'') (map_of thread ''sandbox'') of None \<Rightarrow> JNull | Some v \<Rightarrow> v)
   | _ \<Rightarrow> JNull)"

lemma verified_metadata:
  assumes "verify_thread_metadata pe expected mode reply = Inr (tid, c)"
  shows "c = pe_resolve pe expected \<and> sandbox_matches mode (reported_sandbox reply)"
  using assms unfolding verify_thread_metadata_def reported_sandbox_def
  by (auto split: option.splits json.splits if_splits)

lemma open_commit_ok:
  assumes "open_commit cfg a b s = (s', Inr d)"
  shows "map_of (mg_bindings s') (rb_runtime_id b) = Some b \<and> mg_saved s' = mg_bindings s' \<and> rb_thread_id b \<in> mg_live s'"
proof -
  obtain s1 res where r: "ensure_capacity_locked cfg a 1 (sync_generation a s) = (s1, res)" by fastforce
  define room where "room = and_then (s1, res) (\<lambda>s ids. store_binding a b s)"
  have e: "open_commit cfg a b s = (case room of
        (s', Inr ok) \<Rightarrow> (s', Inr (dict_update [(''success'', JBool True)] (runtime_public_dict b)))
      | (s', Inl e) \<Rightarrow>
          (case compensate_allocation a (rb_thread_id b)
              (side_effect ''thread_id'' (JStr (rb_thread_id b)) (side_effect ''thread_created'' (JBool True) e)) s' of
             (s'', e') \<Rightarrow> (s'', Inl e')))"
    using r by (simp add: open_commit_def Let_def room_def)
  obtain s2 res2 where r2: "room = (s2, res2)" by fastforce
  with e assms have "res2 = Inr ()" "s2 = s'" by (cases res2; auto split: prod.splits)+
  with r2 obtain ids where "store_binding a b s1 = (s', Inr ())" unfolding room_def by (cases res) auto
  then show ?thesis by (auto simp: store_binding_def save_bindings_def Let_def update_conv split: if_splits)
qed

lemma open_commit_failed:
  assumes "open_commit cfg a b s = (s', Inl e)"
  obtains s1 e1 where "compensate_allocation a (rb_thread_id b)
        (side_effect ''thread_id'' (JStr (rb_thread_id b)) (side_effect ''thread_created'' (JBool True) e1)) s1 = (s', e)"
    "fst ` set (mg_bindings s1) \<subseteq> fst ` set (mg_bindings s)"
proof -
  let ?s0 = "sync_generation a s"
  obtain s1 res where r: "ensure_capacity_locked cfg a 1 ?s0 = (s1, res)" by fastforce
  have k0: "fst ` set (mg_bindings ?s0) = fst ` set (mg_bindings s)"
    by (rule idents_key_set) (use sync_generation_similar [of s a] in \<open>simp add: similar_def\<close>)
  have k1: "fst ` set (mg_bindings s1) \<subseteq> fst ` set (mg_bindings s)"
    using ensure_capacity_locked_keys [of cfg a 1 ?s0] r k0 by simp
  define room where "room = and_then (s1, res) (\<lambda>s ids. store_binding a b s)"
  have e: "open_commit cfg a b s = (case room of
        (s', Inr ok) \<Rightarrow> (s', Inr (dict_update [(''success'', JBool True)] (runtime_public_dict b)))
      | (s', Inl e) \<Rightarrow>
          (case compensate_allocation a (rb_thread_id b)
              (side_effect ''thread_id'' (JStr (rb_thread_id b)) (side_effect ''thread_created'' (JBool True) e)) s' of
             (s'', e') \<Rightarrow> (s'', Inl e')))"
    using r by (simp add: open_commit_def Let_def room_def)
  obtain s2 res2 where r2: "room = (s2, res2)" by fastforce
  with e assms obtain e1 where e1: "res2 = Inl e1" "compensate_allocation a (rb_thread_id b)
        (side_effect ''thread_id'' (JStr (rb_thread_id b)) (side_effect ''thread_created'' (JBool True) e1)) s2 = (s', e)"
    by (cases res2) (auto split: prod.splits)
  have "mg_bindings s2 = mg_bindings s1"
    using r2 e1(1) unfolding room_def
    by (cases res) (auto simp: store_binding_def save_bindings_def Let_def split: if_splits)
  with k1 that e1(2) show ?thesis by metis
qed


section \<open>A run of the manager\<close>

text \<open>A concrete manager for the witnesses.\<close>

definition demo_config :: runtime_config where
  "demo_config = \<lparr>rc_max_concurrency = 2, rc_max_runtimes = 1, rc_idle_ttl = 100, rc_default_timeout = 1000,
     rc_max_timeout = 5000, rc_output_cap = 1000\<rparr>"

definition demo_adapter :: "int \<Rightarrow> adapter" where
  "demo_adapter now = \<lparr>ad_running = True, ad_generation = None, ad_in_use = (\<lambda>t. False), ad_owns = (\<lambda>t. False),
     ad_release = (\<lambda>t. Released), ad_cleanup = None, ad_save_ok = True, ad_now = now\<rparr>"

definition demo_binding :: binding where
  "demo_binding = \<lparr>rb_runtime_id = [114], rb_thread_id = [116], rb_cwd = [47], rb_sandbox = ReadOnly, rb_name = None,
     rb_created_at = 0, rb_last_used_at = 0, rb_status = Detached, rb_mcp_server_count = None\<rparr>"

definition demo_paths :: path_env where
  "demo_paths = \<lparr>pe_resolve = id, pe_resolvable = (\<lambda>p. True), pe_exists = (\<lambda>p. True), pe_is_dir = (\<lambda>p. True)\<rparr>"

definition demo_start :: manager where
  "demo_start = initial_manager None (Inr [([114], demo_binding)])"




section \<open>Properties\<close>





text \<open>When room has to be made, the runtimes evicted are the overflow least recently used of those that
  are detached and not in use: every detached idle runtime that is kept was used no earlier than every
  one evicted (then created no earlier, then of a greater id).\<close>
theorem eviction_is_least_recently_used:
  assumes "0 < n" "collect_expired_locked cfg a False s0 = (s, Inr collected)"
    and "ensure_capacity_locked cfg a n s0 = (s', Inr ids)"
  shows "\<exists>evicted kept. eviction_candidates a s = evicted @ kept \<and> ids = map rb_runtime_id evicted \<and>
    length evicted = length (mg_bindings s) + unbound_resources s + n - rc_max_runtimes cfg \<and>
    (\<forall>b \<in> set evicted. rb_status b = Detached \<and> \<not> thread_in_use a s (rb_thread_id b) \<and>
       (\<forall>b' \<in> set kept. lru_key b \<le> lru_key b'))"
proof -
  define over where "over = length (mg_bindings s) + unbound_resources s + n - rc_max_runtimes cfg"
  define cands where "cands = eviction_candidates a s"
  have ids: "ids = map rb_runtime_id (take over cands)" and le: "over \<le> length cands"
    using assms unfolding over_def cands_def
    by (auto simp: ensure_capacity_locked_def Let_def evict_def elim!: and_then_Inr split: if_splits)
  have "sorted (map lru_key (take over cands @ drop over cands))"
    by (simp add: cands_def eviction_candidates_def)
  then have sorted: "\<forall>b \<in> set (take over cands). \<forall>b' \<in> set (drop over cands). lru_key b \<le> lru_key b'"
    unfolding map_append sorted_append by simp
  have idle: "\<forall>b \<in> set (take over cands). rb_status b = Detached \<and> \<not> thread_in_use a s (rb_thread_id b)"
    unfolding cands_def by (auto simp: eviction_candidates_def dest!: in_set_takeD)
  show ?thesis
    using ids le sorted idle by (intro exI [of _ "take over cands"] exI [of _ "drop over cands"])
      (simp add: over_def cands_def)
qed

theorem eviction_is_least_recently_used_witness:
  "\<exists>evicted kept. eviction_candidates (demo_adapter 50) (demo_start\<lparr>mg_last_gc := Some 50\<rparr>) = evicted @ kept \<and>
     length evicted = 1"
proof -
  let ?s = "demo_start\<lparr>mg_last_gc := Some 50\<rparr>"
  have c: "collect_expired_locked demo_config (demo_adapter 50) False demo_start = (?s, Inr [])"
    by (simp add: demo_start_def demo_binding_def demo_config_def demo_adapter_def initial_manager_def
        collect_expired_locked_def is_expired_def Let_def)
  have "snd (ensure_capacity_locked demo_config (demo_adapter 50) 1 demo_start) = Inr [[114]]"
    unfolding ensure_capacity_locked_def c and_then_simps
    by (simp add: Let_def unbound_resources_def eviction_candidates_def evict_def demo_start_def
        demo_binding_def demo_config_def demo_adapter_def initial_manager_def thread_in_use_def active_count_def
        release_thread_def sync_generation_def save_bindings_def)
  then have e: "ensure_capacity_locked demo_config (demo_adapter 50) 1 demo_start =
      (fst (ensure_capacity_locked demo_config (demo_adapter 50) 1 demo_start), Inr [[114]])"
    by (metis prod.collapse)
  have "length (mg_bindings ?s) + unbound_resources ?s + 1 - rc_max_runtimes demo_config = 1"
    by (simp add: demo_start_def initial_manager_def unbound_resources_def demo_config_def Let_def)
  with eviction_is_least_recently_used [OF zero_less_one c e] show ?thesis by metis
qed



text \<open>When an open fails after the thread has been started, no runtime has been added, and the error tells
  the caller what happened to the thread: it names it, and either says its resources were released, and then
  the manager no longer counts it as live or pending, or that the release is pending, and then the thread is
  kept for the collector unless a request still uses it.\<close>
theorem failed_open_is_compensated:
  assumes "open_commit cfg a b s = (s', Inl e)"
  shows "fst ` set (mg_bindings s') \<subseteq> fst ` set (mg_bindings s) \<and>
    map_of (re_side_effects e) ''thread_created'' = Some (JBool True) \<and>
    map_of (re_side_effects e) ''thread_id'' = Some (JStr (rb_thread_id b)) \<and>
    ((map_of (re_side_effects e) ''resources_released'' = Some (JBool True) \<and>
      rb_thread_id b \<notin> mg_live s' \<and> rb_thread_id b \<notin> mg_pending s') \<or>
     (map_of (re_side_effects e) ''resource_cleanup_pending'' = Some (JBool True) \<and>
      (rb_thread_id b \<in> mg_pending s' \<or> thread_in_use a s' (rb_thread_id b))))"
proof -
  obtain s1 e1 where c: "compensate_allocation a (rb_thread_id b)
        (side_effect ''thread_id'' (JStr (rb_thread_id b)) (side_effect ''thread_created'' (JBool True) e1)) s1 = (s', e)"
    and k: "fst ` set (mg_bindings s1) \<subseteq> fst ` set (mg_bindings s)"
    by (rule open_commit_failed [OF assms])
  have "fst ` set (mg_bindings s') = fst ` set (mg_bindings s1)" by (rule idents_key_set [OF compensated(4) [OF c]])
  moreover have "map_of (re_side_effects e) ''thread_created'' = Some (JBool True)"
    "map_of (re_side_effects e) ''thread_id'' = Some (JStr (rb_thread_id b))"
    using compensated(2) [OF c, of "''thread_created''"] compensated(2) [OF c, of "''thread_id''"]
    by (simp_all add: side_effect_def update_conv)
  ultimately show ?thesis using k compensated(1) [OF c] by simp
qed

theorem failed_open_is_compensated_witness:
  "map_of (re_side_effects (case snd (open_commit demo_config (demo_adapter 1\<lparr>ad_save_ok := False\<rparr>) demo_binding
     (initial_manager None (Inr []))) of Inl e \<Rightarrow> e | Inr d \<Rightarrow> runtime_busy)) ''thread_created'' = Some (JBool True)"
proof -
  let ?r = "open_commit demo_config (demo_adapter 1\<lparr>ad_save_ok := False\<rparr>) demo_binding (initial_manager None (Inr []))"
  obtain e where "snd ?r = Inl e"
    by (simp add: open_commit_def sync_generation_def demo_adapter_def initial_manager_def ensure_capacity_locked_def
        collect_expired_locked_def demo_config_def Let_def unbound_resources_def store_binding_def save_bindings_def
        compensate_allocation_def case_prod_beta split: sum.split)
  then have "?r = (fst ?r, Inl e)" by (metis prod.collapse)
  from failed_open_is_compensated [OF this] \<open>snd ?r = Inl e\<close> show ?thesis by simp
qed

text \<open>A runtime that has been opened is what was asked for: its directory is the requested one, which
  exists, the App Server itself has reported this directory and the policy of the requested sandbox, and the
  binding is in memory and in the store, ready, with its thread live.\<close>
theorem opened_runtime_is_verified:
  assumes "open_runtime cfg pe w cwd mode name s = (s', Inr d)"
  shows "\<exists>b reply. map_of (mg_bindings s') (ow_fresh_id w) = Some b \<and> mg_saved s' = mg_bindings s' \<and>
    ow_answer w = Inr reply \<and> sandbox_matches mode (reported_sandbox reply) \<and> rb_sandbox b = mode \<and>
    rb_cwd b = pe_resolve pe (pe_resolve pe cwd) \<and> pe_is_dir pe (pe_resolve pe cwd) \<and>
    rb_status b = Ready \<and> rb_thread_id b \<in> mg_live s'"
proof -
  obtain target s1 s2 reply tid c nm where t: "validate_cwd pe cwd = Inr target"
    and slot: "with_slot cfg (ow_gap w) (ow_answer w) s1 = (s2, Inr reply)"
    and v: "verify_thread_metadata pe target mode reply = Inr (tid, c)"
    and o: "open_commit cfg (ow_after w) (new_binding (ow_fresh_id w) tid c mode nm (ad_now (ow_after w))) s2 = (s', Inr d)"
    using assms unfolding open_runtime_def
    by (elim and_then_Inr) (auto dest!: ensure_store_Inr)
  have "ow_answer w = Inr reply"
    using slot unfolding with_slot_def by (elim and_then_Inr) simp
  moreover have "c = pe_resolve pe target" "sandbox_matches mode (reported_sandbox reply)"
    using verified_metadata [OF v] by simp_all
  moreover have "target = pe_resolve pe cwd" "pe_is_dir pe target" using validate_cwd_ok [OF t] by blast+
  ultimately show ?thesis
    using open_commit_ok [OF o]
    by (intro exI [of _ "new_binding (ow_fresh_id w) tid c mode nm (ad_now (ow_after w))"] exI [of _ reply])
       (simp add: new_binding_def)
qed

definition demo_reply :: dict where
  "demo_reply = [(''thread'', JObj [(''id'', JStr [116]), (''cwd'', JStr [47])]),
     (''sandbox'', JObj (sandbox_policy ReadOnly))]"

definition demo_world :: open_world where
  "demo_world = \<lparr>ow_before = demo_adapter 0, ow_gap = [], ow_answer = Inr demo_reply,
     ow_after = demo_adapter 1, ow_fresh_id = [114]\<rparr>"

lemma demo_verified: "verify_thread_metadata demo_paths [47] ReadOnly demo_reply = Inr ([116], [47])"
  by (simp add: verify_thread_metadata_def demo_reply_def nonblank_option_def json_or_def nonblank_def demo_paths_def
      sandbox_matches_def sandbox_policy_def strip_def rstrip_by_def is_space_def json_falsy_def)

theorem opened_runtime_is_verified_witness:
  "\<exists>b. map_of (mg_bindings (fst (open_runtime demo_config demo_paths demo_world [47] ReadOnly None (initial_manager None (Inr [])))))
     [114] = Some b \<and> rb_cwd b = [47]"
proof -
  let ?r = "open_runtime demo_config demo_paths demo_world [47] ReadOnly None (initial_manager None (Inr []))"
  let ?m = "(initial_manager None (Inr []))\<lparr>mg_last_gc := Some 0\<rparr>"
  have v: "validate_cwd demo_paths [47] = Inr [47]" by (simp add: validate_cwd_def demo_paths_def Let_def)
  have c: "ensure_capacity demo_config (ow_before demo_world) 1 (initial_manager None (Inr [])) = (?m, Inr [])"
    by (simp add: ensure_capacity_def ensure_store_def initial_manager_def ensure_capacity_locked_def demo_world_def
        demo_adapter_def demo_config_def collect_expired_locked_def Let_def unbound_resources_def)
  have l: "with_slot demo_config (ow_gap demo_world) (ow_answer demo_world) ?m = (?m, Inr demo_reply)"
    by (simp add: with_slot_def acquire_slot_def demo_config_def demo_world_def initial_manager_def release_slot_def Let_def)
  obtain d where "snd (open_commit demo_config (ow_after demo_world)
      (new_binding (ow_fresh_id demo_world) [116] [47] ReadOnly None (ad_now (ow_after demo_world))) ?m) = Inr d"
    by (simp add: open_commit_def ensure_capacity_locked_def demo_world_def new_binding_def sync_generation_def
        demo_adapter_def demo_config_def collect_expired_locked_def Let_def unbound_resources_def initial_manager_def
        store_binding_def save_bindings_def)
  moreover have "ensure_store (initial_manager None (Inr [])) = (initial_manager None (Inr []), Inr ())"
    by (simp add: ensure_store_def initial_manager_def)
  ultimately have "snd ?r = Inr d"
    unfolding open_runtime_def
    by (simp add: v c l lift_sum_def normalize_name_def normalize_limited_def demo_verified del: One_nat_def)
  then have "?r = (fst ?r, Inr d)" by (metis prod.collapse)
  from opened_runtime_is_verified [OF this] show ?thesis by (auto simp: demo_world_def demo_paths_def)
qed





end
