(* ===== verification/JobProcess.thy ===== *)
theory JobProcess
  imports Budget
begin

text \<open>
  Which process a job record names: the process probes of \<^verbatim>\<open>job_supervisor.py\<close>. What the operating
  system answers at one instant is an \<open>os_view\<close>: the outcome of \<^verbatim>\<open>kill(pid, 0)\<close>, the text of
  \<^verbatim>\<open>/proc/<pid>/stat\<close>, the output of the two \<^verbatim>\<open>ps\<close> commands and \<^verbatim>\<open>getpgid\<close>; a function that asks several
  questions gets the answers of one instant. The platform is a POSIX one.
\<close>

section \<open>Probing a process\<close>

text \<open>
  \<^verbatim>\<open>ProbeFails b\<close> is another \<^verbatim>\<open>OSError\<close>, with \<^verbatim>\<open>errno == EPERM\<close> or not; \<^verbatim>\<open>killpg(pgid, 0)\<close> has no other
  error than the two.
\<close>

datatype probe = ProbeOk | NoSuchProcess | NotPermitted | ProbeFails bool

record os_view =
  os_probe :: "int \<Rightarrow> probe"
  os_stat :: "int \<Rightarrow> ustr option"
  os_ps :: "int \<Rightarrow> (int \<times> ustr) option"
  os_pgid :: "int \<Rightarrow> int option"
  os_ps_all :: "(int \<times> ustr) option"
  os_group_probe :: "int \<Rightarrow> probe"

definition process_exists :: "os_view \<Rightarrow> int option \<Rightarrow> bool" where
  "process_exists os pid =
     (case pid of
        None \<Rightarrow> False
      | Some p \<Rightarrow>
          if p \<le> 0 then False
          else (case os_probe os p of ProbeOk \<Rightarrow> True | NoSuchProcess \<Rightarrow> False | NotPermitted \<Rightarrow> True | ProbeFails e \<Rightarrow> e))"

text \<open>The text from two characters behind the last \<^verbatim>\<open>)\<close>.\<close>

definition linux_process_identity :: "ustr option \<Rightarrow> ustr option" where
  "linux_process_identity stat =
     (case stat of
        None \<Rightarrow> None
      | Some raw \<Rightarrow>
          if 41 \<notin> set raw then None
          else
            let fields = split_ws (drop 1 (rev (takeWhile (\<lambda>c. c \<noteq> 41) (rev raw)))) in
            if length fields \<le> 19 then None
            else Some (u ''linux-start-ticks:'' @ fields ! 19))"

definition ps_process_identity :: "(int \<times> ustr) option \<Rightarrow> ustr option" where
  "ps_process_identity completed =
     (case completed of
        None \<Rightarrow> None
      | Some (returncode, out) \<Rightarrow>
          let started = join [32] (split_ws out) in
          if returncode \<noteq> 0 \<or> started = [] then None else Some (u ''ps-lstart:'' @ started))"

definition process_identity :: "os_view \<Rightarrow> int option \<Rightarrow> ustr option" where
  "process_identity os pid =
     (case pid of
        None \<Rightarrow> None
      | Some p \<Rightarrow>
          if p \<le> 0 then None
          else case linux_process_identity (os_stat os p) of
              Some i \<Rightarrow> Some i
            | None \<Rightarrow> if \<not> process_exists os pid then None else ps_process_identity (os_ps os p))"

text \<open>\<open>Some True\<close> is the recorded process, \<open>Some False\<close> one that is gone or another, \<open>None\<close> cannot be told.\<close>

definition process_identity_matches :: "os_view \<Rightarrow> int option \<Rightarrow> json option \<Rightarrow> bool option" where
  "process_identity_matches os pid expected =
     (case pid of
        None \<Rightarrow> Some False
      | Some p \<Rightarrow>
          if p \<le> 0 then Some False
          else if \<not> process_exists os pid then Some False
          else
            (case (process_identity os pid, expected) of
               (Some current, Some (JStr e)) \<Rightarrow> if e = [] then None else Some (current = e)
             | _ \<Rightarrow> None))"

section \<open>Process groups\<close>

definition process_group_exists :: "os_view \<Rightarrow> int option \<Rightarrow> bool" where
  "process_group_exists os pgid =
     (case pgid of
        None \<Rightarrow> False
      | Some g \<Rightarrow>
          if g \<le> 0 then False
          else (case os_group_probe os g of NoSuchProcess \<Rightarrow> False | _ \<Rightarrow> True))"

type_synonym members = "(int \<times> ustr option) list"

text \<open>One line of \<^verbatim>\<open>ps -axo pid=,pgid=\<close>: the pid, when it is a member of the group.\<close>

definition group_line :: "os_view \<Rightarrow> int \<Rightarrow> ustr \<Rightarrow> int option" where
  "group_line os g line =
     (case split_ws line of
        [a, b] \<Rightarrow>
          (case (int_of_text a, int_of_text b) of
             (Some pid, Some pgid) \<Rightarrow> if pgid = g \<and> os_pgid os pid = Some g then Some pid else None
           | _ \<Rightarrow> None)
      | _ \<Rightarrow> None)"

fun add_members :: "os_view \<Rightarrow> int \<Rightarrow> ustr list \<Rightarrow> members \<Rightarrow> members" where
  "add_members os g [] ms = ms"
| "add_members os g (l # ls) ms =
     (case group_line os g l of
        None \<Rightarrow> add_members os g ls ms
      | Some pid \<Rightarrow> add_members os g ls (AList.update pid (process_identity os (Some pid)) ms))"

definition snapshot_process_group :: "os_view \<Rightarrow> int option \<Rightarrow> members" where
  "snapshot_process_group os pgid =
     (case pgid of
        None \<Rightarrow> []
      | Some g \<Rightarrow>
          if g \<le> 0 then []
          else
            (case os_ps_all os of
               None \<Rightarrow> []
             | Some (returncode, out) \<Rightarrow> if returncode \<noteq> 0 then [] else add_members os g (splitlines out) []))"

definition process_group_matches_snapshot :: "os_view \<Rightarrow> int \<Rightarrow> members \<Rightarrow> bool" where
  "process_group_matches_snapshot os g expected =
     (let current = snapshot_process_group os (Some g) in
      current \<noteq> [] \<and>
      list_all (\<lambda>(pid, identity).
        (case map_of expected pid of None \<Rightarrow> False | Some None \<Rightarrow> False | Some e \<Rightarrow> identity = e)) current)"

section \<open>What the probes say\<close>

lemma identity_match_True:
  assumes "process_identity_matches os pid expected = Some True"
  obtains p e where "pid = Some p" "0 < p" "expected = Some (JStr e)" "e \<noteq> []"
    "process_exists os (Some p)" "process_identity os (Some p) = Some e"
  using assms that
  by (auto simp: process_identity_matches_def split: option.splits json.splits if_splits)

lemma identity_match_gone:
  "\<not> process_exists os pid \<Longrightarrow> process_identity_matches os pid expected = Some False"
  by (auto simp: process_identity_matches_def split: option.split)

text \<open>Every member of a snapshot is in the group, with the identity it has.\<close>

lemma add_members_sound:
  assumes "map_of (add_members os g ls ms) pid = Some i"
  shows "map_of ms pid = Some i \<or> (os_pgid os pid = Some g \<and> i = process_identity os (Some pid))"
  using assms
proof (induction os g ls ms rule: add_members.induct)
  case (2 os g l ls ms)
  show ?case
  proof (cases "group_line os g l")
    case None
    with 2 show ?thesis by simp
  next
    case (Some p)
    have "os_pgid os p = Some g"
      using Some by (auto simp: group_line_def split: list.splits option.splits if_splits)
    with 2 Some show ?thesis by (auto simp: update_conv split: if_splits)
  qed
qed simp

lemma snapshot_sound:
  assumes "map_of (snapshot_process_group os pgid) pid = Some i"
  shows "os_pgid os pid = pgid \<and> i = process_identity os (Some pid)"
  using assms
  by (auto simp: snapshot_process_group_def split: option.splits if_splits dest!: add_members_sound)

lemma matching_group_unchanged:
  assumes "process_group_matches_snapshot os g expected" "(pid, i) \<in> set (snapshot_process_group os (Some g))"
  shows "i \<noteq> None \<and> map_of expected pid = Some i"
proof -
  have "case map_of expected pid of None \<Rightarrow> False | Some None \<Rightarrow> False | Some e \<Rightarrow> i = e"
    using assms unfolding process_group_matches_snapshot_def Let_def list_all_iff by blast
  then show ?thesis by (simp split: option.splits)
qed

end
