(* ===== verification/JobRecord.thy ===== *)
theory JobRecord
  imports JobProcess
begin

text \<open>
  The durable record of a job: \<^verbatim>\<open>metadata.json\<close>, which the registry and the supervisor change under one
  lock (\<^verbatim>\<open>job_supervisor.py\<close>), how the registry reconciles it with the processes it names (\<^verbatim>\<open>shell.py\<close>),
  and the supervisor itself. Every change of the record is one step: read, change, replace the file. A time
  is a number of milliseconds; a record may hold it as an integer or as a number that \<open>parse_float\<close> reads.
\<close>

section \<open>The file\<close>

text \<open>\<open>BadMetadata\<close> cannot be read, decoded or parsed, or is not an object: \<^verbatim>\<open>OSError\<close> or \<^verbatim>\<open>ValueError\<close>.\<close>

datatype job_file = NoMetadata | BadMetadata | Metadata dict

definition read_job_metadata_unlocked :: "job_file \<Rightarrow> unit + dict option" where
  "read_job_metadata_unlocked f =
     (case f of NoMetadata \<Rightarrow> Inr None | BadMetadata \<Rightarrow> Inl () | Metadata d \<Rightarrow> Inr (Some d))"

text \<open>\<^verbatim>\<open>read_job_metadata\<close> makes three attempts; the argument is the file as each finds it.\<close>

fun try_reads :: "job_file list \<Rightarrow> unit + dict option" where
  "try_reads [] = Inl ()"
| "try_reads (f # fs) =
     (case read_job_metadata_unlocked f of Inl e \<Rightarrow> try_reads fs | Inr r \<Rightarrow> Inr r)"

definition read_job_metadata :: "(nat \<Rightarrow> job_file) \<Rightarrow> unit + dict option" where
  "read_job_metadata reads = try_reads (map reads [0..<3])"

definition write_job_metadata :: "bool \<Rightarrow> dict \<Rightarrow> job_file \<Rightarrow> job_file \<times> (unit + dict)" where
  "write_job_metadata write_ok d f = (if write_ok then (Metadata d, Inr d) else (f, Inl ()))"

definition mutate_job_metadata :: "bool \<Rightarrow> (dict \<Rightarrow> dict) \<Rightarrow> job_file \<Rightarrow> job_file \<times> (unit + dict)" where
  "mutate_job_metadata write_ok mutate f =
     (case read_job_metadata_unlocked f of
        Inl e \<Rightarrow> (f, Inl e)
      | Inr None \<Rightarrow> (f, Inl ())
      | Inr (Some current) \<Rightarrow> write_job_metadata write_ok (mutate current) f)"

definition update_job_metadata :: "bool \<Rightarrow> dict \<Rightarrow> job_file \<Rightarrow> job_file \<times> (unit + dict)" where
  "update_job_metadata write_ok updates f = mutate_job_metadata write_ok (\<lambda>current. dict_update current updates) f"

lemma mutate_cases:
  obtains (kept) "mutate_job_metadata w m f = (f, Inl ())"
  | (changed) d where "f = Metadata d" "w" "mutate_job_metadata w m f = (Metadata (m d), Inr (m d))"
  by (cases f; cases w) (auto simp: mutate_job_metadata_def read_job_metadata_unlocked_def write_job_metadata_def)

section \<open>Fields\<close>

definition metadata_int :: "json option \<Rightarrow> int option" where
  "metadata_int j = (case j of Some (JInt i) \<Rightarrow> Some i | _ \<Rightarrow> None)"

definition metadata_float :: "(ustr \<Rightarrow> int option) \<Rightarrow> json option \<Rightarrow> int option" where
  "metadata_float parse_float j =
     (case j of Some (JInt i) \<Rightarrow> Some i | Some (JFloat r) \<Rightarrow> parse_float r | _ \<Rightarrow> None)"

definition terminal_job_statuses :: "string list" where
  "terminal_job_statuses = [''succeeded'', ''failed'', ''killed'', ''interrupted'']"

text \<open>A status that is a list or an object counts as none of the names (looking it up in the set raises).\<close>

definition status_in :: "string list \<Rightarrow> dict \<Rightarrow> bool" where
  "status_in names d \<longleftrightarrow> list_ex (\<lambda>n. map_of d ''status'' = Some (jlit n)) names"

definition is_terminal :: "dict \<Rightarrow> bool" where
  "is_terminal d = status_in terminal_job_statuses d"

definition durable_status :: "dict \<Rightarrow> json" where
  "durable_status d = (if is_terminal d then the (map_of d ''status'') else jlit ''running'')"

section \<open>Reconciling\<close>

definition command_state :: "os_view \<Rightarrow> dict \<Rightarrow> bool option" where
  "command_state os d =
     process_identity_matches os (metadata_int (map_of d ''pid'')) (map_of d ''process_identity'')"

definition supervisor_state :: "os_view \<Rightarrow> dict \<Rightarrow> bool option" where
  "supervisor_state os d =
     process_identity_matches os (metadata_int (map_of d ''supervisor_pid'')) (map_of d ''supervisor_identity'')"

definition both_gone :: "os_view \<Rightarrow> dict \<Rightarrow> bool" where
  "both_gone os d \<longleftrightarrow> command_state os d = Some False \<and> supervisor_state os d = Some False"

text \<open>\<^verbatim>\<open>_JOB_STARTING_STALE_GRACE_SECONDS\<close>.\<close>

definition starting_grace :: int where
  "starting_grace = 5000"

definition still_starting :: "(ustr \<Rightarrow> int option) \<Rightarrow> int \<Rightarrow> dict \<Rightarrow> bool" where
  "still_starting parse_float now d \<longleftrightarrow>
     map_of d ''status'' = Some (jlit ''starting'') \<and>
     now - (case metadata_float parse_float (map_of d ''updated_at'') of None \<Rightarrow> 0 | Some t \<Rightarrow> t) < starting_grace"

definition interrupt_if_still_stale :: "os_view \<Rightarrow> int \<Rightarrow> dict \<Rightarrow> dict" where
  "interrupt_if_still_stale os now current =
     (if is_terminal current then current
      else if both_gone os current then
        dict_update current
          [(''status'', jlit ''interrupted''), (''completed_at'', JInt now), (''updated_at'', JInt now),
           (''interruption_reason'', jlit ''supervisor_and_command_gone_without_terminal_record'')]
      else current)"

definition interrupt_stale_record :: "os_view \<Rightarrow> int \<Rightarrow> bool \<Rightarrow> job_file \<Rightarrow> dict \<Rightarrow> job_file \<times> dict" where
  "interrupt_stale_record os now write_ok f d =
     (case mutate_job_metadata write_ok (interrupt_if_still_stale os now) f of
        (f', Inr d') \<Rightarrow> (f', d')
      | (f', Inl e) \<Rightarrow> (f', d))"

text \<open>
  What \<^verbatim>\<open>_reconcile_metadata\<close> looks at: the processes and the clock when it decides, and when it holds the
  lock, and whether the record can be written. The file is as it is when the lock is taken.
\<close>

record job_look =
  jl_os :: os_view
  jl_now :: int
  jl_locked_os :: os_view
  jl_locked_now :: int
  jl_write_ok :: bool

definition reconcile_metadata :: "(ustr \<Rightarrow> int option) \<Rightarrow> job_look \<Rightarrow> job_file \<Rightarrow> dict \<Rightarrow> job_file \<times> dict" where
  "reconcile_metadata parse_float l f d =
     (if is_terminal d then (f, d)
      else if both_gone (jl_os l) d \<and> still_starting parse_float (jl_now l) d then (f, d)
      else if both_gone (jl_os l) d
        then interrupt_stale_record (jl_locked_os l) (jl_locked_now l) (jl_write_ok l) f d
      else (f, d))"

section \<open>The supervisor\<close>

definition register_updates :: "int \<Rightarrow> ustr option \<Rightarrow> int \<Rightarrow> dict" where
  "register_updates pid identity now =
     [(''supervisor_pid'', JInt pid), (''supervisor_identity'', jopt JStr identity), (''updated_at'', JInt now)]"

definition running_updates :: "int \<Rightarrow> int option \<Rightarrow> ustr option \<Rightarrow> int \<Rightarrow> dict" where
  "running_updates pid pgid identity now =
     [(''status'', jlit ''running''), (''pid'', JInt pid), (''pgid'', jopt JInt pgid),
      (''process_identity'', jopt JStr identity), (''updated_at'', JInt now)]"

definition final_status :: "int \<Rightarrow> dict \<Rightarrow> string" where
  "final_status exit_code current =
     (if map_of current ''kill_signal'' \<noteq> None \<and> map_of current ''kill_signal'' \<noteq> Some JNull then ''killed''
      else if exit_code = 0 then ''succeeded''
      else ''failed'')"

definition finalize :: "int \<Rightarrow> int \<Rightarrow> dict \<Rightarrow> dict" where
  "finalize exit_code completed_at current =
     dict_update current
       [(''status'', jlit (final_status exit_code current)), (''exit_code'', JInt exit_code),
        (''completed_at'', JInt completed_at), (''updated_at'', JInt completed_at)]"

text \<open>A stage of \<^verbatim>\<open>supervise_job\<close>: it ends, a shutdown signal arrives, or it raises something else.\<close>

datatype 'a stage = Ends 'a | Signalled int | Fails

definition stage_error :: "'a stage \<Rightarrow> int option" where
  "stage_error s = (case s of Signalled n \<Rightarrow> Some (- n) | _ \<Rightarrow> None)"

text \<open>Signals sent: the process group, and whether it is \<^verbatim>\<open>SIGKILL\<close>.\<close>

type_synonym signals = "(int \<times> bool) list"

text \<open>The clean-up of a command that still runs; \<open>before\<close> and \<open>later\<close> are the processes at its two looks.\<close>

record cleanup_world =
  cu_running :: bool
  cu_pgid :: "int option"
  cu_before :: os_view
  cu_killed :: bool
  cu_later :: os_view
  cu_exit :: "int option"

definition stop_command :: "cleanup_world \<Rightarrow> signals" where
  "stop_command c =
     (if \<not> cu_running c then []
      else case cu_pgid c of
          None \<Rightarrow> []
        | Some g \<Rightarrow>
            (g, False) #
            (if cu_killed c \<and> process_group_exists (cu_later c) (Some g)
                \<and> process_group_matches_snapshot (cu_later c) g (snapshot_process_group (cu_before c) (Some g))
             then [(g, True)] else []))"

record supervisor_world =
  sw_pid :: int
  sw_identity :: "ustr option"
  sw_register :: "unit stage"
  sw_start :: "(int \<times> int option \<times> ustr option) stage"
  sw_running :: "unit stage"
  sw_wait :: "int stage"
  sw_cleanup :: cleanup_world
  sw_times :: "int \<times> int \<times> int"
  sw_others :: "nat \<Rightarrow> job_file \<Rightarrow> job_file"
  sw_final_ok :: bool

text \<open>The stages until the command has ended: the file, the exit code and the signals sent.\<close>

definition stage_update :: "bool \<Rightarrow> dict \<Rightarrow> job_file \<Rightarrow> job_file \<times> bool" where
  "stage_update ended updates f =
     (case update_job_metadata ended updates f of (f', Inr d) \<Rightarrow> (f', True) | (f', Inl e) \<Rightarrow> (f', False))"

definition failed_stage :: "supervisor_world \<Rightarrow> bool \<Rightarrow> 'a stage \<Rightarrow> int \<times> signals" where
  "failed_stage w started s =
     (case stage_error s of Some c \<Rightarrow> c
      | None \<Rightarrow> if started then (case cu_exit (sw_cleanup w) of Some c \<Rightarrow> c | None \<Rightarrow> -1) else -1,
      if started then stop_command (sw_cleanup w) else [])"

definition run_stages :: "supervisor_world \<Rightarrow> job_file \<Rightarrow> job_file \<times> int \<times> signals" where
  "run_stages w f =
     (case sw_times w of (t1, t2, t3) \<Rightarrow>
      let (f1, registered) =
            stage_update (sw_register w = Ends ()) (register_updates (sw_pid w) (sw_identity w) t1) (sw_others w 0 f) in
      if \<not> registered then (f1, failed_stage w False (sw_register w))
      else case sw_start w of
          Ends (pid, pgid, identity) \<Rightarrow>
            (let (f2, running) =
               stage_update (sw_running w = Ends ()) (running_updates pid pgid identity t2) (sw_others w 1 f1) in
             if \<not> running then (f2, failed_stage w True (sw_running w))
             else case sw_wait w of
                 Ends exit_code \<Rightarrow> (f2, exit_code, [])
               | s \<Rightarrow> (f2, failed_stage w True s))
        | s \<Rightarrow> (f1, failed_stage w False s))"

text \<open>\<^verbatim>\<open>supervise_job\<close>: the file, its return code, and the signals it has sent.\<close>

definition supervise_job :: "supervisor_world \<Rightarrow> job_file \<Rightarrow> job_file \<times> int \<times> signals" where
  "supervise_job w f =
     (let (f1, exit_code, sent) = run_stages w f;
          (f2, r) = mutate_job_metadata (sw_final_ok w) (finalize exit_code (snd (snd (sw_times w)))) (sw_others w 2 f1)
      in (f2, (case r of Inr d \<Rightarrow> 0 | Inl e \<Rightarrow> 1), sent))"

end
