(* ===== verification/JobControl.thy ===== *)
theory JobControl
  imports JobRecord JobOutput
begin

text \<open>
  The registry's operations on one job: finding its record, its status, tail, starting and killing it
  (\<^verbatim>\<open>JobRegistry\<close> in \<^verbatim>\<open>shell.py\<close>, \<^verbatim>\<open>process_env.py\<close>). Between two looks of an operation other processes
  may change the record: \<open>others\<close>. What it sees of the processes at each look is an \<open>os_view\<close>.
\<close>

section \<open>The environment of a child\<close>

type_synonym environment = "(ustr \<times> ustr) list"

definition control_plane_secret_env_keys :: "ustr list" where
  "control_plane_secret_env_keys =
     [u ''CHATGPT_MCP_AUTH_TOKEN'', u ''CHATGPT_MCP_HEALTH_TOKEN'', u ''CHATGPT_MCP_OAUTH_LOGIN_TOKEN'']"

definition sanitized_child_env :: "environment \<Rightarrow> environment \<Rightarrow> environment" where
  "sanitized_child_env environ overrides =
     fold AList.delete control_plane_secret_env_keys (fold (\<lambda>(k, v). AList.update k v) overrides environ)"

definition invalid_env :: "string \<Rightarrow> dict" where
  "invalid_env message = job_error ''invalid_env'' (u message) []"

fun env_problem :: "environment \<Rightarrow> dict option" where
  "env_problem [] = None"
| "env_problem ((k, v) # kvs) =
     (if k = [] \<or> 0 \<in> set k \<or> 61 \<in> set k
        then Some (invalid_env ''Environment variable names must be non-empty strings without NUL bytes or '='.'')
      else if 0 \<in> set v
        then Some (invalid_env ''Environment variable values must be strings without NUL bytes.'')
      else env_problem kvs)"

definition merged_job_env :: "environment \<Rightarrow> environment option \<Rightarrow> dict + environment" where
  "merged_job_env environ env =
     (let overrides = (case env of None \<Rightarrow> [] | Some e \<Rightarrow> e) in
      case env_problem overrides of Some e \<Rightarrow> Inl e | None \<Rightarrow> Inr (sanitized_child_env environ overrides))"

section \<open>Finding the record\<close>

datatype lstat_answer = LstatMissing | LstatFails ustr | LstatSymlink | LstatRegular | LstatOther

record job_paths =
  jp_registry_symlink :: bool
  jp_dir_symlink :: bool
  jp_is_dir :: bool
  jp_metadata :: lstat_answer
  jp_read_error :: ustr

definition job_not_found :: "ustr \<Rightarrow> dict" where
  "job_not_found job_id =
     job_error ''job_not_found'' (u ''Job not found: '' @ strip job_id) [(''job_id'', JStr job_id)]"

definition metadata_invalid :: "ustr \<Rightarrow> ustr \<Rightarrow> dict" where
  "metadata_invalid job_id message = job_error ''job_metadata_invalid'' message [(''job_id'', JStr job_id)]"

definition job_prefix :: ustr where
  "job_prefix = u ''job_''"

text \<open>The file is as the call finds it.\<close>

definition load_job :: "job_paths \<Rightarrow> ustr \<Rightarrow> job_file \<Rightarrow> dict + dict" where
  "load_job jp job_id f =
     (let n = strip job_id in
      if n = [] \<or> 47 \<in> set n \<or> \<not> startswith n job_prefix then Inl (job_not_found job_id)
      else if jp_registry_symlink jp then Inl (job_not_found job_id)
      else if jp_dir_symlink jp \<or> \<not> jp_is_dir jp then Inl (job_not_found job_id)
      else
        case jp_metadata jp of
          LstatMissing \<Rightarrow> Inl (job_not_found job_id)
        | LstatFails m \<Rightarrow> Inl (metadata_invalid n (u ''Failed to inspect durable job metadata: '' @ m))
        | LstatSymlink \<Rightarrow> Inl (metadata_invalid n (u ''Durable job metadata must be a regular non-symlink file.''))
        | LstatOther \<Rightarrow> Inl (metadata_invalid n (u ''Durable job metadata must be a regular non-symlink file.''))
        | LstatRegular \<Rightarrow>
            (case read_job_metadata (\<lambda>i. f) of
               Inl e \<Rightarrow> Inl (metadata_invalid n (u ''Failed to read durable job metadata: '' @ jp_read_error jp))
             | Inr None \<Rightarrow> Inl (job_not_found job_id)
             | Inr (Some d) \<Rightarrow> if map_of d ''job_id'' = Some (JStr n) then Inr d else Inl (job_not_found job_id)))"

section \<open>Status\<close>

text \<open>
  \<open>se_seconds\<close> is \<^verbatim>\<open>round(max(0.0, t), 3)\<close> and \<open>se_float\<close> a time as the reply shows it; \<open>se_stats\<close> is
  \<^verbatim>\<open>_process_stats\<close>. A log file is described by whether it is a regular file, its size and its time.
\<close>

record status_look =
  se_os :: os_view
  se_now :: int
  se_stats :: "int option \<Rightarrow> json \<times> json"
  se_seconds :: "int \<Rightarrow> json"
  se_float :: "int \<Rightarrow> json"
  se_logs :: "(bool \<times> nat \<times> int) option list"

definition last_job_output_at :: "(bool \<times> nat \<times> int) option list \<Rightarrow> int option" where
  "last_job_output_at logs =
     (case concat (map (\<lambda>l. case l of Some (regular, n, t) \<Rightarrow> if regular \<and> 0 < n then [t] else [] | None \<Rightarrow> []) logs) of
        [] \<Rightarrow> None
      | t # ts \<Rightarrow> Some (fold max ts t))"

definition or_now :: "int option \<Rightarrow> int \<Rightarrow> int" where
  "or_now t now = (case t of None \<Rightarrow> now | Some v \<Rightarrow> if v = 0 then now else v)"

definition status_payload :: "(ustr \<Rightarrow> int option) \<Rightarrow> status_look \<Rightarrow> ustr \<Rightarrow> dict \<Rightarrow> dict" where
  "status_payload parse_float se dir d =
     (let pid = metadata_int (map_of d ''pid'');
          running = process_identity_matches (se_os se) pid (map_of d ''process_identity'');
          (cpu, mem) = (if \<not> is_terminal d \<and> running = Some True then se_stats se pid else (JNull, JNull));
          started = or_now (metadata_float parse_float (map_of d ''started_at'')) (se_now se);
          until = (case metadata_float parse_float (map_of d ''completed_at'') of
              Some t \<Rightarrow> if is_terminal d then t else se_now se | None \<Rightarrow> se_now se) in
      [(''job_id'', get_or_null d ''job_id''), (''name'', get_or_null d ''name''), (''command'', get_or_null d ''command''),
       (''cwd'', get_or_null d ''cwd''), (''status'', durable_status d), (''pid'', jopt JInt pid),
       (''elapsed_seconds'', se_seconds se (max 0 (until - started))),
       (''exit_code'', jopt JInt (metadata_int (map_of d ''exit_code''))), (''cpu_percent'', cpu), (''memory_mb'', mem),
       (''stdout_log'', JStr (dir @ u ''/stdout.log'')), (''stderr_log'', JStr (dir @ u ''/stderr.log'')),
       (''last_output_at'', jopt (se_float se) (last_job_output_at (se_logs se)))])"

definition job_status ::
  "(ustr \<Rightarrow> int option) \<Rightarrow> job_paths \<Rightarrow> job_look \<Rightarrow> status_look \<Rightarrow> ustr \<Rightarrow> ustr \<Rightarrow> job_file \<Rightarrow> job_file \<times> dict" where
  "job_status parse_float jp l se dir job_id f =
     (case load_job jp job_id f of
        Inl e \<Rightarrow> (f, e)
      | Inr d \<Rightarrow>
          (case reconcile_metadata parse_float l f d of
             (f', d') \<Rightarrow> (f', dict_update (status_payload parse_float se dir d') [(''success'', JBool True)])))"

definition refresh_metadata :: "(ustr \<Rightarrow> int option) \<Rightarrow> job_look \<Rightarrow> job_file \<Rightarrow> dict \<Rightarrow> job_file \<times> dict" where
  "refresh_metadata parse_float l f d =
     (case read_job_metadata (\<lambda>i. f) of
        Inr (Some snapshot) \<Rightarrow> reconcile_metadata parse_float l f snapshot
      | _ \<Rightarrow> (f, d))"

section \<open>Tail\<close>

text \<open>A line ends behind a line feed, which universal newlines have put for every carriage return.\<close>

fun file_lines :: "ustr \<Rightarrow> ustr \<Rightarrow> ustr list" where
  "file_lines cur [] = (if cur = [] then [] else [rev cur])"
| "file_lines cur (c # cs) = (if c = 10 then rev cur # file_lines [] cs else file_lines (c # cur) cs)"

definition max_job_tail_lines :: int where
  "max_job_tail_lines = 500"

definition last_lines :: "int \<Rightarrow> bytes \<Rightarrow> ustr list" where
  "last_lines requested log =
     (let ls = file_lines [] (universal_newlines (utf8_decode_replace log));
          n = nat (max 1 (min requested max_job_tail_lines)) in
      drop (length ls - n) ls)"

definition tail_job ::
  "(ustr \<Rightarrow> int option) \<Rightarrow> job_paths \<Rightarrow> job_look \<Rightarrow> status_look \<Rightarrow> ustr \<Rightarrow> (ustr + bytes) \<Rightarrow> ustr \<Rightarrow> ustr \<Rightarrow> int
   \<Rightarrow> job_file \<Rightarrow> job_file \<times> dict" where
  "tail_job parse_float jp l se dir log job_id stream lines f =
     (case load_job jp job_id f of
        Inl e \<Rightarrow> (f, e)
      | Inr d \<Rightarrow>
          if stream \<noteq> u ''stdout'' \<and> stream \<noteq> u ''stderr''
            then (f, job_error ''invalid_arguments'' (u ''stream must be one of: stdout, stderr.'') [])
          else
            case log of
              Inl m \<Rightarrow> (f, job_error ''log_read_failed'' (u ''Failed to read job log: '' @ m) [(''job_id'', JStr job_id)])
            | Inr raw \<Rightarrow>
                (case reconcile_metadata parse_float l f d of
                   (f', d') \<Rightarrow>
                     let tail = last_lines lines raw in
                     (f', dict_update (status_payload parse_float se dir d')
                       [(''success'', JBool True), (''stream'', JStr stream),
                        (''log_path'', JStr (dir @ [47] @ stream @ u ''.log'')), (''requested_lines'', JInt lines),
                        (''max_lines'', JInt max_job_tail_lines), (''lines_returned'', jnat (length tail)),
                        (''truncated_to_max'', JBool (max_job_tail_lines < lines)), (''lines'', JList (map JStr tail)),
                        (''content'', JStr (join [10] tail))])))"

section \<open>Waiting for the terminal record\<close>

record wait_poll =
  wp_others :: "job_file \<Rightarrow> job_file"
  wp_look :: job_look

text \<open>The polls made before the deadline, and the last look.\<close>

fun wait_for_terminal_record ::
  "(ustr \<Rightarrow> int option) \<Rightarrow> wait_poll list \<Rightarrow> wait_poll \<Rightarrow> job_file \<Rightarrow> dict \<Rightarrow> job_file \<times> dict" where
  "wait_for_terminal_record parse_float [] z f latest =
     reconcile_metadata parse_float (wp_look z) (wp_others z f) latest"
| "wait_for_terminal_record parse_float (p # ps) z f latest =
     (case read_job_metadata (\<lambda>i. wp_others p f) of
        Inr (Some snapshot) \<Rightarrow>
          (case reconcile_metadata parse_float (wp_look p) (wp_others p f) snapshot of
             (f', latest') \<Rightarrow>
               if is_terminal latest' then (f', latest') else wait_for_terminal_record parse_float ps z f' latest')
      | _ \<Rightarrow> wait_for_terminal_record parse_float ps z (wp_others p f) latest)"

section \<open>Killing a job\<close>

datatype kill_answer = KillDone | KillNoProcess | KillFails ustr

text \<open>
  What a call of \<^verbatim>\<open>kill_job\<close> meets: the processes at each of its looks, what \<^verbatim>\<open>killpg\<close> answers, and what
  others do to the record before each of its steps. A record that is gone or cannot be read or written at the
  locked step is \<open>KillStepFails\<close>, the reply to an \<^verbatim>\<open>OSError\<close>; one that cannot be parsed there raises
  \<^verbatim>\<open>ValueError\<close> out of the call in the code, and the two are not told apart.
\<close>

record kill_world =
  kw_look :: job_look
  kw_check :: os_view
  kw_first_polls :: "wait_poll list"
  kw_first_last :: wait_poll
  kw_pgid_error :: ustr
  kw_at_pgid :: os_view
  kw_recheck :: os_view
  kw_others :: "job_file \<Rightarrow> job_file"
  kw_locked :: os_view
  kw_locked_now :: int
  kw_write_ok :: bool
  kw_io_error :: ustr
  kw_killpg :: kill_answer
  kw_after_grace :: os_view
  kw_survivors :: os_view
  kw_second_killpg :: kill_answer
  kw_polls :: "wait_poll list"
  kw_last :: wait_poll
  kw_final_polls :: "wait_poll list"
  kw_final :: wait_poll

definition kill_reply :: "dict \<Rightarrow> ustr \<Rightarrow> bool \<Rightarrow> dict" where
  "kill_reply status signal_name sent =
     dict_update status
       [(''success'', JBool True), (''signal'', JStr signal_name), (''signal_sent'', JBool sent),
        (''already_completed'', JBool (\<not> sent))]"

definition kill_error :: "string \<Rightarrow> ustr \<Rightarrow> ustr \<Rightarrow> dict" where
  "kill_error code message job_id = job_error code message [(''job_id'', JStr job_id)]"

definition identity_mismatch :: "string \<Rightarrow> ustr \<Rightarrow> dict" where
  "identity_mismatch message job_id = kill_error ''job_identity_mismatch'' (u message) job_id"

text \<open>
  \<^verbatim>\<open>signal_and_mark_kill_requested\<close> under the lock: whether the record is terminal already (no signal), the
  signal is refused, or the group is signalled; \<open>Inr\<close> carries the verified members.
\<close>

datatype locked_kill = AlreadyTerminal | Refused | Verified members

definition verify_locked :: "os_view \<Rightarrow> int \<Rightarrow> int option \<Rightarrow> dict \<Rightarrow> locked_kill" where
  "verify_locked os pid pgid current =
     (if is_terminal current then AlreadyTerminal
      else if metadata_int (map_of current ''pid'') \<noteq> Some pid \<or> metadata_int (map_of current ''pgid'') \<noteq> pgid then Refused
      else if process_identity_matches os (Some pid) (map_of current ''process_identity'') \<noteq> Some True then Refused
      else if os_pgid os pid \<noteq> pgid \<or> os_pgid os pid \<noteq> Some pid then Refused
      else
        let members = snapshot_process_group os (Some pid) in
        if map_option (jopt JStr) (map_of members pid) \<noteq> map_of current ''process_identity'' then Refused
        else Verified members)"

definition mark_kill :: "ustr \<Rightarrow> int \<Rightarrow> dict \<Rightarrow> dict" where
  "mark_kill signal_name now current =
     dict_update current [(''kill_signal'', JStr signal_name), (''updated_at'', JInt now)]"

text \<open>What the locked step leaves: the file, the signals, and how the call goes on.\<close>

datatype kill_step =
    Completed dict
  | GoneMeanwhile
  | KillStepFails ustr
  | Signalled_group dict members

definition locked_step ::
  "kill_world \<Rightarrow> ustr \<Rightarrow> int \<Rightarrow> int option \<Rightarrow> job_file \<Rightarrow> job_file \<times> signals \<times> kill_step" where
  "locked_step w signal_name pid pgid f =
     (case read_job_metadata_unlocked f of
        Inl e \<Rightarrow> (f, [], KillStepFails (kw_io_error w))
      | Inr None \<Rightarrow> (f, [], KillStepFails (kw_io_error w))
      | Inr (Some current) \<Rightarrow>
          (case verify_locked (kw_locked w) pid pgid current of
             AlreadyTerminal \<Rightarrow>
               (case write_job_metadata (kw_write_ok w) current f of
                  (f', Inr d) \<Rightarrow> (f', [], Completed d)
                | (f', Inl e) \<Rightarrow> (f', [], KillStepFails (kw_io_error w)))
           | Refused \<Rightarrow> (f, [], GoneMeanwhile)
           | Verified members \<Rightarrow>
               (case kw_killpg w of
                  KillNoProcess \<Rightarrow> (f, [], GoneMeanwhile)
                | KillFails m \<Rightarrow> (f, [], KillStepFails m)
                | KillDone \<Rightarrow>
                    (case write_job_metadata (kw_write_ok w) (mark_kill signal_name (kw_locked_now w) current) f of
                       (f', Inr d) \<Rightarrow> (f', [(pid, signal_name = u ''KILL'')], Signalled_group d members)
                     | (f', Inl e) \<Rightarrow> (f', [(pid, signal_name = u ''KILL'')], KillStepFails (kw_io_error w))))))"

text \<open>After the grace period of \<^verbatim>\<open>TERM\<close>: nothing more, a refusal, or \<^verbatim>\<open>SIGKILL\<close> and its answer.\<close>

datatype escalation = NotNeeded | EscalationRefused | Escalated kill_answer

definition escalate :: "kill_world \<Rightarrow> ustr \<Rightarrow> int \<Rightarrow> members \<Rightarrow> escalation" where
  "escalate w signal_name pgid members =
     (if signal_name \<noteq> u ''TERM'' \<or> \<not> process_group_exists (kw_after_grace w) (Some pgid) then NotNeeded
      else if \<not> process_group_matches_snapshot (kw_survivors w) pgid members then EscalationRefused
      else Escalated (kw_second_killpg w))"

definition kill_running ::
  "(ustr \<Rightarrow> int option) \<Rightarrow> kill_world \<Rightarrow> (dict \<Rightarrow> dict) \<Rightarrow> ustr \<Rightarrow> ustr \<Rightarrow> int \<Rightarrow> dict \<Rightarrow> job_file
   \<Rightarrow> job_file \<times> signals \<times> dict" where
  "kill_running parse_float w payload job_id signal_name pid d f =
     (let (f1, sent, step) = locked_step w signal_name pid (metadata_int (map_of d ''pgid'')) (kw_others w f);
          finish = (\<lambda>f latest sent.
            (case wait_for_terminal_record parse_float (kw_final_polls w) (kw_final w) f latest of
               (f2, d2) \<Rightarrow> (f2, sent, kill_reply (payload d2) signal_name (sent \<noteq> []))));
          gone = (\<lambda>latest sent.
            (case wait_for_terminal_record parse_float (kw_polls w) (kw_last w) f1 latest of
               (f2, d2) \<Rightarrow>
                 if \<not> is_terminal d2
                 then (f2, sent, kill_error ''job_not_running''
                        (u ''The verified job process exited before it could be signaled.'') job_id)
                 else finish f2 d2 sent));
          failed = (\<lambda>m sent. (f1, sent, kill_error ''job_kill_failed'' (u ''Failed to signal job: '' @ m) job_id)) in
      case step of
        Completed d1 \<Rightarrow> (f1, sent, kill_reply (payload d1) signal_name False)
      | GoneMeanwhile \<Rightarrow> gone d sent
      | KillStepFails m \<Rightarrow> failed m sent
      | Signalled_group d1 members \<Rightarrow>
          (case escalate w signal_name pid members of
             NotNeeded \<Rightarrow> finish f1 d1 sent
           | EscalationRefused \<Rightarrow>
               (f1, sent, identity_mismatch
                 ''Refusing KILL escalation because the surviving process group no longer matches the verified job tree.'' job_id)
           | Escalated KillDone \<Rightarrow> finish f1 d1 (sent @ [(pid, True)])
           | Escalated KillNoProcess \<Rightarrow> gone d1 sent
           | Escalated (KillFails m) \<Rightarrow> failed m sent))"

definition kill_job ::
  "(ustr \<Rightarrow> int option) \<Rightarrow> job_paths \<Rightarrow> kill_world \<Rightarrow> (dict \<Rightarrow> dict) \<Rightarrow> ustr \<Rightarrow> ustr \<Rightarrow> job_file
   \<Rightarrow> job_file \<times> signals \<times> dict" where
  "kill_job parse_float jp w payload job_id signal_name f =
     (case load_job jp job_id f of
        Inl e \<Rightarrow> (f, [], e)
      | Inr d0 \<Rightarrow>
          if signal_name \<noteq> u ''TERM'' \<and> signal_name \<noteq> u ''KILL''
            then (f, [], job_error ''invalid_arguments'' (u ''signal must be one of: TERM, KILL.'') [])
          else
            case reconcile_metadata parse_float (kw_look w) f d0 of
              (f1, d) \<Rightarrow>
                if is_terminal d then (f1, [], kill_reply (payload d) signal_name False)
                else
                  let pid = metadata_int (map_of d ''pid''); pgid = metadata_int (map_of d ''pgid'');
                      identity_match = process_identity_matches (kw_check w) pid (map_of d ''process_identity'') in
                  if identity_match \<noteq> Some True then
                    (case wait_for_terminal_record parse_float (kw_first_polls w) (kw_first_last w) f1 d of
                       (f2, d2) \<Rightarrow>
                         if is_terminal d2 then (f2, [], kill_reply (payload d2) signal_name False)
                         else (f2, [], kill_error
                           (if identity_match = None then ''job_identity_unverified'' else ''job_not_running'')
                           (u ''Refusing to signal a job whose recorded process identity is no longer verifiable.'') job_id))
                  else
                    case os_pgid (kw_at_pgid w) (the pid) of
                      None \<Rightarrow> (f1, [], kill_error ''job_kill_failed''
                        (u ''Failed to verify job process group: '' @ kw_pgid_error w) job_id)
                    | Some current_pgid \<Rightarrow>
                        if pgid = None \<or> Some current_pgid \<noteq> pgid \<or> pgid \<noteq> pid then
                          (f1, [], identity_mismatch
                            ''Refusing to signal a process group that does not match the durable job record.'' job_id)
                        else if process_identity_matches (kw_recheck w) pid (map_of d ''process_identity'') \<noteq> Some True then
                          (f1, [], identity_mismatch
                            ''Refusing to signal a job whose process identity changed during verification.'' job_id)
                        else kill_running parse_float w payload job_id signal_name (the pid) d f1)"

section \<open>What is signalled\<close>

text \<open>The job's group as it was verified under the lock: the leader is the recorded process.\<close>

definition verified_leader :: "os_view \<Rightarrow> int \<Rightarrow> dict \<Rightarrow> bool" where
  "verified_leader os pid d \<longleftrightarrow>
     metadata_int (map_of d ''pid'') = Some pid \<and> metadata_int (map_of d ''pgid'') = Some pid \<and> \<not> is_terminal d \<and>
     process_identity_matches os (Some pid) (map_of d ''process_identity'') = Some True \<and> os_pgid os pid = Some pid"

lemma verify_locked_Verified:
  assumes "verify_locked os pid pgid d = Verified members"
  shows "verified_leader os pid d" and "members = snapshot_process_group os (Some pid)" and "pgid = Some pid"
  using assms by (auto simp: verify_locked_def verified_leader_def Let_def split: if_splits)

lemma locked_step_sent:
  assumes "locked_step w name pid pgid f = (f', sent, step)" "sent \<noteq> []"
  obtains d where "f = Metadata d" "verified_leader (kw_locked w) pid d" "sent = [(pid, name = u ''KILL'')]"
  using assms that
  by (auto simp: locked_step_def read_job_metadata_unlocked_def write_job_metadata_def
      split: job_file.splits sum.splits option.splits locked_kill.splits kill_answer.splits if_splits
      dest: verify_locked_Verified(1))

lemma locked_step_group:
  assumes "locked_step w name pid pgid f = (f', sent, Signalled_group d1 members)"
  shows "members = snapshot_process_group (kw_locked w) (Some pid) \<and> sent = [(pid, name = u ''KILL'')]"
  using assms
  by (auto simp: locked_step_def read_job_metadata_unlocked_def write_job_metadata_def
      split: job_file.splits sum.splits option.splits locked_kill.splits kill_answer.splits if_splits
      dest: verify_locked_Verified(2))

end
