(* ===== verification/JobStart.thy ===== *)
theory JobStart
  imports JobControl
begin

text \<open>
  Starting a job (\<^verbatim>\<open>JobRegistry.start_job\<close> in \<^verbatim>\<open>shell.py\<close>): the record, the loop that waits until the
  supervisor has published that the command runs, and what a failed start cleans up. The loop is a
  function of the polls that are made; every poll carries the time that remains.
\<close>

section \<open>Stopping what a failed start has left\<close>

text \<open>
  The looks of \<^verbatim>\<open>_terminate_recorded_job_group\<close> and \<^verbatim>\<open>_terminate_recorded_supervisor\<close>, what the two signals
  answer, and the pid of this server.
\<close>

record stop_world =
  so_self :: int
  so_check :: os_view
  so_first :: kill_answer
  so_after_grace :: os_view
  so_survivors :: os_view
  so_second :: kill_answer
  so_end :: os_view

definition evidence :: "string \<Rightarrow> string \<Rightarrow> ustr" where
  "evidence what how = u what @ [61] @ u how"

definition signal_failed :: "string \<Rightarrow> string \<Rightarrow> ustr \<Rightarrow> ustr" where
  "signal_failed what how m = evidence what how @ [40] @ m @ [41]"

definition terminate_recorded_job_group :: "stop_world \<Rightarrow> dict \<Rightarrow> signals \<times> ustr" where
  "terminate_recorded_job_group w d =
     (let pid = metadata_int (map_of d ''pid''); pgid = metadata_int (map_of d ''pgid'');
          expected = map_of d ''process_identity''; name = ''job_group'' in
      if pid = None \<or> pgid = None then ([], evidence name ''not_recorded'')
      else
        let g = the pgid; matched = process_identity_matches (so_check w) pid expected;
            members = snapshot_process_group (so_check w) pgid in
        if matched = Some False then ([], evidence name ''gone'')
        else if matched \<noteq> Some True then ([], evidence name ''identity_unverified'')
        else if pgid \<noteq> pid \<or> pid = Some (so_self w) then ([], evidence name ''identity_mismatch'')
        else if os_pgid (so_check w) (the pid) = None then ([], evidence name ''gone'')
        else if os_pgid (so_check w) (the pid) \<noteq> pgid then ([], evidence name ''identity_mismatch'')
        else if map_option (jopt JStr) (map_of members (the pid)) \<noteq> expected then ([], evidence name ''identity_mismatch'')
        else
          case so_first w of
            KillNoProcess \<Rightarrow> ([], evidence name ''gone'')
          | KillFails m \<Rightarrow> ([], signal_failed name ''term_failed'' m)
          | KillDone \<Rightarrow>
              let ended = (if process_group_exists (so_end w) pgid then evidence name ''still_alive'' else evidence name ''stopped'') in
              if \<not> process_group_exists (so_after_grace w) pgid then ([(g, False)], ended)
              else if \<not> process_group_matches_snapshot (so_survivors w) g members
                then ([(g, False)], evidence name ''kill_refused_identity_changed'')
              else
                (case so_second w of
                   KillNoProcess \<Rightarrow> ([(g, False)], evidence name ''gone'')
                 | KillFails m \<Rightarrow> ([(g, False)], signal_failed name ''kill_failed'' m)
                 | KillDone \<Rightarrow> ([(g, False), (g, True)], ended)))"

text \<open>Signals to the supervisor go to its pid.\<close>

definition terminate_recorded_supervisor :: "stop_world \<Rightarrow> dict \<Rightarrow> signals \<times> ustr" where
  "terminate_recorded_supervisor w d =
     (let pid = metadata_int (map_of d ''supervisor_pid''); expected = map_of d ''supervisor_identity'';
          name = ''supervisor'' in
      case pid of
        None \<Rightarrow> ([], evidence name ''not_recorded'')
      | Some p \<Rightarrow>
          let matched = process_identity_matches (so_check w) pid expected;
              ended = (if process_identity_matches (so_end w) pid expected = Some True
                       then evidence name ''still_alive'' else evidence name ''stopped'') in
          if matched = Some False then ([], evidence name ''gone'')
          else if matched \<noteq> Some True \<or> p = so_self w then ([], evidence name ''identity_unverified'')
          else
            case so_first w of
              KillNoProcess \<Rightarrow> ([], evidence name ''gone'')
            | KillFails m \<Rightarrow> ([], signal_failed name ''term_failed'' m)
            | KillDone \<Rightarrow>
                if process_identity_matches (so_survivors w) pid expected \<noteq> Some True then ([(p, False)], ended)
                else
                  (case so_second w of
                     KillNoProcess \<Rightarrow> ([(p, False)], evidence name ''gone'')
                   | KillFails m \<Rightarrow> ([(p, False)], signal_failed name ''kill_failed'' m)
                   | KillDone \<Rightarrow> ([(p, False), (p, True)], ended)))"

text \<open>\<^verbatim>\<open>_terminate_and_reap_bootstrap\<close>, on the child this server has started itself.\<close>

record bootstrap_world =
  bo_running :: bool
  bo_terminate :: kill_answer
  bo_waited :: "int option"
  bo_kill :: kill_answer
  bo_waited_again :: "int option"

definition reaped :: "int \<Rightarrow> ustr" where
  "reaped code = u ''bootstrap=reaped('' @ int_repr code @ [41]"

definition terminate_and_reap_bootstrap :: "bootstrap_world \<Rightarrow> ustr" where
  "terminate_and_reap_bootstrap w =
     (case (if bo_running w then bo_terminate w else KillDone) of
        KillFails m \<Rightarrow> signal_failed ''bootstrap'' ''term_failed'' m
      | _ \<Rightarrow>
          (case bo_waited w of
             Some code \<Rightarrow> reaped code
           | None \<Rightarrow>
               (case bo_kill w of
                  KillFails m \<Rightarrow> signal_failed ''bootstrap'' ''kill_failed'' m
                | _ \<Rightarrow>
                    (case bo_waited_again w of
                       None \<Rightarrow> u ''bootstrap=still_alive''
                     | Some code \<Rightarrow> reaped code))))"

record cleanup_start_world =
  cs_bootstrap :: bootstrap_world
  cs_others :: "job_file \<Rightarrow> job_file"
  cs_group :: stop_world
  cs_supervisor :: stop_world

definition cleanup_startup_attempt :: "cleanup_start_world \<Rightarrow> job_file \<Rightarrow> job_file \<times> signals \<times> ustr" where
  "cleanup_startup_attempt w f =
     (let b = terminate_and_reap_bootstrap (cs_bootstrap w); f1 = cs_others w f in
      case read_job_metadata (\<lambda>i. f1) of
        Inr (Some d) \<Rightarrow>
          (let (s1, e1) = terminate_recorded_job_group (cs_group w) d;
               (s2, e2) = terminate_recorded_supervisor (cs_supervisor w) d
           in (f1, s1 @ s2, join (u '', '') (rev (remdups (rev [b, e1, e2])))))
      | _ \<Rightarrow> (f1, [], b))"

section \<open>Waiting for the start\<close>

record start_poll =
  sp_bootstrap :: "int option"
  sp_others :: "job_file \<Rightarrow> job_file"
  sp_remaining :: int

record startup =
  sa_exit :: "int option"
  sa_metadata :: "dict option"
  sa_error :: bool
  sa_state :: string

definition fresh_startup :: startup where
  "fresh_startup = \<lparr>sa_exit = None, sa_metadata = None, sa_error = False, sa_state = ''waiting_for_bootstrap_and_metadata''\<rparr>"

datatype start_outcome = Ready dict | BootstrapFailed int | StartTimedOut startup | NoPollLeft

definition is_published :: "dict option \<Rightarrow> bool" where
  "is_published d = (case d of None \<Rightarrow> False | Some m \<Rightarrow> status_in (''running'' # terminal_job_statuses) m)"

definition read_snapshot :: "job_file \<Rightarrow> startup \<Rightarrow> startup" where
  "read_snapshot f s =
     (case read_job_metadata (\<lambda>i. f) of
        Inl e \<Rightarrow> s\<lparr>sa_error := True\<rparr>
      | Inr None \<Rightarrow> s\<lparr>sa_error := False\<rparr>
      | Inr (Some d) \<Rightarrow> s\<lparr>sa_error := False, sa_metadata := Some d\<rparr>)"

definition next_state :: "startup \<Rightarrow> string" where
  "next_state s =
     (if sa_exit s = Some 0 then ''waiting_for_metadata''
      else if is_published (sa_metadata s) then ''waiting_for_bootstrap''
      else sa_state s)"

fun await_start :: "start_poll list \<Rightarrow> startup \<Rightarrow> job_file \<Rightarrow> job_file \<times> start_outcome" where
  "await_start [] s f = (f, NoPollLeft)"
| "await_start (p # ps) s f =
     (let s1 = s\<lparr>sa_exit := (case sa_exit s of None \<Rightarrow> sp_bootstrap p | Some c \<Rightarrow> Some c)\<rparr>;
          f1 = sp_others p f; s2 = read_snapshot f1 s1 in
      if sa_exit s1 \<noteq> None \<and> sa_exit s1 \<noteq> Some 0 then (f, BootstrapFailed (the (sa_exit s1)))
      else if sa_exit s2 = Some 0 \<and> is_published (sa_metadata s2) then (f1, Ready (the (sa_metadata s2)))
      else
        let s3 = s2\<lparr>sa_state := next_state s2\<rparr> in
        if sp_remaining p \<le> 0 then (f1, StartTimedOut s3) else await_start ps s3 f1)"

section \<open>start\<close>

record start_world =
  st_environ :: environment
  st_cwd_exists :: bool
  st_cwd_is_dir :: bool
  st_id :: ustr
  st_dir :: ustr
  st_now :: int
  st_dir_made :: bool
  st_record_ok :: bool
  st_spawn_error :: "ustr option"
  st_fail_now :: int
  st_fail_write_ok :: bool
  st_polls :: "start_poll list"
  st_cleanup :: cleanup_start_world
  st_repr :: "json option \<Rightarrow> ustr"
  st_read_error :: ustr
  st_others :: "job_file \<Rightarrow> job_file"
  st_look :: job_look
  st_status :: status_look

definition stdout_log_path :: "ustr \<Rightarrow> ustr" where
  "stdout_log_path dir = dir @ u ''/stdout.log''"

definition stderr_log_path :: "ustr \<Rightarrow> ustr" where
  "stderr_log_path dir = dir @ u ''/stderr.log''"

definition initial_metadata :: "ustr \<Rightarrow> ustr \<Rightarrow> ustr \<Rightarrow> ustr option \<Rightarrow> ustr \<Rightarrow> int \<Rightarrow> dict" where
  "initial_metadata job_id command cwd name dir now =
     [(''schema_version'', JInt 1), (''job_id'', JStr job_id),
      (''name'', (case name of None \<Rightarrow> JNull | Some n \<Rightarrow> if strip n = [] then JNull else JStr (strip n))),
      (''command'', JStr command), (''cwd'', JStr cwd), (''status'', jlit ''starting''), (''pid'', JNull),
      (''pgid'', JNull), (''process_identity'', JNull), (''supervisor_pid'', JNull), (''supervisor_identity'', JNull),
      (''started_at'', JInt now), (''completed_at'', JNull), (''updated_at'', JInt now), (''exit_code'', JNull),
      (''kill_signal'', JNull), (''stdout_log'', JStr (stdout_log_path dir)), (''stderr_log'', JStr (stderr_log_path dir))]"

definition failed_updates :: "int \<Rightarrow> int \<Rightarrow> dict" where
  "failed_updates exit_code now =
     [(''status'', jlit ''failed''), (''exit_code'', JInt exit_code), (''completed_at'', JInt now), (''updated_at'', JInt now)]"

definition job_cwd_error :: "bool \<Rightarrow> bool \<Rightarrow> ustr \<Rightarrow> dict option" where
  "job_cwd_error cwd_exists cwd_is_dir cwd =
     (if \<not> cwd_exists
        then Some (job_error ''cwd_not_found'' (u ''Working directory not found: '' @ cwd) [(''cwd'', JStr cwd)])
      else if \<not> cwd_is_dir
        then Some (job_error ''cwd_not_directory'' (u ''Working directory is not a directory: '' @ cwd) [(''cwd'', JStr cwd)])
      else None)"

text \<open>\<^verbatim>\<open>_job_start_failure\<close>.\<close>

definition job_start_failure :: "start_world \<Rightarrow> int \<Rightarrow> ustr \<Rightarrow> ustr \<Rightarrow> ustr \<Rightarrow> job_file \<Rightarrow> job_file \<times> signals \<times> dict" where
  "job_start_failure w exit_code message cwd command f =
     (case cleanup_startup_attempt (st_cleanup w) f of
        (f1, sent, cleanup) \<Rightarrow>
          (fst (update_job_metadata (st_fail_write_ok w) (failed_updates exit_code (st_fail_now w)) f1), sent,
           job_error ''job_start_failed'' (message @ u '' Cleanup: '' @ cleanup @ u ''.'')
             [(''job_id'', JStr (st_id w)), (''cwd'', JStr cwd), (''command'', JStr command),
              (''stdout_log'', JStr (stdout_log_path (st_dir w))), (''stderr_log'', JStr (stderr_log_path (st_dir w)))]))"

definition bootstrap_failed_message :: "int \<Rightarrow> ustr \<Rightarrow> ustr" where
  "bootstrap_failed_message code dir =
     u ''Detached job supervisor bootstrap exited with code '' @ int_repr code @ u ''; see '' @ stderr_log_path dir @ u ''.''"

definition start_timed_out_message :: "start_world \<Rightarrow> startup \<Rightarrow> ustr" where
  "start_timed_out_message w s =
     u ''Detached job startup did not reach a successful bootstrap and published running or terminal record within 5.0s (state=''
     @ u (sa_state s) @ u '', bootstrap_exit_code='' @ (case sa_exit s of None \<Rightarrow> u ''None'' | Some c \<Rightarrow> int_repr c)
     @ u '', metadata_status='' @ st_repr w (case sa_metadata s of None \<Rightarrow> None | Some d \<Rightarrow> map_of d ''status'')
     @ (if sa_error s then u '', metadata_error='' @ st_read_error w else [])
     @ u ''); see '' @ stderr_log_path (st_dir w) @ u ''.''"

definition conclude_start ::
  "(ustr \<Rightarrow> int option) \<Rightarrow> start_world \<Rightarrow> ustr \<Rightarrow> ustr \<Rightarrow> job_file \<times> start_outcome
   \<Rightarrow> (job_file \<times> signals \<times> dict) option" where
  "conclude_start parse_float w command cwd r =
     (case r of
        (f, NoPollLeft) \<Rightarrow> None
      | (f, BootstrapFailed code) \<Rightarrow>
          Some (job_start_failure w code (bootstrap_failed_message code (st_dir w)) cwd command f)
      | (f, StartTimedOut s) \<Rightarrow>
          Some (job_start_failure w (-1) (start_timed_out_message w s) cwd command f)
      | (f, Ready d) \<Rightarrow>
          (case reconcile_metadata parse_float (st_look w) (st_others w f) d of
             (f', d') \<Rightarrow>
               Some (f', [], dict_update (status_payload parse_float (st_status w) (st_dir w) d')
                 [(''success'', JBool True)])))"

text \<open>
  \<open>None\<close> is that the loop has not ended with the polls given. When the directory or the record cannot be
  made, or the supervisor not be spawned, \<open>st_spawn_error\<close> is the error.
\<close>

definition start_job ::
  "(ustr \<Rightarrow> int option) \<Rightarrow> start_world \<Rightarrow> ustr \<Rightarrow> ustr \<Rightarrow> environment option \<Rightarrow> ustr option
   \<Rightarrow> (job_file \<times> signals \<times> dict) option" where
  "start_job parse_float w command cwd env name =
     (let cmd = strip command in
      if cmd = [] then Some (NoMetadata, [], job_error ''invalid_arguments'' (u ''command must be a non-empty string.'') [])
      else case job_cwd_error (st_cwd_exists w) (st_cwd_is_dir w) cwd of
        Some e \<Rightarrow> Some (NoMetadata, [], e)
      | None \<Rightarrow>
        (case merged_job_env (st_environ w) env of
           Inl e \<Rightarrow> Some (NoMetadata, [], e)
         | Inr child_env \<Rightarrow>
             let recorded = (if st_dir_made w \<and> st_record_ok w
                   then Metadata (initial_metadata (st_id w) cmd cwd name (st_dir w) (st_now w)) else NoMetadata) in
             case st_spawn_error w of
               Some m \<Rightarrow>
                 Some (fst (update_job_metadata (st_fail_write_ok w) (failed_updates (-1) (st_fail_now w)) recorded), [],
                   job_error ''job_start_failed'' (u ''Failed to start job: '' @ m)
                     [(''cwd'', JStr cwd), (''command'', JStr cmd)])
             | None \<Rightarrow>
                 conclude_start parse_float w cmd cwd (await_start (st_polls w) fresh_startup recorded)))"

text \<open>A call whose last poll has no time left returns.\<close>

lemma await_start_ends:
  "\<exists>p \<in> set ps. sp_remaining p \<le> 0 \<Longrightarrow> snd (await_start ps s f) \<noteq> NoPollLeft"
proof (induction ps arbitrary: s f)
  case (Cons p ps)
  then show ?case by (cases "sp_remaining p \<le> 0") (auto simp: Let_def)
qed simp

lemma conclude_start_returns: "snd r \<noteq> NoPollLeft \<Longrightarrow> conclude_start parse_float w command cwd r \<noteq> None"
  by (cases r; cases "snd r") (auto simp: conclude_start_def case_prod_beta)

lemma start_job_returns:
  "\<exists>p \<in> set (st_polls w). sp_remaining p \<le> 0 \<Longrightarrow> start_job parse_float w command cwd env name \<noteq> None"
  using conclude_start_returns [OF await_start_ends]
  by (simp add: start_job_def Let_def split: option.split sum.split)

end
