(* ===== verification/JobLife.thy ===== *)
theory JobLife
  imports JobStart
begin

text \<open>
  The life of a job: the steps that the supervisor, the registry and \<^verbatim>\<open>kill_job\<close> take on its record in any
  order, once the supervisor has registered (a start succeeds only then). A supervisor that is alive is
  the process its record names, as the operating system shows it (\<open>truthful\<close>); nothing is assumed of the
  command.
\<close>

section \<open>Steps\<close>

record job_system =
  sy_file :: job_file
  sy_alive :: bool
  sy_registered :: bool

definition truthful :: "os_view \<Rightarrow> job_system \<Rightarrow> bool" where
  "truthful os s \<longleftrightarrow>
     (case sy_file s of
        Metadata d \<Rightarrow> sy_alive s \<and> sy_registered s \<longrightarrow> supervisor_state os d \<noteq> Some False
      | _ \<Rightarrow> True)"

inductive job_step :: "(ustr \<Rightarrow> int option) \<Rightarrow> job_system \<Rightarrow> job_system \<Rightarrow> bool" for parse_float where
  registers: "sy_alive s \<Longrightarrow> \<not> sy_registered s
    \<Longrightarrow> update_job_metadata True (register_updates pid identity now) (sy_file s) = (f, Inr d)
    \<Longrightarrow> job_step parse_float s (s\<lparr>sy_file := f, sy_registered := True\<rparr>)"
| runs: "sy_alive s \<Longrightarrow> sy_registered s
    \<Longrightarrow> update_job_metadata ok (running_updates pid pgid identity now) (sy_file s) = (f, r)
    \<Longrightarrow> job_step parse_float s (s\<lparr>sy_file := f\<rparr>)"
| finishes: "sy_alive s \<Longrightarrow> mutate_job_metadata ok (finalize exit_code now) (sy_file s) = (f, r)
    \<Longrightarrow> job_step parse_float s (s\<lparr>sy_file := f, sy_alive := False\<rparr>)"
| dies: "sy_alive s \<Longrightarrow> job_step parse_float s (s\<lparr>sy_alive := False\<rparr>)"
| reconciles: "truthful (jl_locked_os l) s \<Longrightarrow> reconcile_metadata parse_float l (sy_file s) d = (f, d')
    \<Longrightarrow> job_step parse_float s (s\<lparr>sy_file := f\<rparr>)"
| kills: "locked_step w name pid pgid (sy_file s) = (f, sent, step)
    \<Longrightarrow> job_step parse_float s (s\<lparr>sy_file := f\<rparr>)"

inductive_cases job_step_elim: "job_step parse_float s s'"

lemmas job_stepE = job_step_elim [consumes 1, case_names registers runs finishes dies reconciles kills]

section \<open>What a finished record says\<close>

definition has_kill_signal :: "dict \<Rightarrow> bool" where
  "has_kill_signal d \<longleftrightarrow> map_of d ''kill_signal'' \<noteq> None \<and> map_of d ''kill_signal'' \<noteq> Some JNull"

definition tells_truth :: "dict \<Rightarrow> bool" where
  "tells_truth d \<longleftrightarrow>
     (map_of d ''status'' = Some (jlit ''succeeded'') \<longrightarrow> map_of d ''exit_code'' = Some (JInt 0) \<and> \<not> has_kill_signal d) \<and>
     (map_of d ''status'' = Some (jlit ''failed'') \<longrightarrow>
        (\<exists>c. c \<noteq> 0 \<and> map_of d ''exit_code'' = Some (JInt c)) \<and> \<not> has_kill_signal d) \<and>
     (map_of d ''status'' = Some (jlit ''killed'') \<longrightarrow> has_kill_signal d)"

text \<open>A registered job: its record is not terminal while the supervisor lives, and terminal records tell the truth.\<close>

definition job_inv :: "job_system \<Rightarrow> bool" where
  "job_inv s \<longleftrightarrow> sy_registered s \<and>
     (\<exists>d. sy_file s = Metadata d \<and> (sy_alive s \<longrightarrow> \<not> is_terminal d) \<and> (is_terminal d \<longrightarrow> tells_truth d))"

lemma status_names [simp]:
  "status_in names d \<longleftrightarrow> (\<exists>n \<in> set names. map_of d ''status'' = Some (jlit n))"
  by (auto simp: status_in_def list_ex_iff)

lemma is_terminal_iff:
  "is_terminal d \<longleftrightarrow> map_of d ''status'' \<in> {Some (jlit ''succeeded''), Some (jlit ''failed''),
     Some (jlit ''killed''), Some (jlit ''interrupted'')}"
  by (auto simp: is_terminal_def terminal_job_statuses_def)

lemma finalize_truth: "tells_truth (finalize c now d)"
  by (auto simp: tells_truth_def finalize_def final_status_def has_kill_signal_def update_conv)

lemma running_not_terminal: "\<not> is_terminal (dict_update d (running_updates pid pgid identity now))"
  by (simp add: is_terminal_iff running_updates_def update_conv)

lemma mark_kill_status: "map_of (mark_kill name now d) ''status'' = map_of d ''status''"
  by (simp add: mark_kill_def update_conv)

lemma interrupted_status:
  assumes "\<not> is_terminal d" "both_gone os d"
  shows "map_of (interrupt_if_still_stale os now d) ''status'' = Some (jlit ''interrupted'')"
  using assms by (simp add: interrupt_if_still_stale_def update_conv)

section \<open>The record of the registry's steps\<close>

text \<open>Reconciling keeps the file, or turns a record that is not terminal and whose processes are gone to interrupted.\<close>

lemma reconcile_cases:
  assumes "reconcile_metadata parse_float l f d = (f', d')"
  obtains (same) "f' = f"
  | (interrupts) d0 where "f = Metadata d0" "\<not> is_terminal d0" "both_gone (jl_locked_os l) d0"
      "f' = Metadata (interrupt_if_still_stale (jl_locked_os l) (jl_locked_now l) d0)"
proof (cases "f' = f")
  case False
  with assms have "interrupt_stale_record (jl_locked_os l) (jl_locked_now l) (jl_write_ok l) f d = (f', d')"
    by (auto simp: reconcile_metadata_def split: if_splits)
  then show ?thesis
  proof (rule_tac mutate_cases [of "jl_write_ok l" "interrupt_if_still_stale (jl_locked_os l) (jl_locked_now l)" f], goal_cases)
    case 1
    with False show ?thesis by (simp add: interrupt_stale_record_def)
  next
    case (2 d0)
    then have f': "f' = Metadata (interrupt_if_still_stale (jl_locked_os l) (jl_locked_now l) d0)"
      by (auto simp: interrupt_stale_record_def)
    with False 2(2) have "\<not> is_terminal d0" "both_gone (jl_locked_os l) d0"
      by (auto simp: interrupt_if_still_stale_def split: if_splits)
    with f' 2(2) show ?thesis by (rule_tac interrupts)
  qed
qed (rule same)

text \<open>The locked step of a kill keeps the file or records the signal in a record that is not terminal.\<close>

lemma locked_step_cases:
  assumes "locked_step w name pid pgid f = (f', sent, step)"
  obtains (same) "f' = f"
  | (marks) d where "f = Metadata d" "\<not> is_terminal d" "f' = Metadata (mark_kill name (kw_locked_now w) d)"
proof (cases f)
  case (Metadata d)
  show ?thesis
  proof (cases "verify_locked (kw_locked w) pid pgid d")
    case (Verified members)
    then have "\<not> is_terminal d" using verify_locked_Verified(1) by (auto simp: verified_leader_def)
    with assms Metadata Verified that show ?thesis
      by (auto simp: locked_step_def read_job_metadata_unlocked_def write_job_metadata_def split: kill_answer.splits if_splits)
  qed (use assms Metadata same in
    \<open>auto simp: locked_step_def read_job_metadata_unlocked_def write_job_metadata_def split: if_splits\<close>)
qed (use assms same in \<open>auto simp: locked_step_def read_job_metadata_unlocked_def\<close>)

section \<open>The invariant\<close>

lemma job_inv_file:
  assumes "job_inv s" "sy_file s = Metadata d"
  shows "sy_registered s" "sy_alive s \<Longrightarrow> \<not> is_terminal d" "is_terminal d \<Longrightarrow> tells_truth d"
  using assms by (auto simp: job_inv_def)

lemma job_step_inv:
  assumes "job_step parse_float s s'" "job_inv s"
  shows "job_inv s'"
  using assms(1)
proof (cases rule: job_stepE)
  case (registers pid identity now f d)
  with assms(2) show ?thesis by (simp add: job_inv_def)
next
  case (runs ok pid pgid identity now f r)
  obtain d where d: "sy_file s = Metadata d" using assms(2) by (auto simp: job_inv_def)
  have "\<exists>d'. f = Metadata d' \<and> \<not> is_terminal d'"
    using runs job_inv_file(2) [OF assms(2) d] running_not_terminal
    by (cases ok) (auto simp: d update_job_metadata_def mutate_job_metadata_def read_job_metadata_unlocked_def write_job_metadata_def)
  with runs show ?thesis by (auto simp: job_inv_def)
next
  case (finishes ok exit_code now f r)
  obtain d where d: "sy_file s = Metadata d" using assms(2) by (auto simp: job_inv_def)
  have "\<exists>d'. f = Metadata d' \<and> (is_terminal d' \<longrightarrow> tells_truth d')"
    using finishes job_inv_file(3) [OF assms(2) d] finalize_truth
    by (cases ok) (auto simp: d mutate_job_metadata_def read_job_metadata_unlocked_def write_job_metadata_def)
  with finishes assms(2) show ?thesis by (auto simp: job_inv_def)
next
  case dies
  with assms(2) show ?thesis by (auto simp: job_inv_def)
next
  case (reconciles l d f d')
  from reconciles(3) show ?thesis
  proof (cases rule: reconcile_cases)
    case same
    with reconciles assms(2) show ?thesis by simp
  next
    case (interrupts d0)
    have dead: "\<not> sy_alive s"
      using reconciles(2) interrupts assms(2) by (auto simp: truthful_def both_gone_def job_inv_def)
    have "map_of (interrupt_if_still_stale (jl_locked_os l) (jl_locked_now l) d0) ''status'' = Some (jlit ''interrupted'')"
      using interrupts by (intro interrupted_status)
    then have "tells_truth (interrupt_if_still_stale (jl_locked_os l) (jl_locked_now l) d0)" by (simp add: tells_truth_def)
    with reconciles interrupts dead assms(2) show ?thesis by (auto simp: job_inv_def)
  qed
next
  case (kills w name pid pgid f sent step)
  from kills(2) show ?thesis
  proof (cases rule: locked_step_cases)
    case same
    with kills assms(2) show ?thesis by simp
  next
    case (marks d)
    then have "\<not> is_terminal (mark_kill name (kw_locked_now w) d)" by (simp add: is_terminal_iff mark_kill_status)
    with kills marks assms(2) show ?thesis by (auto simp: job_inv_def)
  qed
qed

text \<open>A terminal record is never changed again.\<close>

lemma job_step_final:
  assumes "job_step parse_float s s'" "job_inv s" "sy_file s = Metadata d" "is_terminal d"
  shows "sy_file s' = Metadata d"
proof -
  have dead: "\<not> sy_alive s" using job_inv_file(2) [OF assms(2,3)] assms(4) by blast
  show ?thesis
    using assms(1)
  proof (cases rule: job_stepE)
    case (reconciles l d1 f d')
    from reconciles(3) show ?thesis
      by (cases rule: reconcile_cases) (use reconciles assms in auto)
  next
    case (kills w name pid pgid f sent step)
    from kills(2) show ?thesis
      by (cases rule: locked_step_cases) (use kills assms in auto)
  qed (use dead in auto)
qed

end
