(* ===== verification/JobList.thy ===== *)
theory JobList
  imports JobControl "HOL-Library.Product_Lexorder"
begin

text \<open>
  Listing the durable jobs (\<^verbatim>\<open>JobRegistry.list_jobs\<close> in \<^verbatim>\<open>shell.py\<close>): every entry of the registry is
  validated, skipped with a warning, filtered, or listed, newest first; one page of summaries is fitted into
  the token budget, first by dropping warnings, then summaries. What the call sees of every entry is a
  \<open>registry_entry\<close>; a file of it that is missing is \<open>LstatFails\<close> with the text of the error. The change of an
  entry's own record is that of \<open>reconcile_metadata\<close>.
\<close>

section \<open>Entries\<close>

record registry_entry =
  en_name :: ustr
  en_error :: "ustr option"
  en_symlink :: bool
  en_is_dir :: bool
  en_files :: "lstat_answer list"
  en_paths :: job_paths
  en_file :: job_file
  en_look :: job_look
  en_status :: status_look
  en_dir :: ustr

definition record_file_names :: "ustr list" where
  "record_file_names = [u ''metadata.json'', u ''stdout.log'', u ''stderr.log'']"

fun job_record_files_validation_error :: "(ustr \<times> lstat_answer) list \<Rightarrow> (string \<times> ustr) option" where
  "job_record_files_validation_error [] = None"
| "job_record_files_validation_error ((n, a) # rest) =
     (case a of
        LstatMissing \<Rightarrow> Some (''job_record_invalid'', u ''Skipped durable job record with an unreadable '' @ n @ u '': '')
      | LstatFails m \<Rightarrow> Some (''job_record_invalid'', u ''Skipped durable job record with an unreadable '' @ n @ u '': '' @ m)
      | LstatSymlink \<Rightarrow> Some (''symlink_record'', u ''Skipped durable job record with symbolic-link '' @ n @ u ''.'')
      | LstatOther \<Rightarrow> Some (''job_record_invalid'', u ''Skipped durable job record whose '' @ n @ u '' is not a regular file.'')
      | LstatRegular \<Rightarrow> job_record_files_validation_error rest)"

definition durable_job_statuses :: "string list" where
  "durable_job_statuses = ''starting'' # ''running'' # terminal_job_statuses"

definition is_string :: "json option \<Rightarrow> bool" where
  "is_string j = (case j of Some (JStr s) \<Rightarrow> True | _ \<Rightarrow> False)"

definition is_null :: "json option \<Rightarrow> bool" where
  "is_null j \<longleftrightarrow> j = None \<or> j = Some JNull"

text \<open>\<^verbatim>\<open>schema_version != 1\<close>, where \<^verbatim>\<open>true\<close> and \<^verbatim>\<open>1.0\<close> are equal to 1.\<close>

definition is_one :: "json option \<Rightarrow> bool" where
  "is_one j \<longleftrightarrow> j = Some (JInt 1) \<or> j = Some (JBool True) \<or> j = Some (JFloat (u ''1.0''))"

definition job_metadata_validation_error :: "(ustr \<Rightarrow> int option) \<Rightarrow> dict \<Rightarrow> string option" where
  "job_metadata_validation_error parse_float d =
     (if \<not> is_one (map_of d ''schema_version'')
        then Some ''Skipped durable job record with an unsupported metadata schema version.''
      else if \<not> status_in durable_job_statuses d
        then Some ''Skipped durable job record with an invalid status.''
      else if metadata_float parse_float (map_of d ''started_at'') = None
        then Some ''Skipped durable job record without a valid started_at timestamp.''
      else if \<not> is_null (map_of d ''completed_at'') \<and> metadata_float parse_float (map_of d ''completed_at'') = None
        then Some ''Skipped durable job record with an invalid completed_at timestamp.''
      else if \<not> is_string (map_of d ''command'') \<or> \<not> is_string (map_of d ''cwd'')
        then Some ''Skipped durable job record with invalid command or cwd fields.''
      else if \<not> is_null (map_of d ''name'') \<and> \<not> is_string (map_of d ''name'')
        then Some ''Skipped durable job record with an invalid name field.''
      else None)"

text \<open>The code and message of an error reply of \<open>load_job\<close>.\<close>

definition error_field :: "string \<Rightarrow> dict \<Rightarrow> ustr" where
  "error_field k d =
     (case map_of d ''error'' of Some (JObj e) \<Rightarrow> (case map_of e k of Some (JStr s) \<Rightarrow> s | _ \<Rightarrow> u ''None'') | _ \<Rightarrow> u ''None'')"

record listed_job =
  lj_started :: int
  lj_id :: ustr
  lj_entry :: registry_entry
  lj_record :: dict

datatype entry_result = Skipped ustr ustr | FilteredOut | Listed listed_job

definition examine_entry :: "(ustr \<Rightarrow> int option) \<Rightarrow> string \<Rightarrow> registry_entry \<Rightarrow> entry_result" where
  "examine_entry parse_float status e =
     (if en_error e \<noteq> None
        then Skipped (u ''job_record_unreadable'') (u ''Skipped unreadable durable job record: '' @ the (en_error e))
      else if en_symlink e then Skipped (u ''symlink_record'') (u ''Skipped symbolic-link registry entry.'')
      else if \<not> startswith (en_name e) job_prefix \<or> \<not> en_is_dir e
        then Skipped (u ''non_job_record'') (u ''Skipped entry that is not a durable job directory.'')
      else case job_record_files_validation_error (zip record_file_names (en_files e)) of
          Some (code, message) \<Rightarrow> Skipped (u code) message
        | None \<Rightarrow>
            (case load_job (en_paths e) (en_name e) (en_file e) of
               Inl err \<Rightarrow> Skipped (error_field ''code'' err) (error_field ''message'' err)
             | Inr d0 \<Rightarrow>
                 (case job_metadata_validation_error parse_float d0 of
                    Some message \<Rightarrow> Skipped (u ''job_metadata_invalid'') (u message)
                  | None \<Rightarrow>
                      let d = snd (reconcile_metadata parse_float (en_look e) (en_file e) d0) in
                      if status = ''all'' \<or> durable_status d = jlit status
                      then Listed \<lparr>lj_started = the (metadata_float parse_float (map_of d ''started_at'')),
                             lj_id = en_name e, lj_entry = e, lj_record = d\<rparr>
                      else FilteredOut)))"

definition warning_limit :: nat where
  "warning_limit = 20"

definition truncate_warning_message :: "ustr \<Rightarrow> ustr" where
  "truncate_warning_message m = (if length m \<le> 240 then m else take 239 m @ [0x2026])"

definition warning_of :: "registry_entry \<Rightarrow> entry_result \<Rightarrow> dict list" where
  "warning_of e r =
     (case r of
        Skipped code message \<Rightarrow>
          [[(''entry'', JStr (en_name e)), (''code'', JStr code), (''message'', JStr (truncate_warning_message message))]]
      | _ \<Rightarrow> [])"

definition listed_of :: "entry_result \<Rightarrow> listed_job list" where
  "listed_of r = (case r of Listed j \<Rightarrow> [j] | _ \<Rightarrow> [])"

text \<open>The jobs found, in the order of the reply, and the warnings.\<close>

definition discovered_jobs :: "(ustr \<Rightarrow> int option) \<Rightarrow> string \<Rightarrow> registry_entry list \<Rightarrow> listed_job list" where
  "discovered_jobs parse_float status entries =
     sort_key (\<lambda>j. (- lj_started j, lj_id j)) (concat (map (\<lambda>e. listed_of (examine_entry parse_float status e)) entries))"

definition all_warnings :: "(ustr \<Rightarrow> int option) \<Rightarrow> string \<Rightarrow> registry_entry list \<Rightarrow> dict list" where
  "all_warnings parse_float status entries =
     concat (map (\<lambda>e. warning_of e (examine_entry parse_float status e)) entries)"

section \<open>The page\<close>

definition list_summary :: "(ustr \<Rightarrow> int option) \<Rightarrow> listed_job \<Rightarrow> dict" where
  "list_summary parse_float j =
     (let d = lj_record j; se = en_status (lj_entry j);
          command = (case map_of d ''command'' of Some (JStr c) \<Rightarrow> c | _ \<Rightarrow> []);
          shown = (if 512 < length command then take 511 command @ [0x2026] else command) in
      dict_update (status_payload parse_float se (en_dir (lj_entry j)) d)
        [(''command'', JStr shown), (''command_truncated'', JBool (512 < length command)),
         (''command_characters'', jnat (length command)),
         (''started_at'', jopt (se_float se) (metadata_float parse_float (map_of d ''started_at''))),
         (''completed_at'', jopt (se_float se) (metadata_float parse_float (map_of d ''completed_at'')))])"

record list_request =
  lr_total :: nat
  lr_offset :: nat
  lr_limit :: nat
  lr_status :: string
  lr_budget :: response_budget
  lr_skipped :: nat

record list_view =
  lv_jobs :: "dict list"
  lv_stop :: string
  lv_warnings :: "dict list"
  lv_warnings_truncated :: bool
  lv_oversized :: bool

definition view_next :: "list_request \<Rightarrow> list_view \<Rightarrow> json" where
  "view_next rq v =
     (let returned = length (lv_jobs v) in
      if lr_offset rq + returned < lr_total rq \<and> 0 < returned then jnat (lr_offset rq + returned) else JNull)"

definition job_list_payload :: "list_request \<Rightarrow> list_view \<Rightarrow> budget_measurement \<Rightarrow> dict" where
  "job_list_payload rq v m =
     (let returned = length (lv_jobs v); truncated = lr_offset rq + returned < lr_total rq in
      [(''success'', JBool True), (''jobs'', JList (map JObj (lv_jobs v))), (''total'', jnat (lr_total rq)),
       (''returned'', jnat returned), (''returned_count'', jnat returned), (''offset'', jnat (lr_offset rq)),
       (''limit'', jnat (lr_limit rq)), (''truncated'', JBool truncated), (''next_offset'', view_next rq v),
       (''filter'', jlit (lr_status rq)),
       (''skipped'', JObj [(''count'', jnat (lr_skipped rq)), (''reported'', jnat (length (lv_warnings v))),
          (''truncated'', JBool (lv_warnings_truncated v)), (''warnings'', JList (map JObj (lv_warnings v)))]),
       (''page'', JObj
         [(''state'', jlit (if truncated then ''truncated'' else ''complete'')), (''stop_reason'', jlit (lv_stop v)),
          (''returned_count'', jnat returned), (''estimated_tokens'', jnat (estimated_tokens m)),
          (''token_encoding'', jlit ''o200k_base''),
          (''effective_budgets'', JObj [(''items'', jnat (lr_limit rq)), (''tokens'', JInt (max_tokens (lr_budget rq)))]),
          (''budget_exceeded'', JObj [(''tokens'', JBool (exceeds_token_budget m))]),
          (''oversized_item'', JBool (lv_oversized v)),
          (''continuation'', JObj [(''has_more'', JBool truncated), (''next_offset'', view_next rq v)])])])"

fun settle_measurement :: "(ustr \<Rightarrow> nat) \<Rightarrow> list_request \<Rightarrow> list_view \<Rightarrow> nat \<Rightarrow> budget_measurement \<Rightarrow> budget_measurement" where
  "settle_measurement tok rq v 0 m = m"
| "settle_measurement tok rq v (Suc n) m =
     (let updated = measure_json_payload tok (job_list_payload rq v m) (lr_budget rq) in
      if updated = m then m else settle_measurement tok rq v n updated)"

definition measure_job_list_response :: "(ustr \<Rightarrow> nat) \<Rightarrow> list_request \<Rightarrow> list_view \<Rightarrow> budget_measurement" where
  "measure_job_list_response tok rq v = settle_measurement tok rq v 4 (measure_text tok (lr_budget rq) [])"

definition list_view_fits :: "(ustr \<Rightarrow> nat) \<Rightarrow> list_request \<Rightarrow> list_view \<Rightarrow> bool" where
  "list_view_fits tok rq v = fits (measure_job_list_response tok rq v)"

text \<open>Without the last warning, then without the last job, as long as the reply does not fit.\<close>

function pop_warnings :: "(ustr \<Rightarrow> nat) \<Rightarrow> list_request \<Rightarrow> list_view \<Rightarrow> list_view" where
  "pop_warnings tok rq v =
     (if list_view_fits tok rq v \<or> lv_warnings v = [] then v
      else pop_warnings tok rq (v\<lparr>lv_warnings := butlast (lv_warnings v), lv_warnings_truncated := True\<rparr>))"
  by auto
termination
  by (relation "measure (\<lambda>(tok, rq, v). length (lv_warnings v))") auto

function pop_jobs :: "(ustr \<Rightarrow> nat) \<Rightarrow> list_request \<Rightarrow> list_view \<Rightarrow> list_view" where
  "pop_jobs tok rq v =
     (if list_view_fits tok rq v \<or> length (lv_jobs v) \<le> 1 then v
      else pop_jobs tok rq (v\<lparr>lv_jobs := butlast (lv_jobs v), lv_stop := ''token_budget'',
             lv_warnings_truncated := length (lv_warnings v) < lr_skipped rq\<rparr>))"
  by auto
termination
  by (relation "measure (\<lambda>(tok, rq, v). length (lv_jobs v))") auto

declare pop_warnings.simps [simp del] pop_jobs.simps [simp del]

definition first_view :: "list_request \<Rightarrow> dict list \<Rightarrow> dict list \<Rightarrow> list_view" where
  "first_view rq summaries warnings =
     \<lparr>lv_jobs = summaries,
      lv_stop = (if lr_offset rq + length summaries < lr_total rq then ''item_limit'' else ''end_of_results''),
      lv_warnings = warnings, lv_warnings_truncated = length warnings < lr_skipped rq, lv_oversized = False\<rparr>"

definition final_view :: "(ustr \<Rightarrow> nat) \<Rightarrow> list_request \<Rightarrow> dict list \<Rightarrow> dict list \<Rightarrow> list_view" where
  "final_view tok rq summaries warnings =
     (let v = pop_jobs tok rq (pop_warnings tok rq (first_view rq summaries warnings)) in
      if \<not> list_view_fits tok rq v \<and> lv_jobs v \<noteq> []
      then v\<lparr>lv_stop := ''token_budget'', lv_oversized := True,
             lv_warnings_truncated := length (lv_warnings v) < lr_skipped rq\<rparr>
      else v\<lparr>lv_warnings_truncated := length (lv_warnings v) < lr_skipped rq\<rparr>)"

section \<open>list_jobs\<close>

datatype registry_state = RegistrySymlink | RegistryMissing | RegistryNoDirectory | RegistryFails ustr | Entries "registry_entry list"

definition job_list_statuses :: "string list" where
  "job_list_statuses = ''all'' # ''running'' # terminal_job_statuses"

definition max_job_list_limit :: int where
  "max_job_list_limit = 200"

definition registry_error :: "string \<Rightarrow> ustr \<Rightarrow> ustr \<Rightarrow> dict" where
  "registry_error code message dir = job_error code message [(''jobs_dir'', JStr dir)]"

definition list_reply :: "(ustr \<Rightarrow> nat) \<Rightarrow> list_request \<Rightarrow> list_view \<Rightarrow> dict" where
  "list_reply tok rq v = job_list_payload rq v (measure_job_list_response tok rq v)"

definition list_page_view ::
  "(ustr \<Rightarrow> nat) \<Rightarrow> (ustr \<Rightarrow> int option) \<Rightarrow> string \<Rightarrow> registry_entry list \<Rightarrow> nat \<Rightarrow> nat \<Rightarrow> response_budget
   \<Rightarrow> list_request \<times> list_view" where
  "list_page_view tok parse_float status entries offset limit b =
     (let jobs = discovered_jobs parse_float status entries; warnings = all_warnings parse_float status entries;
          rq = \<lparr>lr_total = length jobs, lr_offset = offset, lr_limit = limit, lr_status = status, lr_budget = b,
                lr_skipped = length warnings\<rparr>
      in (rq, final_view tok rq (map (list_summary parse_float) (take limit (drop offset jobs))) (take warning_limit warnings)))"

definition empty_request :: "string \<Rightarrow> nat \<Rightarrow> nat \<Rightarrow> response_budget \<Rightarrow> list_request" where
  "empty_request status offset limit b =
     \<lparr>lr_total = 0, lr_offset = offset, lr_limit = limit, lr_status = status, lr_budget = b, lr_skipped = 0\<rparr>"

definition list_jobs ::
  "(ustr \<Rightarrow> nat) \<Rightarrow> (ustr \<Rightarrow> int option) \<Rightarrow> ustr \<Rightarrow> response_budget \<Rightarrow> string \<Rightarrow> json \<Rightarrow> json \<Rightarrow> registry_state \<Rightarrow> dict" where
  "list_jobs tok parse_float dir b status offset limit st =
     (if status \<notin> set job_list_statuses
        then job_error ''invalid_arguments''
          (u ''status must be one of: all, running, succeeded, failed, killed, interrupted.'') []
      else case int_arg offset 0 None of
        None \<Rightarrow> job_error ''invalid_arguments'' (u ''offset must be an integer greater than or equal to 0.'') []
      | Some off \<Rightarrow>
        (case int_arg limit 1 (Some max_job_list_limit) of
           None \<Rightarrow> job_error ''invalid_arguments'' (u ''limit must be an integer between 1 and 200.'') []
         | Some lim \<Rightarrow>
           (case st of
              RegistrySymlink \<Rightarrow>
                registry_error ''job_registry_invalid'' (u ''The durable jobs registry must not be a symbolic link.'') dir
            | RegistryMissing \<Rightarrow>
                (let rq = empty_request status (nat off) (nat lim) b in list_reply tok rq (first_view rq [] []))
            | RegistryNoDirectory \<Rightarrow>
                registry_error ''job_registry_invalid'' (u ''The durable jobs registry path is not a directory.'') dir
            | RegistryFails m \<Rightarrow>
                registry_error ''job_registry_read_failed'' (u ''Failed to read durable jobs registry: '' @ m) dir
            | Entries entries \<Rightarrow>
                (case list_page_view tok parse_float status entries (nat off) (nat lim) b of
                   (rq, v) \<Rightarrow> list_reply tok rq v))))"

section \<open>What a page returns\<close>

lemma pop_warnings_jobs: "lv_jobs (pop_warnings tok rq v) = lv_jobs v"
  by (induction tok rq v rule: pop_warnings.induct) (subst pop_warnings.simps, simp)

lemma pop_jobs_prefix:
  "\<exists>k. lv_jobs (pop_jobs tok rq v) = take k (lv_jobs v) \<and> (lv_jobs v \<noteq> [] \<longrightarrow> 1 \<le> k)"
proof (induction tok rq v rule: pop_jobs.induct)
  case (1 tok rq v)
  show ?case
  proof (cases "list_view_fits tok rq v \<or> length (lv_jobs v) \<le> 1")
    case True
    then have "lv_jobs (pop_jobs tok rq v) = take (Suc (length (lv_jobs v))) (lv_jobs v)" by (simp add: pop_jobs.simps)
    then show ?thesis by (metis le_add1 plus_1_eq_Suc)
  next
    case False
    let ?v = "v\<lparr>lv_jobs := butlast (lv_jobs v), lv_stop := ''token_budget'',
             lv_warnings_truncated := length (lv_warnings v) < lr_skipped rq\<rparr>"
    obtain k where k: "lv_jobs (pop_jobs tok rq ?v) = take k (butlast (lv_jobs v))" "butlast (lv_jobs v) \<noteq> [] \<longrightarrow> 1 \<le> k"
      using 1 [OF False] by auto
    have "pop_jobs tok rq v = pop_jobs tok rq ?v" using False by (subst pop_jobs.simps) simp
    then have "lv_jobs (pop_jobs tok rq v) = take (min k (length (lv_jobs v) - 1)) (lv_jobs v)"
      using k(1) by (simp add: butlast_conv_take min.commute)
    moreover have "1 \<le> min k (length (lv_jobs v) - 1)"
    proof -
      have "2 \<le> length (lv_jobs v)" using False by linarith
      then have "butlast (lv_jobs v) \<noteq> []" by (cases "lv_jobs v" rule: rev_cases) auto
      with k(2) \<open>2 \<le> length (lv_jobs v)\<close> show ?thesis by simp
    qed
    ultimately show ?thesis by blast
  qed
qed

lemma pop_jobs_stop: "list_view_fits tok rq (pop_jobs tok rq v) \<or> length (lv_jobs (pop_jobs tok rq v)) \<le> 1"
proof (induction tok rq v rule: pop_jobs.induct)
  case (1 tok rq v)
  show ?case
  proof (cases "list_view_fits tok rq v \<or> length (lv_jobs v) \<le> 1")
    case True
    then show ?thesis by (simp add: pop_jobs.simps)
  next
    case False
    then show ?thesis using 1 by (simp add: pop_jobs.simps [of tok rq v])
  qed
qed

lemma final_view_prefix:
  obtains k where "lv_jobs (final_view tok rq summaries warnings) = take k summaries" "summaries \<noteq> [] \<longrightarrow> 1 \<le> k"
proof -
  let ?v = "pop_jobs tok rq (pop_warnings tok rq (first_view rq summaries warnings))"
  obtain k where "lv_jobs ?v = take k summaries" "summaries \<noteq> [] \<longrightarrow> 1 \<le> k"
    using pop_jobs_prefix [of tok rq "pop_warnings tok rq (first_view rq summaries warnings)"]
    by (auto simp: pop_warnings_jobs first_view_def)
  moreover have "lv_jobs (final_view tok rq summaries warnings) = lv_jobs ?v"
    by (cases "\<not> list_view_fits tok rq ?v \<and> lv_jobs ?v \<noteq> []") (auto simp: final_view_def Let_def)
  ultimately show ?thesis by (metis that)
qed

text \<open>A client that follows \<^verbatim>\<open>next_offset\<close>, over a registry that does not change.\<close>

fun follow_list ::
  "(ustr \<Rightarrow> nat) \<Rightarrow> (ustr \<Rightarrow> int option) \<Rightarrow> string \<Rightarrow> registry_entry list \<Rightarrow> nat \<Rightarrow> response_budget \<Rightarrow> nat \<Rightarrow> nat \<Rightarrow> dict list" where
  "follow_list tok parse_float status entries limit b 0 offset = []"
| "follow_list tok parse_float status entries limit b (Suc n) offset =
     (case list_page_view tok parse_float status entries offset limit b of
        (rq, v) \<Rightarrow>
          lv_jobs v @ (case view_next rq v of
             JInt i \<Rightarrow> follow_list tok parse_float status entries limit b n (nat i) | _ \<Rightarrow> []))"

lemma follow_list_rest:
  assumes "1 \<le> limit" "length (discovered_jobs parse_float status entries) \<le> n + offset"
  shows "follow_list tok parse_float status entries limit b n offset =
    map (list_summary parse_float) (drop offset (discovered_jobs parse_float status entries))"
  using assms(2)
proof (induction n arbitrary: offset)
  case (Suc n)
  let ?jobs = "discovered_jobs parse_float status entries"
  let ?summaries = "map (list_summary parse_float) (take limit (drop offset ?jobs))"
  obtain rq v where p: "list_page_view tok parse_float status entries offset limit b = (rq, v)" by fastforce
  then have rq: "lr_total rq = length ?jobs" "lr_offset rq = offset"
    and v: "v = final_view tok rq ?summaries (take warning_limit (all_warnings parse_float status entries))"
    by (auto simp: list_page_view_def Let_def)
  obtain k where k: "lv_jobs v = take k ?summaries" "?summaries \<noteq> [] \<longrightarrow> 1 \<le> k"
    unfolding v by (rule final_view_prefix)
  define l where "l = length (lv_jobs v)"
  have jobs: "lv_jobs v = map (list_summary parse_float) (take l (drop offset ?jobs))"
  proof -
    have "lv_jobs v = map (list_summary parse_float) (take (min k limit) (drop offset ?jobs))"
      using k(1) by (simp add: take_map min.commute)
    moreover from this have "l = min (min k limit) (length (drop offset ?jobs))" by (simp add: l_def min.commute)
    ultimately show ?thesis by (metis min.commute take_all_iff take_take order_refl)
  qed
  show ?case
  proof (cases "offset < length ?jobs")
    case True
    then have "?summaries \<noteq> []" using assms(1) by simp
    with k have l: "1 \<le> l" "offset + l \<le> length ?jobs" by (auto simp: l_def)
    show ?thesis
    proof (cases "offset + l < length ?jobs")
      case more: True
      moreover have "lv_jobs v \<noteq> []" using l(1) by (auto simp: l_def)
      ultimately have "view_next rq v = jnat (offset + l)" using rq by (simp add: view_next_def Let_def l_def)
      then have "follow_list tok parse_float status entries limit b (Suc n) offset =
          lv_jobs v @ follow_list tok parse_float status entries limit b n (offset + l)"
        using p by (simp del: of_nat_add)
      also have "follow_list tok parse_float status entries limit b n (offset + l) =
          map (list_summary parse_float) (drop (offset + l) ?jobs)"
        using Suc.prems l by (intro Suc.IH) simp
      finally have "follow_list tok parse_float status entries limit b (Suc n) offset =
          map (list_summary parse_float) (take l (drop offset ?jobs) @ drop (offset + l) ?jobs)"
        by (simp only: jobs map_append)
      moreover have "take l (drop offset ?jobs) @ drop (offset + l) ?jobs = drop offset ?jobs"
        using append_take_drop_id [of l "drop offset ?jobs"] by (simp add: add.commute)
      ultimately show ?thesis by (simp only:)
    next
      case False
      then have "view_next rq v = JNull" using rq by (simp add: view_next_def Let_def l_def)
      moreover have "take l (drop offset ?jobs) = drop offset ?jobs" using False by simp
      ultimately show ?thesis using p jobs by simp
    qed
  next
    case False
    then have "view_next rq v = JNull" using rq by (simp add: view_next_def Let_def)
    with False p jobs show ?thesis by simp
  qed
qed simp

end
