(* ===== verification/JobClaims.thy ===== *)
theory JobClaims
  imports JobLife JobList "HOL-Library.Multiset"
begin

text \<open>
  What the registry and the supervisor promise about durable jobs: the life of a record, whom a kill
  signals, what a listing returns and what a job's environment holds.
\<close>

section \<open>The life of a job\<close>






text \<open>Until the supervisor has registered, interrupted is not final: a start whose supervisor takes longer
  than the grace period of five seconds is recorded as interrupted by any call that looks at the job, since
  no process is recorded yet, and the supervisor then turns the same record to running.\<close>
theorem slow_start_revives_interrupted:
  assumes "d0 = initial_metadata job_id command cwd name dir t0"
    and "t0 + 5000 \<le> jl_now l" "jl_write_ok l"
  shows "\<exists>d1 d2 d3. reconcile_metadata parse_float l (Metadata d0) d0 = (Metadata d1, d1) \<and>
    durable_status d1 = jlit ''interrupted'' \<and>
    update_job_metadata True (register_updates pid identity now) (Metadata d1) = (Metadata d2, Inr d2) \<and>
    update_job_metadata True (running_updates pid' pgid identity' now') (Metadata d2) = (Metadata d3, Inr d3) \<and>
    durable_status d3 = jlit ''running''"
proof -
  have gone: "both_gone os d0" for os
    by (simp add: both_gone_def command_state_def supervisor_state_def assms(1) initial_metadata_def metadata_int_def
        process_identity_matches_def)
  have nt: "\<not> is_terminal d0" by (simp add: is_terminal_iff assms(1) initial_metadata_def)
  have late: "\<not> still_starting parse_float (jl_now l) d0"
    using assms(2) by (simp add: still_starting_def assms(1) initial_metadata_def metadata_float_def starting_grace_def)
  define d1 where "d1 = interrupt_if_still_stale (jl_locked_os l) (jl_locked_now l) d0"
  have r: "reconcile_metadata parse_float l (Metadata d0) d0 = (Metadata d1, d1)"
    using gone nt late assms(3)
    by (simp add: reconcile_metadata_def interrupt_stale_record_def mutate_job_metadata_def
        read_job_metadata_unlocked_def write_job_metadata_def d1_def)
  have "map_of d1 ''status'' = Some (jlit ''interrupted'')"
    unfolding d1_def by (rule interrupted_status [OF nt gone])
  then have "durable_status d1 = jlit ''interrupted''" by (simp add: durable_status_def is_terminal_iff)
  moreover have "durable_status (dict_update d2 (running_updates pid' pgid identity' now')) = jlit ''running''" for d2
    using running_not_terminal [of d2 pid' pgid identity' now'] by (simp only: durable_status_def if_False)
  ultimately show ?thesis
    using r
    by (auto simp: update_job_metadata_def mutate_job_metadata_def read_job_metadata_unlocked_def write_job_metadata_def)
qed

definition demo_os :: os_view where
  "demo_os = \<lparr>os_probe = (\<lambda>p. ProbeOk), os_stat = (\<lambda>p. None), os_ps = (\<lambda>p. Some (0, [120])), os_pgid = (\<lambda>p. Some p),
     os_ps_all = Some (0, [55, 32, 55]), os_group_probe = (\<lambda>g. ProbeOk)\<rparr>"

definition demo_look :: job_look where
  "demo_look = \<lparr>jl_os = demo_os, jl_now = 6000, jl_locked_os = demo_os, jl_locked_now = 6000, jl_write_ok = True\<rparr>"

theorem slow_start_revives_interrupted_witness:
  "\<exists>d1. reconcile_metadata (\<lambda>t. None) demo_look (Metadata (initial_metadata [97] [108] [47] None [47] 0))
     (initial_metadata [97] [108] [47] None [47] 0) = (Metadata d1, d1) \<and> durable_status d1 = jlit ''interrupted''"
proof -
  have "0 + 5000 \<le> jl_now demo_look" "jl_write_ok demo_look" by (simp_all add: demo_look_def)
  from slow_start_revives_interrupted [OF refl this] show ?thesis by blast
qed

section \<open>Whom a kill signals\<close>

lemma kill_running_sent:
  assumes "kill_running parse_float w payload job_id name pid d f = (f', sent, reply)" "(g, hard) \<in> set sent"
  shows "\<exists>current. kw_others w f = Metadata current \<and> g = pid \<and> verified_leader (kw_locked w) pid current \<and>
    (hard \<longrightarrow> name = u ''KILL'' \<or>
      process_group_matches_snapshot (kw_survivors w) pid (snapshot_process_group (kw_locked w) (Some pid)))"
proof -
  obtain f1 sent1 step where l: "locked_step w name pid (metadata_int (map_of d ''pgid'')) (kw_others w f) = (f1, sent1, step)"
    by (metis prod_cases3)
  show ?thesis
  proof (cases "sent1 = []")
    case True
    have "\<nexists>d1 members. step = Signalled_group d1 members" using locked_step_group l True by blast
    with assms l True show ?thesis
      by (cases step) (auto simp: kill_running_def Let_def split: prod.splits if_splits)
  next
    case False
    then obtain current where c: "kw_others w f = Metadata current" "verified_leader (kw_locked w) pid current"
      "sent1 = [(pid, name = u ''KILL'')]"
      using locked_step_sent [OF l] by blast
    have "set sent \<subseteq> insert (pid, name = u ''KILL'') {(pid, True)}"
      and "sent \<noteq> sent1 \<Longrightarrow>
        process_group_matches_snapshot (kw_survivors w) pid (snapshot_process_group (kw_locked w) (Some pid))"
      using assms(1) l c(3) locked_step_group [of w name pid _ _ f1 sent1]
      by (cases step; auto simp: kill_running_def Let_def escalate_def
          split: prod.splits if_splits escalation.splits kill_answer.splits)+
    with c assms(2) show ?thesis by (cases "sent = sent1") auto
  qed
qed

text \<open>C13: \<^verbatim>\<open>kill_job\<close> signals nothing but the process group that, at the moment of the signal and under the
  record's lock, the record names: not finished, with a leader whose identity is the recorded one and whose
  group is its own pid. It follows with \<^verbatim>\<open>SIGKILL\<close> after \<^verbatim>\<open>TERM\<close> only if every surviving member of the group
  was a member, with the same identity, when the group was verified.\<close>
theorem kill_signals_only_the_verified_group:
  assumes "kill_job parse_float jp w payload job_id name f = (f', sent, reply)" "(g, hard) \<in> set sent"
  shows "\<exists>f1 d. kw_others w f1 = Metadata d \<and> verified_leader (kw_locked w) g d \<and>
    (hard \<longrightarrow> name = u ''KILL'' \<or>
      (\<forall>(pid, i) \<in> set (snapshot_process_group (kw_survivors w) (Some g)).
         os_pgid (kw_locked w) pid = Some g \<and> i \<noteq> None \<and> i = process_identity (kw_locked w) (Some pid)))"
proof -
  obtain d0 where d0: "load_job jp job_id f = Inr d0" using assms by (cases "load_job jp job_id f") (auto simp: kill_job_def)
  obtain f1 d where r: "reconcile_metadata parse_float (kw_look w) f d0 = (f1, d)" by fastforce
  have "kill_running parse_float w payload job_id name (the (metadata_int (map_of d ''pid''))) d f1 = (f', sent, reply)"
    using assms d0 r
    by (auto simp: kill_job_def Let_def split: if_splits option.splits prod.splits)
  from kill_running_sent [OF this assms(2)] obtain current where c: "kw_others w f1 = Metadata current"
    "verified_leader (kw_locked w) g current"
    "hard \<longrightarrow> name = u ''KILL'' \<or>
      process_group_matches_snapshot (kw_survivors w) g (snapshot_process_group (kw_locked w) (Some g))"
    by auto
  have "os_pgid (kw_locked w) pid = Some g \<and> i \<noteq> None \<and> i = process_identity (kw_locked w) (Some pid)"
    if "process_group_matches_snapshot (kw_survivors w) g (snapshot_process_group (kw_locked w) (Some g))"
      "(pid, i) \<in> set (snapshot_process_group (kw_survivors w) (Some g))" for pid i
    using matching_group_unchanged [OF that] snapshot_sound [of "kw_locked w" "Some g" pid i] by simp
  with c show ?thesis by blast
qed

definition demo_record :: dict where
  "demo_record = [(''job_id'', JStr (job_prefix @ [97])), (''status'', jlit ''running''), (''pid'', JInt 7), (''pgid'', JInt 7),
     (''process_identity'', JStr (u ''ps-lstart:'' @ [120]))]"

definition demo_poll :: wait_poll where
  "demo_poll = \<lparr>wp_others = id, wp_look = demo_look\<rparr>"

definition demo_kill :: kill_world where
  "demo_kill = \<lparr>kw_look = demo_look, kw_check = demo_os, kw_first_polls = [], kw_first_last = demo_poll,
     kw_pgid_error = [], kw_at_pgid = demo_os, kw_recheck = demo_os, kw_others = id, kw_locked = demo_os,
     kw_locked_now = 6000, kw_write_ok = True, kw_io_error = [], kw_killpg = KillDone, kw_after_grace = demo_os,
     kw_survivors = demo_os, kw_second_killpg = KillDone, kw_polls = [], kw_last = demo_poll,
     kw_final_polls = [], kw_final = demo_poll\<rparr>"

definition demo_job_paths :: job_paths where
  "demo_job_paths = \<lparr>jp_registry_symlink = False, jp_dir_symlink = False, jp_is_dir = True, jp_metadata = LstatRegular,
     jp_read_error = []\<rparr>"

lemma demo_identity: "process_identity demo_os (Some 7) = Some (u ''ps-lstart:'' @ [120])"
  by (simp add: process_identity_def process_exists_def linux_process_identity_def ps_process_identity_def demo_os_def
      split_ws_def is_space_def)

lemma demo_matches: "process_identity_matches demo_os (Some 7) (Some (JStr (u ''ps-lstart:'' @ [120]))) = Some True"
  using demo_identity by (simp add: process_identity_matches_def process_exists_def) (simp add: demo_os_def)

lemma demo_snapshot: "snapshot_process_group demo_os (Some 7) = [(7, Some (u ''ps-lstart:'' @ [120]))]"
proof -
  have "group_line demo_os 7 [55, 32, 55] = Some 7"
    by (simp add: group_line_def split_ws_def is_space_def int_of_text_def strip_def rstrip_by_def is_digit_def demo_os_def)
  moreover have "splitlines [55, 32, 55] = [[55, 32, 55]]" by (simp add: splitlines_def is_line_break_def)
  ultimately show ?thesis
    using demo_identity by (simp add: snapshot_process_group_def) (simp add: demo_os_def)
qed

lemma demo_load: "load_job demo_job_paths (job_prefix @ [97]) (Metadata demo_record) = Inr demo_record"
  by (simp add: load_job_def demo_job_paths_def job_prefix_def strip_def rstrip_by_def is_space_def startswith_def
      read_job_metadata_def numeral_3_eq_3 read_job_metadata_unlocked_def demo_record_def)

lemma demo_running: "\<not> is_terminal demo_record"
  by (simp add: is_terminal_iff demo_record_def)

lemma demo_fields:
  "map_of demo_record ''pid'' = Some (JInt 7)" "map_of demo_record ''pgid'' = Some (JInt 7)"
  "map_of demo_record ''process_identity'' = Some (JStr (u ''ps-lstart:'' @ [120]))"
  by (simp_all add: demo_record_def)

lemma demo_job_verified: "verify_locked demo_os 7 (Some 7) demo_record = Verified [(7, Some (u ''ps-lstart:'' @ [120]))]"
  using demo_running demo_matches demo_snapshot demo_fields
  by (simp add: verify_locked_def metadata_int_def Let_def) (simp add: demo_os_def)

lemma demo_kill_sent:
  "fst (snd (kill_job (\<lambda>t. None) demo_job_paths demo_kill (\<lambda>d. []) (job_prefix @ [97]) (u ''KILL'') (Metadata demo_record)))
     = [(7, True)]"
proof -
  have r: "reconcile_metadata (\<lambda>t. None) (kw_look demo_kill) (Metadata demo_record) demo_record = (Metadata demo_record, demo_record)"
    using demo_running demo_matches demo_fields
    by (simp add: reconcile_metadata_def both_gone_def command_state_def metadata_int_def demo_kill_def demo_look_def)
  have l: "\<exists>f d1. locked_step demo_kill (u ''KILL'') 7 (Some 7) (Metadata demo_record) = (f, [(7, True)], Signalled_group d1 m)"
    if "m = [(7, Some (u ''ps-lstart:'' @ [120]))]" for m
    using demo_job_verified that
    by (simp add: locked_step_def read_job_metadata_unlocked_def) (simp add: demo_kill_def write_job_metadata_def)
  have "fst (snd (kill_running (\<lambda>t. None) demo_kill (\<lambda>d. []) (job_prefix @ [97]) (u ''KILL'') 7 demo_record (Metadata demo_record)))
      = [(7, True)]"
  proof -
    obtain f d1 m where "locked_step demo_kill (u ''KILL'') 7 (Some 7) (Metadata demo_record) = (f, [(7, True)], Signalled_group d1 m)"
      using l by blast
    then show ?thesis
      by (simp add: kill_running_def demo_fields metadata_int_def escalate_def case_prod_beta Let_def)
         (simp add: demo_kill_def)
  qed
  then show ?thesis
    using r demo_load demo_running demo_matches demo_fields
    by (simp add: kill_job_def metadata_int_def Let_def) (simp add: demo_kill_def demo_os_def)
qed

theorem kill_signals_only_the_verified_group_witness:
  "\<exists>f' reply. kill_job (\<lambda>t. None) demo_job_paths demo_kill (\<lambda>d. []) (job_prefix @ [97]) (u ''KILL'') (Metadata demo_record)
     = (f', [(7, True)], reply) \<and> (\<exists>f1 d. kw_others demo_kill f1 = Metadata d \<and> verified_leader demo_os 7 d)"
proof -
  obtain f' reply where k: "kill_job (\<lambda>t. None) demo_job_paths demo_kill (\<lambda>d. []) (job_prefix @ [97]) (u ''KILL'')
      (Metadata demo_record) = (f', [(7, True)], reply)"
    using demo_kill_sent by (metis prod.collapse)
  have "(7, True) \<in> set [(7 :: int, True)]" by simp
  from kill_signals_only_the_verified_group [OF k this]
  have "\<exists>f1 d. kw_others demo_kill f1 = Metadata d \<and> verified_leader demo_os 7 d"
    by (auto simp: demo_kill_def)
  with k show ?thesis by blast
qed

section \<open>The listing\<close>





section \<open>The environment of a job\<close>

lemma updated_keys:
  "map_of (fold (\<lambda>(k, v). AList.update k v) kvs env) k =
     (case map_of (rev kvs) k of Some v \<Rightarrow> Some v | None \<Rightarrow> map_of env k)"
  by (induction kvs arbitrary: env) (auto simp: update_conv map_add_def split: option.splits)

lemma env_problem_None:
  "env_problem kvs = None \<longleftrightarrow> (\<forall>(k, v) \<in> set kvs. k \<noteq> [] \<and> 0 \<notin> set k \<and> 61 \<notin> set k \<and> 0 \<notin> set v)"
  by (induction kvs rule: env_problem.induct) auto

text \<open>The environment a job's command gets never holds a secret of the server, neither inherited nor passed
  by the caller; every other variable is the caller's when the call names it and inherited otherwise, and names
  and values that the operating system would misread are refused before anything starts.\<close>
theorem child_env_has_no_secrets:
  assumes "merged_job_env environ (Some overrides) = Inr child"
  shows "(\<forall>k \<in> set control_plane_secret_env_keys. map_of child k = None) \<and>
    (\<forall>k. k \<notin> set control_plane_secret_env_keys \<longrightarrow>
       map_of child k = (case map_of (rev overrides) k of Some v \<Rightarrow> Some v | None \<Rightarrow> map_of environ k)) \<and>
    (\<forall>(k, v) \<in> set overrides. k \<noteq> [] \<and> 0 \<notin> set k \<and> 61 \<notin> set k \<and> 0 \<notin> set v)"
proof -
  have "env_problem overrides = None" and c: "child = sanitized_child_env environ overrides"
    using assms by (auto simp: merged_job_env_def Let_def split: option.splits)
  then show ?thesis by (simp add: env_problem_None sanitized_child_env_def deleted_keys updated_keys)
qed

theorem child_env_has_no_secrets_witness:
  "map_of (sanitized_child_env [(u ''CHATGPT_MCP_AUTH_TOKEN'', [1]), ([80], [2])] [([80], [3])]) (u ''CHATGPT_MCP_AUTH_TOKEN'') = None
   \<and> map_of (sanitized_child_env [(u ''CHATGPT_MCP_AUTH_TOKEN'', [1]), ([80], [2])] [([80], [3])]) [80] = Some [3]"
proof -
  let ?env = "[(u ''CHATGPT_MCP_AUTH_TOKEN'', [1]), ([80], [2])]"
  have "merged_job_env ?env (Some [([80], [3])]) = Inr (sanitized_child_env ?env [([80], [3])])"
    by (simp add: merged_job_env_def)
  from child_env_has_no_secrets [OF this] show ?thesis by (simp add: control_plane_secret_env_keys_def)
qed

end
