(* ===== verification/Glob.thy ===== *)
theory Glob
  imports Prelude
begin

text \<open>
  Shell patterns as Python's \<^verbatim>\<open>fnmatch\<close> reads them, on which the file tools filter names: \<^verbatim>\<open>*\<close>, \<^verbatim>\<open>?\<close>,
  \<^verbatim>\<open>[seq]\<close> and \<^verbatim>\<open>[!seq]\<close>, on a platform whose names are case sensitive.
\<close>

datatype glob_item = AnyText | AnyChar | Exactly nat | OneOf bool "(nat \<times> nat) list"

text \<open>The ranges of a set: a hyphen between two characters, every other character alone.\<close>

fun glob_ranges :: "ustr \<Rightarrow> (nat \<times> nat) list" where
  "glob_ranges [] = []"
| "glob_ranges [a] = [(a, a)]"
| "glob_ranges [a, b] = [(a, a), (b, b)]"
| "glob_ranges (a # b # c # cs) =
     (if b = 45 then (a, c) # glob_ranges cs else (a, a) # glob_ranges (b # c # cs))"

text \<open>
  The text of a set up to its closing bracket, and what follows: an exclamation mark and a closing
  bracket at the beginning belong to it.
\<close>

definition glob_set :: "ustr \<Rightarrow> (bool \<times> ustr \<times> ustr) option" where
  "glob_set s =
     (let negated = startswith s [33];
          rest = (if negated then drop 1 s else s);
          first = take 1 (takeWhile (\<lambda>c. c = 93) rest);
          body = takeWhile (\<lambda>c. c \<noteq> 93) (drop (length first) rest);
          tail = drop (length first + length body) rest in
      if tail = [] then None else Some (negated, first @ body, drop 1 tail))"

lemma glob_set_shorter: "glob_set s = Some (n, body, rest) \<Longrightarrow> length rest < length s"
  by (auto simp: glob_set_def Let_def startswith_def split: if_splits)

function glob_parse :: "ustr \<Rightarrow> glob_item list" where
  "glob_parse [] = []"
| "glob_parse (c # cs) =
     (if c = 42 then AnyText # glob_parse cs
      else if c = 63 then AnyChar # glob_parse cs
      else if c = 91 then
        (case glob_set cs of
           None \<Rightarrow> Exactly 91 # glob_parse cs
         | Some (negated, body, rest) \<Rightarrow> OneOf (\<not> negated) (glob_ranges body) # glob_parse rest)
      else Exactly c # glob_parse cs)"
  by pat_completeness auto
termination
  by (relation "measure length") (auto dest: glob_set_shorter)

definition in_ranges :: "nat \<Rightarrow> (nat \<times> nat) list \<Rightarrow> bool" where
  "in_ranges c rs = list_ex (\<lambda>(a, b). a \<le> c \<and> c \<le> b) rs"

definition item_accepts :: "glob_item \<Rightarrow> nat \<Rightarrow> bool" where
  "item_accepts i c =
     (case i of AnyText \<Rightarrow> True | AnyChar \<Rightarrow> True | Exactly d \<Rightarrow> c = d | OneOf b rs \<Rightarrow> in_ranges c rs = b)"

fun glob_matches_items :: "glob_item list \<Rightarrow> ustr \<Rightarrow> bool" where
  "glob_matches_items [] s = (s = [])"
| "glob_matches_items (AnyText # is) [] = glob_matches_items is []"
| "glob_matches_items (AnyText # is) (c # cs) =
     (glob_matches_items is (c # cs) \<or> glob_matches_items (AnyText # is) cs)"
| "glob_matches_items (i # is) [] = False"
| "glob_matches_items (i # is) (c # cs) = (item_accepts i c \<and> glob_matches_items is cs)"

definition fnmatch :: "ustr \<Rightarrow> ustr \<Rightarrow> bool" where
  "fnmatch name pattern = glob_matches_items (glob_parse pattern) name"

text \<open>A star stands for any text.\<close>

lemma any_text_matches:
  "glob_matches_items (AnyText # is) s \<longleftrightarrow> (\<exists>a b. s = a @ b \<and> glob_matches_items is b)"
proof (induction s)
  case (Cons c s)
  show ?case
  proof
    assume "glob_matches_items (AnyText # is) (c # s)"
    then consider "glob_matches_items is (c # s)" | "glob_matches_items (AnyText # is) s" by auto
    then show "\<exists>a b. c # s = a @ b \<and> glob_matches_items is b"
    proof cases
      case 1
      then show ?thesis by (metis append_Nil)
    next
      case 2
      with Cons.IH show ?thesis by (metis append_Cons)
    qed
  next
    assume "\<exists>a b. c # s = a @ b \<and> glob_matches_items is b"
    then obtain a b where ab: "c # s = a @ b" "glob_matches_items is b" by blast
    then show "glob_matches_items (AnyText # is) (c # s)"
      using Cons.IH by (cases a) auto
  qed
qed simp

lemma fnmatch_star: "fnmatch name [42]"
  using any_text_matches [of "[]" name] by (simp add: fnmatch_def)

end
