(* ===== verification/Paging.thy ===== *)
theory Paging
  imports Prelude
begin

text \<open>
  Clients that follow \<^verbatim>\<open>next_offset\<close>. A paging tool is seen through the items one call returns at a
  given offset; the locale says that these are the next items of one list, and its lemmas what a client
  gets that asks again at the offset it is told.
\<close>

fun follow_pages :: "(nat \<Rightarrow> 'a list) \<Rightarrow> nat \<Rightarrow> nat \<Rightarrow> nat \<Rightarrow> 'a list" where
  "follow_pages page whole 0 start = []"
| "follow_pages page whole (Suc n) start =
     page start @
     (if start + length (page start) < whole
      then follow_pages page whole n (start + length (page start)) else [])"

locale paged =
  fixes items :: "'a list" and page :: "nat \<Rightarrow> 'a list"
  assumes page_at: "page start = take (length (page start)) (drop start items)"
begin

lemma page_within: "start < length items \<Longrightarrow> start + length (page start) \<le> length items"
proof -
  assume "start < length items"
  moreover have "length (page start) \<le> length (drop start items)"
    by (metis page_at length_take min.cobounded1)
  ultimately show ?thesis by simp
qed

lemma page_beyond: "length items \<le> start \<Longrightarrow> page start = []"
  using page_at [of start] by simp

lemma page_split: "page start @ drop (start + length (page start)) items = drop start items"
proof -
  have "page start @ drop (length (page start)) (drop start items) = drop start items"
    by (metis page_at append_take_drop_id)
  then show ?thesis by (simp add: add.commute)
qed

text \<open>When every page before the end moves on, the client gets all items, each once and in order.\<close>

lemma follow_all:
  assumes moves: "\<And>start. start < length items \<Longrightarrow> page start \<noteq> []"
    and "length items \<le> n + start"
  shows "follow_pages page (length items) n start = drop start items"
  using assms(2)
proof (induction n arbitrary: start)
  case (Suc n)
  let ?next = "start + length (page start)"
  show ?case
  proof (cases "start < length items")
    case True
    with moves have "0 < length (page start)" by simp
    with Suc.prems have "length items \<le> n + ?next" by linarith
    with Suc.IH have "follow_pages page (length items) n ?next = drop ?next items" .
    then show ?thesis
      using page_split [of start] page_within [OF True] by (cases "?next < length items") simp_all
  next
    case False
    then show ?thesis using page_beyond [of start] by simp
  qed
qed simp

text \<open>A page that is empty before the end: the client is sent to the same offset for ever.\<close>

lemma follow_stuck:
  "start < length items \<Longrightarrow> page start = [] \<Longrightarrow> follow_pages page (length items) n start = []"
  by (induction n) simp_all

end

text \<open>The greedy page of at most \<open>limit\<close> items (0 is no limit); whether a page fits depends on its offset.\<close>

definition limited :: "nat \<Rightarrow> 'a list \<Rightarrow> 'a list" where
  "limited limit xs = (if limit = 0 then xs else take limit xs)"

definition greedy_page :: "(nat \<Rightarrow> 'a list \<Rightarrow> bool) \<Rightarrow> nat \<Rightarrow> 'a list \<Rightarrow> nat \<Rightarrow> 'a list" where
  "greedy_page fits limit items start = greedy (fits start) [] (limited limit (drop start items))"

lemma limited_prefix: "limited limit xs = take (length (limited limit xs)) xs"
  by (cases "length xs \<le> limit") (simp_all add: limited_def min_def)

lemma greedy_page_at:
  "greedy_page fits limit items start = take (length (greedy_page fits limit items start)) (drop start items)"
proof -
  define xs where "xs = limited limit (drop start items)"
  define ys where "ys = greedy (fits start) [] xs"
  have "ys = take (length ys) xs" unfolding ys_def by (rule greedy_prefix)
  moreover have "xs = take (length xs) (drop start items)" unfolding xs_def by (rule limited_prefix)
  ultimately have "ys = take (length ys) (take (length xs) (drop start items))" by simp
  moreover have "length ys \<le> length xs" unfolding ys_def by (rule greedy_pager.page_length)
  ultimately have "ys = take (length ys) (drop start items)" by (simp add: min_def)
  then show ?thesis by (simp only: greedy_page_def ys_def xs_def)
qed

interpretation greedy_pages: paged items "greedy_page fits limit items" for items :: "'a list" and fits limit
  by unfold_locales (rule greedy_page_at)

lemma greedy_page_moves:
  assumes "start < length items" "fits start [items ! start]"
  shows "greedy_page fits limit items start \<noteq> []"
proof -
  have "drop start items = items ! start # drop (Suc start) items" using assms(1) by (simp add: Cons_nth_drop_Suc)
  then obtain xs where "limited limit (drop start items) = items ! start # xs"
    by (cases limit) (simp_all add: limited_def)
  with assms(2) show ?thesis
    unfolding greedy_page_def by (metis greedy_pager.page_progress list.discI list.sel(1))
qed

lemma greedy_page_stuck:
  assumes "start < length items" "\<not> fits start [items ! start]"
  shows "greedy_page fits limit items start = []"
proof -
  have "drop start items = items ! start # drop (Suc start) items" using assms(1) by (simp add: Cons_nth_drop_Suc)
  with assms(2) show ?thesis by (cases limit) (simp_all add: greedy_page_def limited_def)
qed

end
