(* ===== verification/FileList.thy ===== *)
theory FileList
  imports Fs Budget Glob Paging "HOL-Library.List_Lexorder" "HOL-Library.Product_Lexorder"
begin

text \<open>
  Listing a directory (\<^verbatim>\<open>files.py\<close>: \<^verbatim>\<open>_find_git_root\<close>, \<^verbatim>\<open>_git_tracked_allowed_paths\<close>, \<^verbatim>\<open>_iter_filtered\<close>,
  \<^verbatim>\<open>list_files\<close>). What \<^verbatim>\<open>os.walk\<close> and \<^verbatim>\<open>stat\<close> see is a tree, in which a symbolic link to a directory is a
  directory without entries, since it is not followed. What the \<^verbatim>\<open>git\<close> command prints and how a path
  resolves are arguments. Modification times are numbers whose text the JSON encoder writes.
\<close>

section \<open>The git work tree\<close>

fun git_root_from :: "(path \<Rightarrow> bool) \<Rightarrow> ustr list \<Rightarrow> path option" where
  "git_root_from ex [] = (if ex [u ''.git''] then Some [] else None)"
| "git_root_from ex (c # cs) =
     (if ex (rev (c # cs) @ [u ''.git'']) then Some (rev (c # cs)) else git_root_from ex cs)"

definition find_git_root :: "(path \<Rightarrow> bool) \<Rightarrow> bool \<Rightarrow> path \<Rightarrow> path option" where
  "find_git_root ex dir start = git_root_from ex (rev (if dir then start else butlast start))"

definition parents :: "path \<Rightarrow> path list" where
  "parents p = map (\<lambda>k. take k p) (rev [0..<length p])"

definition parents_until :: "path \<Rightarrow> path \<Rightarrow> path list" where
  "parents_until root p =
     takeWhile (\<lambda>q. q \<noteq> root) (parents p) @ (if root \<in> set (parents p) then [root] else [])"

text \<open>The exit code and the output of \<^verbatim>\<open>git ls-files\<close>, if the command ran.\<close>

definition git_tracked_allowed_paths :: "(path \<Rightarrow> path) \<Rightarrow> path \<Rightarrow> (int \<times> ustr) option \<Rightarrow> path list option" where
  "git_tracked_allowed_paths resolve repo_root completed =
     (case completed of
        None \<Rightarrow> None
      | Some (returncode, out) \<Rightarrow>
          if returncode \<noteq> 0 then None
          else
            let root = resolve repo_root in
            Some (concat (map (\<lambda>line.
              if line = [] then []
              else let full = resolve (root @ path_parts line) in full # parents_until root full) (splitlines out))))"

section \<open>Walking\<close>

datatype tree = FileEntry "(nat \<times> int) option" | DirEntry "(nat \<times> int) option" "(ustr \<times> tree) list"

fun is_directory :: "tree \<Rightarrow> bool" where
  "is_directory (FileEntry s) = False"
| "is_directory (DirEntry s es) = True"

fun children :: "tree \<Rightarrow> (ustr \<times> tree) list" where
  "children (FileEntry s) = []"
| "children (DirEntry s es) = es"

fun tree_stat :: "tree \<Rightarrow> (nat \<times> int) option" where
  "tree_stat (FileEntry s) = s"
| "tree_stat (DirEntry s es) = s"

definition default_exclude_dir_names :: "ustr list" where
  "default_exclude_dir_names = map u
     [''.git'', ''.hg'', ''.svn'', ''.venv'', ''venv'', ''env'', ''node_modules'', ''__pycache__'', ''.pytest_cache'',
      ''.mypy_cache'', ''.ruff_cache'', ''.tox'', ''.cache'', ''dist'', ''build'', ''target'', ''.next'', ''.nuxt'',
      ''.idea'', ''.vscode'', ''.gradle'', ''.terraform'', ''.DS_Store'']"

text \<open>\<open>wr_allowed\<close> is \<^verbatim>\<open>entry_allowed\<close> on the path below the root of the walk.\<close>

record walk_rules =
  wr_hidden :: bool
  wr_excluded :: "ustr list"
  wr_patterns :: "ustr list"
  wr_allowed :: "path \<Rightarrow> bool"

definition entry_allowed :: "(path \<Rightarrow> path) \<Rightarrow> (path \<Rightarrow> bool) \<Rightarrow> path list option \<Rightarrow> path \<Rightarrow> bool" where
  "entry_allowed resolve resolvable allowed p =
     (case allowed of None \<Rightarrow> True | Some ps \<Rightarrow> resolvable p \<and> resolve p \<in> set ps)"

definition matches_exclude_pattern :: "ustr list \<Rightarrow> path \<Rightarrow> ustr \<Rightarrow> bool" where
  "matches_exclude_pattern patterns rel name =
     list_ex (\<lambda>pat. fnmatch name pat \<or> fnmatch (join [47] (rel @ [name])) pat) patterns"

definition keep_file :: "walk_rules \<Rightarrow> path \<Rightarrow> ustr \<Rightarrow> bool" where
  "keep_file r rel name \<longleftrightarrow>
     (wr_hidden r \<or> \<not> startswith name [46]) \<and>
     \<not> matches_exclude_pattern (wr_patterns r) rel name \<and> wr_allowed r (rel @ [name])"

definition keep_dir :: "walk_rules \<Rightarrow> path \<Rightarrow> ustr \<Rightarrow> bool" where
  "keep_dir r rel name \<longleftrightarrow> keep_file r rel name \<and> name \<notin> set (wr_excluded r)"

definition keep_entry :: "walk_rules \<Rightarrow> path \<Rightarrow> ustr \<Rightarrow> bool \<Rightarrow> bool" where
  "keep_entry r rel name dir = (if dir then keep_dir r rel name else keep_file r rel name)"

lemma child_smaller:
  "(n, t) \<in> set es \<Longrightarrow> size_list (size_prod (\<lambda>x. 0) size) (children t) < size_list (size_prod (\<lambda>x. 0) size) es"
proof (induction es)
  case (Cons e es)
  show ?case
  proof (cases "(n, t) = e")
    case True
    then show ?thesis by (cases t) auto
  qed (use Cons in auto)
qed simp

function walk :: "walk_rules \<Rightarrow> path \<Rightarrow> (ustr \<times> tree) list \<Rightarrow> (path \<times> tree) list" where
  "walk r rel entries =
     (let dirs = sort_key fst (filter (\<lambda>(n, t). is_directory t \<and> keep_dir r rel n) entries);
          files = sort_key fst (filter (\<lambda>(n, t). \<not> is_directory t \<and> keep_file r rel n) entries) in
      map (\<lambda>(n, t). (rel @ [n], t)) dirs @ map (\<lambda>(n, t). (rel @ [n], t)) files @
      concat (map (\<lambda>(n, t). walk r (rel @ [n]) (children t)) dirs))"
  by auto
termination
  by (relation "measure (\<lambda>(r, rel, es). size_list (size_prod (\<lambda>x. 0) size) es)") (auto intro: child_smaller)

declare walk.simps [simp del]

definition iter_filtered :: "walk_rules \<Rightarrow> bool \<Rightarrow> (ustr \<times> tree) list \<Rightarrow> (path \<times> tree) list" where
  "iter_filtered r recursive entries =
     (if recursive then walk r [] entries
      else map (\<lambda>(n, t). ([n], t)) (filter (\<lambda>(n, t). keep_entry r [] n (is_directory t)) (sort_key fst entries)))"

section \<open>list_files\<close>

record file_entry =
  fe_path :: path
  fe_dir :: bool
  fe_size :: "nat option"
  fe_mtime :: "int option"

definition file_entry_of :: "path \<Rightarrow> path \<times> tree \<Rightarrow> file_entry" where
  "file_entry_of base e =
     (case e of (rel, t) \<Rightarrow>
        \<lparr>fe_path = base @ rel, fe_dir = is_directory t,
         fe_size = (if is_directory t then None else map_option fst (tree_stat t)),
         fe_mtime = map_option snd (tree_stat t)\<rparr>)"

text \<open>Newest first and unknown times last; largest first and directories last.\<close>

definition modified_key :: "file_entry \<Rightarrow> nat \<times> int \<times> ustr" where
  "modified_key e =
     (case fe_mtime e of Some t \<Rightarrow> (0, - t, path_text (fe_path e)) | None \<Rightarrow> (1, 0, path_text (fe_path e)))"

definition size_key :: "file_entry \<Rightarrow> int \<times> ustr" where
  "size_key e = (case fe_size e of Some n \<Rightarrow> - int n | None \<Rightarrow> 1, path_text (fe_path e))"

definition sort_entries :: "string \<Rightarrow> file_entry list \<Rightarrow> file_entry list" where
  "sort_entries order es =
     (if order = ''modified'' then sort_key modified_key es
      else if order = ''size'' then sort_key size_key es
      else sort_key (\<lambda>e. path_text (fe_path e)) es)"

record list_world =
  lw_exists :: bool
  lw_is_dir :: bool
  lw_entries :: "(ustr \<times> tree) list"
  lw_path_exists :: "path \<Rightarrow> bool"
  lw_resolve :: "path \<Rightarrow> path"
  lw_resolvable :: "path \<Rightarrow> bool"
  lw_git :: "path \<Rightarrow> (int \<times> ustr) option"
  lw_float :: "int \<Rightarrow> json"

record list_options =
  lo_recursive :: bool
  lo_limit :: int
  lo_offset :: int
  lo_hidden :: bool
  lo_gitignore :: bool
  lo_patterns :: "ustr list"
  lo_sort :: string
  lo_files_only :: bool
  lo_dirs_only :: bool
  lo_filter :: string

definition list_options_error :: "list_options \<Rightarrow> dict option" where
  "list_options_error opts =
     (if lo_limit opts < 0 \<or> lo_offset opts < 0
        then Some (tool_error ''invalid_arguments'' (u ''limit and offset must be non-negative integers.'') [])
      else if lo_sort opts \<notin> {''path'', ''modified'', ''size''}
        then Some (tool_error ''invalid_sort'' (u ''sort must be one of: path, modified, size.'') [])
      else if lo_filter opts \<notin> {''project'', ''all''}
        then Some (tool_error ''invalid_filter'' (u ''filter must be one of: project, all.'') [])
      else if lo_files_only opts \<and> lo_dirs_only opts
        then Some (tool_error ''invalid_arguments'' (u ''files_only and dirs_only cannot both be true.'') [])
      else None)"

definition show_all :: "list_options \<Rightarrow> bool" where
  "show_all opts \<longleftrightarrow> lo_filter opts = ''all''"

definition list_allowed :: "list_world \<Rightarrow> list_options \<Rightarrow> path \<Rightarrow> path list option" where
  "list_allowed w opts p =
     (if \<not> lo_gitignore opts \<or> show_all opts then None
      else case find_git_root (lw_path_exists w) (lw_is_dir w) p of
          None \<Rightarrow> None
        | Some root \<Rightarrow> git_tracked_allowed_paths (lw_resolve w) root (lw_git w root))"

definition list_rules :: "list_world \<Rightarrow> list_options \<Rightarrow> path \<Rightarrow> walk_rules" where
  "list_rules w opts p =
     \<lparr>wr_hidden = (lo_hidden opts \<or> show_all opts),
      wr_excluded = (if show_all opts then [] else default_exclude_dir_names),
      wr_patterns = lo_patterns opts,
      wr_allowed = (\<lambda>rel. entry_allowed (lw_resolve w) (lw_resolvable w) (list_allowed w opts p) (p @ rel))\<rparr>"

definition wanted_kind :: "list_options \<Rightarrow> tree \<Rightarrow> bool" where
  "wanted_kind opts t \<longleftrightarrow> (lo_files_only opts \<longrightarrow> \<not> is_directory t) \<and> (lo_dirs_only opts \<longrightarrow> is_directory t)"

definition list_records :: "list_world \<Rightarrow> list_options \<Rightarrow> path \<Rightarrow> file_entry list" where
  "list_records w opts p =
     sort_entries (lo_sort opts) (map (file_entry_of p)
       (filter (\<lambda>(rel, t). wanted_kind opts t)
         (iter_filtered (list_rules w opts p) (lo_recursive opts) (lw_entries w))))"

definition entry_payload :: "(int \<Rightarrow> json) \<Rightarrow> file_entry \<Rightarrow> json" where
  "entry_payload show_time e =
     JObj [(''name'', JStr (if fe_path e = [] then [] else last (fe_path e))), (''path'', JStr (path_text (fe_path e))),
           (''is_dir'', JBool (fe_dir e)), (''size'', jopt jnat (fe_size e)), (''mtime'', jopt show_time (fe_mtime e))]"

definition list_base_payload :: "list_world \<Rightarrow> list_options \<Rightarrow> path \<Rightarrow> dict" where
  "list_base_payload w opts p =
     [(''success'', JBool True), (''base_path'', JStr (path_text p)), (''entries'', JList []), (''next_offset'', JNull),
      (''sort'', jlit (lo_sort opts)),
      (''filters'', JObj
        [(''filter'', jlit (lo_filter opts)), (''files_only'', JBool (lo_files_only opts)),
         (''dirs_only'', JBool (lo_dirs_only opts)), (''include_hidden'', JBool (lo_hidden opts \<or> show_all opts)),
         (''respect_gitignore'', JBool (lo_gitignore opts \<and> \<not> show_all opts)),
         (''gitignore_applied'', JBool (list_allowed w opts p \<noteq> None)),
         (''exclude_patterns'', JList (map JStr (lo_patterns opts)))])]"

definition entries_fit :: "(ustr \<Rightarrow> nat) \<Rightarrow> response_budget \<Rightarrow> dict \<Rightarrow> nat \<Rightarrow> json list \<Rightarrow> bool" where
  "entries_fit tok b base start es =
     attached_fits tok b
       (dict_update base [(''entries'', JList es), (''next_offset'', jnat (start + length es))]) ''token_budget''"

definition listing_page :: "(ustr \<Rightarrow> nat) \<Rightarrow> response_budget \<Rightarrow> list_world \<Rightarrow> list_options \<Rightarrow> path \<Rightarrow> nat \<Rightarrow> json list" where
  "listing_page tok b w opts p =
     greedy_page (entries_fit tok b (list_base_payload w opts p)) (nat (lo_limit opts))
       (map (entry_payload (lw_float w)) (list_records w opts p))"

definition list_files :: "(ustr \<Rightarrow> nat) \<Rightarrow> response_budget \<Rightarrow> list_world \<Rightarrow> list_options \<Rightarrow> path \<Rightarrow> dict" where
  "list_files tok b w opts p =
     (if \<not> lw_exists w
        then tool_error ''path_not_found'' (u ''Path not found: '' @ path_text p) [(''resolved_path'', JStr (path_text p))]
      else if \<not> lw_is_dir w
        then tool_error ''not_a_directory'' (u ''Path is not a directory: '' @ path_text p)
          [(''resolved_path'', JStr (path_text p))]
      else case list_options_error opts of
          Some e \<Rightarrow> e
        | None \<Rightarrow>
            let start = nat (lo_offset opts); limit = nat (lo_limit opts); entries = listing_page tok b w opts p start;
                truncated = start + length entries < length (list_records w opts p) in
            fst (with_budget_metadata tok
              (dict_update (list_base_payload w opts p)
                [(''entries'', JList entries),
                 (''next_offset'', if truncated then jnat (start + length entries) else JNull)]) b truncated
              (if \<not> truncated then ''end_of_results''
               else if limit = 0 \<or> length entries < limit then ''token_budget'' else ''limit'')))"

section \<open>What is listed\<close>

fun entry_at :: "(ustr \<times> tree) list \<Rightarrow> path \<Rightarrow> tree \<Rightarrow> bool" where
  "entry_at es [] t = False"
| "entry_at es [n] t = ((n, t) \<in> set es)"
| "entry_at es (n # m # p) t = list_ex (\<lambda>(k, d). k = n \<and> entry_at (children d) (m # p) t) es"

fun kept_path :: "walk_rules \<Rightarrow> path \<Rightarrow> path \<Rightarrow> bool \<Rightarrow> bool" where
  "kept_path r rel [] dir = True"
| "kept_path r rel [n] dir = keep_entry r rel n dir"
| "kept_path r rel (n # m # p) dir = (keep_dir r rel n \<and> kept_path r (rel @ [n]) (m # p) dir)"

lemma entry_below_directory: "entry_at (children d) (m # p) t \<Longrightarrow> is_directory d"
  by (cases d; cases p) auto

lemma walk_mem:
  "(q, t) \<in> set (walk r rel es) \<longleftrightarrow>
     (\<exists>n d. (n, d) \<in> set es \<and> keep_entry r rel n (is_directory d) \<and> (q, t) = (rel @ [n], d)) \<or>
     (\<exists>n d. (n, d) \<in> set es \<and> is_directory d \<and> keep_dir r rel n \<and> (q, t) \<in> set (walk r (rel @ [n]) (children d)))"
  by (subst walk.simps) (force simp: Let_def keep_entry_def)

lemma walk_complete:
  "entry_at es p t \<Longrightarrow> kept_path r rel p (is_directory t) \<Longrightarrow> (rel @ p, t) \<in> set (walk r rel es)"
proof (induction p arbitrary: rel es)
  case (Cons n p)
  show ?case
  proof (cases p)
    case Nil
    with Cons.prems show ?thesis by (subst walk_mem) auto
  next
    case (Cons m p')
    with Cons.prems obtain d where "(n, d) \<in> set es" "entry_at (children d) p t" "keep_dir r rel n"
      "kept_path r (rel @ [n]) p (is_directory t)"
      by (auto simp: list_ex_iff)
    moreover from this have "is_directory d" using Cons entry_below_directory by blast
    ultimately show ?thesis
      using Cons.IH [of "children d" "rel @ [n]"] by (subst walk_mem) auto
  qed
qed simp

lemma entry_at_Cons:
  "entry_at es (n # p) t \<longleftrightarrow>
     (if p = [] then (n, t) \<in> set es else \<exists>d. (n, d) \<in> set es \<and> entry_at (children d) p t)"
  by (cases p) (auto simp: list_ex_iff)

lemma kept_path_Cons:
  "kept_path r rel (n # p) dir \<longleftrightarrow>
     (if p = [] then keep_entry r rel n dir else keep_dir r rel n \<and> kept_path r (rel @ [n]) p dir)"
  by (cases p) simp_all

lemma walk_sound:
  "(q, t) \<in> set (walk r rel es) \<Longrightarrow>
     \<exists>p. q = rel @ p \<and> p \<noteq> [] \<and> entry_at es p t \<and> kept_path r rel p (is_directory t)"
proof (induction r rel es arbitrary: q t rule: walk.induct)
  case (1 r rel es)
  from "1.prems" consider
    (here) n where "(n, t) \<in> set es" "keep_entry r rel n (is_directory t)" "q = rel @ [n]"
  | (below) n d where "(n, d) \<in> set es" "is_directory d" "keep_dir r rel n" "(q, t) \<in> set (walk r (rel @ [n]) (children d))"
    by (subst (asm) walk_mem) auto
  then show ?case
  proof cases
    case here
    then show ?thesis by (intro exI [of _ "[n]"]) simp
  next
    case below
    then have "(n, d) \<in> set (sort_key fst (filter (\<lambda>(n, t). is_directory t \<and> keep_dir r rel n) es))" by simp
    from "1.IH" [OF refl refl this refl below(4)] obtain p where
      "q = (rel @ [n]) @ p" "p \<noteq> []" "entry_at (children d) p t" "kept_path r (rel @ [n]) p (is_directory t)"
      by blast
    with below show ?thesis
      by (intro exI [of _ "n # p"]) (auto simp: entry_at_Cons kept_path_Cons)
  qed
qed

end
