(* ===== verification/FileRead.thy ===== *)
theory FileRead
  imports FileList ContentIo PatchApply
begin

text \<open>
  Reading text files by pages of lines, one file or several under one budget, writing a file, and replacing
  one text in it (\<^verbatim>\<open>files.py\<close>). The tree is that of \<open>Fs\<close>; \<^verbatim>\<open>mimetypes\<close> is an argument, and so is
  \<^verbatim>\<open>difflib\<close>, as in \<open>PatchApply\<close>.
\<close>

section \<open>Text\<close>

definition binary_message :: ustr where
  "binary_message = u ''Binary files are not supported.''"

definition read_text :: "bytes \<Rightarrow> ustr option" where
  "read_text raw = (if 0 \<in> set (take 1024 raw) then None else Some (utf8_decode_replace raw))"

definition render_line :: "bool \<Rightarrow> nat \<Rightarrow> ustr \<Rightarrow> ustr" where
  "render_line numbered n line = (if numbered then nat_repr n @ u '': '' @ line else line)"

fun render_lines :: "bool \<Rightarrow> nat \<Rightarrow> ustr list \<Rightarrow> ustr list" where
  "render_lines numbered start [] = []"
| "render_lines numbered start (l # ls) = render_line numbered start l # render_lines numbered (Suc start) ls"

section \<open>One file\<close>

record read_page =
  rp_lines :: "ustr list"
  rp_measurement :: budget_measurement
  rp_stop :: "string option"
  rp_oversized :: bool

fun page_lines :: "(ustr \<Rightarrow> nat) \<Rightarrow> response_budget \<Rightarrow> ustr list \<Rightarrow> budget_measurement \<Rightarrow> ustr list \<Rightarrow> read_page" where
  "page_lines tok b acc m [] = \<lparr>rp_lines = acc, rp_measurement = m, rp_stop = None, rp_oversized = False\<rparr>"
| "page_lines tok b acc m (l # ls) =
     (let m' = measure_text tok b (join [10] (acc @ [l])) in
      if fits m' then page_lines tok b (acc @ [l]) m' ls
      else if acc = []
        then \<lparr>rp_lines = [l], rp_measurement = m', rp_stop = measurement_stop_reason m', rp_oversized = True\<rparr>
      else \<lparr>rp_lines = acc, rp_measurement = m, rp_stop = measurement_stop_reason m', rp_oversized = False\<rparr>)"

text \<open>The rendered lines from the line with number \<open>start\<close> on, at most \<open>limit\<close> of them.\<close>

definition file_page ::
  "(ustr \<Rightarrow> nat) \<Rightarrow> response_budget \<Rightarrow> bool \<Rightarrow> nat \<Rightarrow> ustr list \<Rightarrow> nat \<Rightarrow> read_page" where
  "file_page tok b numbered limit lines start =
     page_lines tok b [] (measure_text tok b []) (render_lines numbered start (take limit (drop (start - 1) lines)))"

definition page_dict :: "response_budget \<Rightarrow> read_page \<Rightarrow> bool \<Rightarrow> json \<Rightarrow> dict" where
  "page_dict b r truncated next =
     (let m = rp_measurement r in
      [(''state'', jlit (if rp_oversized r then ''oversized_line'' else if truncated then ''truncated'' else ''complete'')),
       (''stop_reason'', jlit (case rp_stop r of Some s \<Rightarrow> s
          | None \<Rightarrow> if truncated then ''line_limit'' else ''end_of_file'')),
       (''returned_line_count'', jnat (length (rp_lines r))),
       (''rendered_bytes'', jnat (rendered_bytes m)), (''estimated_tokens'', jnat (estimated_tokens m)),
       (''token_encoding'', jlit ''o200k_base''),
       (''effective_budgets'', JObj [(''bytes'', jopt JInt (max_bytes b)), (''tokens'', JInt (max_tokens b))]),
       (''budget_exceeded'',
          JObj [(''bytes'', JBool (exceeds_byte_budget m)), (''tokens'', JBool (exceeds_token_budget m))]),
       (''continuation'', JObj [(''has_more'', JBool truncated), (''next_offset'', next)])])"

definition path_suffix :: "path \<Rightarrow> ustr" where
  "path_suffix p =
     (let name = (if p = [] then [] else last p); ext = rev (takeWhile (\<lambda>c. c \<noteq> 46) (rev name)) in
      if ext = [] \<or> length name \<le> length ext + 1 then [] else 46 # ext)"

definition file_language :: "(path \<Rightarrow> ustr option) \<Rightarrow> path \<Rightarrow> ustr" where
  "file_language guess p =
     (let mime = rev (takeWhile (\<lambda>c. c \<noteq> 47) (rev (case guess p of None \<Rightarrow> [] | Some t \<Rightarrow> t)));
          suffix = dropWhile (\<lambda>c. c = 46) (path_suffix p) in
      if mime \<noteq> [] then mime else if suffix \<noteq> [] then suffix else u ''text'')"

record read_options =
  ro_offset :: "int option"
  ro_limit :: "int option"
  ro_max_lines :: int
  ro_numbered :: bool

definition start_line :: "read_options \<Rightarrow> nat" where
  "start_line opts = nat (max (case ro_offset opts of None \<Rightarrow> 1 | Some i \<Rightarrow> if i = 0 then 1 else i) 1)"

definition line_limit :: "read_options \<Rightarrow> nat" where
  "line_limit opts =
     nat (max (case ro_limit opts of None \<Rightarrow> ro_max_lines opts | Some i \<Rightarrow> if i = 0 then ro_max_lines opts else i) 1)"

definition resolved_error :: "string \<Rightarrow> ustr \<Rightarrow> path \<Rightarrow> dict" where
  "resolved_error code message p = tool_error code message [(''resolved_path'', JStr (path_text p))]"

definition text_file :: "fs \<Rightarrow> path \<Rightarrow> dict + ustr" where
  "text_file m p =
     (if \<not> path_exists m p then Inl (resolved_error ''file_not_found'' (u ''File not found: '' @ path_text p) p)
      else case file_bytes m p of
          None \<Rightarrow> Inl (resolved_error ''not_a_file'' (u ''Path is not a file: '' @ path_text p) p)
        | Some raw \<Rightarrow>
            (case read_text raw of
               None \<Rightarrow> Inl (resolved_error ''not_text_file'' binary_message p)
             | Some text \<Rightarrow> Inr text))"

definition read_file ::
  "(ustr \<Rightarrow> nat) \<Rightarrow> (path \<Rightarrow> ustr option) \<Rightarrow> response_budget \<Rightarrow> read_options \<Rightarrow> fs \<Rightarrow> path \<Rightarrow> dict" where
  "read_file tok guess b opts m p =
     (case text_file m p of
        Inl e \<Rightarrow> e
      | Inr text \<Rightarrow>
          let lines = splitlines text; start = start_line opts;
              r = file_page tok b (ro_numbered opts) (line_limit opts) lines start;
              n = length (rp_lines r); truncated = start - 1 + n < length lines;
              next = (if truncated \<and> 0 < n then jnat (start + n) else JNull) in
          [(''success'', JBool True), (''path'', JStr (path_text p)), (''content'', JStr (join [10] (rp_lines r))),
           (''truncated'', JBool truncated), (''next_offset'', next), (''offset_unit'', jlit ''lines''),
           (''start_line'', jnat start), (''end_line'', jnat (start - 1 + n)),
           (''oversized_line'', JBool (rp_oversized r)), (''language'', JStr (file_language guess p)),
           (''include_line_numbers'', JBool (ro_numbered opts)), (''page'', JObj (page_dict b r truncated next))])"

section \<open>Several files\<close>

definition sub_dict :: "string \<Rightarrow> dict \<Rightarrow> dict option" where
  "sub_dict k d = (case map_of d k of Some (JObj p) \<Rightarrow> Some p | _ \<Rightarrow> None)"

definition int_field :: "string \<Rightarrow> int \<Rightarrow> dict \<Rightarrow> int" where
  "int_field k missing d = (case map_of d k of Some (JInt i) \<Rightarrow> i | _ \<Rightarrow> missing)"

definition str_field :: "string \<Rightarrow> dict \<Rightarrow> ustr" where
  "str_field k d = (case map_of d k of Some (JStr s) \<Rightarrow> s | _ \<Rightarrow> [])"

definition returned_line_count :: "dict \<Rightarrow> nat" where
  "returned_line_count d =
     (case sub_dict ''page'' d of None \<Rightarrow> 0 | Some p \<Rightarrow> nat (int_field ''returned_line_count'' 0 p))"

text \<open>One round of the loop that takes lines away from a result that does not fit.\<close>

definition drop_last_line :: "(ustr \<Rightarrow> nat) \<Rightarrow> response_budget \<Rightarrow> dict \<Rightarrow> dict" where
  "drop_last_line tok b d =
     (case sub_dict ''page'' d of
        None \<Rightarrow> d
      | Some page \<Rightarrow>
          let n = returned_line_count d - 1;
              content = join [10] (take n (split_char 10 [] (str_field ''content'' d)));
              start = int_field ''start_line'' 1 d; next = JInt (start + int n); m = measure_text tok b content;
              page1 = dict_update page
                [(''state'', jlit ''truncated''), (''stop_reason'', jlit ''batch_token_budget''),
                 (''returned_line_count'', jnat n), (''rendered_bytes'', jnat (rendered_bytes m)),
                 (''estimated_tokens'', jnat (estimated_tokens m)),
                 (''budget_exceeded'', JObj [(''bytes'', JBool (exceeds_byte_budget m)),
                    (''tokens'', JBool (exceeds_token_budget m))])];
              page2 = (case sub_dict ''continuation'' page1 of
                 None \<Rightarrow> page1
               | Some c \<Rightarrow> dict_update page1
                   [(''continuation'', JObj (dict_update c [(''has_more'', JBool True), (''next_offset'', next)]))]) in
          dict_update d
            [(''content'', JStr content), (''end_line'', JInt (start + int n - 1)), (''truncated'', JBool True),
             (''next_offset'', next), (''oversized_line'', JBool False), (''page'', JObj page2)])"

definition read_batch_payload :: "nat \<Rightarrow> dict list \<Rightarrow> dict" where
  "read_batch_payload start results =
     [(''success'', JBool (list_all (\<lambda>r. map_of r ''success'' = Some (JBool True)) results)), (''mode'', jlit ''batch''),
      (''results'', JList (map JObj results)), (''offset_unit'', jlit ''paths''),
      (''next_offset'', jnat (start + length results))]"

definition batch_fits :: "(ustr \<Rightarrow> nat) \<Rightarrow> response_budget \<Rightarrow> nat \<Rightarrow> dict list \<Rightarrow> bool" where
  "batch_fits tok b start results = attached_fits tok b (read_batch_payload start results) ''token_budget''"

text \<open>The result with lines taken away until it fits, if it ever does; the fuel is the number of its lines.\<close>

fun shrink_to_fit ::
  "(ustr \<Rightarrow> nat) \<Rightarrow> response_budget \<Rightarrow> response_budget \<Rightarrow> nat \<Rightarrow> dict list \<Rightarrow> nat \<Rightarrow> dict \<Rightarrow> dict option" where
  "shrink_to_fit tok b fb start results 0 d = None"
| "shrink_to_fit tok b fb start results (Suc n) d =
     (let d' = drop_last_line tok fb d in
      if batch_fits tok b start (results @ [d']) then Some d' else shrink_to_fit tok b fb start results n d')"

text \<open>The results, and whether the budget has stopped the batch.\<close>

fun batch_results ::
  "(ustr \<Rightarrow> nat) \<Rightarrow> response_budget \<Rightarrow> response_budget \<Rightarrow> (path \<Rightarrow> dict) \<Rightarrow> nat \<Rightarrow> dict list \<Rightarrow> path list
   \<Rightarrow> dict list \<times> bool" where
  "batch_results tok b fb read start results [] = (results, False)"
| "batch_results tok b fb read start results (p # ps) =
     (let d = read p in
      if batch_fits tok b start (results @ [d]) then batch_results tok b fb read start (results @ [d]) ps
      else
        case shrink_to_fit tok b fb start results (returned_line_count d) d of
          Some d' \<Rightarrow> (results @ [d'], True)
        | None \<Rightarrow> (results, True))"

definition read_files ::
  "(ustr \<Rightarrow> nat) \<Rightarrow> (path \<Rightarrow> ustr option) \<Rightarrow> response_budget \<Rightarrow> read_options \<Rightarrow> fs \<Rightarrow> path list \<Rightarrow> int \<Rightarrow> dict" where
  "read_files tok guess fb opts m paths batch_offset =
     (let start = nat batch_offset; b = fb\<lparr>max_bytes := None\<rparr>;
          (results, stopped) = batch_results tok b fb (read_file tok guess fb opts m) start [] (drop start paths);
          has_more = start + length results < length paths;
          child_partial = list_ex (\<lambda>r. map_of r ''truncated'' = Some (JBool True)) results in
      fst (with_budget_metadata tok
        (dict_update (read_batch_payload start results)
          [(''next_offset'', if has_more then jnat (start + length results) else JNull)])
        b (stopped \<or> has_more \<or> child_partial)
        (if stopped then ''token_budget'' else if has_more then ''path_limit''
         else if child_partial then ''child_partial'' else ''end_of_results'')))"

section \<open>Writing\<close>

text \<open>\<^verbatim>\<open>path.write_text(content, encoding="utf-8")\<close>: the file is emptied before the text is encoded.\<close>

definition write_text :: "fs \<Rightarrow> path \<Rightarrow> ustr \<Rightarrow> fs \<times> py_error option" where
  "write_text m p content =
     (case write_file m p [] of
        Inl e \<Rightarrow> (m, Some e)
      | Inr m1 \<Rightarrow>
          (case utf8_encode_strict content of
             None \<Rightarrow> (m1, Some EncodeError)
           | Some b \<Rightarrow> (case write_file m p b of Inl e \<Rightarrow> (m, Some e) | Inr m2 \<Rightarrow> (m2, None))))"

definition written_reply :: "path \<Rightarrow> ustr \<Rightarrow> bool \<Rightarrow> tool_result" where
  "written_reply p content dry_run =
     (case utf8_encode_strict content of
        None \<Rightarrow> Raises EncodeError
      | Some b \<Rightarrow> Reply
          [(''success'', JBool True), (''path'', JStr (path_text p)), (''bytes_written'', jnat (length b)),
           (''dry_run'', JBool dry_run), (''written'', JBool (\<not> dry_run))])"

definition write_file_tool :: "fs \<Rightarrow> path \<Rightarrow> ustr \<Rightarrow> bool \<Rightarrow> fs \<times> tool_result" where
  "write_file_tool m p content dry_run =
     (if dry_run then (m, written_reply p content dry_run)
      else case mkdir_parents m (butlast p) of
          Inl e \<Rightarrow> (m, Raises e)
        | Inr m1 \<Rightarrow>
            (case write_text m1 p content of
               (m2, Some e) \<Rightarrow> (m2, Raises e)
             | (m2, None) \<Rightarrow> (m2, written_reply p content dry_run)))"

section \<open>Replacing one text\<close>

fun line_numbers_from :: "nat \<Rightarrow> ustr \<Rightarrow> nat \<Rightarrow> ustr \<Rightarrow> nat list" where
  "line_numbers_from 0 needle line s = []"
| "line_numbers_from (Suc n) needle line [] = []"
| "line_numbers_from (Suc n) needle line (c # cs) =
     (if startswith (c # cs) needle
      then line # line_numbers_from n needle (line + length (filter (\<lambda>d. d = 10) (take (length needle) (c # cs))))
             (drop (length needle) (c # cs))
      else line_numbers_from n needle (if c = 10 then Suc line else line) cs)"

definition line_numbers_of :: "ustr \<Rightarrow> ustr \<Rightarrow> nat list" where
  "line_numbers_of original needle = line_numbers_from (length original) needle 1 original"

definition fuzzy_candidates :: "difflib \<Rightarrow> ustr \<Rightarrow> ustr \<Rightarrow> nat \<Rightarrow> json list" where
  "fuzzy_candidates df original needle k =
     (let window_size = max (length (splitlines needle)) 1; lines = splitlines original;
          window = (\<lambda>i. join [10] (take window_size (drop i lines)));
          scored = filter (\<lambda>(ratio, n, w). 0 < ratio)
            (map (\<lambda>i. (df_ratio df (window i) needle, i + 1, window i)) [0..<max (length lines + 1 - window_size) 1]) in
      if lines = [] then []
      else map (\<lambda>(ratio, n, w).
        JObj [(''line'', jnat n), (''similarity'', JFloat (df_show_ratio df ratio)), (''snippet'', JStr (clip_snippet w))])
        (take k (sort_reverse fst scored)))"

definition replace_in_file ::
  "difflib \<Rightarrow> fs \<Rightarrow> path \<Rightarrow> ustr \<Rightarrow> ustr \<Rightarrow> bool \<Rightarrow> bool \<Rightarrow> fs \<times> tool_result" where
  "replace_in_file df m p old_text new_text replace_all dry_run =
     (case text_file m p of
        Inl e \<Rightarrow> (m, Reply e)
      | Inr original \<Rightarrow>
          if old_text = []
            then (m, Reply (resolved_error ''empty_old_text''
              (u ''old_text must not be empty; to write a file from scratch use write_file.'') p))
          else
            let occurrences = count_sub old_text original in
            if occurrences = 0
              then (m, Reply (tool_error ''match_not_found''
                (u ''old_text was not found. See `candidates` for the closest line windows in the file.'')
                [(''resolved_path'', JStr (path_text p)),
                 (''candidates'', JList (fuzzy_candidates df original old_text 3))]))
            else if 1 < occurrences \<and> \<not> replace_all
              then (m, Reply (tool_error ''match_not_unique''
                (u ''old_text matched '' @ nat_repr occurrences @
                 u '' times; provide a unique fragment or pass replace_all=True.'')
                [(''resolved_path'', JStr (path_text p)), (''occurrences'', jnat occurrences),
                 (''match_lines'', JList (map jnat (line_numbers_of original old_text)))]))
            else
              let replacements = (if replace_all then occurrences else 1);
                  reply = Reply [(''success'', JBool True), (''path'', JStr (path_text p)),
                    (''replacements'', jnat replacements), (''dry_run'', JBool dry_run), (''written'', JBool (\<not> dry_run))] in
              if dry_run then (m, reply)
              else case write_text m p (replace_sub old_text new_text replacements original) of
                  (m1, Some e) \<Rightarrow> (m1, Raises e)
                | (m1, None) \<Rightarrow> (m1, reply))"

end
