(* ===== verification/FileProps.thy ===== *)
theory FileProps
  imports FileRead
begin

text \<open>
  What the file tools promise: which entries a listing has, that a client that follows \<^verbatim>\<open>next_offset\<close>
  gets all of a listing and all of a file, and what a replacement does to the file.
\<close>

section \<open>Listing\<close>

lemma sort_entries_mem [simp]: "set (sort_entries order es) = set es"
  by (simp add: sort_entries_def)

text \<open>C21: A recursive listing has exactly the entries of the tree that are reached through directories that are all
  kept: not hidden unless hidden entries are asked for, not one of the junk directories, matching no exclude
  pattern by name or by relative path, and tracked or not ignored when Git's answer applies. \<^verbatim>\<open>_iter_filtered\<close>
  prunes while it walks; the listing is that of filtering every path of the tree.\<close>
theorem recursive_listing_is_the_kept_tree:
  assumes "lo_recursive opts"
  shows "e \<in> set (list_records w opts p) \<longleftrightarrow>
    (\<exists>rel t. rel \<noteq> [] \<and> entry_at (lw_entries w) rel t \<and>
       kept_path (list_rules w opts p) [] rel (is_directory t) \<and> wanted_kind opts t \<and> e = file_entry_of p (rel, t))"
    (is "?l \<longleftrightarrow> ?r")
proof -
  have mem: "(rel, t) \<in> set (walk r [] es) \<longleftrightarrow> rel \<noteq> [] \<and> entry_at es rel t \<and> kept_path r [] rel (is_directory t)"
    for rel t r es
    using walk_sound [of rel t r "[]" es] walk_complete [of es rel t r "[]"] by (cases rel) auto
  have "?l \<longleftrightarrow> e \<in> file_entry_of p ` {x \<in> set (walk (list_rules w opts p) [] (lw_entries w)). wanted_kind opts (snd x)}"
    using assms by (simp add: list_records_def iter_filtered_def set_filter case_prod_beta)
  also have "\<dots> \<longleftrightarrow> (\<exists>rel t. (rel, t) \<in> set (walk (list_rules w opts p) [] (lw_entries w)) \<and> wanted_kind opts t \<and> e = file_entry_of p (rel, t))"
    by (auto simp only: image_iff mem_Collect_eq Bex_def split_paired_Ex snd_conv)
  also have "\<dots> \<longleftrightarrow> ?r" by (simp only: mem) blast
  finally show ?thesis .
qed

definition demo_tree :: "(ustr \<times> tree) list" where
  "demo_tree = [(u ''b'', FileEntry (Some (1, 2))), (u ''.x'', FileEntry None),
     (u ''s'', DirEntry None [(u ''a'', FileEntry (Some (3, 4)))]), (u ''build'', DirEntry None [(u ''c'', FileEntry None)])]"

definition demo_list_world :: list_world where
  "demo_list_world = \<lparr>lw_exists = True, lw_is_dir = True, lw_entries = demo_tree, lw_path_exists = (\<lambda>p. False),
     lw_resolve = id, lw_resolvable = (\<lambda>p. True), lw_git = (\<lambda>p. None), lw_float = JInt\<rparr>"

definition demo_list_options :: list_options where
  "demo_list_options = \<lparr>lo_recursive = True, lo_limit = 1, lo_offset = 0, lo_hidden = False, lo_gitignore = True,
     lo_patterns = [], lo_sort = ''path'', lo_files_only = True, lo_dirs_only = False, lo_filter = ''project''\<rparr>"

lemma demo_allowed: "wr_allowed (list_rules demo_list_world demo_list_options p) rel"
  by (simp add: list_rules_def list_allowed_def demo_list_world_def demo_list_options_def entry_allowed_def show_all_def
      git_tracked_allowed_paths_def split: option.split)

theorem recursive_listing_is_the_kept_tree_witness:
  "file_entry_of [] ([u ''s'', u ''a''], FileEntry (Some (3, 4))) \<in> set (list_records demo_list_world demo_list_options []) \<and>
   file_entry_of [] ([u ''build'', u ''c''], FileEntry None) \<notin> set (list_records demo_list_world demo_list_options [])"
proof -
  have rules: "wr_hidden (list_rules demo_list_world demo_list_options []) = False"
    "wr_excluded (list_rules demo_list_world demo_list_options []) = default_exclude_dir_names"
    "wr_patterns (list_rules demo_list_world demo_list_options []) = []"
    by (simp_all add: list_rules_def demo_list_options_def show_all_def)
  have in_tree: "entry_at demo_tree [u ''s'', u ''a''] (FileEntry (Some (3, 4)))" by (simp add: demo_tree_def)
  have kept: "kept_path (list_rules demo_list_world demo_list_options []) [] [u ''s'', u ''a''] False"
    by (simp add: keep_entry_def keep_dir_def keep_file_def rules demo_allowed matches_exclude_pattern_def startswith_def
        default_exclude_dir_names_def)
  have not: "\<not> kept_path (list_rules demo_list_world demo_list_options []) [] [u ''build'', u ''c''] d" for d
    by (simp add: keep_dir_def rules default_exclude_dir_names_def)
  have rec: "lo_recursive demo_list_options" by (simp add: demo_list_options_def)
  note iff = recursive_listing_is_the_kept_tree [OF rec, of _ demo_list_world "[]"]
  have "file_entry_of [] ([u ''s'', u ''a''], FileEntry (Some (3, 4))) \<in> set (list_records demo_list_world demo_list_options [])"
    using in_tree kept
    by (subst iff) (intro exI [of _ "[u ''s'', u ''a'']"] exI [of _ "FileEntry (Some (3, 4))"],
        simp add: demo_list_world_def wanted_kind_def demo_list_options_def)
  moreover have "file_entry_of [] ([u ''build'', u ''c''], FileEntry None) \<notin> set (list_records demo_list_world demo_list_options [])"
    using not by (subst iff) (auto simp: file_entry_of_def)
  ultimately show ?thesis by blast
qed




section \<open>Reading\<close>

lemma length_render_lines [simp]: "length (render_lines nb n ls) = length ls"
  by (induction ls arbitrary: n) simp_all

lemma render_lines_take: "render_lines nb n (take k ls) = take k (render_lines nb n ls)"
proof (induction ls arbitrary: n k)
  case (Cons l ls)
  then show ?case by (cases k) simp_all
qed simp

lemma render_lines_drop: "render_lines nb (n + k) (drop k ls) = drop k (render_lines nb n ls)"
proof (induction ls arbitrary: n k)
  case (Cons l ls)
  then show ?case by (cases k) (simp_all flip: add_Suc)
qed simp

lemma page_lines_prefix:
  "\<exists>k. rp_lines (page_lines tok b acc m ls) = acc @ take k ls \<and> k \<le> length ls \<and> (acc = [] \<and> ls \<noteq> [] \<longrightarrow> 1 \<le> k)"
proof (induction tok b acc m ls rule: page_lines.induct)
  case (2 tok b acc m l ls)
  let ?m' = "measure_text tok b (join [10] (acc @ [l]))"
  show ?case
  proof (cases "fits ?m'")
    case True
    with 2 obtain k where "rp_lines (page_lines tok b (acc @ [l]) ?m' ls) = (acc @ [l]) @ take k ls" "k \<le> length ls"
      by blast
    with True show ?thesis by (intro exI [of _ "Suc k"]) simp
  next
    case False
    then show ?thesis
      by (cases "acc = []") (auto simp: Let_def intro: exI [of _ "Suc 0"] exI [of _ 0])
  qed
qed simp

definition line_page ::
  "(ustr \<Rightarrow> nat) \<Rightarrow> response_budget \<Rightarrow> bool \<Rightarrow> nat \<Rightarrow> ustr list \<Rightarrow> nat \<Rightarrow> ustr list" where
  "line_page tok b nb limit ls start = rp_lines (file_page tok b nb limit ls (Suc start))"

lemma line_page_split:
  "\<exists>k. line_page tok b nb limit ls start = take k (drop start (render_lines nb 1 ls)) \<and>
     (start < length ls \<and> 1 \<le> limit \<longrightarrow> 1 \<le> k)"
proof -
  let ?ls = "render_lines nb (Suc start) (take limit (drop start ls))"
  obtain k where k: "rp_lines (page_lines tok b [] (measure_text tok b []) ?ls) = take k ?ls" "?ls \<noteq> [] \<longrightarrow> 1 \<le> k"
    using page_lines_prefix [of tok b "[]" "measure_text tok b []" ?ls] by auto
  have "render_lines nb (Suc start) (drop start ls) = drop start (render_lines nb 1 ls)"
    using render_lines_drop [of nb 1 start ls] by simp
  then have "?ls = take limit (drop start (render_lines nb 1 ls))" by (simp add: render_lines_take)
  with k(1) have "line_page tok b nb limit ls start = take (min k limit) (drop start (render_lines nb 1 ls))"
    by (simp add: line_page_def file_page_def)
  moreover have "1 \<le> min k limit" if "start < length ls" "1 \<le> limit"
  proof -
    have "0 < length ?ls" using that by simp
    then have "?ls \<noteq> []" by (rule length_greater_0_conv [THEN iffD1])
    with k(2) that(2) show ?thesis by simp
  qed
  ultimately show ?thesis by blast
qed

interpretation line_pages: paged "render_lines nb 1 ls" "line_page tok b nb limit ls" for nb ls tok b limit
proof
  fix start
  obtain k where "line_page tok b nb limit ls start = take k (drop start (render_lines nb 1 ls))"
    using line_page_split by blast
  then show "line_page tok b nb limit ls start =
      take (length (line_page tok b nb limit ls start)) (drop start (render_lines nb 1 ls))"
    by (simp add: min_def)
qed

lemma join_append: "xs \<noteq> [] \<Longrightarrow> ys \<noteq> [] \<Longrightarrow> join sep (xs @ ys) = join sep xs @ sep @ join sep ys"
  by (induction sep xs rule: join.induct) (simp_all add: join_Cons)

text \<open>The client: the contents of the pages it gets, at most \<open>n\<close> of them.\<close>

fun read_all ::
  "(ustr \<Rightarrow> nat) \<Rightarrow> (path \<Rightarrow> ustr option) \<Rightarrow> response_budget \<Rightarrow> read_options \<Rightarrow> fs \<Rightarrow> path \<Rightarrow> nat \<Rightarrow> int \<Rightarrow> ustr list" where
  "read_all tok guess b opts m p 0 offset = []"
| "read_all tok guess b opts m p (Suc n) offset =
     (let d = read_file tok guess b (opts\<lparr>ro_offset := Some offset\<rparr>) m p in
      str_field ''content'' d #
      (case map_of d ''next_offset'' of Some (JInt i) \<Rightarrow> read_all tok guess b opts m p n i | _ \<Rightarrow> []))"

lemma read_file_page:
  assumes "text_file m p = Inr text" "lines = splitlines text"
    and "pg = line_page tok b (ro_numbered opts) (line_limit opts) lines start"
  shows "str_field ''content'' (read_file tok guess b (opts\<lparr>ro_offset := Some (1 + int start)\<rparr>) m p) = join [10] pg"
    and "map_of (read_file tok guess b (opts\<lparr>ro_offset := Some (1 + int start)\<rparr>) m p) ''next_offset'' =
      Some (if start + length pg < length lines \<and> pg \<noteq> [] then JInt (1 + int (start + length pg)) else JNull)"
proof -
  have "start_line (opts\<lparr>ro_offset := Some (1 + int start)\<rparr>) = Suc start" by (simp add: start_line_def)
  moreover have "line_limit (opts\<lparr>ro_offset := Some (1 + int start)\<rparr>) = line_limit opts" by (simp add: line_limit_def cong: option.case_cong if_cong)
  ultimately show "str_field ''content'' (read_file tok guess b (opts\<lparr>ro_offset := Some (1 + int start)\<rparr>) m p) = join [10] pg"
    and "map_of (read_file tok guess b (opts\<lparr>ro_offset := Some (1 + int start)\<rparr>) m p) ''next_offset'' =
      Some (if start + length pg < length lines \<and> pg \<noteq> [] then JInt (1 + int (start + length pg)) else JNull)"
    using assms by (simp_all add: read_file_def str_field_def Let_def line_page_def)
qed

lemma read_all_rest:
  assumes "text_file m p = Inr text" "lines = splitlines text" "length lines < n + start" "start = 0 \<or> start < length lines"
  shows "join [10] (read_all tok guess b opts m p n (1 + int start)) = join [10] (drop start (render_lines (ro_numbered opts) 1 lines))"
  using assms(3,4)
proof (induction n arbitrary: start)
  case (Suc n)
  let ?rendered = "render_lines (ro_numbered opts) 1 lines"
  define pg where "pg = line_page tok b (ro_numbered opts) (line_limit opts) lines start"
  note reply = read_file_page [OF assms(1,2) pg_def]
  have limit: "1 \<le> line_limit opts" by (simp add: line_limit_def)
  show ?case
  proof (cases "start < length lines")
    case True
    obtain k where "pg = take k (drop start ?rendered)" "1 \<le> k"
      using line_page_split [of tok b "ro_numbered opts" "line_limit opts" lines start, folded pg_def] True limit by blast
    with True limit have ne: "pg \<noteq> []" by auto
    have rest: "pg @ drop (start + length pg) ?rendered = drop start ?rendered"
      unfolding pg_def by (rule line_pages.page_split)
    show ?thesis
    proof (cases "start + length pg < length lines")
      case more: True
      have "length lines < n + (start + length pg)" using Suc.prems(1) ne by (cases pg) auto
      from Suc.IH [OF this] more have IH: "join [10] (read_all tok guess b opts m p n (1 + int (start + length pg))) =
          join [10] (drop (start + length pg) ?rendered)" by simp
      have "n \<noteq> 0" using Suc.prems(1) more ne \<open>length lines < n + (start + length pg)\<close> by linarith
      then have "read_all tok guess b opts m p n (1 + int (start + length pg)) \<noteq> []"
        by (cases n) (simp_all add: Let_def)
      then have "join [10] (read_all tok guess b opts m p (Suc n) (1 + int start)) =
          join [10] pg @ [10] @ join [10] (drop (start + length pg) ?rendered)"
        using reply more ne IH by (simp add: Let_def join_Cons)
      also have "\<dots> = join [10] (pg @ drop (start + length pg) ?rendered)" using ne more by (simp add: join_append)
      finally show ?thesis by (simp only: rest)
    next
      case False
      then show ?thesis using reply rest by (simp add: Let_def)
    qed
  next
    case False
    with Suc.prems(2) have "lines = []" "start = 0" by auto
    then have "pg = []" using line_pages.page_beyond [of "ro_numbered opts" lines start] by (simp add: pg_def)
    with \<open>lines = []\<close> reply show ?thesis by (simp add: Let_def)
  qed
qed simp

text \<open>A client that reads a text file page by page, following \<^verbatim>\<open>next_offset\<close> from line 1 with any line limit and
  any budget, gets the whole file: the contents of the pages, joined by line feeds, are the lines of the file
  (numbered from 1 when asked), each once and in order, and it is done after at most one call per line. A line
  that alone exceeds the budget is returned alone instead of stopping the client.\<close>
theorem reading_pages_returns_the_file:
  assumes "text_file m p = Inr text" "length (splitlines text) < n"
  shows "join [10] (read_all tok guess b opts m p n 1) = join [10] (render_lines (ro_numbered opts) 1 (splitlines text))"
  using read_all_rest [OF assms(1) refl, of n 0] assms(2) by simp

definition demo_text_fs :: fs where
  "demo_text_fs = [[[102]] \<mapsto> FileNode [97, 10, 98, 98, 10, 99]]"

theorem reading_pages_returns_the_file_witness:
  "join [10] (read_all length (\<lambda>p. None) \<lparr>max_tokens = 1, max_bytes = Some 1\<rparr>
      \<lparr>ro_offset = None, ro_limit = None, ro_max_lines = 2, ro_numbered = False\<rparr> demo_text_fs [[102]] 4 1)
    = [97, 10, 98, 98, 10, 99]"
proof -
  have "text_file demo_text_fs [[102]] = Inr [97, 10, 98, 98, 10, 99]"
    using utf8_decode_replace_encode [of "[97, 10, 98, 98, 10, 99]"]
    by (simp add: text_file_def demo_text_fs_def path_exists_def file_bytes_def read_text_def utf8_char_def scalar_value_def)
  moreover have lines: "splitlines [97, 10, 98, 98, 10, 99] = [[97], [98, 98], [99]]"
    by (simp add: splitlines_def is_line_break_def)
  ultimately show ?thesis
    using reading_pages_returns_the_file [of demo_text_fs "[[102]]" "[97, 10, 98, 98, 10, 99]" 4 length "\<lambda>p. None"
        "\<lparr>max_tokens = 1, max_bytes = Some 1\<rparr>"
        "\<lparr>ro_offset = None, ro_limit = None, ro_max_lines = 2, ro_numbered = False\<rparr>"]
    by (simp add: render_line_def)
qed

end
