(* ===== verification/BudgetProps.thy ===== *)
theory BudgetProps
  imports FileRead
begin

text \<open>
  The response contract that every tool keeps, and the loop of \<^verbatim>\<open>read_files\<close> that takes lines away from a
  file until the batch fits.
\<close>

section \<open>The fields of a reply\<close>

definition reply_flags :: "dict \<Rightarrow> bool \<Rightarrow> bool" where
  "reply_flags r incomplete \<longleftrightarrow>
     map_of r ''complete'' = Some (JBool (\<not> incomplete)) \<and> map_of r ''partial'' = Some (JBool incomplete) \<and>
     map_of r ''truncated'' = Some (JBool incomplete) \<and> (\<exists>s. map_of r ''stop_reason'' = Some (JStr s)) \<and>
     (\<exists>n. map_of r ''estimated_tokens'' = Some (JInt n) \<and> 0 \<le> n)"

definition counted :: "dict \<Rightarrow> bool" where
  "counted r \<longleftrightarrow> (\<exists>n. map_of r ''estimated_tokens'' = Some (JInt n) \<and> 0 \<le> n)"

lemma counted_update: "counted (AList.update ''estimated_tokens'' (jnat n) r)"
  by (simp add: counted_def dict_simps)

lemma distinct_fields: "distinct (map fst p) \<Longrightarrow> distinct (map fst (budget_fields p b t s))"
  by (simp add: budget_fields_def distinct_update distinct_delete del: update_keys)

lemma distinct_exceeded: "distinct (map fst r) \<Longrightarrow> distinct (map fst (exceeded_fields t m r))"
  by (simp add: exceeded_fields_def distinct_update del: update_keys)

lemma settle_counted:
  "settle tok b n r m = (r', m') \<Longrightarrow> (counted r \<longrightarrow> counted r') \<and> (distinct (map fst r) \<longrightarrow> distinct (map fst r'))"
proof (induction tok b n r m rule: settle.induct)
  case (2 tok b n r m)
  then show ?case using counted_update by (auto simp: Let_def distinct_update split: if_splits)
qed simp

lemma resettle_counted:
  "resettle tok b n r m = (r', m') \<Longrightarrow> (counted r \<longrightarrow> counted r') \<and> (distinct (map fst r) \<longrightarrow> distinct (map fst r'))"
proof (induction tok b n r m rule: resettle.induct)
  case (2 tok b n r m)
  then show ?case using counted_update by (auto simp: Let_def distinct_update split: if_splits)
qed simp

lemma fields_counted: "counted (budget_fields p b t s)"
  by (simp add: counted_def budget_fields_lookup)

lemma exceeded_counted: "counted r \<Longrightarrow> counted (exceeded_fields t m r)"
  by (simp add: counted_def exceeded_fields_lookup)

lemma reply_counted:
  assumes "with_budget_metadata tok p b t s = (r, m)" "distinct (map fst p)"
  shows "counted r \<and> distinct (map fst r)"
proof -
  obtain r1 m1 where s1: "settle tok b 5 (budget_fields p b t s)
      (measure_json_payload tok (budget_fields p b t s) b) = (r1, m1)" by fastforce
  have c1: "counted r1" "distinct (map fst r1)"
    using settle_counted [OF s1] fields_counted distinct_fields [OF assms(2)] by blast+
  show ?thesis
  proof (cases "fits m1")
    case True
    with assms(1) s1 have "r = r1" by (simp add: with_budget_metadata_def)
    with c1 show ?thesis by blast
  next
    case False
    with assms(1) s1 have "resettle tok b 5 (exceeded_fields t m1 r1) m1 = (r, m)" by (simp add: with_budget_metadata_def)
    with c1 show ?thesis using resettle_counted exceeded_counted distinct_exceeded by blast
  qed
qed

text \<open>C24: Every tool reply has the shape the contract promises: the budget code returns a dictionary without
  duplicate keys whose \<^verbatim>\<open>complete\<close>, \<^verbatim>\<open>partial\<close> and \<^verbatim>\<open>truncated\<close> are booleans that agree, whose stop reason is a
  text and whose token estimate is a natural number; the fields of the tool survive, a truncated reply is
  never called complete, and a complete reply fits the budget it was measured against.\<close>

theorem budget_reply_well_formed:
  assumes "with_budget_metadata tok payload b truncated reason = (reply, m)" "distinct (map fst payload)"
  shows "\<exists>incomplete. distinct (map fst reply) \<and> reply_flags reply incomplete \<and> (truncated \<longrightarrow> incomplete) \<and>
    (\<not> incomplete \<longrightarrow> fits m \<and> m = measure_json_payload tok reply b) \<and>
    (\<forall>k. k \<notin> {''complete'', ''partial'', ''truncated'', ''stop_reason'', ''estimated_tokens'', ''effective_budget'',
        ''budget_exceeded''} \<longrightarrow> map_of reply k = map_of payload k)"
proof -
  have c: "counted reply" and keys: "distinct (map fst reply)" using reply_counted [OF assms] by blast+
  note other = with_budget_metadata_other [OF assms(1)]
  from assms(1) show ?thesis
  proof (cases rule: with_budget_metadata_cases)
    case fitting
    then have "reply_flags reply truncated" using c by (auto simp: reply_flags_def counted_def budget_fields_lookup)
    with fitting keys other show ?thesis by blast
  next
    case (exceeded m1 r1)
    then have "reply_flags reply True"
      using c by (auto simp: reply_flags_def counted_def budget_fields_lookup exceeded_fields_lookup)
    with keys other show ?thesis by blast
  qed
qed

theorem budget_reply_well_formed_witness:
  "\<exists>incomplete. distinct (map fst (fst (with_budget_metadata (\<lambda>t. 1) [(''a'', JNull)] \<lparr>max_tokens = 10, max_bytes = None\<rparr> True ''limit''))) \<and>
    reply_flags (fst (with_budget_metadata (\<lambda>t. 1) [(''a'', JNull)] \<lparr>max_tokens = 10, max_bytes = None\<rparr> True ''limit'')) incomplete \<and> incomplete"
  using budget_reply_well_formed [of "\<lambda>t. 1" "[(''a'', JNull)]" "\<lparr>max_tokens = 10, max_bytes = None\<rparr>" True "''limit''",
      OF surjective_pairing] by auto

section \<open>Taking lines away\<close>

text \<open>The loop as it is written: it runs while the result has lines, and may, as a loop, run for ever.\<close>

partial_function (option) shrink_loop ::
  "(ustr \<Rightarrow> nat) \<Rightarrow> response_budget \<Rightarrow> response_budget \<Rightarrow> nat \<Rightarrow> dict list \<Rightarrow> dict \<Rightarrow> dict option option" where
  "shrink_loop tok b fb start results d =
     (if returned_line_count d = 0 then Some None
      else
        let d' = drop_last_line tok fb d in
        if batch_fits tok b start (results @ [d']) then Some (Some d') else shrink_loop tok b fb start results d')"

lemma sub_dict_update: "sub_dict k (AList.update j v d) = (if j = k then (case v of JObj p \<Rightarrow> Some p | _ \<Rightarrow> None) else sub_dict k d)"
  by (simp add: sub_dict_def dict_simps split: json.split)

lemma int_field_update: "int_field k z (AList.update j v d) = (if j = k then (case v of JInt i \<Rightarrow> i | _ \<Rightarrow> z) else int_field k z d)"
  by (simp add: int_field_def dict_simps split: json.split)

lemma find_map: "find p (map f xs) = map_option f (find (p \<circ> f) xs)"
  by (induction xs) simp_all

lemma drop_last_line_count: "returned_line_count (drop_last_line tok fb d) = returned_line_count d - 1"
proof (cases "sub_dict ''page'' d")
  case None
  then show ?thesis by (simp add: drop_last_line_def returned_line_count_def)
next
  case (Some page)
  define n where "n = returned_line_count d - 1"
  have "\<exists>p. sub_dict ''page'' (drop_last_line tok fb d) = Some p \<and> int_field ''returned_line_count'' 0 p = int n"
    by (auto simp: drop_last_line_def Some Let_def sub_dict_update int_field_update n_def split: option.split)
  then show ?thesis by (auto simp: returned_line_count_def [of "drop_last_line tok fb d"] n_def)
qed

text \<open>C23: Fitting a file into a batch ends: the loop of \<^verbatim>\<open>read_files\<close> that takes lines away from a file returns on
  every result, whatever its fields, after at most as many rounds as the result has lines, and what it
  returns is the longest page reached that fits, or nothing when not even the empty one does.\<close>

theorem shrinking_ends:
  "shrink_loop tok b fb start results d = Some (shrink_to_fit tok b fb start results (returned_line_count d) d) \<and>
   (shrink_to_fit tok b fb start results (returned_line_count d) d =
      map_option (\<lambda>k. (drop_last_line tok fb ^^ k) d)
        (find (\<lambda>k. batch_fits tok b start (results @ [(drop_last_line tok fb ^^ k) d])) [1..<Suc (returned_line_count d)]))"
proof (induction "returned_line_count d" arbitrary: d)
  case 0
  then show ?case by (subst shrink_loop.simps) simp
next
  case (Suc n)
  define d' where "d' = drop_last_line tok fb d"
  let ?ok = "\<lambda>k. batch_fits tok b start (results @ [(drop_last_line tok fb ^^ k) d])"
  have n: "returned_line_count d' = n" using Suc.hyps(2) by (simp add: d'_def drop_last_line_count)
  note IH = Suc.hyps(1) [OF n [symmetric], unfolded n]
  have shift: "(drop_last_line tok fb ^^ k) d' = (drop_last_line tok fb ^^ Suc k) d" for k
    by (simp add: d'_def funpow_swap1)
  have one: "(drop_last_line tok fb ^^ Suc 0) d = d'" by (simp add: d'_def)
  have "[1..<Suc (Suc n)] = 1 # map Suc [1..<Suc n]" by (simp add: map_Suc_upt upt_conv_Cons del: upt_Suc)
  then have "find ?ok [1..<Suc (Suc n)] = (if ?ok 1 then Some 1 else map_option Suc (find (?ok \<circ> Suc) [1..<Suc n]))"
    by (simp add: find_map)
  then show ?case
    using IH unfolding shrink_loop.simps [of tok b fb start results d] Suc.hyps(2) [symmetric]
    by (simp add: Let_def d'_def [symmetric] shift one comp_def option.map_comp del: upt_Suc funpow.simps)
qed

end
