(* ===== verification/SearchPage.thy ===== *)
theory SearchPage
  imports FileList
begin

text \<open>
  Collecting one page of results (\<^verbatim>\<open>_PageCollector\<close> in \<^verbatim>\<open>search.py\<close>) and finding entries by a shell pattern
  (\<^verbatim>\<open>glob_files\<close>). A collector is told every result in turn and keeps those of the page; its specification is
  the greedy page of the list of all results.
\<close>

section \<open>The collector\<close>

record page_collector =
  pc_offset :: nat
  pc_limit :: nat
  pc_key :: string
  pc_base :: dict
  pc_budget :: response_budget
  pc_seen :: nat
  pc_items :: "json list"
  pc_truncated :: bool
  pc_stop_reason :: string
  pc_should_stop :: bool

definition new_page :: "int \<Rightarrow> int \<Rightarrow> string \<Rightarrow> dict \<Rightarrow> response_budget \<Rightarrow> page_collector" where
  "new_page offset limit key base b =
     \<lparr>pc_offset = nat offset, pc_limit = nat limit, pc_key = key, pc_base = base, pc_budget = b, pc_seen = 0,
      pc_items = [], pc_truncated = False, pc_stop_reason = ''end_of_results'', pc_should_stop = False\<rparr>"

definition force_stop :: "string \<Rightarrow> page_collector \<Rightarrow> page_collector" where
  "force_stop reason p = p\<lparr>pc_truncated := True, pc_stop_reason := reason, pc_should_stop := True\<rparr>"

definition page_candidate :: "(ustr \<Rightarrow> nat) \<Rightarrow> page_collector \<Rightarrow> json list \<Rightarrow> budget_measurement" where
  "page_candidate tok p items =
     snd (with_budget_metadata tok
       (dict_update (pc_base p) [(pc_key p, JList items), (''next_offset'', jnat (pc_offset p + length items))])
       (pc_budget p) True ''token_budget'')"

definition page_add :: "(ustr \<Rightarrow> nat) \<Rightarrow> json \<Rightarrow> page_collector \<Rightarrow> page_collector" where
  "page_add tok item p =
     (if pc_should_stop p then p
      else
        let q = p\<lparr>pc_seen := Suc (pc_seen p)\<rparr>; m = page_candidate tok p (pc_items p @ [item]) in
        if pc_seen p < pc_offset p then q
        else if pc_limit p \<noteq> 0 \<and> pc_limit p \<le> length (pc_items p) then force_stop ''limit'' q
        else if \<not> fits m
          then force_stop (case measurement_stop_reason m of Some r \<Rightarrow> r | None \<Rightarrow> ''token_budget'') q
        else q\<lparr>pc_items := pc_items p @ [item]\<rparr>)"

definition page_payload :: "(ustr \<Rightarrow> nat) \<Rightarrow> page_collector \<Rightarrow> dict" where
  "page_payload tok p =
     fst (with_budget_metadata tok
       (dict_update (pc_base p)
         [(pc_key p, JList (pc_items p)),
          (''next_offset'', if pc_truncated p then jnat (pc_offset p + length (pc_items p)) else JNull)])
       (pc_budget p) (pc_truncated p) (pc_stop_reason p))"

section \<open>glob_files\<close>

definition search_error :: "string \<Rightarrow> ustr \<Rightarrow> path \<Rightarrow> dict" where
  "search_error code message p = tool_error code message [(''resolved_path'', JStr (path_text p))]"

definition validate_existing_path :: "list_world \<Rightarrow> path \<Rightarrow> dict option" where
  "validate_existing_path w p =
     (if lw_exists w then None
      else Some (search_error ''path_not_found'' (u ''Path not found: '' @ path_text p) p))"

record search_filters =
  sf_hidden :: bool
  sf_gitignore :: bool
  sf_patterns :: "ustr list"

definition resolve_allowed_paths :: "list_world \<Rightarrow> path \<Rightarrow> bool \<Rightarrow> path list option" where
  "resolve_allowed_paths w p respect =
     (if \<not> respect then None
      else case find_git_root (lw_path_exists w) (lw_is_dir w) p of
          None \<Rightarrow> None
        | Some root \<Rightarrow> git_tracked_allowed_paths (lw_resolve w) root (lw_git w root))"

definition glob_matches :: "path \<Rightarrow> ustr \<Rightarrow> bool" where
  "glob_matches rel pattern \<longleftrightarrow> fnmatch (join [47] rel) pattern \<or> fnmatch (last rel) pattern"

definition search_rules :: "list_world \<Rightarrow> search_filters \<Rightarrow> path \<Rightarrow> walk_rules" where
  "search_rules w sf p =
     \<lparr>wr_hidden = sf_hidden sf, wr_excluded = default_exclude_dir_names, wr_patterns = sf_patterns sf,
      wr_allowed = (\<lambda>rel. entry_allowed (lw_resolve w) (lw_resolvable w)
        (resolve_allowed_paths w p (sf_gitignore sf)) (p @ rel))\<rparr>"

text \<open>The matching entries, with whether they are directories. A base path that is a file is its only entry.\<close>

definition iter_matching_entries :: "list_world \<Rightarrow> bool \<Rightarrow> search_filters \<Rightarrow> path \<Rightarrow> ustr \<Rightarrow> (path \<times> bool) list" where
  "iter_matching_entries w file sf p pattern =
     (if file then
        (if \<not> sf_hidden sf \<and> startswith (last p) [46] then []
         else if list_ex (fnmatch (last p)) (sf_patterns sf) then []
         else if (case resolve_allowed_paths w p (sf_gitignore sf) of None \<Rightarrow> False | Some ps \<Rightarrow> lw_resolve w p \<notin> set ps)
           then []
         else if glob_matches [last p] pattern then [(p, False)] else [])
      else
        map (\<lambda>(rel, t). (p @ rel, is_directory t))
          (filter (\<lambda>(rel, t). glob_matches rel pattern)
            (sort_key (\<lambda>(rel, t). path_text (p @ rel)) (iter_filtered (search_rules w sf p) True (lw_entries w)))))"

definition iter_matching_files :: "list_world \<Rightarrow> bool \<Rightarrow> search_filters \<Rightarrow> path \<Rightarrow> ustr option \<Rightarrow> path list" where
  "iter_matching_files w file sf p glob =
     map fst (filter (\<lambda>(q, dir). \<not> dir)
       (iter_matching_entries w file sf p (case glob of None \<Rightarrow> [42] | Some g \<Rightarrow> if g = [] then [42] else g)))"

definition filters_payload :: "search_filters \<Rightarrow> bool \<Rightarrow> dict" where
  "filters_payload sf applied =
     [(''include_hidden'', JBool (sf_hidden sf)), (''respect_gitignore'', JBool (sf_gitignore sf)),
      (''gitignore_applied'', JBool applied), (''exclude_patterns'', JList (map JStr (sf_patterns sf)))]"

definition glob_item_payload :: "path \<times> bool \<Rightarrow> json" where
  "glob_item_payload e = JObj [(''path'', JStr (path_text (fst e))), (''is_dir'', JBool (snd e))]"

definition glob_base_payload :: "list_world \<Rightarrow> search_filters \<Rightarrow> path \<Rightarrow> ustr \<Rightarrow> dict" where
  "glob_base_payload w sf p pattern =
     [(''success'', JBool True), (''base_path'', JStr (path_text p)), (''pattern'', JStr pattern),
      (''filters'', JObj (filters_payload sf (resolve_allowed_paths w p (sf_gitignore sf) \<noteq> None)))]"

definition glob_files ::
  "(ustr \<Rightarrow> nat) \<Rightarrow> response_budget \<Rightarrow> list_world \<Rightarrow> bool \<Rightarrow> search_filters \<Rightarrow> path \<Rightarrow> ustr \<Rightarrow> int \<Rightarrow> int \<Rightarrow> dict" where
  "glob_files tok b w file sf p pattern limit offset =
     (case validate_existing_path w p of
        Some e \<Rightarrow> e
      | None \<Rightarrow>
          if limit < 0 \<or> offset < 0
            then tool_error ''invalid_arguments'' (u ''limit and offset must be non-negative integers.'') []
          else page_payload tok
            (fold (page_add tok) (map glob_item_payload (iter_matching_entries w file sf p pattern))
              (new_page offset limit ''matches'' (glob_base_payload w sf p pattern) b)))"

section \<open>The collector is the greedy page\<close>

lemma page_add_stopped [simp]: "pc_should_stop p \<Longrightarrow> page_add tok x p = p"
  by (simp add: page_add_def)

lemma fold_page_stopped [simp]: "pc_should_stop p \<Longrightarrow> fold (page_add tok) xs p = p"
  by (induction xs) simp_all

text \<open>Before the offset the item itself does not matter.\<close>

lemma page_add_skips: "pc_seen p < pc_offset p \<Longrightarrow> page_add tok x p = page_add tok y p"
  by (simp add: page_add_def)

definition fits_at :: "(ustr \<Rightarrow> nat) \<Rightarrow> string \<Rightarrow> dict \<Rightarrow> response_budget \<Rightarrow> nat \<Rightarrow> json list \<Rightarrow> bool" where
  "fits_at tok key base b start items =
     fits (snd (with_budget_metadata tok
       (dict_update base [(key, JList items), (''next_offset'', jnat (start + length items))]) b True ''token_budget''))"

definition page_fits :: "(ustr \<Rightarrow> nat) \<Rightarrow> page_collector \<Rightarrow> json list \<Rightarrow> bool" where
  "page_fits tok p = fits_at tok (pc_key p) (pc_base p) (pc_budget p) (pc_offset p)"

lemma page_fits_candidate: "page_fits tok p items = fits (page_candidate tok p items)"
  by (simp add: page_fits_def fits_at_def page_candidate_def)

text \<open>The parameters of a page never change.\<close>

definition same_request :: "page_collector \<Rightarrow> page_collector \<Rightarrow> bool" where
  "same_request p q \<longleftrightarrow> pc_offset q = pc_offset p \<and> pc_limit q = pc_limit p \<and> pc_key q = pc_key p \<and>
     pc_base q = pc_base p \<and> pc_budget q = pc_budget p"

lemma page_add_request: "same_request p (page_add tok x p)"
  by (simp add: page_add_def same_request_def force_stop_def Let_def)

lemma same_request_fits: "same_request p q \<Longrightarrow> page_fits tok q = page_fits tok p"
  by (simp add: same_request_def page_fits_def)

text \<open>Skipping up to the offset.\<close>

lemma fold_page_skip:
  "\<not> pc_should_stop p \<Longrightarrow> pc_seen p + length xs \<le> pc_offset p \<Longrightarrow>
     fold (page_add tok) xs p = p\<lparr>pc_seen := pc_seen p + length xs\<rparr>"
proof (induction xs arbitrary: p)
  case (Cons x xs)
  then have "page_add tok x p = p\<lparr>pc_seen := Suc (pc_seen p)\<rparr>" by (simp add: page_add_def)
  with Cons show ?case by simp
qed simp

text \<open>
  Behind the offset, the items so far are extended greedily by the results within the limit, and the page is
  stopped exactly when a result is left over.
\<close>

definition room :: "page_collector \<Rightarrow> 'a list \<Rightarrow> 'a list" where
  "room p xs = (if pc_limit p = 0 then xs else take (pc_limit p - length (pc_items p)) xs)"

lemma greedy_longer: "length acc \<le> length (greedy f acc xs)"
  by (induction f acc xs rule: greedy.induct) auto

lemma fold_page_greedy:
  fixes p tok xs
  assumes "\<not> pc_should_stop p" "\<not> pc_truncated p" "pc_offset p \<le> pc_seen p"
  defines "q \<equiv> fold (page_add tok) xs p"
  shows "pc_items q = greedy (page_fits tok p) (pc_items p) (room p xs) \<and>
    (pc_truncated q \<longleftrightarrow> length (pc_items q) < length (pc_items p) + length xs) \<and>
    pc_should_stop q = pc_truncated q"
  using assms(1-3) unfolding q_def
proof (induction xs arbitrary: p)
  case Nil
  then show ?case by (simp add: room_def)
next
  case (Cons x xs)
  let ?full = "pc_limit p \<noteq> 0 \<and> pc_limit p \<le> length (pc_items p)"
  consider (full) ?full | (over) "\<not> ?full" "\<not> page_fits tok p (pc_items p @ [x])"
    | (kept) "\<not> ?full" "page_fits tok p (pc_items p @ [x])" by blast
  then show ?case
  proof cases
    case full
    then have add: "page_add tok x p = force_stop ''limit'' (p\<lparr>pc_seen := Suc (pc_seen p)\<rparr>)"
      using Cons.prems by (auto simp: page_add_def Let_def)
    moreover have "room p (x # xs) = []" using full by (simp add: room_def)
    ultimately show ?thesis by (simp add: force_stop_def)
  next
    case over
    then obtain r where add: "page_add tok x p = force_stop r (p\<lparr>pc_seen := Suc (pc_seen p)\<rparr>)"
      using Cons.prems by (auto simp: page_add_def Let_def page_fits_candidate)
    moreover have "room p (x # xs) = x # room p xs \<or> (\<exists>ys. room p (x # xs) = x # ys)"
      using over(1) by (cases "pc_limit p - length (pc_items p)") (auto simp: room_def)
    ultimately show ?thesis using over(2) by (auto simp: force_stop_def)
  next
    case kept
    define p' where "p' = p\<lparr>pc_seen := Suc (pc_seen p), pc_items := pc_items p @ [x]\<rparr>"
    have add: "page_add tok x p = p'"
      using kept Cons.prems by (auto simp: page_add_def Let_def page_fits_candidate p'_def)
    have "same_request p p'" by (simp add: p'_def same_request_def)
    then have f: "page_fits tok p' = page_fits tok p" by (rule same_request_fits)
    have "pc_limit p \<noteq> 0 \<Longrightarrow> pc_limit p - length (pc_items p) = Suc (pc_limit p - Suc (length (pc_items p)))"
      using kept(1) by linarith
    then have "room p (x # xs) = x # room p' xs" by (simp add: room_def p'_def)
    moreover have "\<not> pc_should_stop p'" "\<not> pc_truncated p'" "pc_offset p' \<le> pc_seen p'"
      using Cons.prems by (simp_all add: p'_def)
    note Cons.IH [OF this]
    ultimately show ?thesis using kept(2) by (simp add: add f) (simp add: p'_def)
  qed
qed

lemma collected_page:
  fixes tok xs
  assumes "p = new_page offset limit key base b" "q = fold (page_add tok) xs p"
  shows "pc_items q = greedy_page (fits_at tok key base b) (nat limit) xs (nat offset)"
    and "pc_truncated q \<longleftrightarrow> nat offset + length (pc_items q) < length xs"
    and "pc_should_stop q = pc_truncated q"
proof -
  let ?o = "nat offset"
  have split: "q = fold (page_add tok) (drop ?o xs) (fold (page_add tok) (take ?o xs) p)"
    unfolding assms(2) by (metis append_take_drop_id comp_apply fold_append)
  define p1 where "p1 = p\<lparr>pc_seen := min (length xs) ?o\<rparr>"
  have "fold (page_add tok) (take ?o xs) p = p1"
    using fold_page_skip [of p "take ?o xs" tok] by (simp add: p1_def assms(1) new_page_def min.commute)
  with split have q: "q = fold (page_add tok) (drop ?o xs) p1" by simp
  have "pc_items q = greedy_page (fits_at tok key base b) (nat limit) xs ?o \<and>
    (pc_truncated q \<longleftrightarrow> ?o + length (pc_items q) < length xs) \<and> pc_should_stop q = pc_truncated q"
  proof (cases "?o \<le> length xs")
    case True
    then have "\<not> pc_should_stop p1" "\<not> pc_truncated p1" "pc_offset p1 \<le> pc_seen p1"
      by (simp_all add: p1_def assms(1) new_page_def)
    note g = fold_page_greedy [OF this, of tok "drop ?o xs", folded q]
    have "page_fits tok p1 = fits_at tok key base b ?o" "pc_items p1 = []" "room p1 (drop ?o xs) = limited (nat limit) (drop ?o xs)"
      by (simp_all add: page_fits_def p1_def assms(1) new_page_def room_def limited_def)
    with g have "pc_items q = greedy_page (fits_at tok key base b) (nat limit) xs ?o"
      "pc_truncated q \<longleftrightarrow> length (pc_items q) < length xs - ?o" "pc_should_stop q = pc_truncated q"
      by (simp_all add: greedy_page_def)
    with True show ?thesis by (simp add: less_diff_conv add.commute)
  next
    case False
    then show ?thesis by (simp add: q p1_def assms(1) new_page_def greedy_page_def limited_def)
  qed
  then show "pc_items q = greedy_page (fits_at tok key base b) (nat limit) xs ?o"
    and "pc_truncated q \<longleftrightarrow> ?o + length (pc_items q) < length xs" and "pc_should_stop q = pc_truncated q"
    by blast+
qed

end
