(* ===== verification/SearchContent.thy ===== *)
theory SearchContent
  imports SearchPage Utf8
begin

text \<open>
  The matches of a content search with the lines around them (\<^verbatim>\<open>_ContentCollector\<close> in \<^verbatim>\<open>search.py\<close>),
  assembled from the stream of events that \<^verbatim>\<open>rg --json\<close> prints. Line numbers are those of the
  events; an error of the stream is the text of the exception.
\<close>

section \<open>Reading events\<close>

fun b64_digit :: "nat \<Rightarrow> nat option" where
  "b64_digit c =
     (if 65 \<le> c \<and> c \<le> 90 then Some (c - 65) else if 97 \<le> c \<and> c \<le> 122 then Some (c - 71)
      else if 48 \<le> c \<and> c \<le> 57 then Some (c + 4) else if c = 43 then Some 62 else if c = 47 then Some 63 else None)"

definition b64_bytes :: "nat list \<Rightarrow> bytes option" where
  "b64_bytes cs =
     (case map b64_digit cs of
        [Some a, Some b] \<Rightarrow> Some [a * 4 + b div 16]
      | [Some a, Some b, Some c] \<Rightarrow> Some [a * 4 + b div 16, b mod 16 * 16 + c div 4]
      | [Some a, Some b, Some c, Some d] \<Rightarrow> Some [a * 4 + b div 16, b mod 16 * 16 + c div 4, c mod 4 * 64 + d]
      | _ \<Rightarrow> None)"

text \<open>\<^verbatim>\<open>base64.b64decode(s, validate=True)\<close>: groups of four, padded at the end.\<close>

fun b64_decode :: "ustr \<Rightarrow> bytes option" where
  "b64_decode [] = Some []"
| "b64_decode (a # b # c # d # rest) =
     (if d = 61 then
        if rest \<noteq> [] then None
        else b64_bytes (if c = 61 then [a, b] else [a, b, c])
      else
        (case b64_bytes [a, b, c, d] of
           None \<Rightarrow> None
         | Some x \<Rightarrow> (case b64_decode rest of None \<Rightarrow> None | Some y \<Rightarrow> Some (x @ y))))"
| "b64_decode _ = None"

definition quoted :: "string \<Rightarrow> ustr" where
  "quoted label = [39] @ u label @ [39]"

definition decode_json_value :: "json option \<Rightarrow> string \<Rightarrow> ustr + ustr" where
  "decode_json_value v label =
     (case v of
        Some (JObj d) \<Rightarrow>
          (case (map_of d ''text'', map_of d ''bytes'') of
             (Some (JStr s), _) \<Rightarrow> Inr s
           | (_, Some (JStr e)) \<Rightarrow>
               (case b64_decode e of
                  Some raw \<Rightarrow>
                    (case utf8_decode raw of
                       Some s \<Rightarrow> Inr s
                     | None \<Rightarrow> Inl (u ''ripgrep returned non-UTF-8 '' @ u label @ u ''; this search API only returns UTF-8 text''))
                | None \<Rightarrow> Inl (u ''ripgrep returned non-UTF-8 '' @ u label @ u ''; this search API only returns UTF-8 text''))
           | _ \<Rightarrow> Inl (u ''ripgrep JSON field '' @ quoted label @ u '' has neither text nor bytes''))
      | _ \<Rightarrow> Inl (u ''ripgrep JSON field '' @ quoted label @ u '' is not an object''))"

text \<open>\<^verbatim>\<open>isinstance(value, int)\<close>, which \<^verbatim>\<open>True\<close> and \<^verbatim>\<open>False\<close> are.\<close>

definition python_int :: "json option \<Rightarrow> int option" where
  "python_int v = (case v of Some (JInt i) \<Rightarrow> Some i | Some (JBool b) \<Rightarrow> Some (of_bool b) | _ \<Rightarrow> None)"

section \<open>The state\<close>

record content_item =
  it_path :: ustr
  it_line :: int
  it_text :: ustr
  it_before :: "ustr list"
  it_after :: "ustr list"
  it_through :: int
  it_numbers :: "int list"
  it_end :: "int option"

definition item_json :: "content_item \<Rightarrow> json" where
  "item_json i =
     JObj ([(''path'', JStr (it_path i)), (''line_number'', JInt (it_line i)), (''line'', JStr (it_text i)),
            (''context_before'', JList (map JStr (it_before i))), (''context_after'', JList (map JStr (it_after i)))] @
           (case it_end i of None \<Rightarrow> [] | Some e \<Rightarrow> [(''end_line_number'', JInt e)]))"

record content_collector =
  cc_page :: page_collector
  cc_before :: int
  cc_after :: int
  cc_multiline :: bool
  cc_only_matching :: bool
  cc_current :: "ustr option"
  cc_recent :: "(int \<times> ustr) list"
  cc_order :: "int list"
  cc_pending :: "content_item list"

definition new_content :: "page_collector \<Rightarrow> int \<Rightarrow> int \<Rightarrow> bool \<Rightarrow> bool \<Rightarrow> content_collector" where
  "new_content page before after multiline only =
     \<lparr>cc_page = page, cc_before = max before 0, cc_after = max after 0, cc_multiline = multiline, cc_only_matching = only,
      cc_current = None, cc_recent = [], cc_order = [], cc_pending = []\<rparr>"

definition max_pending_content_matches :: nat where
  "max_pending_content_matches = 1000"

section \<open>Operations\<close>

definition queue_item :: "(ustr \<Rightarrow> nat) \<Rightarrow> content_item \<Rightarrow> content_collector \<Rightarrow> content_collector" where
  "queue_item tok i st =
     (if pc_should_stop (cc_page st) then st
      else if pc_seen (cc_page st) < pc_offset (cc_page st) \<and> cc_pending st = []
        then st\<lparr>cc_page := page_add tok (item_json i) (cc_page st)\<rparr>
      else if max_pending_content_matches \<le> length (cc_pending st)
        then st\<lparr>cc_pending := [], cc_page := force_stop ''context_buffer_limit'' (cc_page st)\<rparr>
      else st\<lparr>cc_pending := cc_pending st @ [i]\<rparr>)"

fun flush_items ::
  "(ustr \<Rightarrow> nat) \<Rightarrow> int option \<Rightarrow> page_collector \<Rightarrow> content_item list \<Rightarrow> page_collector \<times> content_item list" where
  "flush_items tok before_line p [] = (p, [])"
| "flush_items tok before_line p (i # is) =
     (if (case before_line of None \<Rightarrow> False | Some l \<Rightarrow> l \<le> it_through i) then (p, i # is)
      else
        let p' = page_add tok (item_json i) p in
        if pc_should_stop p' then (p', []) else flush_items tok before_line p' is)"

definition flush_pending :: "(ustr \<Rightarrow> nat) \<Rightarrow> int option \<Rightarrow> content_collector \<Rightarrow> content_collector" where
  "flush_pending tok before_line st =
     (case flush_items tok before_line (cc_page st) (cc_pending st) of
        (p, is) \<Rightarrow> st\<lparr>cc_page := p, cc_pending := is\<rparr>)"

definition record_recent :: "int \<Rightarrow> ustr \<Rightarrow> content_collector \<Rightarrow> content_collector" where
  "record_recent n text st =
     st\<lparr>cc_order := (if map_of (cc_recent st) n = None then cc_order st @ [n] else cc_order st),
        cc_recent := AList.update n text (cc_recent st)\<rparr>"

definition trim_recent :: "int \<Rightarrow> content_collector \<Rightarrow> content_collector" where
  "trim_recent current_end st =
     (let keep_from = max (current_end - cc_before st + 1) 1;
          old = takeWhile (\<lambda>n. n < keep_from) (cc_order st) in
      st\<lparr>cc_order := dropWhile (\<lambda>n. n < keep_from) (cc_order st), cc_recent := fold AList.delete old (cc_recent st)\<rparr>)"

definition context_before :: "content_collector \<Rightarrow> int \<Rightarrow> ustr list" where
  "context_before st start =
     concat (map (\<lambda>n. case map_of (cc_recent st) n of None \<Rightarrow> [] | Some l \<Rightarrow> [l])
       [max (start - cc_before st) 1 .. start - 1])"

definition number_lines :: "int \<Rightarrow> ustr list \<Rightarrow> (int \<times> ustr) list" where
  "number_lines n ls = zip (map (\<lambda>k. n + int k) [0..<length ls]) ls"

text \<open>A later line of the file is context of the items that reach to it.\<close>

definition add_context_line :: "int \<times> ustr \<Rightarrow> content_item \<Rightarrow> content_item" where
  "add_context_line nl i =
     (case nl of (n, line) \<Rightarrow>
        if (case it_end i of None \<Rightarrow> it_line i | Some e \<Rightarrow> e) < n \<and> n \<le> it_through i \<and> n \<notin> set (it_numbers i)
        then i\<lparr>it_after := it_after i @ [line], it_numbers := n # it_numbers i\<rparr>
        else i)"

definition finish_file :: "(ustr \<Rightarrow> nat) \<Rightarrow> content_collector \<Rightarrow> content_collector" where
  "finish_file tok st = (flush_pending tok None st)\<lparr>cc_recent := [], cc_order := [], cc_current := None\<rparr>"

definition count_newlines :: "nat list \<Rightarrow> nat" where
  "count_newlines s = length (filter (\<lambda>c. c = 10) s)"

definition submatch_details :: "int \<Rightarrow> ustr \<Rightarrow> json \<Rightarrow> ustr + (int \<times> int \<times> ustr)" where
  "submatch_details line_number text submatch =
     (case submatch of
        JObj d \<Rightarrow>
          (case (python_int (map_of d ''start''), python_int (map_of d ''end'')) of
             (Some start, Some stop) \<Rightarrow>
               (case decode_json_value (map_of d ''match'') ''submatch'' of
                  Inl e \<Rightarrow> Inl e
                | Inr match_text \<Rightarrow>
                    let raw = utf8_encode text in
                    if start < 0 \<or> stop < start \<or> int (length raw) < stop
                      then Inl (u ''ripgrep JSON submatch byte offsets are out of range'')
                    else
                      let start_line = line_number + int (count_newlines (take (nat start) raw)) in
                      Inr (start_line, start_line + int (count_newlines match_text), match_text))
           | _ \<Rightarrow> Inl (u ''ripgrep JSON submatch has invalid byte offsets''))
      | _ \<Rightarrow> Inl (u ''ripgrep JSON submatch is not an object''))"

definition match_item :: "content_collector \<Rightarrow> ustr \<Rightarrow> int \<Rightarrow> int \<Rightarrow> ustr \<Rightarrow> bool \<Rightarrow> content_item" where
  "match_item st path start_line end_line text with_end =
     \<lparr>it_path = path, it_line = start_line, it_text = text, it_before = context_before st start_line, it_after = [],
      it_through = end_line + cc_after st, it_numbers = [], it_end = (if with_end then Some end_line else None)\<rparr>"

fun queue_submatches ::
  "(ustr \<Rightarrow> nat) \<Rightarrow> ustr \<Rightarrow> int \<Rightarrow> ustr \<Rightarrow> json list \<Rightarrow> content_collector \<Rightarrow> ustr + content_collector" where
  "queue_submatches tok path n text [] st = Inr st"
| "queue_submatches tok path n text (s # ss) st =
     (case submatch_details n text s of
        Inl e \<Rightarrow> Inl e
      | Inr (start_line, end_line, match_text) \<Rightarrow>
          let st' = queue_item tok (match_item st path start_line end_line match_text (cc_multiline st)) st in
          if pc_should_stop (cc_page st') then Inr st' else queue_submatches tok path n text ss st')"

text \<open>A match or context event that has been read; \<open>None\<close> is context.\<close>

definition event_lines :: "ustr \<Rightarrow> ustr list" where
  "event_lines text = (if text = [] then [[]] else splitlines text)"

definition enter_file :: "(ustr \<Rightarrow> nat) \<Rightarrow> ustr \<Rightarrow> content_collector \<Rightarrow> content_collector" where
  "enter_file tok path st =
     (if cc_current st = Some path then st else (finish_file tok st)\<lparr>cc_current := Some path\<rparr>)"

definition feed_match ::
  "(ustr \<Rightarrow> nat) \<Rightarrow> ustr \<Rightarrow> int \<Rightarrow> ustr \<Rightarrow> json list \<Rightarrow> content_collector \<Rightarrow> ustr + content_collector" where
  "feed_match tok path n text submatches st =
     (if cc_multiline st \<or> cc_only_matching st then queue_submatches tok path n text submatches st
      else Inr (queue_item tok (match_item st path n n (hd (event_lines text)) False) st))"

definition feed_event ::
  "(ustr \<Rightarrow> nat) \<Rightarrow> ustr \<Rightarrow> int \<Rightarrow> ustr \<Rightarrow> json list option \<Rightarrow> content_collector \<Rightarrow> ustr + content_collector" where
  "feed_event tok path n text submatches st =
     (let lines = event_lines text; numbered = number_lines n lines; event_end = n + int (length lines) - 1;
          st1 = flush_pending tok (Some n) (enter_file tok path st);
          st2 = st1\<lparr>cc_pending := map (fold add_context_line numbered) (cc_pending st1)\<rparr> in
      case (case submatches of None \<Rightarrow> Inr st2 | Some ss \<Rightarrow> feed_match tok path n text ss st2) of
        Inl e \<Rightarrow> Inl e
      | Inr st3 \<Rightarrow>
          Inr (flush_pending tok (Some (event_end + 1))
            (trim_recent event_end (fold (\<lambda>(k, l). record_recent k l) numbered st3))))"

text \<open>
  \<^verbatim>\<open>feed\<close> on the data of an event. \<open>absolute\<close> is \<^verbatim>\<open>_absolute_result_path\<close>; \<open>int_error\<close> the message of
  \<^verbatim>\<open>int(value)\<close> when it fails.
\<close>

definition absolute_offset_error :: "(json \<Rightarrow> ustr option) \<Rightarrow> dict \<Rightarrow> ustr option" where
  "absolute_offset_error int_error data =
     (case map_of data ''absolute_offset'' of None \<Rightarrow> None | Some v \<Rightarrow> int_error v)"

definition feed ::
  "(ustr \<Rightarrow> nat) \<Rightarrow> (ustr \<Rightarrow> ustr) \<Rightarrow> (json \<Rightarrow> ustr option) \<Rightarrow> string \<Rightarrow> dict \<Rightarrow> content_collector
   \<Rightarrow> ustr + content_collector" where
  "feed tok absolute int_error event_type data st =
     (if pc_should_stop (cc_page st) then Inr st
      else if event_type = ''end'' then Inr (finish_file tok st)
      else if event_type \<noteq> ''match'' \<and> event_type \<noteq> ''context'' then Inr st
      else case decode_json_value (map_of data ''path'') ''path'' of
        Inl e \<Rightarrow> Inl e
      | Inr raw_path \<Rightarrow>
        (case decode_json_value (map_of data ''lines'') ''lines'' of
           Inl e \<Rightarrow> Inl e
         | Inr text \<Rightarrow>
           (case python_int (map_of data ''line_number'') of
              None \<Rightarrow> Inl (u ''ripgrep JSON event is missing an integer line_number'')
            | Some n \<Rightarrow>
                if event_type = ''context'' then feed_event tok (absolute raw_path) n text None st
                else case map_of data ''submatches'' of
                  Some (JList ss) \<Rightarrow>
                    (case absolute_offset_error int_error data of
                       Some e \<Rightarrow> Inl e
                     | None \<Rightarrow> feed_event tok (absolute raw_path) n text (Some ss) st)
                | None \<Rightarrow>
                    (case absolute_offset_error int_error data of
                       Some e \<Rightarrow> Inl e
                     | None \<Rightarrow> feed_event tok (absolute raw_path) n text (Some []) st)
                | _ \<Rightarrow> Inl (u ''ripgrep JSON submatches field is not a list''))))"

end
