(* ===== verification/SearchContext.thy ===== *)
theory SearchContext
  imports SearchContent
begin

text \<open>
  The content collector against its specification. The collector keeps a few recent lines and the matches
  whose context is not complete; the specification looks at all lines of the file at once. The lemmas follow
  the collector through the events of one file: what it has given to the page so far are the first
  matches of the specification, and what it keeps are the next ones with the context known so far.
\<close>

section \<open>The specification\<close>

text \<open>An event: line number, text, and its submatches when it is a match.\<close>

type_synonym line_event = "int \<times> ustr \<times> json list option"

definition lines_of :: "line_event list \<Rightarrow> (int \<times> ustr) list" where
  "lines_of E = map (\<lambda>(n, t, s). (n, hd (event_lines t))) E"

definition matches_of :: "line_event list \<Rightarrow> (int \<times> ustr) list" where
  "matches_of E = lines_of (filter (\<lambda>(n, t, s). s \<noteq> None) E)"

definition lines_between :: "int \<Rightarrow> int \<Rightarrow> (int \<times> ustr) list \<Rightarrow> (int \<times> ustr) list" where
  "lines_between a b ls = filter (\<lambda>(k, l). a \<le> k \<and> k \<le> b) ls"

definition seen_item :: "int \<Rightarrow> int \<Rightarrow> ustr \<Rightarrow> line_event list \<Rightarrow> int \<times> ustr \<Rightarrow> content_item" where
  "seen_item before after path E m =
     (case m of (n, l) \<Rightarrow>
        \<lparr>it_path = path, it_line = n, it_text = l,
         it_before = map snd (lines_between (n - before) (n - 1) (lines_of E)),
         it_after = map snd (lines_between (n + 1) (n + after) (lines_of E)),
         it_through = n + after, it_numbers = rev (map fst (lines_between (n + 1) (n + after) (lines_of E))),
         it_end = None\<rparr>)"

definition context_items :: "int \<Rightarrow> int \<Rightarrow> ustr \<Rightarrow> line_event list \<Rightarrow> json list" where
  "context_items before after path E = map (\<lambda>m. item_json (seen_item before after path E m)) (matches_of E)"

definition rising :: "line_event list \<Rightarrow> bool" where
  "rising E \<longleftrightarrow> sorted_wrt (<) (map fst E) \<and> (\<forall>(n, t, s) \<in> set E. 1 \<le> n \<and> length (event_lines t) = 1)"

text \<open>Feeding the events of one file; a page that is full takes no more.\<close>

definition feed_line :: "(ustr \<Rightarrow> nat) \<Rightarrow> ustr \<Rightarrow> line_event \<Rightarrow> content_collector \<Rightarrow> content_collector" where
  "feed_line tok path e st =
     (if pc_should_stop (cc_page st) then st
      else case e of (n, t, s) \<Rightarrow> (case feed_event tok path n t s st of Inr st' \<Rightarrow> st' | Inl err \<Rightarrow> st))"

section \<open>Lists of numbered lines\<close>

lemma lines_of_simps [simp]:
  "lines_of [] = []" "lines_of ((n, t, s) # E) = (n, hd (event_lines t)) # lines_of E" "lines_of (P @ Q) = lines_of P @ lines_of Q"
  by (simp_all add: lines_of_def)

lemma fst_lines_of [simp]: "map fst (lines_of E) = map fst E"
  by (induction E) (auto simp: lines_of_def)

lemma matches_of_append [simp]: "matches_of (P @ Q) = matches_of P @ matches_of Q"
  by (simp add: matches_of_def)

lemma matches_of_one [simp]:
  "matches_of [(n, t, s)] = (if s = None then [] else [(n, hd (event_lines t))])"
  by (simp add: matches_of_def)

lemma lines_between_append [simp]: "lines_between a b (xs @ ys) = lines_between a b xs @ lines_between a b ys"
  by (simp add: lines_between_def)

lemma lines_between_one: "lines_between a b [(k, l)] = (if a \<le> k \<and> k \<le> b then [(k, l)] else [])"
  by (simp add: lines_between_def)

lemma lines_between_none:
  "(\<And>k. k \<in> fst ` set ls \<Longrightarrow> k < a \<or> b < k) \<Longrightarrow> lines_between a b ls = []"
  by (fastforce simp: lines_between_def filter_empty_conv)

lemma lines_between_within: "a \<le> c \<Longrightarrow> lines_between c b (filter (\<lambda>(k, l). a \<le> k) ls) = lines_between c b ls"
  unfolding lines_between_def filter_filter by (rule filter_cong) auto

definition line_at :: "(int \<times> ustr) list \<Rightarrow> int \<Rightarrow> ustr list" where
  "line_at ls k = (case map_of ls k of None \<Rightarrow> [] | Some l \<Rightarrow> [l])"

lemma line_at_simps [simp]:
  "line_at [] j = []" "line_at ((k, l) # ls) j = (if j = k then [l] else line_at ls j)"
  by (simp_all add: line_at_def)

lemma line_at_none: "j \<notin> fst ` set ls \<Longrightarrow> line_at ls j = []"
  by (simp add: line_at_def map_of_eq_None_iff [THEN iffD2])

lemma sorted_map_of_range:
  assumes "sorted_wrt (<) (map fst xs)"
  shows "concat (map (line_at xs) [lo..hi]) = map snd (lines_between lo hi xs)"
  using assms
proof (induction xs arbitrary: lo)
  case Nil
  then show ?case by (simp add: lines_between_def)
next
  case (Cons x xs)
  obtain k l where x: "x = (k, l)" by fastforce
  from Cons.prems have later: "\<And>j. j \<in> fst ` set xs \<Longrightarrow> k < j" and sorted: "sorted_wrt (<) (map fst xs)" by (auto simp: x)
  show ?case
  proof (cases "lo \<le> k \<and> k \<le> hi")
    case False
    then have "map (line_at (x # xs)) [lo..hi] = map (line_at xs) [lo..hi]" by (intro map_cong) (auto simp: x)
    moreover have "lines_between lo hi (x # xs) = lines_between lo hi xs" using False by (auto simp: lines_between_def x)
    ultimately show ?thesis by (simp only: Cons.IH [OF sorted, of lo])
  next
    case True
    have "[lo..hi] = [lo..k - 1] @ [k..hi]" using True upto_split1 [of lo k hi] by simp
    also have "[k..hi] = k # [k + 1..hi]" using True by (simp add: upto_rec1)
    finally have range: "[lo..hi] = [lo..k - 1] @ k # [k + 1..hi]" .
    have "line_at (x # xs) j = []" if "j < k" for j
      using that later by (force simp: x intro: line_at_none)
    then have "concat (map (line_at (x # xs)) [lo..k - 1]) = []" by simp
    moreover have "map (line_at (x # xs)) [k + 1..hi] = map (line_at xs) [k + 1..hi]"
      by (intro map_cong) (auto simp: x)
    moreover have "lines_between (k + 1) hi xs = lines_between lo hi xs"
      unfolding lines_between_def by (rule filter_cong) (use later True in force)+
    ultimately have "concat (map (line_at (x # xs)) [lo..hi]) = l # map snd (lines_between lo hi xs)"
      using Cons.IH [OF sorted, of "k + 1"] by (simp only: range map_append concat_append list.map concat.simps) (simp add: x)
    moreover have "lines_between lo hi (x # xs) = (k, l) # lines_between lo hi xs"
      using True by (simp add: x lines_between_def)
    ultimately show ?thesis by simp
  qed
qed

lemma sorted_filter_split:
  assumes "sorted_wrt (<) (ks :: int list)"
  shows "takeWhile (\<lambda>k. k < a) ks = filter (\<lambda>k. k < a) ks" "dropWhile (\<lambda>k. k < a) ks = filter (\<lambda>k. a \<le> k) ks"
  using assms
  by (induction ks) (auto simp: filter_empty_conv empty_filter_conv not_less intro!: filter_True [symmetric])

section \<open>Flushing\<close>

definition ready :: "int option \<Rightarrow> content_item \<Rightarrow> bool" where
  "ready b i \<longleftrightarrow> (case b of None \<Rightarrow> True | Some l \<Rightarrow> it_through i < l)"

lemma flush_items_split:
  assumes "\<not> pc_should_stop p" "q = fold (page_add tok) (map item_json (takeWhile (ready b) is)) p"
  shows "flush_items tok b p is = (q, if pc_should_stop q then [] else dropWhile (ready b) is)"
  using assms
proof (induction tok b p "is" rule: flush_items.induct)
  case (2 tok b p i "is")
  show ?case
  proof (cases "ready b i")
    case True
    then show ?thesis
      using 2 by (cases "pc_should_stop (page_add tok (item_json i) p)")
        (auto simp: ready_def Let_def split: option.splits)
  qed (use 2 in \<open>auto simp: ready_def split: option.splits\<close>)
qed simp

section \<open>The recent lines\<close>

definition kept_from :: "int \<Rightarrow> line_event list \<Rightarrow> int" where
  "kept_from before P = (if P = [] then 1 else max (fst (last P) - before + 1) 1)"

definition recent_lines :: "int \<Rightarrow> line_event list \<Rightarrow> (int \<times> ustr) list" where
  "recent_lines before P = filter (\<lambda>(k, l). kept_from before P \<le> k) (lines_of P)"

definition recent_ok :: "line_event list \<Rightarrow> content_collector \<Rightarrow> bool" where
  "recent_ok P st \<longleftrightarrow> map_of (cc_recent st) = map_of (recent_lines (cc_before st) P) \<and>
     cc_order st = map fst (recent_lines (cc_before st) P)"

lemma rising_append:
  "rising (P @ Q) \<longleftrightarrow> rising P \<and> rising Q \<and> (\<forall>e \<in> set P. \<forall>f \<in> set Q. fst e < fst f)"
  by (fastforce simp: rising_def sorted_wrt_append)

lemma rising_sorted: "rising P \<Longrightarrow> sorted_wrt (<) (map fst (lines_of P))"
  by (simp add: rising_def)

lemma sorted_recent: "rising P \<Longrightarrow> sorted_wrt (<) (map fst (recent_lines before P))"
  using rising_sorted [of P] unfolding recent_lines_def sorted_wrt_map by (blast intro: sorted_wrt_filter)

lemma lines_of_fst: "fst ` set (lines_of P) = fst ` set P"
  by (metis fst_lines_of list.set_map)

lemma rising_last:
  assumes "rising (P @ [e])" "k \<in> fst ` set (lines_of P)"
  shows "1 \<le> k \<and> k < fst e"
proof -
  obtain e0 where "e0 \<in> set P" "k = fst e0" using assms(2) by (auto simp: lines_of_fst)
  moreover from assms(1) this have "rising P" "fst e0 < fst e" unfolding rising_append by simp_all
  ultimately show ?thesis by (auto simp: rising_def)
qed

lemma trim_recent_keeps:
  assumes "map_of (cc_recent st) = map_of rs" "cc_order st = map fst rs" "sorted_wrt (<) (map fst rs)"
    and "keep = max (e - cc_before st + 1) 1"
  shows "cc_order (trim_recent e st) = map fst (filter (\<lambda>(k, l). keep \<le> k) rs)"
    and "map_of (cc_recent (trim_recent e st)) = map_of (filter (\<lambda>(k, l). keep \<le> k) rs)"
proof -
  note split = sorted_filter_split [OF assms(3), of keep]
  have "cc_order (trim_recent e st) = dropWhile (\<lambda>k. k < keep) (map fst rs)"
    by (simp add: trim_recent_def Let_def assms(4) assms(2) del: max_less_iff_conj)
  also have "\<dots> = map fst (filter (\<lambda>(k, l). keep \<le> k) rs)"
    unfolding split by (simp only: filter_map comp_def case_prod_beta')
  finally show "cc_order (trim_recent e st) = map fst (filter (\<lambda>(k, l). keep \<le> k) rs)" .
  have "cc_recent (trim_recent e st) = fold AList.delete (takeWhile (\<lambda>k. k < keep) (map fst rs)) (cc_recent st)"
    unfolding trim_recent_def Let_def by (simp only: assms(2) assms(4)) simp
  then have d: "map_of (cc_recent (trim_recent e st)) k = (if k \<in> fst ` set rs \<and> k < keep then None else map_of rs k)" for k
    by (simp only: split deleted_keys assms(1)) auto
  have "map_of (filter (\<lambda>(k, l). keep \<le> k) rs) k = (if k \<in> fst ` set rs \<and> k < keep then None else map_of rs k)" for k
    by (induction rs) (auto simp: map_of_eq_None_iff)
  with d show "map_of (cc_recent (trim_recent e st)) = map_of (filter (\<lambda>(k, l). keep \<le> k) rs)" by auto
qed

lemma context_before_recent:
  assumes "recent_ok P st" "rising (P @ [(n, t, s)])" "0 \<le> cc_before st"
  shows "context_before st n = map snd (lines_between (n - cc_before st) (n - 1) (lines_of P))"
proof -
  let ?recent = "recent_lines (cc_before st) P"
  have rP: "rising P" using assms(2) by (simp add: rising_append)
  have "context_before st n = concat (map (line_at ?recent) [max (n - cc_before st) 1 .. n - 1])"
    using assms(1) by (simp add: context_before_def recent_ok_def line_at_def [abs_def])
  also have "\<dots> = map snd (lines_between (max (n - cc_before st) 1) (n - 1) ?recent)"
    by (rule sorted_map_of_range [OF sorted_recent [OF rP]])
  also have "lines_between (max (n - cc_before st) 1) (n - 1) ?recent = lines_between (max (n - cc_before st) 1) (n - 1) (lines_of P)"
  proof -
    have "kept_from (cc_before st) P \<le> max (n - cc_before st) 1"
    proof (cases "P = []")
      case False
      then have "fst (last P) \<in> fst ` set (lines_of P)" by (simp add: lines_of_fst)
      from rising_last [OF assms(2) this] have "fst (last P) < n" by simp
      with False show ?thesis by (simp add: kept_from_def)
    qed (simp add: kept_from_def)
    then show ?thesis unfolding recent_lines_def by (rule lines_between_within)
  qed
  also have "\<dots> = lines_between (n - cc_before st) (n - 1) (lines_of P)"
    unfolding lines_between_def by (rule filter_cong) (use rising_last [OF assms(2)] in force)+
  finally show ?thesis .
qed

lemma recent_step:
  assumes "recent_ok P st" "rising (P @ [(n, t, s)])" "0 \<le> cc_before st" "l = hd (event_lines t)"
  shows "recent_ok (P @ [(n, t, s)]) (trim_recent n (record_recent n l st))"
proof -
  let ?recent = "recent_lines (cc_before st) P" and ?keep = "max (n - cc_before st + 1) 1"
  define st1 where "st1 = record_recent n l st"
  have new: "n \<notin> fst ` set (lines_of P)" using rising_last [OF assms(2)] by fastforce
  then have "n \<notin> fst ` set ?recent" by (force simp: recent_lines_def)
  then have unseen: "map_of ?recent n = None" by (simp add: map_of_eq_None_iff)
  then have "map_of (cc_recent st) n = None" using assms(1) by (simp add: recent_ok_def)
  then have order: "cc_order st1 = map fst (?recent @ [(n, l)])" and recent: "map_of (cc_recent st1) = map_of (?recent @ [(n, l)])"
    using assms(1) unseen
    by (auto simp: st1_def record_recent_def recent_ok_def dict_simps fun_eq_iff map_add_def split: option.split)
  have sorted: "sorted_wrt (<) (map fst (?recent @ [(n, l)]))"
    using sorted_recent [of P "cc_before st"] assms(2) rising_last [OF assms(2)]
    by (auto simp: sorted_wrt_append rising_append recent_lines_def)
  define keep where "keep = max (n - cc_before st + 1) 1"
  have before: "cc_before st1 = cc_before st" by (simp add: st1_def record_recent_def)
  have kept: "kept_from (cc_before st) (P @ [(n, t, s)]) = keep" by (simp add: kept_from_def keep_def)
  have new_recent: "recent_lines (cc_before st) (P @ [(n, t, s)]) = filter (\<lambda>(k, l). keep \<le> k) (?recent @ [(n, l)])"
  proof -
    have "kept_from (cc_before st) P \<le> keep"
      using rising_last [OF assms(2), of "fst (last P)"] by (cases "P = []") (auto simp: kept_from_def keep_def lines_of_fst)
    then have "filter (\<lambda>(k, l). keep \<le> k) ?recent = filter (\<lambda>(k, l). keep \<le> k) (lines_of P)"
      unfolding recent_lines_def filter_filter by (intro filter_cong) auto
    then show ?thesis unfolding recent_lines_def [of _ "P @ _"] kept by (simp add: assms(4))
  qed
  have keep1: "keep = max (n - cc_before st1 + 1) 1" by (simp only: keep_def before)
  have "cc_before (trim_recent n st1) = cc_before st" by (simp add: trim_recent_def Let_def before)
  then show ?thesis
    using trim_recent_keeps [OF recent order sorted keep1] new_recent
    by (simp only: recent_ok_def st1_def simp_thms)
qed

section \<open>The invariant\<close>

definition full_items :: "int \<Rightarrow> int \<Rightarrow> ustr \<Rightarrow> line_event list \<Rightarrow> (int \<times> ustr) list \<Rightarrow> json list" where
  "full_items before after path E ms = map (\<lambda>m. item_json (seen_item before after path E m)) ms"

definition items_given :: "(ustr \<Rightarrow> nat) \<Rightarrow> page_collector \<Rightarrow> ustr \<Rightarrow> line_event list \<Rightarrow> line_event list \<Rightarrow> nat \<Rightarrow> content_collector \<Rightarrow> bool" where
  "items_given tok p0 path E P k st \<longleftrightarrow> k \<le> length (matches_of P) \<and>
     cc_page st = fold (page_add tok) (full_items (cc_before st) (cc_after st) path E (take k (matches_of P))) p0 \<and>
     (\<not> pc_should_stop (cc_page st) \<longrightarrow>
        cc_pending st = map (seen_item (cc_before st) (cc_after st) path P) (drop k (matches_of P)))"

definition line_mode :: "content_collector \<Rightarrow> bool" where
  "line_mode st \<longleftrightarrow> \<not> cc_multiline st \<and> \<not> cc_only_matching st \<and> 0 \<le> cc_before st \<and> 0 \<le> cc_after st \<and>
     cc_after st < int max_pending_content_matches"

lemma seen_item_simps [simp]:
  "it_through (seen_item b a path E m) = fst m + a" "it_line (seen_item b a path E m) = fst m"
  by (simp_all add: seen_item_def case_prod_beta)

lemma matches_of_subset: "m \<in> set (matches_of P) \<Longrightarrow> fst m \<in> fst ` set P"
  by (force simp: matches_of_def lines_of_def)

text \<open>Lines behind the context of a match do not change it.\<close>

lemma seen_item_complete:
  assumes "\<And>f. f \<in> set S \<Longrightarrow> n + a < fst f \<and> n < fst f"
  shows "seen_item b a path (P @ S) (n, l) = seen_item b a path P (n, l)"
proof -
  have far: "n + a < j \<and> n < j" if "j \<in> fst ` set (lines_of S)" for j
    using assms that by (auto simp: lines_of_fst)
  then have "lines_between (n + 1) (n + a) (lines_of S) = []" by (intro lines_between_none) fastforce
  moreover from far have "lines_between (n - b) (n - 1) (lines_of S) = []" by (intro lines_between_none) fastforce
  ultimately show ?thesis by (simp add: seen_item_def)
qed

lemma seen_item_next:
  assumes "rising (P @ [(k, t, s)])" "n < k"
  shows "seen_item b a path (P @ [(k, t, s)]) (n, l) = add_context_line (k, hd (event_lines t)) (seen_item b a path P (n, l))"
proof -
  have "k \<notin> fst ` set (lines_between (n + 1) (n + a) (lines_of P))"
    using rising_last [OF assms(1), of k] by (auto simp: lines_between_def)
  with assms(2) show ?thesis
    by (simp add: seen_item_def add_context_line_def lines_between_one)
qed

lemma flush_given:
  assumes g: "items_given tok p0 path E P k st" and run: "\<not> pc_should_stop (cc_page st)"
    and complete: "\<And>m. m \<in> set (matches_of P) \<Longrightarrow> ready bound (seen_item (cc_before st) (cc_after st) path P m) \<Longrightarrow>
      seen_item (cc_before st) (cc_after st) path P m = seen_item (cc_before st) (cc_after st) path E m"
  obtains k' where "items_given tok p0 path E P k' (flush_pending tok bound st)"
    "\<not> pc_should_stop (cc_page (flush_pending tok bound st)) \<Longrightarrow>
      cc_pending (flush_pending tok bound st) = dropWhile (ready bound) (cc_pending st)"
proof -
  let ?item = "seen_item (cc_before st) (cc_after st) path P" and ?M = "matches_of P"
  let ?full = "full_items (cc_before st) (cc_after st) path E"
  define T where "T = takeWhile (\<lambda>m. ready bound (?item m)) (drop k ?M)"
  define q where "q = fold (page_add tok) (?full T) (cc_page st)"
  have k: "k \<le> length ?M" and page: "cc_page st = fold (page_add tok) (?full (take k ?M)) p0"
    and pending: "cc_pending st = map ?item (drop k ?M)"
    using g run by (simp_all add: items_given_def)
  have T: "takeWhile (ready bound) (cc_pending st) = map ?item T" by (simp add: pending takeWhile_map T_def comp_def)
  have "map item_json (map ?item T) = ?full T"
  proof -
    have "?item m = seen_item (cc_before st) (cc_after st) path E m" if "m \<in> set T" for m
      using that complete [of m] set_takeWhileD [of m] in_set_dropD [of m k ?M] unfolding T_def by blast
    then show ?thesis by (simp add: full_items_def)
  qed
  with flush_items_split [OF run, of q tok bound "cc_pending st"] T
  have fl: "flush_pending tok bound st = st\<lparr>cc_page := q, cc_pending := if pc_should_stop q then [] else dropWhile (ready bound) (cc_pending st)\<rparr>"
    by (simp add: flush_pending_def q_def)
  have lenT: "take (length T) (drop k ?M) = T"
    unfolding T_def by (metis takeWhile_eq_take length_takeWhile_le min.absorb2 length_take)
  then have take: "take (k + length T) ?M = take k ?M @ T" by (simp add: take_add)
  have "length T \<le> length ?M - k" unfolding T_def by (metis length_takeWhile_le length_drop)
  with k have k': "k + length T \<le> length ?M" by simp
  have "dropWhile (ready bound) (cc_pending st) = map ?item (drop (length T) (drop k ?M))"
    by (simp add: pending dropWhile_eq_drop takeWhile_map T_def comp_def drop_map)
  then have "items_given tok p0 path E P (k + length T) (flush_pending tok bound st)"
    using k' take by (simp add: items_given_def fl page q_def full_items_def add.commute)
  then show thesis by (rule that) (simp add: fl)
qed

lemma flush_pending_fields [simp]:
  "cc_recent (flush_pending tok b st) = cc_recent st" "cc_order (flush_pending tok b st) = cc_order st"
  "cc_current (flush_pending tok b st) = cc_current st" "cc_before (flush_pending tok b st) = cc_before st"
  "cc_after (flush_pending tok b st) = cc_after st" "cc_multiline (flush_pending tok b st) = cc_multiline st"
  "cc_only_matching (flush_pending tok b st) = cc_only_matching st"
  by (simp_all add: flush_pending_def split: prod.split)

lemma flush_nothing: "cc_pending st = [] \<Longrightarrow> flush_pending tok b st = st"
  by (simp add: flush_pending_def)

text \<open>What an operation on the pending items and the page leaves alone.\<close>

definition same_lines :: "content_collector \<Rightarrow> content_collector \<Rightarrow> bool" where
  "same_lines st st' \<longleftrightarrow> cc_recent st' = cc_recent st \<and> cc_order st' = cc_order st \<and> cc_before st' = cc_before st \<and>
     cc_after st' = cc_after st \<and> cc_multiline st' = cc_multiline st \<and> cc_only_matching st' = cc_only_matching st \<and>
     cc_current st' = cc_current st"

lemma same_lines_flush: "same_lines st (flush_pending tok b st)"
  by (simp add: same_lines_def)

lemma same_lines_queue: "same_lines st (queue_item tok i st)"
  by (simp add: same_lines_def queue_item_def)

lemma same_lines_recent: "same_lines st st' \<Longrightarrow> recent_ok P st \<Longrightarrow> recent_ok P st'"
  by (simp add: same_lines_def recent_ok_def)

lemma enter_given:
  assumes "items_given tok p0 path E P k st" "\<not> pc_should_stop (cc_page st)" "recent_ok P st"
    and "P \<noteq> [] \<Longrightarrow> cc_current st = Some path"
  shows "\<exists>r o'. enter_file tok path st = st\<lparr>cc_recent := r, cc_order := o', cc_current := Some path\<rparr> \<and>
    recent_ok P (enter_file tok path st)"
proof (cases "cc_current st = Some path")
  case True
  then have "enter_file tok path st = st\<lparr>cc_recent := cc_recent st, cc_order := cc_order st, cc_current := Some path\<rparr>"
    by (simp add: enter_file_def)
  moreover have "recent_ok P (enter_file tok path st)" using True assms(3) by (simp add: enter_file_def)
  ultimately show ?thesis by blast
next
  case False
  with assms(4) have "P = []" by blast
  with assms(1,2) have "cc_pending st = []" by (simp add: items_given_def matches_of_def)
  with False have "enter_file tok path st = st\<lparr>cc_recent := [], cc_order := [], cc_current := Some path\<rparr>"
    by (simp add: enter_file_def finish_file_def flush_nothing)
  moreover have "recent_ok P (st\<lparr>cc_recent := [], cc_order := [], cc_current := Some path\<rparr>)"
    using \<open>P = []\<close> by (simp add: recent_ok_def recent_lines_def)
  ultimately show ?thesis by metis
qed

lemma given_cong:
  "cc_page st' = cc_page st \<Longrightarrow> cc_pending st' = cc_pending st \<Longrightarrow> cc_before st' = cc_before st \<Longrightarrow> cc_after st' = cc_after st \<Longrightarrow>
     items_given tok p0 path E P k st' = items_given tok p0 path E P k st"
  by (simp add: items_given_def)

lemma given_stopped:
  assumes "items_given tok p0 path E P k st" "pc_should_stop (cc_page st)"
  shows "items_given tok p0 path E (P @ [e]) k st"
  using assms by (cases e) (auto simp: items_given_def)

text \<open>Few matches wait: those whose context reaches the next line.\<close>

lemma sorted_ints_within:
  assumes "sorted_wrt (<) (xs :: int list)" "\<And>x. x \<in> set xs \<Longrightarrow> a \<le> x \<and> x < c"
  shows "int (length xs) \<le> max 0 (c - a)"
proof -
  have "distinct xs" using assms(1) by (simp add: strict_sorted_iff)
  then have "length xs = card (set xs)" by (simp add: distinct_card)
  also have "\<dots> \<le> card {a..<c}" using assms(2) by (intro card_mono) auto
  finally show ?thesis by simp
qed

lemma waiting_few:
  assumes "rising (P @ [(n, t, s)])" "xs = dropWhile (ready (Some n)) (map (seen_item b a path P) (drop k (matches_of P)))" "0 \<le> a"
  shows "int (length xs) \<le> a"
proof -
  let ?ms = "map fst (drop k (matches_of P))"
  have "rising P" using assms(1) unfolding rising_append by simp
  then have "sorted_wrt (\<lambda>x y. fst x < fst y) P" by (simp add: rising_def sorted_wrt_map)
  then have "sorted_wrt (<) (map fst (matches_of P))"
    unfolding matches_of_def fst_lines_of sorted_wrt_map by (rule sorted_wrt_filter)
  then have sorted: "sorted_wrt (<) ?ms" by (metis drop_map sorted_wrt_drop)
  have "map it_line xs = dropWhile (\<lambda>j. j < n - a) ?ms"
    unfolding assms(2)
    by (simp add: dropWhile_map comp_def ready_def less_diff_eq)
  also have "\<dots> = filter (\<lambda>j. n - a \<le> j) ?ms" by (rule sorted_filter_split(2) [OF sorted])
  finally have lines: "map it_line xs = filter (\<lambda>j. n - a \<le> j) ?ms" .
  have "j < n" if "j \<in> set ?ms" for j
    using that rising_last [OF assms(1), of j] matches_of_subset in_set_dropD by (fastforce simp: lines_of_fst)
  then have "int (length (map it_line xs)) \<le> max 0 (n - (n - a))"
    unfolding lines by (intro sorted_ints_within sorted_wrt_filter sorted) auto
  with assms(3) show ?thesis by simp
qed

section \<open>One event\<close>

lemma feed_line_steps:
  assumes "length (event_lines t) = 1" "line_mode st" "\<not> pc_should_stop (cc_page st)" "l = hd (event_lines t)"
    and "st1 = flush_pending tok (Some n) (enter_file tok path st)"
    and "st2 = st1\<lparr>cc_pending := map (add_context_line (n, l)) (cc_pending st1)\<rparr>"
    and "st3 = (if s = None then st2 else queue_item tok (match_item st2 path n n l False) st2)"
  shows "feed_line tok path (n, t, s) st = flush_pending tok (Some (n + 1)) (trim_recent n (record_recent n l st3))"
proof -
  have lines: "event_lines t = [l]" using assms(1,4) by (cases "event_lines t") auto
  have "\<not> cc_multiline st2 \<and> \<not> cc_only_matching st2"
    using assms(2) by (simp add: assms(5,6) line_mode_def enter_file_def finish_file_def)
  moreover have "fold add_context_line [(n, l)] = add_context_line (n, l)" by (simp add: fun_eq_iff)
  ultimately show ?thesis
    using assms(3) unfolding feed_line_def feed_event_def
    by (cases s) (simp_all add: lines number_lines_def feed_match_def Let_def assms(7) flip: assms(5,6))
qed

lemma seen_item_new:
  assumes "rising (P @ [(n, t, s)])" "recent_ok P st" "0 \<le> cc_before st" "0 \<le> cc_after st"
  shows "match_item st path n n l False = seen_item (cc_before st) (cc_after st) path (P @ [(n, t, s)]) (n, l)"
proof -
  have below: "j < n" if "j \<in> fst ` set (lines_of P)" for j using rising_last [OF assms(1) that] by simp
  then have "lines_between (n + 1) (n + cc_after st) (lines_of P) = []"
    by (intro lines_between_none) fastforce
  then show ?thesis
    using context_before_recent [OF assms(2,1,3)]
    by (simp add: match_item_def seen_item_def lines_between_one)
qed

lemma queue_step:
  assumes rising: "rising (P @ [(n, t, Some ss)])" and E: "E = (P @ [(n, t, Some ss)]) @ S" and later: "\<And>f. f \<in> set S \<Longrightarrow> n < fst f"
    and k: "k \<le> length (matches_of P)"
    and page: "cc_page st = fold (page_add tok) (full_items (cc_before st) (cc_after st) path E (take k (matches_of P))) p0"
    and pending: "\<not> pc_should_stop (cc_page st) \<Longrightarrow>
      cc_pending st = map (seen_item (cc_before st) (cc_after st) path (P @ [(n, t, Some ss)])) (drop k (matches_of P))"
    and recent: "recent_ok P st" and few: "length (cc_pending st) < max_pending_content_matches"
    and ranges: "0 \<le> cc_before st" "0 \<le> cc_after st" and l: "l = hd (event_lines t)"
  obtains k' where "items_given tok p0 path E (P @ [(n, t, Some ss)]) k' (queue_item tok (match_item st path n n l False) st)"
proof -
  let ?P = "P @ [(n, t, Some ss)]" and ?item = "match_item st path n n l False"
  have M: "matches_of ?P = matches_of P @ [(n, l)]" by (simp add: l)
  have item: "?item = seen_item (cc_before st) (cc_after st) path ?P (n, l)"
    by (rule seen_item_new [OF rising recent ranges])
  consider (stopped) "pc_should_stop (cc_page st)"
    | (skip) "\<not> pc_should_stop (cc_page st)" "pc_seen (cc_page st) < pc_offset (cc_page st)" "cc_pending st = []"
    | (wait) "\<not> pc_should_stop (cc_page st)" "\<not> (pc_seen (cc_page st) < pc_offset (cc_page st) \<and> cc_pending st = [])"
    by blast
  then show thesis
  proof cases
    case stopped
    then have "queue_item tok ?item st = st" by (simp add: queue_item_def)
    moreover have "items_given tok p0 path E ?P k st" using k page stopped by (simp add: items_given_def M)
    ultimately show ?thesis by (intro that [of k]) simp
  next
    case skip
    with pending k have "k = length (matches_of P)" by simp
    have "queue_item tok ?item st = st\<lparr>cc_page := page_add tok (item_json ?item) (cc_page st)\<rparr>"
      using skip by (simp add: queue_item_def)
    also have "page_add tok (item_json ?item) (cc_page st) =
        page_add tok (item_json (seen_item (cc_before st) (cc_after st) path E (n, l))) (cc_page st)"
      by (rule page_add_skips [OF skip(2)])
    also have "\<dots> = fold (page_add tok) (full_items (cc_before st) (cc_after st) path E (take (Suc k) (matches_of ?P))) p0"
      using page \<open>k = length (matches_of P)\<close> by (simp add: full_items_def l)
    finally have q: "queue_item tok ?item st = st\<lparr>cc_page := fold (page_add tok)
      (full_items (cc_before st) (cc_after st) path E (take (Suc k) (matches_of ?P))) p0\<rparr>" .
    have "items_given tok p0 path E ?P (Suc k) (queue_item tok ?item st)"
      using \<open>k = length (matches_of P)\<close> skip(3) unfolding q items_given_def by (simp add: M)
    then show ?thesis by (rule that)
  next
    case wait
    then have q: "queue_item tok ?item st = st\<lparr>cc_pending := cc_pending st @ [?item]\<rparr>"
      using few by (auto simp: queue_item_def)
    have "cc_pending st @ [?item] = map (seen_item (cc_before st) (cc_after st) path ?P) (drop k (matches_of ?P))"
      using pending [OF wait(1)] item k by (simp add: l)
    moreover have "take k (matches_of ?P) = take k (matches_of P)" using k by (simp add: M)
    ultimately have "items_given tok p0 path E ?P k (queue_item tok ?item st)"
      using k page unfolding q items_given_def by (simp add: M)
    then show ?thesis by (rule that)
  qed
qed

definition tracks ::
  "(ustr \<Rightarrow> nat) \<Rightarrow> page_collector \<Rightarrow> ustr \<Rightarrow> int \<Rightarrow> int \<Rightarrow> line_event list \<Rightarrow> line_event list \<Rightarrow> content_collector \<Rightarrow> bool" where
  "tracks tok p0 path b a E P st \<longleftrightarrow> (\<exists>k. items_given tok p0 path E P k st) \<and> line_mode st \<and> cc_before st = b \<and> cc_after st = a \<and>
     (\<not> pc_should_stop (cc_page st) \<longrightarrow> recent_ok P st \<and> (P \<noteq> [] \<longrightarrow> cc_current st = Some path))"

lemma trim_recent_fields [simp]:
  "cc_page (trim_recent n st) = cc_page st" "cc_pending (trim_recent n st) = cc_pending st"
  "cc_before (trim_recent n st) = cc_before st" "cc_after (trim_recent n st) = cc_after st"
  "cc_multiline (trim_recent n st) = cc_multiline st" "cc_only_matching (trim_recent n st) = cc_only_matching st"
  "cc_current (trim_recent n st) = cc_current st"
  by (simp_all add: trim_recent_def Let_def)

lemma record_recent_fields [simp]:
  "cc_page (record_recent n l st) = cc_page st" "cc_pending (record_recent n l st) = cc_pending st"
  "cc_before (record_recent n l st) = cc_before st" "cc_after (record_recent n l st) = cc_after st"
  "cc_multiline (record_recent n l st) = cc_multiline st" "cc_only_matching (record_recent n l st) = cc_only_matching st"
  "cc_current (record_recent n l st) = cc_current st"
  by (simp_all add: record_recent_def)

lemma ready_complete:
  assumes "rising (P @ Q)" "E = P @ Q" "\<And>f. f \<in> set Q \<Longrightarrow> c \<le> fst f" "m \<in> set (matches_of P)"
    and "ready (Some c) (seen_item b a path P m)"
  shows "seen_item b a path P m = seen_item b a path E m"
proof -
  obtain n l where m: "m = (n, l)" by fastforce
  have "n + a < fst f \<and> n < fst f" if "f \<in> set Q" for f
    using assms(1,3-5) that matches_of_subset [of m P] by (fastforce simp: m ready_def rising_append)
  from seen_item_complete [OF this] show ?thesis by (simp add: assms(2) m)
qed

text \<open>The items in front of a line are given to the page with what they are to become.\<close>

lemma flush_given_line:
  assumes E: "E = P @ Q" "rising E" and ahead: "\<And>f. f \<in> set Q \<Longrightarrow> c \<le> fst f" and g: "items_given tok p0 path E P k st"
  shows "\<exists>k'. items_given tok p0 path E P k' (flush_pending tok (Some c) st) \<and>
    (\<not> pc_should_stop (cc_page (flush_pending tok (Some c) st)) \<longrightarrow>
       cc_pending (flush_pending tok (Some c) st) = dropWhile (ready (Some c)) (cc_pending st))"
proof (cases "pc_should_stop (cc_page st)")
  case True
  then have "cc_page (flush_pending tok (Some c) st) = cc_page st"
    by (cases "cc_pending st") (auto simp: flush_pending_def split: option.splits)
  with g True show ?thesis by (intro exI [of _ k]) (simp add: items_given_def)
next
  case False
  have "seen_item (cc_before st) (cc_after st) path P m = seen_item (cc_before st) (cc_after st) path E m"
    if "m \<in> set (matches_of P)" "ready (Some c) (seen_item (cc_before st) (cc_after st) path P m)" for m
    using ready_complete [OF E(2) [unfolded E(1)] E(1) ahead that] by blast
  from flush_given [OF g False this] show ?thesis by metis
qed

text \<open>The line is added to the items that wait, and queued itself if it is a match.\<close>

lemma line_given:
  assumes E: "E = (P @ [(n, t, s)]) @ S" "rising E" and g: "items_given tok p0 path E P k st" and mode: "line_mode st"
    and recent: "recent_ok P st" and l: "l = hd (event_lines t)"
    and few: "\<not> pc_should_stop (cc_page st) \<Longrightarrow> int (length (cc_pending st)) \<le> cc_after st"
  defines "st2 \<equiv> st\<lparr>cc_pending := map (add_context_line (n, l)) (cc_pending st)\<rparr>"
  shows "\<exists>k'. items_given tok p0 path E (P @ [(n, t, s)]) k'
    (if s = None then st2 else queue_item tok (match_item st2 path n n l False) st2)"
proof -
  let ?P = "P @ [(n, t, s)]"
  have up1: "rising ?P" and later: "\<And>f. f \<in> set S \<Longrightarrow> n < fst f"
    using E(2) unfolding E(1) rising_append [of ?P S] by auto
  have pending: "cc_pending st2 = map (seen_item (cc_before st2) (cc_after st2) path ?P) (drop k (matches_of P))"
    if "\<not> pc_should_stop (cc_page st2)"
  proof -
    have "add_context_line (n, l) (seen_item (cc_before st) (cc_after st) path P m) = seen_item (cc_before st) (cc_after st) path ?P m"
      if "m \<in> set (drop k (matches_of P))" for m
      using seen_item_next [OF up1, of "fst m" "cc_before st" "cc_after st" path "snd m"]
        rising_last [OF up1, of "fst m"] matches_of_subset [of m P] in_set_dropD [OF that]
      by (simp add: l lines_of_fst)
    then show ?thesis using that g by (simp add: st2_def items_given_def)
  qed
  have page: "cc_page st2 = fold (page_add tok) (full_items (cc_before st2) (cc_after st2) path E (take k (matches_of P))) p0"
    and k: "k \<le> length (matches_of P)" and recent2: "recent_ok P st2" and ranges: "0 \<le> cc_before st2" "0 \<le> cc_after st2"
    using g recent mode by (simp_all add: items_given_def st2_def recent_ok_def line_mode_def)
  show ?thesis
  proof (cases s)
    case None
    then have "items_given tok p0 path E ?P k st2" using k page pending by (simp add: items_given_def)
    with None show ?thesis by auto
  next
    case (Some ss)
    show ?thesis
    proof (cases "pc_should_stop (cc_page st2)")
      case True
      then have "items_given tok p0 path E ?P k st2" using k page by (simp add: items_given_def)
      with True Some show ?thesis by (auto simp: queue_item_def)
    next
      case False
      with few mode have "length (cc_pending st2) < max_pending_content_matches" by (simp add: st2_def line_mode_def)
      then obtain k' where "items_given tok p0 path E (P @ [(n, t, Some ss)]) k' (queue_item tok (match_item st2 path n n l False) st2)"
        using queue_step [of P n t ss E S k st2 tok path p0 l] up1 E(1) later page k pending recent2 ranges
        unfolding Some l by (simp; blast)
      then show ?thesis by (auto simp: Some)
    qed
  qed
qed

lemma line_step:
  assumes E: "E = (P @ [(n, t, s)]) @ S" and up: "rising E" and tr: "tracks tok p0 path b a E P st"
  shows "tracks tok p0 path b a E (P @ [(n, t, s)]) (feed_line tok path (n, t, s) st)"
proof (cases "pc_should_stop (cc_page st)")
  case True
  with tr show ?thesis using given_stopped by (fastforce simp: tracks_def feed_line_def)
next
  case run: False
  let ?P = "P @ [(n, t, s)]"
  have up1: "rising ?P" and later: "\<And>f. f \<in> set S \<Longrightarrow> n < fst f" using up unfolding E rising_append [of ?P S] by auto
  have one: "length (event_lines t) = 1" using up1 by (simp add: rising_append) (simp add: rising_def)
  define l where "l = hd (event_lines t)"
  from tr run obtain k where g: "items_given tok p0 path E P k st" and mode: "line_mode st"
    and recent: "recent_ok P st" and cur: "P \<noteq> [] \<Longrightarrow> cc_current st = Some path" by (auto simp: tracks_def)
  define st0 where "st0 = enter_file tok path st"
  from enter_given [OF g run recent cur] obtain r o' where
    enter: "st0 = st\<lparr>cc_recent := r, cc_order := o', cc_current := Some path\<rparr>" and recent0: "recent_ok P st0"
    unfolding st0_def by blast
  have g0: "items_given tok p0 path E P k st0" and run0: "\<not> pc_should_stop (cc_page st0)"
    using g run by (simp_all add: enter items_given_def)
  define st1 where "st1 = flush_pending tok (Some n) st0"
  have "\<And>f. f \<in> set ((n, t, s) # S) \<Longrightarrow> n \<le> fst f" using later by fastforce
  from flush_given_line [OF _ up this g0] E obtain k1 where g1: "items_given tok p0 path E P k1 st1"
    and waiting: "\<not> pc_should_stop (cc_page st1) \<Longrightarrow> cc_pending st1 = dropWhile (ready (Some n)) (cc_pending st0)"
    unfolding st1_def by auto
  have same1: "cc_before st1 = cc_before st" "cc_after st1 = cc_after st" "cc_current st1 = Some path"
    "cc_multiline st1 = cc_multiline st" "cc_only_matching st1 = cc_only_matching st" "recent_ok P st1"
    using recent0 same_lines_recent [OF same_lines_flush] by (simp_all add: st1_def enter)
  have few: "int (length (cc_pending st1)) \<le> cc_after st1" if "\<not> pc_should_stop (cc_page st1)"
    using waiting [OF that] waiting_few [OF up1] mode g0 run0 by (simp add: same1 line_mode_def items_given_def enter)
  define st2 where "st2 = st1\<lparr>cc_pending := map (add_context_line (n, l)) (cc_pending st1)\<rparr>"
  define st3 where "st3 = (if s = None then st2 else queue_item tok (match_item st2 path n n l False) st2)"
  have "line_mode st1" using mode by (simp add: line_mode_def same1)
  from line_given [OF E up g1 this same1(6) l_def few, folded st2_def, folded st3_def]
  obtain k2 where g3: "items_given tok p0 path E ?P k2 st3" by blast
  have same3: "same_lines st1 st3" using same_lines_queue [of st2] by (auto simp: st3_def same_lines_def st2_def)
  define st4 where "st4 = trim_recent n (record_recent n l st3)"
  have g4: "items_given tok p0 path E ?P k2 st4" using g3 by (simp add: items_given_def st4_def)
  have recent4: "recent_ok ?P st4"
    unfolding st4_def
    by (rule recent_step [OF same_lines_recent [OF same3 same1(6)] up1])
      (use mode same3 in \<open>auto simp: same_lines_def same1 line_mode_def l_def\<close>)
  have fin: "feed_line tok path (n, t, s) st = flush_pending tok (Some (n + 1)) st4"
    using feed_line_steps [OF one mode run l_def st1_def [unfolded st0_def] st2_def st3_def] by (simp add: st4_def)
  have "\<exists>k3. items_given tok p0 path E ?P k3 (flush_pending tok (Some (n + 1)) st4)"
    using flush_given_line [OF E up _ g4, of "n + 1"] later by fastforce
  then show ?thesis
    using recent4 mode same3 tr
    by (auto simp: tracks_def fin line_mode_def recent_ok_def st4_def same_lines_def same1)
qed

section \<open>Files\<close>

definition feed_file :: "(ustr \<Rightarrow> nat) \<Rightarrow> ustr \<times> line_event list \<Rightarrow> content_collector \<Rightarrow> content_collector" where
  "feed_file tok f st =
     (case f of (path, E) \<Rightarrow>
        let st' = fold (feed_line tok path) E st in if pc_should_stop (cc_page st') then st' else finish_file tok st')"

definition between_files :: "int \<Rightarrow> int \<Rightarrow> content_collector \<Rightarrow> bool" where
  "between_files b a st \<longleftrightarrow> line_mode st \<and> cc_before st = b \<and> cc_after st = a \<and>
     (\<not> pc_should_stop (cc_page st) \<longrightarrow> cc_pending st = [] \<and> cc_recent st = [] \<and> cc_order st = [])"

lemma lines_tracked:
  assumes "rising E" "E = P @ Q" "between_files b a st"
  shows "tracks tok (cc_page st) path b a E P (fold (feed_line tok path) P st)"
  using assms(2)
proof (induction P arbitrary: Q rule: rev_induct)
  case Nil
  have "items_given tok (cc_page st) path E [] 0 st" using assms(3) by (simp add: items_given_def full_items_def matches_of_def between_files_def)
  with assms(3) show ?case by (auto simp: tracks_def between_files_def recent_ok_def recent_lines_def)
next
  case (snoc e P)
  obtain n t s where e: "e = (n, t, s)" using prod_cases3 .
  from snoc.IH [of "e # Q"] snoc.prems have "tracks tok (cc_page st) path b a E P (fold (feed_line tok path) P st)" by simp
  from line_step [OF _ assms(1) this, of n t s Q] snoc.prems show ?case by (simp add: e)
qed

lemma given_all:
  assumes "items_given tok p0 path E E k st"
    and "pc_should_stop (cc_page st) \<or> cc_pending st = []"
  shows "cc_page st = fold (page_add tok) (context_items (cc_before st) (cc_after st) path E) p0"
proof -
  let ?full = "full_items (cc_before st) (cc_after st) path E"
  have all: "context_items (cc_before st) (cc_after st) path E = ?full (take k (matches_of E)) @ ?full (drop k (matches_of E))"
    by (simp add: context_items_def full_items_def flip: map_append)
  have page: "cc_page st = fold (page_add tok) (?full (take k (matches_of E))) p0" using assms(1) by (simp add: items_given_def)
  have "fold (page_add tok) (?full (drop k (matches_of E))) (cc_page st) = cc_page st"
  proof (cases "pc_should_stop (cc_page st)")
    case False
    with assms have "drop k (matches_of E) = []" by (simp add: items_given_def)
    then show ?thesis by (simp add: full_items_def)
  qed simp
  then show ?thesis unfolding all by (simp add: page)
qed

lemma file_collected:
  assumes up: "rising E" and fresh: "between_files b a st"
  shows "cc_page (feed_file tok (path, E) st) = fold (page_add tok) (context_items b a path E) (cc_page st)"
    and "between_files b a (feed_file tok (path, E) st)"
proof -
  define st' where "st' = fold (feed_line tok path) E st"
  have tr: "tracks tok (cc_page st) path b a E E st'"
    unfolding st'_def using lines_tracked [OF up _ fresh, of E "[]"] by simp
  then obtain k where g: "items_given tok (cc_page st) path E E k st'" and same: "cc_before st' = b" "cc_after st' = a" "line_mode st'"
    by (auto simp: tracks_def)
  have feed: "feed_file tok (path, E) st = (if pc_should_stop (cc_page st') then st' else finish_file tok st')"
    by (simp add: feed_file_def st'_def Let_def)
  have "cc_page (feed_file tok (path, E) st) = fold (page_add tok) (context_items b a path E) (cc_page st) \<and>
    between_files b a (feed_file tok (path, E) st)"
  proof (cases "pc_should_stop (cc_page st')")
    case True
    then show ?thesis using given_all [OF g] same by (simp add: feed between_files_def)
  next
    case False
    define fl where "fl = flush_pending tok None st'"
    have all: "dropWhile (ready None) is = []" for "is" by (simp add: ready_def dropWhile_eq_Nil_conv)
    obtain k' where g': "items_given tok (cc_page st) path E E k' fl"
      and none: "\<not> pc_should_stop (cc_page fl) \<Longrightarrow> cc_pending fl = []"
      using flush_given [OF g False refl, of None, unfolded all, folded fl_def] by blast
    from given_all [OF g'] none have "cc_page fl = fold (page_add tok) (context_items b a path E) (cc_page st)"
      by (auto simp: fl_def same)
    moreover have "feed_file tok (path, E) st = fl\<lparr>cc_recent := [], cc_order := [], cc_current := None\<rparr>"
      using False by (simp add: feed finish_file_def fl_def)
    moreover have "line_mode fl" using same(3) by (simp add: fl_def line_mode_def)
    ultimately show ?thesis using none same by (simp add: between_files_def line_mode_def) (simp add: fl_def)
  qed
  then show "cc_page (feed_file tok (path, E) st) = fold (page_add tok) (context_items b a path E) (cc_page st)"
    and "between_files b a (feed_file tok (path, E) st)" by blast+
qed

definition search_items :: "int \<Rightarrow> int \<Rightarrow> (ustr \<times> line_event list) list \<Rightarrow> json list" where
  "search_items b a files = concat (map (\<lambda>(path, E). context_items b a path E) files)"

lemma files_collected:
  assumes "\<forall>(path, E) \<in> set files. rising E" "between_files b a st"
  shows "cc_page (fold (feed_file tok) files st) = fold (page_add tok) (search_items b a files) (cc_page st) \<and>
    between_files b a (fold (feed_file tok) files st)"
  using assms
proof (induction files arbitrary: st)
  case (Cons f files)
  obtain path E where f: "f = (path, E)" by fastforce
  with Cons.prems have "rising E" by simp
  note one = file_collected [OF this Cons.prems(2), of tok path]
  show ?case using Cons.IH [OF _ one(2)] Cons.prems(1) one(1) by (simp add: f search_items_def)
qed (simp add: search_items_def)

end
