(* ===== verification/SearchGrep.thy ===== *)
theory SearchGrep
  imports SearchContent Url
begin

text \<open>
  Searching with ripgrep (\<^verbatim>\<open>grep_files\<close> and \<^verbatim>\<open>search_files\<close> in \<^verbatim>\<open>search.py\<close>): the command line, the bounded
  capture of its stderr, the loop over the events it prints and the reply. ripgrep is not modelled: a
  run is the bytes it printed and its exit codes, an argument of \<^verbatim>\<open>grep_files\<close>, as is \<^verbatim>\<open>json.loads\<close>.
\<close>

section \<open>Bounded capture\<close>

record bytes_capture =
  bc_max :: nat
  bc_buffer :: bytes
  bc_total :: nat

definition new_bytes_capture :: "nat \<Rightarrow> bytes_capture" where
  "new_bytes_capture n = \<lparr>bc_max = n, bc_buffer = [], bc_total = 0\<rparr>"

definition capture_append :: "bytes \<Rightarrow> bytes_capture \<Rightarrow> bytes_capture" where
  "capture_append chunk c =
     (if chunk = [] then c
      else c\<lparr>bc_total := bc_total c + length chunk,
             bc_buffer := bc_buffer c @ take (bc_max c - length (bc_buffer c)) chunk\<rparr>)"

definition capture_truncated :: "bytes_capture \<Rightarrow> bool" where
  "capture_truncated c \<longleftrightarrow> length (bc_buffer c) < bc_total c"

function drain_stream :: "bytes \<Rightarrow> bytes_capture \<Rightarrow> bytes_capture" where
  "drain_stream bs c = (if bs = [] then c else drain_stream (drop 8192 bs) (capture_append (take 8192 bs) c))"
  by auto
termination by (relation "measure (\<lambda>(bs, c). length bs)") auto

declare drain_stream.simps [simp del]

text \<open>A prefix is kept, whatever the chunks are, and the flag tells whether it is a proper one.\<close>

lemma drained:
  "bc_max c = n \<Longrightarrow> bc_buffer c = take n pre \<Longrightarrow> bc_total c = length pre \<Longrightarrow>
     bc_buffer (drain_stream bs c) = take n (pre @ bs) \<and> bc_total (drain_stream bs c) = length (pre @ bs)"
proof (induction bs c arbitrary: pre rule: drain_stream.induct)
  case (1 bs c)
  show ?case
  proof (cases "bs = []")
    case False
    define c' where "c' = capture_append (take 8192 bs) c"
    have "bc_max c' = n" "bc_buffer c' = take n (pre @ take 8192 bs)" "bc_total c' = length (pre @ take 8192 bs)"
      using False 1(2-4) by (auto simp: c'_def capture_append_def min_def)
    note rest = 1(1) [OF False, folded c'_def, OF this]
    have "(pre @ take 8192 bs) @ drop 8192 bs = pre @ bs" by simp
    moreover have "drain_stream bs c = drain_stream (drop 8192 bs) c'"
      using False by (simp add: drain_stream.simps [of bs c] c'_def)
    ultimately show ?thesis using rest by (simp only:)
  qed (use 1 in \<open>simp add: drain_stream.simps\<close>)
qed

definition backslash_hex :: "nat \<Rightarrow> ustr" where
  "backslash_hex b = [92, 120, hex_digit (b div 16), hex_digit (b mod 16)]"

definition decode_stderr :: "bytes \<Rightarrow> ustr" where
  "decode_stderr raw =
     (case utf8_decode raw of
        Some s \<Rightarrow> s
      | None \<Rightarrow> concat (map (\<lambda>(w, ok). if ok then [utf8_unit_value w] else concat (map backslash_hex w)) (utf8_units raw)))"

section \<open>The command line\<close>

record grep_request =
  gr_pattern :: ustr
  gr_glob :: "ustr option"
  gr_mode :: ustr
  gr_before :: int
  gr_after :: int
  gr_ignore_case :: bool
  gr_limit :: int
  gr_offset :: int
  gr_multiline :: bool
  gr_filters :: search_filters
  gr_type :: "ustr option"
  gr_only :: bool
  gr_fixed :: bool
  gr_engine :: ustr
  gr_rg :: ustr

definition exclude_glob :: "ustr \<Rightarrow> ustr list" where
  "exclude_glob pattern = [u ''--glob'', u ''!'' @ pattern]"

definition given_text :: "ustr option \<Rightarrow> bool" where
  "given_text v \<longleftrightarrow> v \<noteq> None \<and> v \<noteq> Some []"

definition text_option :: "string \<Rightarrow> ustr option \<Rightarrow> ustr list" where
  "text_option flag v = (if given_text v then [u flag, (case v of Some s \<Rightarrow> s | None \<Rightarrow> [])] else [])"

definition flag_if :: "bool \<Rightarrow> string list \<Rightarrow> ustr list" where
  "flag_if b flags = (if b then map u flags else [])"

definition context_option :: "string \<Rightarrow> int \<Rightarrow> ustr list" where
  "context_option flag n = (if 0 < n then [u flag, int_repr n] else [])"

definition directory_globs :: "ustr list" where
  "directory_globs =
     concat (map (\<lambda>d. exclude_glob (d @ u ''/**'') @ exclude_glob (u ''**/'' @ d @ u ''/**''))
       (sort_key id default_exclude_dir_names))"

definition git_globs :: "ustr list" where
  "git_globs = concat (map (\<lambda>p. exclude_glob (u p)) [''.git'', ''.git/**'', ''**/.git'', ''**/.git/**''])"

definition hidden_globs :: "ustr list" where
  "hidden_globs = concat (map (\<lambda>p. exclude_glob (u p)) [''.*'', ''.*/**'', ''**/.*'', ''**/.*/**''])"

definition build_ripgrep_command :: "grep_request \<Rightarrow> ustr \<Rightarrow> ustr list" where
  "build_ripgrep_command rq target =
     [gr_rg rq] @ map u [''--json'', ''--no-config'', ''--line-number'', ''--with-filename'', ''--color=never'', ''--sort=path''] @
     (if gr_fixed rq then [u ''--fixed-strings''] else [u ''--engine='' @ gr_engine rq]) @
     flag_if (gr_ignore_case rq) [''--ignore-case''] @
     flag_if (gr_multiline rq) [''--multiline'', ''--multiline-dotall''] @
     flag_if (sf_hidden (gr_filters rq)) [''--hidden''] @
     flag_if (\<not> sf_gitignore (gr_filters rq)) [''--no-ignore''] @
     context_option ''--before-context'' (max (gr_before rq) 0) @
     context_option ''--after-context'' (max (gr_after rq) 0) @
     text_option ''--glob'' (gr_glob rq) @
     text_option ''--type'' (gr_type rq) @
     directory_globs @
     concat (map exclude_glob (sf_patterns (gr_filters rq))) @
     git_globs @
     (if sf_hidden (gr_filters rq) then [] else hidden_globs) @
     [u ''-e'', gr_pattern rq, u ''--'', target]"

section \<open>Payloads\<close>

definition backend_metadata :: "ustr \<Rightarrow> string \<Rightarrow> dict \<Rightarrow> json" where
  "backend_metadata binary status extra =
     JObj (dict_update [(''name'', jlit ''ripgrep''), (''binary'', JStr binary), (''status'', jlit status)] extra)"

definition grep_filters :: "search_filters \<Rightarrow> bool \<Rightarrow> ustr option \<Rightarrow> dict" where
  "grep_filters sf applied file_type =
     [(''include_hidden'', JBool (sf_hidden sf)), (''respect_gitignore'', JBool (sf_gitignore sf)),
      (''gitignore_applied'', JBool applied), (''exclude_patterns'', JList (map JStr (sf_patterns sf))),
      (''file_type'', jopt JStr file_type)]"

definition grep_base_payload :: "grep_request \<Rightarrow> path \<Rightarrow> bool \<Rightarrow> dict" where
  "grep_base_payload rq p applied =
     [(''success'', JBool True), (''base_path'', JStr (path_text p)), (''pattern'', JStr (gr_pattern rq)),
      (''output_mode'', JStr (gr_mode rq)), (''filters'', JObj (grep_filters (gr_filters rq) applied (gr_type rq))),
      (''only_matching'', JBool (gr_only rq)), (''backend'', backend_metadata (gr_rg rq) ''ok'' [])]"

definition summary_payload :: "int \<Rightarrow> int \<Rightarrow> json" where
  "summary_payload occurrences files = JObj [(''occurrences'', JInt occurrences), (''matched_files'', JInt files)]"

definition empty_grep_result :: "(ustr \<Rightarrow> nat) \<Rightarrow> response_budget \<Rightarrow> grep_request \<Rightarrow> path \<Rightarrow> bool \<Rightarrow> dict" where
  "empty_grep_result tok b rq p applied =
     fst (with_budget_metadata tok
       (grep_base_payload rq p applied @
        [(''truncated'', JBool False), (''next_offset'', JNull),
         (if gr_mode rq = u ''content'' then (''matches'', JList [])
          else if gr_mode rq = u ''files_with_matches'' then (''files'', JList [])
          else if gr_mode rq = u ''count'' then (''counts'', JList [])
          else (''summary'', summary_payload 0 0))])
       b False ''end_of_results'')"

section \<open>Reading events\<close>

definition max_ripgrep_event_bytes :: nat where
  "max_ripgrep_event_bytes = 1024 * 1024"

text \<open>\<^verbatim>\<open>stdout.readline(n)\<close>: up to a line feed, and never more than \<open>n\<close> bytes.\<close>

definition read_line :: "nat \<Rightarrow> bytes \<Rightarrow> bytes" where
  "read_line n bs =
     (let line = takeWhile (\<lambda>c. c \<noteq> 10) bs in take n (if length line < length bs then line @ [10] else line))"

lemma read_line_some: "bs \<noteq> [] \<Longrightarrow> 0 < n \<Longrightarrow> read_line n bs \<noteq> []"
  by (cases bs) (auto simp: read_line_def Let_def)

function raw_lines :: "bytes \<Rightarrow> bytes list" where
  "raw_lines bs =
     (let line = read_line (max_ripgrep_event_bytes + 1) bs in
      if bs = [] then [] else line # raw_lines (drop (length line) bs))"
  by auto
termination
proof (relation "measure length")
  fix bs line :: bytes assume "line = read_line (max_ripgrep_event_bytes + 1) bs" "bs \<noteq> []"
  then have "line \<noteq> []" using read_line_some by simp
  with \<open>bs \<noteq> []\<close> show "(drop (length line) bs, bs) \<in> measure length" by simp
qed simp

declare raw_lines.simps [simp del]

text \<open>
  The state of the loop. In every mode but \<^verbatim>\<open>summary\<close> the page of the reply is that of the content
  collector, which the other modes use for nothing else.
\<close>

record grep_state =
  gs_content :: content_collector
  gs_path :: "ustr option"
  gs_count :: int
  gs_occurrences :: int
  gs_files :: int
  gs_parsed :: nat
  gs_malformed :: nat
  gs_stop :: bool

abbreviation gs_page :: "grep_state \<Rightarrow> page_collector" where
  "gs_page s \<equiv> cc_page (gs_content s)"

definition update_page :: "(page_collector \<Rightarrow> page_collector) \<Rightarrow> grep_state \<Rightarrow> grep_state" where
  "update_page f s = s\<lparr>gs_content := (gs_content s)\<lparr>cc_page := f (gs_page s)\<rparr>\<rparr>"

definition paged_mode :: "ustr \<Rightarrow> bool" where
  "paged_mode mode \<longleftrightarrow> mode = u ''content'' \<or> mode = u ''files_with_matches'' \<or> mode = u ''count''"

definition finish_count_path :: "(ustr \<Rightarrow> nat) \<Rightarrow> ustr \<Rightarrow> grep_state \<Rightarrow> grep_state" where
  "finish_count_path tok mode s =
     (case gs_path s of
        None \<Rightarrow> s
      | Some p \<Rightarrow>
          (update_page
            (if mode = u ''files_with_matches'' then page_add tok (JStr p)
             else if mode = u ''count'' then page_add tok (JObj [(''path'', JStr p), (''count'', JInt (gs_count s))])
             else id) s)\<lparr>gs_path := None, gs_count := 0\<rparr>)"

text \<open>\<open>ge_absolute\<close> is \<^verbatim>\<open>_absolute_result_path\<close>, \<open>ge_loads\<close> is \<^verbatim>\<open>json.loads\<close> with the text of its exception.\<close>

record grep_env =
  ge_tok :: "ustr \<Rightarrow> nat"
  ge_absolute :: "ustr \<Rightarrow> ustr"
  ge_loads :: "bytes \<Rightarrow> ustr + json"
  ge_int_error :: "json \<Rightarrow> ustr option"

definition absolute_result_path :: "(path \<Rightarrow> path) \<Rightarrow> path \<Rightarrow> ustr \<Rightarrow> ustr" where
  "absolute_result_path resolve cwd raw =
     path_text (resolve (if startswith raw [47] then path_parts raw else cwd @ path_parts raw))"

definition feed_counts :: "grep_env \<Rightarrow> ustr \<Rightarrow> dict \<Rightarrow> grep_state \<Rightarrow> ustr + grep_state" where
  "feed_counts env mode data s =
     (case decode_json_value (map_of data ''path'') ''path'' of
        Inl e \<Rightarrow> Inl e
      | Inr raw \<Rightarrow>
        (case (case map_of data ''submatches'' of None \<Rightarrow> Some [] | Some (JList ss) \<Rightarrow> Some ss | _ \<Rightarrow> None) of
           None \<Rightarrow> Inl (u ''ripgrep JSON submatches field is not a list'')
         | Some ss \<Rightarrow>
             let p = Some (ge_absolute env raw); n = int (length ss) in
             if mode = u ''summary'' then
               Inr (s\<lparr>gs_files := (if gs_path s \<noteq> p then gs_files s + 1 else gs_files s), gs_path := p,
                      gs_occurrences := gs_occurrences s + n\<rparr>)
             else if gs_path s = p then Inr (s\<lparr>gs_count := gs_count s + n\<rparr>)
             else
               let s1 = finish_count_path (ge_tok env) mode s in
               if pc_should_stop (gs_page s1) then Inr (s1\<lparr>gs_stop := True\<rparr>)
               else Inr (s1\<lparr>gs_path := p, gs_count := gs_count s1 + n\<rparr>)))"

definition feed_data :: "grep_env \<Rightarrow> ustr \<Rightarrow> string \<Rightarrow> dict \<Rightarrow> grep_state \<Rightarrow> ustr + grep_state" where
  "feed_data env mode event_type data s =
     (if mode = u ''content'' then
        (case feed (ge_tok env) (ge_absolute env) (ge_int_error env) event_type data (gs_content s) of
           Inl e \<Rightarrow> Inl e | Inr c \<Rightarrow> Inr (s\<lparr>gs_content := c\<rparr>))
      else if event_type = ''match'' then feed_counts env mode data s
      else Inr s)"

text \<open>Looking a list or a dictionary up in a set of strings is a \<^verbatim>\<open>TypeError\<close>.\<close>

definition feed_json :: "grep_env \<Rightarrow> ustr \<Rightarrow> json \<Rightarrow> grep_state \<Rightarrow> ustr + grep_state" where
  "feed_json env mode event s =
     (case event of
        JObj ev \<Rightarrow>
          (case map_of ev ''type'' of
             Some (JList _) \<Rightarrow> Inl (u ''unhashable type: '' @ quoted ''list'')
           | Some (JObj _) \<Rightarrow> Inl (u ''unhashable type: '' @ quoted ''dict'')
           | Some (JStr t) \<Rightarrow>
               (case find (\<lambda>k. u k = t) [''match'', ''context'', ''end''] of
                  None \<Rightarrow> Inr s
                | Some k \<Rightarrow>
                    (case map_of ev ''data'' of
                       Some (JObj data) \<Rightarrow>
                         (case feed_data env mode k data s of
                            Inl e \<Rightarrow> Inl e
                          | Inr s' \<Rightarrow>
                              Inr (if paged_mode mode \<and> pc_should_stop (gs_page s') then s'\<lparr>gs_stop := True\<rparr> else s'))
                     | _ \<Rightarrow> Inl (u ''ripgrep JSON event data is not an object'')))
           | _ \<Rightarrow> Inr s)
      | _ \<Rightarrow> Inr s)"

text \<open>The loop over the lines; \<open>gs_stop\<close> is \<^verbatim>\<open>intentional_stop\<close>, and \<open>Inl\<close> is \<^verbatim>\<open>parse_error\<close>.\<close>

fun read_events :: "grep_env \<Rightarrow> ustr \<Rightarrow> bytes list \<Rightarrow> grep_state \<Rightarrow> ustr + grep_state" where
  "read_events env mode [] s = Inr s"
| "read_events env mode (raw # rest) s =
     (if max_ripgrep_event_bytes < length raw \<and> \<not> endswith raw [10] then
        (if gs_parsed s = 0 then Inl (u ''ripgrep emitted a JSON event larger than the bounded event limit'')
         else Inr (s\<lparr>gs_malformed := Suc (gs_malformed s)\<rparr>))
      else case ge_loads env raw of
        Inl e \<Rightarrow>
          (if gs_parsed s = 0 then Inl (u ''ripgrep emitted invalid JSON: '' @ e)
           else Inr (s\<lparr>gs_malformed := Suc (gs_malformed s)\<rparr>))
      | Inr event \<Rightarrow>
          (case feed_json env mode event (s\<lparr>gs_parsed := Suc (gs_parsed s)\<rparr>) of
             Inl e \<Rightarrow> Inl e
           | Inr s' \<Rightarrow> if gs_stop s' then Inr s' else read_events env mode rest s'))"

definition finish_events :: "(ustr \<Rightarrow> nat) \<Rightarrow> ustr \<Rightarrow> grep_state \<Rightarrow> grep_state" where
  "finish_events tok mode s =
     (let s1 = (if gs_malformed s = 0 then s
                else (if paged_mode mode then update_page (force_stop ''malformed_ripgrep_event'') s else s)\<lparr>gs_stop := True\<rparr>);
          s2 = (if mode = u ''content'' then s1\<lparr>gs_content := finish_file tok (gs_content s1)\<rparr>
                else if paged_mode mode then finish_count_path tok mode s1 else s1) in
      if paged_mode mode \<and> pc_should_stop (gs_page s2) then s2\<lparr>gs_stop := True\<rparr> else s2)"

section \<open>grep_files\<close>

text \<open>
  What starting ripgrep gave: it is missing, it cannot be executed, or a run with what it printed and
  its exit code when it ends by itself and when it is terminated early.
\<close>

record rg_run =
  run_stdout :: bytes
  run_stderr :: bytes
  run_code :: int
  run_stopped_code :: int

datatype rg_spawn = RgMissing | RgOsError ustr | RgRunning rg_run

definition max_search_context_lines :: int where
  "max_search_context_lines = 1000"

definition grep_request_error :: "grep_request \<Rightarrow> dict option" where
  "grep_request_error rq =
     (if \<not> paged_mode (gr_mode rq) \<and> gr_mode rq \<noteq> u ''summary''
        then Some (tool_error ''invalid_output_mode'' (u ''Unsupported output_mode: '' @ gr_mode rq) [])
      else if gr_limit rq < 0 \<or> gr_offset rq < 0
        then Some (tool_error ''invalid_arguments'' (u ''head_limit and offset must be non-negative integers.'') [])
      else if gr_before rq < 0 \<or> gr_after rq < 0
        then Some (tool_error ''invalid_context'' (u ''before and after must be non-negative integers.'') [])
      else if max_search_context_lines < gr_before rq \<or> max_search_context_lines < gr_after rq
        then Some (tool_error ''context_limit_exceeded''
          (u ''before and after are capped at '' @ int_repr max_search_context_lines @ u '' lines.'') [])
      else None)"

definition result_key :: "ustr \<Rightarrow> string" where
  "result_key mode =
     (if mode = u ''content'' then ''matches'' else if mode = u ''files_with_matches'' then ''files'' else ''counts'')"

definition start_grep :: "grep_request \<Rightarrow> response_budget \<Rightarrow> dict \<Rightarrow> grep_state" where
  "start_grep rq b base =
     \<lparr>gs_content = new_content (new_page (gr_offset rq) (gr_limit rq) (result_key (gr_mode rq)) base b)
        (gr_before rq) (gr_after rq) (gr_multiline rq) (gr_only rq),
      gs_path = None, gs_count = 0, gs_occurrences = 0, gs_files = 0, gs_parsed = 0, gs_malformed = 0, gs_stop = False\<rparr>"

definition error_backend :: "ustr \<Rightarrow> int \<Rightarrow> ustr \<Rightarrow> bool \<Rightarrow> json" where
  "error_backend rg code stderr truncated =
     backend_metadata rg ''error''
       ([(''exit_code'', JInt code), (''stderr'', JStr stderr)] @
        (if truncated then [(''stderr_truncated'', JBool True)] else []))"

definition text_contains :: "string \<Rightarrow> ustr \<Rightarrow> bool" where
  "text_contains needle hay \<longleftrightarrow> 0 < count_sub (u needle) hay"

text \<open>ripgrep failed. \<open>show\<close> is \<^verbatim>\<open>repr\<close>; only ASCII letters matter to the two tests of the lowered text.\<close>

definition exit_error :: "(ustr option \<Rightarrow> ustr) \<Rightarrow> grep_request \<Rightarrow> int \<Rightarrow> ustr \<Rightarrow> bool \<Rightarrow> dict" where
  "exit_error show_type rq code stderr truncated =
     (let lowered = lower stderr; backend = error_backend (gr_rg rq) code stderr truncated in
      if text_contains ''regex parse error'' lowered \<or> text_contains ''error parsing regex'' lowered
        then tool_error ''invalid_pattern''
          (strip (u ''ripgrep rejected the pattern using Rust regex syntax. Look-around and '' @
                  u ''backreferences are not supported. '' @ stderr))
          [(''pattern'', JStr (gr_pattern rq)), (''backend'', backend)]
      else if text_contains ''unrecognized file type'' lowered
        then tool_error ''invalid_file_type''
          (strip (u ''ripgrep does not recognize file_type='' @ show_type (gr_type rq) @ u ''. '' @ stderr))
          [(''file_type'', jopt JStr (gr_type rq)), (''backend'', backend)]
      else tool_error ''backend_error''
        (strip (u ''ripgrep exited unexpectedly with code '' @ int_repr code @ u ''. '' @ stderr)) [(''backend'', backend)])"

definition max_ripgrep_stderr_bytes :: nat where
  "max_ripgrep_stderr_bytes = 64 * 1024"

definition grep_run ::
  "grep_env \<Rightarrow> (ustr option \<Rightarrow> ustr) \<Rightarrow> response_budget \<Rightarrow> grep_request \<Rightarrow> dict \<Rightarrow> rg_run \<Rightarrow> dict" where
  "grep_run env show_type b rq base run =
     (let mode = gr_mode rq;
          capture = drain_stream (run_stderr run) (new_bytes_capture max_ripgrep_stderr_bytes);
          stderr = strip (decode_stderr (bc_buffer capture)) in
      case read_events env mode (raw_lines (run_stdout run)) (start_grep rq b base) of
        Inl e \<Rightarrow>
          tool_error ''backend_error'' (u ''Could not parse ripgrep machine-readable output: '' @ e)
            [(''backend'', error_backend (gr_rg rq) (run_stopped_code run) stderr (capture_truncated capture))]
      | Inr s \<Rightarrow>
          let s' = finish_events (ge_tok env) mode s in
          if \<not> gs_stop s' \<and> run_code run \<notin> {0, 1}
            then exit_error show_type rq (run_code run) stderr (capture_truncated capture)
          else if mode = u ''summary''
            then fst (with_budget_metadata (ge_tok env)
              (base @ [(''summary'', summary_payload (gs_occurrences s') (gs_files s')), (''next_offset'', JNull)])
              b False ''end_of_results'')
          else page_payload (ge_tok env) (gs_page s'))"

definition gitignore_found :: "list_world \<Rightarrow> search_filters \<Rightarrow> path \<Rightarrow> bool" where
  "gitignore_found w sf p \<longleftrightarrow> sf_gitignore sf \<and> find_git_root (lw_path_exists w) (lw_is_dir w) p \<noteq> None"

definition grep_files ::
  "grep_env \<Rightarrow> (ustr option \<Rightarrow> ustr) \<Rightarrow> (ustr list \<Rightarrow> path \<Rightarrow> rg_spawn) \<Rightarrow> response_budget \<Rightarrow> list_world \<Rightarrow> bool
   \<Rightarrow> grep_request \<Rightarrow> path \<Rightarrow> dict" where
  "grep_files env show_type spawn b w file rq p =
     (case validate_existing_path w p of
        Some e \<Rightarrow> e
      | None \<Rightarrow>
        (case grep_request_error rq of
           Some e \<Rightarrow> e
         | None \<Rightarrow>
             let sf = gr_filters rq; tok = ge_tok env;
                 applied = (if file then resolve_allowed_paths w p (sf_gitignore sf) \<noteq> None else gitignore_found w sf p) in
             if u ''.git'' \<in> set p then empty_grep_result tok b rq p (gitignore_found w sf p)
             else if file \<and> iter_matching_files w file sf p (gr_glob rq) = [] then empty_grep_result tok b rq p applied
             else
               let cwd = (if file then butlast p else p);
                   target = (if file then last p else u ''.'') in
               (case spawn (build_ripgrep_command rq target) cwd of
                  RgMissing \<Rightarrow>
                    tool_error ''backend_unavailable''
                      (u ''ripgrep binary '' @ show_type (Some (gr_rg rq)) @ u '' was not found. Install ripgrep or set '' @
                       u ''CHATGPT_MCP_RIPGREP_BINARY to its executable path.'')
                      [(''backend'', backend_metadata (gr_rg rq) ''unavailable'' [])]
                | RgOsError e \<Rightarrow>
                    tool_error ''backend_unavailable''
                      (u ''Could not execute ripgrep binary '' @ show_type (Some (gr_rg rq)) @ u '': '' @ e)
                      [(''backend'', backend_metadata (gr_rg rq) ''unavailable'' [(''os_error'', JStr e)])]
                | RgRunning run \<Rightarrow>
                    grep_run (env\<lparr>ge_absolute := absolute_result_path (lw_resolve w) cwd\<rparr>) show_type b rq
                      (grep_base_payload rq p applied) run)))"

section \<open>search_files\<close>

definition search_match :: "json \<Rightarrow> json" where
  "search_match m =
     (case m of
        JObj d \<Rightarrow> JObj [(''path'', get_or_null d ''path''), (''line_number'', get_or_null d ''line_number''), (''line'', get_or_null d ''line'')]
      | _ \<Rightarrow> JNull)"

definition search_request :: "ustr \<Rightarrow> ustr \<Rightarrow> ustr option \<Rightarrow> int \<Rightarrow> int \<Rightarrow> search_filters \<Rightarrow> grep_request" where
  "search_request rg query glob limit offset sf =
     \<lparr>gr_pattern = query, gr_glob = glob, gr_mode = u ''content'', gr_before = 0, gr_after = 0, gr_ignore_case = False,
      gr_limit = limit, gr_offset = offset, gr_multiline = False, gr_filters = sf, gr_type = None, gr_only = False,
      gr_fixed = True, gr_engine = u ''auto'', gr_rg = rg\<rparr>"

definition reply_stop_reason :: "dict \<Rightarrow> ustr" where
  "reply_stop_reason d = (case map_of d ''stop_reason'' of Some (JStr s) \<Rightarrow> s | _ \<Rightarrow> u ''end_of_results'')"

text \<open>Reading a reason back as a literal of the program, which every reason is.\<close>

definition search_files ::
  "grep_env \<Rightarrow> (ustr option \<Rightarrow> ustr) \<Rightarrow> (ustr list \<Rightarrow> path \<Rightarrow> rg_spawn) \<Rightarrow> response_budget \<Rightarrow> list_world \<Rightarrow> bool
   \<Rightarrow> ustr \<Rightarrow> ustr \<Rightarrow> ustr option \<Rightarrow> int \<Rightarrow> int \<Rightarrow> search_filters \<Rightarrow> path \<Rightarrow> dict" where
  "search_files env show_type spawn b w file rg query glob limit offset sf p =
     (let result = grep_files env show_type spawn b w file (search_request rg query glob limit offset sf) p in
      if map_of result ''success'' \<noteq> Some (JBool True) then result
      else
        fst (with_budget_metadata (ge_tok env)
          [(''success'', JBool True),
           (''matches'', (case get_or_null result ''matches'' of JList ms \<Rightarrow> JList (map search_match ms) | _ \<Rightarrow> JNull)),
           (''truncated'', get_or_null result ''truncated''),
           (''next_offset'', get_or_null result ''next_offset''),
           (''filters'', get_or_null result ''filters'')]
          b (\<not> json_falsy (get_or_null result ''truncated'')) (map char_of (reply_stop_reason result))))"

end
