(* ===== verification/SearchProps.thy ===== *)
theory SearchProps
  imports SearchContext SearchGrep
begin

text \<open>
  Content searches against their specification: what ripgrep prints for the lines of some files is
  turned into the page of their matches with context, each match once, whatever the budget and however
  matches and context lines mix.
\<close>

section \<open>What ripgrep prints\<close>

text \<open>
  The documented stream of \<^verbatim>\<open>rg --json\<close>: a begin event, the lines in order and an end event for each file,
  and a summary. \<open>off\<close> gives the byte offsets of the lines.
\<close>

definition text_value :: "ustr \<Rightarrow> json" where
  "text_value s = JObj [(''text'', JStr s)]"

definition rg_event :: "string \<Rightarrow> dict \<Rightarrow> json" where
  "rg_event t data = JObj [(''type'', jlit t), (''data'', JObj data)]"

definition line_data :: "ustr \<Rightarrow> (int \<Rightarrow> int) \<Rightarrow> line_event \<Rightarrow> dict" where
  "line_data raw off e =
     (case e of (n, t, s) \<Rightarrow>
        [(''path'', text_value raw), (''lines'', text_value t), (''line_number'', JInt n), (''absolute_offset'', JInt (off n)),
         (''submatches'', JList (case s of None \<Rightarrow> [] | Some ss \<Rightarrow> ss))])"

definition line_json :: "ustr \<Rightarrow> (int \<Rightarrow> int) \<Rightarrow> line_event \<Rightarrow> json" where
  "line_json raw off e = rg_event (if snd (snd e) = None then ''context'' else ''match'') (line_data raw off e)"

definition file_json :: "(ustr \<Rightarrow> int \<Rightarrow> int) \<Rightarrow> ustr \<times> line_event list \<Rightarrow> json list" where
  "file_json off f =
     (case f of (raw, E) \<Rightarrow>
        rg_event ''begin'' [(''path'', text_value raw)] # map (line_json raw (off raw)) E @
        [rg_event ''end'' [(''path'', text_value raw)]])"

definition rg_output :: "(ustr \<Rightarrow> int \<Rightarrow> int) \<Rightarrow> (ustr \<times> line_event list) list \<Rightarrow> json list" where
  "rg_output off files = concat (map (file_json off) files) @ [rg_event ''summary'' []]"


section \<open>The loop as a fold\<close>

definition plain :: "content_collector \<Rightarrow> bool" where
  "plain c \<longleftrightarrow> \<not> cc_multiline c \<and> \<not> cc_only_matching c"




section \<open>One event\<close>

lemma plain_updates [simp]:
  "plain (c\<lparr>cc_pending := x\<rparr>) = plain c" "plain (c\<lparr>cc_page := pg\<rparr>) = plain c" "plain (c\<lparr>cc_current := cur\<rparr>) = plain c"
  "plain (c\<lparr>cc_recent := r\<rparr>) = plain c" "plain (c\<lparr>cc_order := q\<rparr>) = plain c"
  "plain (flush_pending tok b c) = plain c" "plain (trim_recent n c) = plain c" "plain (record_recent n l c) = plain c"
  by (simp_all add: plain_def)

lemma plain_finish [simp]: "plain (finish_file tok c) = plain c"
  by (simp add: finish_file_def)

lemma plain_enter [simp]: "plain (enter_file tok p c) = plain c"
  by (simp add: enter_file_def)

lemma plain_queue [simp]: "plain (queue_item tok i c) = plain c"
  by (simp add: queue_item_def plain_def)

lemma plain_records [simp]: "plain (fold (\<lambda>(k, l). record_recent k l) ls c) = plain c"
proof (induction ls arbitrary: c)
  case (Cons a ls)
  then show ?case by (cases a) simp
qed simp




lemma json_text [simp]: "decode_json_value (Some (text_value s)) label = Inr s"
  by (simp add: decode_json_value_def text_value_def)

lemma line_data_fields [simp]:
  "map_of (line_data raw off (n, t, s)) ''path'' = Some (text_value raw)"
  "map_of (line_data raw off (n, t, s)) ''lines'' = Some (text_value t)"
  "map_of (line_data raw off (n, t, s)) ''line_number'' = Some (JInt n)"
  "map_of (line_data raw off (n, t, s)) ''absolute_offset'' = Some (JInt (off n))"
  "map_of (line_data raw off (n, t, s)) ''submatches'' = Some (JList (case s of None \<Rightarrow> [] | Some ss \<Rightarrow> ss))"
  by (simp_all add: line_data_def)






section \<open>All events\<close>















text \<open>The hypotheses on a file of three lines whose second one matches.\<close>

definition search_sample_files :: "(ustr \<times> line_event list) list" where
  "search_sample_files = [(u ''a.txt'', [(1, u ''one'' @ [10], None), (2, u ''two'' @ [10], Some []), (3, u ''three'' @ [10], None)])]"

definition sample_env :: grep_env where
  "sample_env = \<lparr>ge_tok = length, ge_absolute = id,
     ge_loads = (\<lambda>raw. Inr (rg_output (\<lambda>p n. 4 * n) search_sample_files ! (hd raw - 48))), ge_int_error = (\<lambda>j. None)\<rparr>"

definition sample_run :: rg_run where
  "sample_run = \<lparr>run_stdout = [48, 10, 49, 10, 50, 10, 51, 10, 52, 10, 53, 10], run_stderr = [], run_code = 0, run_stopped_code = 0\<rparr>"

definition search_sample_request :: grep_request where
  "search_sample_request = (search_request (u ''rg'') (u ''two'') None 10 0
     \<lparr>sf_hidden = False, sf_gitignore = True, sf_patterns = []\<rparr>)\<lparr>gr_before := 1, gr_after := 1\<rparr>"





section \<open>A malformed event in a summary\<close>

lemma feed_json_summary:
  "feed_json env (u ''summary'') e s = Inr s' \<Longrightarrow>
     gs_stop s' = gs_stop s \<and> gs_parsed s' = gs_parsed s \<and> gs_malformed s' = gs_malformed s"
  by (auto simp: feed_json_def feed_data_def feed_counts_def paged_mode_def Let_def
      split: json.splits option.splits sum.splits if_splits)

lemma read_summary_append:
  assumes "read_events env (u ''summary'') raws s0 = Inr s" "\<not> gs_stop s0" "gs_malformed s0 = 0" "gs_malformed s = 0"
  shows "read_events env (u ''summary'') (raws @ ys) s0 = read_events env (u ''summary'') ys s \<and>
    gs_parsed s = gs_parsed s0 + length raws \<and> \<not> gs_stop s"
  using assms
proof (induction raws arbitrary: s0)
  case (Cons raw raws)
  have small: "\<not> (max_ripgrep_event_bytes < length raw \<and> \<not> endswith raw [10])"
    using Cons.prems by (auto split: if_splits)
  obtain e where e: "ge_loads env raw = Inr e" using Cons.prems by (auto split: if_splits sum.splits)
  obtain s1 where s1: "feed_json env (u ''summary'') e (s0\<lparr>gs_parsed := Suc (gs_parsed s0)\<rparr>) = Inr s1"
    using Cons.prems(1) small e by (cases "feed_json env (u ''summary'') e (s0\<lparr>gs_parsed := Suc (gs_parsed s0)\<rparr>)") auto
  from feed_json_summary [OF s1] Cons.prems(2,3)
  have keep: "\<not> gs_stop s1" "gs_parsed s1 = Suc (gs_parsed s0)" "gs_malformed s1 = 0" by simp_all
  have step: "read_events env (u ''summary'') (raw # zs) s0 = read_events env (u ''summary'') zs s1" for zs
    using keep(1) unfolding read_events.simps(2) if_not_P [OF small] e s1 sum.case by simp
  show ?case using Cons.IH [of s1] Cons.prems(1,4) keep unfolding append_Cons step by simp
qed simp

text \<open>A summary that could not read the rest of ripgrep's output calls itself complete. When an event after
  the first one is too long or not JSON, the counts cover only what came before it, and the reply says
  \<^verbatim>\<open>complete\<close>, not truncated, end of results; the other modes report \<^verbatim>\<open>malformed_ripgrep_event\<close>.\<close>

theorem summary_hides_malformed_event:
  assumes "gr_mode rq = u ''summary''" "raw_lines (run_stdout run) = raws @ bad # rest" "raws \<noteq> []"
    and "read_events env (u ''summary'') raws (start_grep rq b base) = Inr s" "gs_malformed s = 0"
    and "max_ripgrep_event_bytes < length bad \<and> \<not> endswith bad [10] \<or> (\<exists>e. ge_loads env bad = Inl e)"
  shows "grep_run env show_type b rq base run =
    fst (with_budget_metadata (ge_tok env)
      (base @ [(''summary'', summary_payload (gs_occurrences s) (gs_files s)), (''next_offset'', JNull)])
      b False ''end_of_results'')"
proof -
  have "\<not> gs_stop (start_grep rq b base)" "gs_malformed (start_grep rq b base) = 0" by (simp_all add: start_grep_def)
  from read_summary_append [OF assms(4) this assms(5), of "bad # rest"]
  have read: "read_events env (u ''summary'') (raws @ bad # rest) (start_grep rq b base) = read_events env (u ''summary'') (bad # rest) s"
    and "gs_parsed s = length raws" by (simp_all add: start_grep_def)
  with assms(3) have "gs_parsed s \<noteq> 0" by simp
  with assms(6) have "read_events env (u ''summary'') (bad # rest) s = Inr (s\<lparr>gs_malformed := Suc (gs_malformed s)\<rparr>)" by auto
  with read show ?thesis
    by (simp add: grep_run_def Let_def assms(1,2) finish_events_def paged_mode_def)
qed

theorem summary_hides_malformed_event_witness:
  "let env = sample_env\<lparr>ge_loads := (\<lambda>raw. if raw = [48, 10] then Inr JNull else Inl [])\<rparr>;
       run = sample_run\<lparr>run_stdout := [48, 10, 49, 10]\<rparr>; b = \<lparr>max_tokens = 1000, max_bytes = None\<rparr>;
       rq = search_sample_request\<lparr>gr_mode := u ''summary''\<rparr> in
    grep_run env (\<lambda>t. []) b rq [] run =
      fst (with_budget_metadata length
        ([] @ [(''summary'', summary_payload 0 0), (''next_offset'', JNull)]) b False ''end_of_results'')"
proof -
  let ?env = "sample_env\<lparr>ge_loads := (\<lambda>raw. if raw = [48, 10] then Inr JNull else Inl [])\<rparr>"
  let ?run = "sample_run\<lparr>run_stdout := [48, 10, 49, 10]\<rparr>" and ?b = "\<lparr>max_tokens = 1000, max_bytes = None\<rparr>"
  let ?rq = "search_sample_request\<lparr>gr_mode := u ''summary''\<rparr>"
  have lines: "raw_lines (run_stdout ?run) = [[48, 10]] @ [49, 10] # []"
    by (simp add: raw_lines.simps read_line_def max_ripgrep_event_bytes_def)
  have bad: "max_ripgrep_event_bytes < length [49, 10] \<and> \<not> endswith [49, 10] [10] \<or> (\<exists>e. ge_loads ?env [49, 10] = Inl e)"
    by simp
  have good: "read_events ?env (u ''summary'') [[48, 10]] (start_grep ?rq ?b []) = Inr ((start_grep ?rq ?b [])\<lparr>gs_parsed := 1\<rparr>)"
    by (simp add: max_ripgrep_event_bytes_def feed_json_def start_grep_def)
  from summary_hides_malformed_event [OF _ lines _ good _ bad, of "\<lambda>t. []"] show ?thesis
    by (simp add: start_grep_def sample_env_def)
qed

end
