(* ===== verification/GitCore.thy ===== *)
theory GitCore
  imports Budget Fs
begin

text \<open>
  Calls of git and what the tools make of their output: status, log, blame and worktrees (\<^verbatim>\<open>gitops.py\<close>).
  git is an argument: the answer to a call may depend on all calls made so far, which the model keeps as a
  list, so that the properties can speak of the commands that were run. Output is decoded the way
  \<^verbatim>\<open>subprocess.run(text=True)\<close> does it, strictly as UTF-8 and with universal newlines.
\<close>

section \<open>Running git\<close>

type_synonym git_call = "ustr list \<times> path"

record git_answer =
  ga_code :: int
  ga_out :: bytes
  ga_err :: bytes

record completed =
  returncode :: int
  stdout :: ustr
  stderr :: ustr

record git_world =
  gw_git :: "git_call list \<Rightarrow> py_error + git_answer"
  gw_exists :: "git_call list \<Rightarrow> path \<Rightarrow> bool"
  gw_is_dir :: "git_call list \<Rightarrow> path \<Rightarrow> bool"
  gw_expand :: "ustr \<Rightarrow> bool \<times> path"
  gw_resolve :: "path \<Rightarrow> path"
  gw_int :: "ustr \<Rightarrow> int option"

type_synonym 'a git = "git_call list \<Rightarrow> (py_error + 'a) \<times> git_call list"

definition pure_git :: "'a \<Rightarrow> 'a git" where
  "pure_git x = (\<lambda>h. (Inr x, h))"

definition raise_git :: "py_error \<Rightarrow> 'a git" where
  "raise_git e = (\<lambda>h. (Inl e, h))"

definition bind_git :: "'a git \<Rightarrow> ('a \<Rightarrow> 'b git) \<Rightarrow> 'b git" where
  "bind_git m f = (\<lambda>h. case m h of (Inl e, h') \<Rightarrow> (Inl e, h') | (Inr x, h') \<Rightarrow> f x h')"

definition lift_git :: "py_error + 'a \<Rightarrow> 'a git" where
  "lift_git r = (\<lambda>h. (r, h))"

definition decode_output :: "bytes \<Rightarrow> py_error + ustr" where
  "decode_output raw = (case utf8_decode raw of None \<Rightarrow> Inl DecodeError | Some s \<Rightarrow> Inr (universal_newlines s))"

definition decode_answer :: "git_answer \<Rightarrow> py_error + completed" where
  "decode_answer a =
     (case decode_output (ga_out a) of
        Inl e \<Rightarrow> Inl e
      | Inr out \<Rightarrow>
          (case decode_output (ga_err a) of
             Inl e \<Rightarrow> Inl e
           | Inr err \<Rightarrow> Inr \<lparr>returncode = ga_code a, stdout = out, stderr = err\<rparr>))"

definition run_git :: "git_world \<Rightarrow> ustr list \<Rightarrow> path \<Rightarrow> completed git" where
  "run_git w args cwd =
     (\<lambda>h. let h' = h @ [(args, cwd)] in
        (case gw_git w h' of Inl e \<Rightarrow> Inl e | Inr a \<Rightarrow> decode_answer a, h'))"

definition text_or :: "ustr \<Rightarrow> ustr \<Rightarrow> ustr" where
  "text_or s other = (if s \<noteq> [] then s else other)"

definition git_cwd_error :: "git_world \<Rightarrow> path \<Rightarrow> git_call list \<Rightarrow> dict option" where
  "git_cwd_error w cwd h =
     (if \<not> gw_exists w h cwd
        then Some (tool_error ''cwd_not_found'' (u ''Working directory not found: '' @ path_text cwd)
          [(''cwd'', JStr (path_text cwd))])
      else if \<not> gw_is_dir w h cwd
        then Some (tool_error ''cwd_not_directory'' (u ''Working directory is not a directory: '' @ path_text cwd)
          [(''cwd'', JStr (path_text cwd))])
      else None)"

text \<open>The root of the work tree and its branch, or the reply of the tool.\<close>

definition require_repo :: "git_world \<Rightarrow> path \<Rightarrow> (dict + path \<times> ustr) git" where
  "require_repo w cwd =
     (\<lambda>h. case git_cwd_error w cwd h of
        Some e \<Rightarrow> (Inr (Inl e), h)
      | None \<Rightarrow>
          bind_git (run_git w (map u [''rev-parse'', ''--show-toplevel'']) cwd) (\<lambda>root.
            if returncode root \<noteq> 0
            then pure_git (Inl (tool_error ''not_a_git_repo'' (u ''Working directory is not inside a git repository.'')
              [(''cwd'', JStr (path_text cwd)), (''stderr'', JStr (strip (stderr root)))]))
            else
              bind_git (run_git w (map u [''branch'', ''--show-current'']) cwd) (\<lambda>branch.
                pure_git (Inr (path_parts (strip (stdout root)), text_or (strip (stdout branch)) (u ''HEAD''))))) h)"

definition with_repo :: "git_world \<Rightarrow> path \<Rightarrow> (path \<Rightarrow> ustr \<Rightarrow> dict git) \<Rightarrow> dict git" where
  "with_repo w cwd f =
     bind_git (require_repo w cwd) (\<lambda>info. case info of Inl e \<Rightarrow> pure_git e | Inr (root, branch) \<Rightarrow> f root branch)"

definition git_failure :: "string \<Rightarrow> ustr \<Rightarrow> string \<Rightarrow> dict \<Rightarrow> dict" where
  "git_failure code message fallback extra = tool_error code (text_or message (u fallback)) extra"

definition absolute_path :: "git_world \<Rightarrow> path \<Rightarrow> ustr \<Rightarrow> path" where
  "absolute_path w cwd raw =
     (case gw_expand w raw of (absolute, parts) \<Rightarrow> gw_resolve w (if absolute then parts else cwd @ parts))"

definition normalize_pathspec :: "git_world \<Rightarrow> path \<Rightarrow> path \<Rightarrow> ustr \<Rightarrow> ustr" where
  "normalize_pathspec w cwd root pathspec =
     (let p = absolute_path w cwd pathspec in
      if prefix root p then text_or (join [47] (drop (length root) p)) [46] else pathspec)"

section \<open>Status\<close>

text \<open>\<^verbatim>\<open>s.split(sep, 1)[-1]\<close>: what follows the first separator, or all.\<close>

fun after_sub :: "ustr \<Rightarrow> ustr \<Rightarrow> ustr option" where
  "after_sub sep [] = (if sep = [] then Some [] else None)"
| "after_sub sep (c # cs) = (if startswith (c # cs) sep then Some (drop (length sep) (c # cs)) else after_sub sep cs)"

definition renamed_path :: "ustr \<Rightarrow> ustr" where
  "renamed_path s = (case after_sub (u '' -> '') s of None \<Rightarrow> s | Some t \<Rightarrow> t)"

record status_lists =
  sl_staged :: "ustr list"
  sl_unstaged :: "ustr list"
  sl_untracked :: "ustr list"
  sl_entries :: "(ustr \<times> nat \<times> nat) list"

definition status_line :: "ustr \<Rightarrow> status_lists \<Rightarrow> py_error + status_lists" where
  "status_line line s =
     (if startswith line (u ''## '') then Inr s
      else case line of
        x # y # _ \<Rightarrow>
          let path = renamed_path (drop 3 line); s1 = s\<lparr>sl_entries := sl_entries s @ [(path, x, y)]\<rparr> in
          Inr (if x = 63 \<and> y = 63 then s1\<lparr>sl_untracked := sl_untracked s @ [path]\<rparr>
               else s1\<lparr>sl_staged := (if x \<noteq> 32 then sl_staged s @ [path] else sl_staged s),
                       sl_unstaged := (if y \<noteq> 32 then sl_unstaged s @ [path] else sl_unstaged s)\<rparr>)
      | _ \<Rightarrow> Inl IndexOutOfRange)"

fun status_lines :: "ustr list \<Rightarrow> status_lists \<Rightarrow> py_error + status_lists" where
  "status_lines [] s = Inr s"
| "status_lines (l # ls) s = (case status_line l s of Inl e \<Rightarrow> Inl e | Inr s' \<Rightarrow> status_lines ls s')"

definition no_status :: status_lists where
  "no_status = \<lparr>sl_staged = [], sl_unstaged = [], sl_untracked = [], sl_entries = []\<rparr>"

definition status_entry_json :: "ustr \<times> nat \<times> nat \<Rightarrow> json" where
  "status_entry_json e =
     (case e of (path, x, y) \<Rightarrow>
        JObj [(''path'', JStr path), (''index_status'', JStr [x]), (''worktree_status'', JStr [y])])"

definition git_status_payload :: "path \<Rightarrow> path \<Rightarrow> ustr \<Rightarrow> status_lists \<Rightarrow> dict" where
  "git_status_payload cwd root branch s =
     [(''success'', JBool True), (''cwd'', JStr (path_text cwd)), (''repo_root'', JStr (path_text root)),
      (''branch'', JStr branch), (''clean'', JBool (sl_entries s = [])),
      (''staged'', JList (map JStr (sl_staged s))), (''unstaged'', JList (map JStr (sl_unstaged s))),
      (''untracked'', JList (map JStr (sl_untracked s))), (''entries'', JList (map status_entry_json (sl_entries s)))]"

definition git_status :: "git_world \<Rightarrow> path \<Rightarrow> dict git" where
  "git_status w cwd =
     with_repo w cwd (\<lambda>root branch.
       bind_git (run_git w (map u [''status'', ''--short'', ''--branch'']) cwd) (\<lambda>r.
         if returncode r \<noteq> 0
         then pure_git (git_failure ''git_status_failed'' (strip (stderr r)) ''git status failed.'' [(''cwd'', JStr (path_text cwd))])
         else bind_git (lift_git (status_lines (splitlines (stdout r)) no_status)) (\<lambda>s.
           pure_git (git_status_payload cwd root branch s))))"

section \<open>Log\<close>

definition log_entry :: "ustr \<Rightarrow> py_error + json" where
  "log_entry line =
     (case split_char 31 [] line of
        [commit, short, summary, author, at] \<Rightarrow>
          Inr (JObj [(''commit'', JStr commit), (''short_commit'', JStr short), (''summary'', JStr summary),
                     (''author'', JStr author), (''committed_at'', JStr at)])
      | _ \<Rightarrow> Inl InvalidValue)"

fun log_entries :: "ustr list \<Rightarrow> py_error + json list" where
  "log_entries [] = Inr []"
| "log_entries (l # ls) =
     (case log_entry l of
        Inl e \<Rightarrow> Inl e
      | Inr j \<Rightarrow> (case log_entries ls of Inl e \<Rightarrow> Inl e | Inr js \<Rightarrow> Inr (j # js)))"

definition log_format :: ustr where
  "log_format = u ''--pretty=format:%H%x1f%h%x1f%s%x1f%an%x1f%aI''"

definition git_log :: "git_world \<Rightarrow> path \<Rightarrow> int \<Rightarrow> dict git" where
  "git_log w cwd limit =
     with_repo w cwd (\<lambda>root branch.
       bind_git (run_git w [u ''log'', u ''--max-count='' @ int_repr (max limit 1), log_format] cwd) (\<lambda>r.
         if returncode r \<noteq> 0
         then pure_git (git_failure ''git_log_failed'' (strip (stderr r)) ''git log failed.'' [(''cwd'', JStr (path_text cwd))])
         else bind_git (lift_git (log_entries (splitlines (stdout r)))) (\<lambda>es.
           pure_git [(''success'', JBool True), (''cwd'', JStr (path_text cwd)), (''repo_root'', JStr (path_text root)),
                     (''branch'', JStr branch), (''entries'', JList es)])))"

section \<open>Blame\<close>

text \<open>The dictionary of the current commit is the one kept in \<^verbatim>\<open>meta\<close>, so the model keeps its key.\<close>

record blame_state =
  bs_meta :: "(ustr \<times> (ustr \<times> ustr) list) list"
  bs_current :: "(ustr \<times> int) option"
  bs_entries :: "json list"

definition partition_space :: "ustr \<Rightarrow> ustr \<times> ustr" where
  "partition_space s = (takeWhile (\<lambda>c. c \<noteq> 32) s, drop 1 (dropWhile (\<lambda>c. c \<noteq> 32) s))"

definition blame_info :: "blame_state \<Rightarrow> ustr \<Rightarrow> (ustr \<times> ustr) list" where
  "blame_info s sha = (case map_of (bs_meta s) sha of None \<Rightarrow> [] | Some d \<Rightarrow> d)"

definition blame_field :: "(ustr \<times> ustr) list \<Rightarrow> string \<Rightarrow> json" where
  "blame_field d k = JStr (case map_of d (u k) of None \<Rightarrow> [] | Some v \<Rightarrow> v)"

definition blame_line :: "(ustr \<Rightarrow> int option) \<Rightarrow> ustr \<Rightarrow> blame_state \<Rightarrow> py_error + blame_state" where
  "blame_line parse_int raw s =
     (case bs_current s of
        None \<Rightarrow>
          (case split_char 32 [] raw of
             sha # orig # final # _ \<Rightarrow>
               (case parse_int final of
                  None \<Rightarrow> Inl InvalidValue
                | Some n \<Rightarrow>
                    Inr (s\<lparr>bs_meta := (if map_of (bs_meta s) sha = None then AList.update sha [] (bs_meta s) else bs_meta s),
                           bs_current := Some (sha, n)\<rparr>))
           | _ \<Rightarrow> Inr s)
      | Some (sha, n) \<Rightarrow>
          if startswith raw [9] then
            let d = blame_info s sha in
            Inr (s\<lparr>bs_entries := bs_entries s @
                    [JObj [(''line'', JInt n), (''commit'', JStr sha), (''short_commit'', JStr (take 7 sha)),
                           (''author'', blame_field d ''author''), (''author_time'', blame_field d ''author-time''),
                           (''summary'', blame_field d ''summary''), (''content'', JStr (drop 1 raw))]],
                   bs_current := None\<rparr>)
          else
            (case partition_space raw of (key, v) \<Rightarrow>
               if key \<in> set (map u [''author'', ''author-time'', ''summary'', ''filename'', ''previous''])
               then Inr (s\<lparr>bs_meta := AList.update sha (AList.update key v (blame_info s sha)) (bs_meta s)\<rparr>)
               else Inr s))"

fun blame_lines :: "(ustr \<Rightarrow> int option) \<Rightarrow> ustr list \<Rightarrow> blame_state \<Rightarrow> py_error + blame_state" where
  "blame_lines parse_int [] s = Inr s"
| "blame_lines parse_int (l # ls) s =
     (case blame_line parse_int l s of Inl e \<Rightarrow> Inl e | Inr s' \<Rightarrow> blame_lines parse_int ls s')"

definition no_blame :: blame_state where
  "no_blame = \<lparr>bs_meta = [], bs_current = None, bs_entries = []\<rparr>"

definition blame_range :: "int option \<Rightarrow> int option \<Rightarrow> ustr list" where
  "blame_range start_line end_line =
     (if start_line = None \<and> end_line = None then []
      else
        let a = max (case start_line of None \<Rightarrow> 1 | Some i \<Rightarrow> if i = 0 then 1 else i) 1;
            b = (case end_line of None \<Rightarrow> a | Some i \<Rightarrow> i) in
        [u ''-L'', int_repr a @ [44] @ int_repr b])"

definition git_blame ::
  "git_world \<Rightarrow> path \<Rightarrow> ustr \<Rightarrow> ustr option \<Rightarrow> int option \<Rightarrow> int option \<Rightarrow> dict git" where
  "git_blame w cwd file ref start_line end_line =
     with_repo w cwd (\<lambda>root branch.
       let normalized = normalize_pathspec w cwd root file in
       bind_git (run_git w (map u [''blame'', ''--porcelain''] @ blame_range start_line end_line @
           (case ref of None \<Rightarrow> [] | Some r \<Rightarrow> if r = [] then [] else [r]) @ [u ''--'', normalized]) cwd) (\<lambda>r.
         if returncode r \<noteq> 0
         then pure_git (git_failure ''git_blame_failed'' (strip (stderr r)) ''git blame failed.''
           [(''cwd'', JStr (path_text cwd)), (''path'', JStr file), (''ref'', jopt JStr ref)])
         else bind_git (lift_git (blame_lines (gw_int w) (splitlines (stdout r)) no_blame)) (\<lambda>s.
           pure_git [(''success'', JBool True), (''cwd'', JStr (path_text cwd)), (''repo_root'', JStr (path_text root)),
                     (''path'', JStr normalized), (''ref'', jopt JStr ref), (''entries'', JList (bs_entries s))])))"

end
