(* ===== verification/GitDiff.thy ===== *)
theory GitDiff
  imports GitCore
begin

text \<open>
  Diffs, commits and their pages (\<^verbatim>\<open>gitops.py\<close>): \<^verbatim>\<open>git_diff\<close>, \<^verbatim>\<open>git_show\<close>, \<^verbatim>\<open>git_commit\<close>, the split of a diff by
  file, the page of bytes of a diff and the fitting of the reply into the token budget.
\<close>

section \<open>Pages of bytes\<close>

text \<open>\<^verbatim>\<open>b & 0b1100_0000 == 0b1000_0000\<close>.\<close>

definition is_continuation :: "nat \<Rightarrow> bool" where
  "is_continuation b \<longleftrightarrow> b div 64 mod 4 = 2"

fun skip_continuations :: "bytes \<Rightarrow> nat \<Rightarrow> nat" where
  "skip_continuations [] start = start"
| "skip_continuations (b # bs) start = (if is_continuation b then skip_continuations bs (Suc start) else start)"

text \<open>The text of the longest prefix of at most \<open>n\<close> bytes that decodes, and its length.\<close>

fun decode_longest :: "bytes \<Rightarrow> nat \<Rightarrow> ustr \<times> nat" where
  "decode_longest bs 0 = ([], 0)"
| "decode_longest bs (Suc n) =
     (case utf8_decode (take (Suc n) bs) of Some s \<Rightarrow> (s, Suc n) | None \<Rightarrow> decode_longest bs n)"

definition utf8_byte_page :: "bytes \<Rightarrow> int \<Rightarrow> int \<Rightarrow> ustr \<times> nat \<times> nat" where
  "utf8_byte_page raw offset byte_limit =
     (let requested = min (nat offset) (length raw);
          start = skip_continuations (drop requested raw) requested;
          stop = min (max (requested + nat byte_limit) start) (length raw) in
      case decode_longest (drop start raw) (stop - start) of (text, n) \<Rightarrow> (text, start, start + n))"

section \<open>Fitting the reply\<close>

definition truncate_to_tokens :: "(ustr \<Rightarrow> nat) \<Rightarrow> ustr \<Rightarrow> int \<Rightarrow> ustr" where
  "truncate_to_tokens tok text token_limit =
     (let b = \<lparr>max_tokens = token_limit, max_bytes = None\<rparr> in
      if text = [] \<or> token_limit \<le> 0 then []
      else if fits (measure_text tok b text) then text
      else take (bisect_up (\<lambda>n. fits (measure_text tok b (take n text))) 0 (length text)) text)"

definition diff_of :: "dict \<Rightarrow> ustr" where
  "diff_of d = (case map_of d ''diff'' of Some (JStr s) \<Rightarrow> s | _ \<Rightarrow> [])"

fun as_dict :: "json \<Rightarrow> dict" where
  "as_dict (JObj d) = d"
| "as_dict _ = []"

definition file_diffs_of :: "dict \<Rightarrow> dict list" where
  "file_diffs_of d = (case map_of d ''file_diffs'' of Some (JList fs) \<Rightarrow> map as_dict fs | _ \<Rightarrow> [])"

definition set_file_diffs :: "dict list \<Rightarrow> dict \<Rightarrow> dict" where
  "set_file_diffs fs d = AList.update ''file_diffs'' (JList (map JObj fs)) d"

definition files_of :: "dict \<Rightarrow> json list" where
  "files_of d = (case map_of d ''files'' of Some (JList fs) \<Rightarrow> fs | _ \<Rightarrow> [])"

definition cut_file_diff :: "ustr \<Rightarrow> dict \<Rightarrow> dict" where
  "cut_file_diff t f =
     dict_update f ((''diff'', JStr t) #
       (if t \<noteq> diff_of f then [(''truncated'', JBool True), (''token_truncated'', JBool True)] else []))"

definition drop_file_diff :: "dict \<Rightarrow> dict" where
  "drop_file_diff f =
     (if diff_of f \<noteq> []
      then dict_update f [(''diff'', JStr []), (''truncated'', JBool True), (''token_truncated'', JBool True)] else f)"

definition utf8_size :: "ustr \<Rightarrow> nat" where
  "utf8_size s = length (utf8_encode s)"

definition token_attach :: "(ustr \<Rightarrow> nat) \<Rightarrow> response_budget \<Rightarrow> dict \<Rightarrow> dict \<times> budget_measurement" where
  "token_attach tok b d = with_budget_metadata tok d b True ''token_budget''"

definition halved :: "nat \<Rightarrow> dict \<Rightarrow> dict" where
  "halved byte_offset d =
     (let t = take (length (diff_of d) div 2) (diff_of d) in
      dict_update d [(''diff'', JStr t), (''next_offset'', jnat (byte_offset + utf8_size t))])"

lemma attach_keeps:
  "k \<notin> {''complete'', ''partial'', ''truncated'', ''stop_reason'', ''estimated_tokens'', ''effective_budget'', ''budget_exceeded''} \<Longrightarrow>
     map_of (fst (with_budget_metadata tok d b t r)) k = map_of d k"
  using with_budget_metadata_other [OF surjective_pairing] .

lemma diff_of_attach [simp]: "diff_of (fst (with_budget_metadata tok d b t r)) = diff_of d"
  by (simp add: diff_of_def attach_keeps)

lemma file_diffs_of_attach [simp]: "file_diffs_of (fst (with_budget_metadata tok d b t r)) = file_diffs_of d"
  by (simp add: file_diffs_of_def attach_keeps)

lemma diff_of_halved: "diff_of (halved o' d) = take (length (diff_of d) div 2) (diff_of d)"
  by (simp add: halved_def diff_of_def Let_def dict_simps)

lemma halved_shorter: "diff_of d \<noteq> [] \<Longrightarrow> length (diff_of (halved o' d)) < length (diff_of d)"
  by (cases "diff_of d") (simp_all add: diff_of_halved)

function halve_diff ::
  "(ustr \<Rightarrow> nat) \<Rightarrow> response_budget \<Rightarrow> nat \<Rightarrow> dict \<Rightarrow> budget_measurement \<Rightarrow> dict \<times> budget_measurement" where
  "halve_diff tok b byte_offset d m =
     (if fits m \<or> diff_of d = [] then (d, m)
      else
        halve_diff tok b byte_offset (fst (token_attach tok b (halved byte_offset d)))
          (snd (token_attach tok b (halved byte_offset d))))"
  by auto
termination
  by (relation "measure (\<lambda>p. length (diff_of (fst (snd (snd (snd p))))))")
    (auto simp: token_attach_def halved_shorter)

declare halve_diff.simps [simp del]

definition without_last_file :: "dict \<Rightarrow> dict" where
  "without_last_file d =
     (let fs = butlast (file_diffs_of d) in
      AList.update ''file_diffs_truncated'' (JBool True)
        (set_file_diffs fs
          (if length fs < length (files_of d) then AList.update ''files'' (JList (butlast (files_of d))) d else d)))"

lemma file_diffs_without_last: "file_diffs_of (without_last_file d) = butlast (file_diffs_of d)"
  by (simp add: without_last_file_def file_diffs_of_def set_file_diffs_def Let_def dict_simps comp_def)

function pop_files ::
  "(ustr \<Rightarrow> nat) \<Rightarrow> response_budget \<Rightarrow> dict \<Rightarrow> budget_measurement \<Rightarrow> dict \<times> budget_measurement" where
  "pop_files tok b d m =
     (if fits m \<or> file_diffs_of d = [] then (d, m)
      else pop_files tok b (fst (token_attach tok b (without_last_file d))) (snd (token_attach tok b (without_last_file d))))"
  by auto
termination
  by (relation "measure (\<lambda>p. length (file_diffs_of (fst (snd (snd p)))))")
    (auto simp: token_attach_def file_diffs_without_last)

declare pop_files.simps [simp del]

definition drop_body :: "(ustr \<Rightarrow> nat) \<Rightarrow> response_budget \<Rightarrow> dict \<times> budget_measurement \<Rightarrow> dict" where
  "drop_body tok b dm =
     (case dm of (d, m) \<Rightarrow>
        if \<not> fits m \<and> map_of d ''body'' \<noteq> None \<and> map_of d ''body'' \<noteq> Some (JStr [])
        then fst (token_attach tok b (dict_update d [(''body'', JStr []), (''body_truncated'', JBool True)])) else d)"

definition mark_blocked :: "(ustr \<Rightarrow> nat) \<Rightarrow> response_budget \<Rightarrow> nat \<Rightarrow> nat \<Rightarrow> dict \<Rightarrow> dict" where
  "mark_blocked tok b byte_offset byte_count d =
     (if map_of d ''next_offset'' = Some (jnat byte_offset) \<and> byte_offset < byte_count
      then fst (token_attach tok b (AList.update ''continuation_blocked'' (JBool True) d)) else d)"

definition next_byte :: "nat \<Rightarrow> nat \<Rightarrow> ustr \<Rightarrow> json" where
  "next_byte byte_offset byte_count t = (if byte_offset + utf8_size t < byte_count then jnat (byte_offset + utf8_size t) else JNull)"

definition share_tokens :: "(ustr \<Rightarrow> nat) \<Rightarrow> int \<Rightarrow> nat \<Rightarrow> nat \<Rightarrow> dict \<Rightarrow> dict" where
  "share_tokens tok token_limit byte_offset byte_count d =
     (let fs = file_diffs_of d; per_field = max 1 (token_limit div int (2 * (length fs + 1)));
          t = truncate_to_tokens tok (diff_of d) (max 1 (token_limit div 2)) in
      dict_update (set_file_diffs (map (\<lambda>f. cut_file_diff (truncate_to_tokens tok (diff_of f) per_field) f) fs) d)
        [(''diff'', JStr t), (''next_offset'', next_byte byte_offset byte_count t)])"

text \<open>What is done when the reply is still too long.\<close>

definition force_fit :: "(ustr \<Rightarrow> nat) \<Rightarrow> response_budget \<Rightarrow> nat \<Rightarrow> nat \<Rightarrow> dict \<Rightarrow> dict" where
  "force_fit tok b byte_offset byte_count d =
     (let dm1 = token_attach tok b (set_file_diffs (map drop_file_diff (file_diffs_of d)) d);
          dm2 = halve_diff tok b byte_offset (fst dm1) (snd dm1);
          dm3 = pop_files tok b (fst dm2) (snd dm2) in
      mark_blocked tok b byte_offset byte_count (drop_body tok b dm3))"

definition fit_git_payload :: "(ustr \<Rightarrow> nat) \<Rightarrow> int \<Rightarrow> nat \<Rightarrow> nat \<Rightarrow> dict \<Rightarrow> dict" where
  "fit_git_payload tok token_limit byte_offset byte_count payload =
     (let b = \<lparr>max_tokens = token_limit, max_bytes = None\<rparr>;
          byte_truncated = (map_of payload ''truncated'' = Some (JBool True));
          payload1 = AList.update ''next_offset''
            (if byte_truncated then jnat (byte_offset + utf8_size (diff_of payload)) else JNull) payload;
          (d1, m1) = with_budget_metadata tok payload1 b byte_truncated
            (if byte_truncated then ''byte_budget'' else ''end_of_diff'') in
      if fits m1 then d1
      else
        let d2 = share_tokens tok token_limit byte_offset byte_count d1;
            token_truncated = (diff_of d2 \<noteq> diff_of d1);
            (d3, m3) = with_budget_metadata tok d2 b (byte_truncated \<or> token_truncated)
              (if token_truncated then ''token_budget'' else ''byte_budget'') in
        if fits m3 then d3 else force_fit tok b byte_offset byte_count d3)"

section \<open>Splitting a diff by file\<close>

text \<open>\<^verbatim>\<open>splitlines(keepends=True)\<close>.\<close>

fun keep_lines_from :: "ustr \<Rightarrow> ustr \<Rightarrow> ustr list" where
  "keep_lines_from cur [] = (if cur = [] then [] else [rev cur])"
| "keep_lines_from cur [c] = [rev (c # cur)]"
| "keep_lines_from cur (c # d # cs) =
     (if c = 13 \<and> d = 10 then rev (d # c # cur) # keep_lines_from [] cs
      else if is_line_break c then rev (c # cur) # keep_lines_from [] (d # cs)
      else keep_lines_from (c # cur) (d # cs))"

record diff_split =
  df_chunks :: "(ustr \<times> ustr) list"
  df_buffer :: "ustr list"
  df_path :: ustr

definition flush_chunk :: "diff_split \<Rightarrow> diff_split" where
  "flush_chunk s =
     (if df_buffer s = [] then s
      else s\<lparr>df_chunks := df_chunks s @ [(text_or (df_path s) (u ''(unknown)''), concat (df_buffer s))], df_buffer := []\<rparr>)"

definition strip_newlines :: "ustr \<Rightarrow> ustr" where
  "strip_newlines s = rstrip_by (\<lambda>c. c = 10) s"

definition without_b :: "ustr \<Rightarrow> ustr" where
  "without_b s = (if startswith s (u ''b/'') then drop 2 s else s)"

definition split_line :: "ustr \<Rightarrow> diff_split \<Rightarrow> diff_split" where
  "split_line line s =
     (let s1 =
        (if startswith line (u ''diff --git '')
         then (flush_chunk s)\<lparr>df_path := without_b (last (split_char 32 [] (strip_newlines (drop 11 line))))\<rparr>
         else if startswith line (u ''+++ '') \<and> df_buffer s \<noteq> [] then
           (let marker = strip_newlines (drop 4 line) in
            if startswith marker (u ''b/'') then s\<lparr>df_path := drop 2 marker\<rparr>
            else if marker \<noteq> u ''/dev/null'' then s\<lparr>df_path := marker\<rparr> else s)
         else s) in
      s1\<lparr>df_buffer := df_buffer s1 @ [line]\<rparr>)"

definition split_diff_by_file :: "ustr \<Rightarrow> (ustr \<times> ustr) list" where
  "split_diff_by_file text =
     df_chunks (flush_chunk (fold split_line (keep_lines_from [] text) \<lparr>df_chunks = [], df_buffer = [], df_path = []\<rparr>))"

section \<open>git_diff and git_show\<close>

type_synonym line_stats = "int option \<times> int option \<times> bool"

definition stat_count :: "(ustr \<Rightarrow> int option) \<Rightarrow> ustr \<Rightarrow> py_error + int option" where
  "stat_count parse s =
     (if s = u ''-'' then Inr None else case parse s of None \<Rightarrow> Inl InvalidValue | Some n \<Rightarrow> Inr (Some n))"

fun numstat :: "(ustr \<Rightarrow> int option) \<Rightarrow> ustr list \<Rightarrow> (ustr \<times> line_stats) list \<Rightarrow> py_error + (ustr \<times> line_stats) list" where
  "numstat parse [] stats = Inr stats"
| "numstat parse (l # ls) stats =
     (case split_char 9 [] l of
        [added, removed, path] \<Rightarrow>
          (case stat_count parse added of
             Inl e \<Rightarrow> Inl e
           | Inr a \<Rightarrow>
               (case stat_count parse removed of
                  Inl e \<Rightarrow> Inl e
                | Inr r \<Rightarrow>
                    numstat parse ls (AList.update path (a, r, added = u ''-'' \<and> removed = u ''-'') stats)))
      | _ \<Rightarrow> numstat parse ls stats)"

definition file_diff :: "int \<Rightarrow> ustr \<times> ustr \<Rightarrow> dict" where
  "file_diff per_file e =
     (case e of (path, chunk) \<Rightarrow>
        let raw = utf8_encode chunk; truncated = per_file < int (length raw) in
        [(''path'', JStr path), (''diff'', JStr (if truncated then utf8_decode_ignore (take (nat per_file) raw) else chunk)),
         (''truncated'', JBool truncated), (''bytes'', jnat (length raw))])"

definition stats_fields :: "(ustr \<times> line_stats) list \<Rightarrow> ustr \<Rightarrow> dict" where
  "stats_fields stats path =
     (case (case map_of stats path of None \<Rightarrow> (None, None, False) | Some s \<Rightarrow> s) of
        (a, r, binary) \<Rightarrow> [(''added'', jopt JInt a), (''removed'', jopt JInt r), (''binary'', JBool binary)])"

text \<open>The end of both tools: a page of the diff behind the fields that describe it.\<close>

definition diff_reply :: "(ustr \<Rightarrow> nat) \<Rightarrow> int \<Rightarrow> int \<Rightarrow> int \<Rightarrow> dict \<Rightarrow> (ustr \<times> dict) list \<Rightarrow> ustr \<Rightarrow> dict" where
  "diff_reply tok token_limit byte_limit offset base files text =
     (let raw = utf8_encode text in
      case utf8_byte_page raw offset byte_limit of (page, start, stop) \<Rightarrow>
        fit_git_payload tok token_limit start (length raw)
          (base @
           [(''files'', JList (map (JStr \<circ> fst) files)), (''file_diffs'', JList (map (JObj \<circ> snd) files)),
            (''diff'', JStr page), (''truncated'', JBool (stop < length raw)), (''total_bytes'', jnat (length raw))]))"

definition bad_sizes :: dict where
  "bad_sizes = tool_error ''invalid_arguments'' (u ''max_bytes and per_file_max_bytes must be positive integers.'') []"

record diff_request =
  dr_max_bytes :: int
  dr_per_file :: int
  dr_offset :: int
  dr_max_tokens :: int

definition diff_args :: "string list \<Rightarrow> bool \<Rightarrow> ustr list \<Rightarrow> ustr list" where
  "diff_args first staged paths =
     map u first @ (if staged then [u ''--cached''] else []) @ (if paths \<noteq> [] then u ''--'' # paths else [])"

definition git_diff :: "(ustr \<Rightarrow> nat) \<Rightarrow> git_world \<Rightarrow> path \<Rightarrow> bool \<Rightarrow> ustr list \<Rightarrow> diff_request \<Rightarrow> dict git" where
  "git_diff tok w cwd staged paths rq =
     (if dr_max_bytes rq \<le> 0 \<or> dr_per_file rq \<le> 0 then pure_git bad_sizes
      else with_repo w cwd (\<lambda>root _.
        let ps = map (normalize_pathspec w cwd root) paths in
        bind_git (run_git w (diff_args [''diff'', ''--no-color''] staged ps) cwd) (\<lambda>r.
          if returncode r \<noteq> 0
          then pure_git (git_failure ''git_diff_failed'' (strip (stderr r)) ''git diff failed.'' [(''cwd'', JStr (path_text cwd))])
          else
            bind_git (run_git w (diff_args [''diff'', ''--numstat''] staged ps) cwd) (\<lambda>n.
              bind_git (lift_git (numstat (gw_int w) (splitlines (stdout n)) [])) (\<lambda>stats.
                pure_git
                  (diff_reply tok (dr_max_tokens rq) (dr_max_bytes rq) (dr_offset rq)
                    [(''success'', JBool True), (''cwd'', JStr (path_text cwd)), (''repo_root'', JStr (path_text root)),
                     (''staged'', JBool staged)]
                    (map (\<lambda>(p, c). (p, dict_update (file_diff (dr_per_file rq) (p, c)) (stats_fields stats p)))
                      (split_diff_by_file (stdout r)))
                    (stdout r)))))))"

definition show_format :: ustr where
  "show_format = u ''--pretty=format:%H%x1f%h%x1f%s%x1f%an%x1f%aI%x1f%P%x1f%B''"

text \<open>\<^verbatim>\<open>s.split("\x1f", 6)\<close>.\<close>

fun split_at_most :: "nat \<Rightarrow> nat \<Rightarrow> ustr \<Rightarrow> ustr \<Rightarrow> ustr list" where
  "split_at_most 0 sep cur s = [rev cur @ s]"
| "split_at_most (Suc n) sep cur [] = [rev cur]"
| "split_at_most (Suc n) sep cur (c # cs) =
     (if c = sep then rev cur # split_at_most n sep [] cs else split_at_most (Suc n) sep (c # cur) cs)"

definition show_failure :: "path \<Rightarrow> ustr \<Rightarrow> ustr \<Rightarrow> dict" where
  "show_failure cwd ref message =
     tool_error ''git_show_failed'' message [(''cwd'', JStr (path_text cwd)), (''ref'', JStr ref)]"

text \<open>\<open>show\<close> is \<^verbatim>\<open>repr\<close>.\<close>

definition git_show ::
  "(ustr \<Rightarrow> nat) \<Rightarrow> (ustr \<Rightarrow> ustr) \<Rightarrow> git_world \<Rightarrow> path \<Rightarrow> ustr \<Rightarrow> diff_request \<Rightarrow> dict git" where
  "git_show tok show_text w cwd ref rq =
     (if dr_max_bytes rq \<le> 0 \<or> dr_per_file rq \<le> 0 then pure_git bad_sizes
      else with_repo w cwd (\<lambda>root _.
        bind_git (run_git w (map u [''show'', ''--no-color'', ''--no-patch''] @ [show_format, ref]) cwd) (\<lambda>meta.
          if returncode meta \<noteq> 0
          then pure_git (show_failure cwd ref (text_or (strip (stderr meta)) (u ''git show failed for ref '' @ show_text ref @ u ''.'')))
          else case split_at_most 6 31 [] (stdout meta) of
            [commit, short, summary, author, at, parents, body] \<Rightarrow>
              bind_git (run_git w (map u [''show'', ''--no-color'', ''--format=''] @ [ref]) cwd) (\<lambda>r.
                if returncode r \<noteq> 0
                then pure_git (show_failure cwd ref
                  (text_or (strip (stderr r)) (u ''git show diff failed for ref '' @ show_text ref @ u ''.'')))
                else
                  pure_git
                    (diff_reply tok (dr_max_tokens rq) (dr_max_bytes rq) (dr_offset rq)
                      [(''success'', JBool True), (''cwd'', JStr (path_text cwd)), (''repo_root'', JStr (path_text root)),
                       (''ref'', JStr ref), (''commit'', JStr commit), (''short_commit'', JStr short),
                       (''summary'', JStr summary), (''author'', JStr author), (''committed_at'', JStr at),
                       (''parents'', JList (map JStr (filter (\<lambda>p. p \<noteq> []) (split_char 32 [] parents)))),
                       (''body'', JStr (strip_newlines body))]
                      (map (\<lambda>e. (fst e, file_diff (dr_per_file rq) e)) (split_diff_by_file (stdout r)))
                      (stdout r)))
          | _ \<Rightarrow> pure_git (show_failure cwd ref (u ''Unexpected git show output.'')))))"

section \<open>git_commit\<close>

record commit_request =
  cm_message :: ustr
  cm_paths :: "ustr list"
  cm_stage_all :: bool
  cm_amend :: bool
  cm_allow_empty :: bool
  cm_author :: "ustr option"
  cm_sign_off :: bool
  cm_dry_run :: bool

definition stage_args :: "commit_request \<Rightarrow> ustr list \<Rightarrow> ustr list option" where
  "stage_args rq paths =
     (if cm_dry_run rq then None
      else if cm_stage_all rq then Some (map u [''add'', ''-A''])
      else if paths \<noteq> [] then Some (map u [''add'', ''--''] @ paths)
      else None)"

definition commit_args :: "commit_request \<Rightarrow> ustr list" where
  "commit_args rq =
     [u ''commit'', u ''-m'', cm_message rq] @ (if cm_amend rq then [u ''--amend''] else []) @
     (if cm_allow_empty rq then [u ''--allow-empty''] else []) @
     (case cm_author rq of None \<Rightarrow> [] | Some a \<Rightarrow> if a = [] then [] else [u ''--author'', a]) @
     (if cm_sign_off rq then [u ''--signoff''] else [])"

definition non_empty_lines :: "ustr \<Rightarrow> ustr list" where
  "non_empty_lines s = filter (\<lambda>l. l \<noteq> []) (splitlines s)"

text \<open>The files that would be staged: with \<^verbatim>\<open>stage_all\<close> another call of git.\<close>

definition would_stage :: "git_world \<Rightarrow> path \<Rightarrow> commit_request \<Rightarrow> ustr list \<Rightarrow> ustr list git" where
  "would_stage w cwd rq paths =
     (if cm_stage_all rq
      then bind_git (run_git w (map u [''status'', ''--porcelain'']) cwd) (\<lambda>r.
        pure_git (map (\<lambda>l. renamed_path (drop 3 l)) (non_empty_lines (stdout r))))
      else pure_git paths)"

definition stage_files :: "git_world \<Rightarrow> path \<Rightarrow> commit_request \<Rightarrow> ustr list \<Rightarrow> dict option git" where
  "stage_files w cwd rq paths =
     (case stage_args rq paths of
        None \<Rightarrow> pure_git None
      | Some args \<Rightarrow>
          bind_git (run_git w args cwd) (\<lambda>r.
            pure_git
              (if returncode r \<noteq> 0
               then Some (git_failure ''git_add_failed'' (strip (stderr r))
                 (if cm_stage_all rq then ''git add -A failed.'' else ''git add failed.'') [(''cwd'', JStr (path_text cwd))])
               else None)))"

definition dry_run_reply :: "path \<Rightarrow> path \<Rightarrow> ustr \<Rightarrow> commit_request \<Rightarrow> ustr list \<Rightarrow> ustr list \<Rightarrow> dict" where
  "dry_run_reply cwd root branch rq files would =
     [(''success'', JBool True), (''cwd'', JStr (path_text cwd)), (''repo_root'', JStr (path_text root)),
      (''branch'', JStr branch), (''summary'', JStr (cm_message rq)), (''files'', JList (map JStr files)),
      (''amended'', JBool (cm_amend rq)), (''allow_empty'', JBool (cm_allow_empty rq)), (''dry_run'', JBool True),
      (''would_stage'', JList (map JStr would)), (''commit_args'', JList (map JStr (commit_args rq)))]"

definition commit_reply :: "path \<Rightarrow> path \<Rightarrow> ustr \<Rightarrow> commit_request \<Rightarrow> ustr \<Rightarrow> ustr list \<Rightarrow> dict" where
  "commit_reply cwd root branch rq commit files =
     [(''success'', JBool True), (''cwd'', JStr (path_text cwd)), (''repo_root'', JStr (path_text root)),
      (''branch'', JStr branch), (''commit'', JStr commit), (''short_commit'', JStr (take 7 commit)),
      (''summary'', JStr (cm_message rq)), (''files'', JList (map JStr files)),
      (''amended'', JBool (cm_amend rq)), (''allow_empty'', JBool (cm_allow_empty rq)), (''dry_run'', JBool False)]"

definition run_commit :: "git_world \<Rightarrow> path \<Rightarrow> path \<Rightarrow> ustr \<Rightarrow> commit_request \<Rightarrow> ustr list \<Rightarrow> dict git" where
  "run_commit w cwd root branch rq staged =
     bind_git (run_git w (commit_args rq) cwd) (\<lambda>r.
       if returncode r \<noteq> 0
       then pure_git (git_failure ''git_commit_failed'' (text_or (strip (stderr r)) (strip (stdout r))) ''git commit failed.''
         [(''cwd'', JStr (path_text cwd))])
       else
         bind_git (run_git w (map u [''rev-parse'', ''HEAD'']) cwd) (\<lambda>head.
           let commit = strip (stdout head) in
           bind_git
             (if cm_amend rq
              then bind_git (run_git w (map u [''show'', ''--name-only'', ''--pretty=format:''] @ [commit]) cwd) (\<lambda>c.
                pure_git (non_empty_lines (stdout c)))
              else pure_git staged) (\<lambda>files.
           pure_git (commit_reply cwd root branch rq commit files))))"

definition git_commit :: "git_world \<Rightarrow> path \<Rightarrow> commit_request \<Rightarrow> dict git" where
  "git_commit w cwd rq =
     with_repo w cwd (\<lambda>root branch.
       let paths = map (normalize_pathspec w cwd root) (cm_paths rq) in
       bind_git (stage_files w cwd rq paths) (\<lambda>failed.
         case failed of
           Some e \<Rightarrow> pure_git e
         | None \<Rightarrow>
             bind_git (run_git w (map u [''diff'', ''--cached'', ''--name-only'']) cwd) (\<lambda>r.
               let staged = non_empty_lines (stdout r) in
               bind_git (would_stage w cwd rq paths) (\<lambda>would.
                 let files = staged @ filter (\<lambda>f. f \<notin> set staged) would in
                 if files = [] \<and> \<not> cm_allow_empty rq \<and> \<not> cm_amend rq
                 then pure_git (tool_error ''nothing_to_commit'' (u ''No staged changes to commit.'')
                   [(''cwd'', JStr (path_text cwd))])
                 else if cm_dry_run rq then pure_git (dry_run_reply cwd root branch rq files would)
                 else run_commit w cwd root branch rq staged))))"

end
