(* ===== verification/GitWorktree.thy ===== *)
theory GitWorktree
  imports GitCore
begin

text \<open>
  Worktrees (\<^verbatim>\<open>gitops.py\<close>): the parser of \<^verbatim>\<open>git worktree list --porcelain\<close>, creating, inspecting and removing.
  An entry is the dictionary the tool returns; the keys git prints are ASCII words.
\<close>

section \<open>The list\<close>

definition key_of_text :: "ustr \<Rightarrow> string" where
  "key_of_text k = map char_of k"

definition set_missing :: "string \<times> json \<Rightarrow> dict \<Rightarrow> dict" where
  "set_missing kv d = (case kv of (k, v) \<Rightarrow> if map_of d k = None then AList.update k v d else d)"

definition worktree_defaults :: dict where
  "worktree_defaults =
     [(''branch'', JNull), (''branch_ref'', JNull), (''commit'', JNull), (''detached'', JBool False),
      (''bare'', JBool False), (''locked'', JBool False), (''prunable'', JBool False)]"

definition flush_worktree :: "dict \<Rightarrow> dict list \<Rightarrow> dict list" where
  "flush_worktree current entries =
     (if current = [] then entries else entries @ [fold set_missing worktree_defaults current])"

definition heads_prefix :: ustr where
  "heads_prefix = u ''refs/heads/''"

definition remove_prefix :: "ustr \<Rightarrow> ustr \<Rightarrow> ustr" where
  "remove_prefix p s = (if startswith s p then drop (length p) s else s)"

definition worktree_line :: "ustr \<Rightarrow> dict \<times> dict list \<Rightarrow> dict \<times> dict list" where
  "worktree_line line st =
     (case st of (current, entries) \<Rightarrow>
        if line = [] then ([], flush_worktree current entries)
        else
          case partition_space line of (key, v) \<Rightarrow>
            if key = u ''worktree'' then ([(''path'', JStr v)], flush_worktree current entries)
            else
              (if key = u ''HEAD'' then AList.update ''commit'' (JStr v) current
               else if key = u ''branch''
                 then dict_update current [(''branch_ref'', JStr v), (''branch'', JStr (remove_prefix heads_prefix v))]
               else if key \<in> set (map u [''detached'', ''bare'', ''locked'', ''prunable''])
                 then dict_update current
                   ((key_of_text key, JBool True) # (if v = [] then [] else [(key_of_text key @ ''_reason'', JStr v)]))
               else if key \<noteq> [] then AList.update (key_of_text key) (if v = [] then JBool True else JStr v) current
               else current, entries))"

definition parse_worktree_list :: "ustr \<Rightarrow> dict list" where
  "parse_worktree_list out =
     (case fold worktree_line (splitlines out) ([], []) of (current, entries) \<Rightarrow> flush_worktree current entries)"

definition worktrees_of :: "git_world \<Rightarrow> path \<Rightarrow> path \<Rightarrow> (dict + dict list) git" where
  "worktrees_of w cwd root =
     bind_git (run_git w (map u [''worktree'', ''list'', ''--porcelain'']) root) (\<lambda>r.
       pure_git
         (if returncode r \<noteq> 0
          then Inl (git_failure ''git_worktree_list_failed'' (strip (stderr r)) ''git worktree list failed.''
            [(''cwd'', JStr (path_text cwd))])
          else Inr (parse_worktree_list (stdout r))))"

definition worktree_list_payload :: "path \<Rightarrow> path \<Rightarrow> dict list \<Rightarrow> dict" where
  "worktree_list_payload cwd root entries =
     [(''success'', JBool True), (''cwd'', JStr (path_text cwd)), (''repo_root'', JStr (path_text root)),
      (''worktrees'', JList (map JObj entries))]"

definition git_worktree_list :: "git_world \<Rightarrow> path \<Rightarrow> dict git" where
  "git_worktree_list w cwd =
     with_repo w cwd (\<lambda>root branch.
       bind_git (worktrees_of w cwd root) (\<lambda>r.
         pure_git (case r of Inl e \<Rightarrow> e | Inr entries \<Rightarrow> worktree_list_payload cwd root entries)))"

definition entry_path :: "dict \<Rightarrow> path option" where
  "entry_path entry = (case map_of entry ''path'' of Some (JStr p) \<Rightarrow> Some (path_parts p) | _ \<Rightarrow> None)"

definition is_worktree :: "git_world \<Rightarrow> path \<Rightarrow> dict \<Rightarrow> bool" where
  "is_worktree w target entry =
     (case entry_path entry of None \<Rightarrow> False | Some p \<Rightarrow> gw_resolve w p = gw_resolve w target)"

definition find_worktree :: "git_world \<Rightarrow> dict list \<Rightarrow> path \<Rightarrow> dict option" where
  "find_worktree w entries target = find (is_worktree w target) entries"

section \<open>Creating\<close>

definition git_worktree_create ::
  "git_world \<Rightarrow> path \<Rightarrow> ustr \<Rightarrow> ustr \<Rightarrow> string \<Rightarrow> ustr option \<Rightarrow> dict git" where
  "git_worktree_create w cwd file base_ref mode branch =
     with_repo w cwd (\<lambda>root _.
       if mode \<noteq> ''clean'' \<and> mode \<noteq> ''detached''
       then pure_git (tool_error ''unsupported_worktree_mode''
         (u ''git_worktree_create supports mode='' @ [39] @ u ''clean'' @ [39] @ u '' and mode='' @ [39] @ u ''detached'' @ [39] @ u '' only.'')
         [(''cwd'', JStr (path_text cwd)), (''mode'', jlit mode)])
       else if mode = ''detached'' \<and> branch \<noteq> None \<and> branch \<noteq> Some []
       then pure_git (tool_error ''invalid_arguments''
         (u ''branch can only be used with mode='' @ [39] @ u ''clean'' @ [39] @ u ''.'')
         [(''cwd'', JStr (path_text cwd)), (''mode'', jlit mode), (''branch'', jopt JStr branch)])
       else
         let target = absolute_path w cwd file;
             name = (case branch of Some (c # cs) \<Rightarrow> c # cs | _ \<Rightarrow> if target = [] then [] else last target);
             branch_name = (if mode = ''detached'' then None else Some name);
             args = map u [''worktree'', ''add''] @
               (case branch_name of None \<Rightarrow> [u ''--detach''] | Some b \<Rightarrow> [u ''-b'', b]) @ [path_text target, base_ref] in
         bind_git (run_git w args root) (\<lambda>r.
           if returncode r \<noteq> 0
           then pure_git (git_failure ''git_worktree_create_failed'' (text_or (strip (stderr r)) (strip (stdout r)))
             ''git worktree add failed.''
             [(''cwd'', JStr (path_text cwd)), (''repo_root'', JStr (path_text root)), (''path'', JStr (path_text target)),
              (''base_ref'', JStr base_ref), (''mode'', jlit mode), (''branch'', jopt JStr branch_name)])
           else
             bind_git (worktrees_of w cwd root) (\<lambda>l.
               pure_git
                 [(''success'', JBool True), (''cwd'', JStr (path_text cwd)), (''repo_root'', JStr (path_text root)),
                  (''path'', JStr (path_text target)), (''base_ref'', JStr base_ref), (''mode'', jlit mode),
                  (''branch'', jopt JStr branch_name),
                  (''worktree'', case l of Inl e \<Rightarrow> JNull | Inr entries \<Rightarrow> jopt JObj (find_worktree w entries target))])))"

section \<open>Status\<close>

definition is_success :: "dict \<Rightarrow> bool" where
  "is_success d \<longleftrightarrow> map_of d ''success'' = Some (JBool True)"

definition missing_path :: dict where
  "missing_path = tool_error ''worktree_path_missing'' (u ''Worktree entry has no path.'') []"

text \<open>The entry with its status, and that status (nothing for a bare one).\<close>

definition worktree_status_entry :: "git_world \<Rightarrow> dict \<Rightarrow> (dict \<times> dict option) git" where
  "worktree_status_entry w entry =
     (case entry_path entry of
        None \<Rightarrow> pure_git (AList.update ''status'' (JObj missing_path) entry, Some missing_path)
      | Some p \<Rightarrow>
          if map_of entry ''bare'' = Some (JBool True)
          then pure_git (dict_update entry [(''status'', JNull), (''clean'', JNull)], None)
          else
            bind_git (git_status w p) (\<lambda>status.
              pure_git
                (dict_update entry ((''status'', JObj status) # (if is_success status then [(''clean'', get_or_null status ''clean'')] else [])),
                 Some status)))"

fun worktree_statuses :: "git_world \<Rightarrow> dict list \<Rightarrow> dict list git" where
  "worktree_statuses w [] = pure_git []"
| "worktree_statuses w (e # es) =
     bind_git (worktree_status_entry w e) (\<lambda>r. bind_git (worktree_statuses w es) (\<lambda>rs. pure_git (fst r # rs)))"

definition worktree_not_found :: "path \<Rightarrow> path \<Rightarrow> path \<Rightarrow> dict" where
  "worktree_not_found cwd root target =
     tool_error ''worktree_not_found'' (u ''Path is not a registered git worktree.'')
       [(''cwd'', JStr (path_text cwd)), (''repo_root'', JStr (path_text root)), (''path'', JStr (path_text target))]"

definition worktree_status_failed :: "path \<Rightarrow> path \<Rightarrow> path \<Rightarrow> dict option \<Rightarrow> dict" where
  "worktree_status_failed cwd root target status =
     tool_error ''git_worktree_status_failed'' (u ''Could not read git status for worktree.'')
       [(''cwd'', JStr (path_text cwd)), (''repo_root'', JStr (path_text root)), (''path'', JStr (path_text target)),
        (''status'', jopt JObj status)]"

definition git_worktree_status :: "git_world \<Rightarrow> path \<Rightarrow> ustr option \<Rightarrow> dict git" where
  "git_worktree_status w cwd file =
     with_repo w cwd (\<lambda>root _.
       bind_git (worktrees_of w cwd root) (\<lambda>l.
         case l of
           Inl e \<Rightarrow> pure_git e
         | Inr entries \<Rightarrow>
             (case file of
                None \<Rightarrow>
                  bind_git (worktree_statuses w entries) (\<lambda>ss. pure_git (worktree_list_payload cwd root ss))
              | Some f \<Rightarrow>
                  let target = absolute_path w cwd f in
                  (case find_worktree w entries target of
                     None \<Rightarrow> pure_git (worktree_not_found cwd root target)
                   | Some entry \<Rightarrow>
                       bind_git (worktree_status_entry w entry) (\<lambda>(e, status).
                         pure_git
                           (case status of
                              Some s \<Rightarrow>
                                if is_success s
                                then [(''success'', JBool True), (''cwd'', JStr (path_text cwd)), (''repo_root'', JStr (path_text root)),
                                      (''path'', JStr (path_text target)), (''worktree'', JObj entry), (''status'', JObj s),
                                      (''clean'', get_or_null s ''clean'')]
                                else worktree_status_failed cwd root target status
                            | None \<Rightarrow> worktree_status_failed cwd root target None))))))"

section \<open>Removing\<close>

definition remove_args :: "bool \<Rightarrow> path \<Rightarrow> ustr list" where
  "remove_args force target = map u [''worktree'', ''remove''] @ (if force then [u ''--force''] else []) @ [path_text target]"

definition git_worktree_remove :: "git_world \<Rightarrow> path \<Rightarrow> ustr \<Rightarrow> bool \<Rightarrow> dict git" where
  "git_worktree_remove w cwd file force =
     with_repo w cwd (\<lambda>root _.
       let target = absolute_path w cwd file;
           place = [(''cwd'', JStr (path_text cwd)), (''repo_root'', JStr (path_text root)), (''path'', JStr (path_text target))] in
       bind_git (worktrees_of w cwd root) (\<lambda>l.
         case l of
           Inl e \<Rightarrow> pure_git e
         | Inr entries \<Rightarrow>
             if find_worktree w entries target = None then pure_git (worktree_not_found cwd root target)
             else
               bind_git (git_status w target) (\<lambda>status.
                 if \<not> is_success status then pure_git (worktree_status_failed cwd root target (Some status))
                 else if \<not> force \<and> map_of status ''clean'' \<noteq> Some (JBool True)
                 then pure_git (tool_error ''worktree_dirty''
                   (u ''Worktree has uncommitted changes; pass force=true to remove it.'') (place @ [(''status'', JObj status)]))
                 else
                   bind_git (run_git w (remove_args force target) root) (\<lambda>r.
                     pure_git
                       (if returncode r \<noteq> 0
                        then git_failure ''git_worktree_remove_failed'' (text_or (strip (stderr r)) (strip (stdout r)))
                          ''git worktree remove failed.'' (place @ [(''force'', JBool force)])
                        else (''success'', JBool True) # place @ [(''force'', JBool force), (''removed'', JBool True)])))))"

end
