(* ===== verification/GitProps.thy ===== *)
theory GitProps
  imports GitDiff GitWorktree Paging ContentIo
begin

text \<open>
  What the git tools do to a repository and what they return: the commands each tool can run, removing a
  worktree, dry runs, and the pages of a diff.
\<close>

section \<open>The commands a tool runs\<close>

definition runs_only :: "(git_call \<Rightarrow> bool) \<Rightarrow> 'a git \<Rightarrow> bool" where
  "runs_only ok m \<longleftrightarrow> (\<forall>h. \<exists>calls. snd (m h) = h @ calls \<and> list_all ok calls)"

lemma runs_only_calls: "runs_only ok m \<Longrightarrow> m h = (r, h') \<Longrightarrow> \<exists>calls. h' = h @ calls \<and> list_all ok calls"
  by (metis runs_only_def snd_conv)

named_theorems runs

lemma runs_pure [runs]: "runs_only ok (pure_git x)"
  by (simp add: runs_only_def pure_git_def)

lemma runs_lift [runs]: "runs_only ok (lift_git x)"
  by (simp add: runs_only_def lift_git_def)

lemma runs_run [runs]: "ok (args, cwd) \<Longrightarrow> runs_only ok (run_git w args cwd)"
  by (simp add: runs_only_def run_git_def Let_def)

lemma runs_bind [runs]:
  assumes "runs_only ok m" "\<And>x. runs_only ok (f x)"
  shows "runs_only ok (bind_git m f)"
  unfolding runs_only_def
proof
  fix h
  obtain r h' where m: "m h = (r, h')" by fastforce
  with runs_only_calls [OF assms(1)] obtain c1 where c1: "h' = h @ c1" "list_all ok c1" by blast
  show "\<exists>calls. snd (bind_git m f h) = h @ calls \<and> list_all ok calls"
  proof (cases r)
    case (Inl e)
    with m c1 show ?thesis by (auto simp: bind_git_def)
  next
    case (Inr x)
    obtain r2 h2 where f: "f x h' = (r2, h2)" by fastforce
    with runs_only_calls [OF assms(2)] obtain c2 where "h2 = h' @ c2" "list_all ok c2" by blast
    with m c1 Inr f show ?thesis by (auto simp: bind_git_def)
  qed
qed

lemma runs_sum [runs]:
  "(\<And>a. runs_only ok (f a)) \<Longrightarrow> (\<And>b. runs_only ok (g b)) \<Longrightarrow> runs_only ok (case s of Inl a \<Rightarrow> f a | Inr b \<Rightarrow> g b)"
  by (cases s) simp_all

lemma runs_option [runs]:
  "runs_only ok m \<Longrightarrow> (\<And>b. runs_only ok (g b)) \<Longrightarrow> runs_only ok (case s of None \<Rightarrow> m | Some b \<Rightarrow> g b)"
  by (cases s) simp_all

lemma runs_if [runs]: "(b \<Longrightarrow> runs_only ok m) \<Longrightarrow> (\<not> b \<Longrightarrow> runs_only ok n) \<Longrightarrow> runs_only ok (if b then m else n)"
  by simp

lemma runs_let [runs]: "runs_only ok (f x) \<Longrightarrow> runs_only ok (let y = x in f y)"
  by simp

lemma runs_prod [runs]: "(\<And>a b. runs_only ok (f a b)) \<Longrightarrow> runs_only ok (case p of (a, b) \<Rightarrow> f a b)"
  by (cases p) simp

text \<open>Commands that do not change the repository.\<close>

definition read_command :: "git_call \<Rightarrow> bool" where
  "read_command c \<longleftrightarrow>
     hd (fst c) \<in> set (map u [''rev-parse'', ''status'', ''log'', ''blame'', ''diff'', ''show'']) \<or>
     fst c = map u [''branch'', ''--show-current''] \<or> fst c = map u [''worktree'', ''list'', ''--porcelain'']"

lemma runs_repo [runs]: "runs_only read_command (require_repo w cwd)"
proof -
  have "runs_only read_command
     (case e of Some e \<Rightarrow> (\<lambda>h. (Inr (Inl e), h)) | None \<Rightarrow>
       bind_git (run_git w (map u [''rev-parse'', ''--show-toplevel'']) cwd) (\<lambda>root.
            if returncode root \<noteq> 0
            then pure_git (Inl (tool_error ''not_a_git_repo'' (u ''Working directory is not inside a git repository.'')
              [(''cwd'', JStr (path_text cwd)), (''stderr'', JStr (strip (stderr root)))]))
            else
              bind_git (run_git w (map u [''branch'', ''--show-current'']) cwd) (\<lambda>branch.
                pure_git (Inr (path_parts (strip (stdout root)), text_or (strip (stdout branch)) (u ''HEAD''))))))" for e
    unfolding pure_git_def [symmetric] by (intro runs) (simp_all add: read_command_def)
  then show ?thesis unfolding runs_only_def require_repo_def by (metis (no_types, lifting) option.case_eq_if)
qed

lemma runs_with_repo [runs]:
  "(\<And>root branch. runs_only read_command (f root branch)) \<Longrightarrow> runs_only read_command (with_repo w cwd f)"
  unfolding with_repo_def by (intro runs)

lemma runs_status [runs]: "runs_only read_command (git_status w cwd)"
  unfolding git_status_def by (intro runs) (simp add: read_command_def)

lemma runs_worktrees [runs]: "runs_only read_command (worktrees_of w cwd root)"
  unfolding worktrees_of_def by (intro runs) (simp add: read_command_def)

lemma runs_status_entry [runs]: "runs_only read_command (worktree_status_entry w e)"
  unfolding worktree_status_entry_def by (intro runs)

lemma runs_statuses [runs]: "runs_only read_command (worktree_statuses w es)"
  by (induction es) (auto intro!: runs)

lemma runs_log [runs]: "runs_only read_command (git_log w cwd n)"
  unfolding git_log_def by (intro runs) (simp add: read_command_def)

lemma runs_blame [runs]: "runs_only read_command (git_blame w cwd f ref a b)"
  unfolding git_blame_def by (intro runs) (simp add: read_command_def)

lemma runs_worktree_list [runs]: "runs_only read_command (git_worktree_list w cwd)"
  unfolding git_worktree_list_def by (intro runs)

lemma runs_worktree_status [runs]: "runs_only read_command (git_worktree_status w cwd f)"
  unfolding git_worktree_status_def by (intro runs)

lemma runs_diff [runs]: "runs_only read_command (git_diff tok w cwd staged paths rq)"
  unfolding git_diff_def by (intro runs) (simp_all add: read_command_def diff_args_def)

lemma runs_show [runs]: "runs_only read_command (git_show tok sh w cwd ref rq)"
  unfolding git_show_def by (intro runs) (simp_all add: read_command_def runs split: list.split)


lemma runs_would_stage [runs]: "runs_only read_command (would_stage w cwd rq paths)"
  unfolding would_stage_def by (intro runs) (simp add: read_command_def)



section \<open>Removing a worktree\<close>

definition is_removal :: "git_call \<Rightarrow> bool" where
  "is_removal c \<longleftrightarrow> take 2 (fst c) = map u [''worktree'', ''remove'']"

lemma read_no_removal: "list_all read_command calls \<Longrightarrow> c \<in> set calls \<Longrightarrow> \<not> is_removal c"
proof
  assume "list_all read_command calls" "c \<in> set calls" "is_removal c"
  then have c: "read_command c" "take 2 (fst c) = map u [''worktree'', ''remove'']" by (auto simp: list_all_iff is_removal_def)
  then obtain rest where "fst c = u ''worktree'' # u ''remove'' # rest"
    by (cases "fst c"; cases "tl (fst c)") auto
  with c(1) show False by (simp add: read_command_def)
qed

text \<open>The step that runs the command: what was known about the target.\<close>

definition may_remove :: "git_world \<Rightarrow> path \<Rightarrow> path \<Rightarrow> bool \<Rightarrow> git_call list \<Rightarrow> bool" where
  "may_remove w cwd target force before \<longleftrightarrow>
     (\<exists>h root branch h1 entries h2 status.
        require_repo w cwd h = (Inr (Inr (root, branch)), h1) \<and>
        worktrees_of w cwd root h1 = (Inr (Inr entries), h2) \<and> find_worktree w entries target \<noteq> None \<and>
        git_status w target h2 = (Inr status, before) \<and> is_success status \<and>
        (force \<or> map_of status ''clean'' = Some (JBool True)))"

lemma bind_git_steps:
  "bind_git m f h = (r, h') \<Longrightarrow> (\<exists>e. m h = (Inl e, h') \<and> r = Inl e) \<or> (\<exists>x h1. m h = (Inr x, h1) \<and> f x h1 = (r, h'))"
  by (auto simp: bind_git_def split: prod.splits sum.splits)

lemma pure_git_steps [simp]: "pure_git x h = (Inr x, h)"
  by (simp add: pure_git_def)

lemma run_git_steps: "run_git w args cwd h = (r, h') \<Longrightarrow> h' = h @ [(args, cwd)]"
  by (simp add: run_git_def Let_def)

lemma removal_calls:
  assumes "git_worktree_remove w cwd file force h = (r, h')" "target = absolute_path w cwd file"
  shows "(\<exists>calls. h' = h @ calls \<and> list_all read_command calls) \<or>
    (\<exists>calls root. h' = h @ calls @ [(remove_args force target, root)] \<and> list_all read_command calls \<and>
       may_remove w cwd target force (h @ calls))"
proof -
  obtain repo h1 where repo: "require_repo w cwd h = (repo, h1)" by fastforce
  from runs_only_calls [OF runs_repo repo] obtain c1 where c1: "h1 = h @ c1" "list_all read_command c1" by blast
  show ?thesis
  proof (cases "\<exists>root branch. repo = Inr (Inr (root, branch))")
    case False
    then have "h' = h1" using assms(1) repo
      by (auto simp: git_worktree_remove_def with_repo_def bind_git_def split: sum.splits prod.splits)
    with c1 show ?thesis by blast
  next
    case True
    then obtain root branch where root: "repo = Inr (Inr (root, branch))" by blast
    obtain l h2 where l: "worktrees_of w cwd root h1 = (l, h2)" by fastforce
    from runs_only_calls [OF runs_worktrees l] c1 obtain c2 where c2: "h2 = h @ c2" "list_all read_command c2" by auto
    obtain st h3 where st: "git_status w target h2 = (st, h3)" by fastforce
    from runs_only_calls [OF runs_status st] c2 obtain c3 where c3: "h3 = h @ c3" "list_all read_command c3" by auto
    note run = assms(1) [unfolded git_worktree_remove_def with_repo_def bind_git_def Let_def assms(2) [symmetric]] repo root l st
    show ?thesis
    proof (cases "\<exists>entries status. l = Inr (Inr entries) \<and> find_worktree w entries target \<noteq> None \<and> st = Inr status \<and>
        is_success status \<and> (force \<or> map_of status ''clean'' = Some (JBool True))")
      case False
      then have "h' = h2 \<or> h' = h3" using run by (auto split: sum.splits if_splits prod.splits)
      with c2 c3 show ?thesis by blast
    next
      case True
      then obtain entries status where ok: "l = Inr (Inr entries)" "find_worktree w entries target \<noteq> None" "st = Inr status"
        "is_success status" "force \<or> map_of status ''clean'' = Some (JBool True)" by blast
      then have "\<exists>r1. run_git w (remove_args force target) root h3 = (r1, h')"
        using run by (auto split: sum.splits if_splits prod.splits)
      with run_git_steps c3(1) have "h' = h @ c3 @ [(remove_args force target, root)]" by fastforce
      moreover have "require_repo w cwd h = (Inr (Inr (root, branch)), h1)" "worktrees_of w cwd root h1 = (Inr (Inr entries), h2)"
        "git_status w target h2 = (Inr status, h @ c3)" using repo root l st ok c3(1) by simp_all
      with ok have "may_remove w cwd target force (h @ c3)" unfolding may_remove_def by blast
      ultimately show ?thesis using c3(2) by blast
    qed
  qed
qed

text \<open>C26: A worktree is removed only when it is safe. Whatever git answers, \<^verbatim>\<open>git_worktree_remove\<close> runs
  \<^verbatim>\<open>git worktree remove\<close> only for the target it was asked for, only after the list of worktrees named that
  target and its status was read, and without \<^verbatim>\<open>force\<close> only when that status was clean.\<close>

theorem worktree_removed_only_when_safe:
  assumes "git_worktree_remove w cwd file force h = (r, h @ before @ c # after)" "is_removal c"
  shows "fst c = remove_args force (absolute_path w cwd file) \<and> after = [] \<and>
    may_remove w cwd (absolute_path w cwd file) force (h @ before)"
proof -
  from removal_calls [OF assms(1) refl] consider
    (none) calls where "before @ c # after = calls" "list_all read_command calls"
  | (last) calls root where "before @ c # after = calls @ [(remove_args force (absolute_path w cwd file), root)]"
      "list_all read_command calls" "may_remove w cwd (absolute_path w cwd file) force (h @ calls)"
    by auto
  then show ?thesis
  proof cases
    case none
    then have "c \<in> set calls" by auto
    with none(2) assms(2) read_no_removal show ?thesis by blast
  next
    case last
    show ?thesis
    proof (cases after rule: rev_cases)
      case Nil
      with last show ?thesis by simp
    next
      case (snoc ys y)
      with last(1) have "before @ c # ys = calls" by simp
      then have "c \<in> set calls" by auto
      with last(2) assms(2) read_no_removal show ?thesis by blast
    qed
  qed
qed

text \<open>A git for which one worktree is registered and clean.\<close>

definition one_worktree :: git_world where
  "one_worktree =
     \<lparr>gw_git = (\<lambda>h. Inr \<lparr>ga_code = 0,
        ga_out = (if fst (last h) = map u [''worktree'', ''list'', ''--porcelain''] then utf8_encode (u ''worktree x'') else []),
        ga_err = []\<rparr>),
      gw_exists = (\<lambda>h p. True), gw_is_dir = (\<lambda>h p. True), gw_expand = (\<lambda>s. (True, [])), gw_resolve = (\<lambda>p. []),
      gw_int = (\<lambda>s. None)\<rparr>"

lemma decode_output_encode: "list_all scalar_value s \<Longrightarrow> decode_output (utf8_encode s) = Inr (universal_newlines s)"
  by (simp add: decode_output_def)

lemma decode_no_output: "decode_output [] = Inr []"
  using decode_output_encode [of "[]"] by simp

lemma one_worktree_runs:
  "run_git one_worktree args cwd h =
     (Inr \<lparr>returncode = 0, stdout = (if args = map u [''worktree'', ''list'', ''--porcelain''] then u ''worktree x'' else []), stderr = []\<rparr>,
      h @ [(args, cwd)])"
proof -
  have "decode_output (utf8_encode (u ''worktree x'')) = Inr (u ''worktree x'')"
    by (subst decode_output_encode) (simp_all add: scalar_value_def)
  then show ?thesis unfolding run_git_def Let_def by (simp add: one_worktree_def decode_answer_def decode_no_output)
qed

lemma one_worktree_status:
  "\<exists>status h'. git_status one_worktree cwd h = (Inr status, h') \<and> is_success status \<and> map_of status ''clean'' = Some (JBool True)"
  by (simp add: git_status_def with_repo_def require_repo_def git_cwd_error_def one_worktree_runs bind_git_def lift_git_def
      git_status_payload_def no_status_def is_success_def splitlines_def)
     (simp add: one_worktree_def)

theorem worktree_removed_only_when_safe_witness:
  "\<exists>before. may_remove one_worktree [] [] False before"
proof -
  define before where "before = map (\<lambda>args. (map u args, [] :: path))
    [[''rev-parse'', ''--show-toplevel''], [''branch'', ''--show-current''], [''worktree'', ''list'', ''--porcelain''],
     [''rev-parse'', ''--show-toplevel''], [''branch'', ''--show-current''], [''status'', ''--short'', ''--branch'']]"
  have world: "gw_exists one_worktree h p" "gw_is_dir one_worktree h p" "gw_expand one_worktree t = (True, [])"
    "gw_resolve one_worktree p = []" for h p t by (simp_all add: one_worktree_def)
  have entries: "parse_worktree_list [119, 111, 114, 107, 116, 114, 101, 101, 32, 120] = [fold set_missing worktree_defaults [(''path'', JStr (u ''x''))]]"
    by (simp add: parse_worktree_list_def splitlines_def is_line_break_def worktree_line_def partition_space_def flush_worktree_def)
  have "snd (git_worktree_remove one_worktree [] (u ''x'') False []) = before @ [(remove_args False [], [])]"
    by (simp add: git_worktree_remove_def with_repo_def require_repo_def git_cwd_error_def one_worktree_runs bind_git_def lift_git_def
        git_status_def git_status_payload_def no_status_def is_success_def splitlines_def world absolute_path_def worktrees_of_def entries
        find_worktree_def is_worktree_def entry_path_def worktree_defaults_def set_missing_def before_def Let_def remove_args_def
        strip_def rstrip_by_def path_parts_def)
  then have run: "git_worktree_remove one_worktree [] (u ''x'') False [] =
      (fst (git_worktree_remove one_worktree [] (u ''x'') False []), [] @ before @ (remove_args False [], []) # [])"
    by (simp add: prod_eq_iff)
  have "is_removal (remove_args False [], [])" by (simp add: is_removal_def remove_args_def)
  from worktree_removed_only_when_safe [OF run this] show ?thesis by (auto simp: absolute_path_def one_worktree_def)
qed

section \<open>Splitting by file\<close>

lemma concat_keep_lines: "concat (keep_lines_from cur s) = rev cur @ s"
  by (induction cur s rule: keep_lines_from.induct) auto

lemma split_line_keeps:
  "concat (map snd (df_chunks (split_line l s))) @ concat (df_buffer (split_line l s)) =
     concat (map snd (df_chunks s)) @ concat (df_buffer s) @ l"
  by (auto simp: split_line_def flush_chunk_def Let_def)

lemma split_lines_keep:
  "concat (map snd (df_chunks (fold split_line ls s))) @ concat (df_buffer (fold split_line ls s)) =
     concat (map snd (df_chunks s)) @ concat (df_buffer s) @ concat ls"
proof (induction ls arbitrary: s)
  case (Cons l ls)
  then show ?case using split_line_keeps [of l s] by simp
qed simp

text \<open>C27: The diffs of the single files are the diff: put together in their order they are the text git printed,
  whatever that text is, so no line of it is lost or doubled by the split.\<close>

theorem file_diffs_are_the_diff: "concat (map snd (split_diff_by_file text)) = text"
proof -
  define s where "s = fold split_line (keep_lines_from [] text) \<lparr>df_chunks = [], df_buffer = [], df_path = []\<rparr>"
  have "concat (map snd (df_chunks s)) @ concat (df_buffer s) = text"
    unfolding s_def split_lines_keep by (simp add: concat_keep_lines)
  then show ?thesis by (auto simp: split_diff_by_file_def s_def [symmetric] flush_chunk_def)
qed

text \<open>An added line that begins with \<^verbatim>\<open>++ \<close> looks like the marker of a file, and the file gets its text as name.\<close>

lemma added_line_renames_file:
  "map fst (split_diff_by_file (u ''diff --git a/f b/f'' @ [10] @ u ''+++ b/f'' @ [10] @ u ''+++ b/evil'' @ [10])) = [u ''evil'']"
  by (simp add: split_diff_by_file_def is_line_break_def split_line_def Let_def startswith_def flush_chunk_def strip_newlines_def
      rstrip_by_def without_b_def text_or_def)

section \<open>Pages of a diff\<close>

lemma encode_prefix:
  "list_all scalar_value s \<Longrightarrow> list_all scalar_value t \<Longrightarrow> prefix (utf8_encode s) (utf8_encode t) \<Longrightarrow> prefix s t"
proof (induction s arbitrary: t)
  case (Cons c s)
  then obtain z where z: "utf8_encode t = utf8_char c @ (utf8_encode s @ z)" by (auto simp: prefix_def)
  then have "t \<noteq> []" by auto
  then obtain d r where t: "t = d # r" by (cases t) auto
  have "utf8_take (utf8_char d @ utf8_encode r) = (utf8_char d, True)" "utf8_take (utf8_char c @ (utf8_encode s @ z)) = (utf8_char c, True)"
    using Cons.prems by (simp_all add: t utf8_take_char)
  with z have "utf8_char c = utf8_char d" by (simp add: t)
  then have "c = d" by (metis utf8_unit_value_char)
  with z have "prefix (utf8_encode s) (utf8_encode r)" by (simp add: t)
  with Cons \<open>c = d\<close> show ?case by (simp add: t)
qed simp

lemma decoded_encodes: "utf8_decode b = Some s \<Longrightarrow> utf8_encode s = b \<and> list_all scalar_value s"
  using utf8_enc_dec [of b s] by (auto simp: utf8_encode_strict_def split: if_splits)

lemma decode_longest_prefix:
  "list_all scalar_value t \<Longrightarrow> n \<le> length (utf8_encode t) \<Longrightarrow> decode_longest (utf8_encode t) n = (s, m) \<Longrightarrow>
     prefix s t \<and> m = utf8_size s"
proof (induction n)
  case (Suc n)
  show ?case
  proof (cases "utf8_decode (take (Suc n) (utf8_encode t))")
    case None
    with Suc show ?thesis by simp
  next
    case (Some x)
    with Suc.prems have x: "s = x" "m = Suc n" by simp_all
    from decoded_encodes [OF Some] have e: "utf8_encode s = take (Suc n) (utf8_encode t)" "list_all scalar_value s" by (simp_all add: x)
    then have "prefix (utf8_encode s) (utf8_encode t)" by (simp add: take_is_prefix)
    with encode_prefix e(2) Suc.prems(1) have "prefix s t" by blast
    moreover have "m = utf8_size s" using e(1) Suc.prems(2) by (simp add: utf8_size_def x)
    ultimately show ?thesis ..
  qed
qed (simp add: utf8_size_def)

lemma char_first: "\<not> is_continuation (hd (utf8_char c))" if "scalar_value c"
proof -
  have "c < 0x110000" using that by (auto simp: scalar_value_def)
  then show ?thesis by (auto simp: utf8_char_def is_continuation_def)
qed

lemma page_at_boundary:
  assumes ok: "list_all scalar_value text" and k: "k \<le> length text"
  shows "\<exists>page. utf8_byte_page (utf8_encode text) (int (utf8_size (take k text))) byte_limit =
      (page, utf8_size (take k text), utf8_size (take k text) + utf8_size page) \<and> prefix page (drop k text)"
proof -
  let ?start = "utf8_size (take k text)" and ?rest = "drop k text"
  have split: "utf8_encode text = utf8_encode (take k text) @ utf8_encode ?rest" by (metis append_take_drop_id utf8_encode_simps(3))
  then have rest: "drop ?start (utf8_encode text) = utf8_encode ?rest" and len: "?start \<le> length (utf8_encode text)"
    by (simp_all add: utf8_size_def)
  have okr: "list_all scalar_value ?rest" using ok by (auto simp: list_all_iff dest: in_set_dropD)
  have skip: "skip_continuations (utf8_encode ?rest) ?start = ?start"
  proof (cases ?rest)
    case (Cons c r)
    with okr have "\<not> is_continuation (hd (utf8_char c))" by (intro char_first) simp
    then show ?thesis unfolding Cons by (cases "utf8_char c") auto
  qed simp
  define n where "n = min (?start + nat byte_limit) (length (utf8_encode text)) - ?start"
  obtain s m where d: "decode_longest (utf8_encode ?rest) n = (s, m)" by fastforce
  have "n \<le> length (utf8_encode ?rest)" using len by (simp add: n_def split utf8_size_def)
  from decode_longest_prefix [OF okr this d] have "prefix s ?rest" "m = utf8_size s" by blast+
  then show ?thesis using d len by (simp add: utf8_byte_page_def Let_def rest skip n_def [symmetric] min_absorb1)
qed

text \<open>What fitting the reply keeps: the page is shortened, and the offset is that of what is left of it.\<close>

definition paged_reply :: "nat \<Rightarrow> nat \<Rightarrow> ustr \<Rightarrow> dict \<Rightarrow> bool" where
  "paged_reply start byte_count page d \<longleftrightarrow>
     (\<exists>t. prefix t page \<and> diff_of d = t \<and> map_of d ''next_offset'' = Some (next_byte start byte_count t))"

lemma paged_same:
  "paged_reply start n page d \<Longrightarrow> diff_of d' = diff_of d \<Longrightarrow> map_of d' ''next_offset'' = map_of d ''next_offset'' \<Longrightarrow>
     paged_reply start n page d'"
  by (simp add: paged_reply_def)

lemma paged_attach: "paged_reply start n page d \<Longrightarrow> paged_reply start n page (fst (with_budget_metadata tok d b t r))"
  by (erule paged_same) (simp_all add: attach_keeps)

lemma paged_token: "paged_reply start n page d \<Longrightarrow> paged_reply start n page (fst (token_attach tok b d))"
  by (simp add: token_attach_def paged_attach)

lemma paged_update:
  "paged_reply start n page d \<Longrightarrow> k \<noteq> ''diff'' \<Longrightarrow> k \<noteq> ''next_offset'' \<Longrightarrow> paged_reply start n page (AList.update k v d)"
  by (erule paged_same) (simp_all add: diff_of_def dict_simps)

lemma size_prefix: "prefix s t \<Longrightarrow> utf8_size s \<le> utf8_size t"
  by (auto simp: prefix_def utf8_size_def)

lemma size_take_less: "n < length s \<Longrightarrow> utf8_size (take n s) < utf8_size s"
proof -
  assume "n < length s"
  then have "utf8_encode s = utf8_encode (take n s) @ utf8_encode (drop n s)" "drop n s \<noteq> []"
    by (metis append_take_drop_id utf8_encode_simps(3)) (use \<open>n < length s\<close> in simp)
  then show ?thesis by (cases "drop n s") (auto simp: utf8_size_def)
qed

lemma paged_halved:
  assumes "paged_reply start n page d" "start + utf8_size page \<le> n" "diff_of d \<noteq> []"
  shows "paged_reply start n page (halved start d)"
proof -
  let ?t = "take (length (diff_of d) div 2) (diff_of d)"
  have "prefix (diff_of d) page" using assms(1) by (auto simp: paged_reply_def)
  then have p: "prefix ?t page" "utf8_size (diff_of d) \<le> utf8_size page"
    using take_is_prefix prefix_order.trans size_prefix by blast+
  have "length (diff_of d) div 2 < length (diff_of d)" using assms(3) by simp
  from size_take_less [OF this] p(2) assms(2) have "start + utf8_size ?t < n" by linarith
  with p(1) show ?thesis
    by (simp add: paged_reply_def diff_of_halved) (simp add: halved_def Let_def dict_simps next_byte_def)
qed

lemma paged_halve:
  "start + utf8_size page \<le> n \<Longrightarrow> paged_reply start n page d \<Longrightarrow> paged_reply start n page (fst (halve_diff tok b start d m))"
proof (induction tok b start d m rule: halve_diff.induct)
  case (1 tok b start d m)
  show ?case
  proof (cases "fits m \<or> diff_of d = []")
    case True
    with 1(3) show ?thesis by (subst halve_diff.simps) simp
  next
    case False
    then have "paged_reply start n page (fst (token_attach tok b (halved start d)))"
      using 1(2,3) by (intro paged_token paged_halved) simp_all
    from 1(1) [OF False 1(2) this] False show ?thesis by (subst halve_diff.simps) simp
  qed
qed

lemma paged_without_last: "paged_reply start n page d \<Longrightarrow> paged_reply start n page (without_last_file d)"
  by (auto simp: without_last_file_def set_file_diffs_def Let_def intro!: paged_update)

lemma paged_pop: "paged_reply start n page d \<Longrightarrow> paged_reply start n page (fst (pop_files tok b d m))"
proof (induction tok b d m rule: pop_files.induct)
  case (1 tok b d m)
  show ?case
  proof (cases "fits m \<or> file_diffs_of d = []")
    case True
    with 1(2) show ?thesis by (subst pop_files.simps) simp
  next
    case False
    then have "paged_reply start n page (fst (token_attach tok b (without_last_file d)))"
      using 1(2) by (intro paged_token paged_without_last)
    from 1(1) [OF False this] False show ?thesis by (subst pop_files.simps) simp
  qed
qed

lemma paged_force:
  assumes "start + utf8_size page \<le> n" "paged_reply start n page d"
  shows "paged_reply start n page (force_fit tok b start n d)"
proof -
  have body: "paged_reply start n page (drop_body tok b dm)" if "paged_reply start n page (fst dm)" for dm
    using that by (cases dm) (auto simp: drop_body_def intro!: paged_token paged_update)
  have blocked: "paged_reply start n page (mark_blocked tok b start n x)" if "paged_reply start n page x" for x
    using that by (auto simp: mark_blocked_def intro!: paged_token paged_update)
  show ?thesis
    unfolding force_fit_def Let_def set_file_diffs_def
    by (intro blocked body paged_pop paged_halve paged_token paged_update assms) simp_all
qed

lemma truncate_prefix: "prefix (truncate_to_tokens tok t k) t"
  by (simp add: truncate_to_tokens_def Let_def take_is_prefix)

lemma diff_of_update: "diff_of (AList.update k v d) = (if k = ''diff'' then (case v of JStr s \<Rightarrow> s | _ \<Rightarrow> []) else diff_of d)"
  by (simp add: diff_of_def dict_simps split: json.split)

lemma paged_share:
  assumes "diff_of d = page"
  shows "paged_reply start n page (share_tokens tok k start n d)"
proof -
  have "diff_of (share_tokens tok k start n d) = truncate_to_tokens tok page (max 1 (k div 2))"
    by (simp add: share_tokens_def Let_def assms diff_of_update)
  moreover have "map_of (share_tokens tok k start n d) ''next_offset'' =
      Some (next_byte start n (truncate_to_tokens tok page (max 1 (k div 2))))"
    by (simp add: share_tokens_def Let_def assms dict_simps)
  ultimately show ?thesis unfolding paged_reply_def using truncate_prefix by metis
qed

lemma paged_fit:
  assumes "diff_of d = page" "start + utf8_size page \<le> n"
    and "map_of d ''truncated'' = Some (JBool (start + utf8_size page < n))"
  shows "paged_reply start n page (fit_git_payload tok token_limit start n d)"
proof -
  let ?more = "start + utf8_size page < n" and ?b = "\<lparr>max_tokens = token_limit, max_bytes = None\<rparr>"
  define d0 where "d0 = AList.update ''next_offset'' (if ?more then jnat (start + utf8_size page) else JNull) d"
  have "diff_of d0 = page" using assms(1) by (simp add: d0_def diff_of_def dict_simps)
  moreover have "map_of d0 ''next_offset'' = Some (next_byte start n page)" by (simp add: d0_def next_byte_def dict_simps)
  ultimately have p0: "paged_reply start n page d0" by (simp add: paged_reply_def)
  define dm1 where "dm1 = with_budget_metadata tok d0 ?b ?more (if ?more then ''byte_budget'' else ''end_of_diff'')"
  have p1: "paged_reply start n page (fst dm1)" and diff1: "diff_of (fst dm1) = page"
    unfolding dm1_def using paged_attach [OF p0] \<open>diff_of d0 = page\<close> by simp_all
  define d2 where "d2 = share_tokens tok token_limit start n (fst dm1)"
  define dm3 where "dm3 = with_budget_metadata tok d2 ?b (?more \<or> diff_of d2 \<noteq> page)
    (if diff_of d2 \<noteq> page then ''token_budget'' else ''byte_budget'')"
  have p3: "paged_reply start n page (fst dm3)" unfolding dm3_def d2_def by (intro paged_attach paged_share diff1)
  have trunc: "(map_of d ''truncated'' = Some (JBool True)) = ?more" by (simp add: assms(3))
  have "fit_git_payload tok token_limit start n d =
      (if fits (snd dm1) then fst dm1 else if fits (snd dm3) then fst dm3 else force_fit tok ?b start n (fst dm3))"
    unfolding fit_git_payload_def Let_def trunc assms(1) case_prod_beta' d0_def [symmetric] dm1_def [symmetric] diff1
      d2_def [symmetric] dm3_def [symmetric] ..
  with p1 p3 paged_force [OF assms(2) p3] show ?thesis by simp
qed

definition diff_at :: "(ustr \<Rightarrow> nat) \<Rightarrow> int \<Rightarrow> int \<Rightarrow> dict \<Rightarrow> (ustr \<times> dict) list \<Rightarrow> ustr \<Rightarrow> nat \<Rightarrow> dict" where
  "diff_at tok token_limit byte_limit base files text k =
     diff_reply tok token_limit byte_limit (int (utf8_size (take k text))) base files text"

lemma diff_at_paged:
  assumes ok: "list_all scalar_value text" and k: "k \<le> length text"
    and base: "map_of base ''diff'' = None" "map_of base ''truncated'' = None"
  shows "\<exists>page. prefix page (drop k text) \<and> diff_of (diff_at tok tokens limit base files text k) = page \<and>
    map_of (diff_at tok tokens limit base files text k) ''next_offset'' =
      Some (if k + length page < length text then jnat (utf8_size (take (k + length page) text)) else JNull)"
proof -
  let ?start = "utf8_size (take k text)"
  obtain full where page: "utf8_byte_page (utf8_encode text) (int ?start) limit = (full, ?start, ?start + utf8_size full)"
    and full: "prefix full (drop k text)" using page_at_boundary [OF ok k] by blast
  have size: "utf8_size text = utf8_size (take (k + n) text) + utf8_size (drop (k + n) text)" for n
    by (metis append_take_drop_id utf8_size_def utf8_encode_simps(3) length_append)
  have upto: "?start + utf8_size t = utf8_size (take (k + length t) text)" if "prefix t (drop k text)" for t
    using that by (auto simp: prefix_def take_add utf8_size_def)
  define d where "d = base @ [(''files'', JList (map (JStr \<circ> fst) files)), (''file_diffs'', JList (map (JObj \<circ> snd) files)),
    (''diff'', JStr full), (''truncated'', JBool (?start + utf8_size full < utf8_size text)), (''total_bytes'', jnat (utf8_size text))]"
  have fields: "diff_of d = full" "map_of d ''truncated'' = Some (JBool (?start + utf8_size full < utf8_size text))"
    using base by (simp_all add: d_def diff_of_def map_add_def)
  have le: "?start + utf8_size t \<le> utf8_size text" if "prefix t (drop k text)" for t using upto [OF that] size [of "length t"] by simp
  have "paged_reply ?start (utf8_size text) full (diff_at tok tokens limit base files text k)"
    unfolding diff_at_def diff_reply_def Let_def page prod.case
    using paged_fit [OF fields(1) le [OF full] fields(2)] by (simp add: d_def utf8_size_def)
  then obtain t where t: "prefix t full" "diff_of (diff_at tok tokens limit base files text k) = t"
    "map_of (diff_at tok tokens limit base files text k) ''next_offset'' = Some (next_byte ?start (utf8_size text) t)"
    by (auto simp: paged_reply_def)
  from t(1) full have pre: "prefix t (drop k text)" by (rule prefix_order.trans)
  have "next_byte ?start (utf8_size text) t = (if k + length t < length text then jnat (utf8_size (take (k + length t) text)) else JNull)"
    using upto [OF pre] size_take_less [of "k + length t" "text"] by (auto simp: next_byte_def not_less)
  with t pre show ?thesis by auto
qed

text \<open>C28: A client can read a diff of any size: following \<^verbatim>\<open>next_offset\<close> of \<^verbatim>\<open>git_diff\<close> or \<^verbatim>\<open>git_show\<close>, each page is
  the next piece of the diff and the offset is that of the first byte behind it, whether the byte limit, the
  token budget or both cut the page and whatever is cut from the rest of the reply; when no page is empty the
  pages are the whole diff.\<close>

theorem diff_pages_lossless:
  fixes tok tokens limit base files whole
  assumes "list_all scalar_value whole" "map_of base ''diff'' = None" "map_of base ''truncated'' = None"
  defines "page \<equiv> \<lambda>k. diff_of (diff_at tok tokens limit base files whole k)"
  shows "(\<forall>k \<le> length whole. prefix (page k) (drop k whole) \<and>
      map_of (diff_at tok tokens limit base files whole k) ''next_offset'' =
        Some (if k + length (page k) < length whole then jnat (utf8_size (take (k + length (page k)) whole)) else JNull)) \<and>
    ((\<forall>k < length whole. page k \<noteq> []) \<longrightarrow> follow_pages page (length whole) (length whole) 0 = whole)"
proof -
  have each: "prefix (page k) (drop k whole) \<and> map_of (diff_at tok tokens limit base files whole k) ''next_offset'' =
        Some (if k + length (page k) < length whole then jnat (utf8_size (take (k + length (page k)) whole)) else JNull)"
    if "k \<le> length whole" for k
    using diff_at_paged [OF assms(1) that assms(2,3), of tok tokens limit files] unfolding page_def by auto
  have "paged whole page"
  proof
    fix k
    show "page k = take (length (page k)) (drop k whole)"
    proof (cases "k \<le> length whole")
      case True
      then have "prefix (page k) (drop k whole)" using each by blast
      then show ?thesis by (auto simp: prefix_def)
    next
      case False
      then have "page k = page (length whole)" by (simp add: page_def diff_at_def)
      then show ?thesis using each [of "length whole"] False by simp
    qed
  qed
  then have "follow_pages page (length whole) (length whole) 0 = drop 0 whole" if "\<forall>k < length whole. page k \<noteq> []"
    by (rule paged.follow_all) (use that in auto)
  then show ?thesis using each by simp
qed

theorem diff_pages_lossless_witness:
  "let page = (\<lambda>k. diff_of (diff_at length 100000 65536 [(''success'', JBool True)] [] (u ''diff'') k)) in
    (\<forall>k \<le> 4. prefix (page k) (drop k (u ''diff'')) \<and>
      map_of (diff_at length 100000 65536 [(''success'', JBool True)] [] (u ''diff'') k) ''next_offset'' =
        Some (if k + length (page k) < 4 then jnat (utf8_size (take (k + length (page k)) (u ''diff''))) else JNull))"
  using diff_pages_lossless [of "u ''diff''" "[(''success'', JBool True)]" length 100000 65536 "[]"]
  by (simp add: scalar_value_def Let_def)

section \<open>A log that cannot be read\<close>

lemma splitlines_from_break:
  "no_breaks x \<Longrightarrow> is_line_break c \<Longrightarrow> \<exists>ls. splitlines_from cur (x @ c # y) = (rev cur @ x) # ls"
proof (induction x arbitrary: cur)
  case Nil
  then show ?case by (cases y) auto
next
  case (Cons d x)
  then have d: "\<not> is_line_break d" "d \<noteq> 13" by auto
  obtain e es where "x @ c # y = e # es" by (cases x) auto
  with d have "splitlines_from cur ((d # x) @ c # y) = splitlines_from (d # cur) (x @ c # y)" by simp
  with Cons.IH [of "d # cur"] Cons.prems show ?case by simp
qed

lemma length_split_char: "length (split_char sep cur s) = Suc (count_list s sep)"
  by (induction sep cur s rule: split_char.induct) auto

lemma log_entry_short: "count_list l 31 < 4 \<Longrightarrow> log_entry l = Inl InvalidValue"
  using length_split_char [of 31 "[]" l] by (auto simp: log_entry_def split: list.split)

text \<open>One commit can make the log unreadable. When a field of a line git prints contains a character that Python
  takes for a line boundary and git does not (a form feed, U+2028 and others), \<^verbatim>\<open>splitlines\<close> cuts the line in
  two and \<^verbatim>\<open>git_log\<close> raises \<^verbatim>\<open>ValueError\<close> instead of returning the other commits.\<close>

theorem log_fails_on_line_boundary:
  assumes "is_line_break c" "no_breaks (commit @ short @ s1)" "31 \<notin> set (commit @ short @ s1)"
    and "require_repo w cwd h = (Inr (Inr (root, branch)), h1)"
    and "run_git w [u ''log'', u ''--max-count='' @ int_repr (max n 1), log_format] cwd h1 = (Inr r, h2)"
    and "returncode r = 0" "stdout r = join [31] [commit, short, s1 @ c # s2, author, time] @ rest"
  shows "git_log w cwd n h = (Inl InvalidValue, h2)"
proof -
  let ?first = "commit @ 31 # short @ 31 # s1"
  let ?rest = "s2 @ 31 # author @ 31 # time @ rest"
  have "no_breaks ?first" using assms(2) by (simp add: is_line_break_def)
  from splitlines_from_break [OF this assms(1), of "[]" ?rest]
  obtain ls where "splitlines_from [] (?first @ c # ?rest) = ?first # ls" by auto
  then have lines: "splitlines (stdout r) = ?first # ls" by (simp add: splitlines_def assms(7))
  have "count_list commit 31 = 0" "count_list short 31 = 0" "count_list s1 31 = 0"
    using assms(3) by (simp_all add: count_list_0_iff)
  then have "log_entry ?first = Inl InvalidValue" by (intro log_entry_short) simp
  then show ?thesis
    using assms(4-6) by (simp add: git_log_def with_repo_def bind_git_def lift_git_def lines)
qed

text \<open>A repository with one commit, whose summary has a form feed.\<close>

definition form_feed_log :: ustr where
  "form_feed_log = join [31] [u ''c1'', u ''c'', u ''a'' @ 12 # u ''b'', u ''me'', u ''now'']"

definition form_feed_repo :: git_world where
  "form_feed_repo = one_worktree\<lparr>gw_git := (\<lambda>h. Inr \<lparr>ga_code = 0,
     ga_out = (if hd (fst (last h)) = u ''log'' then utf8_encode form_feed_log else []), ga_err = []\<rparr>)\<rparr>"

lemma form_feed_runs:
  "run_git form_feed_repo args cwd h =
     (Inr \<lparr>returncode = 0, stdout = (if hd args = u ''log'' then form_feed_log else []), stderr = []\<rparr>, h @ [(args, cwd)])"
proof -
  have "decode_output (utf8_encode form_feed_log) = Inr form_feed_log"
    by (subst decode_output_encode) (simp_all add: scalar_value_def form_feed_log_def)
  then show ?thesis unfolding run_git_def Let_def by (simp add: form_feed_repo_def decode_answer_def decode_no_output)
qed

theorem log_fails_on_line_boundary_witness: "\<exists>calls. git_log form_feed_repo [] 10 [] = (Inl InvalidValue, calls)"
proof -
  have repo: "require_repo form_feed_repo [] [] =
      (Inr (Inr (path_parts [], u ''HEAD'')), [(map u [''rev-parse'', ''--show-toplevel''], []), (map u [''branch'', ''--show-current''], [])])"
    by (simp add: require_repo_def git_cwd_error_def form_feed_runs bind_git_def strip_def rstrip_by_def text_or_def)
       (simp add: form_feed_repo_def one_worktree_def)
  from log_fails_on_line_boundary [of 12 "u ''c1''" "u ''c''" "u ''a''", OF _ _ _ repo form_feed_runs, of 10 "u ''b''" "u ''me''" "u ''now''" "[]"]
  show ?thesis by (auto simp: is_line_break_def form_feed_log_def)
qed

end
