(* ===== verification/Reader.thy ===== *)
theory Reader
  imports FileRead Replacing
begin

text \<open>
  The unified reader (\<^verbatim>\<open>reader.py\<close>): text with its encoding, hexadecimal pages of bytes, the metadata of an image and
  the pages of a PDF. The file is one of the tree of \<open>Fs\<close>. Parameters: \<^verbatim>\<open>hashlib.sha256\<close>, \<^verbatim>\<open>mimetypes\<close>, \<^verbatim>\<open>str.lower\<close>,
  \<^verbatim>\<open>repr\<close>, the value of a decimal digit, Pillow and pypdf, and the \<^verbatim>\<open>OSError\<close> a read may end with.
\<close>

record reader_env =
  re_tok :: "ustr \<Rightarrow> nat"
  re_codecs :: codec_registry
  re_sha :: "bytes \<Rightarrow> ustr"
  re_guess :: "path \<Rightarrow> ustr option"
  re_lower :: "ustr \<Rightarrow> ustr"
  re_repr :: "ustr \<Rightarrow> ustr"
  re_digit :: "nat \<Rightarrow> nat option"
  re_uri :: "path \<Rightarrow> ustr"
  re_image :: "(path \<Rightarrow> ustr + dict) option"
  re_pdf :: "(path \<Rightarrow> ustr + nat \<times> (nat \<Rightarrow> ustr + ustr)) option"
  re_os_error :: "ustr option"

section \<open>Metadata and mode\<close>

definition mime_type :: "reader_env \<Rightarrow> path \<Rightarrow> ustr" where
  "mime_type env p =
     (case re_guess env p of
        None \<Rightarrow> u ''application/octet-stream''
      | Some t \<Rightarrow> if t = [] then u ''application/octet-stream'' else t)"

definition lower_suffix :: "reader_env \<Rightarrow> path \<Rightarrow> ustr" where
  "lower_suffix env p = re_lower env (path_suffix p)"

definition base_metadata :: "reader_env \<Rightarrow> path \<Rightarrow> bytes \<Rightarrow> dict" where
  "base_metadata env p raw =
     [(''path'', JStr (path_text p)), (''size'', jnat (length raw)), (''mime_type'', JStr (mime_type env p)),
      (''suffix'', JStr (lower_suffix env p)), (''sha256'', JStr (re_sha env raw))]"

definition bom_markers :: "bytes list" where
  "bom_markers = [[0xEF, 0xBB, 0xBF], [0xFF, 0xFE], [0xFE, 0xFF], [0xFF, 0xFE, 0, 0], [0, 0, 0xFE, 0xFF]]"

definition auto_mode :: "reader_env \<Rightarrow> path \<Rightarrow> bytes \<Rightarrow> string" where
  "auto_mode env p raw =
     (let mime = mime_type env p; head = take 4096 raw in
      if mime = u ''application/pdf'' \<or> lower_suffix env p = u ''.pdf'' then ''pdf''
      else if startswith mime (u ''image/'') then ''image''
      else if 0 \<in> set head \<and> \<not> list_ex (startswith head) bom_markers then ''hex''
      else ''text'')"

section \<open>Text\<close>

definition text_base :: "dict \<Rightarrow> decoded_text \<Rightarrow> nat \<Rightarrow> dict" where
  "text_base meta d start =
     [(''success'', JBool True), (''mode'', jlit ''text''),
      (''file'', JObj (dict_update meta
        [(''encoding'', JStr (dt_encoding d)), (''bom'', jopt JStr (dt_bom d)), (''newline'', jlit (dt_newline d)),
         (''file_type'', jlit ''text'')])),
      (''content'', JStr []), (''offset_unit'', jlit ''lines''), (''start_line'', jnat start),
      (''end_line'', JInt (int start - 1)), (''next_offset'', JNull)]"

definition text_candidate :: "(ustr \<Rightarrow> nat) \<Rightarrow> response_budget \<Rightarrow> dict \<Rightarrow> nat \<Rightarrow> ustr list \<Rightarrow> budget_measurement" where
  "text_candidate tok b base start ls =
     snd (with_budget_metadata tok
       (dict_update base
         [(''content'', JStr (join [10] ls)), (''end_line'', jnat (start + length ls - 1)),
          (''next_offset'', jnat (start + length ls))])
       b True ''token_budget'')"

text \<open>The lines that fit, and why the page stops when it stops before the requested lines do.\<close>

fun text_lines ::
  "(ustr \<Rightarrow> nat) \<Rightarrow> response_budget \<Rightarrow> dict \<Rightarrow> nat \<Rightarrow> ustr list \<Rightarrow> ustr list \<Rightarrow> ustr list \<times> string option" where
  "text_lines tok b base start acc [] = (acc, None)"
| "text_lines tok b base start acc (l # ls) =
     (let m = text_candidate tok b base start (acc @ [l]) in
      if fits m then text_lines tok b base start (acc @ [l]) ls
      else (acc, Some (case measurement_stop_reason m of Some r \<Rightarrow> r | None \<Rightarrow> ''token_budget'')))"

definition reader_text ::
  "reader_env \<Rightarrow> response_budget \<Rightarrow> dict \<Rightarrow> path \<Rightarrow> bytes \<Rightarrow> ustr option \<Rightarrow> int \<Rightarrow> int \<Rightarrow> bool \<Rightarrow> dict" where
  "reader_text env b meta p raw encoding from_line limit numbered =
     (case decode_text_bytes (re_codecs env) raw encoding of
        Inl e \<Rightarrow>
          tool_error ''encoding_error'' (decoding_message e)
            [(''resolved_path'', JStr (path_text p)), (''encoding_candidates'', JList (map JStr (decoding_candidates e)))]
      | Inr d \<Rightarrow>
          let lines = splitlines (dt_text d); start = nat (max from_line 1);
              requested = take (nat (max limit 1)) (drop (start - 1) lines);
              base = text_base meta d start;
              (rendered, stop) = text_lines (re_tok env) b base start [] (render_lines numbered start requested);
              n = length rendered; has_more = (start - 1 + n < length lines) in
          fst (with_budget_metadata (re_tok env)
            (dict_update base
              [(''content'', JStr (join [10] rendered)), (''end_line'', JInt (int (start + n) - 1)),
               (''next_offset'', if has_more then jnat (start + n) else JNull)])
            b has_more
            (if \<not> has_more then ''end_of_file''
             else if n = length requested then ''line_limit''
             else (case stop of Some r \<Rightarrow> r | None \<Rightarrow> ''end_of_file''))))"

section \<open>Bytes\<close>

text \<open>\<^verbatim>\<open>raw.hex(" ")\<close>.\<close>

definition hex_byte :: "nat \<Rightarrow> ustr" where
  "hex_byte b = [hex_digit (b div 16), hex_digit (b mod 16)]"

definition hex_text :: "bytes \<Rightarrow> ustr" where
  "hex_text bs = join [32] (map hex_byte bs)"

definition hex_base :: "dict \<Rightarrow> nat \<Rightarrow> dict" where
  "hex_base meta start =
     [(''success'', JBool True), (''mode'', jlit ''hex''), (''file'', JObj (dict_update meta [(''file_type'', jlit ''binary'')])),
      (''content'', JStr []), (''offset_unit'', jlit ''bytes''), (''start_offset'', jnat start), (''end_offset'', jnat start),
      (''next_offset'', JNull)]"

definition hex_fits :: "(ustr \<Rightarrow> nat) \<Rightarrow> response_budget \<Rightarrow> dict \<Rightarrow> nat \<Rightarrow> bytes \<Rightarrow> nat \<Rightarrow> bool" where
  "hex_fits tok b meta start raw n =
     fits (snd (with_budget_metadata tok
       (dict_update (hex_base meta start)
         [(''content'', JStr (hex_text (take n raw))), (''end_offset'', jnat (start + n)), (''next_offset'', jnat (start + n))])
       b True ''token_budget''))"

definition hex_request :: "int \<Rightarrow> nat" where
  "hex_request limit = nat (min (max limit 1) (256 * 1024))"

text \<open>The bytes one call returns.\<close>

definition hex_page :: "(ustr \<Rightarrow> nat) \<Rightarrow> response_budget \<Rightarrow> dict \<Rightarrow> int \<Rightarrow> bytes \<Rightarrow> nat \<Rightarrow> bytes" where
  "hex_page tok b meta limit file start =
     (let raw = take (hex_request limit) (drop start file) in
      take (bisect_up (hex_fits tok b meta start raw) 0 (length raw)) raw)"

definition reader_hex :: "(ustr \<Rightarrow> nat) \<Rightarrow> response_budget \<Rightarrow> dict \<Rightarrow> bytes \<Rightarrow> int \<Rightarrow> int \<Rightarrow> dict" where
  "reader_hex tok b meta file offset limit =
     (let start = nat offset; page = hex_page tok b meta limit file start; n = length page;
          has_more = (start + n < length file) in
      fst (with_budget_metadata tok
        (dict_update (hex_base meta start)
          [(''content'', JStr (hex_text page)), (''end_offset'', jnat (start + n)),
           (''next_offset'', if has_more then jnat (start + n) else JNull)])
        b has_more
        (if n < length (take (hex_request limit) (drop start file)) then ''token_budget''
         else if has_more then ''byte_limit'' else ''end_of_file'')))"

section \<open>Images\<close>

definition reader_image :: "reader_env \<Rightarrow> response_budget \<Rightarrow> dict \<Rightarrow> path \<Rightarrow> dict" where
  "reader_image env b meta p =
     (case re_image env of
        None \<Rightarrow> tool_error ''dependency_unavailable'' (u ''Image reads require Pillow.'') []
      | Some open_image \<Rightarrow>
          (case open_image p of
             Inl e \<Rightarrow> tool_error ''invalid_image'' (u ''Could not inspect image: '' @ e) [(''resolved_path'', JStr (path_text p))]
           | Inr info \<Rightarrow>
               fst (with_budget_metadata (re_tok env)
                 [(''success'', JBool True), (''mode'', jlit ''image''),
                  (''file'', JObj (dict_update meta [(''file_type'', jlit ''image'')])),
                  (''image'', JObj (dict_update info
                    [(''content_reference'', JObj [(''path'', JStr (path_text p)), (''uri'', JStr (re_uri env p)),
                        (''mime_type'', JStr (mime_type env p))])])),
                  (''next_offset'', JNull)]
                 b False ''complete'')))"

section \<open>PDF pages\<close>

fun decimal_value :: "(nat \<Rightarrow> nat option) \<Rightarrow> nat \<Rightarrow> ustr \<Rightarrow> nat option" where
  "decimal_value dg acc [] = Some acc"
| "decimal_value dg acc (c # cs) = (case dg c of None \<Rightarrow> None | Some d \<Rightarrow> decimal_value dg (10 * acc + d) cs)"

definition parse_number :: "(nat \<Rightarrow> nat option) \<Rightarrow> ustr \<Rightarrow> nat option" where
  "parse_number dg s = (if s = [] then None else decimal_value dg 0 s)"

text \<open>The match of \<^verbatim>\<open>(\d+)(?:-(\d+))?\<close> with the whole text: its two numbers.\<close>

definition page_range :: "(nat \<Rightarrow> nat option) \<Rightarrow> ustr \<Rightarrow> (nat \<times> nat) option" where
  "page_range dg part =
     (case split_char 45 [] part of
        [a] \<Rightarrow> map_option (\<lambda>n. (n, n)) (parse_number dg a)
      | [a, b] \<Rightarrow>
          (case (parse_number dg a, parse_number dg b) of (Some m, Some n) \<Rightarrow> Some (m, n) | _ \<Rightarrow> None)
      | _ \<Rightarrow> None)"

definition pages_message :: ustr where
  "pages_message = u ''pages must use 1-based values such as '' @ [39] @ u ''1-5,8'' @ [39] @ u ''.''"

fun select_pages :: "reader_env \<Rightarrow> nat \<Rightarrow> ustr list \<Rightarrow> ustr + nat list" where
  "select_pages env page_count [] = Inr []"
| "select_pages env page_count (p # ps) =
     (case page_range (re_digit env) (strip p) of
        None \<Rightarrow> Inl pages_message
      | Some (first, stop) \<Rightarrow>
          if first < 1 \<or> stop < first \<or> page_count < stop
          then Inl (u ''pages entry '' @ re_repr env (strip p) @ u '' is outside 1-'' @ nat_repr page_count @ u ''.'')
          else
            (case select_pages env page_count ps of
               Inl e \<Rightarrow> Inl e
             | Inr rest \<Rightarrow> Inr ([first - 1..<stop] @ rest)))"

text \<open>\<^verbatim>\<open>list(dict.fromkeys(xs))\<close>.\<close>

definition keep_first :: "'a list \<Rightarrow> 'a list" where
  "keep_first xs = fold (\<lambda>x acc. if x \<in> set acc then acc else acc @ [x]) xs []"

definition parse_pages :: "reader_env \<Rightarrow> ustr option \<Rightarrow> nat \<Rightarrow> ustr + nat list" where
  "parse_pages env spec page_count =
     (case spec of
        None \<Rightarrow> Inr [0..<min page_count 4]
      | Some s \<Rightarrow>
          if s = [] then Inr [0..<min page_count 4]
          else
            (case select_pages env page_count (split_char 44 [] s) of
               Inl e \<Rightarrow> Inl e
             | Inr selected \<Rightarrow>
                 if 20 < length (keep_first selected) then Inl (u ''At most 20 PDF pages may be read in one call.'')
                 else Inr (keep_first selected)))"

definition pdf_base :: "dict \<Rightarrow> nat \<Rightarrow> dict" where
  "pdf_base meta page_count =
     [(''success'', JBool True), (''mode'', jlit ''pdf''), (''file'', JObj (dict_update meta [(''file_type'', jlit ''pdf'')])),
      (''page_count'', jnat page_count), (''pages'', JList []), (''offset_unit'', jlit ''pages''), (''next_offset'', JNull)]"

definition page_item :: "nat \<Rightarrow> ustr \<Rightarrow> json" where
  "page_item i content = JObj [(''page'', jnat (i + 1)), (''text'', JStr content)]"

text \<open>The pages that fit, and whether the budget has stopped them; or the page whose text cannot be extracted.\<close>

fun pdf_pages ::
  "(ustr \<Rightarrow> nat) \<Rightarrow> response_budget \<Rightarrow> dict \<Rightarrow> (nat \<Rightarrow> ustr + ustr) \<Rightarrow> json list \<Rightarrow> nat list \<Rightarrow> (nat \<times> ustr) + json list \<times> bool" where
  "pdf_pages tok b base extract acc [] = Inr (acc, False)"
| "pdf_pages tok b base extract acc (i # is) =
     (case extract i of
        Inl e \<Rightarrow> Inl (i, e)
      | Inr content \<Rightarrow>
          let acc' = acc @ [page_item i content] in
          if fits (snd (with_budget_metadata tok
               (dict_update base [(''pages'', JList acc'), (''next_offset'', jnat (i + 1))]) b True ''token_budget''))
          then pdf_pages tok b base extract acc' is
          else Inr (acc, True))"

definition reader_pdf :: "reader_env \<Rightarrow> response_budget \<Rightarrow> dict \<Rightarrow> path \<Rightarrow> ustr option \<Rightarrow> dict" where
  "reader_pdf env b meta p spec =
     (case re_pdf env of
        None \<Rightarrow> tool_error ''dependency_unavailable'' (u ''PDF reads require pypdf.'') []
      | Some open_pdf \<Rightarrow>
          (case (case open_pdf p of
                   Inl e \<Rightarrow> Inl e
                 | Inr (page_count, extract) \<Rightarrow>
                     (case parse_pages env spec page_count of Inl e \<Rightarrow> Inl e | Inr sel \<Rightarrow> Inr (page_count, extract, sel))) of
             Inl e \<Rightarrow> tool_error ''invalid_pdf'' e [(''resolved_path'', JStr (path_text p))]
           | Inr (page_count, extract, selected) \<Rightarrow>
               (case pdf_pages (re_tok env) b (pdf_base meta page_count) extract [] selected of
                  Inl (i, e) \<Rightarrow>
                    tool_error ''pdf_read_error'' (u ''Could not extract PDF page '' @ nat_repr (i + 1) @ u '': '' @ e)
                      [(''resolved_path'', JStr (path_text p)), (''page'', jnat (i + 1))]
                | Inr (items, stopped) \<Rightarrow>
                    fst (with_budget_metadata (re_tok env)
                      (dict_update (pdf_base meta page_count)
                        [(''pages'', JList items),
                         (''next_offset'', if stopped then jnat (selected ! length items + 1) else JNull)])
                      b stopped (if stopped then ''token_budget'' else ''complete'')))))"

section \<open>read_path\<close>

record read_request =
  rr_mode :: string
  rr_encoding :: "ustr option"
  rr_start_line :: int
  rr_line_limit :: int
  rr_numbered :: bool
  rr_pages :: "ustr option"
  rr_byte_offset :: int
  rr_byte_limit :: int

definition read_path :: "reader_env \<Rightarrow> int \<Rightarrow> fs \<Rightarrow> path \<Rightarrow> read_request \<Rightarrow> dict" where
  "read_path env tokens m p rq =
     (if \<not> path_exists m p then resolved_error ''file_not_found'' (u ''File not found: '' @ path_text p) p
      else case file_bytes m p of
        None \<Rightarrow> resolved_error ''not_a_file'' (u ''Path is not a file: '' @ path_text p) p
      | Some raw \<Rightarrow>
          if rr_mode rq \<notin> {''auto'', ''text'', ''image'', ''pdf'', ''hex''}
          then tool_error ''invalid_mode'' (u ''mode must be one of: auto, hex, image, pdf, text.'') []
          else case re_os_error env of
            Some e \<Rightarrow> resolved_error ''read_failed'' (u ''File changed or became unreadable during the read: '' @ e) p
          | None \<Rightarrow>
              let meta = base_metadata env p raw;
                  mode = (if rr_mode rq = ''auto'' then auto_mode env p raw else rr_mode rq);
                  b = \<lparr>max_tokens = tokens, max_bytes = None\<rparr> in
              if mode = ''text''
                then reader_text env b meta p raw (rr_encoding rq) (rr_start_line rq) (rr_line_limit rq) (rr_numbered rq)
              else if mode = ''hex'' then reader_hex (re_tok env) b meta raw (rr_byte_offset rq) (rr_byte_limit rq)
              else if mode = ''image'' then reader_image env b meta p
              else reader_pdf env b meta p (rr_pages rq))"

end
