(* ===== verification/ReaderProps.thy ===== *)
theory ReaderProps
  imports Reader GitDiff
begin

text \<open>
  What the reader promises: a client that follows \<^verbatim>\<open>next_offset\<close> of hexadecimal pages gets the bytes of
  the file, and a PDF read returns the pages that were asked for.
\<close>

section \<open>Hexadecimal pages\<close>

text \<open>\<^verbatim>\<open>bytes.fromhex\<close> on what \<^verbatim>\<open>bytes.hex(" ")\<close> prints.\<close>

definition unhex_digit :: "nat \<Rightarrow> nat" where
  "unhex_digit c = (if c < 58 then c - 48 else c - 87)"

fun unhex :: "ustr \<Rightarrow> bytes" where
  "unhex (a # b # s) = (if a = 32 then unhex (b # s) else (16 * unhex_digit a + unhex_digit b) # unhex s)"
| "unhex s = []"

lemma unhex_hex_digit: "d < 16 \<Longrightarrow> unhex_digit (hex_digit d) = d \<and> hex_digit d \<noteq> 32"
  by (auto simp: unhex_digit_def hex_digit_def)

lemma unhex_byte: "b < 256 \<Longrightarrow> unhex (hex_byte b @ s) = b # unhex s"
  using unhex_hex_digit [of "b div 16"] unhex_hex_digit [of "b mod 16"] by (simp add: hex_byte_def)

lemma unhex_space: "unhex (32 # s) = unhex s"
  by (cases s) simp_all

lemma hex_text_simps [simp]:
  "hex_text [] = []"
  "hex_text (b # bs) = hex_byte b @ (if bs = [] then [] else 32 # hex_text bs)"
  by (simp_all add: hex_text_def neq_Nil_conv) (cases bs; simp)

lemma unhex_hex: "list_all (\<lambda>b. b < 256) bs \<Longrightarrow> unhex (hex_text bs) = bs"
  by (induction bs) (auto simp: unhex_byte unhex_space unhex.simps(2) simp del: unhex.simps(1))

lemma hex_page_at:
  "hex_page tok b meta limit data start = take (length (hex_page tok b meta limit data start)) (drop start data)"
  by (simp add: hex_page_def Let_def min_def)

interpretation hex_pages: paged data "hex_page tok b meta limit data" for tok b meta limit data
  by unfold_locales (rule hex_page_at)

lemma bisect_moves: "ok 1 \<Longrightarrow> 0 < high \<Longrightarrow> 0 < bisect_up ok 0 high"
proof (induction high rule: less_induct)
  case (less high)
  obtain mid where mid: "0 < mid" "mid \<le> high"
    "bisect_up ok 0 high = (if ok mid then bisect_up ok mid high else bisect_up ok 0 (mid - 1))"
    using bisect_step [OF less.prems(2), of ok] by blast
  show ?case
  proof (cases "ok mid")
    case True
    with mid bisect_range [of mid high ok] show ?thesis by simp
  next
    case False
    with less.prems(1) have "mid \<noteq> 1" by metis
    with mid(1) have "0 < mid - 1" "mid - 1 < high" using mid(2) by simp_all
    with less.IH less.prems(1) False mid(3) show ?thesis by simp
  qed
qed

lemma hex_page_moves:
  assumes "start < length data" "hex_fits tok b meta start (take (hex_request limit) (drop start data)) 1"
  shows "hex_page tok b meta limit data start \<noteq> []"
proof -
  define raw where "raw = take (hex_request limit) (drop start data)"
  define n where "n = bisect_up (hex_fits tok b meta start raw) 0 (length raw)"
  have "0 < hex_request limit" by (simp add: hex_request_def)
  with assms(1) have raw: "0 < length raw" by (simp add: raw_def)
  have "0 < n" unfolding n_def by (rule bisect_moves [OF _ raw]) (use assms(2) in \<open>simp only: raw_def\<close>)
  moreover have "hex_page tok b meta limit data start = take n raw"
    by (simp only: hex_page_def Let_def raw_def n_def)
  ultimately show ?thesis using raw by simp
qed

text \<open>What a client reads off a reply.\<close>

definition reply_content :: "dict \<Rightarrow> ustr" where
  "reply_content d = (case map_of d ''content'' of Some (JStr s) \<Rightarrow> s | _ \<Rightarrow> [])"

definition reply_next :: "dict \<Rightarrow> int option" where
  "reply_next d = (case map_of d ''next_offset'' of Some (JInt k) \<Rightarrow> Some k | _ \<Rightarrow> None)"

fun read_hex_all :: "(int \<Rightarrow> dict) \<Rightarrow> nat \<Rightarrow> int \<Rightarrow> bytes" where
  "read_hex_all read 0 offset = []"
| "read_hex_all read (Suc n) offset =
     unhex (reply_content (read offset)) @
     (case reply_next (read offset) of None \<Rightarrow> [] | Some k \<Rightarrow> read_hex_all read n k)"

lemma hex_reply:
  fixes start :: nat and tok b meta limit data
  defines "page \<equiv> hex_page tok b meta limit data start"
  shows "reply_content (reader_hex tok b meta data (int start) limit) = hex_text page"
    "reply_next (reader_hex tok b meta data (int start) limit) =
      (if start + length page < length data then Some (int (start + length page)) else None)"
  unfolding page_def reply_content_def reply_next_def reader_hex_def Let_def
  by (simp_all add: attach_keeps hex_base_def dict_update_def dict_simps)

lemma read_hex_follows:
  assumes "list_all (\<lambda>b. b < 256) data"
  shows "read_hex_all (\<lambda>offset. reader_hex tok b meta data offset limit) n (int start) =
    follow_pages (hex_page tok b meta limit data) (length data) n start"
proof (induction n arbitrary: start)
  case (Suc n)
  let ?page = "hex_page tok b meta limit data start"
  have "set ?page \<subseteq> set data"
    by (subst hex_page_at) (meson set_take_subset set_drop_subset subset_trans)
  with assms have "unhex (hex_text ?page) = ?page" by (intro unhex_hex) (auto simp: list_all_iff)
  then show ?case using Suc.IH [of "start + length ?page"] by (simp add: hex_reply)
qed simp

text \<open>A binary file can be read whole through hexadecimal pages: a client that starts at offset 0, decodes the
  \<^verbatim>\<open>content\<close> of each reply of the reader and asks again at its \<^verbatim>\<open>next_offset\<close> gets exactly the bytes of the file, for
  any byte limit and any budget that has room for one byte; the longest page that fits is found by bisection over
  replies that are measured with their metadata.\<close>

theorem hex_pages_return_the_file:
  assumes "list_all (\<lambda>b. b < 256) data"
    and "\<forall>start < length data. hex_fits tok b meta start (take (hex_request limit) (drop start data)) 1"
  shows "read_hex_all (\<lambda>offset. reader_hex tok b meta data offset limit) (Suc (length data)) 0 = data"
proof -
  have "follow_pages (hex_page tok b meta limit data) (length data) (Suc (length data)) 0 = drop 0 data"
    by (rule hex_pages.follow_all) (use assms(2) hex_page_moves in auto)
  then show ?thesis using read_hex_follows [OF assms(1), where start = 0] by simp
qed

lemma roomy_fits: "0 < k \<Longrightarrow> fits (measure_json_payload (\<lambda>t. 1) d \<lparr>max_tokens = k, max_bytes = None\<rparr>)"
  by (simp add: measure_json_payload_def measure_text_def fits_def)

theorem hex_pages_return_the_file_witness:
  "read_hex_all (\<lambda>offset. reader_hex (\<lambda>t. 1) \<lparr>max_tokens = 9, max_bytes = None\<rparr> [] [0, 255, 10] offset 2) 4 0 = [0, 255, 10]"
proof -
  have "hex_fits (\<lambda>t. 1) \<lparr>max_tokens = 9, max_bytes = None\<rparr> [] start raw 1" for start raw
    unfolding hex_fits_def by (rule with_budget_metadata_fits) (rule roomy_fits, simp)
  then show ?thesis
    using hex_pages_return_the_file [of "[0, 255, 10]" "\<lambda>t. 1" "\<lparr>max_tokens = 9, max_bytes = None\<rparr>" "[]" 2]
    by (simp add: eval_nat_numeral)
qed

section \<open>PDF pages\<close>

lemma keep_first_from:
  "distinct acc \<Longrightarrow> distinct (fold (\<lambda>x acc. if x \<in> set acc then acc else acc @ [x]) xs acc) \<and>
     set (fold (\<lambda>x acc. if x \<in> set acc then acc else acc @ [x]) xs acc) = set acc \<union> set xs"
  by (induction xs arbitrary: acc) auto

lemma keep_first_simps [simp]: "distinct (keep_first xs)" "set (keep_first xs) = set xs"
  using keep_first_from [of "[]" xs] by (simp_all add: keep_first_def)

lemma select_pages_sound:
  "select_pages env n parts = Inr sel \<Longrightarrow>
     (\<forall>i. i \<in> set sel \<longleftrightarrow> (\<exists>part \<in> set parts. \<exists>a b. page_range (re_digit env) (strip part) = Some (a, b) \<and> a \<le> i + 1 \<and> i + 1 \<le> b)) \<and>
     (\<forall>i \<in> set sel. i < n)"
proof (induction parts arbitrary: sel)
  case (Cons part parts)
  from Cons.prems obtain a b rest where r: "page_range (re_digit env) (strip part) = Some (a, b)" "1 \<le> a" "a \<le> b" "b \<le> n"
    "select_pages env n parts = Inr rest" "sel = [a - 1..<b] @ rest"
    by (auto split: option.splits if_splits sum.splits)
  have "i \<in> set [a - 1..<b] \<longleftrightarrow> a \<le> i + 1 \<and> i + 1 \<le> b" for i using r(2) by auto
  then show ?case using Cons.IH [OF r(5)] r(1,4,6) by auto
qed simp

text \<open>The pages that fit are the first of the selection.\<close>

definition page_text :: "(nat \<Rightarrow> ustr + ustr) \<Rightarrow> nat \<Rightarrow> ustr" where
  "page_text extract i = (case extract i of Inl e \<Rightarrow> [] | Inr t \<Rightarrow> t)"

lemma pdf_pages_prefix:
  "\<forall>i \<in> set sel. \<exists>t. extract i = Inr t \<Longrightarrow>
     \<exists>k \<le> length sel. pdf_pages tok b base extract acc sel =
       Inr (acc @ map (\<lambda>i. page_item i (page_text extract i)) (take k sel), k < length sel)"
proof (induction sel arbitrary: acc)
  case (Cons i sel)
  then obtain t where t: "extract i = Inr t" by auto
  let ?acc = "acc @ [page_item i t]"
  show ?case
  proof (cases "fits (snd (with_budget_metadata tok
      (dict_update base [(''pages'', JList ?acc), (''next_offset'', jnat (i + 1))]) b True ''token_budget''))")
    case True
    from Cons obtain k where "k \<le> length sel" "pdf_pages tok b base extract ?acc sel =
        Inr (?acc @ map (\<lambda>i. page_item i (page_text extract i)) (take k sel), k < length sel)"
      by (metis list.set_intros(2))
    with True t show ?thesis by (intro exI [of _ "Suc k"]) (simp add: page_text_def Let_def)
  next
    case False
    with t show ?thesis by (intro exI [of _ 0]) (simp add: Let_def)
  qed
qed simp

text \<open>A PDF read returns the pages that were asked for. When the page specification is accepted, the selected pages
  are those of its ranges, each once, at most twenty and all pages of the document; the reply has the texts of
  the first of them, in the order of the specification, and its \<^verbatim>\<open>next_offset\<close> is the number of the first one
  that the budget has left out, or null when there is none.\<close>

theorem pdf_read_returns_selection:
  assumes "re_pdf env = Some open_pdf" "open_pdf p = Inr (n, extract)" "spec \<noteq> []"
    and "parse_pages env (Some spec) n = Inr sel" "\<forall>i \<in> set sel. \<exists>t. extract i = Inr t"
  shows "distinct sel \<and> length sel \<le> 20 \<and> (\<forall>i \<in> set sel. i < n) \<and>
    (\<forall>i. i \<in> set sel \<longleftrightarrow> (\<exists>part \<in> set (split_char 44 [] spec). \<exists>a b.
       page_range (re_digit env) (strip part) = Some (a, b) \<and> a \<le> i + 1 \<and> i + 1 \<le> b)) \<and>
    (\<exists>k \<le> length sel.
       map_of (reader_pdf env b meta p (Some spec)) ''pages'' =
         Some (JList (map (\<lambda>i. page_item i (page_text extract i)) (take k sel))) \<and>
       map_of (reader_pdf env b meta p (Some spec)) ''next_offset'' =
         Some (if k < length sel then jnat (sel ! k + 1) else JNull))"
proof -
  from assms(3,4) obtain ps where ps: "select_pages env n (split_char 44 [] spec) = Inr ps" "sel = keep_first ps"
    "length (keep_first ps) \<le> 20"
    by (auto simp: parse_pages_def not_less split: sum.splits if_splits)
  from pdf_pages_prefix [OF assms(5), of "re_tok env" b "pdf_base meta n" "[]"]
  obtain k where k: "k \<le> length sel" "pdf_pages (re_tok env) b (pdf_base meta n) extract [] sel =
      Inr (map (\<lambda>i. page_item i (page_text extract i)) (take k sel), k < length sel)" by auto
  have reply: "reader_pdf env b meta p (Some spec) = fst (with_budget_metadata (re_tok env)
      (dict_update (pdf_base meta n)
        [(''pages'', JList (map (\<lambda>i. page_item i (page_text extract i)) (take k sel))),
         (''next_offset'', if k < length sel then jnat (sel ! k + 1) else JNull)])
      b (k < length sel) (if k < length sel then ''token_budget'' else ''complete''))"
    using k(1) by (simp add: reader_pdf_def assms(1,2,4) k(2) min_def)
  have "map_of (reader_pdf env b meta p (Some spec)) ''pages'' =
      Some (JList (map (\<lambda>i. page_item i (page_text extract i)) (take k sel)))"
    "map_of (reader_pdf env b meta p (Some spec)) ''next_offset'' =
      Some (if k < length sel then jnat (sel ! k + 1) else JNull)"
    unfolding reply by (simp_all add: attach_keeps dict_update_def pdf_base_def dict_simps)
  with k(1) select_pages_sound [OF ps(1)] ps(2,3) show ?thesis by (simp only: keep_first_simps) blast
qed

definition demo_reader :: reader_env where
  "demo_reader = \<lparr>re_tok = (\<lambda>t. 1), re_codecs = (\<lambda>e. None), re_sha = id, re_guess = (\<lambda>p. None), re_lower = id, re_repr = id,
     re_digit = (\<lambda>c. if 48 \<le> c \<and> c < 58 then Some (c - 48) else None), re_uri = (\<lambda>p. []), re_image = None,
     re_pdf = Some (\<lambda>p. Inr (5, \<lambda>i. Inr [65 + i])), re_os_error = None\<rparr>"

theorem pdf_read_returns_selection_witness:
  "map_of (reader_pdf demo_reader \<lparr>max_tokens = 9, max_bytes = None\<rparr> [] [] (Some (u ''5,1-2''))) ''next_offset'' \<noteq> None \<and>
   parse_pages demo_reader (Some (u ''5,1-2'')) 5 = Inr [4, 0, 1]"
proof -
  have sel: "parse_pages demo_reader (Some (u ''5,1-2'')) 5 = Inr [4, 0, 1]"
    by (simp add: parse_pages_def page_range_def parse_number_def demo_reader_def strip_def rstrip_by_def is_space_def
        keep_first_def upt_rec)
  have pdf: "re_pdf demo_reader = Some (\<lambda>p. Inr (5, \<lambda>i. Inr [65 + i]))" by (simp add: demo_reader_def)
  have "u ''5,1-2'' \<noteq> []" by simp
  from pdf_read_returns_selection [OF pdf refl this sel, of "\<lparr>max_tokens = 9, max_bytes = None\<rparr>" "[]" "[]"]
  show ?thesis using sel by auto
qed

end
