(* ===== verification/AppServer.thy ===== *)
theory AppServer
  imports RuntimeModels Utf8
begin

text \<open>
  The adapter of the Codex App Server (\<^verbatim>\<open>codex_runtime/app_server.py\<close>): JSON-RPC requests over the pipes of a child
  process, with one reader thread, workers for the questions of the server, and callers that wait.

  A step of the model is a section of the code between two points where another thread can run: a section under
  one of the locks, the handling of one line by the reader, the writing of one message. The object of a request is
  shared by its caller, the reader and the workers; it is stored under its number, which is never used again, while
  \<open>ap_pending\<close> is the dictionary \<^verbatim>\<open>_pending\<close>. A child process is the number of its start; whether it runs and whether
  its pipe is open change by events. While a caller waits, the next list of events of the schedule happens.
\<close>

section \<open>State\<close>

datatype app_error = Codex runtime_error | EncodeFails

record app_request =
  ar_method :: string
  ar_params :: dict
  ar_process :: nat
  ar_handler :: bool
  ar_abandoned :: bool
  ar_done :: bool
  ar_result :: json
  ar_error :: "app_error option"
  ar_interactions :: "dict list"

text \<open>Where the reader thread of a process is: between lines, after it has looked a request up, after it has set
  its event, or at its end.\<close>

datatype reader_phase = Idle | Found int dict | Settled int | Ended

text \<open>A worker answers a question of the server for one request; its interaction is the one at an index.\<close>

record app_worker =
  wk_message :: dict
  wk_request :: int
  wk_index :: nat
  wk_process :: nat
  wk_running :: bool

datatype app_event =
    Line nat bytes
  | ReaderStep nat
  | StderrLine bytes
  | WorkerStart nat
  | WorkerDone nat "json option"
  | ProcessExits nat
  | PipeBreaks nat
  | CanSpawn bool
  | CanThread bool
  | Submitted string dict bool
  | GivesUp int bool
  | Collected int
  | ShutDown
  | Spawned
  | MarkedStarted
  | Capable string
  | Notified string dict
  | Dropped ustr
  | Forgotten nat ustr

record app_server =
  ap_pending :: "int list"
  ap_request :: "int \<Rightarrow> app_request option"
  ap_abandoned :: "(nat \<times> ustr) set"
  ap_claimed :: "(nat \<times> ustr) set"
  ap_pool :: "nat option"
  ap_slots :: "nat \<Rightarrow> nat"
  ap_retired :: "nat set"
  ap_workers :: "app_worker list"
  ap_next :: int
  ap_process :: "nat option"
  ap_started :: bool
  ap_generation :: nat
  ap_capabilities :: "string list"
  ap_phase :: "nat \<Rightarrow> reader_phase"
  ap_stderr :: "ustr list"
  ap_sent :: "(nat \<times> dict) list"
  ap_spawned :: nat
  ap_alive :: "nat set"
  ap_broken :: "nat set"
  ap_can_spawn :: bool
  ap_can_thread :: bool
  ap_schedule :: "app_event list list"

record app_config =
  ac_max_bytes :: nat
  ac_loads :: "bytes \<Rightarrow> json option"
  ac_startup :: json

definition new_app_server :: app_server where
  "new_app_server =
     \<lparr>ap_pending = [], ap_request = (\<lambda>i. None), ap_abandoned = {}, ap_claimed = {}, ap_pool = None, ap_slots = (\<lambda>p. 0),
      ap_retired = {}, ap_workers = [], ap_next = 1, ap_process = None, ap_started = False, ap_generation = 0,
      ap_capabilities = [], ap_phase = (\<lambda>p. Idle), ap_stderr = [], ap_sent = [], ap_spawned = 0, ap_alive = {},
      ap_broken = {}, ap_can_spawn = True, ap_can_thread = True, ap_schedule = []\<rparr>"

section \<open>Errors\<close>

definition unavailable :: app_error where
  "unavailable = Codex (runtime_error ''codex_app_server_unavailable'' True [])"

definition rpc_protocol_error :: app_error where
  "rpc_protocol_error = Codex (runtime_error ''codex_protocol_error'' True [])"

definition capability_missing :: "string \<Rightarrow> app_error" where
  "capability_missing m = Codex (runtime_error ''codex_capability_missing'' False [(''method'', jlit m)])"

definition request_timeout :: "string \<Rightarrow> json \<Rightarrow> app_error" where
  "request_timeout m t =
     Codex (runtime_error ''codex_request_timeout'' True [(''method'', jlit m), (''timeout_seconds'', t)])"

definition rpc_error :: "string \<Rightarrow> json \<Rightarrow> json \<Rightarrow> app_error" where
  "rpc_error m code extra =
     Codex (runtime_error ''codex_rpc_error'' False
       ([(''method'', jlit m), (''upstream_code'', code)] @ (if extra = JNull then [] else [(''upstream_data'', extra)])))"

definition interaction_required :: "string \<Rightarrow> dict list \<Rightarrow> app_error" where
  "interaction_required m interactions =
     Codex (runtime_error ''interaction_required'' False
       [(''method'', jlit m), (''interactions'', JList (map JObj interactions)),
        (''recovery'', jlit ''Retry from an MCP client that supports the requested elicitation.'')])"

definition command_timeout :: "ustr \<Rightarrow> bool \<Rightarrow> app_error" where
  "command_timeout process_id terminated =
     Codex (side_effect ''command_may_have_run'' (JBool True)
       (runtime_error ''command_timeout'' True [(''process_id'', JStr process_id), (''terminated'', JBool terminated)]))"

definition has_code :: "string \<Rightarrow> app_error \<Rightarrow> bool" where
  "has_code c e \<longleftrightarrow> (case e of Codex r \<Rightarrow> re_code r = c | EncodeFails \<Rightarrow> False)"

text \<open>\<^verbatim>\<open>json.dumps(..., ensure_ascii=False, separators=(",", ":"))\<close>, keys in their order.\<close>

fun dumps_text :: "json \<Rightarrow> ustr" where
  "dumps_text (JList xs) = u ''['' @ join (u '','') (map dumps_text xs) @ u '']''"
| "dumps_text (JObj kvs) = u ''{'' @ join (u '','') (map (\<lambda>(k, v). json_string (u k) @ u '':'' @ dumps_text v) kvs) @ u ''}''"
| "dumps_text j = json_render j"

definition bounded_error_data :: "json \<Rightarrow> json" where
  "bounded_error_data value =
     (if value = JNull then JNull
      else if length (dumps_text value) \<le> 4096 then value
      else JStr (take 4093 (dumps_text value) @ u ''...''))"

section \<open>The table of requests\<close>

definition alter_request :: "app_server \<Rightarrow> int \<Rightarrow> (app_request \<Rightarrow> app_request) \<Rightarrow> app_server" where
  "alter_request s i f = s\<lparr>ap_request := (ap_request s)(i := map_option f (ap_request s i))\<rparr>"

definition request_done :: "app_server \<Rightarrow> int \<Rightarrow> bool" where
  "request_done s i \<longleftrightarrow> (case ap_request s i of Some r \<Rightarrow> ar_done r | None \<Rightarrow> False)"

definition request_process :: "app_server \<Rightarrow> int \<Rightarrow> nat option" where
  "request_process s i = map_option ar_process (ap_request s i)"

definition remove_pending :: "int \<Rightarrow> app_server \<Rightarrow> app_server" where
  "remove_pending i s = s\<lparr>ap_pending := filter (\<lambda>j. j \<noteq> i) (ap_pending s)\<rparr>"

definition fail_request :: "app_error \<Rightarrow> app_request \<Rightarrow> app_request" where
  "fail_request e r = (if ar_done r then r else r\<lparr>ar_error := Some e, ar_done := True\<rparr>)"

text \<open>Without a process, all requests fail.\<close>

definition fail_pending :: "app_error \<Rightarrow> nat option \<Rightarrow> app_server \<Rightarrow> app_server" where
  "fail_pending e process s =
     s\<lparr>ap_request := (\<lambda>i.
         if i \<in> set (ap_pending s) \<and> (process = None \<or> request_process s i = process)
         then map_option (fail_request e) (ap_request s i) else ap_request s i)\<rparr>"

definition retire_pool :: "app_server \<Rightarrow> app_server" where
  "retire_pool s =
     (case ap_pool s of
        None \<Rightarrow> s
      | Some q \<Rightarrow>
          if ap_process s = None \<or> ap_process s = Some q
          then s\<lparr>ap_retired := insert q (ap_retired s), ap_pool := None\<rparr> else s)"

text \<open>\<^verbatim>\<open>_close_process_locked\<close>. The signals to the process group of the child are not modelled.\<close>

definition close_process :: "app_server \<Rightarrow> app_server" where
  "close_process s0 =
     (let process = ap_process s0;
          s = fail_pending unavailable process (retire_pool (s0\<lparr>ap_started := False, ap_capabilities := []\<rparr>)) in
      case process of
        None \<Rightarrow> s
      | Some p \<Rightarrow>
          s\<lparr>ap_process := None,
            ap_pending := filter (\<lambda>i. request_process s i \<noteq> Some p) (ap_pending s),
            ap_abandoned := {k \<in> ap_abandoned s. fst k \<noteq> p},
            ap_claimed := {k \<in> ap_claimed s. fst k \<noteq> p},
            ap_broken := insert p (ap_broken s)\<rparr>)"

definition cleanup_dead_process :: "app_server \<Rightarrow> app_server" where
  "cleanup_dead_process s =
     (case ap_process s of None \<Rightarrow> s | Some p \<Rightarrow> if p \<in> ap_alive s then s else close_process s)"

definition is_running :: "app_server \<Rightarrow> bool" where
  "is_running s \<longleftrightarrow> (case ap_process s of None \<Rightarrow> False | Some p \<Rightarrow> p \<in> ap_alive s \<and> ap_started s)"

definition owns_thread :: "app_server \<Rightarrow> ustr \<Rightarrow> bool" where
  "owns_thread s t \<longleftrightarrow>
     (case ap_process s of None \<Rightarrow> False | Some p \<Rightarrow> (p, t) \<in> ap_claimed s \<or> (p, t) \<in> ap_abandoned s)"

definition has_pending_operations :: "app_server \<Rightarrow> ustr \<Rightarrow> bool" where
  "has_pending_operations s t \<longleftrightarrow>
     list_ex (\<lambda>i. case ap_request s i of
         None \<Rightarrow> False
       | Some r \<Rightarrow> Some (ar_process r) = ap_process s \<and> map_of (ar_params r) ''threadId'' = Some (JStr t) \<and> \<not> ar_done r)
       (ap_pending s)"

text \<open>Capabilities are shown in their order.\<close>

definition adapter_info :: "string \<Rightarrow> app_server \<Rightarrow> dict" where
  "adapter_info command s =
     [(''process_status'', jlit (if is_running s then ''running'' else ''stopped'')), (''command'', jlit command),
      (''capabilities'', JList (map jlit (sort_key (map of_char :: string \<Rightarrow> nat list) (ap_capabilities s)))),
      (''cleanup_pending_count'', jnat (card (ap_abandoned s)))]"

section \<open>Sending\<close>

text \<open>A message is sent to the current process, which must be the expected one when one is expected.\<close>

definition send_message :: "dict \<Rightarrow> nat option \<Rightarrow> app_server \<Rightarrow> (app_error + unit) \<times> app_server" where
  "send_message m expected s =
     (case ap_process s of
        None \<Rightarrow> (Inl unavailable, s)
      | Some p \<Rightarrow>
          if expected \<noteq> None \<and> expected \<noteq> Some p \<or> p \<notin> ap_alive s then (Inl unavailable, s)
          else if \<not> list_all scalar_value (dumps_text (JObj m)) then (Inl EncodeFails, s)
          else if p \<in> ap_broken s then (Inl unavailable, s)
          else (Inr (), s\<lparr>ap_sent := ap_sent s @ [(p, m)]\<rparr>))"

definition request_message :: "int \<Rightarrow> string \<Rightarrow> dict \<Rightarrow> dict" where
  "request_message i m params =
     [(''jsonrpc'', jlit ''2.0''), (''id'', JInt i), (''method'', jlit m), (''params'', JObj params)]"

definition notification :: "string \<Rightarrow> dict \<Rightarrow> dict" where
  "notification m params = [(''jsonrpc'', jlit ''2.0''), (''method'', jlit m), (''params'', JObj params)]"

definition new_request :: "string \<Rightarrow> dict \<Rightarrow> nat \<Rightarrow> bool \<Rightarrow> app_request" where
  "new_request m params p handler =
     \<lparr>ar_method = m, ar_params = params, ar_process = p, ar_handler = handler, ar_abandoned = False, ar_done = False,
      ar_result = JNull, ar_error = None, ar_interactions = []\<rparr>"

definition submit_request :: "string \<Rightarrow> dict \<Rightarrow> bool \<Rightarrow> app_server \<Rightarrow> (app_error + int) \<times> app_server" where
  "submit_request m params handler s =
     (case ap_process s of
        None \<Rightarrow> (Inl unavailable, s)
      | Some p \<Rightarrow>
          if p \<notin> ap_alive s then (Inl unavailable, s)
          else if 128 \<le> length (ap_pending s) then (Inl rpc_protocol_error, s)
          else
            let i = ap_next s;
                s1 = s\<lparr>ap_next := i + 1, ap_pending := ap_pending s @ [i],
                       ap_request := (ap_request s)(i \<mapsto> new_request m params p handler)\<rparr> in
            case send_message (request_message i m params) (Some p) s1 of
              (Inl e, s2) \<Rightarrow> (Inl e, remove_pending i s2)
            | (Inr _, s2) \<Rightarrow> (Inr i, s2))"

section \<open>Waiting\<close>

text \<open>Calls that create or use a thread keep their request until the server has answered.\<close>

definition kept_on_timeout :: "string \<Rightarrow> bool" where
  "kept_on_timeout m \<longleftrightarrow> m \<in> {''thread/start'', ''thread/resume'', ''mcpServer/tool/call''}"

text \<open>The section after a wait that has timed out; nothing happens to a request whose event is set by then.\<close>

definition give_up :: "int \<Rightarrow> bool \<Rightarrow> app_server \<Rightarrow> app_server" where
  "give_up i remove s =
     (case ap_request s i of
        None \<Rightarrow> s
      | Some r \<Rightarrow>
          if ar_done r \<or> \<not> remove then s
          else if kept_on_timeout (ar_method r) then alter_request s i (\<lambda>r. r\<lparr>ar_abandoned := True\<rparr>)
          else remove_pending i s)"

end
