(* ===== verification/AppServerReader.thy ===== *)
theory AppServerReader
  imports AppServer
begin

text \<open>
  The other threads of the App Server adapter (\<^verbatim>\<open>codex_runtime/app_server.py\<close>): the reader with its handling of responses and
  questions, the workers, and the steps of all of them and of other callers.
\<close>

section \<open>The reader\<close>

definition message_id :: "dict \<Rightarrow> int option" where
  "message_id m =
     (case map_of m ''id'' of Some (JInt i) \<Rightarrow> Some i | Some (JBool b) \<Rightarrow> Some (of_bool b) | _ \<Rightarrow> None)"

definition has_field :: "dict \<Rightarrow> string \<Rightarrow> bool" where
  "has_field d k \<longleftrightarrow> map_of d k \<noteq> None"

definition find_request :: "dict \<Rightarrow> nat \<Rightarrow> app_server \<Rightarrow> app_server" where
  "find_request m p s =
     (case message_id m of
        None \<Rightarrow> s
      | Some i \<Rightarrow>
          if i \<in> set (ap_pending s) \<and> request_process s i = Some p then s\<lparr>ap_phase := (ap_phase s)(p := Found i m)\<rparr> else s)"

definition error_fields :: "json \<Rightarrow> json \<times> json" where
  "error_fields v =
     (case v of JObj d \<Rightarrow> (get_or_null d ''code'', get_or_null d ''data'') | _ \<Rightarrow> (JNull, JNull))"

definition settle_answer :: "dict \<Rightarrow> app_request \<Rightarrow> app_request" where
  "settle_answer m r =
     (let required = interaction_required (ar_method r) (ar_interactions r) in
      if list_ex (\<lambda>x. has_field x ''bridge_error'') (ar_interactions r) then r\<lparr>ar_error := Some required, ar_done := True\<rparr>
      else if has_field m ''error'' then
        (case error_fields (get_or_null m ''error'') of
           (code, extra) \<Rightarrow>
             r\<lparr>ar_error := Some (if ar_interactions r \<noteq> [] then required
                                else rpc_error (ar_method r) code (bounded_error_data extra)),
               ar_done := True\<rparr>)
      else r\<lparr>ar_result := get_or_null m ''result'', ar_done := True\<rparr>)"

definition started_thread :: "app_request \<Rightarrow> ustr option" where
  "started_thread r =
     (if ar_method r \<in> {''thread/start'', ''thread/resume''} then
        (case ar_result r of
           JObj d \<Rightarrow> (case map_of d ''thread'' of
               Some (JObj t) \<Rightarrow> (case map_of t ''id'' of Some (JStr i) \<Rightarrow> Some i | _ \<Rightarrow> None)
             | _ \<Rightarrow> None)
         | _ \<Rightarrow> None)
      else None)"

definition own_thread :: "nat \<Rightarrow> app_request \<Rightarrow> app_server \<Rightarrow> app_server" where
  "own_thread p r s =
     (case started_thread r of
        None \<Rightarrow> s
      | Some t \<Rightarrow>
          if ar_abandoned r
          then (if (p, t) \<in> ap_claimed s then s else s\<lparr>ap_abandoned := insert (p, t) (ap_abandoned s)\<rparr>)
          else s\<lparr>ap_claimed := insert (p, t) (ap_claimed s), ap_abandoned := ap_abandoned s - {(p, t)}\<rparr>)"

text \<open>The two further sections of \<^verbatim>\<open>_resolve_response\<close>.\<close>

definition reader_step :: "nat \<Rightarrow> app_server \<Rightarrow> app_server" where
  "reader_step p s =
     (case ap_phase s p of
        Found i m \<Rightarrow> (alter_request s i (settle_answer m))\<lparr>ap_phase := (ap_phase s)(p := Settled i)\<rparr>
      | Settled i \<Rightarrow>
          (case ap_request s i of
             None \<Rightarrow> s\<lparr>ap_phase := (ap_phase s)(p := Idle)\<rparr>
           | Some r \<Rightarrow>
               (let s1 = own_thread p r s\<lparr>ap_phase := (ap_phase s)(p := Idle)\<rparr> in
                if ar_abandoned r then remove_pending i s1 else s1))
      | _ \<Rightarrow> s)"

section \<open>Questions of the server\<close>

text \<open>The end of \<^verbatim>\<open>_read_stdout\<close>; a failure of the protocol has failed the requests before with its own error.\<close>

definition close_if_current :: "nat \<Rightarrow> app_server \<Rightarrow> app_server" where
  "close_if_current p s = (if ap_process s = Some p then close_process s else s)"

definition read_end :: "nat \<Rightarrow> bool \<Rightarrow> app_server \<Rightarrow> app_server" where
  "read_end p failure s =
     (let s1 = (if failure then close_if_current p (fail_pending rpc_protocol_error (Some p) s) else s);
          s2 = close_if_current p (fail_pending unavailable (Some p) s1) in
      s2\<lparr>ap_phase := (ap_phase s2)(p := Ended)\<rparr>)"

text \<open>An answer that cannot be encoded ends the reader.\<close>

definition reply_error :: "dict \<Rightarrow> int \<Rightarrow> ustr \<Rightarrow> nat \<Rightarrow> app_server \<Rightarrow> app_server" where
  "reply_error m code reason p s =
     (case send_message
         [(''jsonrpc'', jlit ''2.0''), (''id'', get_or_null m ''id''),
          (''error'', JObj [(''code'', JInt code), (''message'', JStr reason)])] (Some p) s of
        (Inl EncodeFails, s') \<Rightarrow> read_end p False s'
      | (_, s') \<Rightarrow> s')"

text \<open>The thread and the MCP server a question names.\<close>

definition question_target :: "dict \<Rightarrow> (ustr \<times> ustr) option" where
  "question_target m =
     (case map_of m ''params'' of
        Some (JObj params) \<Rightarrow>
          (case (map_of params ''threadId'', map_of params ''serverName'') of
             (Some (JStr t), Some (JStr server)) \<Rightarrow> Some (t, server)
           | _ \<Rightarrow> None)
      | _ \<Rightarrow> None)"

definition asks_about :: "dict \<Rightarrow> nat \<Rightarrow> app_request \<Rightarrow> bool" where
  "asks_about m p r \<longleftrightarrow>
     (case question_target m of
        None \<Rightarrow> False
      | Some (t, server) \<Rightarrow>
          ar_process r = p \<and> ar_method r = ''mcpServer/tool/call'' \<and>
          map_of (ar_params r) ''threadId'' = Some (JStr t) \<and> map_of (ar_params r) ''server'' = Some (JStr server))"

definition matching_pending_calls :: "dict \<Rightarrow> nat \<Rightarrow> app_server \<Rightarrow> int list" where
  "matching_pending_calls m p s =
     (if question_target m = None then []
      else filter (\<lambda>i. case ap_request s i of None \<Rightarrow> False | Some r \<Rightarrow> asks_about m p r) (ap_pending s))"

definition method_text :: "dict \<Rightarrow> ustr" where
  "method_text m = (case map_of m ''method'' of Some (JStr t) \<Rightarrow> t | _ \<Rightarrow> u ''unknown'')"

definition uncorrelated :: ustr where
  "uncorrelated = u ''Elicitation could not be correlated to exactly one active MCP tool call.''"

definition interaction_of :: "dict \<Rightarrow> dict" where
  "interaction_of m =
     [(''method'', JStr (method_text m)),
      (''request_id'', get_or_null m ''id''), (''params'', get_or_null m ''params'')]"

definition add_interactions :: "int list \<Rightarrow> dict \<Rightarrow> app_server \<Rightarrow> app_server" where
  "add_interactions ids x s =
     s\<lparr>ap_request := (\<lambda>i. if i \<in> set ids
         then map_option (\<lambda>r. r\<lparr>ar_interactions := ar_interactions r @ [x]\<rparr>) (ap_request s i) else ap_request s i)\<rparr>"

definition set_interaction :: "int \<Rightarrow> nat \<Rightarrow> string \<Rightarrow> json \<Rightarrow> app_server \<Rightarrow> app_server" where
  "set_interaction i n k v s =
     alter_request s i (\<lambda>r. r\<lparr>ar_interactions := (ar_interactions r)[n := AList.update k v (ar_interactions r ! n)]\<rparr>)"

definition last_interaction :: "app_server \<Rightarrow> int \<Rightarrow> nat" where
  "last_interaction s i = (case ap_request s i of None \<Rightarrow> 0 | Some r \<Rightarrow> length (ar_interactions r) - 1)"

definition max_server_requests :: nat where
  "max_server_requests = 8"

definition has_handler :: "app_server \<Rightarrow> int \<Rightarrow> bool" where
  "has_handler s i \<longleftrightarrow> (case ap_request s i of None \<Rightarrow> False | Some r \<Rightarrow> ar_handler r)"

definition handle_server_request :: "dict \<Rightarrow> nat \<Rightarrow> app_server \<Rightarrow> app_server" where
  "handle_server_request m p s0 =
     (let matches = matching_pending_calls m p s0; s = add_interactions matches (interaction_of m) s0 in
      if map_of m ''method'' \<noteq> Some (jlit ''mcpServer/elicitation/request'')
      then reply_error m (-32601) (u ''Unsupported Codex App Server request: '' @ method_text m @ u ''.'') p s
      else case matches of
        [i] \<Rightarrow>
          if \<not> has_handler s i then reply_error m (-32001) uncorrelated p s
          else if ap_pool s \<noteq> Some p \<or> p \<in> ap_retired s then s
          else
            let n = last_interaction s i in
            if max_server_requests \<le> ap_slots s p
            then reply_error m (-32002) (u ''Too many concurrent Codex App Server elicitation requests.'') p
              (set_interaction i n ''bridge_error'' (jlit ''Outer MCP elicitation concurrency limit reached.'') s)
            else if \<not> ap_can_thread s
            then reply_error m (-32003) (u ''Codex App Server elicitation worker could not start.'') p
              (set_interaction i n ''bridge_error'' (jlit ''Outer MCP elicitation worker could not start.'') s)
            else
              s\<lparr>ap_workers := ap_workers s @
                  [\<lparr>wk_message = m, wk_request = i, wk_index = n, wk_process = p, wk_running = False\<rparr>],
                ap_slots := (ap_slots s)(p := Suc (ap_slots s p))\<rparr>
      | _ \<Rightarrow> reply_error m (-32001) uncorrelated p s)"

definition normalize_elicitation_response :: "json \<Rightarrow> dict option" where
  "normalize_elicitation_response v =
     (case v of
        JObj d \<Rightarrow>
          let action = get_or_null d ''action'';
              content = (if action = jlit ''accept'' then get_or_null d ''content'' else JNull);
              meta = get_or_null d ''_meta'';
              object = (\<lambda>j. case j of JNull \<Rightarrow> True | JObj _ \<Rightarrow> True | _ \<Rightarrow> False) in
          if action \<notin> {jlit ''accept'', jlit ''decline'', jlit ''cancel''} \<or> \<not> object content \<or> \<not> object meta then None
          else Some [(''action'', action), (''content'', content), (''_meta'', meta)]
      | _ \<Rightarrow> None)"

definition cancelled :: dict where
  "cancelled = [(''action'', jlit ''cancel''), (''content'', JNull), (''_meta'', JNull)]"

definition without_worker :: "nat \<Rightarrow> app_worker \<Rightarrow> app_server \<Rightarrow> app_server" where
  "without_worker k w s =
     s\<lparr>ap_workers := take k (ap_workers s) @ drop (Suc k) (ap_workers s),
       ap_slots := (ap_slots s)(wk_process w := ap_slots s (wk_process w) - 1)\<rparr>"

definition worker_start :: "nat \<Rightarrow> app_server \<Rightarrow> app_server" where
  "worker_start k s =
     (if length (ap_workers s) \<le> k then s
      else
        let w = ap_workers s ! k in
        if wk_running w then s
        else if wk_process w \<in> ap_retired s then without_worker k w s
        else s\<lparr>ap_workers := (ap_workers s)[k := w\<lparr>wk_running := True\<rparr>]\<rparr>)"

text \<open>The handler has returned a value, or raised.\<close>

definition worker_response :: "app_worker \<Rightarrow> json option \<Rightarrow> app_server \<Rightarrow> dict \<times> app_server" where
  "worker_response w answer s =
     (case (case answer of None \<Rightarrow> None | Some v \<Rightarrow> normalize_elicitation_response v) of
        None \<Rightarrow> (cancelled, set_interaction (wk_request w) (wk_index w) ''bridge_error''
          (jlit ''Outer MCP elicitation failed or timed out.'') s)
      | Some r \<Rightarrow> (r, set_interaction (wk_request w) (wk_index w) ''action'' (get_or_null r ''action'') s))"

definition worker_message :: "app_worker \<Rightarrow> dict \<Rightarrow> dict" where
  "worker_message w response =
     [(''jsonrpc'', jlit ''2.0''), (''id'', get_or_null (wk_message w) ''id''), (''result'', JObj response)]"

definition worker_done :: "nat \<Rightarrow> json option \<Rightarrow> app_server \<Rightarrow> app_server" where
  "worker_done k answer s =
     (if length (ap_workers s) \<le> k \<or> \<not> wk_running (ap_workers s ! k) then s
      else
        let w = ap_workers s ! k; (response, s1) = worker_response w answer s in
        without_worker k w
          (if wk_process w \<in> ap_retired s1 then s1
           else snd (send_message (worker_message w response) (Some (wk_process w)) s1)))"

section \<open>The loop of the reader\<close>

definition read_stdout_line :: "app_config \<Rightarrow> nat \<Rightarrow> bytes \<Rightarrow> app_server \<Rightarrow> app_server" where
  "read_stdout_line cfg p line s =
     (if ap_phase s p \<noteq> Idle then s
      else if line = [] then read_end p False s
      else if ac_max_bytes cfg < length line then read_end p True s
      else case ac_loads cfg line of
        Some (JObj m) \<Rightarrow>
          if has_field m ''id'' \<and> (has_field m ''result'' \<or> has_field m ''error'') then find_request m p s
          else if has_field m ''id'' \<and> has_field m ''method'' then handle_server_request m p s
          else s
      | _ \<Rightarrow> read_end p True s)"

definition read_stderr :: "bytes \<Rightarrow> app_server \<Rightarrow> app_server" where
  "read_stderr line s =
     (let t = strip (utf8_decode_replace line); all = ap_stderr s @ [drop (length t - 512) t] in
      if t = [] then s else s\<lparr>ap_stderr := drop (length all - 8) all\<rparr>)"

section \<open>Sections of start and release\<close>

definition spawn_process :: "app_server \<Rightarrow> app_server" where
  "spawn_process s =
     (let p = ap_spawned s in
      s\<lparr>ap_spawned := p + 1, ap_alive := insert p (ap_alive s), ap_process := Some p, ap_pool := Some p,
        ap_slots := (ap_slots s)(p := 0), ap_started := False, ap_capabilities := [], ap_phase := (ap_phase s)(p := Idle)\<rparr>)"

definition mark_started :: "app_server \<Rightarrow> app_server" where
  "mark_started s = s\<lparr>ap_started := True, ap_generation := ap_generation s + 1\<rparr>"

definition add_capability :: "string \<Rightarrow> app_server \<Rightarrow> app_server" where
  "add_capability m s = s\<lparr>ap_capabilities := List.insert m (ap_capabilities s)\<rparr>"

definition drop_thread :: "ustr \<Rightarrow> app_server \<Rightarrow> app_server" where
  "drop_thread t s =
     (case ap_process s of
        None \<Rightarrow> s
      | Some p \<Rightarrow> s\<lparr>ap_claimed := ap_claimed s - {(p, t)}, ap_abandoned := ap_abandoned s - {(p, t)}\<rparr>)"

definition forget_abandoned :: "nat \<times> ustr \<Rightarrow> app_server \<Rightarrow> app_server" where
  "forget_abandoned k s = s\<lparr>ap_abandoned := ap_abandoned s - {k}\<rparr>"

section \<open>Steps of the other threads\<close>

text \<open>Another caller starts a process only when none is left, as the lifecycle lock makes sure.\<close>

fun app_step :: "app_config \<Rightarrow> app_event \<Rightarrow> app_server \<Rightarrow> app_server" where
  "app_step cfg (Line p line) s = read_stdout_line cfg p line s"
| "app_step cfg (ReaderStep p) s = reader_step p s"
| "app_step cfg (StderrLine line) s = read_stderr line s"
| "app_step cfg (WorkerStart k) s = worker_start k s"
| "app_step cfg (WorkerDone k answer) s = worker_done k answer s"
| "app_step cfg (ProcessExits p) s = s\<lparr>ap_alive := ap_alive s - {p}\<rparr>"
| "app_step cfg (PipeBreaks p) s = s\<lparr>ap_broken := insert p (ap_broken s)\<rparr>"
| "app_step cfg (CanSpawn b) s = s\<lparr>ap_can_spawn := b\<rparr>"
| "app_step cfg (CanThread b) s = s\<lparr>ap_can_thread := b\<rparr>"
| "app_step cfg (Submitted m params handler) s = snd (submit_request m params handler s)"
| "app_step cfg (GivesUp i remove) s = give_up i remove s"
| "app_step cfg (Collected i) s = (if request_done s i then remove_pending i s else s)"
| "app_step cfg ShutDown s = close_process s"
| "app_step cfg Spawned s =
     (let s1 = cleanup_dead_process s in if ap_process s1 = None \<and> ap_can_spawn s1 then spawn_process s1 else s1)"
| "app_step cfg MarkedStarted s = mark_started s"
| "app_step cfg (Capable m) s = add_capability m s"
| "app_step cfg (Notified m params) s = snd (send_message (notification m params) None s)"
| "app_step cfg (Dropped t) s = drop_thread t s"
| "app_step cfg (Forgotten p t) s = forget_abandoned (p, t) s"

definition app_steps :: "app_config \<Rightarrow> app_event list \<Rightarrow> app_server \<Rightarrow> app_server" where
  "app_steps cfg es s = fold (app_step cfg) es s"

end
