(* ===== verification/AppServerOps.thy ===== *)
theory AppServerOps
  imports AppServerReader
begin

text \<open>
  The calls of the adapter (\<^verbatim>\<open>codex_runtime/app_server.py\<close>): what a caller does from its first section to its result,
  with the events of the schedule while it waits. Each wait takes the next list of events. The lifecycle lock is not
  in the model: the schedule may contain events that the lock excludes, and the properties hold for those as well.
  The clock is an argument where a loop looks at it: the number of looks before the deadline.
\<close>

section \<open>A caller\<close>

type_synonym 'a app = "app_server \<Rightarrow> (app_error + 'a) \<times> app_server"

definition return_app :: "'a \<Rightarrow> 'a app" where
  "return_app x = (\<lambda>s. (Inr x, s))"

definition raise_app :: "app_error \<Rightarrow> 'a app" where
  "raise_app e = (\<lambda>s. (Inl e, s))"

definition bind_app :: "'a app \<Rightarrow> ('a \<Rightarrow> 'b app) \<Rightarrow> 'b app" where
  "bind_app m f = (\<lambda>s. case m s of (Inl e, s') \<Rightarrow> (Inl e, s') | (Inr x, s') \<Rightarrow> f x s')"

definition catch_app :: "'a app \<Rightarrow> (app_error \<Rightarrow> 'a app) \<Rightarrow> 'a app" where
  "catch_app m h = (\<lambda>s. case m s of (Inl e, s') \<Rightarrow> h e s' | (Inr x, s') \<Rightarrow> (Inr x, s'))"

definition change_app :: "(app_server \<Rightarrow> app_server) \<Rightarrow> unit app" where
  "change_app f = (\<lambda>s. (Inr (), f s))"

definition when_state :: "(app_server \<Rightarrow> bool) \<Rightarrow> 'a app \<Rightarrow> 'a app \<Rightarrow> 'a app" where
  "when_state p m n = (\<lambda>s. if p s then m s else n s)"

text \<open>What happens while the caller waits.\<close>

definition others :: "app_config \<Rightarrow> app_server \<Rightarrow> app_server" where
  "others cfg s =
     (case ap_schedule s of [] \<Rightarrow> s | es # rest \<Rightarrow> app_steps cfg es (s\<lparr>ap_schedule := rest\<rparr>))"

definition outcome_of :: "int \<Rightarrow> app_server \<Rightarrow> app_error + json" where
  "outcome_of i s =
     (case ap_request s i of
        None \<Rightarrow> Inl unavailable
      | Some r \<Rightarrow> (case ar_error r of Some e \<Rightarrow> Inl e | None \<Rightarrow> Inr (ar_result r)))"

definition request_method :: "app_server \<Rightarrow> int \<Rightarrow> string" where
  "request_method s i = (case ap_request s i of None \<Rightarrow> [] | Some r \<Rightarrow> ar_method r)"

text \<open>\<^verbatim>\<open>_wait_pending\<close>.\<close>

definition wait_pending :: "app_config \<Rightarrow> int \<Rightarrow> json \<Rightarrow> bool \<Rightarrow> json app" where
  "wait_pending cfg i t remove s =
     (let s1 = others cfg s in
      if request_done s1 i then (outcome_of i s1, remove_pending i s1)
      else (Inl (request_timeout (request_method s1 i) t), give_up i remove s1))"

definition request_raw :: "app_config \<Rightarrow> string \<Rightarrow> dict \<Rightarrow> json \<Rightarrow> bool \<Rightarrow> json app" where
  "request_raw cfg m params t handler =
     bind_app (submit_request m params handler) (\<lambda>i. wait_pending cfg i t True)"

definition require_object :: "json \<Rightarrow> dict app" where
  "require_object v = (case v of JObj d \<Rightarrow> return_app d | _ \<Rightarrow> raise_app rpc_protocol_error)"

definition request_object :: "app_config \<Rightarrow> string \<Rightarrow> dict \<Rightarrow> json \<Rightarrow> bool \<Rightarrow> dict app" where
  "request_object cfg m params t handler = bind_app (request_raw cfg m params t handler) require_object"

section \<open>Starting\<close>

definition probe_params :: "(string \<times> dict) list" where
  "probe_params =
     [(''thread/start'', [(''cwd'', JInt 1)]), (''thread/resume'', []), (''thread/unsubscribe'', []), (''thread/loaded/list'', []),
      (''command/exec'', []), (''mcpServerStatus/list'', []), (''mcpServer/tool/call'', [])]"

definition upstream_code :: "app_error \<Rightarrow> json" where
  "upstream_code e = (case e of Codex r \<Rightarrow> get_or_null (re_details r) ''upstream_code'' | EncodeFails \<Rightarrow> JNull)"

definition probe_method :: "app_config \<Rightarrow> string \<times> dict \<Rightarrow> unit app" where
  "probe_method cfg mp =
     bind_app
       (catch_app (bind_app (request_raw cfg (fst mp) (snd mp) (ac_startup cfg) False) (\<lambda>_. return_app ()))
         (\<lambda>e. if has_code ''codex_rpc_error'' e then
                (if upstream_code e = JInt (-32601) then raise_app (capability_missing (fst mp)) else return_app ())
              else if has_code ''interaction_required'' e then return_app ()
              else raise_app e))
       (\<lambda>_. change_app (add_capability (fst mp)))"

fun probe_capabilities :: "app_config \<Rightarrow> (string \<times> dict) list \<Rightarrow> unit app" where
  "probe_capabilities cfg [] = return_app ()"
| "probe_capabilities cfg (mp # mps) = bind_app (probe_method cfg mp) (\<lambda>_. probe_capabilities cfg mps)"

definition initialize_params :: dict where
  "initialize_params =
     [(''clientInfo'', JObj [(''name'', jlit ''chatgpt-web-oauth-mcp''), (''version'', jlit ''0.1.0'')]),
      (''capabilities'', JObj [(''extensions'', JObj [(''openai/form'', JObj [])]), (''mcpServerOpenaiFormElicitation'', JBool True)])]"

definition handshake :: "app_config \<Rightarrow> unit app" where
  "handshake cfg =
     bind_app (request_raw cfg ''initialize'' initialize_params (ac_startup cfg) False) (\<lambda>_.
     bind_app (send_message (notification ''initialized'' []) None) (\<lambda>_.
     bind_app (probe_capabilities cfg probe_params) (\<lambda>_.
     change_app mark_started)))"

definition start_server :: "app_config \<Rightarrow> unit app" where
  "start_server cfg =
     when_state is_running (return_app ())
       (bind_app (change_app cleanup_dead_process) (\<lambda>_.
        when_state ap_can_spawn
          (bind_app (change_app spawn_process) (\<lambda>_.
           catch_app (handshake cfg) (\<lambda>e. bind_app (change_app close_process) (\<lambda>_. raise_app e))))
          (raise_app unavailable)))"

section \<open>Loaded threads and their release\<close>

definition list_params :: "ustr option \<Rightarrow> dict" where
  "list_params cursor = [(''limit'', JInt 100), (''cursor'', jopt JStr cursor)]"

text \<open>The pages that are left of 128, and how often the clock is looked at before the deadline.\<close>

fun loaded_pages :: "app_config \<Rightarrow> nat \<Rightarrow> nat \<Rightarrow> ustr option \<Rightarrow> ustr set \<Rightarrow> ustr set \<Rightarrow> ustr set app" where
  "loaded_pages cfg 0 looks cursor seen ids = raise_app rpc_protocol_error"
| "loaded_pages cfg (Suc n) 0 cursor seen ids = raise_app (request_timeout ''thread/loaded/list'' (ac_startup cfg))"
| "loaded_pages cfg (Suc n) (Suc looks) cursor seen ids =
     bind_app (request_object cfg ''thread/loaded/list'' (list_params cursor) (ac_startup cfg) False) (\<lambda>d.
       case (case get_or_null d ''data'' of JList js \<Rightarrow> json_texts js | _ \<Rightarrow> None) of
         None \<Rightarrow> raise_app rpc_protocol_error
       | Some ts \<Rightarrow>
           (case get_or_null d ''nextCursor'' of
              JNull \<Rightarrow> return_app (ids \<union> set ts)
            | JStr c \<Rightarrow>
                if c \<in> seen then raise_app rpc_protocol_error
                else loaded_pages cfg n looks (Some c) (insert c seen) (ids \<union> set ts)
            | _ \<Rightarrow> raise_app rpc_protocol_error))"

definition loaded_thread_ids :: "app_config \<Rightarrow> nat \<Rightarrow> ustr set app" where
  "loaded_thread_ids cfg looks =
     when_state is_running (loaded_pages cfg 128 looks None {} {}) (return_app {})"

text \<open>One number for each round of the loop: how often the clock is looked at within it. After the last round the
  deadline has passed.\<close>

fun wait_unloaded :: "app_config \<Rightarrow> ustr \<Rightarrow> nat \<Rightarrow> nat list \<Rightarrow> unit app" where
  "wait_unloaded cfg t looks rounds =
     bind_app (loaded_pages cfg 128 looks None {} {}) (\<lambda>ids.
       if t \<in> ids then
         (case rounds of
            [] \<Rightarrow> raise_app (request_timeout ''thread/unsubscribe'' (ac_startup cfg))
          | next # rest \<Rightarrow> wait_unloaded cfg t next rest)
       else return_app ())"

definition not_loaded :: dict where
  "not_loaded = [(''status'', jlit ''notLoaded''), (''resources_released'', JBool True)]"

definition release_app_thread :: "app_config \<Rightarrow> ustr \<Rightarrow> nat option \<Rightarrow> nat \<times> nat list \<Rightarrow> dict app" where
  "release_app_thread cfg t expected rounds =
     when_state (\<lambda>s. expected \<noteq> None \<and> ap_process s \<noteq> expected \<or> \<not> is_running s) (return_app not_loaded)
       (when_state (\<lambda>s. has_pending_operations s t) (raise_app rpc_protocol_error)
         (bind_app (request_object cfg ''thread/unsubscribe'' [(''threadId'', JStr t)] (ac_startup cfg) False) (\<lambda>d.
            if get_or_null d ''status'' \<notin> {jlit ''notLoaded'', jlit ''notSubscribed'', jlit ''unsubscribed''}
            then raise_app rpc_protocol_error
            else
              bind_app (wait_unloaded cfg t (fst rounds) (snd rounds)) (\<lambda>_.
              bind_app (change_app (drop_thread t)) (\<lambda>_.
              return_app (AList.update ''resources_released'' (JBool True) d))))))"

fun release_abandoned :: "app_config \<Rightarrow> (nat \<Rightarrow> nat \<times> nat list) \<Rightarrow> (nat \<times> ustr) list \<Rightarrow> unit app" where
  "release_abandoned cfg rounds [] = return_app ()"
| "release_abandoned cfg rounds ((p, t) # ks) =
     bind_app (release_app_thread cfg t (Some p) (rounds (length ks))) (\<lambda>_.
     bind_app (change_app (forget_abandoned (p, t))) (\<lambda>_.
     release_abandoned cfg rounds ks))"

text \<open>The set of abandoned threads is gone through in some order.\<close>

definition cleanup_abandoned_threads :: "app_config \<Rightarrow> (nat \<Rightarrow> nat \<times> nat list) \<Rightarrow> (nat \<times> ustr) list \<Rightarrow> unit app" where
  "cleanup_abandoned_threads cfg rounds order =
     when_state (\<lambda>s. set order = ap_abandoned s \<and> distinct order) (release_abandoned cfg rounds order) (return_app ())"

section \<open>Calls\<close>

definition thread_params :: "ustr \<Rightarrow> sandbox \<Rightarrow> dict" where
  "thread_params cwd m =
     [(''cwd'', JStr cwd), (''sandbox'', jlit (thread_sandbox m)), (''approvalPolicy'', jlit ''on-request'')]"

definition thread_start :: "app_config \<Rightarrow> ustr \<Rightarrow> sandbox \<Rightarrow> dict app" where
  "thread_start cfg cwd m =
     bind_app (start_server cfg) (\<lambda>_. request_object cfg ''thread/start'' (thread_params cwd m) (ac_startup cfg) False)"

definition thread_resume :: "app_config \<Rightarrow> ustr \<Rightarrow> ustr \<Rightarrow> sandbox \<Rightarrow> dict app" where
  "thread_resume cfg t cwd m =
     bind_app (start_server cfg) (\<lambda>_.
       request_object cfg ''thread/resume'' ((''threadId'', JStr t) # thread_params cwd m) (ac_startup cfg) False)"

definition exec_params :: "ustr \<Rightarrow> ustr list \<Rightarrow> ustr \<Rightarrow> sandbox \<Rightarrow> int \<Rightarrow> int \<Rightarrow> dict" where
  "exec_params process_id command cwd m timeout_ms cap =
     [(''command'', JList (map JStr command)), (''processId'', JStr process_id), (''cwd'', JStr cwd),
      (''timeoutMs'', JInt timeout_ms), (''outputBytesCap'', JInt cap), (''sandboxPolicy'', JObj (sandbox_policy m))]"

text \<open>After a time-out the server is asked to end the process, and its late answer is waited for and dropped.\<close>

definition terminate_command :: "app_config \<Rightarrow> ustr \<Rightarrow> int \<Rightarrow> json \<Rightarrow> json app" where
  "terminate_command cfg process_id i t =
     bind_app
       (catch_app
         (bind_app (request_raw cfg ''command/exec/terminate'' [(''processId'', JStr process_id)] t False)
           (\<lambda>v. return_app (case v of JObj d \<Rightarrow> True | _ \<Rightarrow> False)))
         (\<lambda>e. return_app False)) (\<lambda>terminated.
     bind_app (change_app (others cfg)) (\<lambda>_.
     bind_app (change_app (remove_pending i)) (\<lambda>_.
     raise_app (command_timeout process_id terminated))))"

definition command_exec ::
  "app_config \<Rightarrow> ustr \<Rightarrow> json \<Rightarrow> json \<Rightarrow> ustr list \<Rightarrow> ustr \<Rightarrow> sandbox \<Rightarrow> int \<Rightarrow> int \<Rightarrow> dict app" where
  "command_exec cfg process_id wait_time terminate_time command cwd m timeout_ms cap =
     bind_app (start_server cfg) (\<lambda>_.
     bind_app (submit_request ''command/exec'' (exec_params process_id command cwd m timeout_ms cap) False) (\<lambda>i.
     bind_app
       (catch_app (wait_pending cfg i wait_time False)
         (\<lambda>e. if has_code ''codex_request_timeout'' e then terminate_command cfg process_id i terminate_time
              else bind_app (change_app (remove_pending i)) (\<lambda>_. raise_app e))) (\<lambda>v.
     bind_app (change_app (remove_pending i)) (\<lambda>_.
     require_object v))))"

definition mcp_inventory_call :: "app_config \<Rightarrow> ustr \<Rightarrow> ustr option \<Rightarrow> int \<Rightarrow> dict app" where
  "mcp_inventory_call cfg t cursor limit =
     bind_app (start_server cfg) (\<lambda>_.
       request_object cfg ''mcpServerStatus/list''
         ([(''threadId'', JStr t), (''detail'', jlit ''full''), (''limit'', JInt limit)] @
          (case cursor of None \<Rightarrow> [] | Some c \<Rightarrow> if c = [] then [] else [(''cursor'', JStr c)])) (ac_startup cfg) False)"

definition mcp_tool_call ::
  "app_config \<Rightarrow> ustr \<Rightarrow> ustr \<Rightarrow> ustr \<Rightarrow> dict \<Rightarrow> dict option \<Rightarrow> bool \<Rightarrow> dict app" where
  "mcp_tool_call cfg t server tool arguments meta handler =
     bind_app (start_server cfg) (\<lambda>_.
       request_object cfg ''mcpServer/tool/call''
         ([(''threadId'', JStr t), (''server'', JStr server), (''tool'', JStr tool), (''arguments'', JObj arguments)] @
          (case meta of None \<Rightarrow> [] | Some d \<Rightarrow> [(''_meta'', JObj d)])) (JFloat (u ''300.0'')) handler)"

definition shutdown_server :: "unit app" where
  "shutdown_server = change_app close_process"

end
