(* ===== verification/AppServerProps.thy ===== *)
theory AppServerProps
  imports AppServerOps
begin

text \<open>
  What the adapter of the App Server keeps whatever its threads do: the table of requests, the threads it owns, the
  slots of its workers; and what callers can rely on: an answer belongs to its request, a question of the server
  reaches only the call it is about, a thread whose answer came late is not lost.
\<close>

section \<open>What the operations keep\<close>

named_theorems app_fields

lemma request_process_upd [app_fields]:
  "(\<And>r. ar_process (f r) = ar_process r) \<Longrightarrow>
     map_option ar_process ((g(i := map_option f (g i))) j) = map_option ar_process (g j)"
  by (simp add: option.map_comp comp_def)

lemma fail_request_process [simp]: "ar_process (fail_request e r) = ar_process r"
  by (simp add: fail_request_def)

lemma settle_process [simp]: "ar_process (settle_answer m r) = ar_process r"
  by (simp add: settle_answer_def Let_def split: prod.split)

lemma fail_pending_fields [simp]:
  "ap_pending (fail_pending e p s) = ap_pending s" "ap_abandoned (fail_pending e p s) = ap_abandoned s"
  "ap_claimed (fail_pending e p s) = ap_claimed s" "ap_pool (fail_pending e p s) = ap_pool s"
  "ap_slots (fail_pending e p s) = ap_slots s" "ap_retired (fail_pending e p s) = ap_retired s"
  "ap_workers (fail_pending e p s) = ap_workers s" "ap_next (fail_pending e p s) = ap_next s"
  "ap_process (fail_pending e p s) = ap_process s" "ap_phase (fail_pending e p s) = ap_phase s"
  "ap_sent (fail_pending e p s) = ap_sent s" "ap_spawned (fail_pending e p s) = ap_spawned s"
  "ap_alive (fail_pending e p s) = ap_alive s" "ap_broken (fail_pending e p s) = ap_broken s"
  by (simp_all add: fail_pending_def)

lemma fail_pending_process [simp]: "request_process (fail_pending e p s) = request_process s"
  by (rule ext) (simp add: request_process_def fail_pending_def option.map_comp comp_def)

lemma retire_pool_fields [simp]:
  "ap_pending (retire_pool s) = ap_pending s" "ap_request (retire_pool s) = ap_request s"
  "ap_abandoned (retire_pool s) = ap_abandoned s" "ap_claimed (retire_pool s) = ap_claimed s"
  "ap_slots (retire_pool s) = ap_slots s" "ap_workers (retire_pool s) = ap_workers s"
  "ap_next (retire_pool s) = ap_next s" "ap_process (retire_pool s) = ap_process s"
  "ap_phase (retire_pool s) = ap_phase s" "ap_sent (retire_pool s) = ap_sent s" "ap_spawned (retire_pool s) = ap_spawned s"
  "request_process (retire_pool s) = request_process s"
  by (simp_all add: retire_pool_def request_process_def fun_eq_iff split: option.split)

lemma close_process_fields [simp]:
  "ap_slots (close_process s) = ap_slots s" "ap_workers (close_process s) = ap_workers s"
  "ap_next (close_process s) = ap_next s" "ap_phase (close_process s) = ap_phase s"
  "ap_sent (close_process s) = ap_sent s" "ap_spawned (close_process s) = ap_spawned s"
  "ap_process (close_process s) = None"
  by (simp_all add: close_process_def Let_def split: option.split)

lemma request_process_plain [simp]:
  "request_process (s\<lparr>ap_pending := x\<rparr>) = request_process s" "request_process (s\<lparr>ap_phase := y\<rparr>) = request_process s"
  "request_process (s\<lparr>ap_started := b\<rparr>) = request_process s" "request_process (s\<lparr>ap_capabilities := c\<rparr>) = request_process s"
  "request_process (s\<lparr>ap_sent := d\<rparr>) = request_process s" "request_process (s\<lparr>ap_process := q\<rparr>) = request_process s"
  "request_process (s\<lparr>ap_abandoned := a\<rparr>) = request_process s" "request_process (s\<lparr>ap_claimed := a\<rparr>) = request_process s"
  "request_process (s\<lparr>ap_broken := br\<rparr>) = request_process s" "request_process (s\<lparr>ap_slots := sl\<rparr>) = request_process s"
  "request_process (s\<lparr>ap_workers := w\<rparr>) = request_process s" "request_process (s\<lparr>ap_alive := al\<rparr>) = request_process s"
  "request_process (s\<lparr>ap_pool := po\<rparr>) = request_process s" "request_process (s\<lparr>ap_spawned := sp\<rparr>) = request_process s"
  "request_process (s\<lparr>ap_generation := g\<rparr>) = request_process s" "request_process (s\<lparr>ap_next := n\<rparr>) = request_process s"
  "request_process (s\<lparr>ap_schedule := sc\<rparr>) = request_process s" "request_process (s\<lparr>ap_stderr := se\<rparr>) = request_process s"
  "request_process (s\<lparr>ap_can_spawn := cs\<rparr>) = request_process s" "request_process (s\<lparr>ap_can_thread := ct\<rparr>) = request_process s"
  by (simp_all add: request_process_def fun_eq_iff)

lemma close_process_process [simp]: "request_process (close_process s) = request_process s"
  by (simp add: close_process_def Let_def split: option.split)

lemma close_pending: "set (ap_pending (close_process s)) \<subseteq> set (ap_pending s)"
  "distinct (ap_pending s) \<Longrightarrow> distinct (ap_pending (close_process s))"
  "length (ap_pending (close_process s)) \<le> length (ap_pending s)"
  by (auto simp: close_process_def Let_def split: option.split)

lemma close_threads: "ap_claimed (close_process s) \<subseteq> ap_claimed s" "ap_abandoned (close_process s) \<subseteq> ap_abandoned s"
  by (auto simp: close_process_def Let_def split: option.split)

section \<open>The invariant\<close>

definition phase_request :: "reader_phase \<Rightarrow> int option" where
  "phase_request ph = (case ph of Found i m \<Rightarrow> Some i | Settled i \<Rightarrow> Some i | _ \<Rightarrow> None)"

lemma phase_request_simps [simp]:
  "phase_request Idle = None" "phase_request Ended = None" "phase_request (Found i m) = Some i" "phase_request (Settled i) = Some i"
  by (simp_all add: phase_request_def)

definition table_ok :: "app_server \<Rightarrow> bool" where
  "table_ok s \<longleftrightarrow> distinct (ap_pending s) \<and> length (ap_pending s) \<le> 128 \<and>
     (\<forall>i. request_process s i \<noteq> None \<longrightarrow> i < ap_next s) \<and> (\<forall>i \<in> set (ap_pending s). request_process s i \<noteq> None) \<and>
     (\<forall>p i. phase_request (ap_phase s p) = Some i \<longrightarrow> request_process s i = Some p) \<and>
     (\<forall>i p. request_process s i = Some p \<longrightarrow> p < ap_spawned s) \<and>
     (\<forall>p. ap_process s = Some p \<longrightarrow> p < ap_spawned s)"

definition threads_ok :: "app_server \<Rightarrow> bool" where
  "threads_ok s \<longleftrightarrow> ap_claimed s \<inter> ap_abandoned s = {}"

definition workers_of :: "nat \<Rightarrow> app_worker list \<Rightarrow> app_worker list" where
  "workers_of p ws = filter (\<lambda>w. wk_process w = p) ws"

definition workers_ok :: "app_server \<Rightarrow> bool" where
  "workers_ok s \<longleftrightarrow> ap_slots s = (\<lambda>p. length (workers_of p (ap_workers s))) \<and>
     (\<forall>p. length (workers_of p (ap_workers s)) \<le> max_server_requests) \<and>
     (\<forall>w \<in> set (ap_workers s). request_process s (wk_request w) = Some (wk_process w))"

definition app_inv :: "app_server \<Rightarrow> bool" where
  "app_inv s \<longleftrightarrow> table_ok s \<and> threads_ok s \<and> workers_ok s"

text \<open>A step that leaves the tables alone, or only removes from them.\<close>

lemma app_inv_shrink:
  assumes inv: "app_inv s"
    and "set (ap_pending s') \<subseteq> set (ap_pending s)" "distinct (ap_pending s')" "length (ap_pending s') \<le> length (ap_pending s)"
    and "ap_claimed s' \<subseteq> ap_claimed s" "ap_abandoned s' \<subseteq> ap_abandoned s"
    and same: "request_process s' = request_process s" "ap_next s' = ap_next s" "ap_phase s' = ap_phase s"
      "ap_spawned s' = ap_spawned s" "ap_slots s' = ap_slots s" "ap_workers s' = ap_workers s"
    and "ap_process s' \<in> {None, ap_process s}"
  shows "app_inv s'"
proof -
  have "table_ok s'" unfolding table_ok_def same
    using assms(2-4) inv \<open>ap_process s' \<in> _\<close> by (fastforce simp: app_inv_def table_ok_def)
  moreover have "threads_ok s'" using assms(5,6) inv by (auto simp: app_inv_def threads_ok_def)
  moreover have "workers_ok s'" using inv unfolding app_inv_def workers_ok_def same by simp
  ultimately show ?thesis by (simp add: app_inv_def)
qed

lemma app_inv_distinct: "app_inv s \<Longrightarrow> distinct (ap_pending s)"
  by (simp add: app_inv_def table_ok_def)

lemma app_inv_frame:
  assumes "app_inv s" "ap_pending s' = ap_pending s" "request_process s' = request_process s" "ap_next s' = ap_next s"
    "ap_phase s' = ap_phase s" "ap_spawned s' = ap_spawned s" "ap_process s' = ap_process s"
    "ap_claimed s' = ap_claimed s" "ap_abandoned s' = ap_abandoned s" "ap_slots s' = ap_slots s" "ap_workers s' = ap_workers s"
  shows "app_inv s'"
  by (rule app_inv_shrink [OF assms(1)]) (simp_all add: assms app_inv_distinct)

lemma app_inv_new: "app_inv new_app_server"
  by (simp add: app_inv_def table_ok_def threads_ok_def workers_ok_def workers_of_def new_app_server_def request_process_def)

lemma app_inv_remove: "app_inv s \<Longrightarrow> app_inv (remove_pending i s)"
  by (rule app_inv_shrink [of s]) (auto simp: remove_pending_def dest: app_inv_distinct)

lemma app_inv_fail: "app_inv s \<Longrightarrow> app_inv (fail_pending e p s)"
  by (erule app_inv_frame) simp_all

lemma app_inv_close: "app_inv s \<Longrightarrow> app_inv (close_process s)"
  by (rule app_inv_shrink [of s]) (simp_all add: close_pending close_threads app_inv_distinct)

lemma app_inv_cleanup: "app_inv s \<Longrightarrow> app_inv (cleanup_dead_process s)"
  by (simp add: cleanup_dead_process_def app_inv_close split: option.split)

lemma app_inv_phase:
  "app_inv s \<Longrightarrow> (\<And>i. phase_request ph = Some i \<Longrightarrow> request_process s i = Some p) \<Longrightarrow> app_inv (s\<lparr>ap_phase := (ap_phase s)(p := ph)\<rparr>)"
  by (auto simp: app_inv_def table_ok_def threads_ok_def workers_ok_def)

lemma send_message_state:
  "snd (send_message m e s) = s \<or> (\<exists>p. ap_process s = Some p \<and> snd (send_message m e s) = s\<lparr>ap_sent := ap_sent s @ [(p, m)]\<rparr>)"
  by (auto simp: send_message_def split: option.split)

lemma app_inv_sent: "app_inv s \<Longrightarrow> app_inv (s\<lparr>ap_sent := x\<rparr>)"
  by (erule app_inv_frame) simp_all

lemma app_inv_send: "app_inv s \<Longrightarrow> app_inv (snd (send_message m e s))"
  using send_message_state [of m e s] app_inv_sent by metis

lemma send_message_fields [simp]:
  "ap_pending (snd (send_message m e s)) = ap_pending s" "ap_request (snd (send_message m e s)) = ap_request s"
  "ap_workers (snd (send_message m e s)) = ap_workers s" "ap_slots (snd (send_message m e s)) = ap_slots s"
  "ap_process (snd (send_message m e s)) = ap_process s" "ap_claimed (snd (send_message m e s)) = ap_claimed s"
  "ap_abandoned (snd (send_message m e s)) = ap_abandoned s" "ap_next (snd (send_message m e s)) = ap_next s"
  "ap_phase (snd (send_message m e s)) = ap_phase s" "ap_schedule (snd (send_message m e s)) = ap_schedule s"
  "request_process (snd (send_message m e s)) = request_process s"
  using send_message_state [of m e s] by auto

lemma current_process: "app_inv s \<Longrightarrow> ap_process s = Some p \<Longrightarrow> p < ap_spawned s"
  by (simp add: app_inv_def table_ok_def)

lemma app_inv_submit: "app_inv s \<Longrightarrow> app_inv (snd (submit_request m params h s))"
proof -
  assume inv: "app_inv s"
  have added: "app_inv (s\<lparr>ap_next := ap_next s + 1, ap_pending := ap_pending s @ [ap_next s],
      ap_request := (ap_request s)(ap_next s \<mapsto> new_request m params p h)\<rparr>)" (is "app_inv ?s")
    if "length (ap_pending s) < 128" "p < ap_spawned s" for p
  proof -
    have rp: "request_process ?s = (request_process s)(ap_next s \<mapsto> p)"
      by (auto simp: request_process_def new_request_def)
    have fresh: "request_process s (ap_next s) = None" using inv by (auto simp: app_inv_def table_ok_def)
    show ?thesis
      using inv that fresh unfolding app_inv_def table_ok_def threads_ok_def workers_ok_def rp
      by (auto simp: less_Suc_eq_le)
  qed
  show ?thesis
    using inv by (auto simp: submit_request_def Let_def split_beta app_inv_def [symmetric] not_le
        intro!: app_inv_remove app_inv_send added dest: current_process split: option.split sum.split prod.split)
qed


lemma alter_request_process [simp]:
  "(\<And>r. ar_process (f r) = ar_process r) \<Longrightarrow> request_process (alter_request s i f) = request_process s"
  by (rule ext) (simp add: request_process_def alter_request_def option.map_comp comp_def)

lemma alter_request_fields [simp]:
  "ap_pending (alter_request s i f) = ap_pending s" "ap_next (alter_request s i f) = ap_next s"
  "ap_phase (alter_request s i f) = ap_phase s" "ap_spawned (alter_request s i f) = ap_spawned s"
  "ap_process (alter_request s i f) = ap_process s" "ap_claimed (alter_request s i f) = ap_claimed s"
  "ap_abandoned (alter_request s i f) = ap_abandoned s" "ap_slots (alter_request s i f) = ap_slots s"
  "ap_workers (alter_request s i f) = ap_workers s" "ap_retired (alter_request s i f) = ap_retired s"
  "ap_pool (alter_request s i f) = ap_pool s" "ap_sent (alter_request s i f) = ap_sent s"
  "ap_alive (alter_request s i f) = ap_alive s" "ap_broken (alter_request s i f) = ap_broken s"
  by (simp_all add: alter_request_def)

lemma app_inv_alter: "(\<And>r. ar_process (f r) = ar_process r) \<Longrightarrow> app_inv s \<Longrightarrow> app_inv (alter_request s i f)"
  by (erule app_inv_frame) simp_all

lemma app_inv_give_up: "app_inv s \<Longrightarrow> app_inv (give_up i b s)"
  by (auto simp: give_up_def intro!: app_inv_remove app_inv_alter split: option.split)

lemma app_inv_find: "app_inv s \<Longrightarrow> app_inv (find_request m p s)"
  by (auto simp: find_request_def intro!: app_inv_phase split: option.split)

lemma own_thread_fields [simp]:
  "ap_pending (own_thread p r s) = ap_pending s" "request_process (own_thread p r s) = request_process s"
  "ap_request (own_thread p r s) = ap_request s" "ap_next (own_thread p r s) = ap_next s"
  "ap_phase (own_thread p r s) = ap_phase s" "ap_spawned (own_thread p r s) = ap_spawned s"
  "ap_process (own_thread p r s) = ap_process s" "ap_slots (own_thread p r s) = ap_slots s"
  "ap_workers (own_thread p r s) = ap_workers s"
  by (simp_all add: own_thread_def split: option.split)

lemma app_inv_own: "app_inv s \<Longrightarrow> app_inv (own_thread p r s)"
proof -
  assume inv: "app_inv s"
  then have "threads_ok (own_thread p r s)"
    by (auto simp: app_inv_def threads_ok_def own_thread_def split: option.split)
  with inv show ?thesis by (simp add: app_inv_def table_ok_def workers_ok_def)
qed

lemma app_inv_reader: "app_inv s \<Longrightarrow> app_inv (reader_step p s)"
proof -
  assume inv: "app_inv s"
  have at: "request_process s i = Some p" if "phase_request (ap_phase s p) = Some i" for i
    using inv that by (simp add: app_inv_def table_ok_def)
  have found: "app_inv ((alter_request s i (settle_answer m))\<lparr>ap_phase := (ap_phase s)(p := Settled i)\<rparr>)" if "ap_phase s p = Found i m" for i m
  proof -
    have "app_inv (alter_request s i (settle_answer m))" by (rule app_inv_alter [OF settle_process inv])
    from app_inv_phase [OF this, of "Settled i" p] show ?thesis using at [of i] that by simp
  qed
  have idle: "app_inv (x\<lparr>ap_phase := (ap_phase s)(p := Idle)\<rparr>)" if "app_inv x" "ap_phase x = ap_phase s" for x
    using app_inv_phase [OF that(1), of Idle p] that(2) by simp
  show ?thesis
    unfolding reader_step_def Let_def
    by (auto simp: inv found intro!: idle app_inv_remove app_inv_own split: reader_phase.split option.split)
qed

lemma add_interactions_process [simp]: "request_process (add_interactions ids x s) = request_process s"
  by (rule ext) (simp add: request_process_def add_interactions_def option.map_comp comp_def)

lemma add_interactions_fields [simp]:
  "ap_pending (add_interactions ids x s) = ap_pending s" "ap_next (add_interactions ids x s) = ap_next s"
  "ap_phase (add_interactions ids x s) = ap_phase s" "ap_spawned (add_interactions ids x s) = ap_spawned s"
  "ap_process (add_interactions ids x s) = ap_process s" "ap_claimed (add_interactions ids x s) = ap_claimed s"
  "ap_abandoned (add_interactions ids x s) = ap_abandoned s" "ap_slots (add_interactions ids x s) = ap_slots s"
  "ap_workers (add_interactions ids x s) = ap_workers s" "ap_pool (add_interactions ids x s) = ap_pool s"
  "ap_retired (add_interactions ids x s) = ap_retired s" "ap_alive (add_interactions ids x s) = ap_alive s"
  "ap_broken (add_interactions ids x s) = ap_broken s" "ap_sent (add_interactions ids x s) = ap_sent s"
  "ap_can_thread (add_interactions ids x s) = ap_can_thread s" "ap_started (add_interactions ids x s) = ap_started s"
  by (simp_all add: add_interactions_def)

lemma app_inv_interactions: "app_inv s \<Longrightarrow> app_inv (add_interactions ids x s)"
  by (erule app_inv_frame) simp_all

lemma app_inv_set_interaction: "app_inv s \<Longrightarrow> app_inv (set_interaction i n k v s)"
  unfolding set_interaction_def by (rule app_inv_alter) simp_all

lemma app_inv_close_current: "app_inv s \<Longrightarrow> app_inv (close_if_current p s)"
  by (simp add: close_if_current_def app_inv_close)

lemma app_inv_read_end: "app_inv s \<Longrightarrow> app_inv (read_end p failure s)"
  unfolding read_end_def Let_def
  by (rule app_inv_phase) (simp_all add: app_inv_close_current app_inv_fail)

definition rpc_error_reply :: "dict \<Rightarrow> int \<Rightarrow> ustr \<Rightarrow> dict" where
  "rpc_error_reply m code reason =
     [(''jsonrpc'', jlit ''2.0''), (''id'', get_or_null m ''id''),
      (''error'', JObj [(''code'', JInt code), (''message'', JStr reason)])]"

lemma send_message_expected:
  "send_message m (Some p) s =
     (if ap_process s \<noteq> Some p \<or> p \<notin> ap_alive s then (Inl unavailable, s)
      else if \<not> list_all scalar_value (dumps_text (JObj m)) then (Inl EncodeFails, s)
      else if p \<in> ap_broken s then (Inl unavailable, s)
      else (Inr (), s\<lparr>ap_sent := ap_sent s @ [(p, m)]\<rparr>))"
  by (cases "ap_process s") (auto simp only: send_message_def option.case option.inject split: if_splits)

text \<open>An error reply is sent, or cannot be, or cannot be encoded.\<close>

lemma reply_error_cases:
  obtains (sent) "reply_error m c t p s = s\<lparr>ap_sent := ap_sent s @ [(p, rpc_error_reply m c t)]\<rparr>"
  | (gone) "reply_error m c t p s = s" "ap_process s \<noteq> Some p \<or> p \<notin> ap_alive s \<or> p \<in> ap_broken s"
  | (ended) "reply_error m c t p s = read_end p False s"
proof -
  have "reply_error m c t p s =
     (if ap_process s \<noteq> Some p \<or> p \<notin> ap_alive s then s
      else if \<not> list_all scalar_value (dumps_text (JObj (rpc_error_reply m c t))) then read_end p False s
      else if p \<in> ap_broken s then s
      else s\<lparr>ap_sent := ap_sent s @ [(p, rpc_error_reply m c t)]\<rparr>)"
    by (simp only: reply_error_def rpc_error_reply_def [symmetric] send_message_expected unavailable_def split: if_split) simp
  with that show thesis by (metis (no_types))
qed

lemma app_inv_reply: "app_inv s \<Longrightarrow> app_inv (reply_error m c t p s)"
  by (rule reply_error_cases [of m c t p s]) (simp_all add: app_inv_sent app_inv_read_end)

lemma workers_of_simps [simp]:
  "workers_of p [] = []" "workers_of p (w # ws) = (if wk_process w = p then w # workers_of p ws else workers_of p ws)"
  "workers_of p (ws @ ws') = workers_of p ws @ workers_of p ws'"
  by (simp_all add: workers_of_def)

lemma app_inv_workers:
  assumes "app_inv s" "\<And>p. sl p = length (workers_of p ws)" "\<And>p. length (workers_of p ws) \<le> max_server_requests"
    and "\<And>w. w \<in> set ws \<Longrightarrow> request_process s (wk_request w) = Some (wk_process w)"
  shows "app_inv (s\<lparr>ap_workers := ws, ap_slots := sl\<rparr>)"
  using assms by (auto simp: app_inv_def table_ok_def threads_ok_def workers_ok_def)

lemma app_inv_slots: "app_inv s \<Longrightarrow> ap_slots s = (\<lambda>p. length (workers_of p (ap_workers s)))"
  by (simp add: app_inv_def workers_ok_def)

lemma app_inv_worker:
  "app_inv s \<Longrightarrow> w \<in> set (ap_workers s) \<Longrightarrow> request_process s (wk_request w) = Some (wk_process w)"
  by (simp add: app_inv_def workers_ok_def)

lemma app_inv_add_worker:
  assumes "app_inv s" "request_process s (wk_request w) = Some (wk_process w)" "ap_slots s (wk_process w) < max_server_requests"
  shows "app_inv (s\<lparr>ap_workers := ap_workers s @ [w], ap_slots := (ap_slots s)(wk_process w := Suc (ap_slots s (wk_process w)))\<rparr>)"
proof -
  let ?sl = "(ap_slots s)(wk_process w := Suc (ap_slots s (wk_process w)))"
  have sl: "ap_slots s q = length (workers_of q (ap_workers s))" for q using app_inv_slots [OF assms(1)] by simp
  have le: "length (workers_of q (ap_workers s)) \<le> max_server_requests" for q
    using assms(1) by (simp add: app_inv_def workers_ok_def)
  show ?thesis
  proof (rule app_inv_workers [OF assms(1)])
    show "?sl q = length (workers_of q (ap_workers s @ [w]))" for q by (simp add: sl)
    show "length (workers_of q (ap_workers s @ [w])) \<le> max_server_requests" for q
      using assms(3) le [of q] by (auto simp: sl Suc_le_eq)
    show "request_process s (wk_request v) = Some (wk_process v)" if "v \<in> set (ap_workers s @ [w])" for v
      using that assms(2) app_inv_worker [OF assms(1)] by auto
  qed
qed

lemma matching_process: "i \<in> set (matching_pending_calls m p s) \<Longrightarrow> request_process s i = Some p"
  by (auto simp: matching_pending_calls_def asks_about_def request_process_def split: option.splits if_splits)

lemma app_inv_handle: "app_inv s \<Longrightarrow> app_inv (handle_server_request m p s)"
proof -
  assume inv: "app_inv s"
  define x where "x = add_interactions (matching_pending_calls m p s) (interaction_of m) s"
  have x: "app_inv x" unfolding x_def by (rule app_inv_interactions [OF inv])
  have worker: "app_inv (x\<lparr>ap_workers := ap_workers x @ [\<lparr>wk_message = m, wk_request = i, wk_index = n, wk_process = p, wk_running = False\<rparr>],
      ap_slots := (ap_slots x)(p := Suc (ap_slots x p))\<rparr>)"
    if "matching_pending_calls m p s = [i]" "\<not> max_server_requests \<le> ap_slots x p" for i n
    using app_inv_add_worker [OF x, of "\<lparr>wk_message = m, wk_request = i, wk_index = n, wk_process = p, wk_running = False\<rparr>"]
      matching_process [of i m p s] that by (simp add: x_def)
  show ?thesis
    unfolding handle_server_request_def Let_def x_def [symmetric]
    by (auto simp: x intro!: app_inv_reply app_inv_set_interaction worker split: list.split)
qed

lemma workers_of_length:
  assumes "k < length ws"
  shows "length (workers_of p ws) =
    length (workers_of p (take k ws @ drop (Suc k) ws)) + (if wk_process (ws ! k) = p then 1 else 0)"
proof -
  have "length (workers_of p ws) = length (workers_of p (take k ws @ ws ! k # drop (Suc k) ws))"
    using id_take_nth_drop [OF assms] by simp
  then show ?thesis by simp
qed

lemma app_inv_without:
  assumes "app_inv s" "k < length (ap_workers s)"
  shows "app_inv (without_worker k (ap_workers s ! k) s)"
proof -
  let ?ws = "take k (ap_workers s) @ drop (Suc k) (ap_workers s)"
  have "set ?ws \<subseteq> set (ap_workers s)" by (auto dest: in_set_takeD in_set_dropD)
  then have "app_inv (s\<lparr>ap_workers := ?ws, ap_slots := \<lambda>p. length (workers_of p ?ws)\<rparr>)"
    using assms(1) workers_of_length [OF assms(2)] app_inv_worker [OF assms(1)]
    by (intro app_inv_workers) (auto simp: app_inv_def workers_ok_def dest: add_leD1)
  moreover have "(ap_slots s)(wk_process (ap_workers s ! k) := ap_slots s (wk_process (ap_workers s ! k)) - 1) =
      (\<lambda>p. length (workers_of p ?ws))"
    using workers_of_length [OF assms(2)] by (auto simp: app_inv_slots [OF assms(1)] fun_eq_iff)
  ultimately show ?thesis by (simp add: without_worker_def)
qed

lemma workers_of_update:
  "k < length ws \<Longrightarrow> wk_process w = wk_process (ws ! k) \<Longrightarrow> length (workers_of p (ws[k := w])) = length (workers_of p ws)"
  using workers_of_length [of k ws p] workers_of_length [of k "ws[k := w]" p] by simp

lemma app_inv_worker_start: "app_inv s \<Longrightarrow> app_inv (worker_start k s)"
proof -
  assume inv: "app_inv s"
  let ?w = "(ap_workers s ! k)\<lparr>wk_running := True\<rparr>"
  have "app_inv (s\<lparr>ap_workers := (ap_workers s)[k := ?w]\<rparr>)" if k: "k < length (ap_workers s)"
  proof -
    have mem: "w = ?w \<or> w \<in> set (ap_workers s)" if "w \<in> set ((ap_workers s)[k := ?w])" for w
      using that set_update_subset_insert [of "ap_workers s" k ?w] by auto
    have same: "length (workers_of p ((ap_workers s)[k := ?w])) = length (workers_of p (ap_workers s))" for p
      by (rule workers_of_update [OF k]) simp
    have "app_inv (s\<lparr>ap_workers := (ap_workers s)[k := ?w], ap_slots := ap_slots s\<rparr>)"
    proof (rule app_inv_workers [OF inv])
      show "request_process s (wk_request w) = Some (wk_process w)" if "w \<in> set ((ap_workers s)[k := ?w])" for w
        using mem [OF that] app_inv_worker [OF inv] nth_mem [OF k] by auto
    qed (use inv in \<open>simp_all add: same app_inv_def workers_ok_def\<close>)
    then show ?thesis by simp
  qed
  with inv show ?thesis by (simp add: worker_start_def Let_def app_inv_without)
qed

lemma worker_response_inv: "app_inv s \<Longrightarrow> app_inv (snd (worker_response w answer s))"
  by (simp add: worker_response_def app_inv_set_interaction split: option.split)

lemma worker_response_workers [simp]: "ap_workers (snd (worker_response w answer s)) = ap_workers s"
  by (simp add: worker_response_def set_interaction_def split: option.split)

lemma app_inv_worker_done: "app_inv s \<Longrightarrow> app_inv (worker_done k answer s)"
proof -
  assume inv: "app_inv s"
  have sent: "app_inv (without_worker k (ap_workers s ! k) (if q then x else snd (send_message y e x)))"
    if "app_inv x" "ap_workers x = ap_workers s" "k < length (ap_workers s)" for q x y e
    using that app_inv_without [OF that(1), of k] app_inv_without [OF app_inv_send [OF that(1), of y e], of k] by simp
  show ?thesis
  proof (cases "length (ap_workers s) \<le> k \<or> \<not> wk_running (ap_workers s ! k)")
    case False
    then have "k < length (ap_workers s)" by simp
    from sent [OF worker_response_inv [OF inv] worker_response_workers this] False
    show ?thesis by (simp only: worker_done_def Let_def split_beta if_False)
  qed (simp add: worker_done_def inv)
qed

lemma app_inv_line: "app_inv s \<Longrightarrow> app_inv (read_stdout_line cfg p line s)"
  by (auto simp: read_stdout_line_def intro!: app_inv_read_end app_inv_find app_inv_handle split: option.split json.split)

lemma app_inv_spawn: "app_inv s \<Longrightarrow> app_inv (spawn_process s)"
proof -
  assume inv: "app_inv s"
  then have "request_process s i \<noteq> Some (ap_spawned s)" for i by (auto simp: app_inv_def table_ok_def)
  then have none: "workers_of (ap_spawned s) (ap_workers s) = []"
    using app_inv_worker [OF inv] by (auto simp: workers_of_def filter_empty_conv) metis
  then have "(ap_slots s)(ap_spawned s := 0) = ap_slots s" using app_inv_slots [OF inv] by auto
  with inv show ?thesis
    by (auto simp: spawn_process_def Let_def app_inv_def table_ok_def threads_ok_def workers_ok_def less_Suc_eq)
qed

lemma app_inv_drop: "app_inv s \<Longrightarrow> app_inv (drop_thread t s)"
  by (rule app_inv_shrink [of s]) (auto simp: drop_thread_def app_inv_distinct split: option.split)

lemma app_inv_forget: "app_inv s \<Longrightarrow> app_inv (forget_abandoned k s)"
  by (rule app_inv_shrink [of s]) (auto simp: forget_abandoned_def app_inv_distinct)

lemma app_inv_plain:
  "app_inv s \<Longrightarrow> app_inv (s\<lparr>ap_alive := a\<rparr>)" "app_inv s \<Longrightarrow> app_inv (s\<lparr>ap_broken := a\<rparr>)"
  "app_inv s \<Longrightarrow> app_inv (s\<lparr>ap_can_spawn := b\<rparr>)" "app_inv s \<Longrightarrow> app_inv (s\<lparr>ap_can_thread := b\<rparr>)"
  "app_inv s \<Longrightarrow> app_inv (mark_started s)" "app_inv s \<Longrightarrow> app_inv (add_capability m s)"
  "app_inv s \<Longrightarrow> app_inv (read_stderr l s)" "app_inv s \<Longrightarrow> app_inv (s\<lparr>ap_schedule := sc\<rparr>)"
  by (erule app_inv_frame; simp add: mark_started_def add_capability_def read_stderr_def Let_def)+

lemma app_inv_step: "app_inv s \<Longrightarrow> app_inv (app_step cfg e s)"
  by (cases e) (simp_all add: app_inv_line app_inv_reader app_inv_plain app_inv_worker_start app_inv_worker_done
      app_inv_submit app_inv_give_up app_inv_remove app_inv_close app_inv_spawn app_inv_cleanup app_inv_send app_inv_drop
      app_inv_forget Let_def)

interpretation adapter: invariant_machine "\<lambda>s e. app_step cfg e s" app_inv for cfg
  by unfold_locales (rule app_inv_step)

lemma app_steps_foldl: "app_steps cfg es s = foldl (\<lambda>s e. app_step cfg e s) s es"
  by (simp add: app_steps_def foldl_conv_fold)

lemma app_inv_steps: "app_inv s \<Longrightarrow> app_inv (app_steps cfg es s)"
  unfolding app_steps_foldl by (rule adapter.run_keeps)

lemma app_steps_simps [simp]:
  "app_steps cfg [] s = s" "app_steps cfg (e # es) s = app_steps cfg es (app_step cfg e s)"
  "app_steps cfg (es @ es') s = app_steps cfg es' (app_steps cfg es s)"
  by (simp_all add: app_steps_def)

end
