(* ===== verification/AppServerClaims.thy ===== *)
theory AppServerClaims
  imports AppServerProps
begin

text \<open>
  What callers of the adapter and the App Server can rely on, whatever the other threads do: an answer belongs to its
  request, a question of the server reaches only the call it is about, the thread of a late answer is not lost, and a
  caller is woken when the connection ends.
\<close>

section \<open>Whose answer it is\<close>

text \<open>The part of a request the waiting caller looks at.\<close>

definition answer_view :: "app_server \<Rightarrow> int \<Rightarrow> (nat \<times> bool \<times> app_error option \<times> json) option" where
  "answer_view s i = map_option (\<lambda>r. (ar_process r, ar_done r, ar_error r, ar_result r)) (ap_request s i)"

definition received :: "app_config \<Rightarrow> app_event list \<Rightarrow> nat \<Rightarrow> int \<Rightarrow> dict \<Rightarrow> bool" where
  "received cfg es p i m \<longleftrightarrow> (\<exists>raw. Line p raw \<in> set es \<and> ac_loads cfg raw = Some (JObj m) \<and> message_id m = Some i)"

definition answered_by :: "app_config \<Rightarrow> app_event list \<Rightarrow> int \<Rightarrow> app_server \<Rightarrow> bool" where
  "answered_by cfg es i s \<longleftrightarrow>
     (\<forall>p m. ap_phase s p = Found i m \<longrightarrow> received cfg es p i m) \<and>
     (\<forall>p v. answer_view s i = Some (p, True, None, v) \<longrightarrow>
        (\<exists>m. received cfg es p i m \<and> \<not> has_field m ''error'' \<and> v = get_or_null m ''result''))"

lemma received_more: "received cfg es p i m \<Longrightarrow> received cfg (es @ [e]) p i m"
  by (auto simp: received_def)

lemma answered_weaken:
  assumes "answered_by cfg es i s"
    and "\<And>p m. ap_phase s' p = Found i m \<Longrightarrow> ap_phase s p = Found i m"
    and "\<And>p v. answer_view s' i = Some (p, True, None, v) \<Longrightarrow> answer_view s i = Some (p, True, None, v)"
  shows "answered_by cfg es i s'"
  unfolding answered_by_def
proof (intro conjI allI impI)
  show "received cfg es p i m" if "ap_phase s' p = Found i m" for p m
    using assms(1) assms(2) [OF that] by (simp add: answered_by_def)
  show "\<exists>m. received cfg es p i m \<and> \<not> has_field m ''error'' \<and> v = get_or_null m ''result''"
    if "answer_view s' i = Some (p, True, None, v)" for p v
    using assms(1) assms(3) [OF that] by (simp add: answered_by_def)
qed

lemma answered_more: "answered_by cfg es i s \<Longrightarrow> answered_by cfg (es @ [e]) i s"
  unfolding answered_by_def using received_more by blast

lemma answer_view_plain [simp]:
  "answer_view (s\<lparr>ap_phase := y\<rparr>) = answer_view s" "answer_view (s\<lparr>ap_alive := al\<rparr>) = answer_view s"
  "answer_view (s\<lparr>ap_broken := br\<rparr>) = answer_view s" "answer_view (s\<lparr>ap_can_spawn := b\<rparr>) = answer_view s"
  "answer_view (s\<lparr>ap_can_thread := b\<rparr>) = answer_view s" "answer_view (s\<lparr>ap_schedule := sc\<rparr>) = answer_view s"
  "answer_view (remove_pending j s) = answer_view s" "answer_view (own_thread p r s) = answer_view s"
  "answer_view (snd (send_message d e s)) = answer_view s" "answer_view (without_worker k w s) = answer_view s"
  "answer_view (mark_started s) = answer_view s" "answer_view (add_capability c s) = answer_view s"
  "answer_view (drop_thread t s) = answer_view s" "answer_view (forget_abandoned pt s) = answer_view s"
  "answer_view (spawn_process s) = answer_view s" "answer_view (read_stderr l s) = answer_view s"
  "answer_view (retire_pool s) = answer_view s"
  by (simp_all add: answer_view_def fun_eq_iff remove_pending_def without_worker_def mark_started_def add_capability_def
      drop_thread_def forget_abandoned_def spawn_process_def read_stderr_def Let_def retire_pool_def split: option.split)

lemma answer_view_with_request:
  "(\<And>r. ar_process (f r) = ar_process r \<and> ar_done (f r) = ar_done r \<and> ar_error (f r) = ar_error r \<and> ar_result (f r) = ar_result r) \<Longrightarrow>
     answer_view (alter_request s j f) = answer_view s"
  by (rule ext) (simp add: answer_view_def alter_request_def option.map_comp comp_def)

lemma answer_view_interactions [simp]:
  "answer_view (add_interactions ids x s) = answer_view s" "answer_view (set_interaction j n k v s) = answer_view s"
  "answer_view (give_up j b s) = answer_view s"
  by (rule ext, simp add: answer_view_def add_interactions_def option.map_comp comp_def)
     (simp_all add: set_interaction_def give_up_def answer_view_with_request split: option.split)

lemma fail_pending_view:
  "answer_view (fail_pending e p s) i = Some (q, True, None, v) \<Longrightarrow> answer_view s i = Some (q, True, None, v)"
  by (auto simp: answer_view_def fail_pending_def fail_request_def split: if_splits)

lemma close_view: "answer_view (close_process s) i = Some (q, True, None, v) \<Longrightarrow> answer_view s i = Some (q, True, None, v)"
proof -
  let ?x = "retire_pool (s\<lparr>ap_started := False, ap_capabilities := []\<rparr>)"
  have "answer_view (close_process s) = answer_view (fail_pending unavailable (ap_process s) ?x)"
    by (simp add: close_process_def Let_def answer_view_def fun_eq_iff split: option.split)
  moreover have "answer_view ?x = answer_view s" by (simp add: answer_view_def fun_eq_iff)
  moreover assume "answer_view (close_process s) i = Some (q, True, None, v)"
  ultimately show ?thesis using fail_pending_view [of unavailable "ap_process s" ?x i q v] by simp
qed

lemma answer_view_cong: "ap_request s' = ap_request s \<Longrightarrow> answer_view s' = answer_view s"
  by (simp add: answer_view_def fun_eq_iff)

lemma answered_close: "answered_by cfg es i s \<Longrightarrow> answered_by cfg es i (close_process s)"
  by (erule answered_weaken) (simp, erule close_view)

lemma answered_fail: "answered_by cfg es i s \<Longrightarrow> answered_by cfg es i (fail_pending e p s)"
  by (erule answered_weaken) (simp, erule fail_pending_view)

lemma answered_cleanup: "answered_by cfg es i s \<Longrightarrow> answered_by cfg es i (cleanup_dead_process s)"
  by (simp add: cleanup_dead_process_def answered_close split: option.split)

lemma answered_same:
  "answered_by cfg es i s \<Longrightarrow> ap_phase s' = ap_phase s \<Longrightarrow> answer_view s' = answer_view s \<Longrightarrow> answered_by cfg es i s'"
  by (simp add: answered_by_def)

lemma answered_leave:
  "answered_by cfg es i s \<Longrightarrow> phase_request ph = None \<Longrightarrow> answered_by cfg es i (s\<lparr>ap_phase := (ap_phase s)(p := ph)\<rparr>)"
  by (erule answered_weaken) (auto split: if_splits)

lemma answered_read_end: "answered_by cfg es i s \<Longrightarrow> answered_by cfg es i (read_end p b s)"
proof -
  assume a: "answered_by cfg es i s"
  have c: "answered_by cfg es i (close_if_current p x)" if "answered_by cfg es i x" for x
    using that by (simp add: close_if_current_def answered_close)
  show ?thesis unfolding read_end_def Let_def by (rule answered_leave) (simp_all add: a c answered_fail)
qed

lemma answered_reply: "answered_by cfg es i s \<Longrightarrow> answered_by cfg es i (reply_error m c t p s)"
proof -
  assume a: "answered_by cfg es i s"
  define x where "x = send_message [(''jsonrpc'', jlit ''2.0''), (''id'', get_or_null m ''id''),
          (''error'', JObj [(''code'', JInt c), (''message'', JStr t)])] (Some p) s"
  have "answered_by cfg es i (snd x)" unfolding x_def by (rule answered_same [OF a]) simp_all
  moreover have "reply_error m c t p s = (case x of (Inl EncodeFails, s') \<Rightarrow> read_end p False s' | (_, s') \<Rightarrow> s')"
    by (simp only: reply_error_def x_def)
  ultimately show ?thesis by (cases x) (simp add: answered_read_end split: sum.split app_error.split)
qed

lemma answered_handle: "answered_by cfg es i s \<Longrightarrow> answered_by cfg es i (handle_server_request m p s)"
proof -
  assume a: "answered_by cfg es i s"
  define x where "x = add_interactions (matching_pending_calls m p s) (interaction_of m) s"
  have x: "answered_by cfg es i x" unfolding x_def by (rule answered_same [OF a]) simp_all
  have "answered_by cfg es i (set_interaction j n k v x)" for j n k v
    by (rule answered_same [OF x]) (simp add: set_interaction_def, simp)
  moreover have "answered_by cfg es i (x\<lparr>ap_workers := w, ap_slots := sl\<rparr>)" for w sl
    by (rule answered_same [OF x]) (simp_all add: answer_view_def fun_eq_iff)
  ultimately show ?thesis
    unfolding handle_server_request_def Let_def x_def [symmetric] by (auto simp: x intro!: answered_reply split: list.split)
qed

lemma answered_submit:
  assumes "answered_by cfg es i s" "i < ap_next s"
  shows "answered_by cfg es i (snd (submit_request m params h s))"
proof -
  have *: "answered_by cfg es i (s\<lparr>ap_next := ap_next s + 1, ap_pending := ap_pending s @ [ap_next s],
      ap_request := (ap_request s)(ap_next s \<mapsto> r)\<rparr>)" for r
    by (rule answered_weaken [OF assms(1)]) (use assms(2) in \<open>auto simp: answer_view_def split: if_splits\<close>)
  have "answered_by cfg es i (snd (send_message m e x))" if "answered_by cfg es i x" for m e x
    by (rule answered_same [OF that]) simp_all
  moreover have "answered_by cfg es i (remove_pending j x)" if "answered_by cfg es i x" for j x
    by (rule answered_same [OF that]) (simp add: remove_pending_def, simp)
  ultimately show ?thesis
    using assms(1) * by (auto simp: submit_request_def Let_def split_beta split: option.split sum.split)
qed

lemma settle_view:
  "ar_done (settle_answer m r)" "ar_process (settle_answer m r) = ar_process r"
  "ar_error (settle_answer m r) = None \<Longrightarrow> \<not> has_field m ''error'' \<and> ar_result (settle_answer m r) = get_or_null m ''result''"
  by (simp_all add: settle_answer_def Let_def split: prod.splits if_splits)

lemma answered_reader:
  assumes a: "answered_by cfg es i s" and inv: "app_inv s"
  shows "answered_by cfg es i (reader_step p s)"
proof (cases "ap_phase s p")
  case (Found j m)
  have rp: "request_process s j = Some p" using inv Found by (simp add: app_inv_def table_ok_def)
  let ?s = "alter_request s j (settle_answer m)\<lparr>ap_phase := (ap_phase s)(p := Settled j)\<rparr>"
  have "answered_by cfg es i ?s"
    unfolding answered_by_def
  proof (intro conjI allI impI)
    show "received cfg es q i x" if "ap_phase ?s q = Found i x" for q x
      using a that by (auto simp: answered_by_def split: if_splits)
  next
    fix q v assume v: "answer_view ?s i = Some (q, True, None, v)"
    show "\<exists>m. received cfg es q i m \<and> \<not> has_field m ''error'' \<and> v = get_or_null m ''result''"
    proof (cases "i = j")
      case True
      then obtain r where r: "ap_request s j = Some r" "ar_process r = p" using rp by (auto simp: request_process_def)
      with v True have "ar_error (settle_answer m r) = None" "v = ar_result (settle_answer m r)" "q = p"
        by (auto simp: answer_view_def alter_request_def)
      moreover have "received cfg es p i m" using a Found True by (simp add: answered_by_def)
      ultimately show ?thesis using settle_view(3) by metis
    next
      case False
      with v have "answer_view s i = Some (q, True, None, v)" by (simp add: answer_view_def alter_request_def)
      with a show ?thesis by (simp add: answered_by_def)
    qed
  qed
  with Found show ?thesis by (simp add: reader_step_def)
next
  case (Settled j)
  have "answered_by cfg es i (x\<lparr>ap_phase := (ap_phase s)(p := Idle)\<rparr>)" if "answer_view x = answer_view s" for x
    by (rule answered_weaken [OF a]) (auto simp: that split: if_splits)
  moreover have "answered_by cfg es i (remove_pending j x)" if "answered_by cfg es i x" for x
    by (rule answered_same [OF that]) (simp add: remove_pending_def, simp)
  ultimately show ?thesis by (simp add: reader_step_def Settled Let_def split: option.split)
qed (simp_all add: reader_step_def a)


lemma answered_worker_start: "answered_by cfg es i s \<Longrightarrow> answered_by cfg es i (worker_start k s)"
  by (erule answered_same) (simp_all add: worker_start_def without_worker_def Let_def answer_view_def fun_eq_iff)

lemma set_interaction_phase [simp]: "ap_phase (set_interaction j n k v s) = ap_phase s"
  by (simp add: set_interaction_def)

lemma worker_response_view [simp]:
  "ap_phase (snd (worker_response w a s)) = ap_phase s" "answer_view (snd (worker_response w a s)) = answer_view s"
  by (simp_all add: worker_response_def split: option.split)

lemma without_worker_phase [simp]: "ap_phase (without_worker k w s) = ap_phase s"
  by (simp add: without_worker_def)

lemma answered_worker_done: "answered_by cfg es i s \<Longrightarrow> answered_by cfg es i (worker_done k a s)"
  by (erule answered_same) (simp_all add: worker_done_def Let_def split_beta)

lemma answered_line:
  assumes "answered_by cfg es i s"
  shows "answered_by cfg (es @ [Line p raw]) i (read_stdout_line cfg p raw s)"
proof -
  note more = answered_more [OF assms, of "Line p raw"]
  have "answered_by cfg (es @ [Line p raw]) i (find_request m p s)" if "ac_loads cfg raw = Some (JObj m)" for m
  proof (cases "message_id m")
    case (Some j)
    have "answered_by cfg (es @ [Line p raw]) i (s\<lparr>ap_phase := (ap_phase s)(p := Found j m)\<rparr>)"
      unfolding answered_by_def
    proof (intro conjI allI impI)
      show "received cfg (es @ [Line p raw]) q i x" if "ap_phase (s\<lparr>ap_phase := (ap_phase s)(p := Found j m)\<rparr>) q = Found i x" for q x
      proof (cases "q = p")
        case True
        with that Some \<open>ac_loads cfg raw = Some (JObj m)\<close> show ?thesis by (auto simp: received_def)
      qed (use that more in \<open>simp add: answered_by_def\<close>)
    qed (use more in \<open>simp add: answered_by_def\<close>)
    with Some more show ?thesis by (simp add: find_request_def)
  qed (simp add: find_request_def more)
  then show ?thesis
    using more by (auto simp: read_stdout_line_def intro!: answered_read_end answered_handle split: option.split json.split)
qed

lemma ap_next_step: "ap_next s \<le> ap_next (app_step cfg e s)"
proof -
  have reply: "ap_next (reply_error m c t p x) = ap_next x" for m c t p x
    by (rule reply_error_cases [of m c t p x]) (simp_all add: read_end_def close_if_current_def Let_def)
  have ints: "ap_next (set_interaction j n k v x) = ap_next x" for j n k v x by (simp add: set_interaction_def)
  have "ap_next (handle_server_request m p s) = ap_next s" for m p
    by (simp add: handle_server_request_def Let_def reply ints split: list.split)
  then have line: "ap_next (read_stdout_line cfg p raw s) = ap_next s" for p raw
    by (simp add: read_stdout_line_def find_request_def read_end_def close_if_current_def Let_def split: option.split json.split)
  have work: "ap_next (worker_done k a s) = ap_next s" "ap_next (worker_start k s) = ap_next s" for k a
    by (simp_all add: worker_done_def worker_start_def without_worker_def worker_response_def ints Let_def split_beta split: option.split)
  show ?thesis
    by (cases e) (simp_all add: line work reader_step_def read_stderr_def submit_request_def give_up_def remove_pending_def
        cleanup_dead_process_def spawn_process_def mark_started_def add_capability_def drop_thread_def forget_abandoned_def
        Let_def split_beta split: reader_phase.split option.split sum.split)
qed

lemma give_up_phase [simp]: "ap_phase (give_up j b s) = ap_phase s"
  by (simp add: give_up_def remove_pending_def split: option.split)

lemma answered_step:
  assumes "answered_by cfg es i s" "app_inv s" "i < ap_next s"
  shows "answered_by cfg (es @ [e]) i (app_step cfg e s)"
proof (cases e)
  case (Spawned)
  have a: "answered_by cfg (es @ [e]) i (cleanup_dead_process s)" by (rule answered_more [OF answered_cleanup [OF assms(1)]])
  have "answered_by cfg (es @ [e]) i (spawn_process x)" if "answered_by cfg (es @ [e]) i x" for x
    by (rule answered_weaken [OF that]) (auto simp: spawn_process_def Let_def answer_view_def split: if_splits)
  with a Spawned show ?thesis by (simp add: Let_def)
next
  case (Collected j)
  then show ?thesis using answered_more [OF assms(1), of e] by (auto intro: answered_same simp: remove_pending_def answer_view_def fun_eq_iff)
next
  case (GivesUp j b)
  then show ?thesis
    using answered_same [OF answered_more [OF assms(1), of e], of "give_up j b s"] by simp
qed (use answered_more [OF assms(1), of e] assms in \<open>auto simp: answered_line answered_reader answered_worker_start
    answered_worker_done answered_submit answered_close intro: answered_same
    simp: mark_started_def add_capability_def drop_thread_def forget_abandoned_def read_stderr_def Let_def answer_view_def fun_eq_iff
    split: option.splits\<close>)

lemma answered_steps:
  "answered_by cfg es i s \<Longrightarrow> app_inv s \<Longrightarrow> i < ap_next s \<Longrightarrow> answered_by cfg (es @ es') i (app_steps cfg es' s)"
proof (induction es' arbitrary: es s)
  case (Cons e es')
  have "answered_by cfg (es @ [e]) i (app_step cfg e s)" by (rule answered_step [OF Cons.prems])
  moreover have "i < ap_next (app_step cfg e s)" using ap_next_step [of s cfg e] Cons.prems(3) by linarith
  ultimately show ?case using Cons.IH app_inv_step [OF Cons.prems(2)] by fastforce
qed simp

lemma sent_step: "set (ap_sent s) \<subseteq> set (ap_sent (app_step cfg e s))"
proof -
  have ends: "ap_sent (read_end p b x) = ap_sent x" for p b x
    by (simp add: read_end_def close_if_current_def Let_def)
  have reply: "set (ap_sent x) \<subseteq> set (ap_sent (reply_error m c t p x))" for m c t p x
    by (rule reply_error_cases [of m c t p x]) (auto simp: ends)
  have send: "set (ap_sent x) \<subseteq> set (ap_sent (snd (send_message m q x)))" for m q x
    using send_message_state [of m q x] by auto
  have ints: "ap_sent (set_interaction j n k v x) = ap_sent x" for j n k v x by (simp add: set_interaction_def)
  have "set (ap_sent s) \<subseteq> set (ap_sent (handle_server_request m p s))" for m p
    using reply [of "set_interaction _ _ _ _ (add_interactions (matching_pending_calls m p s) (interaction_of m) s)"]
      reply [of "add_interactions (matching_pending_calls m p s) (interaction_of m) s"]
    by (auto simp: handle_server_request_def Let_def ints subset_iff split: list.split)
  then have line: "set (ap_sent s) \<subseteq> set (ap_sent (read_stdout_line cfg p raw s))" for p raw
    by (auto simp: read_stdout_line_def find_request_def ends split: option.split json.split)
  have work: "set (ap_sent s) \<subseteq> set (ap_sent (worker_done k a s))" "ap_sent (worker_start k s) = ap_sent s" for k a
    using send [of "snd (worker_response (ap_workers s ! k) a s)"]
    by (auto simp: worker_done_def worker_start_def without_worker_def worker_response_def ints Let_def split_beta subset_iff split: option.split)
  have submit: "set (ap_sent s) \<subseteq> set (ap_sent (snd (submit_request m params h s)))" for m params h
    using send by (auto simp: submit_request_def remove_pending_def Let_def split_beta subset_iff split: option.split sum.split)
  have own: "ap_sent (own_thread p r s) = ap_sent s" for p r by (simp add: own_thread_def split: option.split)
  show ?thesis
    using line work submit send by (cases e) (auto simp: reader_step_def read_stderr_def give_up_def remove_pending_def own
        cleanup_dead_process_def spawn_process_def mark_started_def add_capability_def drop_thread_def forget_abandoned_def
        Let_def subset_iff split: reader_phase.split option.split)
qed

lemma sent_steps: "set (ap_sent s) \<subseteq> set (ap_sent (app_steps cfg es s))"
  by (induction es arbitrary: s) (use sent_step in \<open>auto simp: subset_iff\<close>)

lemma submit_fresh:
  assumes "submit_request m params h s = (Inr i, s1)"
  obtains p where "i = ap_next s" "ap_process s = Some p" "ap_process s1 = Some p" "ap_next s1 = i + 1"
    "ap_request s1 = (ap_request s)(i \<mapsto> new_request m params p h)" "ap_phase s1 = ap_phase s"
    "ap_schedule s1 = ap_schedule s" "(p, request_message i m params) \<in> set (ap_sent s1)" "i \<in> set (ap_pending s1)"
  using assms that
  by (auto simp: submit_request_def Let_def send_message_expected split: option.splits if_splits)

lemma request_process_step:
  assumes "request_process s i = Some p" "i < ap_next s"
  shows "request_process (app_step cfg e s) i = Some p"
proof -
  have ends: "request_process (read_end q b x) = request_process x" for q b x
    by (simp add: read_end_def close_if_current_def Let_def)
  have reply: "request_process (reply_error m c t q x) = request_process x" for m c t q x
    by (rule reply_error_cases [of m c t q x]) (simp_all add: ends)
  have ints: "request_process (set_interaction j n k v x) = request_process x" for j n k v x
    by (simp add: set_interaction_def)
  have "request_process (handle_server_request m q s) = request_process s" for m q
    by (simp add: handle_server_request_def Let_def reply ints split: list.split)
  then have line: "request_process (read_stdout_line cfg q raw s) = request_process s" for q raw
    by (simp add: read_stdout_line_def find_request_def ends split: option.split json.split)
  have work: "request_process (worker_done k a s) = request_process s" "request_process (worker_start k s) = request_process s" for k a
    by (simp_all add: worker_done_def worker_start_def without_worker_def worker_response_def ints Let_def split_beta split: option.split)
  have sub: "request_process (snd (submit_request m params h s)) i = Some p" for m params h
    using assms by (auto simp: submit_request_def remove_pending_def Let_def split_beta request_process_def split: option.split sum.split)
  show ?thesis
    using assms(1) sub by (cases e) (simp_all add: line work reader_step_def read_stderr_def give_up_def remove_pending_def
        cleanup_dead_process_def spawn_process_def mark_started_def add_capability_def drop_thread_def forget_abandoned_def
        Let_def split: reader_phase.split option.split)
qed

lemma request_process_steps:
  "request_process s i = Some p \<Longrightarrow> i < ap_next s \<Longrightarrow> request_process (app_steps cfg es s) i = Some p"
proof (induction es arbitrary: s)
  case (Cons e es)
  have "i < ap_next (app_step cfg e s)" using Cons.prems(2) ap_next_step [of s cfg e] by linarith
  then show ?case using Cons.IH request_process_step [OF Cons.prems] by simp
qed simp

lemma inv_phase: "app_inv s \<Longrightarrow> phase_request (ap_phase s p) = Some i \<Longrightarrow> request_process s i = Some p"
  by (simp add: app_inv_def table_ok_def)

lemma inv_next: "app_inv s \<Longrightarrow> request_process s i = Some p \<Longrightarrow> i < ap_next s"
  unfolding app_inv_def table_ok_def by blast

text \<open>C29: An answer belongs to its request. When a call of the adapter returns a value, then while its caller was
  waiting the reader of the very process the request was written to has read a line that carries the number of this
  request, is not an error, and has that value as its result. No schedule of the reader, the workers, other callers,
  time-outs, closings and restarts can hand a caller the answer to another request or an old one.\<close>

theorem answer_belongs_to_request:
  assumes "app_inv s" "request_raw cfg m params t h s = (Inr v, s')"
  shows "\<exists>p es rest raw d. ap_process s = Some p \<and> ap_schedule s = es # rest \<and> Line p raw \<in> set es \<and>
    ac_loads cfg raw = Some (JObj d) \<and> message_id d = Some (ap_next s) \<and> \<not> has_field d ''error'' \<and>
    v = get_or_null d ''result'' \<and> (p, request_message (ap_next s) m params) \<in> set (ap_sent s')"
proof -
  from assms(2) obtain i s1 where sub: "submit_request m params h s = (Inr i, s1)"
    and wait: "wait_pending cfg i t True s1 = (Inr v, s')"
    by (auto simp: request_raw_def bind_app_def split: prod.splits sum.splits)
  from sub obtain p where p: "i = ap_next s" "ap_process s = Some p" "ap_next s1 = i + 1"
    "ap_request s1 = (ap_request s)(i \<mapsto> new_request m params p h)" "ap_phase s1 = ap_phase s"
    "ap_schedule s1 = ap_schedule s" "(p, request_message i m params) \<in> set (ap_sent s1)"
    by (rule submit_fresh)
  have inv1: "app_inv s1" using app_inv_submit [OF assms(1), of m params h] sub by simp
  have none: "ap_phase s q \<noteq> Found i d" for q d
  proof
    assume "ap_phase s q = Found i d"
    with assms(1) have "request_process s i = Some q" by (intro inv_phase) simp_all
    with assms(1) p(1) show False using inv_next by fastforce
  qed
  have start: "answered_by cfg [] i s1" by (auto simp: answered_by_def p(4,5) none answer_view_def new_request_def)
  define s2 where "s2 = others cfg s1"
  from wait have fin: "request_done s2 i" "outcome_of i s2 = Inr v" "s' = remove_pending i s2"
    by (auto simp: wait_pending_def Let_def s2_def split: if_splits)
  have "\<not> request_done s1 i" by (simp add: request_done_def p(4) new_request_def)
  then obtain es rest where es: "ap_schedule s = es # rest" using fin(1) p(6) by (cases "ap_schedule s") (auto simp: s2_def others_def)
  let ?s1 = "s1\<lparr>ap_schedule := rest\<rparr>"
  have s2: "s2 = app_steps cfg es ?s1" by (simp add: s2_def others_def p(6) es)
  have "answered_by cfg [] i ?s1" by (rule answered_same [OF start]) simp_all
  from answered_steps [OF this app_inv_plain(8) [OF inv1], of es] p(3) have ans: "answered_by cfg es i s2" by (simp add: s2)
  from fin(1,2) obtain r where r: "ap_request s2 i = Some r" "ar_done r" "ar_error r = None" "ar_result r = v"
    by (auto simp: request_done_def outcome_of_def split: option.splits)
  from p(4) have "request_process ?s1 i = Some p" by (simp add: request_process_def new_request_def)
  then have "ar_process r = p" using request_process_steps [of ?s1 i p cfg es] r(1) p(3) by (simp add: s2 request_process_def)
  with r have "answer_view s2 i = Some (p, True, None, v)" by (simp add: answer_view_def)
  with ans obtain d where d: "received cfg es p i d" "\<not> has_field d ''error''" "v = get_or_null d ''result''"
    by (auto simp: answered_by_def)
  have "(p, request_message i m params) \<in> set (ap_sent s')"
    using p(7) sent_steps [of ?s1 cfg es] by (auto simp: fin(3) remove_pending_def s2)
  with d p(1,2) es show ?thesis unfolding received_def by blast
qed

definition demo_app_config :: app_config where
  "demo_app_config = \<lparr>ac_max_bytes = 9, ac_loads = (\<lambda>line. Some (JObj [(''id'', JInt 1), (''result'', JInt 7)])), ac_startup = JNull\<rparr>"

definition demo_app_running :: app_server where
  "demo_app_running = (spawn_process new_app_server)\<lparr>ap_schedule := [[Line 0 [1], ReaderStep 0]]\<rparr>"

lemma demo_inv: "app_inv demo_app_running"
  unfolding demo_app_running_def by (intro app_inv_plain app_inv_spawn app_inv_new)

theorem answer_belongs_to_request_witness:
  "\<exists>raw d. Line 0 raw \<in> {Line 0 [1], ReaderStep 0} \<and> ac_loads demo_app_config raw = Some (JObj d) \<and> message_id d = Some 1 \<and>
     JInt 7 = get_or_null d ''result''"
proof -
  have "fst (request_raw demo_app_config ''x'' [] JNull False demo_app_running) = Inr (JInt 7)"
    by (simp add: request_raw_def bind_app_def submit_request_def send_message_expected wait_pending_def others_def
        demo_app_config_def demo_app_running_def spawn_process_def new_app_server_def request_message_def new_request_def
        scalar_value_def json_string_def json_escape_def int_repr_def nat_repr.simps Let_def read_stdout_line_def has_field_def find_request_def message_id_def
        request_process_def reader_step_def alter_request_def settle_answer_def get_or_null_def request_done_def outcome_of_def)
  then obtain s' where "request_raw demo_app_config ''x'' [] JNull False demo_app_running = (Inr (JInt 7), s')"
    by (metis prod.collapse)
  from answer_belongs_to_request [OF demo_inv this]
  show ?thesis by (auto simp: demo_app_running_def spawn_process_def new_app_server_def Let_def)
qed

section \<open>Threads are not lost\<close>

definition owned :: "app_server \<Rightarrow> (nat \<times> ustr) set" where
  "owned s = ap_claimed s \<union> ap_abandoned s"

text \<open>An operation either ends the connection or keeps what it owns.\<close>

definition keeps_owned :: "app_server \<Rightarrow> app_server \<Rightarrow> bool" where
  "keeps_owned s s' \<longleftrightarrow> ap_spawned s' = ap_spawned s \<and> (ap_process s' = None \<or> ap_process s' = ap_process s \<and> owned s \<subseteq> owned s')"

lemma keeps_refl: "keeps_owned s s"
  by (simp add: keeps_owned_def)

lemma keeps_trans: "keeps_owned s s' \<Longrightarrow> keeps_owned s' s'' \<Longrightarrow> keeps_owned s s''"
  by (auto simp: keeps_owned_def)

lemma keeps_frame:
  "ap_spawned s' = ap_spawned s \<Longrightarrow> ap_process s' = ap_process s \<Longrightarrow> ap_claimed s' = ap_claimed s \<Longrightarrow>
     ap_abandoned s' = ap_abandoned s \<Longrightarrow> keeps_owned s s'"
  by (simp add: keeps_owned_def owned_def)

lemma keeps_close: "keeps_owned s (close_process s)"
  by (simp add: keeps_owned_def)

lemma keeps_read_end: "keeps_owned s (read_end p b s)"
proof -
  have c: "keeps_owned x (close_if_current p x)" for x by (simp add: close_if_current_def keeps_close keeps_refl)
  have f: "keeps_owned x (fail_pending e q x)" for e q x by (rule keeps_frame) simp_all
  have ph: "keeps_owned x y \<Longrightarrow> keeps_owned x (y\<lparr>ap_phase := w\<rparr>)" for x y w by (simp add: keeps_owned_def owned_def)
  show ?thesis unfolding read_end_def Let_def
    by (rule ph, rule keeps_trans [OF _ c], rule keeps_trans [OF _ f]) (auto intro: keeps_trans [OF f c] keeps_refl)
qed

lemma keeps_reply: "keeps_owned s (reply_error m c t p s)"
  by (rule reply_error_cases [of m c t p s]) (auto simp: keeps_read_end intro: keeps_frame)

lemma set_interaction_fields [simp]:
  "ap_spawned (set_interaction j n k v s) = ap_spawned s" "ap_process (set_interaction j n k v s) = ap_process s"
  "ap_claimed (set_interaction j n k v s) = ap_claimed s" "ap_abandoned (set_interaction j n k v s) = ap_abandoned s"
  "ap_pending (set_interaction j n k v s) = ap_pending s" "ap_workers (set_interaction j n k v s) = ap_workers s"
  "ap_sent (set_interaction j n k v s) = ap_sent s" "ap_alive (set_interaction j n k v s) = ap_alive s"
  "ap_broken (set_interaction j n k v s) = ap_broken s"
  by (simp_all add: set_interaction_def)

lemma keeps_handle: "keeps_owned s (handle_server_request m p s)"
proof -
  define x where "x = add_interactions (matching_pending_calls m p s) (interaction_of m) s"
  have x: "keeps_owned s x" unfolding x_def by (rule keeps_frame) simp_all
  have i: "keeps_owned s (set_interaction j n k v x)" for j n k v by (rule keeps_trans [OF x keeps_frame]) simp_all
  have w: "keeps_owned s (x\<lparr>ap_workers := ws, ap_slots := sl\<rparr>)" for ws sl by (rule keeps_trans [OF x keeps_frame]) simp_all
  show ?thesis unfolding handle_server_request_def Let_def x_def [symmetric]
    by (auto simp: x i w intro: keeps_trans [OF _ keeps_reply] split: list.split)
qed

lemma keeps_line: "keeps_owned s (read_stdout_line cfg p raw s)"
  by (auto simp: read_stdout_line_def find_request_def keeps_read_end keeps_handle keeps_refl intro: keeps_frame split: option.split json.split)

lemma keeps_own: "keeps_owned s (own_thread p r s)"
  by (auto simp: keeps_owned_def owned_def own_thread_def split: option.split)

lemma keeps_reader: "keeps_owned s (reader_step p s)"
proof -
  have ph: "keeps_owned x y \<Longrightarrow> keeps_owned x (y\<lparr>ap_phase := w\<rparr>)" for x y w by (simp add: keeps_owned_def owned_def)
  have rm: "keeps_owned x y \<Longrightarrow> keeps_owned x (remove_pending j y)" for x y j by (simp add: keeps_owned_def owned_def remove_pending_def)
  have "keeps_owned s (alter_request s j f)" for j f by (rule keeps_frame) simp_all
  then show ?thesis unfolding reader_step_def Let_def
    by (auto intro!: ph rm keeps_own keeps_refl split: reader_phase.split option.split)
qed

lemma send_spawned [simp]: "ap_spawned (snd (send_message m e s)) = ap_spawned s"
  using send_message_state [of m e s] by auto

lemma keeps_others:
  "keeps_owned s (worker_start k s)" "keeps_owned s (worker_done k a s)" "keeps_owned s (snd (submit_request m params h s))"
  "keeps_owned s (give_up j b s)" "keeps_owned s (cleanup_dead_process s)" "keeps_owned s (read_stderr raw s)"
  by (auto intro!: keeps_frame simp: worker_start_def worker_done_def worker_response_def without_worker_def Let_def split_beta
      split: option.split)[2]
    (auto intro!: keeps_frame keeps_refl keeps_close simp: submit_request_def give_up_def remove_pending_def cleanup_dead_process_def read_stderr_def
      Let_def split_beta split: option.split sum.split)

text \<open>Only a step of another caller that has released the thread drops it.\<close>

lemma owned_step:
  assumes "app_inv s" "ap_process s = Some p" "(p, t) \<in> owned s" "ap_process (app_step cfg e s) = Some p"
    and "e \<noteq> Dropped t" "e \<noteq> Forgotten p t"
  shows "(p, t) \<in> owned (app_step cfg e s)"
proof -
  have kept: "(p, t) \<in> owned s'" if "keeps_owned s s'" "ap_process s' = Some p" for s'
    using that assms(2,3) by (auto simp: keeps_owned_def)
  have plain: "owned (s\<lparr>ap_alive := a\<rparr>) = owned s" "owned (s\<lparr>ap_broken := a\<rparr>) = owned s" "owned (s\<lparr>ap_can_spawn := b\<rparr>) = owned s"
    "owned (s\<lparr>ap_can_thread := b\<rparr>) = owned s" "owned (mark_started s) = owned s" "owned (add_capability m s) = owned s"
    "owned (remove_pending j s) = owned s" "owned (snd (send_message d q s)) = owned s" for a b m j d q
    by (simp_all add: owned_def mark_started_def add_capability_def remove_pending_def)
  show ?thesis
  proof (cases e)
    case Spawned
    define x where "x = cleanup_dead_process s"
    have x: "keeps_owned s x" unfolding x_def by (rule keeps_others)
    then have "ap_spawned x = ap_spawned s" by (simp add: keeps_owned_def)
    moreover have "p < ap_spawned s" using current_process [OF assms(1,2)] .
    ultimately have "\<not> (ap_process x = None \<and> ap_can_spawn x)"
      using assms(4) Spawned by (auto simp: x_def [symmetric] Let_def spawn_process_def)
    with assms(4) Spawned x show ?thesis by (auto simp: x_def [symmetric] Let_def intro: kept)
  next
    case (Dropped t')
    with assms(2,3,5) show ?thesis by (auto simp: owned_def drop_thread_def)
  next
    case (Forgotten p' t')
    with assms(3,6) show ?thesis by (auto simp: owned_def forget_abandoned_def)
  qed (use assms(3,4) in \<open>auto simp: plain intro: kept [OF keeps_line] kept [OF keeps_reader] kept [OF keeps_others(1)]
      kept [OF keeps_others(2)] kept [OF keeps_others(3)] kept [OF keeps_others(4)] kept [OF keeps_others(6)] kept [OF keeps_close]\<close>)
qed

lemma spawned_process_step:
  assumes "p < ap_spawned s" "ap_process s \<noteq> Some p"
  shows "p < ap_spawned (app_step cfg e s) \<and> ap_process (app_step cfg e s) \<noteq> Some p"
proof -
  have kept: "p < ap_spawned s' \<and> ap_process s' \<noteq> Some p" if "keeps_owned s s'" for s'
    using that assms by (auto simp: keeps_owned_def)
  show ?thesis
  proof (cases e)
    case Spawned
    define x where "x = cleanup_dead_process s"
    have "p < ap_spawned x \<and> ap_process x \<noteq> Some p" unfolding x_def by (rule kept) (rule keeps_others)
    with Spawned show ?thesis by (auto simp: x_def [symmetric] Let_def spawn_process_def)
  qed (use assms in \<open>auto simp: kept [OF keeps_line] kept [OF keeps_reader] kept [OF keeps_others(1)] kept [OF keeps_others(2)]
      kept [OF keeps_others(3)] kept [OF keeps_others(4)] kept [OF keeps_others(6)] mark_started_def add_capability_def
      remove_pending_def drop_thread_def forget_abandoned_def split: option.split\<close>)
qed

lemma spawned_less_step: "p < ap_spawned s \<Longrightarrow> p < ap_spawned (app_step cfg e s)"
proof -
  assume p: "p < ap_spawned s"
  have kept: "p < ap_spawned s'" if "keeps_owned s s'" for s' using that p by (simp add: keeps_owned_def)
  have "p < ap_spawned (cleanup_dead_process s)" by (rule kept) (rule keeps_others)
  then show ?thesis
    by (cases e) (auto simp: p kept [OF keeps_line] kept [OF keeps_reader] kept [OF keeps_others(1)] kept [OF keeps_others(2)]
      kept [OF keeps_others(3)] kept [OF keeps_others(4)] kept [OF keeps_others(6)] mark_started_def add_capability_def
      remove_pending_def drop_thread_def forget_abandoned_def spawn_process_def Let_def split: option.split)
qed

lemma spawned_process_steps: "p < ap_spawned s \<Longrightarrow> ap_process s \<noteq> Some p \<Longrightarrow> ap_process (app_steps cfg es s) \<noteq> Some p"
  using spawned_process_step by (induction es arbitrary: s) auto

lemma owned_steps:
  assumes "app_inv s" "ap_process s = Some p" "(p, t) \<in> owned s" "ap_process (app_steps cfg es s) = Some p"
    and "Dropped t \<notin> set es" "Forgotten p t \<notin> set es"
  shows "(p, t) \<in> owned (app_steps cfg es s)"
  using assms
proof (induction es arbitrary: s)
  case (Cons e es)
  let ?s = "app_step cfg e s"
  have "p < ap_spawned s" using current_process [OF Cons.prems(1,2)] .
  have "ap_process ?s = Some p"
  proof (rule ccontr)
    assume no: "ap_process ?s \<noteq> Some p"
    have "p < ap_spawned ?s" by (rule spawned_less_step [OF \<open>p < ap_spawned s\<close>])
    from spawned_process_steps [OF this no] Cons.prems(4) show False by simp
  qed
  moreover from this have "(p, t) \<in> owned ?s" using owned_step [OF Cons.prems(1-3), of cfg e] Cons.prems(5,6) by auto
  ultimately show ?case using Cons.IH [OF app_inv_step [OF Cons.prems(1)]] Cons.prems(4-6) by simp
qed simp

text \<open>C30: The thread of a late answer is not lost. When the reader records an answer to \<^verbatim>\<open>thread/start\<close> or
  \<^verbatim>\<open>thread/resume\<close>, the adapter owns the thread from then on, whether the caller is still waiting or has timed out;
  it stays so through everything the other threads do as long as the connection lasts and no release of this very
  thread succeeds. The thread of an abandoned request is put where the cleanup finds it, unless it is claimed.\<close>

theorem late_thread_is_owned:
  assumes "app_inv s" "ap_process s = Some p" "ap_phase s p = Settled i" "ap_request s i = Some r"
    and "started_thread r = Some t" "Dropped t \<notin> set es" "Forgotten p t \<notin> set es"
    and "ap_process (app_steps cfg (ReaderStep p # es) s) = Some p"
  shows "owns_thread (app_steps cfg (ReaderStep p # es) s) t \<and>
    (ar_abandoned r \<longrightarrow> (p, t) \<in> ap_claimed s \<or> (p, t) \<in> ap_abandoned (app_step cfg (ReaderStep p) s))"
proof -
  let ?s = "reader_step p s"
  have s: "?s = (if ar_abandoned r then remove_pending i (own_thread p r s\<lparr>ap_phase := (ap_phase s)(p := Idle)\<rparr>)
      else own_thread p r s\<lparr>ap_phase := (ap_phase s)(p := Idle)\<rparr>)"
    by (simp add: reader_step_def assms(3,4) Let_def)
  have "(p, t) \<in> owned ?s" and late: "ar_abandoned r \<longrightarrow> (p, t) \<in> ap_claimed s \<or> (p, t) \<in> ap_abandoned ?s"
    by (auto simp: s own_thread_def assms(5) owned_def remove_pending_def)
  moreover have "ap_process ?s = Some p" by (simp add: s assms(2) remove_pending_def)
  ultimately have "(p, t) \<in> owned (app_steps cfg es ?s)"
    using owned_steps [OF app_inv_reader [OF assms(1)], of p p t cfg es] assms(6-8) by simp
  with late assms(8) show ?thesis by (simp add: owns_thread_def owned_def Un_iff)
qed

definition demo_thread :: app_request where
  "demo_thread = (new_request ''thread/start'' [] 0 False)\<lparr>ar_abandoned := True, ar_done := True,
     ar_result := JObj [(''thread'', JObj [(''id'', JStr [116])])]\<rparr>"

definition demo_late :: app_server where
  "demo_late = (spawn_process new_app_server)\<lparr>ap_pending := [1], ap_next := 2, ap_request := [1 \<mapsto> demo_thread],
     ap_phase := (\<lambda>q. if q = 0 then Settled 1 else Idle)\<rparr>"

lemma demo_late_inv: "app_inv demo_late"
  by (simp add: app_inv_def table_ok_def threads_ok_def workers_ok_def demo_late_def spawn_process_def new_app_server_def
      request_process_def demo_thread_def new_request_def Let_def fun_eq_iff)

theorem late_thread_is_owned_witness:
  "owns_thread (app_steps demo_app_config [ReaderStep 0, Dropped [120], ProcessExits 0] demo_late) [116]"
proof -
  have at: "ap_process demo_late = Some 0" "ap_phase demo_late 0 = Settled 1" "ap_request demo_late 1 = Some demo_thread"
    "started_thread demo_thread = Some [116]"
    by (simp_all add: demo_late_def demo_thread_def spawn_process_def new_app_server_def Let_def started_thread_def new_request_def)
  have "ap_process (app_steps demo_app_config [ReaderStep 0, Dropped [120], ProcessExits 0] demo_late) = Some 0"
    using at by (simp add: reader_step_def drop_thread_def remove_pending_def Let_def split: option.split)
  with late_thread_is_owned [OF demo_late_inv at, of "[Dropped [120], ProcessExits 0]" demo_app_config] show ?thesis by simp
qed

end
