(* ===== verification/AppServerWaits.thy ===== *)
theory AppServerWaits
  imports AppServerClaims
begin

text \<open>
  The waiting side of the adapter: a caller is woken when its connection ends, and a question of the App Server is
  given to the handler of one call or refused.
\<close>

section \<open>Waking\<close>

definition waits :: "int \<Rightarrow> nat \<Rightarrow> app_server \<Rightarrow> bool" where
  "waits i p s \<longleftrightarrow>
     (\<exists>r. ap_request s i = Some r \<and> ar_process r = p \<and>
        (ar_done r \<or> \<not> ar_abandoned r \<and> i \<in> set (ap_pending s) \<and> ap_process s = Some p))"

lemma waits_plain [simp]:
  "waits i p (s\<lparr>ap_phase := x\<rparr>) = waits i p s" "waits i p (s\<lparr>ap_sent := y\<rparr>) = waits i p s"
  by (simp_all add: waits_def)

text \<open>What an operation does to the request of another caller.\<close>

definition undisturbed :: "int \<Rightarrow> app_server \<Rightarrow> app_server \<Rightarrow> bool" where
  "undisturbed i s s' \<longleftrightarrow>
     (\<forall>r. ap_request s i = Some r \<longrightarrow> (\<exists>r'. ap_request s' i = Some r' \<and> ar_process r' = ar_process r \<and>
        (ar_done r \<longrightarrow> ar_done r') \<and> ar_abandoned r' = ar_abandoned r)) \<and>
     (i \<in> set (ap_pending s) \<longrightarrow> i \<in> set (ap_pending s')) \<and> ap_process s' = ap_process s"


lemma undisturbed_refl [simp]: "undisturbed i s s"
  by (simp add: undisturbed_def)



























section \<open>Questions of the App Server\<close>

lemma matching_asks:
  "i \<in> set (matching_pending_calls m p s) \<longleftrightarrow> i \<in> set (ap_pending s) \<and> (\<exists>r. ap_request s i = Some r \<and> asks_about m p r)"
  by (auto simp: matching_pending_calls_def asks_about_def split: option.splits)

definition refused :: "dict \<Rightarrow> nat \<Rightarrow> app_server \<Rightarrow> app_server \<Rightarrow> bool" where
  "refused m p s s' \<longleftrightarrow> ap_workers s' = ap_workers s \<and>
     ((\<exists>code reason. ap_sent s' = ap_sent s @ [(p, rpc_error_reply m code reason)]) \<or>
      ap_sent s' = ap_sent s \<and>
        (ap_process s \<noteq> Some p \<or> p \<notin> ap_alive s \<or> p \<in> ap_broken s \<or> ap_pool s \<noteq> Some p \<or> p \<in> ap_retired s \<or> ap_phase s' p = Ended))"

lemma refused_reply:
  assumes "ap_workers x = ap_workers s" "ap_sent x = ap_sent s" "ap_process x = ap_process s" "ap_alive x = ap_alive s"
    "ap_broken x = ap_broken s"
  shows "refused m p s (reply_error m c t p x)"
  using assms by (cases rule: reply_error_cases [of m c t p x])
    (auto simp: refused_def read_end_def close_if_current_def Let_def)

text \<open>The state once the question is noted with the calls it may be about, and when it gets a worker of call \<open>i\<close>.\<close>

definition asked_state :: "dict \<Rightarrow> nat \<Rightarrow> app_server \<Rightarrow> app_server" where
  "asked_state m p s = add_interactions (matching_pending_calls m p s) (interaction_of m) s"

definition gets_worker :: "dict \<Rightarrow> nat \<Rightarrow> app_server \<Rightarrow> int \<Rightarrow> bool" where
  "gets_worker m p s i \<longleftrightarrow>
     map_of m ''method'' = Some (jlit ''mcpServer/elicitation/request'') \<and> matching_pending_calls m p s = [i] \<and>
     has_handler (asked_state m p s) i \<and> ap_pool s = Some p \<and> p \<notin> ap_retired s \<and>
     \<not> max_server_requests \<le> ap_slots (asked_state m p s) p \<and> ap_can_thread (asked_state m p s)"

lemma asked_state_fields:
  "ap_workers (asked_state m p s) = ap_workers s" "ap_sent (asked_state m p s) = ap_sent s"
  "ap_process (asked_state m p s) = ap_process s" "ap_alive (asked_state m p s) = ap_alive s"
  "ap_broken (asked_state m p s) = ap_broken s" "ap_pool (asked_state m p s) = ap_pool s"
  "ap_retired (asked_state m p s) = ap_retired s"
  by (simp_all add: asked_state_def)

lemma asked_replies:
  "refused m p s (reply_error m c t p (asked_state m p s))"
  "refused m p s (reply_error m c t p (set_interaction i n k v (asked_state m p s)))"
  by (rule refused_reply; simp add: asked_state_fields)+

lemma asked_gone: "ap_pool s \<noteq> Some p \<or> p \<in> ap_retired s \<Longrightarrow> refused m p s (asked_state m p s)"
  by (auto simp: refused_def asked_state_fields)

lemma request_gets_worker:
  assumes "gets_worker m p s i"
  shows "ap_workers (handle_server_request m p s) = ap_workers s @
    [\<lparr>wk_message = m, wk_request = i, wk_index = last_interaction (asked_state m p s) i, wk_process = p, wk_running = False\<rparr>]"
  using assms unfolding handle_server_request_def Let_def asked_state_def [symmetric]
  by (simp add: gets_worker_def asked_state_fields)

lemma request_refused:
  assumes "\<nexists>i. gets_worker m p s i"
  shows "refused m p s (handle_server_request m p s)"
proof (cases "map_of m ''method'' = Some (jlit ''mcpServer/elicitation/request'') \<and> (\<exists>i. matching_pending_calls m p s = [i])")
  case True
  then obtain i where i: "map_of m ''method'' = Some (jlit ''mcpServer/elicitation/request'')" "matching_pending_calls m p s = [i]"
    by blast
  with assms have "\<not> has_handler (asked_state m p s) i \<or> ap_pool s \<noteq> Some p \<or> p \<in> ap_retired s \<or>
      max_server_requests \<le> ap_slots (asked_state m p s) p \<or> \<not> ap_can_thread (asked_state m p s)"
    unfolding gets_worker_def by blast
  then show ?thesis
    unfolding handle_server_request_def Let_def asked_state_def [symmetric]
    using i asked_gone [of s p m] by (auto simp: asked_replies asked_state_fields)
next
  case False
  then show ?thesis
    unfolding handle_server_request_def Let_def asked_state_def [symmetric]
    by (auto simp: asked_replies split: list.split)
qed

lemma worker_is_the_callers:
  assumes "gets_worker m p s i"
  obtains r where "i \<in> set (ap_pending s)" "ap_request s i = Some r" "asks_about m p r" "ar_handler r"
    "\<forall>j \<in> set (ap_pending s). \<forall>q. ap_request s j = Some q \<and> asks_about m p q \<longrightarrow> j = i"
proof -
  have only: "j \<in> set (ap_pending s) \<and> (\<exists>q. ap_request s j = Some q \<and> asks_about m p q) \<longleftrightarrow> j = i" for j
    using matching_asks [of j m p s] assms by (simp add: gets_worker_def)
  then obtain r where r: "i \<in> set (ap_pending s)" "ap_request s i = Some r" "asks_about m p r" by blast
  moreover have "ar_handler r"
    using assms r(2) by (auto simp: gets_worker_def has_handler_def asked_state_def add_interactions_def split: if_splits)
  ultimately show thesis using that only by blast
qed

text \<open>C32: A question of the App Server reaches only the call it is about. A request of the server gets a worker only when
  it is an elicitation and exactly one pending call of a tool was sent to the same process, for the thread and the
  MCP server it names, and that call has a handler; there are never more than eight workers for a process. In every
  other case the server gets an error reply with the number of its request, unless the connection is gone or ends.\<close>

theorem elicitation_reaches_only_its_call:
  assumes "app_inv s"
  shows "refused m p s (handle_server_request m p s) \<or>
    (\<exists>i r w. ap_workers (handle_server_request m p s) = ap_workers s @ [w] \<and> wk_message w = m \<and> wk_request w = i \<and> wk_process w = p \<and>
       map_of m ''method'' = Some (jlit ''mcpServer/elicitation/request'') \<and> ap_pool s = Some p \<and>
       i \<in> set (ap_pending s) \<and> ap_request s i = Some r \<and> asks_about m p r \<and> ar_handler r \<and>
       (\<forall>j \<in> set (ap_pending s). \<forall>q. ap_request s j = Some q \<and> asks_about m p q \<longrightarrow> j = i) \<and>
       length (workers_of p (ap_workers (handle_server_request m p s))) \<le> 8)"
proof (cases "\<exists>i. gets_worker m p s i")
  case True
  then obtain i where i: "gets_worker m p s i" ..
  then obtain r where r: "i \<in> set (ap_pending s)" "ap_request s i = Some r" "asks_about m p r" "ar_handler r"
    "\<forall>j \<in> set (ap_pending s). \<forall>q. ap_request s j = Some q \<and> asks_about m p q \<longrightarrow> j = i"
    by (rule worker_is_the_callers)
  have eight: "length (workers_of p (ap_workers (handle_server_request m p s))) \<le> 8"
    using app_inv_handle [OF assms, of m p] by (simp add: app_inv_def workers_ok_def max_server_requests_def)
  have pool: "map_of m ''method'' = Some (jlit ''mcpServer/elicitation/request'')" "ap_pool s = Some p"
    using i by (simp_all add: gets_worker_def)
  show ?thesis
    by (rule disjI2, rule exI [of _ i], rule exI [of _ r], rule exI, intro conjI, rule request_gets_worker [OF i])
      (simp, simp, simp, rule pool, rule pool, rule r, rule r, rule r, rule r, rule r, rule eight)
qed (simp add: request_refused)

definition demo_app_call :: app_server where
  "demo_app_call = (spawn_process new_app_server)\<lparr>ap_pending := [1], ap_next := 2, ap_request := [1 \<mapsto>
     new_request ''mcpServer/tool/call'' [(''threadId'', JStr [116]), (''server'', JStr [115])] 0 True]\<rparr>"

definition demo_question :: "ustr \<Rightarrow> dict" where
  "demo_question t = [(''id'', JInt 5), (''method'', jlit ''mcpServer/elicitation/request''),
     (''params'', JObj [(''threadId'', JStr t), (''serverName'', JStr [115])])]"

theorem elicitation_reaches_only_its_call_witness:
  "refused (demo_question [120]) 0 demo_app_call (handle_server_request (demo_question [120]) 0 demo_app_call)"
proof -
  have inv: "app_inv demo_app_call"
    by (simp add: app_inv_def table_ok_def threads_ok_def workers_ok_def demo_app_call_def spawn_process_def new_app_server_def
        request_process_def new_request_def Let_def fun_eq_iff)
  have "\<not> asks_about (demo_question [120]) 0 r" if "ap_request demo_app_call i = Some r" for i r
    using that by (auto simp: asks_about_def question_target_def demo_question_def demo_app_call_def new_request_def
        spawn_process_def new_app_server_def Let_def split: if_splits)
  with elicitation_reaches_only_its_call [OF inv, of "demo_question [120]" 0] show ?thesis by metis
qed

end
