(* ===== verification/CodeMap.thy ===== *)
theory CodeMap
  imports FileRead SearchGrep
begin

text \<open>
  Code maps (\<^verbatim>\<open>code_map.py\<close>): the symbols and the imports of the source files below a path, and the references of a
  symbol. \<^verbatim>\<open>ast.parse\<close> is an argument that gives the syntax tree or the line and the message of a \<^verbatim>\<open>SyntaxError\<close>;
  a tree keeps what the visitors look at, with the children of a node in the order of its fields. The regular
  expressions for JavaScript and TypeScript are matched by a backtracking matcher for the constructs they use; whether a
  character is a word character is an argument.
\<close>

section \<open>Source files\<close>

definition language_extensions :: "ustr \<Rightarrow> ustr list option" where
  "language_extensions language =
     (if language = u ''python'' then Some [u ''.py'']
      else if language = u ''typescript'' then Some [u ''.ts'', u ''.tsx'']
      else if language = u ''javascript'' then Some [u ''.js'', u ''.jsx'', u ''.mjs'', u ''.cjs'']
      else None)"

definition validate_language :: "ustr \<Rightarrow> dict option" where
  "validate_language language =
     (if language_extensions language = None
      then Some (tool_error ''unsupported_language'' (u ''language must be one of: python, typescript, javascript.'')
        [(''language'', JStr language)])
      else None)"

definition validate_limit :: "int \<Rightarrow> dict option" where
  "validate_limit limit =
     (if limit < 1
      then Some (tool_error ''invalid_arguments'' (u ''limit must be greater than or equal to 1.'') [(''limit'', JInt limit)])
      else None)"

datatype source_root = NoPath | OtherPath | OneFile | Folder "(ustr \<times> tree) list"

definition validate_path :: "path \<Rightarrow> source_root \<Rightarrow> dict option" where
  "validate_path p r =
     (case r of
        NoPath \<Rightarrow> Some (tool_error ''path_not_found'' (u ''Path not found: '' @ path_text p) [(''path'', JStr (path_text p))])
      | OtherPath \<Rightarrow> Some (tool_error ''unsupported_path''
          (u ''Path is not a regular file or directory: '' @ path_text p) [(''path'', JStr (path_text p))])
      | _ \<Rightarrow> None)"

definition is_source_file :: "ustr list \<Rightarrow> path \<Rightarrow> bool" where
  "is_source_file extensions p \<longleftrightarrow> path_suffix p \<in> set extensions"

definition visible :: "ustr \<Rightarrow> bool" where
  "visible name \<longleftrightarrow> \<not> startswith name [46]"

function walk_sources :: "ustr list \<Rightarrow> path \<Rightarrow> (ustr \<times> tree) list \<Rightarrow> path list" where
  "walk_sources extensions p entries =
     (let dirs = sort_key fst (filter (\<lambda>(n, t). is_directory t \<and> visible n \<and> n \<notin> set default_exclude_dir_names) entries);
          files = sort_key fst (filter (\<lambda>(n, t). \<not> is_directory t \<and> visible n \<and> is_source_file extensions (p @ [n])) entries) in
      map (\<lambda>(n, t). p @ [n]) files @ concat (map (\<lambda>(n, t). walk_sources extensions (p @ [n]) (children t)) dirs))"
  by auto
termination
  by (relation "measure (\<lambda>(e, p, es). size_list (size_prod (\<lambda>x. 0) size) es)") (auto dest: child_smaller)

declare walk_sources.simps [simp del]

definition iter_source_files :: "ustr list \<Rightarrow> path \<Rightarrow> source_root \<Rightarrow> path list" where
  "iter_source_files extensions p r =
     (case r of
        OneFile \<Rightarrow> (if is_source_file extensions p then [p] else [])
      | Folder entries \<Rightarrow> walk_sources extensions p entries
      | _ \<Rightarrow> [])"

definition source_text :: "(path \<Rightarrow> bytes option) \<Rightarrow> path \<Rightarrow> ustr option" where
  "source_text content p = (case content p of None \<Rightarrow> None | Some raw \<Rightarrow> read_text raw)"

section \<open>Python\<close>

datatype py_node =
    ClassDef ustr nat "py_node list"
  | FunctionDef bool ustr nat "py_node list"
  | ImportNode "ustr list"
  | ImportFrom nat ustr "ustr list"
  | OtherNode "py_node list"

type_synonym py_parser = "ustr \<Rightarrow> json \<times> ustr + py_node"

fun node_children :: "py_node \<Rightarrow> py_node list" where
  "node_children (ClassDef n l cs) = cs"
| "node_children (FunctionDef a n l cs) = cs"
| "node_children (OtherNode cs) = cs"
| "node_children n = []"

record symbol_visitor =
  vi_symbols :: "(ustr \<times> string \<times> nat) list"
  vi_class_depth :: nat
  vi_function_depth :: nat

definition add_symbol :: "ustr \<Rightarrow> string \<Rightarrow> nat \<Rightarrow> symbol_visitor \<Rightarrow> symbol_visitor" where
  "add_symbol name kind line v = v\<lparr>vi_symbols := vi_symbols v @ [(name, kind, line)]\<rparr>"

definition function_kind :: "bool \<Rightarrow> symbol_visitor \<Rightarrow> string" where
  "function_kind async v =
     (if 0 < vi_class_depth v \<and> vi_function_depth v = 0 then ''method''
      else if async then ''async_function'' else ''function'')"

text \<open>\<^verbatim>\<open>visit\<close>, and \<^verbatim>\<open>generic_visit\<close> as the visit of all children.\<close>

fun visit_node :: "py_node \<Rightarrow> symbol_visitor \<Rightarrow> symbol_visitor" and visit_nodes :: "py_node list \<Rightarrow> symbol_visitor \<Rightarrow> symbol_visitor" where
  "visit_node (ClassDef name line cs) v =
     (let v1 = add_symbol name ''class'' line v;
          v2 = visit_nodes cs (v1\<lparr>vi_class_depth := vi_class_depth v1 + 1\<rparr>) in
      v2\<lparr>vi_class_depth := vi_class_depth v2 - 1\<rparr>)"
| "visit_node (FunctionDef async name line cs) v =
     (let v1 = add_symbol name (function_kind async v) line v;
          v2 = visit_nodes cs (v1\<lparr>vi_function_depth := vi_function_depth v1 + 1\<rparr>) in
      v2\<lparr>vi_function_depth := vi_function_depth v2 - 1\<rparr>)"
| "visit_node (OtherNode cs) v = visit_nodes cs v"
| "visit_node (ImportNode names) v = v"
| "visit_node (ImportFrom level module names) v = v"
| "visit_nodes [] v = v"
| "visit_nodes (n # ns) v = visit_nodes ns (visit_node n v)"

definition symbol_json :: "path \<Rightarrow> ustr \<times> string \<times> nat \<Rightarrow> json" where
  "symbol_json p s =
     (case s of (name, kind, line) \<Rightarrow>
        JObj [(''name'', JStr name), (''kind'', jlit kind), (''file'', JStr (path_text p)), (''line'', jnat line)])"

definition syntax_error :: "path \<Rightarrow> json \<times> ustr \<Rightarrow> json" where
  "syntax_error p e = JObj [(''file'', JStr (path_text p)), (''line'', fst e), (''message'', JStr (snd e))]"

definition python_symbols :: "py_parser \<Rightarrow> path \<Rightarrow> ustr \<Rightarrow> json list \<times> json option" where
  "python_symbols parse p text =
     (case parse text of
        Inl e \<Rightarrow> ([], Some (syntax_error p e))
      | Inr t \<Rightarrow>
          (map (symbol_json p) (vi_symbols (visit_node t \<lparr>vi_symbols = [], vi_class_depth = 0, vi_function_depth = 0\<rparr>)), None))"

text \<open>\<^verbatim>\<open>ast.walk\<close>: breadth first.\<close>

function walk_nodes :: "py_node list \<Rightarrow> py_node list" where
  "walk_nodes [] = []"
| "walk_nodes (n # ns) = n # walk_nodes (ns @ node_children n)"
  by pat_completeness auto
termination
proof (relation "measure (size_list size)")
  have "size_list size (node_children n) \<le> size n" for n by (cases n) simp_all
  then show "(ns @ node_children n, n # ns) \<in> measure (size_list size)" for n ns by (simp add: less_Suc_eq_le)
qed simp

definition append_unique :: "ustr list \<Rightarrow> ustr \<Rightarrow> ustr list" where
  "append_unique items v = (if v \<noteq> [] \<and> v \<notin> set items then items @ [v] else items)"

definition imported_name :: "nat \<Rightarrow> ustr \<Rightarrow> ustr \<Rightarrow> ustr" where
  "imported_name level from_module name =
     (let module = replicate level 46 @ from_module in
      if name = [42] then (if module \<noteq> [] then module @ u ''.*'' else u ''*'')
      else if module \<noteq> [] then module @ (if last module = 46 then [] else [46]) @ name
      else replicate level 46 @ name)"

definition node_imports :: "py_node \<Rightarrow> ustr list" where
  "node_imports n =
     (case n of
        ImportNode names \<Rightarrow> names
      | ImportFrom level module names \<Rightarrow> map (imported_name level module) names
      | _ \<Rightarrow> [])"

definition python_imports :: "py_parser \<Rightarrow> path \<Rightarrow> ustr \<Rightarrow> ustr list \<times> json option" where
  "python_imports parse p text =
     (case parse text of
        Inl e \<Rightarrow> ([], Some (syntax_error p e))
      | Inr t \<Rightarrow> (foldl append_unique [] (concat (map node_imports (walk_nodes [t]))), None))"

section \<open>JavaScript and TypeScript\<close>

text \<open>
  The patterns use texts, classes of characters, repetitions of one class (at least so often, greedy or lazy), word
  boundaries, alternatives and one group.
\<close>

datatype rx =
    Lit ustr
  | OneOf "nat \<Rightarrow> bool"
  | Repeat "nat \<Rightarrow> bool" nat bool
  | WordBound
  | Alt rx rx
  | Then rx rx
  | Group rx

definition rep_counts :: "(nat \<Rightarrow> bool) \<Rightarrow> nat \<Rightarrow> bool \<Rightarrow> ustr \<Rightarrow> nat list" where
  "rep_counts p least eager s =
     (let ns = [least..<Suc (length (takeWhile p s))] in if eager then rev ns else ns)"

text \<open>The lengths and groups of all matches at the start of the text, in the order of backtracking.\<close>

fun rx_match :: "(nat \<Rightarrow> bool) \<Rightarrow> rx \<Rightarrow> nat option \<Rightarrow> ustr \<Rightarrow> (nat \<times> ustr option) list" where
  "rx_match is_word (Lit t) prev s = (if startswith s t then [(length t, None)] else [])"
| "rx_match is_word (OneOf p) prev s = (case s of [] \<Rightarrow> [] | c # _ \<Rightarrow> if p c then [(1, None)] else [])"
| "rx_match is_word (Repeat p least eager) prev s = map (\<lambda>n. (n, None)) (rep_counts p least eager s)"
| "rx_match is_word WordBound prev s =
     (let left_word = (case prev of None \<Rightarrow> False | Some c \<Rightarrow> is_word c);
          right_word = (case s of [] \<Rightarrow> False | c # _ \<Rightarrow> is_word c) in
      if left_word \<noteq> right_word then [(0, None)] else [])"
| "rx_match is_word (Alt a b) prev s = rx_match is_word a prev s @ rx_match is_word b prev s"
| "rx_match is_word (Then a b) prev s =
     concat (map (\<lambda>(n, g). map (\<lambda>(k, h). (n + k, if h = None then g else h))
       (rx_match is_word b (if n = 0 then prev else Some (s ! (n - 1))) (drop n s))) (rx_match is_word a prev s))"
| "rx_match is_word (Group a) prev s = map (\<lambda>(n, g). (n, Some (take n s))) (rx_match is_word a prev s)"

text \<open>The groups of \<^verbatim>\<open>finditer\<close>; the patterns do not match the empty text.\<close>

fun find_groups :: "nat \<Rightarrow> (nat \<Rightarrow> bool) \<Rightarrow> rx \<Rightarrow> nat option \<Rightarrow> ustr \<Rightarrow> ustr list" where
  "find_groups 0 is_word r prev s = []"
| "find_groups (Suc fuel) is_word r prev s =
     (case s of
        [] \<Rightarrow> []
      | c # cs \<Rightarrow>
          (case rx_match is_word r prev s of
             (Suc n, g) # _ \<Rightarrow>
               (case g of None \<Rightarrow> [] | Some t \<Rightarrow> [t]) @ find_groups fuel is_word r (Some (s ! n)) (drop (Suc n) s)
           | _ \<Rightarrow> find_groups fuel is_word r (Some c) cs))"

definition groups_in :: "(nat \<Rightarrow> bool) \<Rightarrow> rx \<Rightarrow> ustr \<Rightarrow> ustr list" where
  "groups_in is_word r line = find_groups (length line) is_word r None line"

definition rx_seq :: "rx list \<Rightarrow> rx" where
  "rx_seq rs = foldr Then rs (Lit [])"

definition rx_opt :: "rx \<Rightarrow> rx" where
  "rx_opt r = Alt r (Lit [])"

definition rx_spaces :: rx where
  "rx_spaces = Repeat is_space 1 True"

definition opt_spaces :: rx where
  "opt_spaces = Repeat is_space 0 True"

definition ident_start :: "nat \<Rightarrow> bool" where
  "ident_start c \<longleftrightarrow> 65 \<le> c \<and> c \<le> 90 \<or> 97 \<le> c \<and> c \<le> 122 \<or> c = 95 \<or> c = 36"

definition js_identifier :: rx where
  "js_identifier = Then (OneOf ident_start) (Repeat (\<lambda>c. ident_start c \<or> 48 \<le> c \<and> c \<le> 57) 0 True)"

definition js_export :: rx where
  "js_export =
     rx_opt (Alt (rx_seq [Lit (u ''export''), rx_spaces, Lit (u ''default''), rx_spaces])
       (rx_seq [Lit (u ''export''), rx_spaces]))"

definition js_symbol_patterns :: "(string \<times> rx) list" where
  "js_symbol_patterns =
     [(''class'', rx_seq [WordBound, js_export, Lit (u ''class''), rx_spaces, Group js_identifier]),
      (''function'', rx_seq [WordBound, js_export, rx_opt (rx_seq [Lit (u ''async''), rx_spaces]),
         Lit (u ''function''), rx_spaces, Group js_identifier]),
      (''constant'', rx_seq [WordBound, rx_opt (rx_seq [Lit (u ''export''), rx_spaces]), Lit (u ''const''), rx_spaces,
         Group js_identifier, opt_spaces, Lit (u ''='')])]"

definition is_quote :: "nat \<Rightarrow> bool" where
  "is_quote c \<longleftrightarrow> c = 39 \<or> c = 34"

definition quoted_module :: rx where
  "quoted_module = rx_seq [OneOf is_quote, Group (Repeat (\<lambda>c. \<not> is_quote c) 1 True), OneOf is_quote]"

definition js_import_from :: rx where
  "js_import_from =
     rx_seq [WordBound, Lit (u ''import''), rx_spaces, Repeat (\<lambda>c. c \<noteq> 10) 1 False, rx_spaces, Lit (u ''from''),
       rx_spaces, quoted_module]"

definition js_import_side_effect :: rx where
  "js_import_side_effect = rx_seq [WordBound, Lit (u ''import''), rx_spaces, quoted_module]"

definition js_require :: rx where
  "js_require = rx_seq [WordBound, Lit (u ''require(''), opt_spaces, quoted_module, opt_spaces, Lit (u '')'')]"

definition line_symbols :: "(nat \<Rightarrow> bool) \<Rightarrow> ustr \<times> nat \<Rightarrow> (ustr \<times> string \<times> nat) list" where
  "line_symbols is_word l =
     concat (map (\<lambda>(kind, r). map (\<lambda>name. (name, kind, snd l)) (groups_in is_word r (fst l))) js_symbol_patterns)"

definition js_symbols :: "(nat \<Rightarrow> bool) \<Rightarrow> path \<Rightarrow> ustr \<Rightarrow> json list" where
  "js_symbols is_word p text =
     (let lines = splitlines text in
      map (symbol_json p) (concat (map (line_symbols is_word) (zip lines [1..<Suc (length lines)]))))"

definition js_imports :: "(nat \<Rightarrow> bool) \<Rightarrow> ustr \<Rightarrow> ustr list" where
  "js_imports is_word text =
     foldl append_unique []
       (concat (map (\<lambda>line. concat (map (\<lambda>r. groups_in is_word r line) [js_import_from, js_import_side_effect, js_require]))
         (splitlines text)))"

section \<open>The maps\<close>

record map_scan =
  cm_items :: "json list"
  cm_errors :: "json list"
  cm_truncated :: bool
  cm_scanned :: nat
  cm_seen :: nat

record map_env =
  me_tok :: "ustr \<Rightarrow> nat"
  me_parse :: py_parser
  me_is_word :: "nat \<Rightarrow> bool"
  me_content :: "path \<Rightarrow> bytes option"
  me_root :: source_root

text \<open>What one file adds to the symbols, or to the imports: the latter as one entry, or none.\<close>

definition file_symbols :: "map_env \<Rightarrow> ustr \<Rightarrow> path \<Rightarrow> ustr \<Rightarrow> json list \<times> json option" where
  "file_symbols env language p text =
     (if language = u ''python'' then python_symbols (me_parse env) p text
      else (js_symbols (me_is_word env) p text, None))"

definition file_imports :: "map_env \<Rightarrow> ustr \<Rightarrow> path \<Rightarrow> ustr \<Rightarrow> json list \<times> json option" where
  "file_imports env language p text =
     (let (imports, parse_error) =
            (if language = u ''python'' then python_imports (me_parse env) p text
             else (js_imports (me_is_word env) text, None)) in
      (if imports = [] then [] else [JObj [(''file'', JStr (path_text p)), (''imports'', JList (map JStr imports))]],
       parse_error))"

definition map_candidate :: "string \<Rightarrow> path \<Rightarrow> ustr \<Rightarrow> nat \<Rightarrow> nat \<Rightarrow> json list \<Rightarrow> json list \<Rightarrow> dict" where
  "map_candidate key p language start scanned errors items =
     [(''success'', JBool True), (''path'', JStr (path_text p)), (''language'', JStr language), (key, JList items),
      (''scanned_files'', jnat scanned), (''errors'', JList errors), (''next_offset'', jnat (start + length items))]"

definition map_fits :: "(ustr \<Rightarrow> nat) \<Rightarrow> response_budget \<Rightarrow> dict \<Rightarrow> bool" where
  "map_fits tok b candidate \<longleftrightarrow> fits (snd (with_budget_metadata tok candidate b True ''token_budget''))"

text \<open>The items of one file: those before the offset are counted, the others are taken while they fit.\<close>

fun add_items :: "(nat \<Rightarrow> json list \<Rightarrow> json list \<Rightarrow> bool) \<Rightarrow> nat \<Rightarrow> int \<Rightarrow> json list \<Rightarrow> map_scan \<Rightarrow> map_scan" where
  "add_items ok start limit [] st = st"
| "add_items ok start limit (x # xs) st =
     (if cm_seen st < start then add_items ok start limit xs (st\<lparr>cm_seen := cm_seen st + 1\<rparr>)
      else if limit \<le> int (length (cm_items st)) then st\<lparr>cm_truncated := True\<rparr>
      else if \<not> ok (cm_scanned st) (cm_errors st) (cm_items st @ [x]) then st\<lparr>cm_truncated := True\<rparr>
      else add_items ok start limit xs (st\<lparr>cm_items := cm_items st @ [x], cm_seen := cm_seen st + 1\<rparr>))"

text \<open>The loop over the files; a syntax error that does not fit the page is left out again.\<close>

fun scan_sources ::
  "(nat \<Rightarrow> json list \<Rightarrow> json list \<Rightarrow> bool) \<Rightarrow> (path \<Rightarrow> ustr option) \<Rightarrow> (path \<Rightarrow> ustr \<Rightarrow> json list \<times> json option)
   \<Rightarrow> nat \<Rightarrow> int \<Rightarrow> path list \<Rightarrow> map_scan \<Rightarrow> map_scan" where
  "scan_sources ok read extract start limit [] st = st"
| "scan_sources ok read extract start limit (p # ps) st =
     (let st = st\<lparr>cm_scanned := cm_scanned st + 1\<rparr> in
      case read p of
        None \<Rightarrow> scan_sources ok read extract start limit ps st
      | Some text \<Rightarrow>
          let (items, parse_error) = extract p text;
              errors = cm_errors st @ (case parse_error of None \<Rightarrow> [] | Some e \<Rightarrow> [e]) in
          if errors \<noteq> [] \<and> \<not> ok (cm_scanned st) errors (cm_items st) then st\<lparr>cm_truncated := True\<rparr>
          else
            let st = add_items ok start limit items (st\<lparr>cm_errors := errors\<rparr>) in
            if cm_truncated st then st else scan_sources ok read extract start limit ps st)"

definition empty_scan :: map_scan where
  "empty_scan = \<lparr>cm_items = [], cm_errors = [], cm_truncated = False, cm_scanned = 0, cm_seen = 0\<rparr>"

definition map_page ::
  "map_env \<Rightarrow> string \<Rightarrow> (path \<Rightarrow> ustr \<Rightarrow> json list \<times> json option) \<Rightarrow> response_budget \<Rightarrow> path \<Rightarrow> ustr \<Rightarrow> int \<Rightarrow> nat \<Rightarrow> map_scan" where
  "map_page env key extract b p language limit start =
     scan_sources (\<lambda>scanned errors items. map_fits (me_tok env) b (map_candidate key p language start scanned errors items))
       (source_text (me_content env)) extract start limit
       (iter_source_files (case language_extensions language of Some es \<Rightarrow> es | None \<Rightarrow> []) p (me_root env)) empty_scan"

definition map_stop_reason :: "int \<Rightarrow> map_scan \<Rightarrow> string" where
  "map_stop_reason limit st =
     (if cm_truncated st \<and> int (length (cm_items st)) < limit then ''token_budget''
      else if cm_truncated st then ''limit'' else ''end_of_results'')"

definition map_payload :: "string \<Rightarrow> path \<Rightarrow> ustr \<Rightarrow> nat \<Rightarrow> map_scan \<Rightarrow> dict" where
  "map_payload key p language start st =
     [(''success'', JBool True), (''path'', JStr (path_text p)), (''language'', JStr language),
      (key, JList (cm_items st)), (''truncated'', JBool (cm_truncated st)), (''scanned_files'', jnat (cm_scanned st)),
      (''errors'', JList (cm_errors st)),
      (''next_offset'', if cm_truncated st then jnat (start + length (cm_items st)) else JNull)]"

definition map_arguments_error :: "map_env \<Rightarrow> path \<Rightarrow> ustr \<Rightarrow> int \<Rightarrow> dict option" where
  "map_arguments_error env p language limit =
     (case validate_language language of
        Some e \<Rightarrow> Some e
      | None \<Rightarrow> (case validate_limit limit of Some e \<Rightarrow> Some e | None \<Rightarrow> validate_path p (me_root env)))"

definition map_reply ::
  "map_env \<Rightarrow> string \<Rightarrow> (path \<Rightarrow> ustr \<Rightarrow> json list \<times> json option) \<Rightarrow> response_budget \<Rightarrow> path \<Rightarrow> ustr \<Rightarrow> int \<Rightarrow> int \<Rightarrow> dict" where
  "map_reply env key extract b p language limit offset =
     (case map_arguments_error env p language limit of
        Some e \<Rightarrow> e
      | None \<Rightarrow>
          let start = nat (max offset 0); st = map_page env key extract b p language limit start in
          fst (with_budget_metadata (me_tok env) (map_payload key p language start st) b (cm_truncated st)
            (map_stop_reason limit st)))"

definition code_map_symbols :: "map_env \<Rightarrow> response_budget \<Rightarrow> path \<Rightarrow> ustr \<Rightarrow> int \<Rightarrow> int \<Rightarrow> dict" where
  "code_map_symbols env b p language limit offset =
     map_reply env ''symbols'' (file_symbols env language) b p language limit offset"

definition code_map_imports :: "map_env \<Rightarrow> response_budget \<Rightarrow> path \<Rightarrow> ustr \<Rightarrow> int \<Rightarrow> int \<Rightarrow> dict" where
  "code_map_imports env b p language limit offset =
     map_reply env ''imports'' (file_imports env language) b p language limit offset"

section \<open>References\<close>

text \<open>\<^verbatim>\<open>re.escape\<close>.\<close>

definition re_special :: "nat set" where
  "re_special = set (u ''()[]{}?*+-|^$.&~# '' @ [92, 9, 10, 13, 11, 12])"

definition re_escape :: "ustr \<Rightarrow> ustr" where
  "re_escape s = concat (map (\<lambda>c. if c \<in> re_special then [92, c] else [c]) s)"

definition reference_pattern :: "ustr \<Rightarrow> ustr" where
  "reference_pattern symbol = u ''(?<![A-Za-z0-9_])'' @ re_escape symbol @ u ''(?![A-Za-z0-9_])''"

definition reference_request :: "ustr \<Rightarrow> ustr option \<Rightarrow> int \<Rightarrow> int \<Rightarrow> grep_request" where
  "reference_request symbol glob limit offset =
     (search_request (u ''rg'') (reference_pattern symbol) glob limit offset
       \<lparr>sf_hidden = False, sf_gitignore = True, sf_patterns = []\<rparr>)\<lparr>gr_fixed := False\<rparr>"

definition reference_json :: "json \<Rightarrow> json list" where
  "reference_json m =
     (case m of
        JObj d \<Rightarrow> [JObj [(''file'', get_or_null d ''path''), (''line'', get_or_null d ''line_number''), (''text'', get_or_null d ''line'')]]
      | _ \<Rightarrow> [])"

definition code_map_references ::
  "grep_env \<Rightarrow> (ustr option \<Rightarrow> ustr) \<Rightarrow> (ustr list \<Rightarrow> path \<Rightarrow> rg_spawn) \<Rightarrow> response_budget \<Rightarrow> list_world \<Rightarrow> bool
   \<Rightarrow> path \<Rightarrow> ustr \<Rightarrow> ustr option \<Rightarrow> int \<Rightarrow> int \<Rightarrow> dict" where
  "code_map_references env show_type spawn b w file p symbol glob limit offset =
     (let name = strip symbol in
      if name = [] then tool_error ''invalid_arguments'' (u ''symbol must be a non-empty string.'') []
      else
        (case validate_limit limit of
           Some e \<Rightarrow> e
         | None \<Rightarrow>
             let result = grep_files env show_type spawn b w file (reference_request name glob limit offset) p in
             if map_of result ''success'' \<noteq> Some (JBool True) then result
             else
               let truncated = \<not> json_falsy (get_or_null result ''truncated'') in
               fst (with_budget_metadata (ge_tok env)
                 [(''success'', JBool True), (''path'', JStr (path_text p)), (''symbol'', JStr name),
                  (''glob'', case glob of None \<Rightarrow> JNull | Some g \<Rightarrow> JStr g),
                  (''references'', JList (case get_or_null result ''matches'' of
                     JList ms \<Rightarrow> concat (map reference_json ms) | _ \<Rightarrow> [])),
                  (''truncated'', JBool truncated), (''next_offset'', get_or_null result ''next_offset'')]
                 b truncated (map char_of (reply_stop_reason result)))))"

end
