(* ===== verification/CodeMapProps.thy ===== *)
theory CodeMapProps
  imports CodeMap Paging BudgetProps
begin

text \<open>
  Properties of code maps: the kinds of Python symbols by what encloses them, and the pages of symbols and imports as
  the next entries of one list.
\<close>

section \<open>Kinds of symbols\<close>

text \<open>The symbols of a tree, by whether a class and whether a function is around.\<close>

fun outline :: "bool \<Rightarrow> bool \<Rightarrow> py_node \<Rightarrow> (ustr \<times> string \<times> nat) list" where
  "outline in_class in_function (ClassDef name line cs) =
     (name, ''class'', line) # concat (map (outline True in_function) cs)"
| "outline in_class in_function (FunctionDef async name line cs) =
     (name, if in_class \<and> \<not> in_function then ''method'' else if async then ''async_function'' else ''function'', line) #
     concat (map (outline in_class True) cs)"
| "outline in_class in_function (OtherNode cs) = concat (map (outline in_class in_function) cs)"
| "outline in_class in_function n = []"

lemma visit_outline:
  "visit_node n v = v\<lparr>vi_symbols := vi_symbols v @ outline (0 < vi_class_depth v) (0 < vi_function_depth v) n\<rparr>"
  "visit_nodes ns v =
     v\<lparr>vi_symbols := vi_symbols v @ concat (map (outline (0 < vi_class_depth v) (0 < vi_function_depth v)) ns)\<rparr>"
  by (induction n v and ns v rule: visit_node_visit_nodes.induct)
    (simp_all add: add_symbol_def function_kind_def Let_def)

text \<open>The symbols that \<^verbatim>\<open>code_map_symbols\<close> reports for a Python file are those of its classes and functions in
  the order of the text, however deeply nested: a function is a method exactly when some class and no function
  encloses it. A file that is not Python gives no symbol and its syntax error, with the line of the error.\<close>
theorem python_symbols_by_enclosing_scope:
  "python_symbols parse p text =
     (case parse text of
        Inl e \<Rightarrow> ([], Some (syntax_error p e))
      | Inr t \<Rightarrow> (map (symbol_json p) (outline False False t), None))"
  by (simp add: python_symbols_def visit_outline split: sum.split)

section \<open>Pages\<close>

definition source_items ::
  "(path \<Rightarrow> ustr option) \<Rightarrow> (path \<Rightarrow> ustr \<Rightarrow> json list \<times> json option) \<Rightarrow> path list \<Rightarrow> json list" where
  "source_items rd parse ps =
     concat (map (\<lambda>p. case rd p of None \<Rightarrow> [] | Some t \<Rightarrow> fst (parse p t)) ps)"

definition source_errors ::
  "(path \<Rightarrow> ustr option) \<Rightarrow> (path \<Rightarrow> ustr \<Rightarrow> json list \<times> json option) \<Rightarrow> path list \<Rightarrow> json list" where
  "source_errors rd parse ps =
     concat (map (\<lambda>p. case rd p of None \<Rightarrow> [] | Some t \<Rightarrow> (case snd (parse p t) of None \<Rightarrow> [] | Some e \<Rightarrow> [e])) ps)"

text \<open>The scan has passed exactly the given items.\<close>

definition passed :: "nat \<Rightarrow> json list \<Rightarrow> map_scan \<Rightarrow> bool" where
  "passed start xs st \<longleftrightarrow> cm_items st = drop start xs \<and> cm_seen st = length xs \<and> \<not> cm_truncated st"

definition slice_of :: "nat \<Rightarrow> json list \<Rightarrow> map_scan \<Rightarrow> bool" where
  "slice_of start xs st \<longleftrightarrow> cm_items st = take (length (cm_items st)) (drop start xs)"

lemma passed_slice: "passed start xs st \<Longrightarrow> slice_of start (xs @ ys) st"
  by (simp add: passed_def slice_of_def)

lemma slice_append: "slice_of start xs st \<Longrightarrow> slice_of start (xs @ ys) st"
proof -
  assume "slice_of start xs st"
  then have "cm_items st = take (length (cm_items st)) (drop start xs)" by (simp add: slice_of_def)
  then have "length (cm_items st) \<le> length (drop start xs)" by (metis length_take min.cobounded1)
  with \<open>cm_items st = _\<close> show ?thesis by (simp add: slice_of_def)
qed

lemma add_items_other:
  "cm_errors (add_items ok start limit xs st) = cm_errors st"
  "cm_scanned (add_items ok start limit xs st) = cm_scanned st"
  by (induction ok start limit xs st rule: add_items.induct) simp_all

lemma add_items_grows: "\<exists>ys. cm_items (add_items ok start limit xs st) = cm_items st @ ys"
  by (induction ok start limit xs st rule: add_items.induct) auto

lemma add_items_limit:
  "int (length (cm_items st)) \<le> limit \<Longrightarrow> int (length (cm_items (add_items ok start limit xs st))) \<le> limit"
  by (induction ok start limit xs st rule: add_items.induct) simp_all

lemma add_items_passes:
  assumes "passed start before st"
  shows "(let st' = add_items ok start limit xs st in
     slice_of start (before @ xs) st' \<and> (\<not> cm_truncated st' \<longrightarrow> passed start (before @ xs) st'))"
  using assms
proof (induction ok start limit xs st arbitrary: before rule: add_items.induct)
  case (1 ok start limit st)
  then show ?case using passed_slice [of start before st "[]"] by simp
next
  case (2 ok start limit x xs st)
  let ?skip = "st\<lparr>cm_seen := cm_seen st + 1\<rparr>" and ?add = "st\<lparr>cm_items := cm_items st @ [x], cm_seen := cm_seen st + 1\<rparr>"
  note st = \<open>passed start before st\<close>
  have "passed start (before @ [x]) ?skip" if "cm_seen st < start" using st that by (simp add: passed_def)
  moreover have "passed start (before @ [x]) ?add" if "\<not> cm_seen st < start" using st that by (simp add: passed_def)
  moreover have "slice_of start (before @ x # xs) (st\<lparr>cm_truncated := True\<rparr>)"
    using passed_slice [OF st, of "x # xs"] by (simp add: slice_of_def)
  ultimately show ?case using "2.IH"(1) [of "before @ [x]"] "2.IH"(2) [of "before @ [x]"]
    by (auto simp: Let_def)
qed

lemma add_items_moves:
  assumes "passed start before st" "start < length (before @ xs)" "1 \<le> limit"
    and "ok (cm_scanned st) (cm_errors st) [(before @ xs) ! start]"
  shows "cm_items (add_items ok start limit xs st) \<noteq> []"
  using assms
proof (induction ok start limit xs st arbitrary: before rule: add_items.induct)
  case (1 ok start limit st)
  then show ?case by (auto simp: passed_def)
next
  case (2 ok start limit x xs st)
  show ?case
  proof (cases "cm_seen st < start")
    case True
    then have "passed start (before @ [x]) (st\<lparr>cm_seen := cm_seen st + 1\<rparr>)" using "2.prems" by (simp add: passed_def)
    with 2 True show ?thesis by simp
  next
    case seen: False
    show ?thesis
    proof (cases "cm_items st = []")
      case True
      with seen "2.prems"(1) have "start = length before" by (simp add: passed_def)
      with "2.prems" True seen show ?thesis
        using add_items_grows [of ok start limit xs "st\<lparr>cm_items := [x], cm_seen := cm_seen st + 1\<rparr>"] by auto
    next
      case False
      then show ?thesis using add_items_grows [of ok start limit "x # xs" st] by auto
    qed
  qed
qed

lemma passed_skips:
  assumes "cm_seen st + length xs \<le> start" "\<not> cm_truncated st"
  shows "\<not> cm_truncated (add_items ok start limit xs st)"
  using assms by (induction ok start limit xs st rule: add_items.induct) auto

lemma scan_grows: "\<exists>ys. cm_items (scan_sources ok rd parse start limit ps st) = cm_items st @ ys"
proof (induction ps arbitrary: st)
  case (Cons p ps)
  show ?case
  proof (cases "rd p")
    case None
    with Cons.IH [of "st\<lparr>cm_scanned := cm_scanned st + 1\<rparr>"] show ?thesis by simp
  next
    case (Some t)
    obtain items parse_error where e: "parse p t = (items, parse_error)" by fastforce
    let ?st = "st\<lparr>cm_scanned := cm_scanned st + 1, cm_errors := cm_errors st @ (case parse_error of None \<Rightarrow> [] | Some e \<Rightarrow> [e])\<rparr>"
    obtain ys where "cm_items (add_items ok start limit items ?st) = cm_items st @ ys"
      using add_items_grows [of ok start limit items ?st] by auto
    moreover obtain zs where "cm_items (scan_sources ok rd parse start limit ps (add_items ok start limit items ?st)) =
        cm_items (add_items ok start limit items ?st) @ zs" using Cons.IH by blast
    ultimately show ?thesis by (auto simp: Some e Let_def)
  qed
qed simp

lemma scan_limit:
  "int (length (cm_items st)) \<le> limit \<Longrightarrow> int (length (cm_items (scan_sources ok rd parse start limit ps st))) \<le> limit"
  by (induction ps arbitrary: st) (auto simp: Let_def add_items_limit split: option.split prod.split)

lemma scan_passes:
  assumes "passed start before st"
  shows "(let st' = scan_sources ok rd parse start limit ps st; all = before @ source_items rd parse ps in
     slice_of start all st' \<and>
     (\<not> cm_truncated st' \<longrightarrow> passed start all st' \<and> cm_errors st' = cm_errors st @ source_errors rd parse ps))"
  using assms
proof (induction ps arbitrary: st before)
  case Nil
  then show ?case using passed_slice [of start before st "[]"] by (simp add: source_items_def source_errors_def)
next
  case (Cons p ps)
  show ?case
  proof (cases "rd p")
    case None
    have "passed start before (st\<lparr>cm_scanned := cm_scanned st + 1\<rparr>)" using Cons.prems by (simp add: passed_def)
    from Cons.IH [OF this] None show ?thesis by (simp add: source_items_def source_errors_def Let_def)
  next
    case (Some t)
    obtain items parse_error where e: "parse p t = (items, parse_error)" by fastforce
    let ?errors = "cm_errors st @ (case parse_error of None \<Rightarrow> [] | Some e \<Rightarrow> [e])"
    let ?st1 = "st\<lparr>cm_scanned := cm_scanned st + 1\<rparr>"
    let ?st2 = "?st1\<lparr>cm_errors := ?errors\<rparr>"
    let ?st3 = "add_items ok start limit items ?st2"
    let ?all = "before @ items @ source_items rd parse ps"
    have all: "before @ source_items rd parse (p # ps) = ?all" by (simp add: source_items_def Some e)
    have errors: "cm_errors st @ source_errors rd parse (p # ps) = ?errors @ source_errors rd parse ps"
      by (simp add: source_errors_def Some e)
    have p2: "passed start before ?st2" using Cons.prems by (simp add: passed_def)
    have stop: "slice_of start ?all (?st1\<lparr>cm_truncated := True\<rparr>)"
      using passed_slice [OF p2, of "items @ source_items rd parse ps"] by (simp add: slice_of_def)
    note p3 = add_items_passes [OF p2, of ok limit items, unfolded Let_def]
    have cut: "slice_of start ?all ?st3" using slice_append [of start "before @ items" ?st3] p3 by simp
    note rest = Cons.IH [of "before @ items" ?st3, unfolded Let_def]
    show ?thesis unfolding all errors using stop cut p3 rest
      by (auto simp: Some e Let_def add_items_other)
  qed
qed

lemma scan_moves:
  assumes "passed start before st" "start < length (before @ source_items rd parse ps)" "1 \<le> limit"
    and "\<And>n k. n \<le> cm_scanned st + length ps \<Longrightarrow>
      ok n (take k (cm_errors st @ source_errors rd parse ps)) [] \<and>
      ok n (take k (cm_errors st @ source_errors rd parse ps)) [(before @ source_items rd parse ps) ! start]"
  shows "cm_items (scan_sources ok rd parse start limit ps st) \<noteq> []"
  using assms
proof (induction ps arbitrary: st before)
  case Nil
  then show ?case by (auto simp: passed_def source_items_def)
next
  case (Cons p ps)
  show ?case
  proof (cases "cm_items st = []")
    case False
    then show ?thesis using scan_grows [of ok rd parse start limit "p # ps" st] by auto
  next
    case empty: True
    show ?thesis
    proof (cases "rd p")
      case None
      have "passed start before (st\<lparr>cm_scanned := cm_scanned st + 1\<rparr>)" using Cons.prems(1) by (simp add: passed_def)
      from Cons.IH [OF this] Cons.prems None show ?thesis by (simp add: source_items_def source_errors_def)
    next
      case (Some t)
      obtain items parse_error where e: "parse p t = (items, parse_error)" by fastforce
      let ?errors = "cm_errors st @ (case parse_error of None \<Rightarrow> [] | Some e \<Rightarrow> [e])"
      let ?st2 = "st\<lparr>cm_scanned := cm_scanned st + 1, cm_errors := ?errors\<rparr>"
      let ?st3 = "add_items ok start limit items ?st2"
      have all: "before @ source_items rd parse (p # ps) = before @ items @ source_items rd parse ps"
        by (simp add: source_items_def Some e)
      have errors: "cm_errors st @ source_errors rd parse (p # ps) = ?errors @ source_errors rd parse ps"
        by (simp add: source_errors_def Some e)
      have "?errors = take (length ?errors) (?errors @ source_errors rd parse ps)" by simp
      then have ok: "ok (cm_scanned st + 1) ?errors []"
        "ok (cm_scanned st + 1) ?errors [(before @ items @ source_items rd parse ps) ! start]"
        using Cons.prems(4) [of "cm_scanned st + 1" "length ?errors"] unfolding all errors by (simp_all del: append_assoc)
      have p2: "passed start before ?st2" using Cons.prems(1) by (simp add: passed_def)
      note p3 = add_items_passes [OF p2, of ok limit items, unfolded Let_def]
      have run: "scan_sources ok rd parse start limit (p # ps) st =
          (if cm_truncated ?st3 then ?st3 else scan_sources ok rd parse start limit ps ?st3)"
        using ok(1) empty by (simp add: Some e Let_def)
      show ?thesis
      proof (cases "start < length (before @ items)")
        case True
        with ok(2) have "ok (cm_scanned ?st2) (cm_errors ?st2) [(before @ items) ! start]"
          by (cases "start < length before") (simp_all add: nth_append less_diff_conv2)
        with add_items_moves [OF p2 True Cons.prems(3)] obtain x xs where "cm_items ?st3 = x # xs"
          by (metis list.exhaust)
        with run show ?thesis using scan_grows [of ok rd parse start limit ps ?st3] by auto
      next
        case False
        then have no_items: "cm_items ?st3 = []" if "\<not> cm_truncated ?st3" using p3 that by (simp add: passed_def)
        have "\<not> cm_truncated ?st3"
        proof -
          have "start \<ge> length before + length items" using False by simp
          then show ?thesis using p2 by (intro passed_skips) (simp_all add: passed_def)
        qed
        moreover have "cm_items (scan_sources ok rd parse start limit ps ?st3) \<noteq> []" if "\<not> cm_truncated ?st3"
          by (rule Cons.IH [of "before @ items"])
            (use that p3 Cons.prems all errors in \<open>auto simp: add_items_other\<close>)
        ultimately show ?thesis using run by simp
      qed
    qed
  qed
qed

section \<open>Following the pages\<close>

definition map_sources :: "map_env \<Rightarrow> ustr \<Rightarrow> path \<Rightarrow> path list" where
  "map_sources env language p =
     iter_source_files (case language_extensions language of Some es \<Rightarrow> es | None \<Rightarrow> []) p (me_root env)"

definition all_items ::
  "map_env \<Rightarrow> (path \<Rightarrow> ustr \<Rightarrow> json list \<times> json option) \<Rightarrow> ustr \<Rightarrow> path \<Rightarrow> json list" where
  "all_items env parse language p = source_items (source_text (me_content env)) parse (map_sources env language p)"

definition all_errors ::
  "map_env \<Rightarrow> (path \<Rightarrow> ustr \<Rightarrow> json list \<times> json option) \<Rightarrow> ustr \<Rightarrow> path \<Rightarrow> json list" where
  "all_errors env parse language p = source_errors (source_text (me_content env)) parse (map_sources env language p)"

text \<open>Every page has room for the syntax errors and one item.\<close>

definition room_for_one ::
  "map_env \<Rightarrow> string \<Rightarrow> (path \<Rightarrow> ustr \<Rightarrow> json list \<times> json option) \<Rightarrow> response_budget \<Rightarrow> path \<Rightarrow> ustr \<Rightarrow> bool" where
  "room_for_one env key parse b p language \<longleftrightarrow>
     (\<forall>i < length (all_items env parse language p). \<forall>n \<le> length (map_sources env language p).
        \<forall>errors \<in> set (prefixes (all_errors env parse language p)). \<forall>items \<in> {[], [all_items env parse language p ! i]}.
          map_fits (me_tok env) b (map_candidate key p language i n errors items))"

lemma passed_empty: "passed start [] empty_scan"
  by (simp add: passed_def empty_scan_def)

interpretation map_pages: paged "all_items env parse language p"
  "\<lambda>start. cm_items (map_page env key parse b p language limit start)" for env parse language p key b limit
  using scan_passes [OF passed_empty]
  by unfold_locales (simp add: map_page_def all_items_def map_sources_def Let_def slice_of_def)

lemma map_page_complete:
  assumes "\<not> cm_truncated (map_page env key parse b p language limit start)"
  shows "cm_items (map_page env key parse b p language limit start) = drop start (all_items env parse language p)"
    "cm_errors (map_page env key parse b p language limit start) = all_errors env parse language p"
  using assms scan_passes [OF passed_empty]
  by (auto simp: map_page_def all_items_def all_errors_def map_sources_def Let_def passed_def empty_scan_def)

lemma map_page_moves:
  assumes "room_for_one env key parse b p language" "1 \<le> limit" "start < length (all_items env parse language p)"
  shows "cm_items (map_page env key parse b p language limit start) \<noteq> []"
proof -
  have "take k xs \<in> set (prefixes xs)" for k and xs :: "json list" by (simp add: take_is_prefix)
  with assms show ?thesis unfolding map_page_def
    by (intro scan_moves [where before = "[]"] passed_empty)
      (auto simp: room_for_one_def all_items_def all_errors_def map_sources_def empty_scan_def)
qed

lemma map_reply_fields:
  assumes "map_arguments_error env p language limit = None" "key \<in> {''symbols'', ''imports''}"
    and "st = map_page env key parse b p language limit (nat (max offset 0))"
  shows "map_of (map_reply env key parse b p language limit offset) key = Some (JList (cm_items st))"
    and "map_of (map_reply env key parse b p language limit offset) ''errors'' = Some (JList (cm_errors st))"
    and "map_of (map_reply env key parse b p language limit offset) ''next_offset'' =
      Some (if cm_truncated st then jnat (nat (max offset 0) + length (cm_items st)) else JNull)"
proof -
  let ?payload = "map_payload key p language (nat (max offset 0)) st"
  obtain r m where r: "with_budget_metadata (me_tok env) ?payload b (cm_truncated st) (map_stop_reason limit st) = (r, m)"
    by fastforce
  have reply: "map_reply env key parse b p language limit offset = r"
    using assms(1,3) r by (simp add: map_reply_def Let_def)
  note keep = with_budget_metadata_other [OF r]
  show "map_of (map_reply env key parse b p language limit offset) key = Some (JList (cm_items st))"
    using keep [of key] assms(2) by (auto simp: reply map_payload_def)
  show "map_of (map_reply env key parse b p language limit offset) ''errors'' = Some (JList (cm_errors st))"
    using keep [of "''errors''"] assms(2) by (auto simp: reply map_payload_def)
  show "map_of (map_reply env key parse b p language limit offset) ''next_offset'' =
      Some (if cm_truncated st then jnat (nat (max offset 0) + length (cm_items st)) else JNull)"
    using keep [of "''next_offset''"] assms(2) by (auto simp: reply map_payload_def)
qed

lemma map_pages_meet_everything:
  assumes "map_arguments_error env p language limit = None" "room_for_one env key parse b p language"
  shows "follow_pages (\<lambda>start. cm_items (map_page env key parse b p language limit start))
      (length (all_items env parse language p)) (length (all_items env parse language p)) 0 = all_items env parse language p"
proof -
  have "1 \<le> limit" using assms(1)
    by (auto simp: map_arguments_error_def validate_limit_def split: option.splits if_splits)
  show ?thesis by (subst map_pages.follow_all) (simp_all add: map_page_moves [OF assms(2) \<open>1 \<le> limit\<close>])
qed

text \<open>A page that the syntax errors alone overfill is empty wherever it starts, and names its own offset as the next.\<close>

lemma overfull_errors_stick:
  assumes "map_sources env language p = q # qs" "source_text (me_content env) q = Some t" "parse q t = (xs, Some e)"
    and "\<not> map_fits (me_tok env) b (map_candidate key p language start 1 [e] [])"
  shows "cm_items (map_page env key parse b p language limit start) = [] \<and> cm_truncated (map_page env key parse b p language limit start)"
  using assms by (simp add: map_page_def map_sources_def empty_scan_def)

text \<open>C33: A client that follows \<^verbatim>\<open>next_offset\<close> of \<^verbatim>\<open>code_map_symbols\<close> over files that do not change
  gets every symbol of every source file below the path exactly once, in the order of the walk and of the text, as long as
  every page has room for the syntax errors and one symbol. Each reply holds the page of its offset; a negative offset
  is taken as 0, \<^verbatim>\<open>next_offset\<close> is null only when nothing is left, and then the syntax errors of all files
  are reported.\<close>
theorem symbol_pages_meet_every_symbol:
  assumes "map_arguments_error env p language limit = None"
    and "room_for_one env ''symbols'' (file_symbols env language) b p language"
    and "all = all_items env (file_symbols env language) language p"
    and "page = (\<lambda>start. cm_items (map_page env ''symbols'' (file_symbols env language) b p language limit start))"
  shows "follow_pages page (length all) (length all) 0 = all \<and>
    (\<forall>offset. let start = nat (max offset 0); reply = code_map_symbols env b p language limit offset in
       map_of reply ''symbols'' = Some (JList (page start)) \<and>
       (map_of reply ''next_offset'' = Some (jnat (start + length (page start))) \<or>
        map_of reply ''next_offset'' = Some JNull \<and> page start = drop start all \<and>
        map_of reply ''errors'' = Some (JList (all_errors env (file_symbols env language) language p))))"
proof -
  have key: "''symbols'' \<in> {''symbols'', ''imports''}" by simp
  note fields = map_reply_fields [OF assms(1) key refl]
  show ?thesis
    unfolding assms(3,4) Let_def code_map_symbols_def fields
    by (auto simp: map_pages_meet_everything [OF assms(1,2)] map_page_complete)
qed

definition demo_map_env :: map_env where
  "demo_map_env =
     \<lparr>me_tok = (\<lambda>t. 1),
      me_parse = (\<lambda>t. Inr (OtherNode [ClassDef (u ''A'') 1 [FunctionDef False (u ''m'') 2 [FunctionDef False (u ''f'') 3 []]]])),
      me_is_word = (\<lambda>c. False), me_content = (\<lambda>p. Some []), me_root = OneFile\<rparr>"

lemma demo_symbols:
  "all_items demo_map_env (file_symbols demo_map_env (u ''python'')) (u ''python'') [u ''a.py''] =
     map (symbol_json [u ''a.py'']) [(u ''A'', ''class'', 1), (u ''m'', ''method'', 2), (u ''f'', ''function'', 3)]"
  by code_simp

theorem symbol_pages_meet_every_symbol_witness:
  "follow_pages (\<lambda>start. cm_items (map_page demo_map_env ''symbols'' (file_symbols demo_map_env (u ''python''))
       \<lparr>max_tokens = 10, max_bytes = None\<rparr> [u ''a.py''] (u ''python'') 2 start)) 3 3 0 =
     map (symbol_json [u ''a.py'']) [(u ''A'', ''class'', 1), (u ''m'', ''method'', 2), (u ''f'', ''function'', 3)]"
proof -
  have "fits (measure_json_payload (\<lambda>t. 1) d \<lparr>max_tokens = 10, max_bytes = None\<rparr>)" for d
    by (simp add: measure_json_payload_def measure_text_def fits_def)
  from with_budget_metadata_fits [of "\<lambda>t. 1", OF this]
  have "map_fits (me_tok demo_map_env) \<lparr>max_tokens = 10, max_bytes = None\<rparr> c" for c
    by (simp add: map_fits_def demo_map_env_def)
  then have "room_for_one demo_map_env ''symbols'' (file_symbols demo_map_env (u ''python''))
      \<lparr>max_tokens = 10, max_bytes = None\<rparr> [u ''a.py''] (u ''python'')"
    by (simp add: room_for_one_def)
  moreover have "map_arguments_error demo_map_env [u ''a.py''] (u ''python'') 2 = None" by code_simp
  ultimately show ?thesis
    using symbol_pages_meet_every_symbol [OF _ _ demo_symbols [symmetric] refl, of 2 "\<lparr>max_tokens = 10, max_bytes = None\<rparr>"]
    by (simp del: follow_pages.simps add: eval_nat_numeral)
qed

end
