(* ===== verification/Supervisor.thy ===== *)
theory Supervisor
  imports Json
begin

text \<open>
  The supervisor of the server process (\<^verbatim>\<open>supervisor.py\<close>): starting a server on the shared listening socket,
  waiting until it reports that it is ready, the rolling reload and the shutdown. Time passes in ticks: a tick says how
  many milliseconds pass and what happens meanwhile (signals, child processes that exit, write to or close their
  readiness pipe, other programs that write the pid file). Every wait consumes ticks, so a schedule of ticks determines
  a run; a run whose schedule ends is suspended. A child is named by the position at which it was started.
\<close>

section \<open>State\<close>

datatype child_signal = TermSignal | KillSignal

record child =
  ch_exit :: "int option"
  ch_pipe :: bytes
  ch_pipe_open :: bool
  ch_signals :: "child_signal list"

datatype stop_reason = Drain | Shutdown

datatype sup_error =
    ExitedEarly int
  | UnexpectedPayload bytes
  | ReadyTimeout
  | StopTimeout nat
  | SpawnError ustr

datatype sup_message =
    Received int bool
  | Stopping nat stop_reason
  | Killing nat
  | ServerReady nat
  | Starting
  | StartingReload
  | ReloadFailed sup_error
  | ActiveExited int
  | ShutdownComplete

record supervisor =
  sv_clock :: int
  sv_children :: "child list"
  sv_current :: "nat option"
  sv_reload :: bool
  sv_stop :: bool
  sv_listening :: bool
  sv_pid_file :: "ustr option"
  sv_pipe_ends :: nat
  sv_log :: "sup_message list"

datatype sup_event =
    ReloadSignal int
  | StopSignal int
  | ChildExits nat int
  | ChildWrites nat bytes
  | ChildCloses nat
  | PidFileWritten "ustr option"

record tick =
  tk_elapsed :: int
  tk_events :: "sup_event list"

record sup_env =
  se_pid :: ustr
  se_ready_timeout :: int
  se_shutdown_timeout :: int
  se_spawn :: "nat \<Rightarrow> ustr option"

definition sup_say :: "sup_message \<Rightarrow> supervisor \<Rightarrow> supervisor" where
  "sup_say m sv = sv\<lparr>sv_log := sv_log sv @ [m]\<rparr>"

definition update_child :: "nat \<Rightarrow> (child \<Rightarrow> child) \<Rightarrow> supervisor \<Rightarrow> supervisor" where
  "update_child p f sv =
     (if p < length (sv_children sv) then sv\<lparr>sv_children := (sv_children sv)[p := f (sv_children sv ! p)]\<rparr> else sv)"

text \<open>The signal handlers, and what other processes do.\<close>

definition handle_reload :: "int \<Rightarrow> supervisor \<Rightarrow> supervisor" where
  "handle_reload signum sv = (sup_say (Received signum True) sv)\<lparr>sv_reload := True\<rparr>"

definition handle_stop :: "int \<Rightarrow> supervisor \<Rightarrow> supervisor" where
  "handle_stop signum sv = (sup_say (Received signum False) sv)\<lparr>sv_stop := True\<rparr>"

fun take_event :: "supervisor \<Rightarrow> sup_event \<Rightarrow> supervisor" where
  "take_event sv (ReloadSignal signum) = handle_reload signum sv"
| "take_event sv (StopSignal signum) = handle_stop signum sv"
| "take_event sv (ChildExits p code) =
     update_child p (\<lambda>c. if ch_exit c = None then c\<lparr>ch_exit := Some code\<rparr> else c) sv"
| "take_event sv (ChildWrites p payload) =
     update_child p (\<lambda>c. if ch_pipe_open c \<and> ch_exit c = None then c\<lparr>ch_pipe := ch_pipe c @ payload\<rparr> else c) sv"
| "take_event sv (ChildCloses p) = update_child p (\<lambda>c. c\<lparr>ch_pipe_open := False\<rparr>) sv"
| "take_event sv (PidFileWritten t) = sv\<lparr>sv_pid_file := t\<rparr>"

definition pass_tick :: "tick \<Rightarrow> supervisor \<Rightarrow> supervisor" where
  "pass_tick t sv = foldl take_event (sv\<lparr>sv_clock := sv_clock sv + tk_elapsed t\<rparr>) (tk_events t)"

section \<open>Commands\<close>

datatype 'a sup_result = Finished 'a | Failed sup_error | Suspended

type_synonym 'a sup_m = "supervisor \<Rightarrow> tick list \<Rightarrow> 'a sup_result \<times> supervisor \<times> tick list"

definition sup_return :: "'a \<Rightarrow> 'a sup_m" where
  "sup_return a = (\<lambda>sv ts. (Finished a, sv, ts))"

definition sup_raise :: "sup_error \<Rightarrow> 'a sup_m" where
  "sup_raise e = (\<lambda>sv ts. (Failed e, sv, ts))"

definition sup_do :: "(supervisor \<Rightarrow> supervisor) \<Rightarrow> unit sup_m" where
  "sup_do f = (\<lambda>sv ts. (Finished (), f sv, ts))"

definition sup_look :: "(supervisor \<Rightarrow> 'a sup_m) \<Rightarrow> 'a sup_m" where
  "sup_look k = (\<lambda>sv ts. k sv sv ts)"

definition sup_bind :: "'a sup_m \<Rightarrow> ('a \<Rightarrow> 'b sup_m) \<Rightarrow> 'b sup_m" where
  "sup_bind m k = (\<lambda>sv ts.
     case m sv ts of
       (Finished a, sv', ts') \<Rightarrow> k a sv' ts'
     | (Failed e, sv', ts') \<Rightarrow> (Failed e, sv', ts')
     | (Suspended, sv', ts') \<Rightarrow> (Suspended, sv', ts'))"

definition sup_then :: "unit sup_m \<Rightarrow> 'b sup_m \<Rightarrow> 'b sup_m" where
  "sup_then m n = sup_bind m (\<lambda>_. n)"

text \<open>\<^verbatim>\<open>try\<close> with \<^verbatim>\<open>except\<close>, and with \<^verbatim>\<open>finally\<close>: an exception of the latter replaces the outcome.\<close>

definition sup_except :: "'a sup_m \<Rightarrow> (sup_error \<Rightarrow> 'a sup_m) \<Rightarrow> 'a sup_m" where
  "sup_except m h = (\<lambda>sv ts. case m sv ts of (Failed e, sv', ts') \<Rightarrow> h e sv' ts' | r \<Rightarrow> r)"

definition sup_finally :: "'a sup_m \<Rightarrow> unit sup_m \<Rightarrow> 'a sup_m" where
  "sup_finally m f = (\<lambda>sv ts.
     case m sv ts of
       (Finished a, sv', ts') \<Rightarrow> sup_bind f (\<lambda>_. sup_return a) sv' ts'
     | (Failed e, sv', ts') \<Rightarrow> sup_bind f (\<lambda>_. sup_raise e) sv' ts'
     | r \<Rightarrow> r)"

definition sup_tick :: "unit sup_m" where
  "sup_tick = (\<lambda>sv ts. case ts of [] \<Rightarrow> (Suspended, sv, []) | t # ts' \<Rightarrow> (Finished (), pass_tick t sv, ts'))"

section \<open>Child processes\<close>

definition child_poll :: "supervisor \<Rightarrow> nat \<Rightarrow> int option" where
  "child_poll sv p = ch_exit (sv_children sv ! p)"

definition send_child :: "child_signal \<Rightarrow> nat \<Rightarrow> supervisor \<Rightarrow> supervisor" where
  "send_child s p = update_child p (\<lambda>c. if ch_exit c = None then c\<lparr>ch_signals := ch_signals c @ [s]\<rparr> else c)"

text \<open>\<^verbatim>\<open>Popen.wait\<close> with a time-out: the child is looked at once more after each tick.\<close>

fun wait_until :: "nat \<Rightarrow> int \<Rightarrow> supervisor \<Rightarrow> tick list \<Rightarrow> unit sup_result \<times> supervisor \<times> tick list" where
  "wait_until p deadline sv [] =
     (if child_poll sv p \<noteq> None then (Finished (), sv, [])
      else if deadline \<le> sv_clock sv then (Failed (StopTimeout p), sv, []) else (Suspended, sv, []))"
| "wait_until p deadline sv (t # ts) =
     (if child_poll sv p \<noteq> None then (Finished (), sv, t # ts)
      else if deadline \<le> sv_clock sv then (Failed (StopTimeout p), sv, t # ts)
      else wait_until p deadline (pass_tick t sv) ts)"

definition wait_child :: "nat \<Rightarrow> int \<Rightarrow> unit sup_m" where
  "wait_child p timeout = sup_look (\<lambda>sv. wait_until p (sv_clock sv + timeout))"

definition terminate_process :: "nat \<Rightarrow> int \<Rightarrow> stop_reason \<Rightarrow> unit sup_m" where
  "terminate_process p timeout reason = sup_look (\<lambda>sv.
     if child_poll sv p \<noteq> None then sup_return ()
     else
       sup_then (sup_do (sup_say (Stopping p reason)))
       (sup_then (sup_do (send_child TermSignal p))
       (sup_except (wait_child p timeout) (\<lambda>e.
          sup_then (sup_do (sup_say (Killing p)))
          (sup_then (sup_do (send_child KillSignal p)) (wait_child p 5000))))))"

definition pipe_readable :: "supervisor \<Rightarrow> nat \<Rightarrow> bool" where
  "pipe_readable sv p \<longleftrightarrow> ch_pipe (sv_children sv ! p) \<noteq> [] \<or> \<not> ch_pipe_open (sv_children sv ! p)"

definition read_pipe :: "nat \<Rightarrow> unit sup_m" where
  "read_pipe p = sup_look (\<lambda>sv.
     let payload = take 64 (ch_pipe (sv_children sv ! p)) in
     sup_then (sup_do (update_child p (\<lambda>c. c\<lparr>ch_pipe := drop 64 (ch_pipe c)\<rparr>)))
       (if startswith payload (u ''ready'') then sup_return () else sup_raise (UnexpectedPayload payload)))"

text \<open>One \<^verbatim>\<open>select\<close> waits until the pipe is readable or a tick has passed.\<close>

fun wait_ready_until :: "nat \<Rightarrow> int \<Rightarrow> supervisor \<Rightarrow> tick list \<Rightarrow> unit sup_result \<times> supervisor \<times> tick list" where
  "wait_ready_until p deadline sv ts =
     (if deadline \<le> sv_clock sv then (Failed ReadyTimeout, sv, ts)
      else
        (case child_poll sv p of
           Some code \<Rightarrow> (Failed (ExitedEarly code), sv, ts)
         | None \<Rightarrow>
             if pipe_readable sv p then read_pipe p sv ts
             else
               (case ts of
                  [] \<Rightarrow> (Suspended, sv, [])
                | t # ts' \<Rightarrow>
                    if pipe_readable (pass_tick t sv) p then read_pipe p (pass_tick t sv) ts'
                    else wait_ready_until p deadline (pass_tick t sv) ts')))"

declare wait_ready_until.simps [simp del]

definition wait_for_ready_pipe :: "nat \<Rightarrow> int \<Rightarrow> unit sup_m" where
  "wait_for_ready_pipe p timeout = sup_look (\<lambda>sv. wait_ready_until p (sv_clock sv + timeout))"

definition close_pipe_end :: "supervisor \<Rightarrow> supervisor" where
  "close_pipe_end sv = sv\<lparr>sv_pipe_ends := sv_pipe_ends sv - 1\<rparr>"

definition new_child :: child where
  "new_child = \<lparr>ch_exit = None, ch_pipe = [], ch_pipe_open = True, ch_signals = []\<rparr>"

definition start_child :: "supervisor \<Rightarrow> supervisor" where
  "start_child sv = sv\<lparr>sv_children := sv_children sv @ [new_child]\<rparr>"

text \<open>A server that is not ready is stopped with SIGTERM only, and the wait for it may raise in turn.\<close>

definition abandon_child :: "nat \<Rightarrow> sup_error \<Rightarrow> unit sup_m" where
  "abandon_child p e = sup_look (\<lambda>sv.
     if child_poll sv p = None
     then sup_then (sup_do (send_child TermSignal p)) (sup_then (wait_child p 5000) (sup_raise e))
     else sup_raise e)"

definition spawn_server :: "sup_env \<Rightarrow> nat sup_m" where
  "spawn_server env =
     sup_then (sup_do (\<lambda>sv. sv\<lparr>sv_pipe_ends := sv_pipe_ends sv + 2\<rparr>))
     (sup_look (\<lambda>sv.
        let p = length (sv_children sv) in
        case se_spawn env p of
          Some e \<Rightarrow> sup_raise (SpawnError e)
        | None \<Rightarrow>
            sup_then (sup_do start_child)
            (sup_then (sup_do close_pipe_end)
            (sup_then (sup_finally (sup_except (wait_for_ready_pipe p (se_ready_timeout env)) (abandon_child p))
                (sup_do close_pipe_end))
            (sup_then (sup_do (sup_say (ServerReady p))) (sup_return p))))))"

section \<open>The supervisor\<close>

definition start_initial_server :: "sup_env \<Rightarrow> unit sup_m" where
  "start_initial_server env = sup_bind (spawn_server env) (\<lambda>p. sup_do (\<lambda>sv. sv\<lparr>sv_current := Some p\<rparr>))"

definition reload_server :: "sup_env \<Rightarrow> unit sup_m" where
  "reload_server env = sup_look (\<lambda>sv.
     case sv_current sv of
       None \<Rightarrow> start_initial_server env
     | Some old \<Rightarrow>
         sup_then (sup_do (sup_say StartingReload))
         (sup_bind (spawn_server env) (\<lambda>p.
          sup_then (sup_do (\<lambda>sv. sv\<lparr>sv_current := Some p\<rparr>))
            (terminate_process old (se_shutdown_timeout env) Drain))))"

definition requested_reload :: "sup_env \<Rightarrow> unit sup_m" where
  "requested_reload env = sup_look (\<lambda>sv.
     if sv_reload sv
     then sup_then (sup_do (\<lambda>sv. sv\<lparr>sv_reload := False\<rparr>))
            (sup_except (reload_server env) (\<lambda>e. sup_do (sup_say (ReloadFailed e))))
     else sup_return ())"

definition active_exit :: "supervisor \<Rightarrow> int option" where
  "active_exit sv = (case sv_current sv of None \<Rightarrow> None | Some p \<Rightarrow> child_poll sv p)"

text \<open>Every turn of the loop ends with a tick, so the number of ticks bounds the turns.\<close>

fun supervise_loop :: "sup_env \<Rightarrow> nat \<Rightarrow> int sup_m" where
  "supervise_loop env 0 = (\<lambda>sv ts. (Suspended, sv, ts))"
| "supervise_loop env (Suc turns) = sup_look (\<lambda>sv.
     if sv_stop sv then sup_return 0
     else
       sup_then (requested_reload env)
       (sup_look (\<lambda>sv.
          case active_exit sv of
            Some code \<Rightarrow> sup_then (sup_do (sup_say (ActiveExited code))) (sup_return code)
          | None \<Rightarrow> sup_then sup_tick (supervise_loop env turns))))"

definition write_pid_file :: "sup_env \<Rightarrow> supervisor \<Rightarrow> supervisor" where
  "write_pid_file env sv = sv\<lparr>sv_pid_file := Some (se_pid env)\<rparr>"

definition remove_pid_file :: "sup_env \<Rightarrow> supervisor \<Rightarrow> supervisor" where
  "remove_pid_file env sv =
     (case sv_pid_file sv of
        None \<Rightarrow> sv
      | Some t \<Rightarrow> if strip t = se_pid env then sv\<lparr>sv_pid_file := None\<rparr> else sv)"

definition shut_down :: "sup_env \<Rightarrow> unit sup_m" where
  "shut_down env = sup_look (\<lambda>sv.
     sup_then (case sv_current sv of None \<Rightarrow> sup_return () | Some p \<Rightarrow> terminate_process p (se_shutdown_timeout env) Shutdown)
     (sup_then (sup_do (\<lambda>sv. sv\<lparr>sv_listening := False\<rparr>))
     (sup_then (sup_do (remove_pid_file env)) (sup_do (sup_say ShutdownComplete)))))"

definition new_supervisor :: supervisor where
  "new_supervisor =
     \<lparr>sv_clock = 0, sv_children = [], sv_current = None, sv_reload = False, sv_stop = False, sv_listening = True,
      sv_pid_file = None, sv_pipe_ends = 0, sv_log = []\<rparr>"

definition supervisor_run :: "sup_env \<Rightarrow> int sup_m" where
  "supervisor_run env = (\<lambda>sv ts.
     sup_then (sup_do (write_pid_file env))
     (sup_then (sup_do (sup_say Starting))
     (sup_finally (sup_then (start_initial_server env) (supervise_loop env (Suc (length ts)))) (shut_down env))) sv ts)"

end
