(* ===== verification/SupervisorProps.thy ===== *)
theory SupervisorProps
  imports Supervisor
begin

text \<open>
  Properties of the supervisor: a rolling reload never gives up a server before its successor is ready, and the
  shutdown leaves no server without the signals it was due.
\<close>

section \<open>What a command leaves alone\<close>








lemma length_update_child [simp]: "length (sv_children (update_child p f sv)) = length (sv_children sv)"
  by (simp add: update_child_def)

lemma length_say [simp]: "length (sv_children (sup_say m sv)) = length (sv_children sv)"
  by (simp add: sup_say_def)




section \<open>Waiting\<close>





section \<open>Stopping and starting a server\<close>




lemma say_children [simp]: "sv_children (sup_say m sv) = sv_children sv"
  by (simp add: sup_say_def)

lemma length_send [simp]: "length (sv_children (send_child s p sv)) = length (sv_children sv)"
  by (simp add: send_child_def)





lemma close_children [simp]:
  "sv_children (close_pipe_end sv) = sv_children sv" "sv_log (close_pipe_end sv) = sv_log sv"
  by (simp_all add: close_pipe_end_def)




section \<open>Every server is accounted for\<close>

definition due_signals :: "supervisor \<Rightarrow> nat \<Rightarrow> bool" where
  "due_signals sv p \<longleftrightarrow>
     child_poll sv p \<noteq> None \<or>
     TermSignal \<in> set (ch_signals (sv_children sv ! p)) \<and>
     (ServerReady p \<in> set (sv_log sv) \<longrightarrow> KillSignal \<in> set (ch_signals (sv_children sv ! p)))"











section \<open>The rolling reload\<close>


lemma say_ready [simp]: "m \<notin> range ServerReady \<Longrightarrow> ServerReady p \<in> set (sv_log (sup_say m sv)) \<longleftrightarrow> ServerReady p \<in> set (sv_log sv)"
  by (auto simp: sup_say_def)

lemma say_current [simp]: "sv_current (sup_say m sv) = sv_current sv"
  by (simp add: sup_say_def)








section \<open>The whole run\<close>



lemma say_due [simp]:
  "m \<notin> range ServerReady \<Longrightarrow> due_signals (sup_say m sv) p \<longleftrightarrow> due_signals sv p"
  by (simp add: due_signals_def child_poll_def)

lemma remove_pid_file_fields [simp]:
  "sv_children (remove_pid_file env sv) = sv_children sv" "sv_current (remove_pid_file env sv) = sv_current sv"
  "sv_log (remove_pid_file env sv) = sv_log sv" "sv_listening (remove_pid_file env sv) = sv_listening sv"
  "sv_stop (remove_pid_file env sv) = sv_stop sv" "sv_pid_file (remove_pid_file env sv) = Some t \<Longrightarrow> strip t \<noteq> se_pid env"
  by (auto simp: remove_pid_file_def split: option.splits if_splits)

definition closed_down :: "sup_env \<Rightarrow> supervisor \<Rightarrow> supervisor" where
  "closed_down env sv = sup_say ShutdownComplete (remove_pid_file env (sv\<lparr>sv_listening := False\<rparr>))"

lemma closed_down_fields [simp]:
  "sv_children (closed_down env sv) = sv_children sv" "sv_current (closed_down env sv) = sv_current sv"
  "sv_stop (closed_down env sv) = sv_stop sv" "\<not> sv_listening (closed_down env sv)"
  "sv_pid_file (closed_down env sv) = Some t \<Longrightarrow> strip t \<noteq> se_pid env"
  by (auto simp: closed_down_def sup_say_def dest: remove_pid_file_fields(6))












text \<open>A server that is not ready in time and takes more than five seconds to stop is left behind without SIGKILL.\<close>

lemma slow_server_left_behind:
  "(case abandon_child 0 ReadyTimeout (start_child new_supervisor) [\<lparr>tk_elapsed = 5000, tk_events = []\<rparr>] of
     (r, sv, ts) \<Rightarrow> r = Failed (StopTimeout 0) \<and> child_poll sv 0 = None \<and> ch_signals (sv_children sv ! 0) = [TermSignal])"
  by code_simp

end
