(* ===== verification/Tmux.thy ===== *)
theory Tmux
  imports JobControl ContentIo Fs Url "HOL-Library.Product_Lexorder"
begin

text \<open>
  Calls of tmux and what the tools make of the answers (\<^verbatim>\<open>tmux_ops.py\<close>): names, panes and sessions, and the
  queries. tmux is an argument: the answer to a call may depend on all calls made so far, which the model keeps as a
  list, so that the properties can speak of the commands that were run, of their input and of their environment.
\<close>

section \<open>Running tmux\<close>

record tmux_call =
  tc_args :: "ustr list"
  tc_input :: "bytes option"
  tc_env :: environment

record tmux_answer =
  ta_code :: int
  ta_out :: bytes
  ta_err :: bytes

datatype tmux_failure = TmuxMissing | TmuxTimedOut | TmuxOsError ustr

record tmux_world =
  tw_tmux :: "tmux_call list \<Rightarrow> tmux_failure + tmux_answer"
  tw_binary :: ustr
  tw_socket :: ustr
  tw_timeout :: int
  tw_environ :: environment
  tw_exists :: "path \<Rightarrow> bool"
  tw_is_dir :: "path \<Rightarrow> bool"
  tw_sha256 :: "bytes \<Rightarrow> ustr"
  tw_token :: ustr
  tw_tok :: "ustr \<Rightarrow> nat"

text \<open>A \<^verbatim>\<open>TmuxControlError\<close> as its payload, or an error of encoding, which no tool catches.\<close>

datatype tmux_error = ControlError dict | EncodeFails

type_synonym 'a tmux = "tmux_call list \<Rightarrow> (tmux_error + 'a) \<times> tmux_call list"

definition pure_tmux :: "'a \<Rightarrow> 'a tmux" where
  "pure_tmux x = (\<lambda>h. (Inr x, h))"

definition control_error :: "string \<Rightarrow> ustr \<Rightarrow> dict \<Rightarrow> 'a tmux" where
  "control_error code message extra = (\<lambda>h. (Inl (ControlError (tool_error code message extra)), h))"

definition bind_tmux :: "'a tmux \<Rightarrow> ('a \<Rightarrow> 'b tmux) \<Rightarrow> 'b tmux" where
  "bind_tmux m f = (\<lambda>h. case m h of (Inl e, h') \<Rightarrow> (Inl e, h') | (Inr x, h') \<Rightarrow> f x h')"

text \<open>What every tool ends with: \<^verbatim>\<open>except TmuxControlError as exc: return exc.as_payload()\<close>.\<close>

definition tmux_reply :: "dict tmux \<Rightarrow> dict tmux" where
  "tmux_reply m = (\<lambda>h. case m h of (Inl (ControlError d), h') \<Rightarrow> (Inr d, h') | r \<Rightarrow> r)"

definition tmux_decode :: "bytes \<Rightarrow> ustr" where
  "tmux_decode raw = utf8_decode_replace raw"

definition client_env :: "environment \<Rightarrow> environment" where
  "client_env environ = AList.delete (u ''TMUX_PANE'') (AList.delete (u ''TMUX'') (sanitized_child_env environ []))"

definition tmux_failed :: "tmux_world \<Rightarrow> tmux_failure \<Rightarrow> dict" where
  "tmux_failed w f =
     (case f of
        TmuxMissing \<Rightarrow> tool_error ''tmux_not_found'' (u ''tmux executable was not found: '' @ tw_binary w)
          [(''binary'', JStr (tw_binary w))]
      | TmuxTimedOut \<Rightarrow> tool_error ''tmux_timeout''
          (u ''tmux control command exceeded '' @ int_repr (tw_timeout w) @ u '' seconds.'')
          [(''timeout_seconds'', JInt (tw_timeout w))]
      | TmuxOsError e \<Rightarrow> tool_error ''tmux_command_failed'' (u ''Failed to run tmux: '' @ e) [])"

definition run_tmux :: "tmux_world \<Rightarrow> ustr list \<Rightarrow> bytes option \<Rightarrow> tmux_answer tmux" where
  "run_tmux w args input =
     (\<lambda>h. let h' = h @ [\<lparr>tc_args = args, tc_input = input, tc_env = client_env (tw_environ w)\<rparr>] in
        (case tw_tmux w h' of Inl f \<Rightarrow> Inl (ControlError (tmux_failed w f)) | Inr a \<Rightarrow> Inr a, h'))"

definition require_ok :: "string \<Rightarrow> tmux_answer \<Rightarrow> unit tmux" where
  "require_ok operation a =
     (if ta_code a = 0 then pure_tmux ()
      else
        let stderr = strip (tmux_decode (ta_err a)) in
        control_error ''tmux_command_failed''
          (if stderr \<noteq> [] then stderr
           else u ''tmux '' @ u operation @ u '' failed with exit code '' @ int_repr (ta_code a) @ u ''.'')
          [(''operation'', jlit operation), (''exit_code'', JInt (ta_code a))])"

text \<open>A call that must succeed.\<close>

definition run_ok :: "tmux_world \<Rightarrow> string \<Rightarrow> ustr list \<Rightarrow> bytes option \<Rightarrow> tmux_answer tmux" where
  "run_ok w operation args input =
     bind_tmux (run_tmux w args input) (\<lambda>a. bind_tmux (require_ok operation a) (\<lambda>_. pure_tmux a))"

definition best_effort :: "tmux_world \<Rightarrow> ustr list \<Rightarrow> unit tmux" where
  "best_effort w args = (\<lambda>h. (Inr (), snd (run_tmux w args None h)))"

section \<open>Names\<close>

definition ascii_alnum :: "nat \<Rightarrow> bool" where
  "ascii_alnum c \<longleftrightarrow> 48 \<le> c \<and> c \<le> 57 \<or> 65 \<le> c \<and> c \<le> 90 \<or> 97 \<le> c \<and> c \<le> 122"

definition valid_name :: "nat set \<Rightarrow> ustr \<Rightarrow> bool" where
  "valid_name extra s \<longleftrightarrow>
     (case s of [] \<Rightarrow> False
      | c # cs \<Rightarrow> ascii_alnum c \<and> length cs \<le> 63 \<and> list_all (\<lambda>d. ascii_alnum d \<or> d \<in> extra) cs)"

definition validate_session_name :: "ustr \<Rightarrow> ustr tmux" where
  "validate_session_name session =
     (let normalized = strip session in
      if valid_name {45, 95} normalized then pure_tmux normalized
      else control_error ''invalid_session_name'' (u ''session must match ^[A-Za-z0-9][A-Za-z0-9_-]{0,63}$.'')
        [(''session'', JStr session)])"

definition validate_socket_name :: "ustr \<Rightarrow> ustr tmux" where
  "validate_socket_name socket =
     (let normalized = strip socket in
      if valid_name {45, 46, 95} normalized then pure_tmux normalized
      else control_error ''invalid_socket_name''
        (u ''tmux socket name must match ^[A-Za-z0-9][A-Za-z0-9_.-]{0,63}$.'') [(''socket_name'', JStr socket)])"

definition new_tmux_client :: "tmux_world \<Rightarrow> ustr \<Rightarrow> ustr \<Rightarrow> int \<Rightarrow> tmux_world tmux" where
  "new_tmux_client w binary socket timeout =
     (let name = strip (if binary = [] then u ''tmux'' else binary) in
      bind_tmux (validate_socket_name socket) (\<lambda>s.
        pure_tmux (w\<lparr>tw_binary := if name = [] then u ''tmux'' else name, tw_socket := s, tw_timeout := max 1 timeout\<rparr>)))"

section \<open>Panes\<close>

definition has_sub :: "ustr \<Rightarrow> ustr \<Rightarrow> bool" where
  "has_sub needle hay \<longleftrightarrow> 0 < count_sub needle hay"

text \<open>\<^verbatim>\<open>s.split(sep)\<close> with a separator of several characters.\<close>

fun split_sub :: "nat \<Rightarrow> ustr \<Rightarrow> ustr \<Rightarrow> ustr \<Rightarrow> ustr list" where
  "split_sub skip sep cur [] = [rev cur]"
| "split_sub (Suc skip) sep cur (c # cs) = split_sub skip sep cur cs"
| "split_sub 0 sep cur (c # cs) =
     (if startswith (c # cs) sep then rev cur # split_sub (length sep - 1) sep [] cs
      else split_sub 0 sep (c # cur) cs)"

definition split_tmux_fields :: "ustr \<Rightarrow> ustr list" where
  "split_tmux_fields v = (if 31 \<in> set v then split_char 31 [] v else split_sub 0 (92 # u ''037'') [] v)"

definition int_or_none :: "ustr \<Rightarrow> int option" where
  "int_or_none v = (if v = [] then None else int_of_text v)"

definition bool_value :: "ustr \<Rightarrow> bool" where
  "bool_value v \<longleftrightarrow> v = u ''1''"

definition is_no_server :: "ustr \<Rightarrow> bool" where
  "is_no_server err =
     (let e = lower err in
      has_sub (u ''no server running'') e \<or> has_sub (u ''no sessions'') e \<or>
      has_sub (u ''error connecting to'') e \<and> has_sub (u ''no such file or directory'') e)"

definition pane_fields :: "string list" where
  "pane_fields =
     [''session_name'', ''session_id'', ''session_attached'', ''session_windows'', ''session_created'', ''window_id'',
      ''window_index'', ''window_name'', ''pane_id'', ''pane_index'', ''pane_active'', ''pane_pid'',
      ''pane_current_command'', ''pane_current_path'', ''pane_dead'', ''pane_dead_status'', ''pane_dead_signal'',
      ''pane_width'', ''pane_height'', ''m5local_managed'']"

definition pane_format :: ustr where
  "pane_format =
     join [31] (map (\<lambda>f. u (if f = ''m5local_managed'' then ''#{@m5local_managed}'' else ''#{'' @ f @ ''}'')) pane_fields)"

definition create_format :: ustr where
  "create_format = join [31] (map u [''#{session_id}'', ''#{window_id}'', ''#{pane_id}''])"

record pane_row =
  pr_session_name :: ustr
  pr_session_id :: ustr
  pr_attached :: bool
  pr_windows :: "int option"
  pr_created :: "int option"
  pr_window_id :: ustr
  pr_window_index :: "int option"
  pr_window_name :: ustr
  pr_pane_id :: ustr
  pr_pane_index :: "int option"
  pr_active :: bool
  pr_pid :: "int option"
  pr_command :: ustr
  pr_path :: ustr
  pr_dead :: bool
  pr_dead_status :: "int option"
  pr_dead_signal :: "int option"
  pr_width :: "int option"
  pr_height :: "int option"
  pr_managed :: bool

definition parse_row :: "ustr list \<Rightarrow> pane_row" where
  "parse_row ps =
     \<lparr>pr_session_name = ps ! 0, pr_session_id = ps ! 1, pr_attached = bool_value (ps ! 2), pr_windows = int_or_none (ps ! 3),
      pr_created = int_or_none (ps ! 4), pr_window_id = ps ! 5, pr_window_index = int_or_none (ps ! 6),
      pr_window_name = ps ! 7, pr_pane_id = ps ! 8, pr_pane_index = int_or_none (ps ! 9), pr_active = bool_value (ps ! 10),
      pr_pid = int_or_none (ps ! 11), pr_command = ps ! 12, pr_path = ps ! 13, pr_dead = bool_value (ps ! 14),
      pr_dead_status = int_or_none (ps ! 15), pr_dead_signal = int_or_none (ps ! 16), pr_width = int_or_none (ps ! 17),
      pr_height = int_or_none (ps ! 18), pr_managed = bool_value (ps ! 19)\<rparr>"

definition or_zero :: "int option \<Rightarrow> int" where
  "or_zero v = (case v of None \<Rightarrow> 0 | Some i \<Rightarrow> i)"

fun row_list :: "ustr list \<Rightarrow> dict + pane_row list" where
  "row_list [] = Inr []"
| "row_list (l # ls) =
     (if l = [] then row_list ls
      else
        let parts = split_tmux_fields l in
        if length parts \<noteq> length pane_fields
        then Inl (tool_error ''tmux_parse_failed'' (u ''tmux returned an unexpected pane status format.'')
          [(''field_count'', jnat (length parts)), (''expected_field_count'', jnat (length pane_fields))])
        else map_sum id ((#) (parse_row parts)) (row_list ls))"

definition parse_rows :: "bytes \<Rightarrow> dict + pane_row list" where
  "parse_rows stdout =
     map_sum id (sort_key (\<lambda>r. (pr_session_name r, or_zero (pr_window_index r), or_zero (pr_pane_index r))))
       (row_list (splitlines (tmux_decode stdout)))"

definition all_panes :: "tmux_world \<Rightarrow> pane_row list tmux" where
  "all_panes w =
     bind_tmux (run_tmux w [u ''list-panes'', u ''-a'', u ''-F'', pane_format] None) (\<lambda>a.
       if ta_code a \<noteq> 0 \<and> is_no_server (strip (tmux_decode (ta_err a))) then pure_tmux []
       else
         bind_tmux (require_ok ''list-panes'' a) (\<lambda>_ h.
           (case parse_rows (ta_out a) of Inl d \<Rightarrow> Inl (ControlError d) | Inr rows \<Rightarrow> Inr rows, h)))"

definition session_rows :: "tmux_world \<Rightarrow> ustr \<Rightarrow> pane_row list tmux" where
  "session_rows w session =
     bind_tmux (validate_session_name session) (\<lambda>name.
       bind_tmux (all_panes w) (\<lambda>rows. pure_tmux (filter (\<lambda>r. pr_session_name r = name) rows)))"

definition require_session_rows :: "tmux_world \<Rightarrow> ustr \<Rightarrow> pane_row list tmux" where
  "require_session_rows w session =
     bind_tmux (validate_session_name session) (\<lambda>name.
       bind_tmux (session_rows w name) (\<lambda>rows.
         if rows = [] then control_error ''session_not_found'' (u ''tmux session not found: '' @ name) [(''session'', JStr name)]
         else pure_tmux rows))"

section \<open>Queries\<close>

definition int_json :: "int option \<Rightarrow> json" where
  "int_json v = (case v of None \<Rightarrow> JNull | Some i \<Rightarrow> JInt i)"

definition pane_payload :: "pane_row \<Rightarrow> json" where
  "pane_payload r =
     JObj [(''window_id'', JStr (pr_window_id r)), (''window_index'', int_json (pr_window_index r)),
       (''window_name'', JStr (pr_window_name r)), (''pane_id'', JStr (pr_pane_id r)),
       (''pane_index'', int_json (pr_pane_index r)), (''active'', JBool (pr_active r)), (''pane_pid'', int_json (pr_pid r)),
       (''current_command'', JStr (pr_command r)), (''current_path'', JStr (pr_path r)), (''pane_dead'', JBool (pr_dead r)),
       (''exit_code'', int_json (pr_dead_status r)), (''exit_signal'', int_json (pr_dead_signal r)),
       (''width'', int_json (pr_width r)), (''height'', int_json (pr_height r))]"

definition session_summary :: "bool \<Rightarrow> pane_row list \<Rightarrow> json" where
  "session_summary include_panes rows =
     (let r = hd rows in
      JObj ([(''session_name'', JStr (pr_session_name r)), (''session_id'', JStr (pr_session_id r)),
         (''attached'', JBool (pr_attached r)), (''window_count'', int_json (pr_windows r)),
         (''pane_count'', jnat (length rows)), (''created_at_epoch'', int_json (pr_created r)),
         (''managed'', JBool (pr_managed r))] @
        (if include_panes then [(''panes'', JList (map pane_payload rows))] else [(''primary_pane'', pane_payload r)])))"

text \<open>The panes by session, in the order in which the sessions are met.\<close>

definition add_to_group :: "(ustr \<times> pane_row list) list \<Rightarrow> pane_row \<Rightarrow> (ustr \<times> pane_row list) list" where
  "add_to_group g r =
     AList.update (pr_session_id r) ((case map_of g (pr_session_id r) of None \<Rightarrow> [] | Some rs \<Rightarrow> rs) @ [r]) g"

definition list_sessions :: "tmux_world \<Rightarrow> bool \<Rightarrow> dict tmux" where
  "list_sessions w include_panes =
     tmux_reply (bind_tmux (all_panes w) (\<lambda>rows.
       let groups = sort_key (\<lambda>(i, rs). pr_session_name (hd rs)) (foldl add_to_group [] rows);
           sessions = map (\<lambda>(i, rs). session_summary include_panes rs) groups in
       pure_tmux [(''success'', JBool True), (''socket_name'', JStr (tw_socket w)),
         (''session_count'', jnat (length sessions)), (''sessions'', JList sessions)]))"

definition incomplete_dead :: "pane_row \<Rightarrow> bool" where
  "incomplete_dead r \<longleftrightarrow> pr_dead r \<and> pr_dead_status r = None \<and> pr_dead_signal r = None"

fun settle_dead :: "tmux_world \<Rightarrow> ustr \<Rightarrow> nat \<Rightarrow> pane_row list \<Rightarrow> pane_row list tmux" where
  "settle_dead w session 0 rows = pure_tmux rows"
| "settle_dead w session (Suc n) rows =
     (if \<not> list_ex incomplete_dead rows then pure_tmux rows
      else
        bind_tmux (session_rows w session) (\<lambda>refreshed.
          if refreshed = [] then pure_tmux rows else settle_dead w session n refreshed))"

definition tmux_status :: "tmux_world \<Rightarrow> ustr \<Rightarrow> dict tmux" where
  "tmux_status w session =
     tmux_reply (bind_tmux (require_session_rows w session) (\<lambda>rows.
       bind_tmux (settle_dead w session 4 rows) (\<lambda>rows.
         pure_tmux [(''success'', JBool True), (''socket_name'', JStr (tw_socket w)),
           (''session'', session_summary True rows)])))"

end
