(* ===== verification/TmuxOps.thy ===== *)
theory TmuxOps
  imports Tmux
begin

text \<open>
  The tools that change or read a tmux session (\<^verbatim>\<open>tmux_ops.py\<close>): start, capture, send and kill, and the version.
\<close>

section \<open>Start\<close>

definition sorted_secret_keys :: "ustr list" where
  "sorted_secret_keys = sort control_plane_secret_env_keys"

fun scrub_keys :: "tmux_world \<Rightarrow> ustr list \<Rightarrow> unit tmux" where
  "scrub_keys w [] = pure_tmux ()"
| "scrub_keys w (k # ks) =
     bind_tmux (run_tmux w (map u [''set-environment'', ''-g'', ''-u''] @ [k]) None) (\<lambda>a.
       if ta_code a = 0 \<or> is_no_server (tmux_decode (ta_err a)) then scrub_keys w ks
       else bind_tmux (require_ok ''set-environment'' a) (\<lambda>_. scrub_keys w ks))"

definition scrub_server_secrets :: "tmux_world \<Rightarrow> unit tmux" where
  "scrub_server_secrets w = scrub_keys w sorted_secret_keys"

definition session_exists :: "ustr \<Rightarrow> 'a tmux" where
  "session_exists name = control_error ''session_exists'' (u ''tmux session already exists: '' @ name) [(''session'', JStr name)]"

definition invalid_tmux_arguments :: "ustr \<Rightarrow> 'a tmux" where
  "invalid_tmux_arguments message = control_error ''invalid_arguments'' message []"

text \<open>The arguments of \<^verbatim>\<open>start\<close>; what it returns is the stripped command.\<close>

definition start_arguments :: "tmux_world \<Rightarrow> path \<Rightarrow> ustr option \<Rightarrow> int \<Rightarrow> int \<Rightarrow> ustr option tmux" where
  "start_arguments w cwd command width height =
     (if \<not> tw_exists w cwd
        then control_error ''cwd_not_found'' (u ''Working directory not found: '' @ path_text cwd) [(''cwd'', JStr (path_text cwd))]
      else if \<not> tw_is_dir w cwd
        then control_error ''cwd_not_directory'' (u ''Working directory is not a directory: '' @ path_text cwd)
          [(''cwd'', JStr (path_text cwd))]
      else if \<not> (40 \<le> width \<and> width \<le> 400) then invalid_tmux_arguments (u ''width must be between 40 and 400.'')
      else if \<not> (10 \<le> height \<and> height \<le> 200) then invalid_tmux_arguments (u ''height must be between 10 and 200.'')
      else
        (case command of
           None \<Rightarrow> pure_tmux None
         | Some c \<Rightarrow> if strip c = [] then invalid_tmux_arguments (u ''command must be non-empty when provided.'')
                    else pure_tmux (Some (strip c))))"

definition new_session_args :: "ustr \<Rightarrow> path \<Rightarrow> int \<Rightarrow> int \<Rightarrow> ustr list" where
  "new_session_args name cwd width height =
     [u ''new-session'', u ''-d'', u ''-P'', u ''-F'', create_format, u ''-s'', name, u ''-c'', path_text cwd,
      u ''-x'', int_repr width, u ''-y'', int_repr height]"

definition kill_session_args :: "ustr \<Rightarrow> ustr list" where
  "kill_session_args session_id = [u ''kill-session'', u ''-t'', session_id]"

text \<open>\<^verbatim>\<open>new-session\<close> and the three identifiers it prints.\<close>

definition create_session :: "tmux_world \<Rightarrow> ustr \<Rightarrow> path \<Rightarrow> int \<Rightarrow> int \<Rightarrow> (ustr \<times> ustr \<times> ustr) tmux" where
  "create_session w name cwd width height =
     bind_tmux (run_tmux w (new_session_args name cwd width height) None) (\<lambda>a.
       if ta_code a \<noteq> 0 \<and> has_sub (u ''duplicate session'') (lower (tmux_decode (ta_err a))) then session_exists name
       else
         bind_tmux (require_ok ''new-session'' a) (\<lambda>_.
           case split_tmux_fields (strip (tmux_decode (ta_out a))) of
             [s, win, p] \<Rightarrow>
               if s \<noteq> [] \<and> win \<noteq> [] \<and> p \<noteq> [] then pure_tmux (s, win, p)
               else bind_tmux (session_rows w name) (\<lambda>rows.
                 bind_tmux (case rows of [] \<Rightarrow> pure_tmux () | r # _ \<Rightarrow> best_effort w (kill_session_args (pr_session_id r))) (\<lambda>_.
                 control_error ''tmux_parse_failed'' (u ''tmux returned an unexpected new-session format.'') []))
           | _ \<Rightarrow> bind_tmux (session_rows w name) (\<lambda>rows.
                 bind_tmux (case rows of [] \<Rightarrow> pure_tmux () | r # _ \<Rightarrow> best_effort w (kill_session_args (pr_session_id r))) (\<lambda>_.
                 control_error ''tmux_parse_failed'' (u ''tmux returned an unexpected new-session format.'') []))))"

definition set_option_args :: "ustr \<Rightarrow> string \<Rightarrow> string \<Rightarrow> ustr list" where
  "set_option_args session_id name v = [u ''set-option'', u ''-t'', session_id, u name, u v]"

definition respawn_args :: "ustr \<Rightarrow> path \<Rightarrow> ustr \<Rightarrow> ustr list" where
  "respawn_args pane cwd command =
     [u ''respawn-pane'', u ''-k'', u ''-t'', pane, u ''-c'', path_text cwd, u ''--'', command]"

definition set_up_session :: "tmux_world \<Rightarrow> ustr \<Rightarrow> ustr \<Rightarrow> path \<Rightarrow> ustr option \<Rightarrow> bool \<Rightarrow> unit tmux" where
  "set_up_session w session_id pane cwd command remain_on_exit =
     bind_tmux (run_ok w ''set-option'' (set_option_args session_id ''@m5local_managed'' ''1'') None) (\<lambda>_.
     bind_tmux (run_ok w ''set-option'' (set_option_args session_id ''@m5local_created_by'' ''chatgpt-web-oauth-mcp'') None) (\<lambda>_.
     bind_tmux (run_ok w ''set-option''
         [u ''set-option'', u ''-w'', u ''-t'', pane, u ''remain-on-exit'', u (if remain_on_exit then ''on'' else ''off'')] None) (\<lambda>_.
     case command of
       None \<Rightarrow> pure_tmux ()
     | Some c \<Rightarrow> bind_tmux (run_ok w ''respawn-pane'' (respawn_args pane cwd c) None) (\<lambda>_. pure_tmux ()))))"

text \<open>A set-up that fails kills the session again and raises its error.\<close>

definition or_kill_session :: "tmux_world \<Rightarrow> ustr \<Rightarrow> 'a tmux \<Rightarrow> 'a tmux" where
  "or_kill_session w session_id m =
     (\<lambda>h. case m h of
        (Inl (ControlError d), h') \<Rightarrow>
          (case best_effort w (kill_session_args session_id) h' of (_, h'') \<Rightarrow> (Inl (ControlError d), h''))
      | r \<Rightarrow> r)"

definition start_payload ::
  "tmux_world \<Rightarrow> ustr \<Rightarrow> ustr \<times> ustr \<times> ustr \<Rightarrow> path \<Rightarrow> int \<Rightarrow> int \<Rightarrow> bool \<Rightarrow> ustr option \<Rightarrow> dict tmux" where
  "start_payload w name ids cwd width height remain_on_exit command =
     (case ids of (session_id, window_id, pane_id) \<Rightarrow>
        let payload = [(''success'', JBool True), (''socket_name'', JStr (tw_socket w)), (''session'', JStr name),
              (''session_id'', JStr session_id), (''window_id'', JStr window_id), (''pane_id'', JStr pane_id),
              (''cwd'', JStr (path_text cwd)), (''width'', JInt width), (''height'', JInt height),
              (''remain_on_exit'', JBool remain_on_exit), (''command_started'', JBool (command \<noteq> None))] in
        case command of
          None \<Rightarrow> pure_tmux payload
        | Some c \<Rightarrow>
            (case utf8_encode_strict c of
               None \<Rightarrow> (\<lambda>h. (Inl EncodeFails, h))
             | Some raw \<Rightarrow> pure_tmux (payload @ [(''command_length'', jnat (length c)), (''command_sha256'', JStr (tw_sha256 w raw))])))"

definition tmux_start ::
  "tmux_world \<Rightarrow> ustr \<Rightarrow> path \<Rightarrow> ustr option \<Rightarrow> int \<Rightarrow> int \<Rightarrow> bool \<Rightarrow> dict tmux" where
  "tmux_start w session cwd command width height remain_on_exit =
     tmux_reply (bind_tmux (validate_session_name session) (\<lambda>name.
       bind_tmux (session_rows w name) (\<lambda>rows.
       if rows \<noteq> [] then session_exists name
       else
         bind_tmux (start_arguments w cwd command width height) (\<lambda>command.
         bind_tmux (scrub_server_secrets w) (\<lambda>_.
         bind_tmux (create_session w name cwd width height) (\<lambda>ids.
         bind_tmux (or_kill_session w (fst ids) (set_up_session w (fst ids) (snd (snd ids)) cwd command remain_on_exit)) (\<lambda>_.
         start_payload w name ids cwd width height remain_on_exit command)))))))"

section \<open>Capture\<close>

definition max_capture_lines :: int where
  "max_capture_lines = 500"

definition max_capture_output_lines :: nat where
  "max_capture_output_lines = 700"

definition max_capture_bytes :: nat where
  "max_capture_bytes = 256 * 1024"

definition max_send_text_bytes :: nat where
  "max_send_text_bytes = 64 * 1024"

definition last_items :: "nat \<Rightarrow> 'a list \<Rightarrow> 'a list" where
  "last_items n xs = drop (length xs - n) xs"

text \<open>The loop from the last line backwards: the lines taken, in order, and whether the byte limit has cut.\<close>

fun take_last_lines :: "nat \<Rightarrow> ustr list \<Rightarrow> ustr list \<Rightarrow> nat \<Rightarrow> ustr list \<times> bool" where
  "take_last_lines limit [] taken count = (taken, False)"
| "take_last_lines limit (l # ls) taken count =
     (let line_bytes = utf8_len l + 1 in
      if taken \<noteq> [] \<and> limit < count + line_bytes then (taken, True)
      else if taken = [] \<and> limit < line_bytes
        then ([utf8_decode_replace (last_items limit (utf8_encode l))], True)
      else take_last_lines limit ls (l # taken) (count + line_bytes))"

record pane_capture =
  cp_lines :: "ustr list"
  cp_cut_lines :: bool
  cp_cut_bytes :: bool

definition capture_lines :: "int \<Rightarrow> bytes \<Rightarrow> pane_capture" where
  "capture_lines requested raw =
     (let all = splitlines (tmux_decode raw);
          (taken, cut) = take_last_lines max_capture_bytes (rev (last_items max_capture_output_lines all)) [] 0 in
      \<lparr>cp_lines = taken, cp_cut_lines = (max_capture_lines < requested \<or> max_capture_output_lines < length all), cp_cut_bytes = cut\<rparr>)"

definition capture_payload :: "tmux_world \<Rightarrow> pane_row \<Rightarrow> int \<Rightarrow> bool \<Rightarrow> pane_capture \<Rightarrow> bool \<Rightarrow> ustr list \<Rightarrow> dict" where
  "capture_payload w r requested join_wrapped c cut_tokens ls =
     [(''success'', JBool True), (''socket_name'', JStr (tw_socket w)), (''session'', JStr (pr_session_name r)),
      (''pane_id'', JStr (pr_pane_id r)), (''current_command'', JStr (pr_command r)), (''current_path'', JStr (pr_path r)),
      (''pane_dead'', JBool (pr_dead r)), (''exit_code'', int_json (pr_dead_status r)), (''requested_lines'', JInt requested),
      (''effective_line_limit'', JInt (min requested max_capture_lines)), (''max_output_lines'', jnat max_capture_output_lines),
      (''lines_returned'', jnat (length ls)), (''bytes_returned'', jnat (utf8_len (join [10] ls))),
      (''truncated_by_line_limit'', JBool (cp_cut_lines c)), (''truncated_by_byte_limit'', JBool (cp_cut_bytes c)),
      (''truncated_by_token_budget'', JBool cut_tokens), (''join_wrapped'', JBool join_wrapped),
      (''lines'', JList (map JStr ls)), (''content'', JStr (join [10] ls)), (''next_offset'', JNull)]"

text \<open>The first line is dropped until the reply fits the token budget or no line is left.\<close>

fun drop_until_fits :: "(ustr \<Rightarrow> nat) \<Rightarrow> response_budget \<Rightarrow> (ustr list \<Rightarrow> dict) \<Rightarrow> ustr list \<Rightarrow> dict \<times> budget_measurement \<Rightarrow> dict" where
  "drop_until_fits tok b payload [] rm = fst rm"
| "drop_until_fits tok b payload (l # ls) rm =
     (if fits (snd rm) then fst rm
      else drop_until_fits tok b payload ls (with_budget_metadata tok (payload ls) b True ''token_budget''))"

definition capture_reply :: "tmux_world \<Rightarrow> pane_row \<Rightarrow> int \<Rightarrow> bool \<Rightarrow> response_budget \<Rightarrow> pane_capture \<Rightarrow> dict" where
  "capture_reply w r requested join_wrapped b c =
     (let payload = capture_payload w r requested join_wrapped c;
          cut = cp_cut_lines c \<or> cp_cut_bytes c in
      drop_until_fits (tw_tok w) b (payload True) (cp_lines c)
        (with_budget_metadata (tw_tok w) (payload False (cp_lines c)) b cut
          (if cut then (if cp_cut_bytes c then ''byte_budget'' else ''line_limit'') else ''snapshot_complete'')))"

definition capture_args :: "bool \<Rightarrow> ustr \<Rightarrow> int \<Rightarrow> ustr list" where
  "capture_args join_wrapped pane n =
     [u ''capture-pane'', u ''-p''] @ (if join_wrapped then [u ''-J''] else []) @ [u ''-t'', pane, u ''-S'', 45 # int_repr n]"

definition tmux_capture :: "tmux_world \<Rightarrow> ustr \<Rightarrow> int \<Rightarrow> bool \<Rightarrow> response_budget \<Rightarrow> dict tmux" where
  "tmux_capture w session requested join_wrapped b =
     tmux_reply (
       if requested < 1 then invalid_tmux_arguments (u ''lines must be at least 1.'')
       else
         bind_tmux (require_session_rows w session) (\<lambda>rows.
         bind_tmux (run_ok w ''capture-pane''
             (capture_args join_wrapped (pr_pane_id (hd rows)) (min requested max_capture_lines)) None) (\<lambda>a.
         pure_tmux (capture_reply w (hd rows) requested join_wrapped b (capture_lines requested (ta_out a))))))"

section \<open>Send\<close>

definition allowed_keys :: "ustr list" where
  "allowed_keys =
     map u [''Enter'', ''C-m'', ''C-c'', ''C-d'', ''Escape'', ''Tab'', ''BSpace'', ''Delete'', ''Up'', ''Down'', ''Left'', ''Right'',
       ''Home'', ''End'', ''PageUp'', ''PageDown'']"

definition max_enter_count :: int where
  "max_enter_count = 3"

definition max_keys_per_call :: nat where
  "max_keys_per_call = 20"

text \<open>The bytes of the text, none for no text.\<close>

definition send_text :: "ustr option \<Rightarrow> bytes tmux" where
  "send_text t =
     (case t of
        None \<Rightarrow> pure_tmux []
      | Some s \<Rightarrow>
          if 0 \<in> set s then invalid_tmux_arguments (u ''text must not contain NUL characters.'')
          else
            (case utf8_encode_strict s of
               None \<Rightarrow> (\<lambda>h. (Inl EncodeFails, h))
             | Some raw \<Rightarrow>
                 if max_send_text_bytes < length raw
                 then control_error ''text_too_large'' (u ''text exceeds the 65536-byte limit.'') [(''text_bytes'', jnat (length raw))]
                 else pure_tmux raw))"

definition send_arguments :: "ustr option \<Rightarrow> ustr list \<Rightarrow> int \<Rightarrow> bytes tmux" where
  "send_arguments t keys enter_count =
     (if \<not> (0 \<le> enter_count \<and> enter_count \<le> max_enter_count)
        then invalid_tmux_arguments (u ''enter_count must be between 0 and 3.'')
      else if max_keys_per_call < length keys then invalid_tmux_arguments (u ''keys may contain at most 20 entries.'')
      else if \<not> set keys \<subseteq> set allowed_keys
        then control_error ''invalid_keys'' (u ''keys contains unsupported tmux key names.'')
          [(''invalid_keys'', JList (map JStr (filter (\<lambda>k. k \<notin> set allowed_keys) keys))),
           (''allowed_keys'', JList (map JStr (sort allowed_keys)))]
      else
        bind_tmux (send_text t) (\<lambda>raw.
          if raw = [] \<and> keys = [] \<and> enter_count = 0
          then invalid_tmux_arguments (u ''Provide non-empty text, at least one key, or enter_count greater than zero.'')
          else pure_tmux raw))"

definition key_name :: "ustr \<Rightarrow> ustr" where
  "key_name k = (if k = u ''C-m'' then u ''Enter'' else k)"

text \<open>The text goes through a buffer that is deleted whether or not the paste succeeds.\<close>

definition paste_text :: "tmux_world \<Rightarrow> ustr \<Rightarrow> bytes \<Rightarrow> unit tmux" where
  "paste_text w pane raw =
     (let name = u ''m5local_'' @ tw_token w in
      bind_tmux (run_ok w ''load-buffer'' [u ''load-buffer'', u ''-b'', name, u ''-''] (Some raw)) (\<lambda>_ h.
        case run_ok w ''paste-buffer'' [u ''paste-buffer'', u ''-b'', name, u ''-t'', pane, u ''-d''] None h of
          (r, h') \<Rightarrow> (map_sum id (\<lambda>_. ()) r, snd (best_effort w [u ''delete-buffer'', u ''-b'', name] h'))))"

definition send_keys_args :: "ustr \<Rightarrow> ustr list \<Rightarrow> ustr list" where
  "send_keys_args pane keys = [u ''send-keys'', u ''-t'', pane] @ keys"

definition send_input :: "tmux_world \<Rightarrow> ustr \<Rightarrow> bytes \<Rightarrow> ustr list \<Rightarrow> unit tmux" where
  "send_input w pane raw keys =
     bind_tmux (if raw = [] then pure_tmux () else paste_text w pane raw) (\<lambda>_.
       if keys = [] then pure_tmux ()
       else bind_tmux (run_ok w ''send-keys'' (send_keys_args pane keys) None) (\<lambda>_. pure_tmux ()))"

definition tmux_send :: "tmux_world \<Rightarrow> ustr \<Rightarrow> ustr option \<Rightarrow> ustr list \<Rightarrow> int \<Rightarrow> dict tmux" where
  "tmux_send w session t keys enter_count =
     tmux_reply (bind_tmux (send_arguments t keys enter_count) (\<lambda>raw.
       bind_tmux (require_session_rows w session) (\<lambda>rows.
         let r = hd rows in
         if pr_dead r
         then control_error ''pane_dead'' (u ''Cannot send input because the primary pane is dead: '' @ pr_pane_id r)
           [(''session'', JStr (pr_session_name r)), (''pane_id'', JStr (pr_pane_id r)), (''exit_code'', int_json (pr_dead_status r))]
         else
           bind_tmux (send_input w (pr_pane_id r) raw (map key_name keys @ replicate (nat enter_count) (u ''Enter''))) (\<lambda>_.
           pure_tmux [(''success'', JBool True), (''socket_name'', JStr (tw_socket w)), (''session'', JStr (pr_session_name r)),
             (''pane_id'', JStr (pr_pane_id r)), (''text_sent'', JBool (raw \<noteq> [])), (''text_bytes'', jnat (length raw)),
             (''keys_sent'', JList (map (\<lambda>k. JStr (key_name k)) keys)), (''enter_count'', JInt enter_count),
             (''accepted_by_tmux'', JBool True)]))))"

section \<open>Kill\<close>

definition tmux_kill :: "tmux_world \<Rightarrow> ustr \<Rightarrow> dict tmux" where
  "tmux_kill w session =
     tmux_reply (bind_tmux (validate_session_name session) (\<lambda>name.
       bind_tmux (session_rows w name) (\<lambda>rows.
         case rows of
           [] \<Rightarrow> pure_tmux [(''success'', JBool True), (''socket_name'', JStr (tw_socket w)), (''session'', JStr name),
               (''killed'', JBool False), (''already_absent'', JBool True)]
         | r # _ \<Rightarrow>
             bind_tmux (run_ok w ''kill-session'' (kill_session_args (pr_session_id r)) None) (\<lambda>_.
             pure_tmux [(''success'', JBool True), (''socket_name'', JStr (tw_socket w)), (''session'', JStr name),
               (''session_id'', JStr (pr_session_id r)), (''killed'', JBool True), (''already_absent'', JBool False)]))))"

section \<open>The version\<close>

text \<open>\<open>which\<close> is \<^verbatim>\<open>shutil.which\<close>, and \<open>version\<close> the answer to \<^verbatim>\<open>tmux -V\<close>, if it gives one in time.\<close>

definition tmux_runtime_info :: "(ustr \<Rightarrow> ustr option) \<Rightarrow> (ustr \<Rightarrow> tmux_answer option) \<Rightarrow> ustr \<Rightarrow> ustr \<Rightarrow> dict" where
  "tmux_runtime_info which version binary socket =
     (let executable = which binary;
          payload = [(''available'', JBool (executable \<noteq> None)),
            (''binary'', JStr (case executable of Some e \<Rightarrow> if e \<noteq> [] then e else binary | None \<Rightarrow> binary)),
            (''socket_name'', JStr socket), (''version'', JNull)] in
      case executable of
        None \<Rightarrow> payload
      | Some e \<Rightarrow>
          (case version e of
             Some a \<Rightarrow>
               if ta_code a = 0 \<and> strip (tmux_decode (ta_out a)) \<noteq> []
               then AList.update ''version'' (JStr (strip (tmux_decode (ta_out a)))) payload
               else payload
           | None \<Rightarrow> payload))"

end
