(* ===== verification/TmuxProps.thy ===== *)
theory TmuxProps
  imports TmuxOps
begin

text \<open>
  Properties of the tmux tools: which calls of tmux they make, on which session and with which environment.
\<close>

section \<open>The calls of a command\<close>

definition calls_in :: "(tmux_call \<Rightarrow> bool) \<Rightarrow> 'a tmux \<Rightarrow> bool" where
  "calls_in P m \<longleftrightarrow> (\<forall>h. \<exists>cs. snd (m h) = h @ cs \<and> list_all P cs)"

named_theorems calls_intro \<open>the calls of each construct\<close>

lemma calls_in_pure [calls_intro]: "calls_in P (pure_tmux x)"
  by (auto simp: calls_in_def pure_tmux_def)

lemma calls_in_error [calls_intro]: "calls_in P (control_error code message extra)"
  by (auto simp: calls_in_def control_error_def)

lemma calls_in_fails [calls_intro]: "calls_in P (\<lambda>h. (r, h))"
  by (auto simp: calls_in_def)

lemma calls_in_bind [calls_intro]:
  assumes "calls_in P m" "\<And>x. calls_in P (f x)"
  shows "calls_in P (bind_tmux m f)"
  unfolding calls_in_def
proof
  fix h
  obtain r h' where m: "m h = (r, h')" by fastforce
  with assms(1) obtain cs where cs: "h' = h @ cs" "list_all P cs" unfolding calls_in_def by (metis snd_conv)
  show "\<exists>cs. snd (bind_tmux m f h) = h @ cs \<and> list_all P cs"
  proof (cases r)
    case (Inr x)
    from assms(2) obtain cs' where "snd (f x h') = h' @ cs'" "list_all P cs'" unfolding calls_in_def by metis
    with cs m Inr show ?thesis by (intro exI [of _ "cs @ cs'"]) (simp add: bind_tmux_def)
  qed (use cs m in \<open>auto simp: bind_tmux_def\<close>)
qed

lemma snd_tmux_reply [simp]: "snd (tmux_reply m h) = snd (m h)"
  by (auto simp: tmux_reply_def split: prod.splits sum.splits tmux_error.splits)

lemma calls_in_reply [calls_intro]: "calls_in P m \<Longrightarrow> calls_in P (tmux_reply m)"
  by (simp add: calls_in_def)

definition call_of :: "tmux_world \<Rightarrow> ustr list \<Rightarrow> bytes option \<Rightarrow> tmux_call" where
  "call_of w args input = \<lparr>tc_args = args, tc_input = input, tc_env = client_env (tw_environ w)\<rparr>"

lemma snd_run_tmux [simp]: "snd (run_tmux w args input h) = h @ [call_of w args input]"
  by (simp add: run_tmux_def call_of_def Let_def)

lemma calls_in_run: "P (call_of w args input) \<Longrightarrow> calls_in P (run_tmux w args input)"
  by (simp add: calls_in_def)

lemma calls_in_require [calls_intro]: "calls_in P (require_ok operation a)"
  by (auto simp: require_ok_def Let_def intro: calls_intro)

lemma calls_in_run_ok: "P (call_of w args input) \<Longrightarrow> calls_in P (run_ok w operation args input)"
  unfolding run_ok_def by (intro calls_intro calls_in_run)

lemma calls_in_best_effort: "P (call_of w args None) \<Longrightarrow> calls_in P (best_effort w args)"
  by (simp add: calls_in_def best_effort_def)

lemma calls_in_cases: "calls_in P m \<Longrightarrow> m h = (r, h') \<Longrightarrow> \<exists>cs. h' = h @ cs \<and> list_all P cs"
  unfolding calls_in_def by (metis snd_conv)

lemma calls_in_finally:
  assumes "calls_in P m" "calls_in P n"
  shows "calls_in P (\<lambda>h. case m h of (r, h') \<Rightarrow> (f r, snd (n h')))"
  unfolding calls_in_def
proof
  fix h
  obtain r h' where m: "m h = (r, h')" by fastforce
  from calls_in_cases [OF assms(1) m] obtain cs where "h' = h @ cs" "list_all P cs" by blast
  moreover obtain cs' where "snd (n h') = h' @ cs'" "list_all P cs'" using assms(2) unfolding calls_in_def by metis
  ultimately show "\<exists>cs. snd (case m h of (r, h') \<Rightarrow> (f r, snd (n h'))) = h @ cs \<and> list_all P cs"
    by (intro exI [of _ "cs @ cs'"]) (simp add: m)
qed

section \<open>Environment\<close>

text \<open>No call of tmux carries the credentials of the server or the variables of an enclosing tmux.\<close>

definition hidden_keys :: "ustr set" where
  "hidden_keys = {u ''TMUX'', u ''TMUX_PANE''} \<union> set control_plane_secret_env_keys"

definition clean_call :: "tmux_call \<Rightarrow> bool" where
  "clean_call c \<longleftrightarrow> fst ` set (tc_env c) \<inter> hidden_keys = {}"

lemma delete_fst [simp]: "fst ` set (AList.delete k al) = fst ` set al - {k}"
  by (metis delete_keys image_set set_removeAll)

lemma fold_delete_fst [simp]: "fst ` set (fold AList.delete ks al) = fst ` set al - set ks"
  by (induction ks arbitrary: al) auto

lemma clean_call_of: "clean_call (call_of w args input)"
  by (auto simp: clean_call_def call_of_def client_env_def sanitized_child_env_def hidden_keys_def)

section \<open>Which session\<close>

lemma valid_name_strip:
  assumes "valid_name extra s" "extra \<subseteq> {45, 46, 95}"
  shows "strip s = s"
proof -
  have "\<not> is_space c" if "ascii_alnum c \<or> c \<in> extra" for c
    using that assms(2) by (auto simp: is_space_def ascii_alnum_def)
  with assms(1) have ok: "list_all (\<lambda>c. \<not> is_space c) s" by (auto simp: valid_name_def list_all_iff split: list.splits)
  have "rstrip_by is_space s = s"
    using ok by (cases s rule: rev_cases) (simp_all add: rstrip_by_def)
  moreover have "dropWhile is_space s = s" using ok by (cases s) simp_all
  ultimately show ?thesis by (simp add: strip_def)
qed

definition list_call :: "tmux_world \<Rightarrow> tmux_call" where
  "list_call w = call_of w [u ''list-panes'', u ''-a'', u ''-F'', pane_format] None"

text \<open>A pane that tmux has just listed under the name.\<close>

definition listed :: "tmux_world \<Rightarrow> tmux_call list \<Rightarrow> ustr \<Rightarrow> pane_row \<Rightarrow> bool" where
  "listed w h name r \<longleftrightarrow>
     pr_session_name r = name \<and> valid_name {45, 95} name \<and>
     (\<exists>a rows. tw_tmux w (h @ [list_call w]) = Inr a \<and> parse_rows (ta_out a) = Inr rows \<and> r \<in> set rows)"

lemma all_panes_effect:
  assumes "all_panes w h = (r, h')"
  shows "h' = h @ [list_call w] \<and>
    (\<forall>rows. r = Inr rows \<longrightarrow> rows = [] \<or> (\<exists>a. tw_tmux w (h @ [list_call w]) = Inr a \<and> parse_rows (ta_out a) = Inr rows))"
  using assms
  by (auto simp: all_panes_def bind_tmux_def run_tmux_def require_ok_def list_call_def call_of_def pure_tmux_def control_error_def
      Let_def split: sum.splits if_splits)

lemma session_rows_effect:
  assumes "session_rows w session h = (r, h')"
  shows "h' = h \<and> (\<exists>e. r = Inl e) \<and> \<not> valid_name {45, 95} (strip session) \<or>
    h' = h @ [list_call w] \<and> valid_name {45, 95} (strip session) \<and>
      (\<forall>rows. r = Inr rows \<longrightarrow> list_all (listed w h (strip session)) rows)"
proof -
  obtain r1 h1 where panes: "all_panes w h = (r1, h1)" by fastforce
  from all_panes_effect [OF this] panes assms show ?thesis
    by (cases r1) (auto simp: session_rows_def validate_session_name_def bind_tmux_def pure_tmux_def control_error_def Let_def
        listed_def list_all_iff split: if_splits)
qed

lemma require_session_rows_effect:
  assumes "require_session_rows w session h = (r, h')"
  shows "h' = h \<and> (\<exists>e. r = Inl e) \<or>
    h' = h @ [list_call w] \<and> (\<forall>rows. r = Inr rows \<longrightarrow> rows \<noteq> [] \<and> listed w h (strip session) (hd rows))"
proof (cases "valid_name {45, 95} (strip session)")
  case True
  then have "strip (strip session) = strip session" by (rule valid_name_strip) auto
  moreover obtain r1 h1 where "session_rows w (strip session) h = (r1, h1)" by fastforce
  ultimately show ?thesis using session_rows_effect [of w "strip session" h r1 h1] assms True
    by (cases r1) (auto simp: require_session_rows_def validate_session_name_def bind_tmux_def pure_tmux_def control_error_def Let_def
        list_all_iff split: if_splits)
next
  case False
  with assms show ?thesis
    by (auto simp: require_session_rows_def validate_session_name_def bind_tmux_def control_error_def Let_def)
qed

section \<open>Sending input\<close>

text \<open>The calls that may follow: the text through a buffer, and keys of the allowed list, for one pane.\<close>

definition input_call :: "tmux_world \<Rightarrow> ustr \<Rightarrow> bytes \<Rightarrow> tmux_call \<Rightarrow> bool" where
  "input_call w pane raw c \<longleftrightarrow> clean_call c \<and>
     (let name = u ''m5local_'' @ tw_token w in
        tc_args c = [u ''load-buffer'', u ''-b'', name, u ''-''] \<and> tc_input c = Some raw \<or>
        tc_input c = None \<and>
          (tc_args c = [u ''paste-buffer'', u ''-b'', name, u ''-t'', pane, u ''-d''] \<or>
           tc_args c = [u ''delete-buffer'', u ''-b'', name] \<or>
           (\<exists>keys. set keys \<subseteq> set allowed_keys \<and> tc_args c = send_keys_args pane keys)))"

lemma paste_calls: "calls_in (input_call w pane raw) (paste_text w pane raw)"
proof -
  let ?name = "u ''m5local_'' @ tw_token w"
  let ?paste = "run_ok w ''paste-buffer'' [u ''paste-buffer'', u ''-b'', ?name, u ''-t'', pane, u ''-d''] None"
  have paste: "calls_in (input_call w pane raw) ?paste"
    by (rule calls_in_run_ok) (use clean_call_of in \<open>simp add: input_call_def Let_def call_of_def\<close>)
  have delete: "calls_in (input_call w pane raw) (best_effort w [u ''delete-buffer'', u ''-b'', ?name])"
    by (rule calls_in_best_effort) (use clean_call_of in \<open>simp add: input_call_def Let_def call_of_def\<close>)
  note calls_in_finally [OF paste delete, of "map_sum id (\<lambda>_. ())"]
  moreover have "input_call w pane raw (call_of w [u ''load-buffer'', u ''-b'', ?name, u ''-''] (Some raw))"
    using clean_call_of by (simp add: input_call_def Let_def call_of_def)
  ultimately show ?thesis unfolding paste_text_def Let_def by (intro calls_in_bind calls_in_run_ok)
qed

lemma send_calls:
  assumes "set keys \<subseteq> set allowed_keys"
  shows "calls_in (input_call w pane raw) (send_input w pane raw keys)"
proof -
  have "input_call w pane raw (call_of w (send_keys_args pane keys) None)"
    using assms clean_call_of by (auto simp: input_call_def Let_def call_of_def)
  then show ?thesis unfolding send_input_def using paste_calls
    by (auto intro!: calls_intro calls_in_run_ok)
qed

text \<open>C36: Input reaches only the session it was meant for. A call of \<^verbatim>\<open>tmux_send\<close> asks tmux for its panes
  at most once; whatever else it runs puts the text of the request into its own buffer, pastes that buffer into one
  pane, deletes it, or sends keys of the allowed list to that pane, and the pane is a live one that tmux has just
  listed under exactly the given name, which is a plain word and no option or target expression. The text is never
  part of a command line, and no call carries the credentials of the server or an enclosing tmux in its
  environment.\<close>
theorem input_reaches_only_the_named_session:
  assumes "tmux_send w session t keys enter_count h = (r, h')"
  shows "h' = h \<or>
    (\<exists>calls. h' = h @ list_call w # calls \<and> clean_call (list_call w) \<and>
       (calls \<noteq> [] \<longrightarrow>
         (\<exists>pane raw. listed w h (strip session) pane \<and> \<not> pr_dead pane \<and>
            (case t of None \<Rightarrow> raw = [] | Some s \<Rightarrow> utf8_encode_strict s = Some raw) \<and>
            list_all (input_call w (pr_pane_id pane) raw) calls)))"
proof -
  obtain r1 h1 where args: "send_arguments t keys enter_count h = (r1, h1)" by fastforce
  have pure: "h1 = h \<and> (\<forall>raw. r1 = Inr raw \<longrightarrow> set keys \<subseteq> set allowed_keys \<and>
      (case t of None \<Rightarrow> raw = [] | Some s \<Rightarrow> utf8_encode_strict s = Some raw))"
    using args by (auto simp: send_arguments_def send_text_def bind_tmux_def pure_tmux_def control_error_def
        invalid_tmux_arguments_def split: if_splits option.splits)
  show ?thesis
  proof (cases r1)
    case (Inl e)
    with args assms pure show ?thesis
      by (auto simp: tmux_send_def tmux_reply_def bind_tmux_def split: tmux_error.splits)
  next
    case (Inr raw)
    obtain r2 h2 where rows: "require_session_rows w session h = (r2, h2)" by fastforce
    define pane where "pane = hd (projr r2)"
    define sent where "sent = map key_name keys @ replicate (nat enter_count) (u ''Enter'')"
    have "u ''Enter'' \<in> set allowed_keys" by (simp add: allowed_keys_def)
    with pure Inr have "set sent \<subseteq> set allowed_keys" by (auto simp: sent_def key_name_def)
    note send = send_calls [OF this, of w "pr_pane_id pane" raw]
    have snd: "h' = snd (tmux_send w session t keys enter_count h)" by (simp add: assms)
    show ?thesis
    proof (cases "(\<exists>e. r2 = Inl e) \<or> pr_dead pane")
      case True
      then have "h' = h2" using snd args Inr rows pure
        by (cases r2) (auto simp: tmux_send_def bind_tmux_def control_error_def Let_def pane_def)
      with require_session_rows_effect [OF rows] show ?thesis using clean_call_of by (auto simp: list_call_def)
    next
      case False
      then obtain all where all: "r2 = Inr all" "pane = hd all" by (cases r2) (auto simp: pane_def)
      then have "h' = snd (send_input w (pr_pane_id pane) raw sent h2)" using snd args Inr rows pure False
        by (auto simp: tmux_send_def bind_tmux_def Let_def sent_def pure_tmux_def split: prod.splits sum.splits)
      then obtain calls where "h' = h2 @ calls" "list_all (input_call w (pr_pane_id pane) raw) calls"
        using send unfolding calls_in_def by metis
      with require_session_rows_effect [OF rows] all False pure Inr show ?thesis using clean_call_of
        by (intro disjI2 exI [of _ calls]) (auto simp: list_call_def)
    qed
  qed
qed

text \<open>One session \<open>a\<close> with one live pane.\<close>

definition demo_pane_line :: ustr where
  "demo_pane_line =
     join [31] (map u [''a'', ''$1'', ''0'', ''1'', ''5'', ''@1'', ''0'', ''sh'', ''%1'', ''0'', ''1'', ''9'', ''sh'', ''/'', ''0'', [], [], ''80'', ''24'', ''1''])"

definition demo_tmux :: tmux_world where
  "demo_tmux =
     \<lparr>tw_tmux = (\<lambda>h. Inr \<lparr>ta_code = 0, ta_out = (if length h = 1 then utf8_encode demo_pane_line else []), ta_err = []\<rparr>),
      tw_binary = u ''tmux'', tw_socket = u ''default'', tw_timeout = 10, tw_environ = [], tw_exists = (\<lambda>p. True),
      tw_is_dir = (\<lambda>p. True), tw_sha256 = (\<lambda>b. []), tw_token = u ''0'', tw_tok = (\<lambda>t. 1)\<rparr>"

definition demo_pane :: pane_row where
  "demo_pane = parse_row (split_tmux_fields demo_pane_line)"

lemma demo_pane_fields:
  "pr_session_name demo_pane = u ''a''" "pr_pane_id demo_pane = u ''%1''" "\<not> pr_dead demo_pane"
  "length (split_tmux_fields demo_pane_line) = length pane_fields"
  by (simp_all add: demo_pane_def demo_pane_line_def split_tmux_fields_def parse_row_def bool_value_def pane_fields_def)

lemma demo_rows: "parse_rows (utf8_encode demo_pane_line) = Inr [demo_pane]"
proof -
  have "list_all scalar_value demo_pane_line" by (simp add: demo_pane_line_def scalar_value_def)
  moreover have "splitlines demo_pane_line = [demo_pane_line]" by (simp add: demo_pane_line_def splitlines_def is_line_break_def)
  moreover have "demo_pane_line \<noteq> []" by (simp add: demo_pane_line_def)
  ultimately show ?thesis by (simp add: parse_rows_def tmux_decode_def demo_pane_fields demo_pane_def)
qed

theorem input_reaches_only_the_named_session_witness:
  "\<exists>calls pane. snd (tmux_send demo_tmux (u ''a'') None [u ''C-c''] 0 []) = list_call demo_tmux # calls \<and> length calls = 1 \<and>
     listed demo_tmux [] (u ''a'') pane \<and> list_all (input_call demo_tmux (pr_pane_id pane) []) calls"
proof -
  have "strip (u ''a'') = u ''a''" "valid_name {45, 95} (u ''a'')"
    by (simp_all add: strip_def rstrip_by_def is_space_def valid_name_def ascii_alnum_def)
  then have "require_session_rows demo_tmux (u ''a'') [] = (Inr [demo_pane], [list_call demo_tmux])"
    by (simp add: require_session_rows_def session_rows_def validate_session_name_def all_panes_def bind_tmux_def run_tmux_def
        require_ok_def pure_tmux_def demo_rows demo_pane_fields list_call_def call_of_def Let_def) (simp add: demo_tmux_def demo_rows demo_pane_fields bind_tmux_def require_ok_def pure_tmux_def)
  moreover have "send_arguments None [u ''C-c''] 0 [] = (Inr [], [])"
    by (simp add: send_arguments_def send_text_def bind_tmux_def pure_tmux_def max_enter_count_def max_keys_per_call_def allowed_keys_def)
  ultimately have sent: "length (snd (tmux_send demo_tmux (u ''a'') None [u ''C-c''] 0 [])) = 2"
    by (simp add: tmux_send_def bind_tmux_def Let_def demo_pane_fields send_input_def run_ok_def require_ok_def pure_tmux_def
        demo_tmux_def run_tmux_def)
  obtain r h where run: "tmux_send demo_tmux (u ''a'') None [u ''C-c''] 0 [] = (r, h)" by fastforce
  with input_reaches_only_the_named_session [OF run] sent \<open>strip (u ''a'') = u ''a''\<close> show ?thesis by fastforce
qed

section \<open>A start that fails\<close>

lemma run_tmux_cases:
  assumes "run_tmux w args input h = (r, h')"
  shows "h' = h @ [call_of w args input] \<and> (\<forall>e. r = Inl e \<longrightarrow> (\<exists>d. e = ControlError d))"
  using assms by (auto simp: run_tmux_def call_of_def Let_def split: sum.splits)

text \<open>Every error before the reply is a control error.\<close>

definition controlled :: "'a tmux \<Rightarrow> bool" where
  "controlled m \<longleftrightarrow> (\<forall>h. fst (m h) \<noteq> Inl EncodeFails)"

lemma controlled_pure: "controlled (pure_tmux x)"
  by (simp add: controlled_def pure_tmux_def)

lemma controlled_bind: "controlled m \<Longrightarrow> (\<And>x. controlled (f x)) \<Longrightarrow> controlled (bind_tmux m f)"
  by (auto simp: controlled_def bind_tmux_def split: prod.splits sum.splits) (metis fst_conv)+

lemma controlled_run_ok: "controlled (run_ok w operation args input)"
  by (auto simp: controlled_def run_ok_def bind_tmux_def run_tmux_def require_ok_def pure_tmux_def control_error_def Let_def
      split: sum.splits)

lemma controlled_set_up: "controlled (set_up_session w s p cwd command remain)"
  unfolding set_up_session_def
  by (intro controlled_bind controlled_run_ok) (auto split: option.split intro: controlled_bind controlled_run_ok controlled_pure)

lemma set_up_calls:
  "calls_in (\<lambda>c. clean_call c \<and> tc_args c \<noteq> kill_session_args x) (set_up_session w s p cwd command remain)"
  unfolding set_up_session_def
  by (intro calls_in_bind calls_in_run_ok)
    (auto simp: kill_session_args_def set_option_args_def respawn_args_def clean_call_of split: option.split
      intro!: calls_intro calls_in_run_ok, simp_all add: call_of_def)

text \<open>When a session has been created and its set-up fails, the last call kills that session, and the error is reported.\<close>

lemma failed_set_up_kills_the_session:
  assumes "or_kill_session w s (set_up_session w s p cwd command remain) h = (r, h')"
  shows "(\<exists>e. r = Inl e \<and> e \<noteq> EncodeFails \<and> last h' = call_of w (kill_session_args s) None) \<or>
    r = Inr () \<and> (\<exists>cs. h' = h @ cs \<and> list_all (\<lambda>c. tc_args c \<noteq> kill_session_args s) cs)"
proof -
  obtain r1 h1 where m: "set_up_session w s p cwd command remain h = (r1, h1)" by fastforce
  obtain cs where cs: "h1 = h @ cs" "list_all (\<lambda>c. clean_call c \<and> tc_args c \<noteq> kill_session_args s) cs"
    using calls_in_cases [OF set_up_calls m] by blast
  have "r1 \<noteq> Inl EncodeFails" using controlled_set_up [of w s p cwd command remain] m unfolding controlled_def by (metis fst_conv)
  with assms m cs show ?thesis
    by (cases r1) (auto simp: or_kill_session_def best_effort_def list_all_iff split: tmux_error.splits)
qed

text \<open>A window whose name holds a character that \<^verbatim>\<open>splitlines\<close> takes for a line boundary breaks every tool.\<close>

lemma line_boundary_breaks_the_listing:
  "\<exists>d. parse_rows (utf8_encode (take 28 demo_pane_line @ 0x2028 # drop 28 demo_pane_line)) = Inl d"
proof -
  let ?out = "take 28 demo_pane_line @ 0x2028 # drop 28 demo_pane_line"
  have "list_all scalar_value ?out" by (simp add: demo_pane_line_def scalar_value_def)
  then have "utf8_decode_replace (utf8_encode ?out) = ?out" by (rule utf8_decode_replace_encode)
  moreover have "splitlines ?out = [take 28 demo_pane_line, drop 28 demo_pane_line]"
    by (simp add: demo_pane_line_def splitlines_def is_line_break_def)
  moreover have "take 28 demo_pane_line \<noteq> []" "length (split_tmux_fields (take 28 demo_pane_line)) \<noteq> length pane_fields"
    by (simp_all add: demo_pane_line_def split_tmux_fields_def pane_fields_def)
  ultimately show ?thesis by (simp add: parse_rows_def tmux_decode_def Let_def del: utf8_encode_simps)
qed

end
