(* ===== verification/RuntimeTools.thy ===== *)
theory RuntimeTools
  imports RuntimeModels Budget Utf8
begin

text \<open>
  The tools of the Codex runtime (\<^verbatim>\<open>tools_codex_runtime.py\<close>): the policy that answers requests for approval,
  the questions that are passed to the client, the payload of an error, and the shrinking of a reply to its token budget.
  The products with a floating-point fraction are an argument, as is the answer of the client.
\<close>

section \<open>Approval policy\<close>

text \<open>\<^verbatim>\<open>TypeError\<close> is raised by the membership test of a list or an object in a set.\<close>

datatype tool_crash = TypeErrorRaised | ValueErrorRaised | ClientFailed

definition hashable :: "json \<Rightarrow> bool" where
  "hashable j \<longleftrightarrow> (case j of JList xs \<Rightarrow> False | JObj d \<Rightarrow> False | _ \<Rightarrow> True)"

text \<open>\<^verbatim>\<open>d == e\<close> for objects whose values compare by structure.\<close>

definition same_object :: "dict \<Rightarrow> dict \<Rightarrow> bool" where
  "same_object d e \<longleftrightarrow> fst ` set d = fst ` set e \<and> list_all (\<lambda>k. map_of d k = map_of e k) (map fst e)"

definition get_default_json :: "dict \<Rightarrow> string \<Rightarrow> json \<Rightarrow> json" where
  "get_default_json d k v = (case map_of d k of None \<Rightarrow> v | Some j \<Rightarrow> j)"

definition elicitation_answer :: "string \<Rightarrow> json \<Rightarrow> json \<Rightarrow> dict" where
  "elicitation_answer action content meta = [(''action'', jlit action), (''content'', content), (''_meta'', meta)]"

definition empty_schema :: "json \<Rightarrow> bool" where
  "empty_schema j \<longleftrightarrow>
     (case j of JObj d \<Rightarrow> same_object d [(''type'', jlit ''object''), (''properties'', JObj [])] | _ \<Rightarrow> False)"

definition non_empty_text :: "json \<Rightarrow> bool" where
  "non_empty_text j \<longleftrightarrow> (case j of JStr s \<Rightarrow> s \<noteq> [] | _ \<Rightarrow> False)"

text \<open>The conditions before the look at the risk level, and those behind it.\<close>

definition exact_request :: "dict \<Rightarrow> dict \<Rightarrow> bool" where
  "exact_request params meta \<longleftrightarrow>
     get_or_null params ''serverName'' = jlit ''cua_repl'' \<and> get_or_null params ''turnId'' = JNull \<and>
     non_empty_text (get_or_null params ''threadId'') \<and> get_default_json params ''mode'' (jlit ''form'') = jlit ''form'' \<and>
     empty_schema (get_or_null params ''requestedSchema'') \<and>
     get_or_null meta ''codex_approval_kind'' = jlit ''mcp_tool_call'' \<and> get_or_null meta ''tool_name'' = jlit ''get_app_state''"

definition requested_app :: "dict \<Rightarrow> ustr option" where
  "requested_app meta =
     (case get_or_null meta ''tool_params'' of
        JObj d \<Rightarrow>
          if fst ` set d = {''app''} then (case get_or_null d ''app'' of JStr app \<Rightarrow> Some app | _ \<Rightarrow> None) else None
      | _ \<Rightarrow> None)"

definition persistence :: "dict \<Rightarrow> string option" where
  "persistence meta =
     (case get_or_null meta ''persist'' of
        JList js \<Rightarrow>
          (case json_texts js of
             None \<Rightarrow> None
           | Some persist \<Rightarrow>
               if persist = [] \<or> \<not> distinct persist \<or> \<not> set persist \<subseteq> {u ''session'', u ''always''} then None
               else if u ''always'' \<in> set persist then Some ''always'' else Some ''session'')
      | _ \<Rightarrow> None)"

definition computer_use_approval_response :: "string \<Rightarrow> ustr set \<Rightarrow> dict \<Rightarrow> tool_crash + dict option" where
  "computer_use_approval_response mode allowed interaction =
     (if mode = ''interactive'' \<or> get_or_null interaction ''method'' \<noteq> jlit ''mcpServer/elicitation/request'' then Inr None
      else
        (case get_or_null interaction ''params'' of
           JObj params \<Rightarrow>
             (case get_or_null params ''_meta'' of
                JObj meta \<Rightarrow>
                  if get_or_null meta ''connector_id'' \<noteq> jlit ''computer-use'' then Inr None
                  else if mode = ''deny'' then Inr (Some (elicitation_answer ''decline'' JNull JNull))
                  else if mode \<noteq> ''prototype'' \<or> \<not> exact_request params meta then Inr None
                  else if \<not> hashable (get_or_null meta ''riskLevel'') then Inl TypeErrorRaised
                  else if get_or_null meta ''riskLevel'' \<notin> {jlit ''low'', jlit ''high''} then Inr None
                  else
                    (case requested_app meta of
                       None \<Rightarrow> Inr None
                     | Some app \<Rightarrow>
                         if app \<notin> allowed then Inr None
                         else
                           (case persistence meta of
                              None \<Rightarrow> Inr None
                            | Some p \<Rightarrow> Inr (Some (elicitation_answer ''accept'' (JObj []) (JObj [(''persist'', jlit p)])))))
              | _ \<Rightarrow> Inr None)
         | _ \<Rightarrow> Inr None))"

text \<open>A question the policy does not answer goes to the client: its message and schema, and nothing else.\<close>

type_synonym client_answer = "(ustr \<times> json) option"

definition bridge_elicitation :: "(ustr \<Rightarrow> dict \<Rightarrow> client_answer) \<Rightarrow> dict \<Rightarrow> tool_crash + dict" where
  "bridge_elicitation ask interaction =
     (let cancel = Inr (elicitation_answer ''cancel'' JNull JNull) in
      case get_or_null interaction ''params'' of
        JObj params \<Rightarrow>
          let mode = get_default_json params ''mode'' (jlit ''form'') in
          if \<not> hashable mode then Inl TypeErrorRaised
          else if mode \<notin> {jlit ''form'', jlit ''openai/form'', jlit ''openaiForm''} then cancel
          else
            (case (get_or_null params ''message'', get_or_null params ''requestedSchema'') of
               (JStr message, JObj schema) \<Rightarrow>
                 (case ask message schema of
                    None \<Rightarrow> Inl ClientFailed
                  | Some (action, content) \<Rightarrow>
                      if action \<notin> {u ''accept'', u ''decline'', u ''cancel''} then Inl ValueErrorRaised
                      else Inr [(''action'', JStr action), (''content'', if action = u ''accept'' then content else JNull),
                        (''_meta'', JNull)])
             | _ \<Rightarrow> cancel)
      | _ \<Rightarrow> cancel)"

definition handle_interaction ::
  "string \<Rightarrow> ustr set \<Rightarrow> (ustr \<Rightarrow> dict \<Rightarrow> client_answer) \<Rightarrow> dict \<Rightarrow> tool_crash + dict" where
  "handle_interaction mode allowed ask interaction =
     (case computer_use_approval_response mode allowed interaction of
        Inl e \<Rightarrow> Inl e
      | Inr (Some answer) \<Rightarrow> Inr answer
      | Inr None \<Rightarrow> bridge_elicitation ask interaction)"

section \<open>Errors\<close>

datatype operation_outcome = Returned dict | RuntimeFailure runtime_error | InvalidOperation ustr | OtherFailure

definition failure_payload :: "(string \<times> json) list \<Rightarrow> dict" where
  "failure_payload error = [(''success'', JBool False), (''error'', JObj error)]"

definition invoke_operation :: "(runtime_error \<Rightarrow> ustr) \<Rightarrow> operation_outcome \<Rightarrow> dict" where
  "invoke_operation message_of r =
     (case r of
        Returned d \<Rightarrow> d
      | RuntimeFailure e \<Rightarrow>
          failure_payload ([(''code'', jlit (re_code e)), (''message'', JStr (message_of e)), (''retryable'', JBool (re_retryable e))] @
            (if re_details e = [] then [] else [(''details'', JObj (re_details e))])) @
          (if re_side_effects e = [] then [] else [(''side_effects'', JObj (re_side_effects e))])
      | InvalidOperation message \<Rightarrow> failure_payload [(''code'', jlit ''runtime_invalid_operation''), (''message'', JStr message)]
      | OtherFailure \<Rightarrow> failure_payload [(''code'', jlit ''runtime_internal_error''),
          (''message'', jlit ''The Codex runtime operation failed unexpectedly.'')])"

definition manager_or_error :: "'a option \<Rightarrow> dict + 'a" where
  "manager_or_error manager =
     (case manager of
        None \<Rightarrow> Inl (failure_payload [(''code'', jlit ''runtime_disabled''), (''message'', jlit ''Codex runtime support is not configured.'')])
      | Some m \<Rightarrow> Inr m)"

section \<open>Shrinking a reply\<close>

definition max_text_bytes :: nat where
  "max_text_bytes = 256 * 1024"

definition truncation_marker :: ustr where
  "truncation_marker = 10 # u ''...[truncated]...'' @ [10]"

definition truncate_text :: "ustr \<Rightarrow> nat \<Rightarrow> ustr" where
  "truncate_text v cap =
     (let limit = min cap max_text_bytes; raw = utf8_encode v; m = length truncation_marker in
      if length raw \<le> limit then v
      else if limit \<le> m then take limit truncation_marker
      else
        let head_size = (limit - m) div 2; tail_size = limit - m - head_size in
        utf8_decode_ignore (take head_size raw) @ truncation_marker @
        (if tail_size = 0 then [] else utf8_decode_ignore (drop (length raw - tail_size) raw)))"

text \<open>A fraction: whether it is positive, and \<^verbatim>\<open>int(n * fraction)\<close>.\<close>

record fraction =
  fr_positive :: bool
  fr_of :: "nat \<Rightarrow> nat"

definition keep_count :: "fraction \<Rightarrow> nat \<Rightarrow> nat" where
  "keep_count f n = (let k = fr_of f n in if fr_positive f \<and> k = 0 \<and> 0 < n then 1 else k)"

fun scale_value :: "fraction \<Rightarrow> json \<Rightarrow> json" where
  "scale_value f (JStr s) = JStr (truncate_text s (fr_of f (length (utf8_encode s))))"
| "scale_value f (JList js) = JList (take (keep_count f (length js)) (map (scale_value f) js))"
| "scale_value f (JObj d) = JObj (take (keep_count f (length d)) (map (\<lambda>(k, j). (k, scale_value f j)) d))"
| "scale_value f j = j"

definition scale_tool :: "fraction \<Rightarrow> json \<Rightarrow> json" where
  "scale_tool f j =
     (case j of JObj d \<Rightarrow> JObj (map (\<lambda>(k, v). (k, if k = ''name'' then v else scale_value f v)) d) | _ \<Rightarrow> j)"

definition scale_inventory_tools :: "fraction \<Rightarrow> dict \<Rightarrow> dict" where
  "scale_inventory_tools f d = map (\<lambda>(k, tool). (k, scale_tool f tool)) d"

definition identity_keys :: "string set" where
  "identity_keys = {''server'', ''name'', ''authStatus'', ''runtimeStatus''}"

definition scale_server_field :: "fraction \<Rightarrow> string \<times> json \<Rightarrow> string \<times> json" where
  "scale_server_field f kv =
     (case kv of (k, v) \<Rightarrow>
        (k, if k \<in> identity_keys then v
            else (case v of
                    JObj tools \<Rightarrow> if k = ''tools'' then JObj (scale_inventory_tools f tools) else scale_value f v
                  | _ \<Rightarrow> scale_value f v)))"

definition scale_server :: "fraction \<Rightarrow> json \<Rightarrow> json" where
  "scale_server f j = (case j of JObj d \<Rightarrow> JObj (map (scale_server_field f) d) | _ \<Rightarrow> j)"

definition scale_inventory :: "fraction \<Rightarrow> json \<Rightarrow> json" where
  "scale_inventory f j =
     (case j of JList servers \<Rightarrow> JList (map (scale_server f) (take (keep_count f (length servers)) servers)) | _ \<Rightarrow> JList [])"

definition scale_field :: "fraction \<Rightarrow> string \<Rightarrow> dict \<Rightarrow> dict" where
  "scale_field f field d =
     (case map_of d field of
        None \<Rightarrow> d
      | Some v \<Rightarrow> AList.update field (if field = ''servers'' then scale_inventory f v else scale_value f v) d)"

definition scaled_candidate :: "fraction \<Rightarrow> string list \<Rightarrow> dict \<Rightarrow> dict" where
  "scaled_candidate f names payload =
     AList.update ''truncated_fields'' (JList (map (\<lambda>x. jlit x) names)) (fold (scale_field f) names payload)"

text \<open>The fractions 0.75, 0.5, 0.35, 0.2, 0.1, 0.05 and 0 in hundredths; \<open>share\<close> is the product.\<close>

definition shrink_steps :: "(nat \<Rightarrow> nat \<Rightarrow> nat) \<Rightarrow> fraction list" where
  "shrink_steps share =
     map (\<lambda>p. \<lparr>fr_positive = (p \<noteq> 0), fr_of = (if p = 0 then (\<lambda>n. 0) else share p)\<rparr>) [75, 50, 35, 20, 10, 5, 0]"

fun first_fitting ::
  "(ustr \<Rightarrow> nat) \<Rightarrow> response_budget \<Rightarrow> string list \<Rightarrow> dict \<Rightarrow> dict \<Rightarrow> fraction list \<Rightarrow> dict" where
  "first_fitting tok b names payload complete [] = complete"
| "first_fitting tok b names payload complete (f # fs) =
     (let (result, m) = with_budget_metadata tok (scaled_candidate f names payload) b True ''token_budget'' in
      if fits m then result else first_fitting tok b names payload complete fs)"

definition bounded_reply ::
  "(ustr \<Rightarrow> nat) \<Rightarrow> (nat \<Rightarrow> nat \<Rightarrow> nat) \<Rightarrow> response_budget \<Rightarrow> string list \<Rightarrow> dict \<Rightarrow> dict" where
  "bounded_reply tok share b names payload =
     (let (complete, m) = with_budget_metadata tok payload b False ''end_of_result'' in
      if fits m then complete else first_fitting tok b names payload complete (shrink_steps share))"

end
