(* ===== verification/RuntimeToolProps.thy ===== *)
theory RuntimeToolProps
  imports RuntimeTools BudgetProps
begin

text \<open>
  Properties of the runtime tools: what an approval can come from, and what shrinking a reply leaves alone.
\<close>

section \<open>Approval\<close>

lemma answer_action [simp]: "map_of (elicitation_answer a c m) ''action'' = Some (jlit a)"
  by (simp add: elicitation_answer_def)








section \<open>Shrinking\<close>
















text \<open>Servers that are left out are not reached by the cursor, which goes on behind all servers of the page.\<close>

lemma dropped_servers_are_skipped:
  "map_of (scaled_candidate \<lparr>fr_positive = True, fr_of = (\<lambda>n. 3 * n div 4)\<rparr> [''servers'']
     [(''servers'', JList [JObj [(''server'', jlit ''a'')], JObj [(''server'', jlit ''b'')]]), (''next_cursor'', jlit ''c'')]) ''servers'' =
   Some (JList [JObj [(''server'', jlit ''a'')]])"
  by (simp add: scaled_candidate_def scale_field_def scale_inventory_def keep_count_def scale_server_def scale_server_field_def
      identity_keys_def)

end
