(* ===== verification/SearchTool.thy ===== *)
theory SearchTool
  imports SearchGrep
begin

text \<open>
  The search tool (\<^verbatim>\<open>tools_files.py\<close>): one search, by glob, regular expression or text, or a batch of them run one
  after the other or by a pool of threads, and the fitting of the replies into the token budget. How a path resolves, the
  world below it, \<^verbatim>\<open>int\<close> and \<^verbatim>\<open>str\<close> of a value that is not a text and the order in which the threads of the pool
  finish are arguments. A field of a query of the wrong type ends that query with an error, whose text is an argument.
\<close>

record search_args =
  sa_path :: "ustr option"
  sa_pattern :: "ustr option"
  sa_query :: "ustr option"
  sa_glob :: "ustr option"
  sa_output :: ustr
  sa_before :: int
  sa_after :: int
  sa_ignore_case :: bool
  sa_limit :: int
  sa_offset :: int
  sa_multiline :: bool
  sa_hidden :: bool
  sa_gitignore :: bool
  sa_excludes :: "ustr list option"
  sa_type :: "ustr option"
  sa_only :: bool

record search_env =
  st_resolve :: "ustr \<Rightarrow> path"
  st_world :: "path \<Rightarrow> list_world"
  st_is_file :: "path \<Rightarrow> bool"
  st_grep :: grep_env
  st_show_type :: "ustr option \<Rightarrow> ustr"
  st_spawn :: "ustr list \<Rightarrow> path \<Rightarrow> rg_spawn"
  st_rg :: ustr
  st_budget :: response_budget
  st_str :: "json \<Rightarrow> ustr"
  st_int :: "json \<Rightarrow> ustr + int"
  st_type_error :: "json \<Rightarrow> ustr"

definition search_failure :: "string \<Rightarrow> string \<Rightarrow> dict" where
  "search_failure code message = tool_error code (u message) []"

section \<open>One search\<close>

text \<open>Items are dropped from the end until the reply fits, or none is left; the list is passed reversed.\<close>

fun pop_until_fits ::
  "(ustr \<Rightarrow> nat) \<Rightarrow> response_budget \<Rightarrow> string \<Rightarrow> nat \<Rightarrow> json list \<Rightarrow> dict \<times> budget_measurement \<Rightarrow> dict" where
  "pop_until_fits tok b key start [] rm = fst rm"
| "pop_until_fits tok b key start (x # xs) rm =
     (if fits (snd rm) then fst rm
      else pop_until_fits tok b key start xs
        (with_budget_metadata tok
          (AList.update ''next_offset'' (jnat (start + length xs)) (AList.update key (JList (rev xs)) (fst rm)))
          b True ''token_budget''))"

text \<open>The first of the keys whose value is a list.\<close>

fun list_field :: "dict \<Rightarrow> string list \<Rightarrow> (string \<times> json list) option" where
  "list_field d [] = None"
| "list_field d (k # ks) = (case map_of d k of Some (JList xs) \<Rightarrow> Some (k, xs) | _ \<Rightarrow> list_field d ks)"

definition finalize_search_result :: "(ustr \<Rightarrow> nat) \<Rightarrow> response_budget \<Rightarrow> string \<Rightarrow> ustr option \<Rightarrow> int \<Rightarrow> dict \<Rightarrow> dict" where
  "finalize_search_result tok b mode query offset result =
     (let named = AList.update ''mode'' (jlit mode) result;
          result = (case query of Some q \<Rightarrow> if mode = ''text'' then AList.update ''query'' (JStr q) named else named | None \<Rightarrow> named) in
      if map_of result ''success'' \<noteq> Some (JBool True) then result
      else
        let rm = with_budget_metadata tok result b (\<not> json_falsy (get_or_null result ''truncated''))
              (map char_of (reply_stop_reason result)) in
        (case list_field (fst rm) [''matches'', ''files'', ''counts''] of
           None \<Rightarrow> fst rm
         | Some (key, items) \<Rightarrow> pop_until_fits tok b key (nat (max offset 0)) (rev items) rm))"

definition args_filters :: "search_args \<Rightarrow> search_filters" where
  "args_filters a =
     \<lparr>sf_hidden = sa_hidden a, sf_gitignore = sa_gitignore a,
      sf_patterns = (case sa_excludes a of None \<Rightarrow> [] | Some ps \<Rightarrow> ps)\<rparr>"

definition args_request :: "ustr \<Rightarrow> ustr \<Rightarrow> bool \<Rightarrow> search_args \<Rightarrow> grep_request" where
  "args_request rg pattern fixed a =
     \<lparr>gr_pattern = pattern, gr_glob = sa_glob a, gr_mode = sa_output a, gr_before = sa_before a, gr_after = sa_after a,
      gr_ignore_case = sa_ignore_case a, gr_limit = sa_limit a, gr_offset = sa_offset a, gr_multiline = sa_multiline a,
      gr_filters = args_filters a, gr_type = sa_type a, gr_only = sa_only a, gr_fixed = fixed, gr_engine = u ''default'', gr_rg = rg\<rparr>"

definition search_once :: "search_env \<Rightarrow> ustr \<Rightarrow> search_args \<Rightarrow> dict" where
  "search_once env mode a =
     (let p = st_resolve env (case sa_path a of None \<Rightarrow> u ''.'' | Some s \<Rightarrow> if s = [] then u ''.'' else s);
          tok = ge_tok (st_grep env); b = st_budget env;
          grep = (\<lambda>name pattern fixed. finalize_search_result tok b name (sa_query a) (sa_offset a)
            (grep_files (st_grep env) (st_show_type env) (st_spawn env) b (st_world env p) (st_is_file env p)
              (args_request (st_rg env) pattern fixed a) p)) in
      if mode = u ''glob'' then
        (case sa_pattern a of
           None \<Rightarrow> search_failure ''missing_pattern'' ''mode=glob requires `pattern`.''
         | Some pattern \<Rightarrow>
             if pattern = [] then search_failure ''missing_pattern'' ''mode=glob requires `pattern`.''
             else finalize_search_result tok b ''glob'' (sa_query a) (sa_offset a)
               (glob_files tok b (st_world env p) (st_is_file env p) (args_filters a) p pattern (sa_limit a) (sa_offset a)))
      else if mode = u ''text'' then
        (case sa_query a of
           None \<Rightarrow> search_failure ''missing_query'' ''mode=text requires `query`.''
         | Some query \<Rightarrow> grep ''text'' query True)
      else if mode = u ''regex'' then
        (case sa_pattern a of
           None \<Rightarrow> search_failure ''missing_pattern'' ''mode=regex requires `pattern`.''
         | Some pattern \<Rightarrow> grep ''regex'' pattern False)
      else search_failure ''invalid_mode'' ''mode must be one of: glob, regex, text.'')"

section \<open>Batches\<close>

text \<open>One field of a query, by default that of the call.\<close>

definition text_field :: "search_env \<Rightarrow> dict \<Rightarrow> string \<Rightarrow> ustr option \<Rightarrow> ustr + ustr option" where
  "text_field env d k dflt =
     (case map_of d k of
        None \<Rightarrow> Inr dflt
      | Some JNull \<Rightarrow> Inr None
      | Some (JStr s) \<Rightarrow> Inr (Some s)
      | Some j \<Rightarrow> Inl (st_type_error env j))"

definition path_field :: "search_env \<Rightarrow> dict \<Rightarrow> ustr option \<Rightarrow> ustr + ustr option" where
  "path_field env d dflt =
     (case map_of d ''path'' of
        Some j \<Rightarrow> if json_falsy j then Inr None else text_field env d ''path'' dflt
      | None \<Rightarrow> Inr dflt)"

definition name_field :: "search_env \<Rightarrow> dict \<Rightarrow> string \<Rightarrow> ustr \<Rightarrow> ustr" where
  "name_field env d k dflt =
     (case map_of d k of
        None \<Rightarrow> dflt
      | Some j \<Rightarrow> if json_falsy j then dflt else (case j of JStr s \<Rightarrow> s | _ \<Rightarrow> st_str env j))"

definition query_int :: "search_env \<Rightarrow> dict \<Rightarrow> string \<Rightarrow> int \<Rightarrow> ustr + int" where
  "query_int env d k dflt = (case map_of d k of None \<Rightarrow> Inr dflt | Some (JInt i) \<Rightarrow> Inr i | Some j \<Rightarrow> st_int env j)"

definition bool_field :: "dict \<Rightarrow> string \<Rightarrow> bool \<Rightarrow> bool" where
  "bool_field d k dflt = (case map_of d k of None \<Rightarrow> dflt | Some j \<Rightarrow> \<not> json_falsy j)"

definition texts_field :: "search_env \<Rightarrow> dict \<Rightarrow> string \<Rightarrow> ustr list option \<Rightarrow> ustr + ustr list option" where
  "texts_field env d k dflt =
     (case map_of d k of
        None \<Rightarrow> Inr dflt
      | Some JNull \<Rightarrow> Inr None
      | Some (JList js) \<Rightarrow> (case json_texts js of None \<Rightarrow> Inl (st_type_error env (JList js)) | Some ts \<Rightarrow> Inr (Some ts))
      | Some j \<Rightarrow> Inl (st_type_error env j))"

definition bind_field :: "'e + 'a \<Rightarrow> ('a \<Rightarrow> 'e + 'b) \<Rightarrow> 'e + 'b" where
  "bind_field r f = (case r of Inl e \<Rightarrow> Inl e | Inr x \<Rightarrow> f x)"

definition query_args :: "search_env \<Rightarrow> search_args \<Rightarrow> dict \<Rightarrow> ustr + search_args" where
  "query_args env a d =
     bind_field (query_int env d ''before'' (sa_before a)) (\<lambda>before.
     bind_field (query_int env d ''after'' (sa_after a)) (\<lambda>after_lines.
     bind_field (query_int env d ''limit'' (sa_limit a)) (\<lambda>limit.
     bind_field (query_int env d ''offset'' (sa_offset a)) (\<lambda>offset.
     bind_field (path_field env d (sa_path a)) (\<lambda>path.
     bind_field (text_field env d ''pattern'' (sa_pattern a)) (\<lambda>pattern.
     bind_field (text_field env d ''query'' (sa_query a)) (\<lambda>query.
     bind_field (text_field env d ''glob'' (sa_glob a)) (\<lambda>glob.
     bind_field (texts_field env d ''exclude_patterns'' (sa_excludes a)) (\<lambda>excludes.
     bind_field (text_field env d ''file_type'' (sa_type a)) (\<lambda>file_type.
       Inr \<lparr>sa_path = path, sa_pattern = pattern, sa_query = query, sa_glob = glob,
            sa_output = name_field env d ''output_mode'' (sa_output a), sa_before = before, sa_after = after_lines,
            sa_ignore_case = bool_field d ''ignore_case'' (sa_ignore_case a), sa_limit = limit, sa_offset = offset,
            sa_multiline = bool_field d ''multiline'' (sa_multiline a), sa_hidden = bool_field d ''include_hidden'' (sa_hidden a),
            sa_gitignore = bool_field d ''respect_gitignore'' (sa_gitignore a), sa_excludes = excludes, sa_type = file_type,
            sa_only = bool_field d ''only_matching'' (sa_only a)\<rparr>))))))))))"

definition with_query_index :: "nat \<Rightarrow> dict \<Rightarrow> dict" where
  "with_query_index i d = AList.update ''index'' (jnat i) d"

definition search_batch_item :: "search_env \<Rightarrow> ustr \<Rightarrow> search_args \<Rightarrow> nat \<Rightarrow> json \<Rightarrow> dict" where
  "search_batch_item env shared a i item =
     with_query_index i
       (case item of
          JObj d \<Rightarrow>
            (case query_args env a d of
               Inl e \<Rightarrow> tool_error ''invalid_arguments'' (u ''Invalid batch search query: '' @ e) []
             | Inr qa \<Rightarrow> search_once env (name_field env d ''mode'' shared) qa)
        | _ \<Rightarrow> search_failure ''invalid_arguments'' ''Each search query must be an object.'')"

definition max_search_batch_concurrency :: int where
  "max_search_batch_concurrency = 3"

definition max_search_batch_size :: nat where
  "max_search_batch_size = 20"

definition search_modes :: "ustr list" where
  "search_modes = map u [''glob'', ''regex'', ''text'']"

definition search_batch_execution_modes :: "ustr list" where
  "search_batch_execution_modes = map u [''sequential'', ''parallel'']"

definition invalid_search :: "string \<Rightarrow> string \<Rightarrow> dict" where
  "invalid_search code message =
     [(''success'', JBool False), (''mode'', jlit ''batch''), (''error'', JObj [(''code'', jlit code), (''message'', jlit message)]),
      (''results'', JList [])]"

text \<open>The futures fill the list in the order in which they complete.\<close>

definition collect_results :: "(nat \<Rightarrow> 'a) \<Rightarrow> nat \<Rightarrow> nat list \<Rightarrow> 'a list" where
  "collect_results run n order =
     map the (filter (\<lambda>r. r \<noteq> None) (foldl (\<lambda>rs i. rs[i := Some (run i)]) (replicate n None) order))"

definition batch_problem :: "json list \<Rightarrow> int \<Rightarrow> ustr \<Rightarrow> dict option" where
  "batch_problem queries max_concurrency shared =
     (if queries = [] then Some (invalid_search ''invalid_arguments'' ''Provide at least one search query.'')
      else if max_search_batch_size < length queries
        then Some (invalid_search ''invalid_arguments'' ''At most 20 searches may be executed in one batch.'')
      else if max_concurrency < 1 \<or> max_search_batch_concurrency < max_concurrency
        then Some (invalid_search ''invalid_arguments'' ''max_concurrency must be between 1 and 3.'')
      else if shared \<notin> set search_modes
        then Some (invalid_search ''invalid_mode'' ''mode must be one of: glob, regex, text, sequential, parallel.'')
      else None)"

definition batch_payload_of :: "ustr \<Rightarrow> nat \<Rightarrow> nat \<Rightarrow> dict list \<Rightarrow> dict" where
  "batch_payload_of execution query_total concurrency results =
     (let failed = length (filter (\<lambda>d. json_falsy (get_or_null d ''success'')) results) in
      [(''success'', JBool (failed = 0)), (''mode'', jlit ''batch''), (''execution_mode'', JStr execution), (''query_count'', jnat query_total),
       (''completed_count'', jnat (length results)), (''failed_count'', jnat failed), (''max_concurrency'', jnat concurrency),
       (''results'', JList (map JObj results)), (''next_offset'', JNull)])"

text \<open>\<open>order\<close> is the order in which the futures of a parallel batch complete.\<close>

definition search_batch :: "search_env \<Rightarrow> ustr \<Rightarrow> search_args \<Rightarrow> json list \<Rightarrow> int \<Rightarrow> int \<Rightarrow> nat list \<Rightarrow> dict" where
  "search_batch env mode a queries max_concurrency batch_offset order =
     (let start = nat (max batch_offset 0); selected = drop start queries; n = length selected;
          execution = (if mode \<in> set search_batch_execution_modes then mode else u ''sequential'');
          shared = (if mode \<in> set search_batch_execution_modes then u ''regex'' else mode);
          run = (\<lambda>i. search_batch_item env shared a (start + i) (selected ! i)) in
      case batch_problem queries max_concurrency shared of
        Some e \<Rightarrow> e
      | None \<Rightarrow>
          let results = (if execution = u ''sequential'' then map run [0..<n] else collect_results run n order);
              concurrency = (if n = 0 then 0 else if execution = u ''sequential'' then 1 else min (nat max_concurrency) n);
              tok = ge_tok (st_grep env);
              rm = with_budget_metadata tok (batch_payload_of execution (length queries) concurrency results) (st_budget env)
                False ''end_of_results'' in
          pop_until_fits tok (st_budget env) ''results'' start (rev (map JObj results)) rm)"

definition search_tool :: "search_env \<Rightarrow> ustr \<Rightarrow> search_args \<Rightarrow> json list option \<Rightarrow> int \<Rightarrow> int \<Rightarrow> nat list \<Rightarrow> dict" where
  "search_tool env mode a queries max_concurrency batch_offset order =
     (case queries of
        None \<Rightarrow> search_once env mode a
      | Some qs \<Rightarrow> search_batch env mode a qs max_concurrency batch_offset order)"

end
