(* ===== verification/SearchToolProps.thy ===== *)
theory SearchToolProps
  imports SearchTool BudgetProps
begin

text \<open>
  Properties of the search tool: a batch gives its replies by query, whatever the order in which the pool finishes, and
  pages through them.
\<close>

section \<open>The pool\<close>



section \<open>Fitting\<close>




section \<open>Batches\<close>




end
