(* ===== verification/EnvTools.thy ===== *)
theory EnvTools
  imports Fs JobControl
begin

text \<open>
  The snapshot of the environment and its comparison (\<^verbatim>\<open>envtools.py\<close>). What the programs asked for their version
  answer, the platform, SHA-256 and the equality of numbers one of which is a float are arguments.
\<close>

section \<open>Asking programs\<close>

datatype env_run = ProgramMissing ustr | ProgramTimeout | ProgramFails ustr | ProgramAnswers int ustr ustr

record env_world =
  ew_run :: "ustr list \<Rightarrow> environment \<Rightarrow> int \<Rightarrow> env_run"
  ew_environ :: environment
  ew_exists :: "path \<Rightarrow> bool"
  ew_is_dir :: "path \<Rightarrow> bool"
  ew_is_file :: "path \<Rightarrow> bool"
  ew_sha256 :: "path \<Rightarrow> ustr + ustr"
  ew_executable :: ustr
  ew_platform :: "(string \<times> json) list"
  ew_python_version :: ustr
  ew_prefix :: ustr
  ew_base_prefix :: ustr
  ew_real_prefix :: "ustr option"

definition command_timeout_seconds :: int where
  "command_timeout_seconds = 5"

definition package_timeout_seconds :: int where
  "package_timeout_seconds = 10"

definition max_package_lines :: nat where
  "max_package_lines = 2000"

definition common_env_files :: "string list" where
  "common_env_files =
     [''pyproject.toml'', ''requirements.txt'', ''poetry.lock'', ''package.json'', ''package-lock.json'', ''pnpm-lock.yaml'',
      ''yarn.lock'', ''Cargo.toml'', ''Cargo.lock'', ''go.mod'', ''go.sum'', ''pom.xml'', ''build.gradle'']"

definition coded :: "string \<Rightarrow> ustr \<Rightarrow> json" where
  "coded code message = JObj [(''code'', jlit code), (''message'', JStr message)]"

definition env_command :: "env_world \<Rightarrow> ustr list \<Rightarrow> int \<Rightarrow> dict" where
  "env_command w args timeout =
     (case ew_run w args (sanitized_child_env (ew_environ w) []) timeout of
        ProgramMissing e \<Rightarrow> [(''ok'', JBool False), (''error'', coded ''command_not_found'' e)]
      | ProgramTimeout \<Rightarrow> [(''ok'', JBool False),
          (''error'', coded ''command_timeout'' (u ''Command timed out after '' @ int_repr timeout @ u ''s.''))]
      | ProgramFails e \<Rightarrow> [(''ok'', JBool False), (''error'', coded ''command_failed'' e)]
      | ProgramAnswers code out err \<Rightarrow>
          [(''ok'', JBool (code = 0)), (''returncode'', JInt code), (''stdout'', JStr (strip out)), (''stderr'', JStr (strip err))] @
          (if code = 0 then []
           else [(''error'', coded ''command_nonzero''
              (if strip err \<noteq> [] then strip err else if strip out \<noteq> [] then strip out
               else u ''Command exited with '' @ int_repr code @ u ''.''))]))"

definition command_ok :: "dict \<Rightarrow> bool" where
  "command_ok d \<longleftrightarrow> map_of d ''ok'' = Some (JBool True)"

definition command_text :: "dict \<Rightarrow> string \<Rightarrow> ustr" where
  "command_text d k = (case map_of d k of Some (JStr s) \<Rightarrow> s | _ \<Rightarrow> [])"

text \<open>\<^verbatim>\<open>text or None\<close>.\<close>

definition text_or_null :: "ustr \<Rightarrow> json" where
  "text_or_null s = (if s = [] then JNull else JStr s)"

definition first_output_line :: "dict \<Rightarrow> json" where
  "first_output_line d =
     (case filter (\<lambda>l. l \<noteq> []) (map strip (splitlines (command_text d ''stdout'') @ splitlines (command_text d ''stderr''))) of
        [] \<Rightarrow> JNull | l # _ \<Rightarrow> JStr l)"

section \<open>The snapshot\<close>

definition file_fingerprint :: "env_world \<Rightarrow> path \<Rightarrow> json" where
  "file_fingerprint w p =
     JObj ([(''exists'', JBool (ew_exists w p))] @
       (if ew_exists w p then [(''is_file'', JBool (ew_is_file w p))] else []) @
       (if ew_is_file w p
        then (case ew_sha256 w p of Inl e \<Rightarrow> [(''error'', coded ''hash_failed'' e)] | Inr h \<Rightarrow> [(''sha256'', JStr h)])
        else []))"

definition python_snapshot :: "env_world \<Rightarrow> json" where
  "python_snapshot w =
     JObj [(''executable'', JStr (ew_executable w)), (''version'', JStr (ew_python_version w)),
       (''is_venv'', JBool (ew_prefix w \<noteq> ew_base_prefix w \<or> ew_real_prefix w \<notin> {None, Some []})), (''prefix'', JStr (ew_prefix w)),
       (''base_prefix'', JStr (ew_base_prefix w))]"

definition git_snapshot :: "env_world \<Rightarrow> json" where
  "git_snapshot w =
     (let run = (\<lambda>args. env_command w (map u args) command_timeout_seconds); version = run [''git'', ''--version''] in
      if \<not> command_ok version
      then JObj [(''available'', JBool False), (''version'', JNull), (''inside_repo'', JBool False), (''branch'', JNull),
        (''head'', JNull), (''error'', get_or_null version ''error'')]
      else
        let inside = run [''git'', ''rev-parse'', ''--is-inside-work-tree''];
            inside_repo = (command_ok inside \<and> strip (command_text inside ''stdout'') = u ''true'');
            line = (\<lambda>args. if inside_repo \<and> command_ok (run args) then text_or_null (strip (command_text (run args) ''stdout'')) else JNull)
        in JObj [(''available'', JBool True), (''version'', text_or_null (strip (command_text version ''stdout''))),
          (''inside_repo'', JBool inside_repo), (''branch'', line [''git'', ''branch'', ''--show-current'']),
          (''head'', line [''git'', ''rev-parse'', ''--short'', ''HEAD''])])"

definition version_of :: "dict \<Rightarrow> json" where
  "version_of d = (if command_ok d then text_or_null (strip (command_text d ''stdout'')) else JNull)"

definition node_snapshot :: "env_world \<Rightarrow> json" where
  "node_snapshot w =
     (let node = env_command w [u ''node'', u ''--version''] command_timeout_seconds;
          npm = env_command w [u ''npm'', u ''--version''] command_timeout_seconds in
      JObj ([(''available'', JBool (command_ok node)), (''version'', version_of node), (''npm_version'', version_of npm)] @
        (if \<not> command_ok node then [(''error'', get_or_null node ''error'')]
         else if \<not> command_ok npm then [(''npm_error'', get_or_null npm ''error'')] else [])))"

definition java_snapshot :: "env_world \<Rightarrow> json" where
  "java_snapshot w =
     (let java = env_command w [u ''java'', u ''-version''] command_timeout_seconds in
      JObj ([(''available'', JBool (command_ok java)), (''version'', if command_ok java then first_output_line java else JNull)] @
        (if command_ok java then [] else [(''error'', get_or_null java ''error'')])))"

definition packages_snapshot :: "env_world \<Rightarrow> bool \<Rightarrow> json" where
  "packages_snapshot w include_packages =
     (if \<not> include_packages then JObj [(''included'', JBool False)]
      else
        let command = [ew_executable w, u ''-m'', u ''pip'', u ''freeze'']; result = env_command w command package_timeout_seconds in
        if \<not> command_ok result
        then JObj [(''included'', JBool True), (''success'', JBool False), (''error'', get_or_null result ''error'')]
        else
          let packages = filter (\<lambda>l. l \<noteq> []) (map strip (splitlines (command_text result ''stdout''))) in
          JObj [(''included'', JBool True), (''success'', JBool True), (''command'', JList (map JStr command)),
            (''count'', jnat (length packages)), (''items'', JList (map JStr (take max_package_lines packages))),
            (''truncated'', JBool (max_package_lines < length packages))])"

definition env_snapshot :: "env_world \<Rightarrow> path \<Rightarrow> bool \<Rightarrow> dict" where
  "env_snapshot w cwd include_packages =
     (if \<not> ew_exists w cwd
        then tool_error ''cwd_not_found'' (u ''Working directory not found: '' @ path_text cwd) [(''cwd'', JStr (path_text cwd))]
      else if \<not> ew_is_dir w cwd
        then tool_error ''cwd_not_directory'' (u ''Path is not a directory: '' @ path_text cwd) [(''cwd'', JStr (path_text cwd))]
      else
        [(''success'', JBool True), (''cwd'', JStr (path_text cwd)), (''platform'', JObj (ew_platform w)),
         (''python'', python_snapshot w), (''git'', git_snapshot w), (''node'', node_snapshot w), (''java'', java_snapshot w),
         (''files'', JObj (map (\<lambda>f. (f, file_fingerprint w (cwd @ [u f]))) common_env_files)),
         (''packages'', packages_snapshot w include_packages)])"

section \<open>The comparison\<close>

text \<open>
  \<^verbatim>\<open>left == right\<close>: truth values are the numbers 0 and 1, lists compare item by item, objects by key; \<open>num_eq\<close>
  compares two numbers one of which is a float.
\<close>

lemma map_of_size: "map_of d k = Some v \<Longrightarrow> size v < size (JObj d)"
proof (induction d)
  case (Cons kv d)
  then show ?case by (cases kv) (auto split: if_splits)
qed simp

definition json_number :: "json \<Rightarrow> int option" where
  "json_number j = (case j of JInt i \<Rightarrow> Some i | JBool b \<Rightarrow> Some (if b then 1 else 0) | _ \<Rightarrow> None)"

definition is_json_float :: "json \<Rightarrow> bool" where
  "is_json_float j \<longleftrightarrow> (case j of JFloat t \<Rightarrow> True | _ \<Rightarrow> False)"

definition numeric :: "json \<Rightarrow> bool" where
  "numeric j \<longleftrightarrow> json_number j \<noteq> None \<or> is_json_float j"

definition scalar_eq :: "(json \<Rightarrow> json \<Rightarrow> bool) \<Rightarrow> json \<Rightarrow> json \<Rightarrow> bool" where
  "scalar_eq num_eq x y \<longleftrightarrow>
     (if numeric x \<and> numeric y
      then (if is_json_float x \<or> is_json_float y then num_eq x y else json_number x = json_number y)
      else x = y)"

fun opt_eq :: "(json \<Rightarrow> json \<Rightarrow> bool) \<Rightarrow> json option \<Rightarrow> json option \<Rightarrow> bool" where
  "opt_eq eq None None = True"
| "opt_eq eq (Some x) (Some y) = eq x y"
| "opt_eq eq x y = False"

function json_eq :: "(json \<Rightarrow> json \<Rightarrow> bool) \<Rightarrow> json \<Rightarrow> json \<Rightarrow> bool" where
  "json_eq num_eq x y =
     (case (x, y) of
        (JList xs, JList ys) \<Rightarrow> length xs = length ys \<and> list_all (\<lambda>i. json_eq num_eq (xs ! i) (ys ! i)) [0..<length xs]
      | (JObj a, JObj b) \<Rightarrow>
          fst ` set a = fst ` set b \<and>
          list_all (\<lambda>k. case map_of a k of None \<Rightarrow> True | Some v \<Rightarrow>
            (case map_of b k of None \<Rightarrow> False | Some w \<Rightarrow> json_eq num_eq v w)) (map fst a)
      | _ \<Rightarrow> scalar_eq num_eq x y)"
  by pat_completeness auto
termination
  by (relation "measure (\<lambda>(num_eq, x, y). size x)")
     (auto dest!: map_of_size intro!: le_imp_less_Suc size_list_estimation' [OF _ order_refl])

declare json_eq.simps [simp del]

definition child_path :: "string \<Rightarrow> string \<Rightarrow> string" where
  "child_path p k = (if p = [] then k else p @ ''.'' @ k)"

definition public_value :: "json option \<Rightarrow> json" where
  "public_value v = (case v of None \<Rightarrow> JNull | Some j \<Rightarrow> j)"

definition record_change :: "string \<Rightarrow> json option \<Rightarrow> json option \<Rightarrow> dict \<Rightarrow> dict" where
  "record_change p l r changes = AList.update (if p = [] then ''$'' else p) (JList [public_value l, public_value r]) changes"

definition union_keys :: "dict \<Rightarrow> dict \<Rightarrow> string list" where
  "union_keys a b = sort (remdups (map fst a @ map fst b))"

lemma size_option_map_of: "size_option size (map_of d k) < size_option size (Some (JObj d))"
  using map_of_size [of d k] by (cases "map_of d k") auto

function diff_values :: "(json \<Rightarrow> json \<Rightarrow> bool) \<Rightarrow> string \<Rightarrow> json option \<Rightarrow> json option \<Rightarrow> dict \<Rightarrow> dict" where
  "diff_values num_eq p l r changes =
     (case (l, r) of
        (Some (JObj a), Some (JObj b)) \<Rightarrow>
          fold (\<lambda>k. diff_values num_eq (child_path p k) (map_of a k) (map_of b k)) (union_keys a b) changes
      | _ \<Rightarrow> if opt_eq (json_eq num_eq) l r then changes else record_change p l r changes)"
  by pat_completeness auto
termination
  by (relation "measure (\<lambda>(num_eq, p, l, r, changes). size_option size l)")
     (use size_option_map_of in auto)

declare diff_values.simps [simp del]

definition env_diff :: "(json \<Rightarrow> json \<Rightarrow> bool) \<Rightarrow> json \<Rightarrow> json \<Rightarrow> dict" where
  "env_diff num_eq left right =
     (case (left, right) of
        (JObj a, JObj b) \<Rightarrow>
          let changes = diff_values num_eq [] (Some left) (Some right) [] in
          [(''success'', JBool True), (''changed'', JBool (changes \<noteq> [])), (''changes'', JObj changes)]
      | _ \<Rightarrow> tool_error ''invalid_arguments'' (u ''left and right must both be JSON-like objects.'') [])"

end
