(* ===== verification/EnvToolProps.thy ===== *)
theory EnvToolProps
  imports EnvTools
begin

text \<open>
  What the comparison of two snapshots reports: that they differ exactly when they are not equal as Python compares
  them, and only values that differ, each under the path of keys that leads to it.
\<close>

section \<open>Nothing is reported exactly when the values are equal\<close>

lemma dict_keys: "k \<in> fst ` set d \<longleftrightarrow> map_of d k \<noteq> None" for d :: dict
  by (simp add: map_of_eq_None_iff)

lemma opt_eq_iff: "opt_eq eq x y \<longleftrightarrow>
    (x \<noteq> None) = (y \<noteq> None) \<and> (case x of None \<Rightarrow> True | Some v \<Rightarrow> (case y of None \<Rightarrow> False | Some w \<Rightarrow> eq v w))"
  by (cases x; cases y) auto

lemma json_eq_objects:
  "json_eq num_eq (JObj a) (JObj b) \<longleftrightarrow>
     (\<forall>k \<in> set (union_keys a b). opt_eq (json_eq num_eq) (map_of a k) (map_of b k))"
proof -
  let ?E = "\<lambda>k. case map_of a k of None \<Rightarrow> True | Some v \<Rightarrow> (case map_of b k of None \<Rightarrow> False | Some w \<Rightarrow> json_eq num_eq v w)"
  have "json_eq num_eq (JObj a) (JObj b) \<longleftrightarrow> fst ` set a = fst ` set b \<and> (\<forall>k \<in> fst ` set a. ?E k)"
    unfolding json_eq.simps [of num_eq "JObj a" "JObj b"] by (simp add: list_all_iff)
  also have "\<dots> \<longleftrightarrow> (\<forall>k. (map_of a k \<noteq> None) = (map_of b k \<noteq> None) \<and> ?E k)"
  proof -
    have A: "fst ` set a = fst ` set b \<longleftrightarrow> (\<forall>k. (map_of a k \<noteq> None) = (map_of b k \<noteq> None))"
      by (simp only: set_eq_iff dict_keys)
    have B: "(\<forall>k \<in> fst ` set a. ?E k) \<longleftrightarrow> (\<forall>k. ?E k)"
      unfolding Ball_def dict_keys by (auto split: option.split)
    show ?thesis by (simp only: A B all_conj_distrib)
  qed
  also have "\<dots> \<longleftrightarrow> (\<forall>k. opt_eq (json_eq num_eq) (map_of a k) (map_of b k))"
    by (simp add: opt_eq_iff)
  also have "\<dots> \<longleftrightarrow> (\<forall>k \<in> set (union_keys a b). opt_eq (json_eq num_eq) (map_of a k) (map_of b k))"
  proof -
    have "opt_eq (json_eq num_eq) (map_of a k) (map_of b k)" if "k \<notin> set (union_keys a b)" for k
      using that by (simp add: union_keys_def flip: map_of_eq_None_iff)
    then show ?thesis by (meson)
  qed
  finally show ?thesis .
qed

lemma fold_empty_iff:
  assumes "\<And>k c. k \<in> set ks \<Longrightarrow> f k c = [] \<longleftrightarrow> c = [] \<and> P k"
  shows "fold f ks c = [] \<longleftrightarrow> c = [] \<and> (\<forall>k \<in> set ks. P k)"
  using assms by (induction ks arbitrary: c) auto

lemma diff_empty_iff:
  "diff_values num_eq p l r changes = [] \<longleftrightarrow> changes = [] \<and> opt_eq (json_eq num_eq) l r"
proof (induction num_eq p l r changes rule: diff_values.induct)
  case (1 num_eq p l r changes)
  have rec: "record_change p l r changes \<noteq> []" by (cases changes) (auto simp: record_change_def)
  show ?case
  proof (cases "\<exists>a b. l = Some (JObj a) \<and> r = Some (JObj b)")
    case True
    then obtain a b where ab: "l = Some (JObj a)" "r = Some (JObj b)" by blast
    then have lr: "(Some (JObj a), Some (JObj b)) = (l, r)" by simp
    have "fold (\<lambda>k. diff_values num_eq (child_path p k) (map_of a k) (map_of b k)) (union_keys a b) changes = [] \<longleftrightarrow>
      changes = [] \<and> (\<forall>k \<in> set (union_keys a b). opt_eq (json_eq num_eq) (map_of a k) (map_of b k))"
      by (rule fold_empty_iff) (rule 1 [OF lr refl refl refl refl])
    then show ?thesis by (subst diff_values.simps) (simp add: ab json_eq_objects)
  next
    case False
    then have "diff_values num_eq p l r changes = (if opt_eq (json_eq num_eq) l r then changes else record_change p l r changes)"
      by (subst diff_values.simps) (auto split: option.splits json.splits)
    then show ?thesis using rec by auto
  qed
qed

section \<open>What is reported\<close>

text \<open>The value a path of keys leads to, and the path as the report writes it.\<close>

fun value_at :: "json option \<Rightarrow> string list \<Rightarrow> json option" where
  "value_at v [] = v"
| "value_at (Some (JObj d)) (k # ks) = value_at (map_of d k) ks"
| "value_at v (k # ks) = None"

definition key_path :: "string list \<Rightarrow> string" where
  "key_path ks = foldl child_path [] ks"

definition differs_at :: "(json \<Rightarrow> json \<Rightarrow> bool) \<Rightarrow> json option \<Rightarrow> json option \<Rightarrow> string \<times> json \<Rightarrow> bool" where
  "differs_at num_eq l r e \<longleftrightarrow> (\<exists>ks. fst e = (if key_path ks = [] then ''$'' else key_path ks) \<and>
     snd e = JList [public_value (value_at l ks), public_value (value_at r ks)] \<and> \<not> opt_eq (json_eq num_eq) (value_at l ks) (value_at r ks))"

lemma value_at_snoc: "value_at v ks = Some (JObj d) \<Longrightarrow> value_at v (ks @ [k]) = map_of d k"
  by (induction v ks rule: value_at.induct) auto

lemma fold_invariant_set: "P c \<Longrightarrow> (\<And>k c. k \<in> set ks \<Longrightarrow> P c \<Longrightarrow> P (f k c)) \<Longrightarrow> P (fold f ks c)"
  by (induction ks arbitrary: c) auto

lemma diff_reports_differences:
  assumes "p = key_path ks" "l = value_at lt ks" "r = value_at rt ks" "\<forall>e \<in> set changes. differs_at num_eq lt rt e"
  shows "\<forall>e \<in> set (diff_values num_eq p l r changes). differs_at num_eq lt rt e"
  using assms
proof (induction num_eq p l r changes arbitrary: ks rule: diff_values.induct)
  case (1 num_eq p l r changes)
  show ?case
  proof (cases "\<exists>a b. l = Some (JObj a) \<and> r = Some (JObj b)")
    case True
    then obtain a b where ab: "l = Some (JObj a)" "r = Some (JObj b)" by blast
    then have lr: "(Some (JObj a), Some (JObj b)) = (l, r)" by simp
    have walks: "map_of a k = value_at lt (ks @ [k])" "map_of b k = value_at rt (ks @ [k])" "child_path p k = key_path (ks @ [k])" for k
      using 1(2-4) ab by (simp_all add: key_path_def value_at_snoc [OF sym])
    have "\<forall>e \<in> set (diff_values num_eq (child_path p k) (map_of a k) (map_of b k) c). differs_at num_eq lt rt e"
      if "k \<in> set (union_keys a b)" "\<forall>e \<in> set c. differs_at num_eq lt rt e" for k c
      by (rule 1(1) [OF lr refl refl refl refl that(1) walks(3,1,2) that(2)])
    then have "\<forall>e \<in> set (fold (\<lambda>k. diff_values num_eq (child_path p k) (map_of a k) (map_of b k)) (union_keys a b) changes).
        differs_at num_eq lt rt e"
      using 1(5) by (intro fold_invariant_set [where P = "\<lambda>c. \<forall>e \<in> set c. differs_at num_eq lt rt e"]) auto
    then show ?thesis by (subst diff_values.simps) (simp add: ab)
  next
    case False
    then have eq: "diff_values num_eq p l r changes = (if opt_eq (json_eq num_eq) l r then changes else record_change p l r changes)"
      by (subst diff_values.simps) (auto split: option.splits json.splits)
    have "\<forall>e \<in> set (record_change p l r changes). differs_at num_eq lt rt e" if "\<not> opt_eq (json_eq num_eq) l r"
    proof -
      have "differs_at num_eq lt rt (if p = [] then ''$'' else p, JList [public_value l, public_value r])"
        unfolding differs_at_def using that 1(2-4) by (intro exI [of _ ks]) simp
      moreover have "set (AList.update k v d) \<subseteq> insert (k, v) (set d)" for k v and d :: dict
        by (induction d) auto
      ultimately show ?thesis using 1(5) by (fastforce simp: record_change_def)
    qed
    then show ?thesis using eq 1(5) by simp
  qed
qed

section \<open>The claim\<close>

text \<open>C38: Comparing two snapshots says that they changed exactly when they are not equal as Python compares them, whatever
  way numbers with a fraction are compared; and every change reported is, under the path of keys it names (or
  \<^verbatim>\<open>$\<close> for the whole), the pair of the values found there on the two sides, null where a side has none, and
  these values differ.\<close>
theorem env_diff_reports_differences:
  "\<exists>changes. env_diff num_eq (JObj a) (JObj b) =
       [(''success'', JBool True), (''changed'', JBool (\<not> json_eq num_eq (JObj a) (JObj b))), (''changes'', JObj changes)] \<and>
     (\<forall>e \<in> set changes. \<exists>ks. fst e = (if key_path ks = [] then ''$'' else key_path ks) \<and>
        snd e = JList [public_value (value_at (Some (JObj a)) ks), public_value (value_at (Some (JObj b)) ks)] \<and>
        \<not> opt_eq (json_eq num_eq) (value_at (Some (JObj a)) ks) (value_at (Some (JObj b)) ks))"
  using diff_reports_differences [of "[]" "[]" "Some (JObj a)" "Some (JObj a)" "Some (JObj b)" "Some (JObj b)" "[]" num_eq]
  by (simp add: env_diff_def key_path_def diff_empty_iff differs_at_def)

lemma env_diff_reports_differences_witness:
  "env_diff (=) (JObj [(''head'', jlit ''a''), (''node'', JObj [(''ok'', JBool True)])])
       (JObj [(''node'', JObj [(''ok'', JNull)]), (''head'', jlit ''a'')]) =
     [(''success'', JBool True), (''changed'', JBool True), (''changes'', JObj [(''node.ok'', JList [JBool True, JNull])])] \<and>
   (\<exists>ks. ''node.ok'' = (if key_path ks = [] then ''$'' else key_path ks))"
proof -
  let ?a = "[(''head'', jlit ''a''), (''node'', JObj [(''ok'', JBool True)])]"
  let ?b = "[(''node'', JObj [(''ok'', JNull)]), (''head'', jlit ''a'')]"
  have *: "env_diff (=) (JObj ?a) (JObj ?b) =
     [(''success'', JBool True), (''changed'', JBool True), (''changes'', JObj [(''node.ok'', JList [JBool True, JNull])])]"
    by code_simp
  show ?thesis using env_diff_reports_differences [of "(=)" ?a ?b] unfolding * by force
qed

text \<open>A key that holds a dot is written like the path of an inner key, so that one of two changes is lost.\<close>

lemma dotted_key_hides_a_change:
  "env_diff (=) (JObj [(''a'', JObj [(''b'', JInt 1)]), (''a.b'', JInt 1)]) (JObj [(''a'', JObj [(''b'', JInt 2)]), (''a.b'', JInt 3)]) =
     [(''success'', JBool True), (''changed'', JBool True), (''changes'', JObj [(''a.b'', JList [JInt 1, JInt 3])])]"
  by code_simp

end
