(* ===== verification/Config.thy ===== *)
theory Config
  imports Fs JobControl Budget RuntimeModels
begin

text \<open>
  The settings the program reads from its environment when it starts (\<^verbatim>\<open>config.py\<close>), in the order in which
  they are read, so that the first one that is malformed ends the start. What a text names as a path (user directory,
  symbolic links) and the lower case of a text are arguments.
\<close>

section \<open>Reading one setting\<close>

datatype config_error =
    BudgetSetting budget_error
  | NotAnInteger string
  | NoSuchUser string
  | UnknownSandbox
  | UnknownApprovalMode
  | DefaultTimeoutTooLong

type_synonym 'a setting = "config_error + 'a"

definition bind_setting :: "'a setting \<Rightarrow> ('a \<Rightarrow> 'b setting) \<Rightarrow> 'b setting" where
  "bind_setting x f = (case x of Inl e \<Rightarrow> Inl e | Inr y \<Rightarrow> f y)"

lemma bind_setting_Inr [simp]: "bind_setting x f = Inr z \<longleftrightarrow> (\<exists>y. x = Inr y \<and> f y = Inr z)"
  by (simp add: bind_setting_def split: sum.split)

definition variable :: "environment \<Rightarrow> string \<Rightarrow> ustr option" where
  "variable environ name = map_of environ (u ''CHATGPT_MCP_'' @ u name)"

definition variable_or :: "environment \<Rightarrow> string \<Rightarrow> string \<Rightarrow> ustr" where
  "variable_or environ name dflt = (case variable environ name of None \<Rightarrow> u dflt | Some v \<Rightarrow> v)"

definition env_flag :: "(ustr \<Rightarrow> ustr) \<Rightarrow> environment \<Rightarrow> string \<Rightarrow> bool \<Rightarrow> bool" where
  "env_flag to_lower environ name dflt =
     (case variable environ name of None \<Rightarrow> dflt
      | Some v \<Rightarrow> to_lower (strip v) \<in> {u ''1'', u ''true'', u ''yes'', u ''on''})"

definition env_int :: "environment \<Rightarrow> string \<Rightarrow> int \<Rightarrow> int setting" where
  "env_int environ name dflt =
     (case variable environ name of None \<Rightarrow> Inr dflt
      | Some v \<Rightarrow> (case int_of_text v of None \<Rightarrow> Inl (NotAnInteger name) | Some i \<Rightarrow> Inr i))"

definition positive_env_int :: "environment \<Rightarrow> string \<Rightarrow> int \<Rightarrow> int setting" where
  "positive_env_int environ name dflt =
     (case (case variable environ name of None \<Rightarrow> Some dflt | Some v \<Rightarrow> int_of_text v) of
        None \<Rightarrow> Inl (BudgetSetting (NotPositiveInteger name))
      | Some parsed \<Rightarrow> if parsed \<le> 0 then Inl (BudgetSetting (NotPositiveInteger name)) else Inr parsed)"

definition budget_setting :: "budget_error + int \<Rightarrow> int setting" where
  "budget_setting r = (case r of Inl e \<Rightarrow> Inl (BudgetSetting e) | Inr i \<Rightarrow> Inr i)"

definition tool_budget_setting :: "environment \<Rightarrow> int \<Rightarrow> string \<Rightarrow> int setting" where
  "tool_budget_setting environ global name =
     budget_setting (resolve_token_budget (PyInt global) (map_option PyStr (variable environ name)) ''TOOL_OUTPUT_TOKEN_BUDGET'' name)"

definition needed :: "config_error \<Rightarrow> 'a option \<Rightarrow> 'a setting" where
  "needed e x = (case x of None \<Rightarrow> Inl e | Some y \<Rightarrow> Inr y)"

definition or_text :: "ustr \<Rightarrow> string \<Rightarrow> ustr" where
  "or_text s dflt = (if s = [] then u dflt else s)"

section \<open>The settings\<close>

record config =
  cf_host :: ustr
  cf_port :: int
  cf_workspace_root :: path
  cf_state_dir :: path
  cf_auth_token :: ustr
  cf_auth_mode :: ustr
  cf_public_base_url :: ustr
  cf_oauth_login_token :: ustr
  cf_oauth_scopes :: "ustr list"
  cf_oauth_token_ttl :: int
  cf_oauth_refresh_ttl :: int
  cf_codex_command :: ustr
  cf_runtime_sandbox :: sandbox
  cf_cua_approval :: cua_approval
  cf_cua_allowed_apps :: "ustr list"
  cf_max_concurrency :: int
  cf_max_runtimes :: int
  cf_idle_ttl :: int
  cf_startup_timeout :: int
  cf_default_timeout_ms :: int
  cf_max_timeout_ms :: int
  cf_output_max_bytes :: int
  cf_max_message_bytes :: int
  cf_command_timeout :: int
  cf_tool_output_budget :: int
  cf_read_budget :: int
  cf_run_budget :: int
  cf_job_output_budget :: int
  cf_run_capture_max_bytes :: int
  cf_ripgrep :: ustr
  cf_tmux_binary :: ustr
  cf_tmux_socket :: ustr
  cf_tmux_timeout :: int
  cf_debug_logging :: bool
  cf_graceful_shutdown :: int

text \<open>\<^verbatim>\<open>dict.fromkeys(app.strip() for app in text.split(",") if app.strip())\<close>: the first of equal items stays.\<close>

definition first_occurrences :: "ustr list \<Rightarrow> ustr list" where
  "first_occurrences xs = rev (remdups (rev xs))"

definition allowed_app_names :: "ustr \<Rightarrow> ustr list" where
  "allowed_app_names s = first_occurrences (filter (\<lambda>a. a \<noteq> []) (map strip (split_char 44 [] s)))"

definition load_config :: "(ustr \<Rightarrow> ustr) \<Rightarrow> (ustr \<Rightarrow> path option) \<Rightarrow> ustr \<Rightarrow> environment \<Rightarrow> config setting" where
  "load_config to_lower resolve home environ =
     (let var = variable_or environ; text_var = (\<lambda>name dflt. strip (var name dflt)) in
      bind_setting (env_int environ ''PORT'' 8766) (\<lambda>port.
      bind_setting (needed (NoSuchUser ''WORKSPACE_ROOT'')
        (resolve (case variable environ ''WORKSPACE_ROOT'' of None \<Rightarrow> home | Some v \<Rightarrow> v))) (\<lambda>root.
      bind_setting (needed (NoSuchUser ''STATE_DIR'')
        (resolve (case variable environ ''STATE_DIR'' of None \<Rightarrow> home @ u ''/.chatgpt-web-oauth-mcp'' | Some v \<Rightarrow> v))) (\<lambda>state.
      bind_setting (env_int environ ''OAUTH_TOKEN_TTL_SECONDS'' 86400) (\<lambda>ttl.
      bind_setting (env_int environ ''OAUTH_REFRESH_TOKEN_TTL_SECONDS'' 15552000) (\<lambda>refresh.
      bind_setting (needed UnknownSandbox
        (validate_sandbox (JStr (to_lower (text_var ''CODEX_RUNTIME_DEFAULT_SANDBOX'' ''workspace-write''))))) (\<lambda>sandbox.
      bind_setting (needed UnknownApprovalMode
        (validate_cua_approval_mode (JStr (to_lower (text_var ''CODEX_RUNTIME_CUA_APPROVAL_MODE'' ''interactive''))))) (\<lambda>approval.
      bind_setting (positive_env_int environ ''CODEX_RUNTIME_MAX_CONCURRENCY'' 8) (\<lambda>concurrency.
      bind_setting (positive_env_int environ ''CODEX_RUNTIME_MAX_RUNTIMES'' 64) (\<lambda>runtimes.
      bind_setting (positive_env_int environ ''CODEX_RUNTIME_IDLE_TTL_SECONDS'' (8 * 60 * 60)) (\<lambda>idle.
      bind_setting (positive_env_int environ ''CODEX_RUNTIME_STARTUP_TIMEOUT_SECONDS'' 15) (\<lambda>startup.
      bind_setting (positive_env_int environ ''CODEX_RUNTIME_DEFAULT_TIMEOUT_MS'' 120000) (\<lambda>default_ms.
      bind_setting (positive_env_int environ ''CODEX_RUNTIME_MAX_TIMEOUT_MS'' 300000) (\<lambda>max_ms.
      bind_setting (if max_ms < default_ms then Inl DefaultTimeoutTooLong else Inr ()) (\<lambda>_.
      bind_setting (positive_env_int environ ''CODEX_RUNTIME_OUTPUT_MAX_BYTES'' (1024 * 1024)) (\<lambda>output.
      bind_setting (positive_env_int environ ''CODEX_RUNTIME_MAX_MESSAGE_BYTES'' (8 * 1024 * 1024)) (\<lambda>message.
      bind_setting (env_int environ ''COMMAND_TIMEOUT'' 120) (\<lambda>command.
      bind_setting (budget_setting (resolve_token_budget
        (case variable environ ''TOOL_OUTPUT_TOKEN_BUDGET'' of None \<Rightarrow> PyInt 8500 | Some v \<Rightarrow> PyStr v) None
        ''TOOL_OUTPUT_TOKEN_BUDGET'' [])) (\<lambda>tool.
      bind_setting (tool_budget_setting environ tool ''READ_TOKEN_BUDGET'') (\<lambda>read.
      bind_setting (tool_budget_setting environ tool ''RUN_TOKEN_BUDGET'') (\<lambda>run.
      bind_setting (tool_budget_setting environ tool ''JOB_OUTPUT_TOKEN_BUDGET'') (\<lambda>job.
      bind_setting (positive_env_int environ ''RUN_CAPTURE_MAX_BYTES'' (1024 * 1024)) (\<lambda>capture.
      bind_setting (env_int environ ''TMUX_CONTROL_TIMEOUT'' 10) (\<lambda>tmux.
      bind_setting (env_int environ ''GRACEFUL_SHUTDOWN_SECONDS'' 30) (\<lambda>graceful.
      Inr \<lparr>cf_host = var ''HOST'' ''127.0.0.1'', cf_port = port, cf_workspace_root = root, cf_state_dir = state,
        cf_auth_token = text_var ''AUTH_TOKEN'' [], cf_auth_mode = to_lower (text_var ''AUTH_MODE'' []),
        cf_public_base_url = rstrip_by (\<lambda>c. c = 47) (text_var ''PUBLIC_BASE_URL'' []),
        cf_oauth_login_token = text_var ''OAUTH_LOGIN_TOKEN'' [],
        cf_oauth_scopes = split_ws (var ''OAUTH_SCOPES'' ''local-ops''), cf_oauth_token_ttl = ttl, cf_oauth_refresh_ttl = refresh,
        cf_codex_command = text_var ''CODEX_COMMAND'' ''codex'', cf_runtime_sandbox = sandbox, cf_cua_approval = approval,
        cf_cua_allowed_apps = allowed_app_names (var ''CODEX_RUNTIME_CUA_ALLOWED_APPS'' []),
        cf_max_concurrency = concurrency, cf_max_runtimes = runtimes, cf_idle_ttl = idle, cf_startup_timeout = startup,
        cf_default_timeout_ms = default_ms, cf_max_timeout_ms = max_ms, cf_output_max_bytes = output,
        cf_max_message_bytes = message, cf_command_timeout = command, cf_tool_output_budget = tool, cf_read_budget = read,
        cf_run_budget = run, cf_job_output_budget = job, cf_run_capture_max_bytes = capture,
        cf_ripgrep = or_text (text_var ''RIPGREP_BINARY'' ''rg'') ''rg'',
        cf_tmux_binary = or_text (text_var ''TMUX_BINARY'' ''tmux'') ''tmux'',
        cf_tmux_socket = or_text (text_var ''TMUX_SOCKET_NAME'' ''default'') ''default'', cf_tmux_timeout = tmux,
        cf_debug_logging = env_flag to_lower environ ''DEBUG_MCP_LOGGING'' False,
        cf_graceful_shutdown = graceful\<rparr>)))))))))))))))))))))))))"

text \<open>\<^verbatim>\<open>ensure_runtime_directories\<close>, but for the permissions it tries to set on the state directory.\<close>

definition ensure_runtime_directories :: "config \<Rightarrow> fs \<Rightarrow> py_error + fs" where
  "ensure_runtime_directories c m =
     (if \<not> path_exists m (cf_workspace_root c) then Inl FileNotFound
      else if \<not> is_dir m (cf_workspace_root c) then Inl NotADirectory
      else mkdir_parents m (cf_state_dir c))"

section \<open>What a configuration that loads satisfies\<close>

text \<open>The settings the limits of the program are taken from.\<close>

definition checked_settings :: "config \<Rightarrow> int list" where
  "checked_settings c =
     [cf_max_concurrency c, cf_max_runtimes c, cf_idle_ttl c, cf_startup_timeout c, cf_default_timeout_ms c,
      cf_max_timeout_ms c, cf_output_max_bytes c, cf_max_message_bytes c, cf_tool_output_budget c, cf_read_budget c,
      cf_run_budget c, cf_job_output_budget c, cf_run_capture_max_bytes c]"

lemma positive_env_int_positive: "positive_env_int environ name dflt = Inr i \<Longrightarrow> 0 < i"
  by (auto simp: positive_env_int_def split: option.splits if_splits)

lemma resolve_token_budget_positive: "budget_setting (resolve_token_budget g t gn tn) = Inr i \<Longrightarrow> 0 < i"
  by (auto simp: budget_setting_def resolve_token_budget_def validate_token_budget_def split: option.splits sum.splits if_splits)

lemma tool_budget_positive: "tool_budget_setting environ g name = Inr i \<Longrightarrow> 0 < i"
  unfolding tool_budget_setting_def by (rule resolve_token_budget_positive)

lemma tool_budget_inherits: "tool_budget_setting environ g name = Inr i \<Longrightarrow> variable environ name = None \<Longrightarrow> i = g"
  by (auto simp: tool_budget_setting_def budget_setting_def resolve_token_budget_def validate_token_budget_def split: if_splits)

lemma allowed_app_names_clean: "distinct (allowed_app_names s) \<and> [] \<notin> set (allowed_app_names s)"
  by (simp add: allowed_app_names_def first_occurrences_def)

lemma loaded_config_is_checked:
  assumes "load_config to_lower resolve home environ = Inr c"
  shows "list_all (\<lambda>i. 0 < i) (checked_settings c)" "cf_default_timeout_ms c \<le> cf_max_timeout_ms c"
    "cf_ripgrep c \<noteq> [] \<and> cf_tmux_binary c \<noteq> [] \<and> cf_tmux_socket c \<noteq> []"
    "distinct (cf_cua_allowed_apps c) \<and> [] \<notin> set (cf_cua_allowed_apps c)"
    "variable environ ''READ_TOKEN_BUDGET'' = None \<Longrightarrow> cf_read_budget c = cf_tool_output_budget c"
proof -
  from assms show "list_all (\<lambda>i. 0 < i) (checked_settings c)"
    unfolding load_config_def Let_def bind_setting_Inr
    by (elim exE conjE) (drule sum.inject(2) [THEN iffD1], hypsubst, simp add: checked_settings_def,
      intro conjI; (erule positive_env_int_positive resolve_token_budget_positive tool_budget_positive))
  from assms show "cf_default_timeout_ms c \<le> cf_max_timeout_ms c"
    unfolding load_config_def Let_def bind_setting_Inr
    by (elim exE conjE) (drule sum.inject(2) [THEN iffD1], hypsubst, simp split: if_splits)
  from assms show "cf_ripgrep c \<noteq> [] \<and> cf_tmux_binary c \<noteq> [] \<and> cf_tmux_socket c \<noteq> []"
    unfolding load_config_def Let_def bind_setting_Inr
    by (elim exE conjE) (drule sum.inject(2) [THEN iffD1], hypsubst, simp add: or_text_def)
  from assms show "distinct (cf_cua_allowed_apps c) \<and> [] \<notin> set (cf_cua_allowed_apps c)"
    unfolding load_config_def Let_def bind_setting_Inr
    by (elim exE conjE) (drule sum.inject(2) [THEN iffD1], hypsubst, simp add: allowed_app_names_clean)
  show "cf_read_budget c = cf_tool_output_budget c" if "variable environ ''READ_TOKEN_BUDGET'' = None"
    using assms unfolding load_config_def Let_def bind_setting_Inr
    by (elim exE conjE) (drule sum.inject(2) [THEN iffD1], hypsubst, simp, erule tool_budget_inherits, rule that)
qed

text \<open>The settings read by a bare \<^verbatim>\<open>int\<close> are not checked: a timeout may be negative.\<close>

lemma unchecked_timeout: "env_int [(u ''CHATGPT_MCP_COMMAND_TIMEOUT'', u ''-5'')] ''COMMAND_TIMEOUT'' 120 = Inr (- 5)"
  by (simp add: env_int_def variable_def int_of_text_def strip_def rstrip_by_def is_space_def is_digit_def)

end
