(* ===== verification/Launchd.thy ===== *)
theory Launchd
  imports Config
begin

text \<open>
  The launchd services the installation writes (\<^verbatim>\<open>launchd_support.py\<close>): the server with its supervisor, the
  tunnel, and the watchdog, each with the part of the environment it may see. The entries every service has alike
  (\<^verbatim>\<open>RunAtLoad\<close>, \<^verbatim>\<open>ProcessType\<close>, \<^verbatim>\<open>ThrottleInterval\<close>) and the
  writing of the file are left out. Paths are their texts; a missing variable that a service cannot do without is the
  \<^verbatim>\<open>KeyError\<close> \<open>None\<close>.
\<close>

record launchd_config =
  lc_repo_root :: ustr
  lc_agents_dir :: ustr
  lc_logs_dir :: ustr
  lc_label_prefix :: ustr
  lc_python :: ustr
  lc_cloudflared :: ustr
  lc_cloudflared_config :: ustr
  lc_tunnel_name :: ustr
  lc_env :: environment

record launch_agent =
  la_label :: ustr
  la_directory :: ustr
  la_stdout :: ustr
  la_stderr :: ustr
  la_arguments :: "ustr list"
  la_environment :: environment
  la_keep_alive :: bool
  la_interval :: "int option"
  la_max_files :: "int option"

definition proxy_env_keys :: "ustr list" where
  "proxy_env_keys = [u ''HTTP_PROXY'', u ''HTTPS_PROXY'', u ''ALL_PROXY'', u ''NO_PROXY'']"

definition mcp_max_files :: int where
  "mcp_max_files = 4096"

definition watchdog_interval_seconds :: int where
  "watchdog_interval_seconds = 60"

definition child_of :: "ustr \<Rightarrow> string \<Rightarrow> ustr" where
  "child_of dir name = dir @ [47] @ u name"

definition service_label :: "string \<Rightarrow> ustr \<Rightarrow> ustr" where
  "service_label service label_prefix = label_prefix @ u ''.'' @ u service"

definition base_launch_agent ::
  "launchd_config \<Rightarrow> string \<Rightarrow> ustr list \<Rightarrow> environment \<Rightarrow> bool \<Rightarrow> int option \<Rightarrow> launch_agent" where
  "base_launch_agent c service arguments environment keep_alive interval =
     \<lparr>la_label = service_label service (lc_label_prefix c), la_directory = lc_repo_root c,
      la_stdout = child_of (lc_logs_dir c) (service @ ''.stdout.log''),
      la_stderr = child_of (lc_logs_dir c) (service @ ''.stderr.log''), la_arguments = arguments,
      la_environment = environment, la_keep_alive = keep_alive, la_interval = interval, la_max_files = None\<rparr>"

definition build_mcp_launch_agent :: "launchd_config \<Rightarrow> launch_agent option" where
  "build_mcp_launch_agent c =
     (case map_of (lc_env c) (u ''CHATGPT_MCP_STATE_DIR'') of None \<Rightarrow> None
      | Some state_dir \<Rightarrow>
          Some ((base_launch_agent c ''mcp''
            [lc_python c, u ''-m'', u ''chatgpt_web_oauth_mcp.supervisor'', u ''--pid-file'',
             child_of state_dir ''launchd-supervisor.pid'', u ''--log-file'', child_of (lc_logs_dir c) ''mcp-server.log'']
            (filter (\<lambda>(k, v). v \<noteq> [] \<and> k \<notin> set proxy_env_keys) (lc_env c)) True None)
            \<lparr>la_max_files := Some mcp_max_files\<rparr>))"

text \<open>The entries of the named variables that are set and not empty.\<close>

definition set_entries :: "(ustr \<times> ustr option) list \<Rightarrow> environment" where
  "set_entries kvs = concat (map (\<lambda>(k, v). case v of None \<Rightarrow> [] | Some s \<Rightarrow> if s = [] then [] else [(k, s)]) kvs)"

definition build_cloudflared_launch_agent :: "launchd_config \<Rightarrow> launch_agent option" where
  "build_cloudflared_launch_agent c =
     (case map_of (lc_env c) (u ''PATH'') of None \<Rightarrow> None
      | Some search_path \<Rightarrow>
          Some (base_launch_agent c ''cloudflared''
            ([lc_cloudflared c, u ''tunnel'', u ''--config'', lc_cloudflared_config c, u ''run''] @
             (if lc_tunnel_name c = [] then [] else [lc_tunnel_name c]))
            ((u ''PATH'', search_path) # set_entries (map (\<lambda>k. (k, map_of (lc_env c) k)) proxy_env_keys)) True None))"

definition watchdog_variables :: "ustr list" where
  "watchdog_variables =
     map (\<lambda>n. u ''CHATGPT_MCP_'' @ u n)
       [''DOCTOR_FAILURE_THRESHOLD'', ''DOCTOR_BASE_BACKOFF_SECONDS'', ''DOCTOR_MAX_BACKOFF_SECONDS'', ''PUBLIC_BASE_URL'',
        ''EXTERNAL_CLOUDFLARED'']"

definition watchdog_environment :: "launchd_config \<Rightarrow> ustr \<Rightarrow> environment" where
  "watchdog_environment c search_path =
     (let inherited = (\<lambda>k. (k, map_of (lc_env c) k)); named = (\<lambda>n. u ''CHATGPT_MCP_'' @ u n) in
      set_entries ([(u ''PATH'', Some search_path), inherited (named ''HOST''), inherited (named ''PORT''),
          inherited (named ''STATE_DIR''), (named ''LAUNCHD_LABEL_PREFIX'', Some (lc_label_prefix c)),
          (named ''LAUNCHD_DIR'', Some (lc_agents_dir c)), (named ''LAUNCHD_LOG_DIR'', Some (lc_logs_dir c))] @
        map inherited watchdog_variables))"

definition build_watchdog_launch_agent :: "launchd_config \<Rightarrow> int \<Rightarrow> launch_agent option" where
  "build_watchdog_launch_agent c interval =
     (case map_of (lc_env c) (u ''PATH'') of None \<Rightarrow> None
      | Some search_path \<Rightarrow>
          Some (base_launch_agent c ''watchdog''
            [u ''/bin/bash'', child_of (lc_repo_root c) ''scripts/launchd-doctor.sh'', u ''--fix'', u ''--quiet'']
            (watchdog_environment c search_path) False (Some interval)))"

section \<open>Who sees what of the environment\<close>

lemma set_entries_keys: "(k, v) \<in> set (set_entries kvs) \<longleftrightarrow> (k, Some v) \<in> set kvs \<and> v \<noteq> []"
  by (force simp: set_entries_def split: option.splits if_splits)

text \<open>The server is started without the proxies of the installing shell, and the tunnel with nothing else.\<close>

lemma proxies_reach_only_the_tunnel:
  "build_mcp_launch_agent c = Some a \<Longrightarrow> (k, v) \<in> set (la_environment a) \<Longrightarrow>
     k \<notin> set proxy_env_keys \<and> v \<noteq> [] \<and> (k, v) \<in> set (lc_env c)"
  "build_cloudflared_launch_agent c = Some t \<Longrightarrow> (k, v) \<in> set (la_environment t) \<Longrightarrow>
     (k = u ''PATH'' \<or> k \<in> set proxy_env_keys \<and> v \<noteq> []) \<and> map_of (lc_env c) k = Some v"
proof -
  assume "build_mcp_launch_agent c = Some a" "(k, v) \<in> set (la_environment a)"
  then show "k \<notin> set proxy_env_keys \<and> v \<noteq> [] \<and> (k, v) \<in> set (lc_env c)"
    by (auto simp: build_mcp_launch_agent_def base_launch_agent_def split: option.splits)
next
  assume "build_cloudflared_launch_agent c = Some t" "(k, v) \<in> set (la_environment t)"
  then obtain p where "map_of (lc_env c) (u ''PATH'') = Some p"
    "(k, v) \<in> set ((u ''PATH'', p) # set_entries (map (\<lambda>k. (k, map_of (lc_env c) k)) proxy_env_keys))"
    by (auto simp: build_cloudflared_launch_agent_def base_launch_agent_def split: option.splits)
  then show "(k = u ''PATH'' \<or> k \<in> set proxy_env_keys \<and> v \<noteq> []) \<and> map_of (lc_env c) k = Some v"
    by (auto simp: set_entries_keys)
qed

text \<open>The secrets of the server are not among the variables the watchdog is started with.\<close>

lemma watchdog_sees_no_secret:
  "(k, v) \<in> set (watchdog_environment c p) \<Longrightarrow>
     k \<noteq> u ''CHATGPT_MCP_AUTH_TOKEN'' \<and> k \<noteq> u ''CHATGPT_MCP_OAUTH_LOGIN_TOKEN''"
  by (auto simp: watchdog_environment_def watchdog_variables_def Let_def set_entries_keys)

end
