(* ===== verification/CoreTools.thy ===== *)
theory CoreTools
  imports EnvTools JobList Tmux
begin

text \<open>
  The session's default directory, the resolution of paths and the tools around them (\<^verbatim>\<open>session.py\<close>,
  \<^verbatim>\<open>pathing.py\<close>, \<^verbatim>\<open>tools_core.py\<close>). Home directories, symbolic links and the working directory
  of the process are arguments; an unknown user in a path is a \<^verbatim>\<open>RuntimeError\<close> no tool catches, \<open>None\<close> here.
\<close>

section \<open>Paths\<close>

record path_world =
  pw_home :: "ustr \<Rightarrow> path option"
  pw_resolve :: "path \<Rightarrow> path"
  pw_process_cwd :: path
  pw_exists :: "path \<Rightarrow> bool"
  pw_is_dir :: "path \<Rightarrow> bool"
  pw_root :: path

text \<open>\<^verbatim>\<open>Path(raw).expanduser()\<close>: whether the path is absolute, and its components.\<close>

definition expand_path :: "path_world \<Rightarrow> ustr \<Rightarrow> (bool \<times> path) option" where
  "expand_path w raw =
     (if startswith raw [47] then Some (True, path_parts raw)
      else case path_parts raw of
          p # ps \<Rightarrow>
            if startswith p [126] then map_option (\<lambda>home. (True, home @ ps)) (pw_home w p) else Some (False, p # ps)
        | [] \<Rightarrow> Some (False, []))"

definition resolve_from :: "path_world \<Rightarrow> path \<Rightarrow> ustr \<Rightarrow> path option" where
  "resolve_from w base raw =
     map_option (\<lambda>(absolute, parts). pw_resolve w (if absolute then parts else base @ parts)) (expand_path w raw)"

definition resolve_path :: "path_world \<Rightarrow> ustr \<Rightarrow> path option" where
  "resolve_path w raw = resolve_from w (pw_root w) raw"

text \<open>The state is the default directory of the session; \<^verbatim>\<open>if cwd\<close> is false of an empty text.\<close>

type_synonym session_cwd = "path option"

definition nonempty_text :: "ustr option \<Rightarrow> ustr option" where
  "nonempty_text x = (if x = Some [] then None else x)"

definition resolve_cwd :: "path_world \<Rightarrow> session_cwd \<Rightarrow> ustr option \<Rightarrow> path option" where
  "resolve_cwd w session cwd =
     (case nonempty_text cwd of
        Some raw \<Rightarrow> resolve_path w raw
      | None \<Rightarrow> (case session of Some p \<Rightarrow> Some p | None \<Rightarrow> Some (pw_root w)))"

section \<open>The default directory\<close>

definition cwd_reply :: "path_world \<Rightarrow> session_cwd \<Rightarrow> dict" where
  "cwd_reply w session =
     [(''success'', JBool True), (''session_cwd'', jopt (\<lambda>p. JStr (path_text p)) session),
      (''workspace_root'', JStr (path_text (pw_root w))), (''cleared'', JBool (session = None))]"

definition set_default_cwd :: "path_world \<Rightarrow> ustr option \<Rightarrow> session_cwd \<Rightarrow> dict option \<times> session_cwd" where
  "set_default_cwd w raw session =
     (case nonempty_text raw of
        None \<Rightarrow> (Some (cwd_reply w None), None)
      | Some r \<Rightarrow>
          (case resolve_path w r of
             None \<Rightarrow> (None, session)
           | Some target \<Rightarrow>
               if \<not> pw_exists w target
                 then (Some (tool_error ''cwd_not_found'' (u ''Path does not exist: '' @ path_text target)
                   [(''path'', JStr (path_text target))]), session)
               else if \<not> pw_is_dir w target
                 then (Some (tool_error ''cwd_not_directory'' (u ''Path is not a directory: '' @ path_text target)
                   [(''path'', JStr (path_text target))]), session)
               else (Some (cwd_reply w (Some target)), Some target)))"

definition get_default_cwd :: "path_world \<Rightarrow> session_cwd \<Rightarrow> dict" where
  "get_default_cwd w session =
     [(''success'', JBool True), (''session_cwd'', jopt (\<lambda>p. JStr (path_text p)) session),
      (''workspace_root'', JStr (path_text (pw_root w))),
      (''effective_cwd'', JStr (path_text (case session of Some p \<Rightarrow> p | None \<Rightarrow> pw_root w))),
      (''source'', jlit (if session = None then ''workspace_root'' else ''session''))]"

definition env_snapshot_tool :: "path_world \<Rightarrow> env_world \<Rightarrow> session_cwd \<Rightarrow> ustr option \<Rightarrow> bool \<Rightarrow> dict option" where
  "env_snapshot_tool w ew session cwd include_packages =
     map_option (\<lambda>p. env_snapshot ew p include_packages) (resolve_cwd w session cwd)"

section \<open>The state of the work\<close>

definition reply_ok :: "dict \<Rightarrow> bool" where
  "reply_ok d \<longleftrightarrow> map_of d ''success'' = Some (JBool True)"

definition reply_items :: "dict \<Rightarrow> string \<Rightarrow> json list" where
  "reply_items d k = (if reply_ok d then (case map_of d k of Some (JList xs) \<Rightarrow> xs | _ \<Rightarrow> []) else [])"

definition item_field :: "string \<Rightarrow> json \<Rightarrow> json" where
  "item_field k j = (case j of JObj d \<Rightarrow> get_or_null d k | _ \<Rightarrow> JNull)"

definition same_cwd :: "path_world \<Rightarrow> path \<Rightarrow> json \<Rightarrow> bool option" where
  "same_cwd w effective raw =
     (case raw of
        JStr s \<Rightarrow> if s = [] then Some False else map_option (\<lambda>p. p = effective) (resolve_from w (pw_process_cwd w) s)
      | _ \<Rightarrow> Some False)"

fun filter_here :: "(json \<Rightarrow> bool option) \<Rightarrow> json list \<Rightarrow> json list option" where
  "filter_here P [] = Some []"
| "filter_here P (x # xs) =
     (case P x of None \<Rightarrow> None | Some b \<Rightarrow> map_option (\<lambda>ys. if b then x # ys else ys) (filter_here P xs))"

datatype work_state = ActiveProcess | InteractiveSession | ActivityUnknown | NextActionRequired

definition work_state_of :: "json list \<Rightarrow> json list \<Rightarrow> bool \<Rightarrow> bool \<Rightarrow> work_state" where
  "work_state_of jobs sessions jobs_ok tmux_ok =
     (if jobs \<noteq> [] then ActiveProcess
      else if sessions \<noteq> [] then InteractiveSession
      else if \<not> jobs_ok \<or> \<not> tmux_ok then ActivityUnknown
      else NextActionRequired)"

fun work_state_fields :: "work_state \<Rightarrow> dict" where
  "work_state_fields ActiveProcess =
     [(''state'', jlit ''ACTIVE_PROCESS''), (''waiting_justified'', JBool True),
      (''required_action'', jlit ''POLL_OR_INSPECT_ACTIVE_PROCESS'')]"
| "work_state_fields InteractiveSession =
     [(''state'', jlit ''INTERACTIVE_SESSION_REQUIRES_INSPECTION''), (''waiting_justified'', JBool False),
      (''required_action'', jlit ''INSPECT_TMUX_STATUS_AND_CAPTURE'')]"
| "work_state_fields ActivityUnknown =
     [(''state'', jlit ''ACTIVITY_UNKNOWN''), (''waiting_justified'', JBool False),
      (''required_action'', jlit ''RESOLVE_ACTIVITY_UNCERTAINTY'')]"
| "work_state_fields NextActionRequired =
     [(''state'', jlit ''NEXT_ACTION_REQUIRED''), (''waiting_justified'', JBool False),
      (''required_action'', jlit ''INVOKE_NEXT_TOOL_OR_RETURN_CHECKPOINT'')]"

definition state_contract :: string where
  "state_contract =
     ''Do not stop in reasoning after a tool result. Waiting requires evidence of active work. '' @
     ''When state is NEXT_ACTION_REQUIRED, continue with a concrete tool call or return a '' @
     ''checkpoint/final/blocker response in the current turn.''"

definition state_reply :: "path \<Rightarrow> string \<Rightarrow> json list \<Rightarrow> json list \<Rightarrow> dict \<Rightarrow> dict \<Rightarrow> dict" where
  "state_reply effective source running sessions jobs tmux =
     (''success'', JBool (reply_ok jobs \<and> reply_ok tmux)) #
     work_state_fields (work_state_of running sessions (reply_ok jobs) (reply_ok tmux)) @
     [(''scope_cwd'', JStr (path_text effective)), (''scope_source'', jlit source),
      (''running_jobs'', JList running), (''running_job_count'', jnat (length running)),
      (''tmux_sessions'', JList sessions), (''tmux_session_count'', jnat (length sessions)),
      (''global_running_job_count'', jnat (length (reply_items jobs ''jobs''))),
      (''global_tmux_session_count'', jnat (length (reply_items tmux ''sessions''))),
      (''observation_errors'', JObj
        [(''jobs'', if reply_ok jobs then JNull else get_or_null jobs ''error''),
         (''tmux'', if reply_ok tmux then JNull else get_or_null tmux ''error'')]),
      (''contract'', jlit state_contract)]"

definition scope_source :: "session_cwd \<Rightarrow> ustr option \<Rightarrow> string" where
  "scope_source session cwd =
     (if nonempty_text cwd \<noteq> None then ''explicit'' else if session \<noteq> None then ''session'' else ''workspace_root'')"

text \<open>The work of one directory, from the replies of the two listings.\<close>

definition observed_state :: "path_world \<Rightarrow> session_cwd \<Rightarrow> ustr option \<Rightarrow> dict \<Rightarrow> dict \<Rightarrow> dict option" where
  "observed_state w session cwd jobs tmux =
     Option.bind (map_option (pw_resolve w) (resolve_cwd w session cwd)) (\<lambda>effective.
     Option.bind (filter_here (\<lambda>j. same_cwd w effective (item_field ''cwd'' j)) (reply_items jobs ''jobs'')) (\<lambda>running.
     Option.bind (filter_here (\<lambda>j. same_cwd w effective (item_field ''current_path'' (item_field ''primary_pane'' j)))
       (reply_items tmux ''sessions'')) (\<lambda>sessions.
     Some (state_reply effective (scope_source session cwd) running sessions jobs tmux))))"

definition execution_state ::
  "path_world \<Rightarrow> session_cwd \<Rightarrow> ustr option \<Rightarrow> (ustr \<Rightarrow> nat) \<Rightarrow> (ustr \<Rightarrow> int option) \<Rightarrow> ustr \<Rightarrow> response_budget
   \<Rightarrow> registry_state \<Rightarrow> tmux_world \<Rightarrow> tmux_call list \<Rightarrow> dict option" where
  "execution_state w session cwd tok parse_float dir b registry tw h =
     (case fst (list_sessions tw False h) of
        Inl e \<Rightarrow> None
      | Inr tmux \<Rightarrow>
          observed_state w session cwd (list_jobs tok parse_float dir b ''running'' (JInt 0) (JInt 20) registry) tmux)"

section \<open>The default directory over a session\<close>

text \<open>
  After any calls of the tool, the directory of a command that names none is the target of the last call that was
  accepted, or the workspace root when none was or the last one cleared it; the target existed as a directory.
\<close>

definition accepted_target :: "path_world \<Rightarrow> ustr option \<Rightarrow> path option option" where
  "accepted_target w raw =
     (case nonempty_text raw of
        None \<Rightarrow> Some None
      | Some r \<Rightarrow> (case resolve_path w r of None \<Rightarrow> None
          | Some t \<Rightarrow> if pw_exists w t \<and> pw_is_dir w t then Some (Some t) else None))"

lemma set_default_cwd_step:
  "snd (set_default_cwd w raw session) = (case accepted_target w raw of None \<Rightarrow> session | Some t \<Rightarrow> t)"
  by (simp add: set_default_cwd_def accepted_target_def split: option.split)

lemma default_cwd_is_the_last_accepted:
  "resolve_cwd w (fold (\<lambda>raw s. snd (set_default_cwd w raw s)) calls None) None =
     (case List.map_filter (accepted_target w) calls of
        [] \<Rightarrow> Some (pw_root w)
      | ts \<Rightarrow> (case last ts of None \<Rightarrow> Some (pw_root w) | Some p \<Rightarrow> Some p))"
proof -
  have "fold (\<lambda>raw s. snd (set_default_cwd w raw s)) calls s =
      (if List.map_filter (accepted_target w) calls = [] then s else last (List.map_filter (accepted_target w) calls))" for s
    by (induction calls arbitrary: s) (simp_all add: List.map_filter_simps set_default_cwd_step split: option.split)
  then show ?thesis
    by (simp add: resolve_cwd_def nonempty_text_def split: list.split)
qed

section \<open>What the state says\<close>

lemma filter_here_filter:
  "filter_here P xs = Some ys \<Longrightarrow> ys = filter (\<lambda>x. P x = Some True) xs"
  by (induction xs arbitrary: ys) (auto split: option.splits if_splits)

text \<open>
  A job of the directory on the page that was listed makes the state an active process; the state that asks for the
  next action is reached only when both listings succeeded and none of their items is of the directory.
\<close>

lemma next_action_means_nothing_seen:
  assumes "observed_state w session cwd jobs tmux = Some d"
    and "map_of d ''state'' = Some (jlit ''NEXT_ACTION_REQUIRED'')"
    and "map_option (pw_resolve w) (resolve_cwd w session cwd) = Some effective"
  shows "reply_ok jobs \<and> reply_ok tmux" and "map_of d ''waiting_justified'' = Some (JBool False)"
    and "j \<in> set (reply_items jobs ''jobs'') \<Longrightarrow> same_cwd w effective (item_field ''cwd'' j) \<noteq> Some True"
proof -
  obtain running sessions where r: "filter_here (\<lambda>j. same_cwd w effective (item_field ''cwd'' j)) (reply_items jobs ''jobs'') = Some running"
    and d: "d = state_reply effective (scope_source session cwd) running sessions jobs tmux"
    using assms(1,3) by (auto simp: observed_state_def split: bind_splits)
  have *: "work_state_of running sessions (reply_ok jobs) (reply_ok tmux) = NextActionRequired"
    using assms(2) unfolding d
    by (cases "work_state_of running sessions (reply_ok jobs) (reply_ok tmux)") (simp_all add: state_reply_def)
  then have "running = []" "reply_ok jobs \<and> reply_ok tmux" by (auto simp: work_state_of_def split: if_splits)
  then show "reply_ok jobs \<and> reply_ok tmux"
    and "j \<in> set (reply_items jobs ''jobs'') \<Longrightarrow> same_cwd w effective (item_field ''cwd'' j) \<noteq> Some True"
    using filter_here_filter [OF r] by (auto simp: filter_empty_conv)
  show "map_of d ''waiting_justified'' = Some (JBool False)" using * by (simp add: d state_reply_def)
qed

text \<open>The page is not followed: with more than one page of jobs the next action is asked for whatever the others are.\<close>

lemma later_pages_are_not_looked_at:
  "map_option (\<lambda>d. map_of d ''state'') (observed_state
     \<lparr>pw_home = \<lambda>n. None, pw_resolve = \<lambda>p. p, pw_process_cwd = [], pw_exists = \<lambda>p. True, pw_is_dir = \<lambda>p. True, pw_root = [u ''a'']\<rparr>
     None None
     [(''success'', JBool True), (''jobs'', JList [JObj [(''cwd'', jlit ''/b'')]]), (''next_offset'', JInt 1)]
     [(''success'', JBool True), (''sessions'', JList [])]) = Some (Some (jlit ''NEXT_ACTION_REQUIRED''))"
  by (simp add: observed_state_def resolve_cwd_def nonempty_text_def reply_items_def reply_ok_def item_field_def get_or_null_def
      same_cwd_def resolve_from_def expand_path_def startswith_def path_parts_def state_reply_def work_state_of_def)

end
