(* ===== verification/Spec2Isabelle.thy ===== *)
theory Spec2Isabelle
  imports OauthClaims HttpAuth PatchProps ReplaceProps JobOutput RunBatch RuntimeClaims JobStart JobClaims
    FileProps BudgetProps SearchProps GitProps ReaderProps AppServerWaits CodeMapProps SupervisorProps TmuxProps RuntimeToolProps
    SearchToolProps EnvToolProps Launchd CoreTools
begin

text \<open>
  A model of \<^verbatim>\<open>chatgpt-web-oauth-mcp\<close>, an MCP server that gives a remote client the files, patches, searches,
  shell jobs and coding sessions of one machine behind an OAuth authorization server. All source files are
  named below \<^verbatim>\<open>src/src/chatgpt_web_oauth_mcp/\<close>.

  \<^bold>\<open>Parts and how they interact.\<close> A request reaches the HTTP layer, which lets it through to the MCP endpoint only
  with a token the authorization server accepts. The tools behind the endpoint work on the file system
  (listing, reading, searching, patching, replacing), run commands and jobs, or call a Codex App Server
  through the runtime manager. Every tool measures its reply against a token budget and pages its results.

  \<^bold>\<open>Theories.\<close>
  \<^item> \<open>Prelude\<close>: code-point strings (\<open>ustr\<close>), Python's string methods, dictionaries as association lists, greedy
    pages and bisection. \<open>Json\<close>: the values the tools return and \<^verbatim>\<open>json.dumps\<close>. \<open>Utf8\<close>: strict and replacing UTF-8,
    digests as text. \<open>Paging\<close>: clients that follow an offset, with the locale of what a paging tool promises.
    \<open>Glob\<close>: \<^verbatim>\<open>fnmatch\<close>. \<open>Fs\<close>: the file tree the tools see, with the errors of the system calls.
  \<^item> \<open>Budget\<close>, \<open>BudgetProps\<close>: \<^verbatim>\<open>response_budget.py\<close>; a measurement, the metadata, the shape of every reply.
  \<^item> \<open>Url\<close>, \<open>Oauth\<close>, \<open>OauthProps\<close>, \<open>OauthClaims\<close>: \<^verbatim>\<open>oauth.py\<close>. The store of clients, codes and tokens is a record of
    association lists, one definition per method of \<^verbatim>\<open>OAuthManager\<close>; the invariant of the store is kept by all.
  \<^item> \<open>HttpAuth\<close>: \<^verbatim>\<open>http_compat.py\<close>; bearer authentication, the dispatcher and the OAuth endpoints.
  \<^item> \<open>PatchParse\<close>, \<open>PatchApply\<close>, \<open>PatchProps\<close>: \<^verbatim>\<open>patching.py\<close>; parser, planning, application, and a printer with a round trip.
  \<^item> \<open>ContentIo\<close>, \<open>Replacing\<close>, \<open>ReplaceProps\<close>: \<^verbatim>\<open>content_io.py\<close>, \<^verbatim>\<open>replacing.py\<close>; encodings, batch replacement, commit and
    roll-back with the outcome of every write an argument.
  \<^item> \<open>FileList\<close>, \<open>FileRead\<close>, \<open>FileProps\<close>: \<^verbatim>\<open>files.py\<close>; the filtered walk, listing, reading by pages, writing.
  \<^item> \<open>SearchPage\<close>, \<open>SearchContent\<close>, \<open>SearchGrep\<close>: \<^verbatim>\<open>search.py\<close>; the page collector, the collector of matches with context, the
    command line of ripgrep and the loop over its events. \<open>SearchContext\<close> and \<open>SearchProps\<close> prove the collectors
    against the list of all matches with the lines around them.
  \<^item> \<open>Reader\<close>, \<open>ReaderProps\<close>: \<^verbatim>\<open>reader.py\<close>; text, hexadecimal pages, images and PDF pages.
  \<^item> \<open>GitCore\<close>, \<open>GitWorktree\<close>, \<open>GitDiff\<close>, \<open>GitProps\<close>: \<^verbatim>\<open>gitops.py\<close>; a state monad over the calls of git made so far,
    the readers of git's output, worktrees, diffs with their pages, commits.
  \<^item> \<open>StreamCapture\<close>, \<open>WaterFill\<close>, \<open>RunOutput\<close>, \<open>RunBatch\<close>: running commands in \<^verbatim>\<open>shell.py\<close>; bounded capture, sharing of the
    token budget, replies, batches.
  \<^item> \<open>JobProcess\<close>, \<open>JobRecord\<close>, \<open>JobLife\<close>, \<open>JobControl\<close>, \<open>JobStart\<close>, \<open>JobList\<close>, \<open>JobOutput\<close>, \<open>JobClaims\<close>: \<^verbatim>\<open>job_supervisor.py\<close> and the job
    registry of \<^verbatim>\<open>shell.py\<close>; process identities, the record on disk and its locked changes, the supervisor, start,
    status, kill, listing and paging of logs. \<open>JobLife\<close> is the step relation of one record.
  \<^item> \<open>RuntimeModels\<close>, \<open>Runtime\<close>, \<open>RuntimeOps\<close>, \<open>RuntimeCalls\<close>: \<^verbatim>\<open>codex_runtime/\<close>; bindings and their store, the sections of
    the manager under its lock, allocation and calls with other callers between the sections.
    \<open>RuntimeMachine\<close> is the step relation of the manager, \<open>RuntimeInv\<close> its invariant, \<open>RuntimeClaims\<close> the properties.
  \<^item> \<open>AppServer\<close>, \<open>AppServerReader\<close>, \<open>AppServerOps\<close>, \<open>AppServerProps\<close>, \<open>AppServerClaims\<close>, \<open>AppServerWaits\<close>:
    \<^verbatim>\<open>codex_runtime/app_server.py\<close>; the table of JSON-RPC requests and the end of a connection, the reader, its workers and
    the elicitations, the calls of the adapter. The threads are steps of one state; while a caller waits, a schedule
    that is an argument says which steps the others take.
  \<^item> \<open>RuntimeTools\<close>, \<open>RuntimeToolProps\<close>: \<^verbatim>\<open>tools_codex_runtime.py\<close>; who approves a question of the runtime, and the shrinking
    of replies and of the inventory of servers.
  \<^item> \<open>CodeMap\<close>, \<open>CodeMapProps\<close>: \<^verbatim>\<open>code_map.py\<close>; symbols, imports and references, with their pages.
  \<^item> \<open>SearchTool\<close>, \<open>SearchToolProps\<close>: the search tool of \<^verbatim>\<open>tools_files.py\<close>; one search and batches of searches.
  \<^item> \<open>Tmux\<close>, \<open>TmuxOps\<close>, \<open>TmuxProps\<close>: \<^verbatim>\<open>tmux_ops.py\<close>; a monad over the calls of tmux made so far, names, panes, and the
    tools that start, read, write and end sessions.
  \<^item> \<open>Supervisor\<close>, \<open>SupervisorProps\<close>: \<^verbatim>\<open>supervisor.py\<close>; the rolling replacement of the server process.
  \<^item> \<open>EnvTools\<close>, \<open>EnvToolProps\<close>: \<^verbatim>\<open>envtools.py\<close>; the snapshot of the environment and the comparison of two. \<open>Config\<close>:
    \<^verbatim>\<open>config.py\<close>, the settings. \<open>Launchd\<close>: \<^verbatim>\<open>launchd_support.py\<close>. \<open>CoreTools\<close>: \<^verbatim>\<open>session.py\<close>, \<^verbatim>\<open>pathing.py\<close> and
    \<^verbatim>\<open>tools_core.py\<close>, the default directory and the state of the work.

  \<^bold>\<open>How state and errors are modelled.\<close> A class is a record and a method a definition that returns the new record;
  what is stored on disk is a value of its own, so that a failed write is seen. An exception is the left side of a
  sum or a constructor of a result, and every early return of the code is a branch. Where the code lets other
  threads or processes in between two sections, their effect is an argument, and the invariants are proved for
  every such argument.

  \<^bold>\<open>Parameters.\<close> Code that is not in the repository is an argument: the tokenizer, SHA-256, the codec registry,
  the regular expression engine, \<^verbatim>\<open>mimetypes\<close>, \<^verbatim>\<open>difflib\<close>, \<^verbatim>\<open>json.loads\<close>, the host check of \<^verbatim>\<open>urlsplit\<close>, \<^verbatim>\<open>ast.parse\<close>,
  Pillow, \<^verbatim>\<open>pypdf\<close>, what \<^verbatim>\<open>git\<close>, \<^verbatim>\<open>tmux\<close> and the programs of the snapshot answer (given all calls before) and what \<^verbatim>\<open>rg\<close>
  prints, the answers of the App Server and of the client, products and comparisons of floats, clocks, random tokens and
  everything the operating system decides (processes, signals, the result of a write, the resolution of paths, the
  order in which threads run). No property assumes more of them than it states.

  \<^bold>\<open>What the lemmas show.\<close> Invariants: the OAuth store, the manager's limits, terminal job records. Safety: who
  reaches the endpoint, when a code or a token is accepted, which processes are signalled, what a failed batch
  leaves behind, what a busy runtime keeps, which tmux session gets the input, which call an answer or a question of the App Server
  belongs to, that a reload keeps a server. Equivalence and refinement: the walk with pruning is the filter of
  the whole tree, a content search answers with a page of all matches. Round trips: patches, encodings, bindings, pages
  of a file. Liveness and termination: following offsets of lists, logs and listings; the loops of the code.
  Bounds: budgets and their shares.

  \<^bold>\<open>Bounds and fuel.\<close> Loops over data recurse on it. Fuel is used where Python runs a loop whose length is known
  before: counting and replacing substrings (the length of the text), fitting a file into a batch (its number
  of lines; \<open>shrinking_ends\<close> shows that this is the loop of the code), the five rounds of the budget metadata, the
  polls of \<^verbatim>\<open>await_start\<close> (one per look at the record).

  \<^bold>\<open>Not modelled.\<close> The guidance texts, which are returned as they are; the registration of the tools with the MCP
  framework, plugins and the start of the HTTP server, which is glue around that framework; \<^verbatim>\<open>server_info\<close>, which
  assembles the settings; the middleware that logs requests; argument parsers; the signals to the process group of the
  App Server and the lock around its life; file locks, permission bits and the killing of process trees.
\<close>

end
